(* ===== verification/Prelude.thy ===== *)
theory Prelude
  imports Main "HOL-Library.Product_Lexorder" "HOL-Library.List_Lexorder" "HOL-Library.Char_ord"
begin

text \<open>
  What every component of the development shares.

  \<^item> Time. \<open>moment\<close> is a \<^verbatim>\<open>datetime\<close> in microseconds since the epoch, \<open>iso\<close> a text
    written by \<^verbatim>\<open>utc_now_iso\<close>, kept as whole seconds: those texts have a fixed width, so
    their text order is the order of the seconds.
  \<^item> Python values: JSON values, truthiness, \<^verbatim>\<open>str.strip\<close>, \<^verbatim>\<open>str.upper\<close>, slices, on ASCII text.
  \<^item> Effects. A store function is an operation \<open>'s \<Rightarrow> (exn + 'a) \<times> 's\<close>: it returns or raises,
    and the rows it wrote before a raise stay written, as on a \<^verbatim>\<open>sqlite3\<close> connection; \<open>transaction\<close>
    is the \<^verbatim>\<open>with connection(...)\<close> block of \<^verbatim>\<open>db.py\<close>, which rolls back.
  \<^item> Tables are lists of rows in rowid order, with \<open>update_where\<close> for UPDATE and \<open>find_row\<close> for
    a SELECT by key.
  \<^item> Reachability of a labelled transition system and the locale of its invariants, and the
    locale of a bounded retry policy.
\<close>

section \<open>Collections of rules\<close>

named_theorems op_simps \<open>execution of operations\<close>
named_theorems frames \<open>which components of the state an operation leaves alone\<close>
named_theorems keeps_intros \<open>an invariant through the constructors of operations\<close>

section \<open>Time\<close>

type_synonym iso = int
type_synonym moment = int

definition iso_of :: "moment \<Rightarrow> iso" where
  "iso_of m = m div 1000000"

definition of_iso :: "iso \<Rightarrow> moment" where
  "of_iso t = t * 1000000"

lemma of_iso_of_le: "of_iso (iso_of m) \<le> m"
  by (simp add: of_iso_def iso_of_def)

lemma iso_of_of_iso [simp]: "iso_of (of_iso t) = t"
  by (simp add: of_iso_def iso_of_def)

lemma of_iso_less_iff [simp]: "of_iso a < of_iso b \<longleftrightarrow> a < b"
  by (simp add: of_iso_def)

lemma of_iso_iso_of_add: "m < of_iso (iso_of m + 1)"
  unfolding of_iso_def iso_of_def by presburger

lemma iso_of_mono: "m \<le> m' \<Longrightarrow> iso_of m \<le> iso_of m'"
  by (simp add: iso_of_def zdiv_mono1)

section \<open>Exceptions\<close>

text \<open>The exception classes of \<^verbatim>\<open>errors.py\<close> that the modelled code raises, and the library's.
  Message texts are not modelled.\<close>

datatype exn =
    OrchestrationError
  | ConflictError
  | CrossProjectWriteError
  | LeaseError
  | IntegrityError
  | JSONDecodeError
  | AssertionError
  | ValueError
  | AttributeError
  | TypeError
  | KeyError
  | QAEvidenceImmutableError
  | AssuranceValidationError
  | ProjectOSError
  | RecursionError

text \<open>\<^verbatim>\<open>except OrchestrationError\<close> catches the subclasses too.\<close>

definition is_OrchestrationError :: "exn \<Rightarrow> bool" where
  "is_OrchestrationError e \<longleftrightarrow>
     e \<in> {OrchestrationError, ConflictError, CrossProjectWriteError, LeaseError, QAEvidenceImmutableError,
       AssuranceValidationError}"

text \<open>\<^verbatim>\<open>except ProjectOSError\<close>; \<open>ProjectOSError\<close> itself stands for its subclasses outside orchestration (registry, repository and
  path errors).\<close>

definition is_ProjectOSError :: "exn \<Rightarrow> bool" where
  "is_ProjectOSError e \<longleftrightarrow> is_OrchestrationError e \<or> e = ProjectOSError"

section \<open>Python text\<close>

definition py_space :: "char \<Rightarrow> bool" where
  "py_space c \<longleftrightarrow> of_char c \<in> {9, 10, 11, 12, 13, 28, 29, 30, 31, 32 :: nat}"

definition py_strip :: "string \<Rightarrow> string" where
  "py_strip s = rev (dropWhile py_space (rev (dropWhile py_space s)))"

definition upper_char :: "char \<Rightarrow> char" where
  "upper_char c = (if 97 \<le> (of_char c :: nat) \<and> (of_char c :: nat) \<le> 122
                   then char_of ((of_char c :: nat) - 32) else c)"

definition lower_char :: "char \<Rightarrow> char" where
  "lower_char c = (if 65 \<le> (of_char c :: nat) \<and> (of_char c :: nat) \<le> 90
                   then char_of ((of_char c :: nat) + 32) else c)"

definition py_upper :: "string \<Rightarrow> string" where
  "py_upper s = map upper_char s"

definition py_lower :: "string \<Rightarrow> string" where
  "py_lower s = map lower_char s"

fun is_prefix :: "string \<Rightarrow> string \<Rightarrow> bool" where
  "is_prefix [] ys = True"
| "is_prefix (x # xs) [] = False"
| "is_prefix (x # xs) (y # ys) = (x = y \<and> is_prefix xs ys)"

text \<open>\<^verbatim>\<open>needle in haystack\<close>.\<close>

fun py_in :: "string \<Rightarrow> string \<Rightarrow> bool" where
  "py_in n [] = (n = [])"
| "py_in n (c # cs) = (is_prefix n (c # cs) \<or> py_in n cs)"

text \<open>\<^verbatim>\<open>s.split()\<close>: the maximal runs of characters that are not white space.\<close>

function py_split :: "string \<Rightarrow> string list" where
  "py_split s = (let t = dropWhile py_space s in
     if t = [] then []
     else takeWhile (\<lambda>c. \<not> py_space c) t # py_split (dropWhile (\<lambda>c. \<not> py_space c) t))"
  by pat_completeness auto
termination
proof (relation "measure length", goal_cases)
  case (2 s t)
  then have "t \<noteq> []" "\<not> py_space (hd t)" "length t \<le> length s"
    using hd_dropWhile [of py_space s] length_dropWhile_le [of py_space s] by auto
  moreover have "length (dropWhile (\<lambda>c. \<not> py_space c) t) \<le> length (tl t)"
    using calculation(1,2) length_dropWhile_le [of "\<lambda>c. \<not> py_space c" "tl t"] by (cases t) auto
  ultimately show ?case by (cases t) auto
qed simp

declare py_split.simps [simp del]

text \<open>\<^verbatim>\<open>x or y\<close> on optional texts: \<^verbatim>\<open>None\<close> and the empty text are falsy.\<close>

definition truthy_str :: "string option \<Rightarrow> bool" where
  "truthy_str v \<longleftrightarrow> v \<noteq> None \<and> v \<noteq> Some []"

definition str_or :: "string option \<Rightarrow> string option \<Rightarrow> string option" where
  "str_or v w = (if truthy_str v then v else w)"

definition str_of :: "string option \<Rightarrow> string" where
  "str_of v = (case v of None \<Rightarrow> [] | Some s \<Rightarrow> s)"

lemma truthy_str_simps [simp]:
  "\<not> truthy_str None" "truthy_str (Some s) \<longleftrightarrow> s \<noteq> []"
  by (auto simp: truthy_str_def)

section \<open>JSON values\<close>

datatype json =
    JNull
  | JBool bool
  | JInt int
  | JStr string
  | JList "json list"
  | JObj "(string \<times> json) list"

type_synonym dict = "(string \<times> json) list"

text \<open>A text column that holds JSON: the text of a value, or a text that does not decode.\<close>

datatype jtext = JText json | JBad

definition json_loads :: "jtext \<Rightarrow> exn + json" where
  "json_loads t = (case t of JText v \<Rightarrow> Inr v | JBad \<Rightarrow> Inl JSONDecodeError)"

definition dict_get :: "dict \<Rightarrow> string \<Rightarrow> json" where
  "dict_get d k = (case map_of d k of None \<Rightarrow> JNull | Some v \<Rightarrow> v)"

fun truthy :: "json \<Rightarrow> bool" where
  "truthy JNull = False"
| "truthy (JBool b) = b"
| "truthy (JInt i) = (i \<noteq> 0)"
| "truthy (JStr s) = (s \<noteq> [])"
| "truthy (JList xs) = (xs \<noteq> [])"
| "truthy (JObj d) = (d \<noteq> [])"

text \<open>\<^verbatim>\<open>d[k] = v\<close>: the key keeps its place, a new key goes last.\<close>

fun dict_set :: "string \<Rightarrow> json \<Rightarrow> dict \<Rightarrow> dict" where
  "dict_set k v [] = [(k, v)]"
| "dict_set k v ((k', v') # d) = (if k = k' then (k, v) # d else (k', v') # dict_set k v d)"

definition dict_update :: "dict \<Rightarrow> dict \<Rightarrow> dict" where
  "dict_update d new = fold (\<lambda>(k, v). dict_set k v) new d"

lemma map_of_dict_set: "map_of (dict_set k v d) = (map_of d)(k \<mapsto> v)"
  by (induction k v d rule: dict_set.induct) auto

lemma dict_get_dict_set: "dict_get (dict_set k v d) k' = (if k' = k then v else dict_get d k')"
  by (simp add: dict_get_def map_of_dict_set)

subsection \<open>The length of a JSON text\<close>

text \<open>\<^verbatim>\<open>json.dumps\<close> with its default separators, on ASCII strings. Only its length and whether a
  prefix decodes matter to the store.\<close>

definition digit :: "nat \<Rightarrow> char" where
  "digit d = char_of (48 + d)"

fun show_nat :: "nat \<Rightarrow> string" where
  "show_nat n = (if n < 10 then [digit n] else show_nat (n div 10) @ [digit (n mod 10)])"

declare show_nat.simps [simp del]

definition show_int :: "int \<Rightarrow> string" where
  "show_int i = (if i < 0 then CHR ''-'' # show_nat (nat (- i)) else show_nat (nat i))"

definition hex_digit :: "nat \<Rightarrow> char" where
  "hex_digit d = (if d < 10 then digit d else char_of (87 + d))"

definition esc_char :: "char \<Rightarrow> string" where
  "esc_char c =
     (let n = (of_char c :: nat) in
      if n = 34 then [CHR 0x5C, CHR 0x22]
      else if n = 92 then [CHR 0x5C, CHR 0x5C]
      else if n = 10 then [CHR 0x5C, CHR ''n'']
      else if n = 13 then [CHR 0x5C, CHR ''r'']
      else if n = 9 then [CHR 0x5C, CHR ''t'']
      else if n = 8 then [CHR 0x5C, CHR ''b'']
      else if n = 12 then [CHR 0x5C, CHR ''f'']
      else if 32 \<le> n \<and> n \<le> 126 then [c]
      else [CHR 0x5C, CHR ''u'', CHR ''0'', CHR ''0'', hex_digit (n div 16), hex_digit (n mod 16)])"

definition quote_str :: "string \<Rightarrow> string" where
  "quote_str s = CHR 0x22 # concat (map esc_char s) @ [CHR 0x22]"

fun join_with :: "string \<Rightarrow> string list \<Rightarrow> string" where
  "join_with sep [] = []"
| "join_with sep [x] = x"
| "join_with sep (x # y # xs) = x @ sep @ join_with sep (y # xs)"

text \<open>\<^verbatim>\<open>sort_keys=True\<close>: the entries of every object in the order of their keys.\<close>

function json_dumps :: "json \<Rightarrow> string" where
  "json_dumps JNull = ''null''"
| "json_dumps (JBool b) = (if b then ''true'' else ''false'')"
| "json_dumps (JInt i) = show_int i"
| "json_dumps (JStr s) = quote_str s"
| "json_dumps (JList xs) = ''['' @ join_with '', '' (map json_dumps xs) @ '']''"
| "json_dumps (JObj d) =
     ''{'' @ join_with '', ''
        (map (\<lambda>(k, t). quote_str k @ '': '' @ t)
          (sort_key fst (map (\<lambda>(k, v). (k, json_dumps v)) d))) @ ''}''"
  by pat_completeness auto
termination
proof (relation "measure size", goal_cases)
  case (2 xs x)
  then show ?case by (induction xs) auto
next
  case (3 d x k v)
  then show ?case by (induction d) auto
qed simp

text \<open>\<^verbatim>\<open>repr(v)\<close>: a text is quoted by \<^verbatim>\<open>'\<close>, or by \<^verbatim>\<open>"\<close> where it has the first and not the second.\<close>

definition repr_char :: "char \<Rightarrow> char \<Rightarrow> string" where
  "repr_char q c =
     (let n = (of_char c :: nat) in
      if c = q \<or> n = 92 then [CHR 0x5C, c]
      else if n = 10 then [CHR 0x5C, CHR ''n'']
      else if n = 13 then [CHR 0x5C, CHR ''r'']
      else if n = 9 then [CHR 0x5C, CHR ''t'']
      else if n < 32 \<or> 127 \<le> n \<and> n \<le> 160 \<or> n = 173
      then [CHR 0x5C, CHR ''x'', hex_digit (n div 16), hex_digit (n mod 16)]
      else [c])"

definition repr_str :: "string \<Rightarrow> string" where
  "repr_str t =
     (let q = (if CHR 0x27 \<in> set t \<and> CHR 0x22 \<notin> set t then CHR 0x22 else CHR 0x27)
      in q # concat (map (repr_char q) t) @ [q])"

function py_repr :: "json \<Rightarrow> string" where
  "py_repr JNull = ''None''"
| "py_repr (JBool b) = (if b then ''True'' else ''False'')"
| "py_repr (JInt i) = show_int i"
| "py_repr (JStr s) = repr_str s"
| "py_repr (JList xs) = ''['' @ join_with '', '' (map py_repr xs) @ '']''"
| "py_repr (JObj d) = ''{'' @ join_with '', '' (map (\<lambda>(k, v). repr_str k @ '': '' @ py_repr v) d) @ ''}''"
  by pat_completeness auto
termination
proof (relation "measure size", goal_cases)
  case (2 xs x)
  then show ?case by (induction xs) auto
next
  case (3 d x k v)
  then show ?case by (induction d) auto
qed simp

text \<open>Storing \<^verbatim>\<open>json.dumps(v, sort_keys=True)[:n]\<close>: a proper prefix of an object's text lacks the
  closing brace and does not decode.\<close>

definition clipped_dumps :: "nat \<Rightarrow> dict \<Rightarrow> jtext" where
  "clipped_dumps n d =
     (if length (json_dumps (JObj d)) \<le> n then JText (JObj d) else JBad)"

section \<open>Operations on a state\<close>

type_synonym ('s, 'a) op = "'s \<Rightarrow> (exn + 'a) \<times> 's"

definition returnS :: "'a \<Rightarrow> ('s, 'a) op" where
  "returnS x = (\<lambda>s. (Inr x, s))"

definition raiseS :: "exn \<Rightarrow> ('s, 'a) op" where
  "raiseS e = (\<lambda>s. (Inl e, s))"

definition bindS :: "('s, 'a) op \<Rightarrow> ('a \<Rightarrow> ('s, 'b) op) \<Rightarrow> ('s, 'b) op" where
  "bindS m f = (\<lambda>s. case m s of (Inl e, s') \<Rightarrow> (Inl e, s') | (Inr x, s') \<Rightarrow> f x s')"

definition thenS :: "('s, 'a) op \<Rightarrow> ('s, 'b) op \<Rightarrow> ('s, 'b) op" where
  "thenS m n = bindS m (\<lambda>_. n)"

definition getS :: "('s \<Rightarrow> 'a) \<Rightarrow> ('s, 'a) op" where
  "getS f = (\<lambda>s. (Inr (f s), s))"

definition modifyS :: "('s \<Rightarrow> 's) \<Rightarrow> ('s, unit) op" where
  "modifyS f = (\<lambda>s. (Inr (), f s))"

text \<open>\<^verbatim>\<open>if not b: raise e\<close>.\<close>

definition guardS :: "bool \<Rightarrow> exn \<Rightarrow> ('s, unit) op" where
  "guardS b e = (if b then returnS () else raiseS e)"

text \<open>A function that only computes: its value, or its exception.\<close>

definition liftS :: "exn + 'a \<Rightarrow> ('s, 'a) op" where
  "liftS r = (\<lambda>s. (r, s))"

text \<open>\<^verbatim>\<open>try: m / except ...: h\<close>; the handler runs on the state the raise left.\<close>

definition tryS :: "('s, 'a) op \<Rightarrow> (exn \<Rightarrow> ('s, 'a) op) \<Rightarrow> ('s, 'a) op" where
  "tryS m h = (\<lambda>s. case m s of (Inl e, s') \<Rightarrow> h e s' | (Inr x, s') \<Rightarrow> (Inr x, s'))"

text \<open>\<^verbatim>\<open>try: m / finally: f\<close>; a raise of the last block takes over.\<close>

definition finallyS :: "('s, 'a) op \<Rightarrow> ('s, unit) op \<Rightarrow> ('s, 'a) op" where
  "finallyS m f = (\<lambda>s. case m s of (r, s') \<Rightarrow>
     (case f s' of (Inl e, s'') \<Rightarrow> (Inl e, s'') | (Inr _, s'') \<Rightarrow> (r, s'')))"

text \<open>\<^verbatim>\<open>for x in xs: ...\<close>, collecting the results.\<close>

fun mapS :: "('x \<Rightarrow> ('s, 'a) op) \<Rightarrow> 'x list \<Rightarrow> ('s, 'a list) op" where
  "mapS f [] = returnS []"
| "mapS f (x # xs) = bindS (f x) (\<lambda>y. bindS (mapS f xs) (\<lambda>ys. returnS (y # ys)))"

text \<open>\<^verbatim>\<open>with connection(path) as conn: m\<close> (\<^verbatim>\<open>db.py\<close>): commit, or roll back and raise again.\<close>

definition transaction :: "('s, 'a) op \<Rightarrow> ('s, 'a) op" where
  "transaction m = (\<lambda>s. case m s of (Inl e, _) \<Rightarrow> (Inl e, s) | (Inr x, s') \<Rightarrow> (Inr x, s'))"

lemma returnS_apply [op_simps]: "returnS x s = (Inr x, s)"
  by (simp add: returnS_def)

lemma raiseS_apply [op_simps]: "raiseS e s = (Inl e, s)"
  by (simp add: raiseS_def)

lemma getS_apply [op_simps]: "getS f s = (Inr (f s), s)"
  by (simp add: getS_def)

lemma modifyS_apply [op_simps]: "modifyS f s = (Inr (), f s)"
  by (simp add: modifyS_def)

lemma guardS_apply [op_simps]: "guardS b e s = (if b then (Inr (), s) else (Inl e, s))"
  by (simp add: guardS_def op_simps)

lemma bindS_Inr [op_simps]: "m s = (Inr x, s') \<Longrightarrow> bindS m f s = f x s'"
  by (simp add: bindS_def)

lemma bindS_Inl [op_simps]: "m s = (Inl e, s') \<Longrightarrow> bindS m f s = (Inl e, s')"
  by (simp add: bindS_def)

lemma bindS_getS [op_simps]: "bindS (getS g) f s = f (g s) s"
  by (simp add: bindS_def getS_def)

lemma bindS_modifyS [op_simps]: "bindS (modifyS g) f s = f () (g s)"
  by (simp add: bindS_def modifyS_def)

lemma bindS_returnS [op_simps]: "bindS (returnS x) f s = f x s"
  by (simp add: bindS_def returnS_def)

lemma bindS_raiseS [op_simps]: "bindS (raiseS e) f s = (Inl e, s)"
  by (simp add: bindS_def raiseS_def)

lemma bindS_guardS [op_simps]: "bindS (guardS b e) f s = (if b then f () s else (Inl e, s))"
  by (simp add: bindS_def guardS_apply)

lemma liftS_apply [op_simps]: "liftS r s = (r, s)"
  by (simp add: liftS_def)

lemma bindS_liftS [op_simps]:
  "bindS (liftS r) f s = (case r of Inl e \<Rightarrow> (Inl e, s) | Inr x \<Rightarrow> f x s)"
  by (simp add: bindS_def liftS_def split: sum.split)

lemma thenS_apply [op_simps]: "thenS m n s = bindS m (\<lambda>_. n) s"
  by (simp add: thenS_def)

lemma bindS_assoc: "bindS (bindS m f) g = bindS m (\<lambda>x. bindS (f x) g)"
  by (rule ext) (simp add: bindS_def split: prod.splits sum.splits)

lemma bindS_eq_Inr_iff:
  "bindS m f s = (Inr y, t) \<longleftrightarrow> (\<exists>x s'. m s = (Inr x, s') \<and> f x s' = (Inr y, t))"
  by (auto simp: bindS_def split: prod.splits sum.splits)

lemma snd_bindS_returnS: "snd (bindS m (\<lambda>x. returnS (f x)) s) = snd (m s)"
  by (simp add: bindS_def returnS_def split: prod.split sum.split)

lemma transaction_Inl: "transaction m s = (Inl e, t) \<Longrightarrow> t = s"
  by (auto simp: transaction_def split: prod.splits sum.splits)

lemma transaction_Inr: "transaction m s = (Inr x, t) \<longleftrightarrow> m s = (Inr x, t)"
  by (auto simp: transaction_def split: prod.splits sum.splits)

subsection \<open>What an operation leaves alone\<close>

text \<open>\<open>untouched g m\<close>: the operation \<open>m\<close> does not change the component \<open>g\<close>, whether it returns or
  raises.\<close>

definition untouched :: "('s \<Rightarrow> 'c) \<Rightarrow> ('s, 'a) op \<Rightarrow> bool" where
  "untouched g m \<longleftrightarrow> (\<forall>s. g (snd (m s)) = g s)"

text \<open>\<open>keeps P m\<close>: the operation \<open>m\<close> preserves \<open>P\<close>, whether it returns or raises.\<close>

definition keeps :: "('s \<Rightarrow> bool) \<Rightarrow> ('s, 'a) op \<Rightarrow> bool" where
  "keeps P m \<longleftrightarrow> (\<forall>s. P s \<longrightarrow> P (snd (m s)))"

lemma untouchedD: "untouched g m \<Longrightarrow> g (snd (m s)) = g s"
  by (simp add: untouched_def)

lemma untouched_eq: "untouched g m \<Longrightarrow> m s = (r, t) \<Longrightarrow> g t = g s"
  by (metis untouchedD snd_conv)

lemma keepsI: "(\<And>s. P s \<Longrightarrow> P (snd (m s))) \<Longrightarrow> keeps P m"
  by (simp add: keeps_def)

lemma keepsD: "keeps P m \<Longrightarrow> P s \<Longrightarrow> P (snd (m s))"
  by (simp add: keeps_def)

lemma keeps_eq: "keeps P m \<Longrightarrow> P s \<Longrightarrow> m s = (r, t) \<Longrightarrow> P t"
  by (metis keepsD snd_conv)

lemma untouched_returnS [frames]: "untouched g (returnS x)"
  by (simp add: untouched_def returnS_def)

lemma untouched_raiseS [frames]: "untouched g (raiseS e)"
  by (simp add: untouched_def raiseS_def)

lemma untouched_getS [frames]: "untouched g (getS f)"
  by (simp add: untouched_def getS_def)

lemma untouched_guardS [frames]: "untouched g (guardS b e)"
  by (simp add: untouched_def guardS_apply)

lemma untouched_liftS [frames]: "untouched g (liftS r)"
  by (simp add: untouched_def liftS_def)

lemma untouched_modifyS [frames]: "(\<And>s. g (f s) = g s) \<Longrightarrow> untouched g (modifyS f)"
  by (simp add: untouched_def modifyS_def)

lemma untouched_bindS [frames]:
  "untouched g m \<Longrightarrow> (\<And>x. untouched g (f x)) \<Longrightarrow> untouched g (bindS m f)"
  by (auto simp: untouched_def bindS_def split: prod.splits sum.splits)
     (metis snd_conv)+

lemma untouched_thenS [frames]:
  "untouched g m \<Longrightarrow> untouched g n \<Longrightarrow> untouched g (thenS m n)"
  by (simp add: thenS_def untouched_bindS)

lemma untouched_tryS [frames]:
  "untouched g m \<Longrightarrow> (\<And>e. untouched g (h e)) \<Longrightarrow> untouched g (tryS m h)"
  by (auto simp: untouched_def tryS_def split: prod.splits sum.splits)
     (metis snd_conv)+

lemma untouched_if [frames]:
  "(b \<Longrightarrow> untouched g m) \<Longrightarrow> (\<not> b \<Longrightarrow> untouched g n) \<Longrightarrow> untouched g (if b then m else n)"
  by simp

lemma untouched_case_option [frames]:
  "untouched g m \<Longrightarrow> (\<And>x. untouched g (f x)) \<Longrightarrow>
   untouched g (case v of None \<Rightarrow> m | Some x \<Rightarrow> f x)"
  by (cases v) auto

lemma untouched_case_list [frames]:
  "untouched g m \<Longrightarrow> (\<And>x xs. untouched g (f x xs)) \<Longrightarrow>
   untouched g (case v of [] \<Rightarrow> m | x # xs \<Rightarrow> f x xs)"
  by (cases v) auto

lemma untouched_mapS [frames]: "(\<And>x. untouched g (f x)) \<Longrightarrow> untouched g (mapS f xs)"
  by (induction xs) (auto intro!: frames)

lemma untouched_transaction [frames]: "untouched g m \<Longrightarrow> untouched g (transaction m)"
  by (auto simp: untouched_def transaction_def split: prod.splits sum.splits)
     (metis snd_conv)

lemma keeps_untouched:
  "untouched g m \<Longrightarrow> (\<And>s t. g s = g t \<Longrightarrow> P s \<Longrightarrow> P t) \<Longrightarrow> keeps P m"
  unfolding keeps_def untouched_def by metis

lemma keeps_bindS [keeps_intros]:
  "keeps P m \<Longrightarrow> (\<And>x. keeps P (f x)) \<Longrightarrow> keeps P (bindS m f)"
  unfolding keeps_def bindS_def by (fastforce split: prod.splits sum.splits)

lemma keeps_thenS [keeps_intros]: "keeps P m \<Longrightarrow> keeps P n \<Longrightarrow> keeps P (thenS m n)"
  by (simp add: thenS_def keeps_bindS)

lemma keeps_if [keeps_intros]:
  "(b \<Longrightarrow> keeps P m) \<Longrightarrow> (\<not> b \<Longrightarrow> keeps P n) \<Longrightarrow> keeps P (if b then m else n)"
  by simp

lemma keeps_case_option [keeps_intros]:
  "keeps P m \<Longrightarrow> (\<And>x. keeps P (f x)) \<Longrightarrow> keeps P (case v of None \<Rightarrow> m | Some x \<Rightarrow> f x)"
  by (cases v) auto

lemma keeps_Let [keeps_intros]: "(\<And>x. keeps P (f x)) \<Longrightarrow> keeps P (let x = v in f x)"
  by (simp add: Let_def)

lemma keeps_returnS: "keeps P (returnS x)"
  by (simp add: keeps_def returnS_def)

lemma keeps_mapS: "(\<And>x. x \<in> set xs \<Longrightarrow> keeps P (f x)) \<Longrightarrow> keeps P (mapS f xs)"
  by (induction xs) (auto intro!: keeps_bindS keeps_returnS)

lemma keeps_guarded: "(b \<Longrightarrow> keeps P n) \<Longrightarrow> keeps P (thenS (guardS b e) n)"
  by (auto simp: keeps_def op_simps)

lemma keeps_lifted: "(\<And>x. r = Inr x \<Longrightarrow> keeps P (f x)) \<Longrightarrow> keeps P (bindS (liftS r) f)"
  by (auto simp: keeps_def op_simps split: sum.split)

lemma keeps_reads: "untouched (\<lambda>s. s) m \<Longrightarrow> keeps P m"
  by (auto simp: keeps_def untouched_def)

lemma keeps_tryS: "keeps P m \<Longrightarrow> (\<And>e. keeps P (h e)) \<Longrightarrow> keeps P (tryS m h)"
  unfolding keeps_def tryS_def by (fastforce split: prod.splits sum.splits)

lemma keeps_transaction: "keeps P m \<Longrightarrow> keeps P (transaction m)"
  unfolding keeps_def transaction_def by (fastforce split: prod.splits sum.splits)

subsection \<open>Weakest preconditions\<close>

text \<open>\<open>wlp m Q s\<close>: if \<open>m\<close> returns from \<open>s\<close>, then with a result and a state that satisfy \<open>Q\<close>.\<close>

definition wlp :: "('s, 'a) op \<Rightarrow> ('a \<Rightarrow> 's \<Rightarrow> bool) \<Rightarrow> 's \<Rightarrow> bool" where
  "wlp m Q s \<longleftrightarrow> (\<forall>x t. m s = (Inr x, t) \<longrightarrow> Q x t)"

named_theorems wlp_simps

lemma wlp_bindS [wlp_simps]: "wlp (bindS m f) Q s \<longleftrightarrow> wlp m (\<lambda>x. wlp (f x) Q) s"
  by (auto simp: wlp_def bindS_eq_Inr_iff)

lemma wlp_thenS [wlp_simps]: "wlp (thenS m n) Q s \<longleftrightarrow> wlp m (\<lambda>_. wlp n Q) s"
  by (simp add: thenS_def wlp_bindS)

lemma wlp_returnS [wlp_simps]: "wlp (returnS x) Q s \<longleftrightarrow> Q x s"
  by (auto simp: wlp_def returnS_def)

lemma wlp_raiseS [wlp_simps]: "wlp (raiseS e) Q s"
  by (auto simp: wlp_def raiseS_def)

lemma wlp_liftS [wlp_simps]: "wlp (liftS r) Q s \<longleftrightarrow> (\<forall>x. r = Inr x \<longrightarrow> Q x s)"
  by (auto simp: wlp_def liftS_def)

lemma wlp_getS [wlp_simps]: "wlp (getS g) Q s \<longleftrightarrow> Q (g s) s"
  by (auto simp: wlp_def getS_def)

lemma wlp_modifyS [wlp_simps]: "wlp (modifyS h) Q s \<longleftrightarrow> Q () (h s)"
  by (auto simp: wlp_def modifyS_def)

lemma wlp_guardS [wlp_simps]: "wlp (guardS b e) Q s \<longleftrightarrow> (b \<longrightarrow> Q () s)"
  by (auto simp: wlp_def guardS_def returnS_def raiseS_def)

lemma wlp_mono: "wlp m P s \<Longrightarrow> (\<And>x t. P x t \<Longrightarrow> Q x t) \<Longrightarrow> wlp m Q s"
  by (auto simp: wlp_def)

lemma wlp_bindI: "wlp m P s \<Longrightarrow> (\<And>x t. P x t \<Longrightarrow> wlp (f x) Q t) \<Longrightarrow> wlp (bindS m f) Q s"
  by (auto simp: wlp_bindS elim: wlp_mono)

lemma wlp_thenI: "wlp m P s \<Longrightarrow> (\<And>x t. P x t \<Longrightarrow> wlp n Q t) \<Longrightarrow> wlp (thenS m n) Q s"
  by (auto simp: wlp_thenS elim: wlp_mono)

lemma wlp_conj: "wlp m P s \<Longrightarrow> wlp m Q s \<Longrightarrow> wlp m (\<lambda>x t. P x t \<and> Q x t) s"
  by (auto simp: wlp_def)

lemma wlp_frame: "untouched g m \<Longrightarrow> wlp m (\<lambda>x t. g t = g s) s"
  unfolding wlp_def untouched_def by (metis snd_conv)

lemma wlp_keeps: "keeps P m \<Longrightarrow> P s \<Longrightarrow> wlp m (\<lambda>x t. P t) s"
  by (auto simp: wlp_def intro: keeps_eq)

lemma wlp_apply: "wlp m Q s \<Longrightarrow> m s = (Inr x, t) \<Longrightarrow> Q x t"
  by (auto simp: wlp_def)

lemma transaction_keeps:
  assumes "P s" "\<And>x t. m s = (Inr x, t) \<Longrightarrow> P t"
  shows "P (snd (transaction m s))"
  using assms by (auto simp: transaction_def split: prod.split sum.split)

section \<open>Tables\<close>

text \<open>\<^verbatim>\<open>SELECT ... WHERE key = k\<close> and \<^verbatim>\<open>fetchone\<close>; \<^verbatim>\<open>UPDATE ... WHERE p\<close>, whose \<^verbatim>\<open>rowcount\<close> is the
  number of rows with \<open>p\<close>.\<close>

definition find_row :: "('r \<Rightarrow> bool) \<Rightarrow> 'r list \<Rightarrow> 'r option" where
  "find_row p rs = find p rs"

definition update_where :: "('r \<Rightarrow> bool) \<Rightarrow> ('r \<Rightarrow> 'r) \<Rightarrow> 'r list \<Rightarrow> 'r list" where
  "update_where p f rs = map (\<lambda>r. if p r then f r else r) rs"

definition row_count :: "('r \<Rightarrow> bool) \<Rightarrow> 'r list \<Rightarrow> nat" where
  "row_count p rs = length (filter p rs)"

lemma find_row_Nil [simp]: "find_row p [] = None"
  by (simp add: find_row_def)

lemma find_row_Cons [simp]: "find_row p (r # rs) = (if p r then Some r else find_row p rs)"
  by (simp add: find_row_def)

lemma find_row_append [simp]:
  "find_row p (rs @ ts) = (case find_row p rs of None \<Rightarrow> find_row p ts | Some r \<Rightarrow> Some r)"
  by (induction rs) auto

lemma find_row_None_iff: "find_row p rs = None \<longleftrightarrow> (\<forall>r \<in> set rs. \<not> p r)"
  by (induction rs) auto

lemma find_row_SomeD: "find_row p rs = Some r \<Longrightarrow> r \<in> set rs \<and> p r"
  by (induction rs) (auto split: if_splits)

lemma find_row_Some_key:
  "distinct (map key rs) \<Longrightarrow> find_row (\<lambda>r. key r = k) rs = Some r \<longleftrightarrow> r \<in> set rs \<and> key r = k"
  by (induction rs) (auto simp: image_iff)

lemma update_where_Nil [simp]: "update_where p f [] = []"
  by (simp add: update_where_def)

lemma update_where_Cons [simp]:
  "update_where p f (r # rs) = (if p r then f r else r) # update_where p f rs"
  by (simp add: update_where_def)

lemma set_update_where: "set (update_where p f rs) = (\<lambda>r. if p r then f r else r) ` set rs"
  by (simp add: update_where_def)

lemma ball_update_where [simp]:
  "(\<forall>r \<in> set (update_where p f rs). P r) \<longleftrightarrow> (\<forall>r \<in> set rs. P (if p r then f r else r))"
  by (induction rs) auto

lemma bex_update_where [simp]:
  "(\<exists>r \<in> set (update_where p f rs). P r) \<longleftrightarrow> (\<exists>r \<in> set rs. P (if p r then f r else r))"
  by (induction rs) auto

lemma map_update_where: "(\<And>r. key (f r) = key r) \<Longrightarrow> map key (update_where p f rs) = map key rs"
  by (simp add: update_where_def)

lemma length_update_where [simp]: "length (update_where p f rs) = length rs"
  by (simp add: update_where_def)

lemma update_where_none: "(\<And>r. r \<in> set rs \<Longrightarrow> \<not> p r) \<Longrightarrow> update_where p f rs = rs"
  by (simp add: update_where_def map_idI)

lemma update_where_twice:
  assumes "\<And>r. f (f r) = f r" "\<And>r. p (f r) = p r"
  shows "update_where p f (update_where q f rs) = update_where (\<lambda>r. q r \<or> p r) f rs"
  by (induction rs) (auto simp: assms)

lemma find_row_update_where:
  assumes "\<And>r. key (f r) = key r"
  shows "find_row (\<lambda>r. key r = k) (update_where p f rs) =
         map_option (\<lambda>r. if p r then f r else r) (find_row (\<lambda>r. key r = k) rs)"
  by (induction rs) (auto simp: assms)

text \<open>\<^verbatim>\<open>INSERT ... ON CONFLICT(key) DO UPDATE\<close>: the row with the key is updated, or \<open>new\<close> is added.\<close>

definition upsert_row :: "('r \<Rightarrow> bool) \<Rightarrow> ('r \<Rightarrow> 'r) \<Rightarrow> 'r \<Rightarrow> 'r list \<Rightarrow> 'r list" where
  "upsert_row p f new rs = (if find_row p rs = None then rs @ [new] else update_where p f rs)"

lemma find_row_update_same:
  assumes "\<And>r. p (f r) = p r"
  shows "find_row p (update_where p f rs) = map_option f (find_row p rs)"
  by (induction rs) (auto simp: assms)

lemma find_row_update_disjoint:
  assumes "\<And>r. p r \<Longrightarrow> \<not> q r \<and> \<not> q (f r)"
  shows "find_row q (update_where p f rs) = find_row q rs"
  by (induction rs) (auto simp: assms)

lemma find_row_upsert:
  assumes "\<And>r. p (f r) = p r" "p new"
  shows "find_row p (upsert_row p f new rs) =
     Some (case find_row p rs of None \<Rightarrow> new | Some r \<Rightarrow> f r)"
  using assms by (cases "find_row p rs") (simp_all add: upsert_row_def find_row_update_same)

lemma find_row_upsert_other:
  assumes "\<And>r. p r \<Longrightarrow> \<not> q r \<and> \<not> q (f r)" "\<not> q new"
  shows "find_row q (upsert_row p f new rs) = find_row q rs"
  using assms by (auto simp: upsert_row_def find_row_update_disjoint split: option.split)

lemma distinct_upsert_row:
  assumes "distinct (map key rs)" "key new = k" "\<And>r. key (f r) = k"
  shows "distinct (map key (upsert_row (\<lambda>r. key r = k) f new rs))"
proof (cases "find_row (\<lambda>r. key r = k) rs")
  case None
  then show ?thesis using assms by (auto simp: upsert_row_def find_row_None_iff)
next
  case (Some r)
  have "map key (update_where (\<lambda>r. key r = k) f rs) = map key rs"
    using assms(3) by (simp add: update_where_def)
  with Some show ?thesis using assms(1) by (simp add: upsert_row_def)
qed

lemma find_row_update_const:
  "\<lbrakk>p c; find_row p rs \<noteq> None\<rbrakk> \<Longrightarrow> find_row p (update_where p (\<lambda>_. c) rs) = Some c"
  by (induction rs) auto

lemma find_row_filter: "find_row p (filter q rs) = find_row (\<lambda>r. q r \<and> p r) rs"
  by (induction rs) auto

lemma map_filter_update_where:
  assumes "\<And>r. p (g r) = p r" "\<And>r. f (g r) = f r"
  shows "map f (filter p (update_where q g rs)) = map f (filter p rs)"
  by (induction rs) (auto simp: assms)

lemma row_count_eq_0_iff: "row_count p rs = 0 \<longleftrightarrow> (\<forall>r \<in> set rs. \<not> p r)"
  by (auto simp: row_count_def filter_empty_conv)

lemma row_count_key:
  "distinct (map key rs) \<Longrightarrow>
   row_count (\<lambda>r. key r = k \<and> q r) rs = (case find_row (\<lambda>r. key r = k) rs of
      None \<Rightarrow> 0 | Some r \<Rightarrow> if q r then 1 else 0)"
proof (induction rs)
  case Nil
  then show ?case by (simp add: row_count_def)
next
  case (Cons r rs)
  have "row_count (\<lambda>r. key r = k \<and> q r) rs = 0" if "key r = k"
    using that Cons.prems by (auto simp: row_count_eq_0_iff image_iff)
  with Cons show ?case by (auto simp: row_count_def)
qed

section \<open>Transition systems\<close>

inductive reach :: "('s \<Rightarrow> bool) \<Rightarrow> ('s \<Rightarrow> 's \<Rightarrow> bool) \<Rightarrow> 's \<Rightarrow> bool"
  for start :: "'s \<Rightarrow> bool" and step :: "'s \<Rightarrow> 's \<Rightarrow> bool" where
  reach_start: "start s \<Longrightarrow> reach start step s"
| reach_step: "reach start step s \<Longrightarrow> step s t \<Longrightarrow> reach start step t"

text \<open>The contract between a component and the machine that runs its operations: the invariant
  holds at the start, and every step keeps it.\<close>

locale invariant_machine =
  fixes start :: "'s \<Rightarrow> bool"
    and step :: "'s \<Rightarrow> 's \<Rightarrow> bool"
    and inv :: "'s \<Rightarrow> bool"
  assumes inv_start: "start s \<Longrightarrow> inv s"
    and inv_step: "inv s \<Longrightarrow> step s t \<Longrightarrow> inv t"
begin

lemma reach_inv: "reach start step s \<Longrightarrow> inv s"
  by (induction rule: reach.induct) (auto intro: inv_start inv_step)

lemma run_inv: "step\<^sup>*\<^sup>* s t \<Longrightarrow> inv s \<Longrightarrow> inv t"
  by (induction rule: rtranclp_induct) (auto intro: inv_step)

end

section \<open>Bounded retries\<close>

text \<open>The retry policy of the rows of the outbox: a failure counts one attempt up, leaves
  the limit alone, and is final exactly when the count reaches the limit.\<close>

locale bounded_retry =
  fixes attempts :: "'r \<Rightarrow> int"
    and limit :: "'r \<Rightarrow> int"
    and fail :: "'r \<Rightarrow> 'r"
    and final :: "'r \<Rightarrow> bool"
  assumes attempts_fail: "attempts (fail r) = attempts r + 1"
    and limit_fail: "limit (fail r) = limit r"
    and final_fail: "final (fail r) \<longleftrightarrow> limit r \<le> attempts r + 1"
begin

lemma attempts_fail_iter: "attempts ((fail ^^ n) r) = attempts r + int n"
  by (induction n) (auto simp: attempts_fail)

lemma limit_fail_iter: "limit ((fail ^^ n) r) = limit r"
  by (induction n) (auto simp: limit_fail)

lemma final_after_failures:
  "final ((fail ^^ Suc n) r) \<longleftrightarrow> limit r \<le> attempts r + int (Suc n)"
  by (simp add: final_fail attempts_fail_iter limit_fail_iter algebra_simps)

text \<open>The number of failures a row survives is exactly what its budget leaves.\<close>

lemma exhausts_after_budget:
  assumes "attempts r < limit r"
  shows "final ((fail ^^ nat (limit r - attempts r)) r)"
    and "0 < n \<Longrightarrow> n < nat (limit r - attempts r) \<Longrightarrow> \<not> final ((fail ^^ n) r)"
proof -
  obtain k where k: "nat (limit r - attempts r) = Suc k"
    using assms by (metis not0_implies_Suc zero_less_nat_eq diff_gt_0_iff_gt less_numeral_extra(3))
  show "final ((fail ^^ nat (limit r - attempts r)) r)"
    unfolding k final_after_failures using k by linarith
  show "\<not> final ((fail ^^ n) r)" if n: "0 < n" "n < nat (limit r - attempts r)"
  proof -
    obtain m where "n = Suc m" using n(1) by (cases n) auto
    with n(2) show ?thesis using final_after_failures [of m r] by auto
  qed
qed

end

end
