(* ===== verification/Schema.thy ===== *)
theory Schema
  imports Prelude
begin

text \<open>
  The state of ProjectOS: the rows of the SQLite tables of \<^verbatim>\<open>migrations/\<close> as records, and the
  database as a record of tables. A nullable column is an option, a JSON column a \<open>jtext\<close>, a
  timestamp an \<open>iso\<close>. \<open>clk\<close> is the clock that \<^verbatim>\<open>utc_now()\<close> reads and \<open>uuids\<close> the source of
  \<^verbatim>\<open>uuid4().hex\<close>, of which no property is assumed here. \<open>root_key\<close> stands for \<^verbatim>\<open>_root_key\<close> of
  \<^verbatim>\<open>store.py\<close>, which asks the file system to resolve a path and folds its case. The \<open>_seq\<close> fields are SQLite's
  AUTOINCREMENT counters.
\<close>

section \<open>Orchestration jobs and worker leases (\<^verbatim>\<open>store.py\<close>)\<close>

datatype job_status =
  QUEUED | READY | LEASED | RUNNING | SUCCEEDED | FAILED | BLOCKED | RETRY_WAIT | CANCELLED

record job =
  j_id :: int
  j_human_id :: string
  j_project_human_id :: string
  j_repository_root :: string
  j_iteration_human_id :: "string option"
  j_work_item_type :: "string option"
  j_work_item_human_id :: "string option"
  j_agent_role :: string
  j_queue :: string
  j_status :: job_status
  j_priority :: int
  j_attempt :: int
  j_max_attempts :: int
  j_worktree_name :: "string option"
  j_worktree_path :: "string option"
  j_base_git_sha :: "string option"
  j_candidate_git_sha :: "string option"
  j_requires_worktree :: bool
  j_identity_snapshot_json :: "jtext option"
  j_output_ref :: "string option"
  j_last_error :: "string option"
  j_created_at :: iso
  j_ready_at :: "iso option"
  j_started_at :: "iso option"
  j_completed_at :: "iso option"
  j_updated_at :: iso
  j_source_delivery_job_id :: "int option"
  j_source_candidate_sha :: "string option"
  j_sponsor_authority :: "string option"
  j_outcome :: "string option"
  j_superseded_by_job_id :: "int option"
  j_assignment_json :: "jtext option"
  j_allows_no_change :: bool
  j_run_id :: "string option"
  j_retry_at :: "iso option"

record worker_lease =
  l_id :: int
  l_job_id :: int
  l_worker_id :: string
  l_leased_at :: iso
  l_expires_at :: iso
  l_released_at :: "iso option"
  l_release_reason :: "string option"

record run_event =
  e_id :: int
  e_job_id :: int
  e_event_type :: string
  e_status :: "string option"
  e_message :: "string option"
  e_payload_json :: "jtext option"

record control =
  c_project_human_id :: string
  c_paused :: bool
  c_paused_reason :: "string option"
  c_updated_at :: iso

section \<open>Execution runs, remediation work, next actions\<close>

record exec_run =
  r_run_id :: string
  r_project_id :: string
  r_handoff_id :: "string option"
  r_request_type :: string
  r_objective :: string
  r_status :: string
  r_current_phase :: "string option"
  r_current_agent :: "string option"
  r_progress :: int
  r_result_summary :: "string option"
  r_evidence_json :: "jtext option"
  r_started_at :: "iso option"
  r_completed_at :: "iso option"
  r_created_at :: iso

record remediation_work =
  w_work_item_id :: string
  w_run_id :: string
  w_project_id :: string
  w_remediation_cycle :: int
  w_work_sequence :: int
  w_finding_ids :: "string list"
  w_assigned_agent :: string
  w_finding_owner :: "string option"
  w_execution_queue :: "string option"
  w_objective :: string
  w_acceptance_criteria :: string
  w_status :: string
  w_source_candidate_id :: "string option"
  w_target_candidate_id :: "string option"
  w_orchestration_job_id :: "int option"
  w_result_json :: "jtext option"
  w_created_at :: iso
  w_completed_at :: "iso option"

datatype action_status = Pending | Claimed | Completed | Cancelled

record next_action =
  a_action_id :: string
  a_run_id :: string
  a_project_id :: string
  a_action_type :: string
  a_status :: action_status
  a_orchestration_job_id :: "int option"
  a_remediation_work_id :: "string option"
  a_due_at :: "iso option"
  a_payload_json :: "jtext option"
  a_created_at :: iso
  a_updated_at :: iso

section \<open>Evidence tables\<close>

record qa_evidence =
  q_id :: int
  q_project_human_id :: string
  q_repository_root :: string
  q_delivery_job_id :: int
  q_assurance_job_id :: int
  q_candidate_git_sha :: string
  q_assurance_role :: string
  q_result :: string
  q_defect_human_id :: "string option"
  q_evidence_ref :: "string option"
  q_run_id :: "string option"
  q_remediation_cycle :: int
  q_created_at :: iso

record invalidation =
  i_id :: int
  i_delivery_job_id :: int
  i_invalidated_candidate_sha :: "string option"
  i_reason :: string
  i_rework_job_id :: "int option"

record integration_run =
  g_id :: int
  g_project_human_id :: string
  g_repository_root :: string
  g_iteration_human_id :: "string option"
  g_source_job_ids :: "int list"
  g_source_shas :: "string list"
  g_status :: string
  g_updated_at :: iso

section \<open>The outbox\<close>

datatype outbox_status = OPending | OClaimed | OBlocked | ODelivered | ODead | OUnroutable

record outbox_row =
  o_id :: int
  o_event_id :: string
  o_subscriber :: string
  o_idempotency_key :: string
  o_payload :: jtext
  o_status :: outbox_status
  o_attempts :: int
  o_last_error :: "string option"
  o_created_at :: iso
  o_delivered_at :: "iso option"
  o_claimed_by :: "string option"
  o_claim_expires_at :: "iso option"
  o_blocked_by_outbox_id :: "int option"

section \<open>Governance decisions\<close>

record governance_decision =
  gd_id :: int
  gd_decision_human_id :: string
  gd_project_human_id :: string
  gd_action :: string
  gd_target_kind :: string
  gd_target_human_id :: "string option"
  gd_reason :: string
  gd_impact :: string
  gd_requested_by :: string
  gd_status :: string
  gd_decided_by :: "string option"
  gd_decision_reason :: "string option"
  gd_execution_result :: "string option"
  gd_created_at :: iso
  gd_updated_at :: iso
  gd_decided_at :: "iso option"

record decision_event =
  ge_project_human_id :: string
  ge_decision_human_id :: string
  ge_event_type :: string
  ge_actor :: "string option"
  ge_reason :: "string option"
  ge_created_at :: iso

section \<open>Delivery releases, their gates and artifacts\<close>

record delivery_release =
  dr_release_record_id :: string
  dr_project_human_id :: string
  dr_release_human_id :: string
  dr_version :: string
  dr_candidate_git_sha :: string
  dr_lifecycle_status :: string
  dr_build_executor :: "string option"
  dr_build_id :: "string option"
  dr_publication_status :: string
  dr_github_release_url :: "string option"
  dr_github_tag :: "string option"
  dr_manifest_sha256 :: "string option"
  dr_slack_announced :: int
  dr_proposal_id :: "string option"
  dr_sponsor_user_id :: "string option"
  dr_last_error :: "string option"
  dr_created_at :: iso
  dr_updated_at :: iso

record gate_row =
  gs_release_record_id :: string
  gs_gate_name :: string
  gs_status :: string
  gs_detail :: "string option"
  gs_evidence_json :: "jtext option"
  gs_updated_at :: iso

record delivery_artifact =
  ar_artifact_id :: string
  ar_release_record_id :: string
  ar_project_human_id :: string
  ar_artifact_name :: string
  ar_artifact_type :: string
  ar_platform :: string
  ar_architecture :: string
  ar_version :: string
  ar_source_git_sha :: string
  ar_build_id :: "string option"
  ar_build_timestamp :: "string option"
  ar_local_build_path :: string
  ar_published_url :: "string option"
  ar_sha256 :: string
  ar_size_bytes :: int
  ar_signature_status :: string
  ar_signature_identity :: "string option"
  ar_sbom_url :: "string option"
  ar_provenance_status :: string
  ar_publication_status :: string
  ar_created_at :: iso
  ar_updated_at :: iso

section \<open>Sponsor handoffs and domain events\<close>

record sponsor_handoff =
  h_handoff_id :: string
  h_project_id :: string
  h_team_id :: string
  h_channel_id :: string
  h_thread_ts :: string
  h_run_id :: "string option"
  h_desired_outputs_json :: "jtext option"

record projectos_event =
  pe_event_id :: string
  pe_event_version :: int
  pe_occurred_at :: iso
  pe_project_id :: string
  pe_handoff_id :: "string option"
  pe_run_id :: "string option"
  pe_iteration_id :: "string option"
  pe_job_id :: "string option"
  pe_work_item_id :: "string option"
  pe_release_id :: "string option"
  pe_release_record_id :: "string option"
  pe_artifact_id :: "string option"
  pe_actor_type :: string
  pe_actor_id :: string
  pe_actor_role :: string
  pe_event_type :: string
  pe_phase :: "string option"
  pe_status :: "string option"
  pe_severity :: string
  pe_progress :: "int option"
  pe_summary :: string
  pe_detail :: "string option"
  pe_evidence_json :: "jtext option"
  pe_metadata_json :: "jtext option"
  pe_visibility :: string
  pe_detail_level :: string
  pe_correlation_id :: "string option"
  pe_causation_id :: "string option"

section \<open>Agent runs, memory and schedules (\<^verbatim>\<open>store.py\<close>, \<^verbatim>\<open>schedule.py\<close>)\<close>

record agent_run =
  ag_id :: int
  ag_job_id :: int
  ag_worker_id :: string
  ag_cursor_command_json :: jtext
  ag_prompt_ref :: "string option"
  ag_output_ref :: "string option"
  ag_stdout_ref :: "string option"
  ag_stderr_ref :: "string option"
  ag_exit_code :: "int option"
  ag_started_at :: "iso option"
  ag_ended_at :: "iso option"
  ag_duration_ms :: "int option"
  ag_worktree_name :: "string option"
  ag_worktree_path :: "string option"
  ag_base_git_sha :: "string option"
  ag_candidate_git_sha :: "string option"
  ag_dirty :: "bool option"
  ag_usage_json :: "jtext option"
  ag_error :: "string option"

text \<open>\<^verbatim>\<open>confidence\<close> is a REAL column; its values are kept in millionths (\<^verbatim>\<open>0.05\<close> is 50000).\<close>

record agent_memory =
  am_id :: int
  am_memory_human_id :: string
  am_project_human_id :: string
  am_agent_role :: string
  am_memory_kind :: string
  am_memory_key :: string
  am_title :: string
  am_evidence_ref :: "string option"
  am_source_job_human_id :: "string option"
  am_confidence :: int
  am_occurrence_count :: int
  am_last_validated_at :: "iso option"
  am_status :: string
  am_promotion_mode :: string
  am_rejection_code :: "string option"
  am_rejection_reason :: "string option"
  am_superseded_by_memory_human_id :: "string option"
  am_created_at :: iso
  am_updated_at :: iso

record memory_event =
  ae_id :: int
  ae_project_human_id :: string
  ae_memory_human_id :: string
  ae_event_type :: string
  ae_job_human_id :: "string option"
  ae_actor :: "string option"
  ae_rejection_code :: "string option"
  ae_rejection_reason :: "string option"
  ae_created_at :: iso

record memory_injection =
  ai_id :: int
  ai_project_human_id :: string
  ai_memory_human_id :: string
  ai_job_human_id :: string
  ai_agent_run_id :: "int option"
  ai_created_at :: iso

record project_schedule =
  ps_project_human_id :: string
  ps_enabled :: bool
  ps_timezone :: string
  ps_cadence :: string
  ps_local_time :: string
  ps_approved_budget_tokens :: "int option"
  ps_updated_at :: iso

record schedule_trigger =
  st_project_human_id :: string
  st_window_key :: string
  st_triggered_at :: iso
  st_iteration_run_id :: "int option"

record iteration_run =
  ir_id :: int
  ir_project_human_id :: string
  ir_iteration_human_id :: string
  ir_status :: string
  ir_notes :: "string option"

section \<open>The database\<close>

record db =
  clk :: moment
  uuids :: "nat \<Rightarrow> string"
  uuid_next :: nat
  root_key :: "string \<Rightarrow> string"
  jobs :: "job list"
  job_seq :: int
  leases :: "worker_lease list"
  lease_seq :: int
  deps :: "(int \<times> int) list"
  run_events :: "run_event list"
  run_event_seq :: int
  controls :: "control list"
  handoffs :: "sponsor_handoff list"
  runs :: "exec_run list"
  works :: "remediation_work list"
  actions :: "next_action list"
  evidence :: "qa_evidence list"
  evidence_seq :: int
  invalidations :: "invalidation list"
  invalidation_seq :: int
  integrations :: "integration_run list"
  integration_seq :: int
  op_locks :: "(string \<times> string \<times> iso) list"
  idempotency :: "((string \<times> string) \<times> string \<times> int \<times> jtext) list"
  outbox :: "outbox_row list"
  outbox_seq :: int
  decisions :: "governance_decision list"
  decision_seq :: int
  decision_events :: "decision_event list"
  releases :: "delivery_release list"
  gate_rows :: "gate_row list"
  artifacts :: "delivery_artifact list"
  events :: "projectos_event list"
  agent_runs :: "agent_run list"
  agent_run_seq :: int
  memories :: "agent_memory list"
  memory_seq :: int
  memory_events :: "memory_event list"
  memory_event_seq :: int
  injections :: "memory_injection list"
  injection_seq :: int
  schedules :: "project_schedule list"
  triggers :: "schedule_trigger list"
  iteration_runs :: "iteration_run list"
  iteration_run_seq :: int
  last_due_eval_at :: "iso option"

type_synonym 'a dbop = "(db, 'a) op"

text \<open>A freshly migrated database at clock \<open>t\<close>.\<close>

definition empty_db :: "moment \<Rightarrow> (nat \<Rightarrow> string) \<Rightarrow> (string \<Rightarrow> string) \<Rightarrow> db" where
  "empty_db t us rk =
     \<lparr>clk = t, uuids = us, uuid_next = 0, root_key = rk, jobs = [], job_seq = 0, leases = [], lease_seq = 0,
      deps = [], run_events = [], run_event_seq = 0, controls = [], handoffs = [], runs = [], works = [],
      actions = [], evidence = [], evidence_seq = 0, invalidations = [], invalidation_seq = 0,
      integrations = [], integration_seq = 0, op_locks = [], idempotency = [], outbox = [],
      outbox_seq = 0, decisions = [], decision_seq = 0, decision_events = [], releases = [],
      gate_rows = [], artifacts = [], events = [], agent_runs = [], agent_run_seq = 0, memories = [], memory_seq = 0,
      memory_events = [], memory_event_seq = 0, injections = [], injection_seq = 0, schedules = [], triggers = [],
      iteration_runs = [], iteration_run_seq = 0, last_due_eval_at = None\<rparr>"

text \<open>\<^verbatim>\<open>utc_now_iso()\<close>, and a fresh \<^verbatim>\<open>uuid4().hex\<close>.\<close>

definition now_iso :: "db \<Rightarrow> iso" where
  "now_iso s = iso_of (clk s)"

definition new_uuid :: "string dbop" where
  "new_uuid = (\<lambda>s. (Inr (uuids s (uuid_next s)), s\<lparr>uuid_next := Suc (uuid_next s)\<rparr>))"

end
