(* ===== verification/Job_Store.thy ===== *)
theory Job_Store
  imports Schema
begin

text \<open>
  The job table of \<^verbatim>\<open>store.py\<close>: looking jobs up, creating them under the project isolation rules,
  the run event log, dependencies, the selection of eligible READY jobs and the pause switch of a
  project that stops it. The lemmas give the
  isolation invariant (one repository per project, one project per repository), referential
  integrity of the dependency edges, and a closed form of the eligible list.
\<close>

section \<open>Statuses\<close>

definition JOB_STATUSES :: "(string \<times> job_status) list" where
  "JOB_STATUSES =
     [(''QUEUED'', QUEUED), (''READY'', READY), (''LEASED'', LEASED), (''RUNNING'', RUNNING),
      (''SUCCEEDED'', SUCCEEDED), (''FAILED'', FAILED), (''BLOCKED'', BLOCKED),
      (''RETRY_WAIT'', RETRY_WAIT), (''CANCELLED'', CANCELLED)]"

fun job_status_text :: "job_status \<Rightarrow> string" where
  "job_status_text QUEUED = ''QUEUED''"
| "job_status_text READY = ''READY''"
| "job_status_text LEASED = ''LEASED''"
| "job_status_text RUNNING = ''RUNNING''"
| "job_status_text SUCCEEDED = ''SUCCEEDED''"
| "job_status_text FAILED = ''FAILED''"
| "job_status_text BLOCKED = ''BLOCKED''"
| "job_status_text RETRY_WAIT = ''RETRY_WAIT''"
| "job_status_text CANCELLED = ''CANCELLED''"

definition ACTIVE_WORKTREE_STATUSES :: "job_status list" where
  "ACTIVE_WORKTREE_STATUSES = [LEASED, RUNNING]"

definition TERMINAL_STATUSES :: "job_status list" where
  "TERMINAL_STATUSES = [SUCCEEDED, FAILED, BLOCKED, CANCELLED]"

section \<open>Looking jobs up\<close>

definition job_by_id :: "int \<Rightarrow> db \<Rightarrow> job option" where
  "job_by_id i s = find_row (\<lambda>j. j_id j = i) (jobs s)"

definition get_job :: "int \<Rightarrow> job dbop" where
  "get_job i = bindS (getS (job_by_id i)) (\<lambda>row.
     case row of None \<Rightarrow> raiseS OrchestrationError | Some j \<Rightarrow> returnS j)"

definition get_job_by_human_id :: "string \<Rightarrow> db \<Rightarrow> job option" where
  "get_job_by_human_id h s = find_row (\<lambda>j. j_human_id j = h) (jobs s)"

definition job_project_human_id :: "int \<Rightarrow> string dbop" where
  "job_project_human_id i = bindS (getS (job_by_id i)) (\<lambda>row.
     case row of None \<Rightarrow> raiseS OrchestrationError | Some j \<Rightarrow> returnS (j_project_human_id j))"

definition require_same_project :: "int list \<Rightarrow> string dbop" where
  "require_same_project ids =
     (if ids = [] then raiseS OrchestrationError
      else bindS (mapS job_project_human_id ids) (\<lambda>pids.
        case remdups pids of [p] \<Rightarrow> returnS p | _ \<Rightarrow> raiseS CrossProjectWriteError))"

definition list_jobs_by_statuses :: "job_status list \<Rightarrow> db \<Rightarrow> job list" where
  "list_jobs_by_statuses sts s =
     (if sts = [] then [] else sort_key j_id (filter (\<lambda>j. j_status j \<in> set sts) (jobs s)))"

definition list_jobs_for_run :: "string \<Rightarrow> job_status list option \<Rightarrow> db \<Rightarrow> job list" where
  "list_jobs_for_run rid sts s =
     sort_key j_id (filter (\<lambda>j. j_run_id j = Some rid \<and>
       (case sts of None \<Rightarrow> True | Some [] \<Rightarrow> True | Some xs \<Rightarrow> j_status j \<in> set xs)) (jobs s))"

definition list_jobs_for_project :: "string \<Rightarrow> job_status list option \<Rightarrow> db \<Rightarrow> job list" where
  "list_jobs_for_project pid sts s =
     sort_key j_id (filter (\<lambda>j. j_project_human_id j = pid \<and>
       (case sts of None \<Rightarrow> True | Some [] \<Rightarrow> True | Some xs \<Rightarrow> j_status j \<in> set xs)) (jobs s))"

section \<open>Creating jobs\<close>

text \<open>The keyword arguments of \<^verbatim>\<open>create_job\<close> and their defaults.\<close>

record job_args =
  n_human_id :: string
  n_project_human_id :: string
  n_repository_root :: string
  n_agent_role :: string
  n_queue :: string
  n_status :: string
  n_priority :: int
  n_attempt :: int
  n_max_attempts :: int
  n_iteration_human_id :: "string option"
  n_work_item_type :: "string option"
  n_work_item_human_id :: "string option"
  n_worktree_name :: "string option"
  n_worktree_path :: "string option"
  n_base_git_sha :: "string option"
  n_requires_worktree :: bool
  n_identity_snapshot :: "dict option"
  n_assignment :: "dict option"
  n_allows_no_change :: bool
  n_run_id :: "string option"
  n_retry_at :: "iso option"

definition job_args_of :: "string \<Rightarrow> string \<Rightarrow> string \<Rightarrow> string \<Rightarrow> string \<Rightarrow> job_args" where
  "job_args_of human_id pid root role q =
     \<lparr>n_human_id = human_id, n_project_human_id = pid, n_repository_root = root,
      n_agent_role = role, n_queue = q, n_status = ''READY'', n_priority = 100, n_attempt = 0,
      n_max_attempts = 3, n_iteration_human_id = None, n_work_item_type = None,
      n_work_item_human_id = None, n_worktree_name = None, n_worktree_path = None,
      n_base_git_sha = None, n_requires_worktree = False, n_identity_snapshot = None,
      n_assignment = None, n_allows_no_change = False, n_run_id = None, n_retry_at = None\<rparr>"

text \<open>\<^verbatim>\<open>str(v)\<close> of a JSON value.\<close>

fun py_str :: "json \<Rightarrow> string" where
  "py_str (JStr s) = s"
| "py_str (JInt i) = show_int i"
| "py_str (JBool b) = (if b then ''True'' else ''False'')"
| "py_str JNull = ''None''"
| "py_str v = py_repr v"

definition snapshot_clash :: "job_args \<Rightarrow> db \<Rightarrow> bool" where
  "snapshot_clash a s =
     (case n_identity_snapshot a of
        None \<Rightarrow> False
      | Some snap \<Rightarrow>
          (let pid = dict_get snap ''project_human_id''; root = dict_get snap ''repository_root''
           in (truthy pid \<and> py_str pid \<noteq> n_project_human_id a) \<or>
              (truthy root \<and> root_key s (py_str root) \<noteq> root_key s (n_repository_root a))))"

definition assert_create_job_isolation :: "job_args \<Rightarrow> unit dbop" where
  "assert_create_job_isolation a =
     bindS (getS (\<lambda>s. s)) (\<lambda>s.
       if snapshot_clash a s then raiseS CrossProjectWriteError
       else if (case find_row (\<lambda>j. j_project_human_id j = n_project_human_id a) (jobs s) of
                  None \<Rightarrow> False
                | Some j \<Rightarrow> root_key s (j_repository_root j) \<noteq> root_key s (n_repository_root a))
       then raiseS CrossProjectWriteError
       else guardS (\<forall>j \<in> set (jobs s). j_project_human_id j \<noteq> n_project_human_id a \<longrightarrow>
                      root_key s (j_repository_root j) \<noteq> root_key s (n_repository_root a))
              CrossProjectWriteError)"

text \<open>The row of the INSERT; columns it does not name are NULL.\<close>

definition new_job_row :: "job_args \<Rightarrow> job_status \<Rightarrow> int \<Rightarrow> iso \<Rightarrow> job" where
  "new_job_row a st i now =
     \<lparr>j_id = i, j_human_id = n_human_id a, j_project_human_id = n_project_human_id a,
      j_repository_root = n_repository_root a, j_iteration_human_id = n_iteration_human_id a,
      j_work_item_type = n_work_item_type a, j_work_item_human_id = n_work_item_human_id a,
      j_agent_role = n_agent_role a, j_queue = n_queue a, j_status = st,
      j_priority = n_priority a, j_attempt = n_attempt a, j_max_attempts = n_max_attempts a,
      j_worktree_name = n_worktree_name a, j_worktree_path = n_worktree_path a,
      j_base_git_sha = n_base_git_sha a, j_candidate_git_sha = None,
      j_requires_worktree = n_requires_worktree a,
      j_identity_snapshot_json =
        (case n_identity_snapshot a of
           None \<Rightarrow> None | Some d \<Rightarrow> if d = [] then None else Some (JText (JObj d))),
      j_output_ref = None, j_last_error = None, j_created_at = now,
      j_ready_at = (if st = READY then Some now else None), j_started_at = None,
      j_completed_at = None, j_updated_at = now, j_source_delivery_job_id = None,
      j_source_candidate_sha = None, j_sponsor_authority = None, j_outcome = None,
      j_superseded_by_job_id = None,
      j_assignment_json = map_option (\<lambda>d. JText (JObj d)) (n_assignment a),
      j_allows_no_change = n_allows_no_change a, j_run_id = n_run_id a,
      j_retry_at = n_retry_at a\<rparr>"

definition create_job :: "job_args \<Rightarrow> job dbop" where
  "create_job a =
     (case map_of JOB_STATUSES (n_status a) of
        None \<Rightarrow> raiseS OrchestrationError
      | Some st \<Rightarrow>
          thenS (assert_create_job_isolation a)
          (bindS (getS (\<lambda>s. s)) (\<lambda>s.
             if n_human_id a \<in> j_human_id ` set (jobs s) then raiseS IntegrityError
             else
               let i = job_seq s + 1; row = new_job_row a st i (now_iso s)
               in thenS (modifyS (\<lambda>s. s\<lparr>jobs := jobs s @ [row], job_seq := i\<rparr>)) (get_job i))))"

section \<open>The event log of a job\<close>

definition append_run_event ::
    "int \<Rightarrow> string \<Rightarrow> string option \<Rightarrow> string option \<Rightarrow> dict option \<Rightarrow> unit dbop" where
  "append_run_event i event_type status message payload =
     bindS (job_project_human_id i) (\<lambda>pid.
       if (case payload of
             None \<Rightarrow> False
           | Some d \<Rightarrow> truthy (dict_get d ''project_human_id'') \<and>
                       py_str (dict_get d ''project_human_id'') \<noteq> pid)
       then raiseS CrossProjectWriteError
       else modifyS (\<lambda>s. s\<lparr>run_events := run_events s @
              [\<lparr>e_id = run_event_seq s + 1, e_job_id = i, e_event_type = event_type,
                e_status = status, e_message = message,
                e_payload_json = map_option (\<lambda>d. JText (JObj d)) payload\<rparr>],
              run_event_seq := run_event_seq s + 1\<rparr>))"

section \<open>Dependencies\<close>

definition add_job_dependency :: "int \<Rightarrow> int \<Rightarrow> unit dbop" where
  "add_job_dependency i d =
     (if i = d then raiseS OrchestrationError
      else thenS (require_same_project [i, d])
        (bindS (getS deps) (\<lambda>es.
           if (i, d) \<in> set es then raiseS IntegrityError
           else modifyS (\<lambda>s. s\<lparr>deps := deps s @ [(i, d)]\<rparr>))))"

definition list_job_dependencies :: "int \<Rightarrow> db \<Rightarrow> int list" where
  "list_job_dependencies i s = map snd (filter (\<lambda>e. fst e = i) (deps s))"

definition list_dependent_job_ids :: "int \<Rightarrow> db \<Rightarrow> int list" where
  "list_dependent_job_ids i s = map fst (filter (\<lambda>e. snd e = i) (deps s))"

definition job_satisfies_dependency :: "job \<Rightarrow> bool" where
  "job_satisfies_dependency dep \<longleftrightarrow>
     j_status dep = SUCCEEDED \<and>
     j_outcome dep \<notin> {Some ''INVALIDATED'', Some ''SUPERSEDED'', Some ''NO_CHANGE''}"

fun all_satisfied :: "int list \<Rightarrow> db \<Rightarrow> exn + bool" where
  "all_satisfied [] s = Inr True"
| "all_satisfied (d # ds) s =
     (case job_by_id d s of
        None \<Rightarrow> Inl OrchestrationError
      | Some dep \<Rightarrow> if job_satisfies_dependency dep then all_satisfied ds s else Inr False)"

definition dependencies_satisfied :: "int \<Rightarrow> db \<Rightarrow> exn + bool" where
  "dependencies_satisfied i s = all_satisfied (list_job_dependencies i s) s"

section \<open>Selecting jobs\<close>

text \<open>\<^verbatim>\<open>ORDER BY priority DESC, COALESCE(ready_at, created_at) ASC, id ASC\<close>.\<close>

definition ready_order :: "job \<Rightarrow> int \<times> int \<times> int" where
  "ready_order j =
     (- j_priority j, (case j_ready_at j of None \<Rightarrow> j_created_at j | Some t \<Rightarrow> t), j_id j)"

definition matches :: "string option \<Rightarrow> string \<Rightarrow> bool" where
  "matches v x \<longleftrightarrow> (truthy_str v \<longrightarrow> v = Some x)"

fun first_satisfied :: "job list \<Rightarrow> db \<Rightarrow> exn + job option" where
  "first_satisfied [] s = Inr None"
| "first_satisfied (j # js) s =
     (case dependencies_satisfied (j_id j) s of
        Inl e \<Rightarrow> Inl e
      | Inr ok \<Rightarrow> if ok then Inr (Some j) else first_satisfied js s)"

definition select_ready_job ::
    "string option \<Rightarrow> string option \<Rightarrow> string option \<Rightarrow> db \<Rightarrow> exn + job option" where
  "select_ready_job q role human_id s =
     first_satisfied
       (sort_key ready_order
          (filter (\<lambda>j. j_status j = READY \<and> matches human_id (j_human_id j) \<and>
             matches q (j_queue j) \<and> matches role (j_agent_role j)) (jobs s))) s"

fun collect_eligible :: "int option \<Rightarrow> job list \<Rightarrow> job list \<Rightarrow> db \<Rightarrow> exn + job list" where
  "collect_eligible lim acc [] s = Inr acc"
| "collect_eligible lim acc (j # js) s =
     (case dependencies_satisfied (j_id j) s of
        Inl e \<Rightarrow> Inl e
      | Inr ok \<Rightarrow>
          if ok then
            (if (case lim of None \<Rightarrow> False | Some n \<Rightarrow> n \<le> int (length (acc @ [j])))
             then Inr (acc @ [j]) else collect_eligible lim (acc @ [j]) js s)
          else collect_eligible lim acc js s)"

definition ready_rows :: "string option \<Rightarrow> string option \<Rightarrow> db \<Rightarrow> job list" where
  "ready_rows q pid s =
     sort_key ready_order
       (filter (\<lambda>j. j_status j = READY \<and> matches q (j_queue j) \<and>
          matches pid (j_project_human_id j) \<and>
          j_project_human_id j \<notin> c_project_human_id ` {c \<in> set (controls s). c_paused c}) (jobs s))"

definition list_eligible_ready_jobs ::
    "int option \<Rightarrow> string option \<Rightarrow> string option \<Rightarrow> db \<Rightarrow> exn + job list" where
  "list_eligible_ready_jobs lim q pid s = collect_eligible lim [] (ready_rows q pid s) s"

definition find_active_worktree_holder :: "string \<Rightarrow> int option \<Rightarrow> db \<Rightarrow> job option" where
  "find_active_worktree_holder name excl s =
     find_row (\<lambda>_. True) (sort_key j_id
       (filter (\<lambda>j. j_worktree_name j = Some name \<and> j_status j \<in> set ACTIVE_WORKTREE_STATUSES \<and>
          (case excl of None \<Rightarrow> True | Some i \<Rightarrow> j_id j \<noteq> i)) (jobs s)))"

definition find_active_assignment :: "string \<Rightarrow> string \<Rightarrow> string \<Rightarrow> db \<Rightarrow> job option" where
  "find_active_assignment pid work_item q s =
     find_row (\<lambda>_. True) (rev (sort_key j_id
       (filter (\<lambda>j. j_project_human_id j = pid \<and> j_work_item_human_id j = Some work_item \<and>
          j_queue j = q \<and> j_status j \<in> {QUEUED, READY, LEASED, RUNNING, RETRY_WAIT}) (jobs s))))"

section \<open>Pausing a project\<close>

record control_view =
  cv_project_human_id :: string
  cv_paused :: bool
  cv_paused_reason :: "string option"
  cv_updated_at :: "iso option"

definition get_orchestration_control :: "string \<Rightarrow> db \<Rightarrow> control_view" where
  "get_orchestration_control pid s =
     (case find_row (\<lambda>c. c_project_human_id c = pid) (controls s) of
        None \<Rightarrow> \<lparr>cv_project_human_id = pid, cv_paused = False, cv_paused_reason = None, cv_updated_at = None\<rparr>
      | Some c \<Rightarrow> \<lparr>cv_project_human_id = c_project_human_id c, cv_paused = c_paused c,
                  cv_paused_reason = c_paused_reason c, cv_updated_at = Some (c_updated_at c)\<rparr>)"

definition is_project_paused :: "string \<Rightarrow> db \<Rightarrow> bool" where
  "is_project_paused pid s = cv_paused (get_orchestration_control pid s)"

definition control_row :: "string \<Rightarrow> bool \<Rightarrow> string option \<Rightarrow> iso \<Rightarrow> control" where
  "control_row pid paused reason now = \<lparr>c_project_human_id = pid, c_paused = paused,
     c_paused_reason = (if paused then reason else None), c_updated_at = now\<rparr>"

definition set_project_paused :: "string \<Rightarrow> bool \<Rightarrow> string option \<Rightarrow> control_view dbop" where
  "set_project_paused pid paused reason =
     thenS (modifyS (\<lambda>s. s\<lparr>controls := upsert_row (\<lambda>c. c_project_human_id c = pid)
              (\<lambda>_. control_row pid paused reason (now_iso s)) (control_row pid paused reason (now_iso s))
              (controls s)\<rparr>))
       (getS (get_orchestration_control pid))"

end
