(* ===== verification/Run_State.thy ===== *)
theory Run_State
  imports Schema
begin

text \<open>
  Execution runs: the outcome taxonomy of \<^verbatim>\<open>run_outcomes.py\<close>, the \<^verbatim>\<open>execution_runs\<close> table of
  \<^verbatim>\<open>execution_run.py\<close>, the projection of domain events onto a run of \<^verbatim>\<open>run_state.py\<close>, and the
  candidate a run carries in its evidence column (\<^verbatim>\<open>candidate_model.py\<close>). The lemmas show that the
  run status is a state machine only the PM events can finish, that the two status tables agree,
  and what becomes of the active candidate.
\<close>

section \<open>Outcomes (\<^verbatim>\<open>run_outcomes.py\<close>)\<close>

definition OUTCOME_TO_EVENT :: "(string \<times> string) list" where
  "OUTCOME_TO_EVENT =
     [(''SUCCESS'', ''RUN_COMPLETED''),
      (''SPONSOR_DECISION_REQUIRED'', ''WAITING_FOR_SPONSOR''),
      (''UNRECOVERABLE_TECHNICAL_CONDITION'', ''RUN_BLOCKED''),
      (''MAX_REMEDIATION_POLICY_EXCEEDED'', ''RUN_ESCALATED''),
      (''CANCELLED_BY_SPONSOR'', ''RUN_CANCELLED'')]"

definition OUTCOME_TO_RUN_STATUS :: "(string \<times> string) list" where
  "OUTCOME_TO_RUN_STATUS =
     [(''SUCCESS'', ''COMPLETED''),
      (''SPONSOR_DECISION_REQUIRED'', ''WAITING_FOR_SPONSOR''),
      (''UNRECOVERABLE_TECHNICAL_CONDITION'', ''BLOCKED''),
      (''MAX_REMEDIATION_POLICY_EXCEEDED'', ''ESCALATED''),
      (''CANCELLED_BY_SPONSOR'', ''CANCELLED'')]"

definition TERMINAL_OUTCOMES :: "string list" where
  "TERMINAL_OUTCOMES =
     [''SUCCESS'', ''UNRECOVERABLE_TECHNICAL_CONDITION'', ''MAX_REMEDIATION_POLICY_EXCEEDED'',
      ''CANCELLED_BY_SPONSOR'']"

definition TERMINAL_RUN_EVENTS :: "string list" where
  "TERMINAL_RUN_EVENTS = [''RUN_COMPLETED'', ''RUN_BLOCKED'', ''RUN_ESCALATED'', ''RUN_CANCELLED'']"

definition OPERATIONAL_EVIDENCE_EVENTS :: "string list" where
  "OPERATIONAL_EVIDENCE_EVENTS =
     [''QA_GATE_FAILED'', ''QA_FINDING_CREATED'', ''PACKAGE_FAILED'', ''PUBLICATION_FAILED'',
      ''WORK_FAILED'', ''WORK_BLOCKED'', ''RELEASE_PREPARATION_BLOCKED'', ''DELIVERY_BLOCKED'',
      ''RELEASE_BLOCKED'', ''CAPABILITY_GAP_DETECTED'', ''DELIVERY_CONTRACT_MISSING'',
      ''REMEDIATION_REQUIRED'', ''REMEDIATION_LIMIT_REACHED'', ''OPERATION_FAILED'']"

definition PM_TERMINAL_RUN_EVENTS :: "string list" where
  "PM_TERMINAL_RUN_EVENTS = TERMINAL_RUN_EVENTS @ [''RUN_FAILED'']"

definition TERMINAL_RUN_STATUSES :: "string list" where
  "TERMINAL_RUN_STATUSES = [''COMPLETED'', ''BLOCKED'', ''ESCALATED'', ''CANCELLED'', ''FAILED'']"

definition ACTIVE_RUN_STATUSES :: "string list" where
  "ACTIVE_RUN_STATUSES = [''PLANNING'', ''WAITING_FOR_SPONSOR'', ''WAITING_APPROVAL'', ''RUNNING'']"

definition LEGACY_TERMINAL_STATUS_TO_OUTCOME :: "(string \<times> string) list" where
  "LEGACY_TERMINAL_STATUS_TO_OUTCOME =
     [(''COMPLETED'', ''SUCCESS''),
      (''BLOCKED'', ''UNRECOVERABLE_TECHNICAL_CONDITION''),
      (''FAILED'', ''UNRECOVERABLE_TECHNICAL_CONDITION''),
      (''CANCELLED'', ''CANCELLED_BY_SPONSOR''),
      (''ESCALATED'', ''MAX_REMEDIATION_POLICY_EXCEEDED'')]"

definition resolve_outcome :: "string \<Rightarrow> exn + string" where
  "resolve_outcome outcome =
     (let key = py_upper (py_strip outcome) in
      if key \<in> fst ` set OUTCOME_TO_EVENT then Inr key
      else case map_of LEGACY_TERMINAL_STATUS_TO_OUTCOME key of
             Some oc \<Rightarrow> Inr oc
           | None \<Rightarrow> Inl ValueError)"

text \<open>\<^verbatim>\<open>TABLE[resolve_outcome(outcome)]\<close>; a key the table lacks would be a \<^verbatim>\<open>KeyError\<close>, which
  \<open>outcome_tables_total\<close> below excludes.\<close>

definition event_for_outcome :: "string \<Rightarrow> exn + string" where
  "event_for_outcome outcome =
     (case resolve_outcome outcome of
        Inl e \<Rightarrow> Inl e
      | Inr oc \<Rightarrow> (case map_of OUTCOME_TO_EVENT oc of Some ev \<Rightarrow> Inr ev | None \<Rightarrow> Inl ValueError))"

definition run_status_for_outcome :: "string \<Rightarrow> exn + string" where
  "run_status_for_outcome outcome =
     (case resolve_outcome outcome of
        Inl e \<Rightarrow> Inl e
      | Inr oc \<Rightarrow> (case map_of OUTCOME_TO_RUN_STATUS oc of Some st \<Rightarrow> Inr st | None \<Rightarrow> Inl ValueError))"

definition is_terminal_outcome :: "string \<Rightarrow> exn + bool" where
  "is_terminal_outcome outcome =
     (case resolve_outcome outcome of Inl e \<Rightarrow> Inl e | Inr oc \<Rightarrow> Inr (oc \<in> set TERMINAL_OUTCOMES))"

definition is_terminal_run_event :: "string \<Rightarrow> bool" where
  "is_terminal_run_event ev \<longleftrightarrow> ev \<in> set TERMINAL_RUN_EVENTS"

definition is_terminal_run_status :: "string \<Rightarrow> bool" where
  "is_terminal_run_status st \<longleftrightarrow> st \<in> set TERMINAL_RUN_STATUSES"

definition is_pm_terminal_run_event :: "string \<Rightarrow> bool" where
  "is_pm_terminal_run_event ev \<longleftrightarrow> ev \<in> set PM_TERMINAL_RUN_EVENTS"

definition is_operational_evidence_event :: "string \<Rightarrow> bool" where
  "is_operational_evidence_event ev \<longleftrightarrow> ev \<in> set OPERATIONAL_EVIDENCE_EVENTS"

definition normalize_waiting_status :: "string \<Rightarrow> string" where
  "normalize_waiting_status st = (if st = ''WAITING_APPROVAL'' then ''WAITING_FOR_SPONSOR'' else st)"

section \<open>The table of runs (\<^verbatim>\<open>execution_run.py\<close>)\<close>

definition RUN_STATUSES :: "string list" where
  "RUN_STATUSES =
     [''PLANNING'', ''WAITING_APPROVAL'', ''WAITING_FOR_SPONSOR'', ''RUNNING'', ''BLOCKED'', ''FAILED'',
      ''COMPLETED'', ''CANCELLED'', ''ESCALATED'']"

definition get_execution_run :: "string \<Rightarrow> db \<Rightarrow> exec_run option" where
  "get_execution_run rid s = find_row (\<lambda>r. r_run_id r = rid) (runs s)"

definition create_execution_run ::
    "string \<Rightarrow> string option \<Rightarrow> string \<Rightarrow> string \<Rightarrow> exec_run dbop" where
  "create_execution_run project_id handoff_id request_type objective =
     bindS new_uuid (\<lambda>hex.
     bindS (getS (\<lambda>s. s)) (\<lambda>s.
       let rid = ''RUN-'' @ py_upper (take 8 hex);
           row = \<lparr>r_run_id = rid, r_project_id = project_id, r_handoff_id = handoff_id,
                  r_request_type = request_type, r_objective = take 2000 objective,
                  r_status = ''PLANNING'', r_current_phase = Some ''intake'',
                  r_current_agent = Some ''PM Agent'', r_progress = 0, r_result_summary = None,
                  r_evidence_json = None, r_started_at = Some (now_iso s),
                  r_completed_at = None, r_created_at = now_iso s\<rparr>
       in if rid \<in> r_run_id ` set (runs s) \<or>
             (case handoff_id of None \<Rightarrow> False | Some h \<Rightarrow> h \<notin> h_handoff_id ` set (handoffs s))
          then raiseS IntegrityError
          else thenS (modifyS (\<lambda>s. s\<lparr>runs := runs s @ [row]\<rparr>)) (returnS row)))"

text \<open>The assignments \<^verbatim>\<open>SET status = ?, ...\<close> that \<^verbatim>\<open>update_execution_run\<close> collects; an argument
  \<^verbatim>\<open>None\<close> leaves its column alone.\<close>

definition run_fields ::
    "iso \<Rightarrow> string option \<Rightarrow> string option \<Rightarrow> string option \<Rightarrow> int option \<Rightarrow> string option \<Rightarrow>
     dict option \<Rightarrow> exec_run \<Rightarrow> exec_run" where
  "run_fields now status phase agent progress summary ev r =
     r\<lparr>r_status := (case status of None \<Rightarrow> r_status r | Some st \<Rightarrow> st),
       r_completed_at :=
         (case status of
            None \<Rightarrow> r_completed_at r
          | Some st \<Rightarrow>
              if st \<in> {''COMPLETED'', ''FAILED'', ''CANCELLED'', ''BLOCKED'', ''ESCALATED''}
              then Some now else r_completed_at r),
       r_current_phase := (case phase of None \<Rightarrow> r_current_phase r | Some p \<Rightarrow> Some p),
       r_current_agent := (case agent of None \<Rightarrow> r_current_agent r | Some a \<Rightarrow> Some a),
       r_progress := (case progress of None \<Rightarrow> r_progress r | Some n \<Rightarrow> n),
       r_result_summary :=
         (case summary of None \<Rightarrow> r_result_summary r | Some t \<Rightarrow> Some (take 4000 t)),
       r_evidence_json :=
         (case ev of None \<Rightarrow> r_evidence_json r | Some d \<Rightarrow> Some (clipped_dumps 8000 d))\<rparr>"

text \<open>The CHECK constraint of the table refuses a status outside \<open>RUN_STATUSES\<close>, for a row that
  exists.\<close>

definition update_execution_run ::
    "string \<Rightarrow> string option \<Rightarrow> string option \<Rightarrow> string option \<Rightarrow> int option \<Rightarrow> string option \<Rightarrow>
     dict option \<Rightarrow> unit dbop" where
  "update_execution_run rid status phase agent progress summary ev =
     bindS (getS (\<lambda>s. s)) (\<lambda>s.
       if (case status of None \<Rightarrow> False | Some st \<Rightarrow> st \<notin> set RUN_STATUSES) \<and>
          get_execution_run rid s \<noteq> None
       then raiseS IntegrityError
       else modifyS (\<lambda>s. s\<lparr>runs := update_where (\<lambda>r. r_run_id r = rid)
              (run_fields (now_iso s) status phase agent progress summary ev) (runs s)\<rparr>))"

section \<open>Events applied to a run (\<^verbatim>\<open>run_state.py\<close>)\<close>

definition PM_TERMINAL_PROGRESSION :: "(string \<times> string \<times> string option \<times> int) list" where
  "PM_TERMINAL_PROGRESSION =
     [(''RUN_COMPLETED'', ''COMPLETED'', Some ''pm-agent'', 100),
      (''RUN_BLOCKED'', ''BLOCKED'', None, 85),
      (''RUN_ESCALATED'', ''ESCALATED'', Some ''pm-agent'', 88),
      (''RUN_CANCELLED'', ''CANCELLED'', Some ''pm-agent'', 0),
      (''RUN_FAILED'', ''FAILED'', None, 90)]"

definition OPERATIONAL_PROGRESSION :: "(string \<times> string \<times> string option \<times> int) list" where
  "OPERATIONAL_PROGRESSION =
     [(''HANDOFF_ACCEPTED'', ''PLANNING'', Some ''pm-agent'', 5),
      (''PM_PLAN_CREATED'', ''PLANNING'', Some ''pm-agent'', 15),
      (''PM_REPLAN'', ''PLANNING'', Some ''pm-agent'', 20),
      (''AGENT_ASSIGNED'', ''RUNNING'', None, 25),
      (''WORK_STARTED'', ''RUNNING'', None, 35),
      (''WORK_PROGRESS'', ''RUNNING'', None, 50),
      (''WORK_COMPLETED'', ''RUNNING'', None, 55),
      (''PACKAGE_STARTED'', ''RUNNING'', Some ''delivery-agent'', 55),
      (''PACKAGE_COMPLETED'', ''RUNNING'', Some ''delivery-agent'', 75),
      (''INSTALLER_BUILT'', ''RUNNING'', Some ''delivery-agent'', 80),
      (''INSTALLER_SIGNED'', ''RUNNING'', Some ''delivery-agent'', 85),
      (''QA_STARTED'', ''RUNNING'', Some ''qa-agent'', 45),
      (''QA_GATE_PASSED'', ''RUNNING'', Some ''qa-agent'', 50),
      (''QA_RETEST_STARTED'', ''RUNNING'', Some ''qa-agent'', 48),
      (''QA_GATE_FAILED'', ''QA_GATE'', Some ''qa-agent'', 40),
      (''REMEDIATION_REQUIRED'', ''REMEDIATION'', Some ''pm-agent'', 42),
      (''REMEDIATION_STARTED'', ''REMEDIATION'', None, 45),
      (''PACKAGE_FAILED'', ''PACKAGE_GATE'', Some ''delivery-agent'', 65),
      (''PUBLICATION_FAILED'', ''PUBLICATION_GATE'', Some ''release-agent'', 88),
      (''WORK_FAILED'', ''WORK'', None, 45),
      (''WORK_BLOCKED'', ''WORK'', None, 45),
      (''RELEASE_PREPARATION_BLOCKED'', ''RELEASE_PREPARATION'', Some ''delivery-agent'', 60),
      (''CAPABILITY_GAP_DETECTED'', ''CAPABILITY'', Some ''pm-agent'', 55),
      (''RELEASE_PUBLISHED'', ''RUNNING'', Some ''release-agent'', 90),
      (''SPONSOR_DIRECTIVE_RECEIVED'', ''RUNNING'', Some ''pm-agent'', 30),
      (''PLAN_UPDATED'', ''RUNNING'', Some ''pm-agent'', 32),
      (''OPERATION_FAILED'', ''execution_recovery'', Some ''pm-agent'', 40),
      (''WAITING_FOR_SPONSOR'', ''WAITING_FOR_SPONSOR'', Some ''pm-agent'', 40),
      (''SPONSOR_DECISION_REQUIRED'', ''WAITING_FOR_SPONSOR'', Some ''pm-agent'', 40)]"

text \<open>The evidence of a payload: absent, a dictionary, or a text with what \<^verbatim>\<open>json.loads\<close> makes of
  it (\<open>None\<close>: a \<^verbatim>\<open>JSONDecodeError\<close>).\<close>

datatype payload_evidence = NoEvidence | EvidenceDict dict | EvidenceText string "json option"

record event_payload =
  p_phase :: "string option"
  p_event_type :: string
  p_actor_id :: "string option"
  p_progress :: "int option"
  p_summary :: "string option"
  p_evidence :: payload_evidence

text \<open>The value passed as \<^verbatim>\<open>evidence=\<close> to \<^verbatim>\<open>update_execution_run\<close>.\<close>

definition payload_dict :: "payload_evidence \<Rightarrow> dict option" where
  "payload_dict ev =
     (case ev of
        NoEvidence \<Rightarrow> None
      | EvidenceDict d \<Rightarrow> Some d
      | EvidenceText t None \<Rightarrow> Some [(''detail'', JStr t)]
      | EvidenceText t (Some v) \<Rightarrow> (case v of JObj d \<Rightarrow> Some d | _ \<Rightarrow> None))"

text \<open>The rows of the two progression tables and the values \<^verbatim>\<open>apply_event_to_run\<close> takes from
  them.\<close>

definition event_mapping :: "string \<Rightarrow> (string \<times> string option \<times> int) option" where
  "event_mapping ev =
     (if is_pm_terminal_run_event ev then map_of PM_TERMINAL_PROGRESSION ev
      else map_of OPERATIONAL_PROGRESSION ev)"

definition event_status :: "string \<Rightarrow> string option" where
  "event_status ev =
     (case event_mapping ev of
        None \<Rightarrow> None
      | Some (st, _, _) \<Rightarrow>
          if is_pm_terminal_run_event ev then Some st
          else if ev \<in> {''WAITING_FOR_SPONSOR'', ''SPONSOR_DECISION_REQUIRED''}
          then Some ''WAITING_FOR_SPONSOR'' else None)"

definition event_phase :: "string \<Rightarrow> event_payload \<Rightarrow> string" where
  "event_phase ev payload =
     (let phase0 = str_of (str_or (p_phase payload) (Some (py_lower (p_event_type payload)))) in
      case event_mapping ev of
        None \<Rightarrow> phase0
      | Some (st, _, _) \<Rightarrow> if is_pm_terminal_run_event ev then phase0 else st)"

definition event_agent :: "string \<Rightarrow> event_payload \<Rightarrow> string option" where
  "event_agent ev payload =
     (case event_mapping ev of
        None \<Rightarrow> p_actor_id payload
      | Some (_, ag, _) \<Rightarrow> str_or (p_actor_id payload) ag)"

definition event_progress :: "string \<Rightarrow> event_payload \<Rightarrow> int option" where
  "event_progress ev payload =
     (case event_mapping ev of
        None \<Rightarrow> p_progress payload
      | Some (_, _, n) \<Rightarrow> (case p_progress payload of None \<Rightarrow> Some n | Some k \<Rightarrow> Some k))"

definition apply_event_to_run :: "string \<Rightarrow> string \<Rightarrow> event_payload \<Rightarrow> unit dbop" where
  "apply_event_to_run rid ev payload =
     (if rid = [] then returnS () else
      bindS (getS (get_execution_run rid)) (\<lambda>row.
      case row of None \<Rightarrow> returnS () | Some run \<Rightarrow>
      if is_terminal_run_status (r_status run) \<and> ev \<notin> set TERMINAL_RUN_EVENTS
      then returnS ()
      else
        let phase = event_phase ev payload;
            agent = event_agent ev payload;
            summary = take 4000 (str_of (p_summary payload))
        in update_execution_run rid (event_status ev)
             (if phase = [] then None else Some (take 120 phase))
             (if truthy_str agent then Some (take 80 (str_of agent)) else None)
             (event_progress ev payload)
             (if summary = [] then None else Some summary)
             (payload_dict (p_evidence payload))))"

section \<open>The candidate of a run (\<^verbatim>\<open>candidate_model.py\<close>)\<close>

text \<open>\<^verbatim>\<open>evidence_json\<close> is written from dictionaries only, so a text that decodes is an object.\<close>

definition get_run_candidate_state :: "string \<Rightarrow> db \<Rightarrow> dict" where
  "get_run_candidate_state rid s =
     (case get_execution_run rid s of
        None \<Rightarrow> []
      | Some r \<Rightarrow> (case r_evidence_json r of Some (JText (JObj d)) \<Rightarrow> d | _ \<Rightarrow> []))"

definition set_run_active_candidate :: "string \<Rightarrow> string \<Rightarrow> string \<Rightarrow> int \<Rightarrow> unit dbop" where
  "set_run_active_candidate rid candidate_id candidate_type cycle =
     bindS (getS (get_run_candidate_state rid)) (\<lambda>state.
       update_execution_run rid None None None None None
         (Some (dict_update state
            [(''active_candidate_id'', JStr candidate_id),
             (''active_candidate_type'', JStr candidate_type),
             (''active_remediation_cycle'', JInt cycle)])))"

definition get_run_active_candidate :: "string \<Rightarrow> db \<Rightarrow> json" where
  "get_run_active_candidate rid s = dict_get (get_run_candidate_state rid s) ''active_candidate_id''"

section \<open>Lemmas\<close>

lemmas outcome_tables = OUTCOME_TO_EVENT_def OUTCOME_TO_RUN_STATUS_def TERMINAL_OUTCOMES_def
  LEGACY_TERMINAL_STATUS_TO_OUTCOME_def

lemmas run_event_tables = TERMINAL_RUN_EVENTS_def PM_TERMINAL_RUN_EVENTS_def
  TERMINAL_RUN_STATUSES_def PM_TERMINAL_PROGRESSION_def

subsection \<open>The tables\<close>

lemma resolve_outcome_range: "resolve_outcome x = Inr oc \<Longrightarrow> oc \<in> fst ` set OUTCOME_TO_EVENT"
  by (auto simp: resolve_outcome_def outcome_tables Let_def split: if_splits)

lemma outcome_tables_total:
  assumes "resolve_outcome x = Inr oc"
  shows "event_for_outcome x = Inr (the (map_of OUTCOME_TO_EVENT oc))"
    and "run_status_for_outcome x = Inr (the (map_of OUTCOME_TO_RUN_STATUS oc))"
  using assms resolve_outcome_range [OF assms]
  by (auto simp: event_for_outcome_def run_status_for_outcome_def outcome_tables)

lemma pm_terminal_progression_total:
  "is_pm_terminal_run_event ev \<longleftrightarrow> map_of PM_TERMINAL_PROGRESSION ev \<noteq> None"
  by (auto simp: is_pm_terminal_run_event_def run_event_tables)

lemma pm_terminal_progression_status:
  "map_of PM_TERMINAL_PROGRESSION ev = Some (st, ag, n) \<Longrightarrow>
   st \<in> set RUN_STATUSES \<and> is_terminal_run_status st"
  by (auto simp: run_event_tables RUN_STATUSES_def is_terminal_run_status_def split: if_splits)

lemma waiting_in_operational:
  "ev \<in> {''WAITING_FOR_SPONSOR'', ''SPONSOR_DECISION_REQUIRED''} \<Longrightarrow>
   map_of OPERATIONAL_PROGRESSION ev = Some (''WAITING_FOR_SPONSOR'', Some ''pm-agent'', 40) \<and>
   \<not> is_pm_terminal_run_event ev"
  by (auto simp: OPERATIONAL_PROGRESSION_def is_pm_terminal_run_event_def run_event_tables)

lemma operational_not_pm_terminal:
  "is_operational_evidence_event ev \<Longrightarrow> \<not> is_pm_terminal_run_event ev"
  by (auto simp: is_operational_evidence_event_def OPERATIONAL_EVIDENCE_EVENTS_def
      is_pm_terminal_run_event_def run_event_tables)

lemma terminal_events_are_pm: "ev \<in> set TERMINAL_RUN_EVENTS \<Longrightarrow> is_pm_terminal_run_event ev"
  by (simp add: is_pm_terminal_run_event_def PM_TERMINAL_RUN_EVENTS_def)

lemma waiting_not_terminal: "\<not> is_terminal_run_status ''WAITING_FOR_SPONSOR''"
  by (simp add: is_terminal_run_status_def TERMINAL_RUN_STATUSES_def)

subsection \<open>The row an update leaves\<close>

lemma r_run_id_run_fields [simp]:
  "r_run_id (run_fields now st ph ag pr su ev r) = r_run_id r"
  by (simp add: run_fields_def)

lemma update_execution_run_eq:
  assumes "\<And>st. status = Some st \<Longrightarrow> st \<in> set RUN_STATUSES"
  shows "update_execution_run rid status ph ag pr su ev s =
     (Inr (), s\<lparr>runs := update_where (\<lambda>r. r_run_id r = rid)
        (run_fields (now_iso s) status ph ag pr su ev) (runs s)\<rparr>)"
  using assms
  by (auto simp: update_execution_run_def op_simps split: option.splits)

lemma get_execution_run_runs_update:
  "get_execution_run rid' (s\<lparr>runs := update_where (\<lambda>r. r_run_id r = rid)
        (run_fields now st ph ag pr su ev) (runs s)\<rparr>) =
   (if rid' = rid then map_option (run_fields now st ph ag pr su ev) (get_execution_run rid' s)
    else get_execution_run rid' s)"
proof -
  have "find_row (\<lambda>r. r_run_id r = rid') (update_where (\<lambda>r. r_run_id r = rid)
          (run_fields now st ph ag pr su ev) (runs s)) =
        map_option (\<lambda>r. if r_run_id r = rid then run_fields now st ph ag pr su ev r else r)
          (find_row (\<lambda>r. r_run_id r = rid') (runs s))"
    by (rule find_row_update_where) simp
  then show ?thesis
    by (cases "find_row (\<lambda>r. r_run_id r = rid') (runs s)")
       (auto simp: get_execution_run_def dest: find_row_SomeD)
qed

subsection \<open>The status machine of a run\<close>

text \<open>What a run promises about its status: a finished run moves only on the four PM terminal
  events, a PM terminal event sets the status of its table, the two waiting events pause the
  run, and every other event leaves the status alone.\<close>

definition next_run_status :: "string \<Rightarrow> string \<Rightarrow> string" where
  "next_run_status ev st =
     (if is_terminal_run_status st \<and> \<not> is_terminal_run_event ev then st
      else case map_of PM_TERMINAL_PROGRESSION ev of
             Some (st', _, _) \<Rightarrow> st'
           | None \<Rightarrow> if ev \<in> {''WAITING_FOR_SPONSOR'', ''SPONSOR_DECISION_REQUIRED''}
                     then ''WAITING_FOR_SPONSOR'' else st)"

lemma next_run_status_terminal:
  "\<not> is_terminal_run_status st \<Longrightarrow>
   is_terminal_run_status (next_run_status ev st) \<longleftrightarrow> is_pm_terminal_run_event ev"
  by (auto simp: next_run_status_def pm_terminal_progression_total waiting_not_terminal
      dest: pm_terminal_progression_status split: option.splits)

lemma next_run_status_absorbing:
  "is_terminal_run_status st \<Longrightarrow> \<not> is_terminal_run_event ev \<Longrightarrow> next_run_status ev st = st"
  by (simp add: next_run_status_def)

lemma event_status_ok: "event_status ev = Some st \<Longrightarrow> st \<in> set RUN_STATUSES"
  by (auto simp: event_status_def event_mapping_def RUN_STATUSES_def
      dest!: pm_terminal_progression_status split: option.splits if_splits)

lemma event_status_next:
  assumes "\<not> (is_terminal_run_status st \<and> \<not> is_terminal_run_event ev)"
  shows "next_run_status ev st = (case event_status ev of None \<Rightarrow> st | Some st' \<Rightarrow> st')"
proof (cases "is_pm_terminal_run_event ev")
  case True
  then obtain st' ag n where "map_of PM_TERMINAL_PROGRESSION ev = Some (st', ag, n)"
    by (auto simp: pm_terminal_progression_total)
  with True assms show ?thesis
    by (auto simp: next_run_status_def event_status_def event_mapping_def)
next
  case False
  then have "map_of PM_TERMINAL_PROGRESSION ev = None"
    using pm_terminal_progression_total [of ev] by blast
  with False assms waiting_in_operational [of ev] show ?thesis
    by (auto simp: next_run_status_def event_status_def event_mapping_def split: option.splits)
qed

text \<open>The run table after an event.\<close>

lemma apply_event_to_run_eq:
  assumes "rid \<noteq> []" "get_execution_run rid s = Some run"
  obtains (ignored) "is_terminal_run_status (r_status run)" "\<not> is_terminal_run_event ev"
      "apply_event_to_run rid ev p s = (Inr (), s)"
  | (written) ph ag su where
      "\<not> (is_terminal_run_status (r_status run) \<and> \<not> is_terminal_run_event ev)"
      "apply_event_to_run rid ev p s =
        (Inr (), s\<lparr>runs := update_where (\<lambda>r. r_run_id r = rid)
          (run_fields (now_iso s) (event_status ev) ph ag (event_progress ev p) su
             (payload_dict (p_evidence p))) (runs s)\<rparr>)"
proof (cases "is_terminal_run_status (r_status run) \<and> \<not> is_terminal_run_event ev")
  case True
  then show ?thesis
    using assms ignored by (simp add: apply_event_to_run_def op_simps is_terminal_run_event_def)
next
  case False
  then have "apply_event_to_run rid ev p s =
      (Inr (), s\<lparr>runs := update_where (\<lambda>r. r_run_id r = rid)
        (run_fields (now_iso s) (event_status ev)
          (if event_phase ev p = [] then None else Some (take 120 (event_phase ev p)))
          (if truthy_str (event_agent ev p) then Some (take 80 (str_of (event_agent ev p))) else None)
          (event_progress ev p)
          (if take 4000 (str_of (p_summary p)) = [] then None
           else Some (take 4000 (str_of (p_summary p))))
          (payload_dict (p_evidence p))) (runs s)\<rparr>)"
    using assms
    by (auto simp: apply_event_to_run_def op_simps is_terminal_run_event_def Let_def
        update_execution_run_eq [OF event_status_ok])
  then show ?thesis by (rule written [OF False])
qed

lemma apply_event_to_run_active:
  assumes "rid \<noteq> []" "get_execution_run rid s = Some run" "\<not> is_terminal_run_status (r_status run)"
  shows "\<exists>ph ag su. apply_event_to_run rid ev p s =
    (Inr (), s\<lparr>runs := update_where (\<lambda>r. r_run_id r = rid)
      (run_fields (now_iso s) (event_status ev) ph ag (event_progress ev p) su
         (payload_dict (p_evidence p))) (runs s)\<rparr>)"
  by (rule apply_event_to_run_eq [OF assms(1,2), of ev p]) (use assms(3) in blast)+

lemma apply_event_to_run_row:
  assumes "rid \<noteq> []" "get_execution_run rid s = Some run"
  obtains t run' where "apply_event_to_run rid ev p s = (Inr (), t)"
    and "get_execution_run rid t = Some run'"
    and "r_status run' = next_run_status ev (r_status run)"
    and "\<And>rid'. rid' \<noteq> rid \<Longrightarrow> get_execution_run rid' t = get_execution_run rid' s"
  using assms
proof (cases rule: apply_event_to_run_eq [of rid s run ev p])
  case ignored
  with assms(2) that show ?thesis by (auto simp: next_run_status_absorbing)
next
  case (written ph ag su)
  have "r_status (run_fields now (event_status ev) ph ag pr su d run) =
      next_run_status ev (r_status run)" for now pr d
    by (simp add: run_fields_def event_status_next [OF written(1)])
  with assms(2) show ?thesis
    by (intro that [OF written(2)]) (auto simp: get_execution_run_runs_update)
qed

subsection \<open>Sequences of events\<close>

definition apply_events :: "string \<Rightarrow> (string \<times> event_payload) list \<Rightarrow> unit list dbop" where
  "apply_events rid evs = mapS (\<lambda>(ev, p). apply_event_to_run rid ev p) evs"

text \<open>The projection of a sequence of events is the fold of the status machine.\<close>

lemma apply_events_status:
  assumes "rid \<noteq> []" "get_execution_run rid s = Some run"
  shows "\<exists>us t run'. apply_events rid evs s = (Inr us, t) \<and>
           get_execution_run rid t = Some run' \<and>
           r_status run' = fold next_run_status (map fst evs) (r_status run)"
  using assms(2)
proof (induction evs arbitrary: s run)
  case Nil
  then show ?case by (simp add: apply_events_def op_simps)
next
  case (Cons e evs)
  obtain t run1 where 1: "apply_event_to_run rid (fst e) (snd e) s = (Inr (), t)"
      "get_execution_run rid t = Some run1"
      "r_status run1 = next_run_status (fst e) (r_status run)"
    by (rule apply_event_to_run_row [OF assms(1) Cons.prems, of "fst e" "snd e"])
  from Cons.IH [OF 1(2)] 1 show ?case
    by (auto simp: apply_events_def op_simps split_beta)
qed

lemma fold_next_run_status_active:
  "\<not> is_terminal_run_status st \<Longrightarrow> \<forall>ev \<in> set evs. \<not> is_pm_terminal_run_event ev \<Longrightarrow>
   \<not> is_terminal_run_status (fold next_run_status evs st)"
  by (induction evs arbitrary: st) (auto simp: next_run_status_terminal)

lemma apply_events_finished:
  assumes "rid \<noteq> []" "get_execution_run rid s = Some run" "is_terminal_run_status (r_status run)"
    and "\<forall>(ev, p) \<in> set evs. \<not> is_terminal_run_event ev"
  shows "\<exists>us. apply_events rid evs s = (Inr us, s)"
  using assms(4)
proof (induction evs)
  case Nil
  then show ?case by (simp add: apply_events_def op_simps)
next
  case (Cons e evs)
  then have "apply_event_to_run rid (fst e) (snd e) s = (Inr (), s)"
    using assms(1-3) by (auto simp: apply_event_to_run_def op_simps is_terminal_run_event_def)
  with Cons show ?case
    by (auto simp: apply_events_def op_simps split_beta)
qed

subsection \<open>The active candidate\<close>

lemma get_run_candidate_state_written:
  assumes "get_execution_run rid s = Some run" "length (json_dumps (JObj d)) \<le> 8000"
  shows "get_run_candidate_state rid (s\<lparr>runs := update_where (\<lambda>r. r_run_id r = rid)
           (run_fields now st ph ag pr su (Some d)) (runs s)\<rparr>) = d"
  using assms
  by (simp add: get_run_candidate_state_def get_execution_run_runs_update run_fields_def
      clipped_dumps_def)

lemma get_run_candidate_state_clipped:
  assumes "get_execution_run rid s = Some run" "8000 < length (json_dumps (JObj d))"
  shows "get_run_candidate_state rid (s\<lparr>runs := update_where (\<lambda>r. r_run_id r = rid)
           (run_fields now st ph ag pr su (Some d)) (runs s)\<rparr>) = []"
  using assms
  by (simp add: get_run_candidate_state_def get_execution_run_runs_update run_fields_def
      clipped_dumps_def)

subsection \<open>A run for the witnesses\<close>

definition sample_run :: exec_run where
  "sample_run = \<lparr>r_run_id = ''RUN-1'', r_project_id = ''PRJ-1'', r_handoff_id = None,
     r_request_type = ''WORK'', r_objective = ''demo'', r_status = ''RUNNING'', r_current_phase = None,
     r_current_agent = None, r_progress = 0, r_result_summary = None, r_evidence_json = None,
     r_started_at = None, r_completed_at = None, r_created_at = 0\<rparr>"

definition sample_runs :: "string \<Rightarrow> db" where
  "sample_runs st = (empty_db 0 (\<lambda>_. ''u'') (\<lambda>r. r))\<lparr>runs := [sample_run\<lparr>r_status := st\<rparr>]\<rparr>"

definition sample_payload :: "payload_evidence \<Rightarrow> event_payload" where
  "sample_payload ev = \<lparr>p_phase = None, p_event_type = ''WORK_STARTED'', p_actor_id = None,
     p_progress = None, p_summary = None, p_evidence = ev\<rparr>"

lemma get_sample_run [simp]:
  "get_execution_run ''RUN-1'' (sample_runs st) = Some (sample_run\<lparr>r_status := st\<rparr>)"
  by (simp add: get_execution_run_def sample_runs_def sample_run_def)

section \<open>Properties\<close>

text \<open>C29: Projecting any sequence of events onto a run always succeeds, and the status it leaves is
  the fold of the abstract status machine over the events: a finished run moves only on a terminal
  event, a terminal event sets its status, the two sponsor events make it wait, and no other event
  changes the status.\<close>

theorem run_projection_refines_status_machine:
  assumes "rid \<noteq> []" "get_execution_run rid s = Some run"
  shows "\<exists>us t run'. apply_events rid evs s = (Inr us, t) \<and> get_execution_run rid t = Some run' \<and>
    r_status run' = fold next_run_status (map fst evs) (r_status run)"
  by (rule apply_events_status [OF assms])

lemma run_projection_refines_status_machine_witness:
  "\<exists>us t run'. apply_events ''RUN-1'' [(''WORK_FAILED'', sample_payload NoEvidence),
       (''RUN_COMPLETED'', sample_payload NoEvidence), (''WORK_STARTED'', sample_payload NoEvidence)]
       (sample_runs ''RUNNING'') = (Inr us, t) \<and>
     get_execution_run ''RUN-1'' t = Some run' \<and> r_status run' = ''COMPLETED''"
proof -
  have "fold next_run_status [''WORK_FAILED'', ''RUN_COMPLETED'', ''WORK_STARTED''] ''RUNNING'' = ''COMPLETED''"
    by code_simp
  then show ?thesis
    using run_projection_refines_status_machine [of "''RUN-1''" "sample_runs ''RUNNING''"
        "sample_run\<lparr>r_status := ''RUNNING''\<rparr>" "[(''WORK_FAILED'', sample_payload NoEvidence),
       (''RUN_COMPLETED'', sample_payload NoEvidence), (''WORK_STARTED'', sample_payload NoEvidence)]"]
    by auto
qed

text \<open>Operational evidence never ends a run: whatever operational events (gate failures, failed
  or blocked work, packaging and publication failures) arrive in whatever order, an unfinished run
  stays unfinished.\<close>

theorem operational_events_never_end_run:
  assumes "rid \<noteq> []" "get_execution_run rid s = Some run"
    and "\<not> is_terminal_run_status (r_status run)"
    and "\<forall>(ev, p) \<in> set evs. is_operational_evidence_event ev"
  shows "\<exists>us t run'. apply_events rid evs s = (Inr us, t) \<and> get_execution_run rid t = Some run' \<and>
    \<not> is_terminal_run_status (r_status run')"
proof -
  have "\<forall>ev \<in> set (map fst evs). \<not> is_pm_terminal_run_event ev"
    using assms(4) operational_not_pm_terminal by fastforce
  then show ?thesis
    using apply_events_status [OF assms(1,2), of evs] fold_next_run_status_active [OF assms(3)]
    by (metis (no_types, lifting))
qed

lemma operational_events_never_end_run_witness:
  "\<exists>us t run'. apply_events ''RUN-1'' [(''QA_GATE_FAILED'', sample_payload NoEvidence),
       (''PACKAGE_FAILED'', sample_payload NoEvidence)] (sample_runs ''RUNNING'') = (Inr us, t) \<and>
     get_execution_run ''RUN-1'' t = Some run' \<and> \<not> is_terminal_run_status (r_status run')"
  by (rule operational_events_never_end_run [OF _ get_sample_run])
     (simp_all add: is_terminal_run_status_def TERMINAL_RUN_STATUSES_def
        is_operational_evidence_event_def OPERATIONAL_EVIDENCE_EVENTS_def)

text \<open>A finished run is frozen: events that are not terminal leave the database unchanged.\<close>

theorem finished_run_is_frozen:
  assumes "rid \<noteq> []" "get_execution_run rid s = Some run" "is_terminal_run_status (r_status run)"
    and "\<forall>(ev, p) \<in> set evs. \<not> is_terminal_run_event ev"
  shows "\<exists>us. apply_events rid evs s = (Inr us, s)"
  by (rule apply_events_finished [OF assms])

lemma finished_run_is_frozen_witness:
  "\<exists>us. apply_events ''RUN-1'' [(''WORK_STARTED'', sample_payload NoEvidence),
     (''RUN_FAILED'', sample_payload NoEvidence)] (sample_runs ''CANCELLED'') =
     (Inr us, sample_runs ''CANCELLED'')"
  by (rule finished_run_is_frozen [OF _ get_sample_run])
     (simp_all add: is_terminal_run_status_def TERMINAL_RUN_STATUSES_def
        is_terminal_run_event_def TERMINAL_RUN_EVENTS_def)

text \<open>The outcome tables agree with the projection: for every outcome that resolves, the event
  the tables give for it, applied to an unfinished run, sets the status the tables give for it.\<close>

theorem outcome_event_sets_outcome_status:
  assumes "rid \<noteq> []" "get_execution_run rid s = Some run"
    and "\<not> is_terminal_run_status (r_status run)" "resolve_outcome x = Inr oc"
  shows "\<exists>ev st t run'. event_for_outcome x = Inr ev \<and> run_status_for_outcome x = Inr st \<and>
    apply_event_to_run rid ev p s = (Inr (), t) \<and> get_execution_run rid t = Some run' \<and> r_status run' = st"
proof -
  define ev where "ev = the (map_of OUTCOME_TO_EVENT oc)"
  have "next_run_status ev (r_status run) = the (map_of OUTCOME_TO_RUN_STATUS oc)"
    using resolve_outcome_range [OF assms(4)] assms(3)
    by (auto simp: ev_def next_run_status_def outcome_tables PM_TERMINAL_PROGRESSION_def)
  moreover obtain t run' where "apply_event_to_run rid ev p s = (Inr (), t)"
      "get_execution_run rid t = Some run'" "r_status run' = next_run_status ev (r_status run)"
    by (rule apply_event_to_run_row [OF assms(1,2)])
  ultimately show ?thesis
    using outcome_tables_total [OF assms(4)] by (simp add: ev_def)
qed

lemma outcome_event_sets_outcome_status_witness:
  "\<exists>ev st t run'. event_for_outcome ''SUCCESS'' = Inr ev \<and> run_status_for_outcome ''SUCCESS'' = Inr st \<and>
     apply_event_to_run ''RUN-1'' ev (sample_payload NoEvidence) (sample_runs ''RUNNING'') = (Inr (), t) \<and>
     get_execution_run ''RUN-1'' t = Some run' \<and> r_status run' = st"
proof (rule outcome_event_sets_outcome_status [OF _ get_sample_run])
  show "resolve_outcome ''SUCCESS'' = Inr ''SUCCESS''" by code_simp
qed (simp_all add: is_terminal_run_status_def TERMINAL_RUN_STATUSES_def)

text \<open>The active candidate of a run reads back as it was set as long as the evidence text fits its
  column, and it is lost as soon as an event carries evidence of its own: the projection replaces
  the whole evidence text, so the candidate is gone although nothing reset it.\<close>

theorem active_candidate_overwritten_by_evidence:
  assumes "rid \<noteq> []" "get_execution_run rid s = Some run" "\<not> is_terminal_run_status (r_status run)"
    and "d = dict_update (get_run_candidate_state rid s) [(''active_candidate_id'', JStr c),
       (''active_candidate_type'', JStr ty), (''active_remediation_cycle'', JInt n)]"
    and "length (json_dumps (JObj d)) \<le> 8000"
    and "p_evidence p = EvidenceDict e" "map_of e ''active_candidate_id'' = None"
  shows "\<exists>t u. set_run_active_candidate rid c ty n s = (Inr (), t) \<and>
    get_run_active_candidate rid t = JStr c \<and>
    apply_event_to_run rid ev p t = (Inr (), u) \<and> get_run_active_candidate rid u = JNull"
proof -
  let ?f = "run_fields (now_iso s) None None None None None (Some d)"
  let ?t = "s\<lparr>runs := update_where (\<lambda>r. r_run_id r = rid) ?f (runs s)\<rparr>"
  have t: "set_run_active_candidate rid c ty n s = (Inr (), ?t)"
    unfolding set_run_active_candidate_def bindS_getS assms(4)
    by (rule update_execution_run_eq) simp
  have state: "get_run_candidate_state rid ?t = d"
    by (rule get_run_candidate_state_written [OF assms(2,5)])
  have run: "get_execution_run rid ?t = Some (?f run)"
    using assms(2) by (simp add: get_execution_run_runs_update)
  have "\<not> is_terminal_run_status (r_status (?f run))" using assms(3) by (simp add: run_fields_def)
  note active = this
  define t where "t = ?t"
  obtain ph ag su where u: "apply_event_to_run rid ev p t =
      (Inr (), t\<lparr>runs := update_where (\<lambda>r. r_run_id r = rid)
          (run_fields (now_iso t) (event_status ev) ph ag (event_progress ev p) su (Some e)) (runs t)\<rparr>)"
    (is "_ = (_, ?u ph ag su)")
    using apply_event_to_run_active [OF assms(1) run active, of ev p] assms(6)
    unfolding t_def [symmetric] by (auto simp: payload_dict_def)
  have "get_run_candidate_state rid (?u ph ag su) \<in> {e, []}"
    using get_run_candidate_state_written [OF run] get_run_candidate_state_clipped [OF run]
    unfolding t_def [symmetric] by (metis insertCI not_le)
  then show ?thesis
    using t u state assms(4,7) unfolding t_def [symmetric]
    by (auto simp: get_run_active_candidate_def dict_get_def dict_update_def map_of_dict_set)
qed

lemma active_candidate_overwritten_by_evidence_witness:
  "\<exists>t u. set_run_active_candidate ''RUN-1'' ''abc'' ''git_sha'' 1 (sample_runs ''RUNNING'') = (Inr (), t) \<and>
     get_run_active_candidate ''RUN-1'' t = JStr ''abc'' \<and>
     apply_event_to_run ''RUN-1'' ''QA_GATE_FAILED'' (sample_payload (EvidenceDict [(''facts'', JInt 1)])) t
       = (Inr (), u) \<and> get_run_active_candidate ''RUN-1'' u = JNull"
proof (rule active_candidate_overwritten_by_evidence
    [OF _ get_sample_run, where e = "[(''facts'', JInt 1)]"])
  show "length (json_dumps (JObj (dict_update (get_run_candidate_state ''RUN-1'' (sample_runs ''RUNNING''))
    [(''active_candidate_id'', JStr ''abc''), (''active_candidate_type'', JStr ''git_sha''),
     (''active_remediation_cycle'', JInt 1)]))) \<le> 8000" by code_simp
qed (simp_all add: is_terminal_run_status_def TERMINAL_RUN_STATUSES_def sample_payload_def)

end
