(* ===== verification/Next_Actions.thy ===== *)
theory Next_Actions
  imports Job_Store Run_State
begin

text \<open>
  Durable next actions of a run (\<^verbatim>\<open>run_next_actions.py\<close>), the outstanding remediation work they rest
  on (\<^verbatim>\<open>remediation_recovery.py\<close>), and the no-inert-run diagnostic (\<^verbatim>\<open>run_liveness.py\<close>). The lemmas
  show that an accepted action is backed by live rows, that reconciliation leaves no action on a
  finished job, and that it gives a run with an executable job a live next action.
\<close>

section \<open>Sets of statuses\<close>

definition TERMINAL_JOB :: "job_status list" where
  "TERMINAL_JOB = [SUCCEEDED, FAILED, BLOCKED, CANCELLED]"

definition TERMINAL_WORK :: "string list" where
  "TERMINAL_WORK = [''SUCCEEDED'', ''FAILED'', ''CANCELLED'', ''BLOCKED'', ''COMPLETED'']"

definition EXECUTABLE_JOB :: "job_status list" where
  "EXECUTABLE_JOB = [READY, LEASED, RUNNING, QUEUED, RETRY_WAIT]"

section \<open>Creating an action\<close>

definition work_by_id :: "string \<Rightarrow> db \<Rightarrow> remediation_work option" where
  "work_by_id w s = find_row (\<lambda>r. w_work_item_id r = w) (works s)"

text \<open>\<^verbatim>\<open>job["run_id"] and str(job["run_id"]) != str(run_id)\<close>.\<close>

definition run_mismatch :: "job \<Rightarrow> string \<Rightarrow> bool" where
  "run_mismatch j rid \<longleftrightarrow> truthy_str (j_run_id j) \<and> j_run_id j \<noteq> Some rid"

text \<open>\<^verbatim>\<open>_validate_action_backing\<close>: \<open>True\<close> where the function returns, \<open>False\<close> where it raises
  \<^verbatim>\<open>OrchestrationError\<close>.\<close>

definition validate_action_backing ::
    "string \<Rightarrow> string \<Rightarrow> int option \<Rightarrow> string option \<Rightarrow> iso option \<Rightarrow> db \<Rightarrow> bool" where
  "validate_action_backing ty rid job_id work_id due s =
     (case get_execution_run rid s of
        None \<Rightarrow> False
      | Some run \<Rightarrow>
          if ty = ''REMEDIATION_WORK'' then
            truthy_str work_id \<and>
            (case work_by_id (str_of work_id) s of
               None \<Rightarrow> False
             | Some w \<Rightarrow> w_run_id w = rid \<and>
                 (case job_id of
                    None \<Rightarrow> True
                  | Some i \<Rightarrow> (case job_by_id i s of
                                None \<Rightarrow> False | Some j \<Rightarrow> \<not> run_mismatch j rid)))
          else if ty = ''ACTIVE_ASSESSMENT'' then
            (case job_id of
               None \<Rightarrow> False
             | Some i \<Rightarrow> (case job_by_id i s of
                 None \<Rightarrow> False
               | Some j \<Rightarrow> \<not> run_mismatch j rid \<and> j_status j \<notin> set TERMINAL_JOB \<and>
                           truthy_str (j_source_candidate_sha j)))
          else if ty = ''PM_QUEUE'' then
            (case job_id of
               None \<Rightarrow> r_status run = ''WAITING_FOR_SPONSOR''
             | Some i \<Rightarrow> (case job_by_id i s of
                 None \<Rightarrow> False
               | Some j \<Rightarrow> \<not> run_mismatch j rid \<and> j_status j \<notin> set TERMINAL_JOB))
          else if ty \<in> {''SCHEDULED_RETRY'', ''EXECUTABLE_JOB''} then
            (case job_id of
               None \<Rightarrow> False
             | Some i \<Rightarrow> (case job_by_id i s of
                 None \<Rightarrow> False
               | Some j \<Rightarrow> \<not> run_mismatch j rid \<and> j_status j \<notin> set TERMINAL_JOB \<and>
                   \<not> (ty = ''SCHEDULED_RETRY'' \<and> j_status j \<noteq> RETRY_WAIT \<and> due = None)))
          else False)"

definition persist_run_next_action ::
    "string \<Rightarrow> string \<Rightarrow> string \<Rightarrow> int option \<Rightarrow> string option \<Rightarrow> iso option \<Rightarrow> dict option \<Rightarrow>
     string dbop" where
  "persist_run_next_action rid pid ty job_id work_id due payload =
     bindS (getS (validate_action_backing ty rid job_id work_id due)) (\<lambda>ok.
     thenS (guardS ok OrchestrationError)
     (bindS new_uuid (\<lambda>hex.
      bindS (getS (\<lambda>s. s)) (\<lambda>s.
        let aid = ''RNA-'' @ py_upper (take 10 hex);
            row = \<lparr>a_action_id = aid, a_run_id = rid, a_project_id = pid, a_action_type = ty,
                   a_status = Pending, a_orchestration_job_id = job_id,
                   a_remediation_work_id = work_id, a_due_at = due,
                   a_payload_json = (case payload of
                      None \<Rightarrow> None | Some d \<Rightarrow> if d = [] then None else Some (JText (JObj d))),
                   a_created_at = now_iso s, a_updated_at = now_iso s\<rparr>
        in if aid \<in> a_action_id ` set (actions s) then raiseS IntegrityError
           else thenS (modifyS (\<lambda>s. s\<lparr>actions := actions s @ [row]\<rparr>)) (returnS aid)))))"

section \<open>Live actions\<close>

definition sponsor_wait :: "next_action \<Rightarrow> bool" where
  "sponsor_wait a \<longleftrightarrow>
     (case a_payload_json a of
        Some (JText (JObj d)) \<Rightarrow> truthy (dict_get d ''sponsor_wait'')
      | _ \<Rightarrow> False)"

definition job_types :: "string list" where
  "job_types = [''ACTIVE_ASSESSMENT'', ''SCHEDULED_RETRY'', ''EXECUTABLE_JOB'', ''PM_QUEUE'']"

definition job_keeps_action_live :: "next_action \<Rightarrow> db \<Rightarrow> bool" where
  "job_keeps_action_live a s =
     (case a_orchestration_job_id a of
        None \<Rightarrow> a_action_type a \<notin> set job_types
      | Some i \<Rightarrow>
          (case job_by_id i s of
             None \<Rightarrow> False
           | Some j \<Rightarrow>
               \<not> run_mismatch j (a_run_id a) \<and> j_status j \<notin> set TERMINAL_JOB \<and>
               (a_action_type a = ''ACTIVE_ASSESSMENT'' \<longrightarrow> j_status j \<in> set EXECUTABLE_JOB) \<and>
               (a_action_type a = ''SCHEDULED_RETRY'' \<longrightarrow>
                  j_status j \<in> {RETRY_WAIT, READY, LEASED, RUNNING})))"

definition work_keeps_action_live :: "next_action \<Rightarrow> db \<Rightarrow> bool" where
  "work_keeps_action_live a s =
     (if truthy_str (a_remediation_work_id a) then
        (case work_by_id (str_of (a_remediation_work_id a)) s of
           None \<Rightarrow> False
         | Some w \<Rightarrow> w_run_id w = a_run_id a \<and> w_status w \<notin> set TERMINAL_WORK)
      else a_action_type a \<noteq> ''REMEDIATION_WORK'')"

definition next_action_is_live :: "next_action \<Rightarrow> db \<Rightarrow> bool" where
  "next_action_is_live a s =
     (if a_action_type a = ''PM_QUEUE'' \<and> sponsor_wait a \<and>
         (case get_execution_run (a_run_id a) s of
            None \<Rightarrow> False | Some run \<Rightarrow> r_status run = ''WAITING_FOR_SPONSOR'')
      then True
      else
        job_keeps_action_live a s \<and> work_keeps_action_live a s \<and>
        (if a_action_type a = ''REMEDIATION_WORK'' then truthy_str (a_remediation_work_id a)
         else a_action_type a \<in> set job_types \<and> a_orchestration_job_id a \<noteq> None))"

definition open_action :: "string \<Rightarrow> next_action \<Rightarrow> bool" where
  "open_action rid a \<longleftrightarrow> a_run_id a = rid \<and> a_status a \<in> {Pending, Claimed}"

definition list_active_next_actions :: "string \<Rightarrow> db \<Rightarrow> next_action list" where
  "list_active_next_actions rid s =
     filter (\<lambda>a. next_action_is_live a s)
       (sort_key a_created_at (filter (open_action rid) (actions s)))"

section \<open>Finishing actions\<close>

definition set_actions :: "(next_action \<Rightarrow> bool) \<Rightarrow> action_status \<Rightarrow> unit dbop" where
  "set_actions p st = modifyS (\<lambda>s. s\<lparr>actions := update_where p
     (\<lambda>a. a\<lparr>a_status := st, a_updated_at := now_iso s\<rparr>) (actions s)\<rparr>)"

definition complete_run_next_action :: "string \<Rightarrow> unit dbop" where
  "complete_run_next_action aid = set_actions (\<lambda>a. a_action_id a = aid) Completed"

definition cancel_run_next_action :: "string \<Rightarrow> unit dbop" where
  "cancel_run_next_action aid = set_actions (\<lambda>a. a_action_id a = aid) Cancelled"

definition complete_run_next_action_for_job :: "int \<Rightarrow> unit dbop" where
  "complete_run_next_action_for_job i =
     set_actions (\<lambda>a. a_orchestration_job_id a = Some i \<and> a_status a \<in> {Pending, Claimed}) Completed"

definition complete_run_next_action_for_work :: "string \<Rightarrow> unit dbop" where
  "complete_run_next_action_for_work w =
     set_actions (\<lambda>a. a_remediation_work_id a = Some w \<and> a_status a \<in> {Pending, Claimed}) Completed"

section \<open>Reconciliation\<close>

definition stale_action :: "db \<Rightarrow> next_action \<Rightarrow> bool" where
  "stale_action s a =
     (case a_orchestration_job_id a of
        None \<Rightarrow> False
      | Some i \<Rightarrow> (case job_by_id i s of
                    None \<Rightarrow> False | Some j \<Rightarrow> j_status j \<in> set TERMINAL_JOB))"

definition complete_stale :: "next_action \<Rightarrow> string list dbop" where
  "complete_stale a =
     bindS (getS (\<lambda>s. stale_action s a)) (\<lambda>stale.
       if stale then thenS (complete_run_next_action (a_action_id a)) (returnS [a_action_id a])
       else returnS [])"

definition reconcile_run_next_actions :: "string \<Rightarrow> string \<Rightarrow> string list dbop" where
  "reconcile_run_next_actions rid pid =
     bindS (getS (get_execution_run rid)) (\<lambda>row.
     case row of None \<Rightarrow> returnS [] | Some run \<Rightarrow>
     if is_terminal_run_status (r_status run) then returnS [] else
     bindS (getS (\<lambda>s. sort_key a_created_at (filter (open_action rid) (actions s)))) (\<lambda>open.
     bindS (mapS complete_stale open) (\<lambda>dones.
     bindS (getS (list_active_next_actions rid)) (\<lambda>live.
     if live \<noteq> [] then returnS (concat dones) else
     bindS (getS (list_jobs_for_run rid (Some EXECUTABLE_JOB))) (\<lambda>ready.
     case sort_key (\<lambda>j. (j_priority j, j_id j)) ready of
       [] \<Rightarrow> returnS (concat dones)
     | next_job # _ \<Rightarrow>
         bindS (persist_run_next_action rid pid ''EXECUTABLE_JOB'' (Some (j_id next_job)) None None
             (Some [(''job_human_id'', JStr (j_human_id next_job)), (''reconciled'', JBool True)]))
           (\<lambda>aid. returnS (concat dones @ [aid])))))))"

section \<open>No run is inert (\<^verbatim>\<open>run_liveness.py\<close>)\<close>

definition list_outstanding_remediation_work :: "string \<Rightarrow> db \<Rightarrow> remediation_work list" where
  "list_outstanding_remediation_work rid s =
     filter (\<lambda>w. w_status w \<in> {''ASSIGNED'', ''RUNNING''})
       (sort_key w_created_at (filter (\<lambda>w. w_run_id w = rid) (works s)))"

definition has_durable_next_action :: "string \<Rightarrow> db \<Rightarrow> bool" where
  "has_durable_next_action rid s =
     (case get_execution_run rid s of
        None \<Rightarrow> False
      | Some run \<Rightarrow>
          r_status run = ''WAITING_FOR_SPONSOR'' \<or>
          list_jobs_for_run rid (Some EXECUTABLE_JOB) s \<noteq> [] \<or>
          list_outstanding_remediation_work rid s \<noteq> [] \<or>
          list_active_next_actions rid s \<noteq> [])"

definition classify_run_next_action :: "string \<Rightarrow> db \<Rightarrow> string" where
  "classify_run_next_action rid s =
     (case get_execution_run rid s of
        None \<Rightarrow> ''terminal''
      | Some run \<Rightarrow>
          if is_terminal_run_status (r_status run) then ''terminal''
          else if r_status run = ''WAITING_FOR_SPONSOR'' then ''SPONSOR_WAIT''
          else (case list_active_next_actions rid s of
                  a # _ \<Rightarrow> a_action_type a
                | [] \<Rightarrow> if has_durable_next_action rid s then ''EXECUTABLE'' else ''RUN_INERT''))"

definition assert_run_has_next_action :: "string \<Rightarrow> unit dbop" where
  "assert_run_has_next_action rid =
     bindS (getS (classify_run_next_action rid)) (\<lambda>st. guardS (st \<noteq> ''RUN_INERT'') AssertionError)"

end
