(* ===== verification/Job_Lifecycle.thy ===== *)
theory Job_Lifecycle
  imports Next_Actions
begin

text \<open>
  The life of a job in \<^verbatim>\<open>store.py\<close>: leases, the \<^verbatim>\<open>mark_*\<close> and \<^verbatim>\<open>promote_*\<close> transitions, recovery of
  expired leases and the governed reclaim. Every UPDATE of the job table is a row function (named
  after its operation, ending in \<open>_row\<close>) applied by \<open>update_job\<close>. The invariants and their
  preservation are in \<open>Store_Invariant\<close>.
\<close>

section \<open>Row functions: the SET clauses\<close>

definition update_job :: "int \<Rightarrow> (iso \<Rightarrow> job \<Rightarrow> job) \<Rightarrow> unit dbop" where
  "update_job i f = modifyS (\<lambda>s. s\<lparr>jobs := update_where (\<lambda>j. j_id j = i) (f (now_iso s)) (jobs s)\<rparr>)"

definition running_row :: "iso \<Rightarrow> job \<Rightarrow> job" where
  "running_row now j = j\<lparr>j_status := RUNNING, j_started_at := Some now, j_updated_at := now\<rparr>"

definition succeeded_row ::
    "string option \<Rightarrow> string option \<Rightarrow> string option \<Rightarrow> iso \<Rightarrow> job \<Rightarrow> job" where
  "succeeded_row output_ref candidate oc now j =
     j\<lparr>j_status := SUCCEEDED, j_output_ref := output_ref,
       j_candidate_git_sha := (case candidate of None \<Rightarrow> j_candidate_git_sha j | Some c \<Rightarrow> Some c),
       j_outcome := (case oc of None \<Rightarrow> j_outcome j | Some v \<Rightarrow> Some v),
       j_completed_at := Some now, j_updated_at := now, j_last_error := None\<rparr>"

definition cancelled_row :: "string \<Rightarrow> iso \<Rightarrow> job \<Rightarrow> job" where
  "cancelled_row reason now j =
     j\<lparr>j_status := CANCELLED, j_last_error := Some reason, j_completed_at := Some now,
       j_updated_at := now\<rparr>"

definition blocked_row :: "string \<Rightarrow> iso \<Rightarrow> job \<Rightarrow> job" where
  "blocked_row err now j =
     j\<lparr>j_status := BLOCKED, j_last_error := Some err, j_completed_at := Some now,
       j_updated_at := now, j_started_at := None\<rparr>"

definition revalidated_row :: "iso \<Rightarrow> job \<Rightarrow> job" where
  "revalidated_row now j =
     j\<lparr>j_status := READY, j_ready_at := Some now, j_completed_at := None, j_started_at := None,
       j_last_error := None, j_updated_at := now\<rparr>"

definition retry_ready_row :: "iso \<Rightarrow> job \<Rightarrow> job" where
  "retry_ready_row now j =
     j\<lparr>j_status := READY, j_ready_at := Some now, j_updated_at := now, j_last_error := None,
       j_retry_at := None\<rparr>"

definition queued_ready_row :: "iso \<Rightarrow> job \<Rightarrow> job" where
  "queued_ready_row now j =
     j\<lparr>j_status := READY,
       j_ready_at := (case j_ready_at j of None \<Rightarrow> Some now | Some t \<Rightarrow> Some t),
       j_updated_at := now, j_last_error := None\<rparr>"

text \<open>The retry policy of \<^verbatim>\<open>mark_failure\<close> and its delay: \<^verbatim>\<open>min(30 * attempt, 300)\<close> seconds.\<close>

definition failure_status :: "bool \<Rightarrow> job \<Rightarrow> job_status" where
  "failure_status blocked j =
     (if blocked then BLOCKED
      else if j_max_attempts j \<le> j_attempt j + 1 then FAILED else RETRY_WAIT)"

definition retry_delay :: "int \<Rightarrow> int" where
  "retry_delay attempt = min (30 * attempt) 300"

definition failure_row :: "bool \<Rightarrow> string \<Rightarrow> string option \<Rightarrow> moment \<Rightarrow> job \<Rightarrow> job" where
  "failure_row blocked err output_ref m j =
     (let st = failure_status blocked j; now = iso_of m in
      j\<lparr>j_status := st, j_attempt := j_attempt j + 1, j_last_error := Some err,
        j_output_ref := (case output_ref of None \<Rightarrow> j_output_ref j | Some r \<Rightarrow> Some r),
        j_completed_at := (if st \<in> {FAILED, BLOCKED} then Some now else j_completed_at j),
        j_updated_at := now,
        j_retry_at := (if st = RETRY_WAIT
                       then Some (iso_of (m + of_iso (retry_delay (j_attempt j + 1)))) else None)\<rparr>)"

text \<open>The policy of \<^verbatim>\<open>recover_expired_leases\<close>.\<close>

definition expired_status :: "job \<Rightarrow> job_status" where
  "expired_status j =
     (if j_status j = LEASED then READY
      else if j_max_attempts j \<le> j_attempt j + 1 then FAILED else RETRY_WAIT)"

definition expired_attempt :: "job \<Rightarrow> int" where
  "expired_attempt j = (if j_status j = LEASED then j_attempt j else j_attempt j + 1)"

definition expired_error :: "job \<Rightarrow> string" where
  "expired_error j =
     (let counts = show_int (expired_attempt j) @ ''/'' @ show_int (j_max_attempts j) @ '')'' in
      if j_status j = LEASED then ''lease expired before start; recovered to READY''
      else if expired_status j = FAILED
      then ''lease expired while RUNNING; max attempts exhausted ('' @ counts
      else ''lease expired while RUNNING; recovered to RETRY_WAIT (attempt '' @ counts)"

text \<open>The values come from the row \<open>j\<close> of the join, the columns kept from the row \<open>k\<close> updated.\<close>

definition expired_row :: "job \<Rightarrow> iso \<Rightarrow> job \<Rightarrow> job" where
  "expired_row j now k =
     (let st = expired_status j in
      k\<lparr>j_status := st, j_attempt := expired_attempt j, j_started_at := None,
        j_completed_at := (if st = FAILED then Some now else j_completed_at k),
        j_updated_at := now, j_last_error := Some (expired_error j),
        j_ready_at := (if st = READY
                       then (case j_ready_at k of None \<Rightarrow> Some now | Some t \<Rightarrow> Some t)
                       else j_ready_at k)\<rparr>)"

definition leased_row :: "iso \<Rightarrow> job \<Rightarrow> job" where
  "leased_row now j = j\<lparr>j_status := LEASED, j_updated_at := now\<rparr>"

definition unleased_row :: "iso \<Rightarrow> job \<Rightarrow> job" where
  "unleased_row now j = j\<lparr>j_status := READY, j_updated_at := now\<rparr>"

definition worktree_row :: "string \<Rightarrow> string \<Rightarrow> string option \<Rightarrow> iso \<Rightarrow> job \<Rightarrow> job" where
  "worktree_row name path base now j =
     j\<lparr>j_worktree_name := Some name, j_worktree_path := Some path,
       j_base_git_sha := (case base of None \<Rightarrow> j_base_git_sha j | Some b \<Rightarrow> Some b),
       j_updated_at := now\<rparr>"

definition outcome_row :: "string \<Rightarrow> int option \<Rightarrow> iso \<Rightarrow> job \<Rightarrow> job" where
  "outcome_row oc by_job now j =
     j\<lparr>j_outcome := Some oc,
       j_superseded_by_job_id :=
         (case by_job of None \<Rightarrow> j_superseded_by_job_id j | Some i \<Rightarrow> Some i),
       j_updated_at := now\<rparr>"

definition assignment_row :: "dict \<Rightarrow> iso \<Rightarrow> job \<Rightarrow> job" where
  "assignment_row d now j = j\<lparr>j_assignment_json := Some (JText (JObj d)), j_updated_at := now\<rparr>"

definition provenance_row :: "int option \<Rightarrow> string option \<Rightarrow> iso \<Rightarrow> job \<Rightarrow> job" where
  "provenance_row src sha now j =
     j\<lparr>j_source_delivery_job_id := src, j_source_candidate_sha := sha, j_updated_at := now\<rparr>"

section \<open>Leases\<close>

definition active_lease_for_job :: "int \<Rightarrow> db \<Rightarrow> worker_lease option" where
  "active_lease_for_job i s =
     find_row (\<lambda>l. l_job_id l = i \<and> l_released_at l = None) (leases s)"

definition released_row :: "string \<Rightarrow> iso \<Rightarrow> worker_lease \<Rightarrow> worker_lease" where
  "released_row reason now l = l\<lparr>l_released_at := Some now, l_release_reason := Some reason\<rparr>"

definition release_lease :: "int \<Rightarrow> string \<Rightarrow> unit dbop" where
  "release_lease i reason =
     thenS (modifyS (\<lambda>s. s\<lparr>leases := update_where (\<lambda>l. l_job_id l = i \<and> l_released_at l = None)
              (released_row reason (now_iso s)) (leases s)\<rparr>))
       (append_run_event i ''lease.released'' None (Some reason) None)"

text \<open>The rows of the join in \<^verbatim>\<open>recover_expired_leases\<close> and \<^verbatim>\<open>list_expired_lease_job_ids\<close>, and
  their filter: expired at \<open>m\<close>, and of the project when one is given.\<close>

definition held_rows :: "db \<Rightarrow> (worker_lease \<times> job) list" where
  "held_rows s = concat (map (\<lambda>l. case job_by_id (l_job_id l) s of
       None \<Rightarrow> []
     | Some j \<Rightarrow> if l_released_at l = None \<and> j_status j \<in> {LEASED, RUNNING} then [(l, j)] else [])
     (leases s))"

definition is_expired :: "moment \<Rightarrow> string option \<Rightarrow> worker_lease \<times> job \<Rightarrow> bool" where
  "is_expired m pid lj \<longleftrightarrow>
     of_iso (l_expires_at (fst lj)) \<le> m \<and> matches pid (j_project_human_id (snd lj))"

definition list_expired_lease_job_ids :: "moment \<Rightarrow> string option \<Rightarrow> db \<Rightarrow> int list" where
  "list_expired_lease_job_ids m pid s = map (\<lambda>(l, j). j_id j) (filter (is_expired m pid) (held_rows s))"

definition recover_one :: "iso \<Rightarrow> worker_lease \<times> job \<Rightarrow> int dbop" where
  "recover_one now lj = (case lj of (l, j) \<Rightarrow>
     thenS (modifyS (\<lambda>s. s\<lparr>leases := update_where (\<lambda>k. l_id k = l_id l \<and> l_released_at k = None)
              (released_row ''expired'' now) (leases s)\<rparr>))
     (thenS (modifyS (\<lambda>s. s\<lparr>jobs := update_where (\<lambda>k. j_id k = j_id j)
                (expired_row j now) (jobs s)\<rparr>))
     (thenS (append_run_event (j_id j) ''lease.expired_recovered''
              (Some (job_status_text (expired_status j))) (Some (expired_error j))
              (Some [(''prior_status'', JStr (job_status_text (j_status j))),
                     (''attempt'', JInt (expired_attempt j)),
                     (''max_attempts'', JInt (j_max_attempts j))]))
       (returnS (j_id j)))))"

definition recover_expired_leases :: "moment option \<Rightarrow> string option \<Rightarrow> int list dbop" where
  "recover_expired_leases now pid =
     bindS (getS clk) (\<lambda>c.
       let m = (case now of None \<Rightarrow> c | Some t \<Rightarrow> t) in
       bindS (getS held_rows) (\<lambda>rows. mapS (recover_one (iso_of m)) (filter (is_expired m pid) rows)))"

definition release_reason :: "job_status \<Rightarrow> string" where
  "release_reason st = ''failure:'' @ job_status_text st"

definition acquire_lease :: "job \<Rightarrow> string \<Rightarrow> int \<Rightarrow> moment option \<Rightarrow> worker_lease dbop" where
  "acquire_lease job worker lease_seconds now =
     (if lease_seconds \<le> 0 then raiseS LeaseError else
      thenS (recover_expired_leases now None)
      (bindS (getS clk) (\<lambda>c.
       let m = (case now of None \<Rightarrow> c | Some t \<Rightarrow> t);
           leased_at = iso_of m;
           expires_at = iso_of (m + of_iso lease_seconds);
           i = j_id job
       in
       thenS (modifyS (\<lambda>s. s\<lparr>leases :=
                filter (\<lambda>l. \<not> (l_job_id l = i \<and> l_released_at l \<noteq> None)) (leases s)\<rparr>))
       (bindS (getS (\<lambda>s. row_count (\<lambda>j. j_id j = i \<and> j_status j = READY) (jobs s))) (\<lambda>n.
        thenS (modifyS (\<lambda>s. s\<lparr>jobs := update_where (\<lambda>j. j_id j = i \<and> j_status j = READY)
                 (leased_row leased_at) (jobs s)\<rparr>))
        (thenS (guardS (n = 1) LeaseError)
         (bindS (getS (\<lambda>s. i \<in> l_job_id ` set (leases s))) (\<lambda>conflict.
           if conflict then
             thenS (modifyS (\<lambda>s. s\<lparr>jobs := update_where (\<lambda>j. j_id j = i)
                      (unleased_row leased_at) (jobs s)\<rparr>))
               (raiseS LeaseError)
           else
             bindS (getS (\<lambda>s. \<lparr>l_id = lease_seq s + 1, l_job_id = i, l_worker_id = worker,
                               l_leased_at = leased_at, l_expires_at = expires_at,
                               l_released_at = None, l_release_reason = None\<rparr>)) (\<lambda>l.
             thenS (modifyS (\<lambda>s. s\<lparr>leases := leases s @ [l], lease_seq := l_id l\<rparr>))
             (thenS (append_run_event i ''lease.acquired'' (Some ''LEASED'')
                       (Some (''Lease acquired by '' @ worker))
                       (Some [(''expires_at'', JInt expires_at),
                              (''lease_seconds'', JInt lease_seconds)]))
               (returnS l)))))))))))"

section \<open>Transitions\<close>

definition sync_next_actions_for_terminal_job :: "job \<Rightarrow> unit dbop" where
  "sync_next_actions_for_terminal_job job =
     (if j_status job \<notin> set TERMINAL_STATUSES then returnS ()
      else tryS
        (thenS (complete_run_next_action_for_job (j_id job))
           (if truthy_str (j_run_id job)
            then thenS (reconcile_run_next_actions (str_of (j_run_id job)) (j_project_human_id job))
                   (returnS ())
            else returnS ()))
        (\<lambda>_. returnS ()))"

definition mark_running :: "int \<Rightarrow> job dbop" where
  "mark_running i =
     bindS (getS (\<lambda>s. row_count (\<lambda>j. j_id j = i \<and> j_status j = LEASED) (jobs s))) (\<lambda>n.
     thenS (modifyS (\<lambda>s. s\<lparr>jobs := update_where (\<lambda>j. j_id j = i \<and> j_status j = LEASED)
              (running_row (now_iso s)) (jobs s)\<rparr>))
     (thenS (guardS (n = 1) OrchestrationError)
     (thenS (append_run_event i ''job.running'' (Some ''RUNNING'') None None) (get_job i))))"

definition mark_succeeded ::
    "int \<Rightarrow> string option \<Rightarrow> string option \<Rightarrow> string option \<Rightarrow> job dbop" where
  "mark_succeeded i output_ref candidate oc =
     thenS (update_job i (succeeded_row output_ref candidate oc))
     (thenS (append_run_event i ''job.succeeded'' (Some ''SUCCEEDED'')
               (Some ''Worker task completed (not QA/release acceptance)'')
               (if truthy_str oc then Some [(''outcome'', JStr (str_of oc))] else None))
     (thenS (release_lease i ''succeeded'')
     (bindS (get_job i) (\<lambda>updated.
      thenS (sync_next_actions_for_terminal_job updated) (returnS updated)))))"

definition mark_cancelled :: "int \<Rightarrow> string \<Rightarrow> job dbop" where
  "mark_cancelled i reason =
     thenS (update_job i (cancelled_row reason))
     (thenS (append_run_event i ''job.cancelled'' (Some ''CANCELLED'') (Some reason) None)
     (thenS (release_lease i ''cancelled'') (get_job i)))"

definition mark_blocked :: "int \<Rightarrow> string \<Rightarrow> string \<Rightarrow> job dbop" where
  "mark_blocked i err reason =
     thenS (update_job i (blocked_row err))
     (thenS (append_run_event i ''job.blocked'' (Some ''BLOCKED'') (Some err) None)
     (thenS (release_lease i reason) (get_job i)))"

definition opt_json :: "string option \<Rightarrow> json" where
  "opt_json v = (case v of None \<Rightarrow> JNull | Some t \<Rightarrow> JStr t)"

definition mark_ready_from_blocked :: "int \<Rightarrow> string \<Rightarrow> job dbop" where
  "mark_ready_from_blocked i reason =
     bindS (get_job i) (\<lambda>job.
     thenS (guardS (j_status job = BLOCKED) OrchestrationError)
     (thenS (modifyS (\<lambda>s. s\<lparr>jobs := update_where (\<lambda>j. j_id j = i \<and> j_status j = BLOCKED)
               (revalidated_row (now_iso s)) (jobs s)\<rparr>))
     (thenS (append_run_event i ''job.revalidated_ready'' (Some ''READY'') (Some reason)
               (Some [(''previous_error'', opt_json (j_last_error job)),
                      (''work_item_type'', opt_json (j_work_item_type job)),
                      (''work_item_human_id'', opt_json (j_work_item_human_id job)),
                      (''base_git_sha'', opt_json (j_base_git_sha job)),
                      (''repository_root'', JStr (j_repository_root job)),
                      (''project_human_id'', JStr (j_project_human_id job))]))
       (get_job i))))"

definition promote_retry_wait_to_ready :: "int \<Rightarrow> string \<Rightarrow> moment option \<Rightarrow> job dbop" where
  "promote_retry_wait_to_ready i reason now =
     bindS (get_job i) (\<lambda>job.
     thenS (guardS (j_status job = RETRY_WAIT) OrchestrationError)
     (bindS (getS clk) (\<lambda>c.
      let m = (case now of None \<Rightarrow> c | Some t \<Rightarrow> t) in
      thenS (guardS (\<not> (case j_retry_at job of None \<Rightarrow> False | Some t \<Rightarrow> m < of_iso t))
               OrchestrationError)
      (bindS (getS (\<lambda>s. row_count (\<lambda>j. j_id j = i \<and> j_status j = RETRY_WAIT) (jobs s))) (\<lambda>n.
      thenS (modifyS (\<lambda>s. s\<lparr>jobs := update_where (\<lambda>j. j_id j = i \<and> j_status j = RETRY_WAIT)
               (retry_ready_row (iso_of m)) (jobs s)\<rparr>))
      (thenS (guardS (n = 1) OrchestrationError)
      (thenS (append_run_event i ''job.promoted_ready'' (Some ''READY'') (Some reason) None)
        (get_job i))))))))"

definition promote_queued_to_ready :: "int \<Rightarrow> string \<Rightarrow> job dbop" where
  "promote_queued_to_ready i reason =
     bindS (get_job i) (\<lambda>job.
       if j_status job \<noteq> QUEUED then returnS job
       else
         thenS (modifyS (\<lambda>s. s\<lparr>jobs := update_where (\<lambda>j. j_id j = i \<and> j_status j = QUEUED)
                  (queued_ready_row (now_iso s)) (jobs s)\<rparr>))
         (thenS (append_run_event i ''job.promoted_ready'' (Some ''READY'') (Some reason)
                   (Some [(''previous_status'', JStr ''QUEUED'')]))
           (get_job i)))"

definition mark_failure :: "int \<Rightarrow> string \<Rightarrow> string option \<Rightarrow> bool \<Rightarrow> job dbop" where
  "mark_failure i err output_ref blocked =
     bindS (get_job i) (\<lambda>job.
     let st = failure_status blocked job in
     thenS (modifyS (\<lambda>s. s\<lparr>jobs := update_where (\<lambda>j. j_id j = i)
              (failure_row blocked err output_ref (clk s)) (jobs s)\<rparr>))
     (thenS (append_run_event i (if st \<noteq> RETRY_WAIT then ''job.failed'' else ''job.retry_wait'')
               (Some (job_status_text st)) (Some err)
               (Some [(''attempt'', JInt (j_attempt job + 1)),
                      (''max_attempts'', JInt (j_max_attempts job))]))
     (thenS (release_lease i (release_reason st))
     (bindS (get_job i) (\<lambda>updated.
      thenS (sync_next_actions_for_terminal_job updated) (returnS updated))))))"

definition reclaim_interrupted_running_job :: "string \<Rightarrow> string \<Rightarrow> job dbop" where
  "reclaim_interrupted_running_job human_id reason =
     bindS (getS (get_job_by_human_id human_id)) (\<lambda>row.
     case row of None \<Rightarrow> raiseS OrchestrationError | Some job \<Rightarrow>
     thenS (guardS (j_status job \<in> {RUNNING, LEASED}) OrchestrationError)
     (thenS (modifyS (\<lambda>s. s\<lparr>leases := update_where
               (\<lambda>l. l_job_id l = j_id job \<and> l_released_at l = None)
               (\<lambda>l. l\<lparr>l_expires_at := iso_of (clk s - of_iso 5)\<rparr>) (leases s)\<rparr>))
     (thenS (append_run_event (j_id job) ''lease.reclaim_requested''
               (Some (job_status_text (j_status job))) (Some reason)
               (Some [(''previous_status'', JStr (job_status_text (j_status job)))]))
     (bindS (recover_expired_leases None None) (\<lambda>recovered.
      if j_id job \<notin> set recovered then
        thenS (release_lease (j_id job) ''reclaim_interrupted'')
          (mark_failure (j_id job) reason None False)
      else get_job (j_id job))))))"

section \<open>Other writes to a job\<close>

definition update_job_worktree :: "int \<Rightarrow> string \<Rightarrow> string \<Rightarrow> string option \<Rightarrow> job dbop" where
  "update_job_worktree i name path base =
     thenS (update_job i (worktree_row name path base)) (get_job i)"

definition set_job_outcome :: "int \<Rightarrow> string \<Rightarrow> int option \<Rightarrow> job dbop" where
  "set_job_outcome i oc by_job =
     thenS (case by_job of None \<Rightarrow> returnS [] | Some k \<Rightarrow> require_same_project [i, k])
     (thenS (update_job i (outcome_row oc by_job)) (get_job i))"

definition set_job_assignment :: "int \<Rightarrow> dict \<Rightarrow> job dbop" where
  "set_job_assignment i d = thenS (update_job i (assignment_row d)) (get_job i)"

definition set_job_source_provenance :: "int \<Rightarrow> int option \<Rightarrow> string option \<Rightarrow> job dbop" where
  "set_job_source_provenance i src sha =
     thenS (case src of None \<Rightarrow> returnS [] | Some k \<Rightarrow> require_same_project [i, k])
     (thenS (update_job i (provenance_row src sha)) (get_job i))"

definition authority_row :: "string \<Rightarrow> iso \<Rightarrow> job \<Rightarrow> job" where
  "authority_row authority now j = j\<lparr>j_sponsor_authority := Some authority, j_updated_at := now\<rparr>"

definition set_job_sponsor_authority :: "int \<Rightarrow> string \<Rightarrow> job dbop" where
  "set_job_sponsor_authority i authority =
     thenS (update_job i (authority_row authority))
     (thenS (append_run_event i ''sponsor.granted'' None (Some authority) None) (get_job i))"

end
