(* ===== verification/Store_Invariant.thy ===== *)
theory Store_Invariant
  imports Job_Lifecycle
begin

text \<open>
  The invariant of the job store and its preservation by every operation of \<open>Job_Store\<close> and
  \<open>Job_Lifecycle\<close>: keys are unique, a project and its repository determine each other, dependency
  edges are irreflexive and stay inside a project, and a job is LEASED or RUNNING exactly while an
  unreleased lease row names it. The locale \<open>identity_update\<close> is the contract of the row functions:
  no UPDATE of the store rewrites the identity of a job.
\<close>

section \<open>The core tables and what leaves them alone\<close>

definition core ::
    "db \<Rightarrow> job list \<times> int \<times> worker_lease list \<times> int \<times> (int \<times> int) list \<times> (string \<Rightarrow> string)" where
  "core s = (jobs s, job_seq s, leases s, lease_seq s, deps s, root_key s)"

lemma core_eqD:
  assumes "core s = core t"
  shows "jobs s = jobs t" "job_seq s = job_seq t" "leases s = leases t" "lease_seq s = lease_seq t"
    "deps s = deps t" "root_key s = root_key t"
  using assms by (simp_all add: core_def)

lemma untouched_core_new_uuid [frames]: "untouched core new_uuid"
  by (simp add: untouched_def new_uuid_def core_def)

lemma untouched_core_get_job [frames]: "untouched core (get_job i)"
  unfolding get_job_def by (intro frames)

lemma untouched_core_job_project [frames]: "untouched core (job_project_human_id i)"
  unfolding job_project_human_id_def by (intro frames)

lemma untouched_core_require_same_project [frames]: "untouched core (require_same_project ids)"
  unfolding require_same_project_def by (auto intro!: frames split: list.splits)

lemma untouched_core_append_run_event [frames]: "untouched core (append_run_event i ev st msg pl)"
  unfolding append_run_event_def by (intro frames) (simp add: core_def)

lemma untouched_core_set_actions [frames]: "untouched core (set_actions p st)"
  unfolding set_actions_def by (intro frames) (simp add: core_def)

lemma untouched_core_persist [frames]:
  "untouched core (persist_run_next_action rid pid ty i w due pl)"
  unfolding persist_run_next_action_def Let_def by (intro frames) (simp add: core_def)

lemma untouched_core_complete_stale [frames]: "untouched core (complete_stale a)"
  unfolding complete_stale_def complete_run_next_action_def by (intro frames)

lemma untouched_core_reconcile [frames]: "untouched core (reconcile_run_next_actions rid pid)"
  unfolding reconcile_run_next_actions_def by (intro frames)

lemma untouched_core_sync [frames]: "untouched core (sync_next_actions_for_terminal_job j)"
  unfolding sync_next_actions_for_terminal_job_def complete_run_next_action_for_job_def
  by (intro frames)

section \<open>The invariant\<close>

definition holds_lease :: "job \<Rightarrow> bool" where
  "holds_lease j \<longleftrightarrow> j_status j = LEASED \<or> j_status j = RUNNING"

definition jobs_keyed :: "db \<Rightarrow> bool" where
  "jobs_keyed s \<longleftrightarrow> distinct (map j_id (jobs s)) \<and> distinct (map j_human_id (jobs s)) \<and>
     (\<forall>j \<in> set (jobs s). j_id j \<le> job_seq s)"

definition isolated :: "db \<Rightarrow> bool" where
  "isolated s \<longleftrightarrow> (\<forall>j \<in> set (jobs s). \<forall>k \<in> set (jobs s).
     j_project_human_id j = j_project_human_id k \<longleftrightarrow>
     root_key s (j_repository_root j) = root_key s (j_repository_root k))"

definition deps_inside :: "db \<Rightarrow> bool" where
  "deps_inside s \<longleftrightarrow> distinct (deps s) \<and> (\<forall>(i, d) \<in> set (deps s). i \<noteq> d \<and>
     (\<exists>j \<in> set (jobs s). \<exists>k \<in> set (jobs s). j_id j = i \<and> j_id k = d \<and>
        j_project_human_id j = j_project_human_id k))"

definition leases_keyed :: "db \<Rightarrow> bool" where
  "leases_keyed s \<longleftrightarrow> distinct (map l_job_id (leases s)) \<and> distinct (map l_id (leases s)) \<and>
     (\<forall>l \<in> set (leases s). l_id l \<le> lease_seq s \<and> l_job_id l \<in> j_id ` set (jobs s))"

definition leases_held :: "db \<Rightarrow> bool" where
  "leases_held s \<longleftrightarrow> (\<forall>j \<in> set (jobs s). holds_lease j \<longleftrightarrow>
     (\<exists>l \<in> set (leases s). l_job_id l = j_id j \<and> l_released_at l = None))"

definition store_inv :: "db \<Rightarrow> bool" where
  "store_inv s \<longleftrightarrow> jobs_keyed s \<and> isolated s \<and> deps_inside s \<and> leases_keyed s \<and> leases_held s"

lemmas store_inv_defs = store_inv_def jobs_keyed_def isolated_def deps_inside_def
  leases_keyed_def leases_held_def

lemma store_inv_core: "core s = core t \<Longrightarrow> store_inv s \<Longrightarrow> store_inv t"
  by (auto simp: store_inv_defs core_def)

lemma keeps_store_inv_frame: "untouched core m \<Longrightarrow> keeps store_inv m"
  by (rule keeps_untouched [of core]) (auto intro: store_inv_core)

lemma store_inv_job_by_id:
  "store_inv s \<Longrightarrow> job_by_id i s = Some j \<longleftrightarrow> j \<in> set (jobs s) \<and> j_id j = i"
  by (simp add: store_inv_def jobs_keyed_def job_by_id_def find_row_Some_key)

lemma store_inv_human_id:
  "store_inv s \<Longrightarrow> get_job_by_human_id h s = Some j \<longleftrightarrow> j \<in> set (jobs s) \<and> j_human_id j = h"
  by (simp add: store_inv_def jobs_keyed_def get_job_by_human_id_def find_row_Some_key)

lemma store_inv_job_unique:
  "store_inv s \<Longrightarrow> j \<in> set (jobs s) \<Longrightarrow> k \<in> set (jobs s) \<Longrightarrow> j_id j = j_id k \<Longrightarrow> j = k"
  by (metis store_inv_job_by_id option.inject)

lemma store_inv_lease_unique:
  "store_inv s \<Longrightarrow> l \<in> set (leases s) \<Longrightarrow> k \<in> set (leases s) \<Longrightarrow> l_job_id l = l_job_id k \<Longrightarrow> l = k"
  unfolding store_inv_def leases_keyed_def by (metis distinct_map inj_onD)

lemma store_inv_empty: "store_inv (empty_db t us rk)"
  by (simp add: store_inv_defs empty_db_def)

lemma inv_leases_update [simp]:
  "jobs_keyed (s\<lparr>leases := ls\<rparr>) = jobs_keyed s" "isolated (s\<lparr>leases := ls\<rparr>) = isolated s"
  "deps_inside (s\<lparr>leases := ls\<rparr>) = deps_inside s"
  "jobs_keyed (s\<lparr>leases := ls, jobs := js\<rparr>) = jobs_keyed (s\<lparr>jobs := js\<rparr>)"
  "isolated (s\<lparr>leases := ls, jobs := js\<rparr>) = isolated (s\<lparr>jobs := js\<rparr>)"
  "deps_inside (s\<lparr>leases := ls, jobs := js\<rparr>) = deps_inside (s\<lparr>jobs := js\<rparr>)"
  by (simp_all add: jobs_keyed_def isolated_def deps_inside_def)

section \<open>Row functions keep the identity of a job\<close>

definition same_identity :: "job \<Rightarrow> job \<Rightarrow> bool" where
  "same_identity j k \<longleftrightarrow> j_id j = j_id k \<and> j_human_id j = j_human_id k \<and>
     j_project_human_id j = j_project_human_id k \<and> j_repository_root j = j_repository_root k"

locale identity_update =
  fixes f :: "int \<Rightarrow> job \<Rightarrow> job"
  assumes identity: "same_identity (f now j) j"
begin

lemma f_simps [simp]:
  "j_id (f now j) = j_id j" "j_human_id (f now j) = j_human_id j"
  "j_project_human_id (f now j) = j_project_human_id j"
  "j_repository_root (f now j) = j_repository_root j"
  using identity [of now j] by (simp_all add: same_identity_def)

lemma map_id_update:
  "map j_id (update_where p (f now) js) = map j_id js"
  "map j_human_id (update_where p (f now) js) = map j_human_id js"
  by (simp_all add: map_update_where)

lemma job_by_id_update:
  "job_by_id i (s\<lparr>jobs := update_where p (f now) (jobs s)\<rparr>) =
   map_option (\<lambda>j. if p j then f now j else j) (job_by_id i s)"
  unfolding job_by_id_def by (simp add: find_row_update_where [where key = j_id])

lemma image_id_update: "j_id ` set (update_where p (f now) js) = j_id ` set js"
  by (metis list.set_map map_id_update(1))

text \<open>Keys, isolation and dependency edges survive any update of job rows.\<close>

lemma keyed_update:
  "jobs_keyed s \<Longrightarrow> jobs_keyed (s\<lparr>jobs := update_where p (f now) (jobs s)\<rparr>)"
  by (simp add: jobs_keyed_def map_id_update)

lemma isolated_update:
  "isolated s \<Longrightarrow> isolated (s\<lparr>jobs := update_where p (f now) (jobs s)\<rparr>)"
  by (simp add: isolated_def)

lemma deps_update:
  "deps_inside s \<Longrightarrow> deps_inside (s\<lparr>jobs := update_where p (f now) (jobs s)\<rparr>)"
  by (simp add: deps_inside_def if_distrib cong: if_cong)

lemma leases_keyed_update:
  "leases_keyed s \<Longrightarrow> leases_keyed (s\<lparr>jobs := update_where p (f now) (jobs s)\<rparr>)"
  by (simp add: leases_keyed_def image_id_update)

text \<open>An update that does not change whether a row holds a lease keeps the whole invariant.\<close>

lemma inv_update:
  assumes "store_inv s" "\<And>j. p j \<Longrightarrow> holds_lease (f now j) = holds_lease j"
  shows "store_inv (s\<lparr>jobs := update_where p (f now) (jobs s)\<rparr>)"
  using assms keyed_update isolated_update deps_update leases_keyed_update
  by (auto simp: store_inv_def leases_held_def)

lemma keeps_update:
  assumes "\<And>now j. p j \<Longrightarrow> holds_lease (f now j) = holds_lease j"
  shows "keeps store_inv (modifyS (\<lambda>s. s\<lparr>jobs := update_where p (f (g s)) (jobs s)\<rparr>))"
  using assms by (auto simp: keeps_def modifyS_def intro: inv_update)

text \<open>An update that ends a job, together with the release of its lease.\<close>

lemma inv_finish:
  assumes inv: "store_inv s" and ended: "\<And>j. \<not> holds_lease (f now j)"
    and q: "\<And>l. l \<in> set (leases s) \<Longrightarrow> l_released_at l = None \<Longrightarrow> q l \<longleftrightarrow> l_job_id l = i"
  shows "store_inv (s\<lparr>jobs := update_where (\<lambda>j. j_id j = i) (f now) (jobs s),
                      leases := update_where q (released_row r t) (leases s)\<rparr>)"
    (is "store_inv ?s'")
proof -
  have "leases_keyed ?s'"
    using inv by (simp add: store_inv_def leases_keyed_def image_id_update map_update_where
        released_row_def)
  moreover have "leases_held ?s'"
    using inv ended q unfolding store_inv_def leases_held_def
    by (auto simp: released_row_def split: if_splits) metis+
  ultimately show ?thesis
    using inv keyed_update isolated_update deps_update by (simp add: store_inv_def)
qed

end

interpretation running: identity_update running_row
  by unfold_locales (simp add: same_identity_def running_row_def)

interpretation succeeded: identity_update "succeeded_row ref c oc" for ref c oc
  by unfold_locales (simp add: same_identity_def succeeded_row_def)

interpretation cancelled: identity_update "cancelled_row r" for r
  by unfold_locales (simp add: same_identity_def cancelled_row_def)

interpretation blocked: identity_update "blocked_row e" for e
  by unfold_locales (simp add: same_identity_def blocked_row_def)

interpretation revalidated: identity_update revalidated_row
  by unfold_locales (simp add: same_identity_def revalidated_row_def)

interpretation retry_ready: identity_update retry_ready_row
  by unfold_locales (simp add: same_identity_def retry_ready_row_def)

interpretation queued_ready: identity_update queued_ready_row
  by unfold_locales (simp add: same_identity_def queued_ready_row_def)

interpretation failure: identity_update "failure_row b e ref" for b e ref
  by unfold_locales (simp add: same_identity_def failure_row_def Let_def)

interpretation expired: identity_update "expired_row j" for j
  by unfold_locales (simp add: same_identity_def expired_row_def Let_def)

interpretation leased: identity_update leased_row
  by unfold_locales (simp add: same_identity_def leased_row_def)

interpretation unleased: identity_update unleased_row
  by unfold_locales (simp add: same_identity_def unleased_row_def)

interpretation worktree: identity_update "worktree_row n p b" for n p b
  by unfold_locales (simp add: same_identity_def worktree_row_def)

interpretation outcome: identity_update "outcome_row oc b" for oc b
  by unfold_locales (simp add: same_identity_def outcome_row_def)

interpretation assignment: identity_update "assignment_row d" for d
  by unfold_locales (simp add: same_identity_def assignment_row_def)

interpretation provenance: identity_update "provenance_row src sha" for src sha
  by unfold_locales (simp add: same_identity_def provenance_row_def)

interpretation authority: identity_update "authority_row a" for a
  by unfold_locales (simp add: same_identity_def authority_row_def)

section \<open>Events and lease releases as state updates\<close>

definition logged ::
    "int \<Rightarrow> string \<Rightarrow> string option \<Rightarrow> string option \<Rightarrow> dict option \<Rightarrow> db \<Rightarrow> db" where
  "logged i ev st msg pl s = s\<lparr>run_events := run_events s @
     [\<lparr>e_id = run_event_seq s + 1, e_job_id = i, e_event_type = ev, e_status = st, e_message = msg,
       e_payload_json = map_option (\<lambda>d. JText (JObj d)) pl\<rparr>],
     run_event_seq := run_event_seq s + 1\<rparr>"

lemma logged_simps [simp]:
  "core (logged i ev st msg pl s) = core s" "jobs (logged i ev st msg pl s) = jobs s"
  "leases (logged i ev st msg pl s) = leases s" "clk (logged i ev st msg pl s) = clk s"
  "runs (logged i ev st msg pl s) = runs s" "works (logged i ev st msg pl s) = works s"
  "actions (logged i ev st msg pl s) = actions s" "uuids (logged i ev st msg pl s) = uuids s"
  "uuid_next (logged i ev st msg pl s) = uuid_next s" "now_iso (logged i ev st msg pl s) = now_iso s"
  "job_by_id k (logged i ev st msg pl s) = job_by_id k s"
  "deps (logged i ev st msg pl s) = deps s" "controls (logged i ev st msg pl s) = controls s"
  "lease_seq (logged i ev st msg pl s) = lease_seq s"
  by (simp_all add: logged_def core_def now_iso_def job_by_id_def)

definition plain_payload :: "dict option \<Rightarrow> bool" where
  "plain_payload pl \<longleftrightarrow> (\<forall>d. pl = Some d \<longrightarrow> map_of d ''project_human_id'' = None)"

lemma plain_payload_simps [simp]:
  "plain_payload None" "plain_payload (Some d) \<longleftrightarrow> map_of d ''project_human_id'' = None"
  by (simp_all add: plain_payload_def)

lemma append_run_event_plain:
  "plain_payload pl \<Longrightarrow> append_run_event i ev st msg pl s =
     (case job_by_id i s of None \<Rightarrow> (Inl OrchestrationError, s)
      | Some j \<Rightarrow> (Inr (), logged i ev st msg pl s))"
  by (auto simp: append_run_event_def job_project_human_id_def op_simps logged_def bindS_assoc
      plain_payload_def dict_get_def split: option.splits)

definition released :: "int \<Rightarrow> string \<Rightarrow> db \<Rightarrow> db" where
  "released i r s = s\<lparr>leases := update_where (\<lambda>l. l_job_id l = i \<and> l_released_at l = None)
     (released_row r (now_iso s)) (leases s)\<rparr>"

lemma released_simps [simp]:
  "jobs (released i r s) = jobs s" "job_seq (released i r s) = job_seq s"
  "lease_seq (released i r s) = lease_seq s" "deps (released i r s) = deps s"
  "root_key (released i r s) = root_key s" "clk (released i r s) = clk s"
  "runs (released i r s) = runs s" "works (released i r s) = works s"
  "actions (released i r s) = actions s" "job_by_id k (released i r s) = job_by_id k s"
  "now_iso (released i r s) = now_iso s" "controls (released i r s) = controls s"
  by (simp_all add: released_def job_by_id_def now_iso_def)

lemma release_lease_eq:
  "release_lease i r s =
     (case job_by_id i s of None \<Rightarrow> (Inl OrchestrationError, released i r s)
      | Some j \<Rightarrow> (Inr (), logged i ''lease.released'' None (Some r) None (released i r s)))"
  by (simp add: release_lease_def op_simps append_run_event_plain released_def [symmetric]
      split: option.split)

section \<open>Ending a job\<close>

text \<open>The common tail of \<^verbatim>\<open>mark_succeeded\<close>, \<^verbatim>\<open>mark_cancelled\<close>, \<^verbatim>\<open>mark_blocked\<close> and \<^verbatim>\<open>mark_failure\<close>.\<close>

definition ending ::
    "int \<Rightarrow> (int \<Rightarrow> job \<Rightarrow> job) \<Rightarrow> (db \<Rightarrow> int) \<Rightarrow> string \<Rightarrow> string option \<Rightarrow> string option \<Rightarrow>
     dict option \<Rightarrow> string \<Rightarrow> 'a dbop \<Rightarrow> 'a dbop" where
  "ending i f g ev st msg pl r rest =
     thenS (modifyS (\<lambda>s. s\<lparr>jobs := update_where (\<lambda>j. j_id j = i) (f (g s)) (jobs s)\<rparr>))
     (thenS (append_run_event i ev st msg pl) (thenS (release_lease i r) rest))"

definition ended ::
    "int \<Rightarrow> (int \<Rightarrow> job \<Rightarrow> job) \<Rightarrow> int \<Rightarrow> string \<Rightarrow> string option \<Rightarrow> string option \<Rightarrow>
     dict option \<Rightarrow> string \<Rightarrow> db \<Rightarrow> db" where
  "ended i f now ev st msg pl r s =
     logged i ''lease.released'' None (Some r) None (released i r
       (logged i ev st msg pl (s\<lparr>jobs := update_where (\<lambda>j. j_id j = i) (f now) (jobs s)\<rparr>)))"

context identity_update
begin

lemma ending_found:
  assumes "job_by_id i s = Some j" "plain_payload pl"
  shows "ending i f g ev st msg pl r rest s = rest (ended i f (g s) ev st msg pl r s)"
  using assms
  by (simp add: ending_def op_simps append_run_event_plain release_lease_eq job_by_id_update
      ended_def)

lemma ending_missing:
  assumes "job_by_id i s = None" "plain_payload pl"
  shows "ending i f g ev st msg pl r rest s = (Inl OrchestrationError, s)"
proof -
  have "update_where (\<lambda>j. j_id j = i) (f (g s)) (jobs s) = jobs s"
    using assms(1) by (auto simp: job_by_id_def find_row_None_iff intro: update_where_none)
  with assms show ?thesis
    by (simp add: ending_def op_simps append_run_event_plain)
qed

lemma ended_job:
  "job_by_id k (ended i f now ev st msg pl r s) =
   map_option (\<lambda>j. if j_id j = i then f now j else j) (job_by_id k s)"
  by (simp add: ended_def job_by_id_update)

lemma ended_inv:
  assumes "store_inv s" "\<And>j. \<not> holds_lease (f now j)"
  shows "store_inv (ended i f now ev st msg pl r s)"
proof -
  have "store_inv (s\<lparr>jobs := update_where (\<lambda>j. j_id j = i) (f now) (jobs s),
      leases := update_where (\<lambda>l. l_job_id l = i \<and> l_released_at l = None)
        (released_row r (now_iso s)) (leases s)\<rparr>)"
    using assms by (intro inv_finish) auto
  then show ?thesis
    by (rule store_inv_core [rotated]) (simp add: ended_def core_def released_def logged_def now_iso_def)
qed

lemma keeps_ending:
  assumes "\<And>now j. \<not> holds_lease (f now j)" "plain_payload pl" "keeps store_inv rest"
  shows "keeps store_inv (ending i f g ev st msg pl r rest)"
proof (rule keepsI)
  fix s assume "store_inv s"
  then show "store_inv (snd (ending i f g ev st msg pl r rest s))"
    using assms keepsD [OF assms(3) ended_inv]
    by (cases "job_by_id i s") (auto simp: ending_found ending_missing)
qed

end

lemma mark_succeeded_ending:
  "mark_succeeded i ref c oc = ending i (succeeded_row ref c oc) now_iso ''job.succeeded''
     (Some ''SUCCEEDED'') (Some ''Worker task completed (not QA/release acceptance)'')
     (if truthy_str oc then Some [(''outcome'', JStr (str_of oc))] else None) ''succeeded''
     (bindS (get_job i) (\<lambda>updated.
        thenS (sync_next_actions_for_terminal_job updated) (returnS updated)))"
  by (simp add: mark_succeeded_def update_job_def ending_def)

lemma mark_cancelled_ending:
  "mark_cancelled i r = ending i (cancelled_row r) now_iso ''job.cancelled'' (Some ''CANCELLED'')
     (Some r) None ''cancelled'' (get_job i)"
  by (simp add: mark_cancelled_def update_job_def ending_def)

lemma mark_blocked_ending:
  "mark_blocked i e r = ending i (blocked_row e) now_iso ''job.blocked'' (Some ''BLOCKED'')
     (Some e) None r (get_job i)"
  by (simp add: mark_blocked_def update_job_def ending_def)

lemma mark_failure_ending:
  "mark_failure i e ref b = bindS (get_job i) (\<lambda>job.
     let st = failure_status b job in
     ending i (failure_row b e ref) clk (if st \<noteq> RETRY_WAIT then ''job.failed'' else ''job.retry_wait'')
       (Some (job_status_text st)) (Some e)
       (Some [(''attempt'', JInt (j_attempt job + 1)), (''max_attempts'', JInt (j_max_attempts job))])
       (release_reason st)
       (bindS (get_job i) (\<lambda>updated.
          thenS (sync_next_actions_for_terminal_job updated) (returnS updated))))"
  by (simp add: mark_failure_def ending_def)

lemma ended_rows_hold_no_lease [simp]:
  "\<not> holds_lease (succeeded_row ref c oc now j)" "\<not> holds_lease (cancelled_row r now j)"
  "\<not> holds_lease (blocked_row e now j)" "\<not> holds_lease (failure_row b e ref now j)"
  "\<not> holds_lease (expired_row k now j)"
  by (simp_all add: holds_lease_def succeeded_row_def cancelled_row_def blocked_row_def
      failure_row_def failure_status_def expired_row_def expired_status_def Let_def)

section \<open>Every operation keeps the invariant\<close>

lemmas store_frame = keeps_store_inv_frame [OF untouched_core_get_job]
  keeps_store_inv_frame [OF untouched_core_append_run_event]
  keeps_store_inv_frame [OF untouched_core_require_same_project]
  keeps_store_inv_frame [OF untouched_core_sync]
  keeps_store_inv_frame [OF untouched_getS] keeps_store_inv_frame [OF untouched_guardS]
  keeps_store_inv_frame [OF untouched_returnS] keeps_store_inv_frame [OF untouched_raiseS]

lemmas store_keeps = keeps_intros store_frame

lemma keeps_mark_succeeded: "keeps store_inv (mark_succeeded i ref c oc)"
  unfolding mark_succeeded_ending by (intro succeeded.keeps_ending store_keeps) auto

lemma keeps_mark_cancelled: "keeps store_inv (mark_cancelled i r)"
  unfolding mark_cancelled_ending by (intro cancelled.keeps_ending store_keeps) auto

lemma keeps_mark_blocked: "keeps store_inv (mark_blocked i e r)"
  unfolding mark_blocked_ending by (intro blocked.keeps_ending store_keeps) auto

lemma keeps_mark_failure: "keeps store_inv (mark_failure i e ref b)"
  unfolding mark_failure_ending Let_def
  by (rule keeps_bindS) (intro failure.keeps_ending store_keeps; simp)+

lemma keeps_mark_running: "keeps store_inv (mark_running i)"
  unfolding mark_running_def
  by (intro store_keeps running.keeps_update) (simp add: holds_lease_def running_row_def)

lemma keeps_mark_ready_from_blocked: "keeps store_inv (mark_ready_from_blocked i r)"
  unfolding mark_ready_from_blocked_def
  by (intro store_keeps revalidated.keeps_update) (simp add: holds_lease_def revalidated_row_def)

lemma keeps_promote_retry_wait: "keeps store_inv (promote_retry_wait_to_ready i r now)"
  unfolding promote_retry_wait_to_ready_def
  by (intro store_keeps retry_ready.keeps_update) (simp add: holds_lease_def retry_ready_row_def)

lemma keeps_promote_queued: "keeps store_inv (promote_queued_to_ready i r)"
  unfolding promote_queued_to_ready_def
  by (intro store_keeps queued_ready.keeps_update) (simp add: holds_lease_def queued_ready_row_def)

lemma keeps_update_job_worktree: "keeps store_inv (update_job_worktree i n p b)"
  unfolding update_job_worktree_def update_job_def
  by (intro store_keeps worktree.keeps_update) (simp add: holds_lease_def worktree_row_def)

lemma keeps_set_job_outcome: "keeps store_inv (set_job_outcome i oc b)"
  unfolding set_job_outcome_def update_job_def
  by (intro store_keeps outcome.keeps_update) (simp add: holds_lease_def outcome_row_def)

lemma keeps_set_job_assignment: "keeps store_inv (set_job_assignment i d)"
  unfolding set_job_assignment_def update_job_def
  by (intro store_keeps assignment.keeps_update) (simp add: holds_lease_def assignment_row_def)

lemma keeps_set_job_source_provenance: "keeps store_inv (set_job_source_provenance i src sha)"
  unfolding set_job_source_provenance_def update_job_def
  by (intro store_keeps provenance.keeps_update) (simp add: holds_lease_def provenance_row_def)

lemma keeps_set_job_sponsor_authority: "keeps store_inv (set_job_sponsor_authority i a)"
  unfolding set_job_sponsor_authority_def update_job_def
  by (intro store_keeps authority.keeps_update) (simp add: holds_lease_def authority_row_def)

section \<open>Results of single operations\<close>

lemma mark_cancelled_jobs:
  assumes "job_by_id i s = Some j"
  shows "\<exists>k t. mark_cancelled i r s = (Inr k, t) \<and> evidence t = evidence s \<and> clk t = clk s \<and>
    jobs t = update_where (\<lambda>j. j_id j = i) (cancelled_row r (now_iso s)) (jobs s)"
proof -
  let ?u = "ended i (cancelled_row r) (now_iso s) ''job.cancelled'' (Some ''CANCELLED'') (Some r) None ''cancelled'' s"
  have i: "j_id j = i" using assms by (auto simp: job_by_id_def dest: find_row_SomeD)
  have "job_by_id i ?u = Some (cancelled_row r (now_iso s) j)"
    using assms i by (simp add: cancelled.ended_job)
  then have "mark_cancelled i r s = (Inr (cancelled_row r (now_iso s) j), ?u)"
    using assms by (simp add: mark_cancelled_ending cancelled.ending_found get_job_def op_simps)
  then show ?thesis by (simp add: ended_def logged_def released_def)
qed

lemma set_job_sponsor_authority_jobs:
  assumes "job_by_id i s = Some j"
  shows "\<exists>t. set_job_sponsor_authority i a s = (Inr (authority_row a (now_iso s) j), t) \<and>
    jobs t = update_where (\<lambda>j. j_id j = i) (authority_row a (now_iso s)) (jobs s)"
proof -
  let ?u = "s\<lparr>jobs := update_where (\<lambda>j. j_id j = i) (authority_row a (now_iso s)) (jobs s)\<rparr>"
  have i: "j_id j = i" using assms by (auto simp: job_by_id_def dest: find_row_SomeD)
  have u: "job_by_id i ?u = Some (authority_row a (now_iso s) j)"
    using assms i by (simp add: authority.job_by_id_update)
  have l: "job_by_id i (logged i ev st msg pl ?u) = job_by_id i ?u" for ev st msg pl
    by (simp add: job_by_id_def logged_def)
  have "set_job_sponsor_authority i a s = (Inr (authority_row a (now_iso s) j),
      logged i ''sponsor.granted'' None (Some a) None ?u)"
    using u by (simp add: set_job_sponsor_authority_def update_job_def op_simps append_run_event_plain
        plain_payload_def get_job_def l)
  then show ?thesis by (simp add: logged_def)
qed

end
