(* ===== verification/Leases.thy ===== *)
theory Leases
  imports Store_Invariant
begin

text \<open>
  Leases as a mutual exclusion mechanism: a closed form of \<^verbatim>\<open>recover_expired_leases\<close> and of
  \<^verbatim>\<open>acquire_lease\<close> (\<^verbatim>\<open>store.py\<close>) on states that satisfy the store invariant, with what follows from
  it: recovery leaves nothing expired, a lease is granted exactly on READY jobs, and a job never has
  two leases.
\<close>

section \<open>States up to the event log\<close>

definition log_free :: "db \<Rightarrow> db" where
  "log_free s = s\<lparr>run_events := [], run_event_seq := 0\<rparr>"

lemma log_free_logged [simp]: "log_free (logged i ev st msg pl s) = log_free s"
  by (simp add: log_free_def logged_def)

lemma log_free_fields [simp]:
  "jobs (log_free s) = jobs s" "leases (log_free s) = leases s" "core (log_free s) = core s"
  "clk (log_free s) = clk s" "lease_seq (log_free s) = lease_seq s"
  "controls (log_free s) = controls s" "actions (log_free s) = actions s"
  "deps (log_free s) = deps s" "works (log_free s) = works s" "runs (log_free s) = runs s"
  by (simp_all add: log_free_def core_def)

lemma log_freeD:
  assumes "log_free s = log_free t"
  shows "jobs s = jobs t" "leases s = leases t" "core s = core t" "clk s = clk t"
    "lease_seq s = lease_seq t" "controls s = controls t" "actions s = actions t"
    "deps s = deps t" "works s = works t" "runs s = runs t"
  using assms by (metis log_free_fields)+

lemma job_by_id_log_free: "log_free s = log_free t \<Longrightarrow> job_by_id i s = job_by_id i t"
  using log_freeD(1) [of s t] by (simp add: job_by_id_def)

section \<open>Recovery of expired leases\<close>

text \<open>What recovery does to the jobs \<open>ids\<close>: their lease is released as expired and their row is
  rewritten by the policy.\<close>

definition recovered :: "int set \<Rightarrow> iso \<Rightarrow> db \<Rightarrow> db" where
  "recovered ids now s = s\<lparr>
     leases := update_where (\<lambda>l. l_job_id l \<in> ids \<and> l_released_at l = None)
       (released_row ''expired'' now) (leases s),
     jobs := update_where (\<lambda>j. j_id j \<in> ids) (\<lambda>j. expired_row j now j) (jobs s)\<rparr>"

interpretation self_expired: identity_update "\<lambda>now j. expired_row j now j"
  by unfold_locales (simp add: same_identity_def expired_row_def Let_def)

lemma recovered_simps [simp]:
  "clk (recovered ids now s) = clk s" "job_seq (recovered ids now s) = job_seq s"
  "lease_seq (recovered ids now s) = lease_seq s" "deps (recovered ids now s) = deps s"
  "root_key (recovered ids now s) = root_key s" "controls (recovered ids now s) = controls s"
  "actions (recovered ids now s) = actions s" "works (recovered ids now s) = works s"
  by (simp_all add: recovered_def)

lemma recovered_empty [simp]: "recovered {} now s = s"
  by (simp add: recovered_def update_where_def)

lemma log_free_recovered: "log_free (recovered ids now s) = recovered ids now (log_free s)"
  by (cases s) (simp add: log_free_def recovered_def)

lemma recovered_recovered:
  assumes "i \<notin> ids"
  shows "recovered ids now (recovered {i} now s) = recovered (insert i ids) now s"
proof -
  have "update_where (\<lambda>l. l_job_id l \<in> ids \<and> l_released_at l = None) (released_row r now)
      (update_where (\<lambda>l. l_job_id l \<in> {i} \<and> l_released_at l = None) (released_row r now) ls)
    = update_where (\<lambda>l. l_job_id l \<in> insert i ids \<and> l_released_at l = None) (released_row r now) ls"
    for r ls using assms by (induction ls) (auto simp: released_row_def)
  moreover have "update_where (\<lambda>j. j_id j \<in> ids) (\<lambda>j. expired_row j now j)
      (update_where (\<lambda>j. j_id j \<in> {i}) (\<lambda>j. expired_row j now j) js)
    = update_where (\<lambda>j. j_id j \<in> insert i ids) (\<lambda>j. expired_row j now j) js"
    for js using assms by (induction js) auto
  ultimately show ?thesis by (simp add: recovered_def)
qed

lemma job_by_id_recovered:
  "job_by_id i (recovered ids now s) =
   map_option (\<lambda>j. if j_id j \<in> ids then expired_row j now j else j) (job_by_id i s)"
  using self_expired.job_by_id_update [of i "\<lambda>j. j_id j \<in> ids" now s]
  by (simp add: recovered_def job_by_id_def)

lemma held_rows_iff:
  "(l, j) \<in> set (held_rows s) \<longleftrightarrow>
   l \<in> set (leases s) \<and> job_by_id (l_job_id l) s = Some j \<and> l_released_at l = None \<and> holds_lease j"
  by (auto simp: held_rows_def holds_lease_def split: option.splits if_splits)

lemma held_rows_id: "(l, j) \<in> set (held_rows s) \<Longrightarrow> j_id j = l_job_id l"
  by (auto simp: held_rows_iff job_by_id_def dest: find_row_SomeD)

lemma held_rows_ids:
  "map (j_id \<circ> snd) (held_rows s) = map l_job_id (filter (\<lambda>l. l_released_at l = None \<and>
     (case job_by_id (l_job_id l) s of None \<Rightarrow> False | Some j \<Rightarrow> holds_lease j)) (leases s))"
proof -
  have "map (j_id \<circ> snd) (concat (map (\<lambda>l. case job_by_id (l_job_id l) s of None \<Rightarrow> []
      | Some j \<Rightarrow> if l_released_at l = None \<and> j_status j \<in> {LEASED, RUNNING} then [(l, j)] else []) ls))
    = map l_job_id (filter (\<lambda>l. l_released_at l = None \<and>
     (case job_by_id (l_job_id l) s of None \<Rightarrow> False | Some j \<Rightarrow> holds_lease j)) ls)" for ls
    by (induction ls) (auto simp: holds_lease_def job_by_id_def split: option.splits
        dest!: find_row_SomeD)
  then show ?thesis by (simp add: held_rows_def)
qed

lemma held_rows_distinct:
  "distinct (map l_job_id (leases s)) \<Longrightarrow> distinct (map (j_id \<circ> snd) (held_rows s))"
  unfolding held_rows_ids by (rule distinct_map_filter)

lemma recover_one_eq:
  assumes inv: "store_inv s" and row: "(l, j) \<in> set (held_rows s)"
  shows "\<exists>t. recover_one now (l, j) s = (Inr (j_id j), t) \<and>
             log_free t = log_free (recovered {j_id j} now s)"
proof -
  have l: "l \<in> set (leases s)" "l_job_id l = j_id j" and j: "job_by_id (j_id j) s = Some j"
    using row held_rows_id [OF row] by (simp_all add: held_rows_iff)
  have "update_where (\<lambda>k. l_id k = l_id l \<and> l_released_at k = None) (released_row ''expired'' now) (leases s)
      = update_where (\<lambda>k. l_job_id k = j_id j \<and> l_released_at k = None) (released_row ''expired'' now) (leases s)"
    using inv l unfolding store_inv_def leases_keyed_def update_where_def
    by (intro map_cong [OF refl]) (metis distinct_map inj_onD)
  moreover have "update_where (\<lambda>k. j_id k = j_id j) (expired_row j now) (jobs s)
      = update_where (\<lambda>k. j_id k = j_id j) (\<lambda>k. expired_row k now k) (jobs s)"
    using inv j unfolding update_where_def
    by (intro map_cong [OF refl]) (metis store_inv_job_by_id option.inject)
  ultimately have "recover_one now (l, j) s =
      bindS (append_run_event (j_id j) ''lease.expired_recovered''
        (Some (job_status_text (expired_status j))) (Some (expired_error j))
        (Some [(''prior_status'', JStr (job_status_text (j_status j))),
               (''attempt'', JInt (expired_attempt j)),
               (''max_attempts'', JInt (j_max_attempts j))]))
        (\<lambda>_. returnS (j_id j)) (recovered {j_id j} now s)"
    by (simp add: recover_one_def op_simps recovered_def)
  moreover have "job_by_id (j_id j) (recovered {j_id j} now s) = Some (expired_row j now j)"
    using j by (simp add: job_by_id_recovered)
  ultimately show ?thesis
    by (simp add: op_simps append_run_event_plain)
qed

lemma inv_recovered:
  assumes "store_inv s" shows "store_inv (recovered ids now s)"
proof -
  have "jobs_keyed (recovered ids now s)" "isolated (recovered ids now s)"
    "deps_inside (recovered ids now s)"
    using assms self_expired.keyed_update self_expired.isolated_update self_expired.deps_update
    by (simp_all add: recovered_def store_inv_def)
  moreover have "leases_keyed (recovered ids now s)"
    using assms by (simp add: recovered_def store_inv_def leases_keyed_def map_update_where
        released_row_def self_expired.image_id_update)
  moreover have "leases_held (recovered ids now s)"
    using assms unfolding store_inv_def leases_held_def
    by (auto simp: recovered_def released_row_def split: if_splits) metis+
  ultimately show ?thesis by (simp add: store_inv_def)
qed

lemma held_rows_recovered:
  assumes "(k, j) \<in> set (held_rows s)" "j_id j \<noteq> i"
  shows "(k, j) \<in> set (held_rows (recovered {i} now s))"
proof -
  have k: "k \<in> set (leases s)" "job_by_id (l_job_id k) s = Some j" "l_released_at k = None"
    "holds_lease j" "j_id j = l_job_id k"
    using assms(1) held_rows_id [OF assms(1)] by (simp_all add: held_rows_iff)
  then have "k \<in> set (leases (recovered {i} now s))"
    using assms(2) by (force simp: recovered_def set_update_where)
  with k assms(2) show ?thesis by (simp add: held_rows_iff job_by_id_recovered)
qed

lemma held_rows_log_free: "log_free s = log_free t \<Longrightarrow> held_rows s = held_rows t"
  using log_freeD(1,2) [of s t] by (simp add: held_rows_def job_by_id_def)

lemma mapS_recover_one:
  assumes "store_inv s" "set rows \<subseteq> set (held_rows s)" "distinct (map (j_id \<circ> snd) rows)"
  shows "\<exists>t. mapS (recover_one now) rows s = (Inr (map (j_id \<circ> snd) rows), t) \<and>
             log_free t = log_free (recovered (set (map (j_id \<circ> snd) rows)) now s)"
  using assms
proof (induction rows arbitrary: s)
  case Nil
  then show ?case by (simp add: op_simps)
next
  case (Cons row rows)
  obtain l j where row: "row = (l, j)" by (cases row)
  obtain u where u: "recover_one now (l, j) s = (Inr (j_id j), u)"
      "log_free u = log_free (recovered {j_id j} now s)"
    using recover_one_eq [of s l j now] Cons.prems row by auto
  have "store_inv u"
    using u(2) Cons.prems(1) inv_recovered log_freeD(3) store_inv_core by metis
  moreover have "set rows \<subseteq> set (held_rows u)"
    using Cons.prems row held_rows_recovered [of _ _ s "j_id j" now]
    by (fastforce simp: held_rows_log_free [OF u(2)] image_iff)
  ultimately obtain t where t: "mapS (recover_one now) rows u = (Inr (map (j_id \<circ> snd) rows), t)"
      "log_free t = log_free (recovered (set (map (j_id \<circ> snd) rows)) now u)"
    using Cons.IH Cons.prems(3) unfolding list.map distinct.simps by blast
  have "log_free t = log_free (recovered (set (map (j_id \<circ> snd) rows)) now (recovered {j_id j} now s))"
    using t(2) u(2) by (simp add: log_free_recovered)
  also have "\<dots> = log_free (recovered (insert (j_id j) (set (map (j_id \<circ> snd) rows))) now s)"
    using Cons.prems(3) row by (subst recovered_recovered) auto
  finally show ?case
    using t(1) u(1) row by (simp add: op_simps)
qed

definition moment_of :: "moment option \<Rightarrow> db \<Rightarrow> moment" where
  "moment_of now s = (case now of None \<Rightarrow> clk s | Some t \<Rightarrow> t)"

lemma recover_expired_leases_eq:
  assumes "store_inv s"
  shows "\<exists>t. recover_expired_leases now pid s =
               (Inr (list_expired_lease_job_ids (moment_of now s) pid s), t) \<and>
             log_free t = log_free (recovered
               (set (list_expired_lease_job_ids (moment_of now s) pid s)) (iso_of (moment_of now s)) s)"
proof -
  let ?rows = "filter (is_expired (moment_of now s) pid) (held_rows s)"
  have ids: "map (j_id \<circ> snd) ?rows = list_expired_lease_job_ids (moment_of now s) pid s"
    by (simp add: list_expired_lease_job_ids_def comp_def case_prod_beta)
  have "distinct (map (j_id \<circ> snd) ?rows)"
    using held_rows_distinct [of s] assms
    by (simp add: store_inv_def leases_keyed_def distinct_map_filter)
  then show ?thesis
    using mapS_recover_one [OF assms, of ?rows "iso_of (moment_of now s)"] unfolding ids
    by (auto simp: recover_expired_leases_def op_simps Let_def moment_of_def)
qed

lemma keeps_recover_expired_leases: "keeps store_inv (recover_expired_leases now pid)"
proof (rule keepsI)
  fix s assume inv: "store_inv s"
  then show "store_inv (snd (recover_expired_leases now pid s))"
    using recover_expired_leases_eq [OF inv, of now pid] inv_recovered [OF inv] store_inv_core
      log_freeD(3) by (metis snd_conv)
qed

text \<open>Recovery is complete: what it leaves held has not expired.\<close>

lemma nothing_expired_left:
  assumes "store_inv s"
  shows "list_expired_lease_job_ids m pid (recovered (set (list_expired_lease_job_ids m pid s)) now s) = []"
proof -
  let ?ids = "set (list_expired_lease_job_ids m pid s)"
  have "\<not> is_expired m pid (l, j)" if r: "(l, j) \<in> set (held_rows (recovered ?ids now s))" for l j
  proof
    assume e: "is_expired m pid (l, j)"
    have l: "l \<in> set (leases (recovered ?ids now s))" "l_released_at l = None" "holds_lease j"
      "job_by_id (l_job_id l) (recovered ?ids now s) = Some j"
      using r by (simp_all add: held_rows_iff)
    have "expired_row k now k \<noteq> j" for k using l(3) ended_rows_hold_no_lease(5) by metis
    with l(4) obtain j0 where j0: "job_by_id (l_job_id l) s = Some j0" "j_id j0 \<notin> ?ids" "j = j0"
      by (auto simp: job_by_id_recovered split: if_splits)
    have "l \<in> set (leases s)"
      using l(1,2) by (auto simp: recovered_def set_update_where released_row_def split: if_splits)
    then have "(l, j0) \<in> set (held_rows s)" using l j0 by (simp add: held_rows_iff)
    with e j0(3) have "j_id j0 \<in> ?ids"
      by (force simp: list_expired_lease_job_ids_def image_iff)
    with j0(2) show False by simp
  qed
  then show ?thesis
    by (auto simp: list_expired_lease_job_ids_def filter_empty_conv)
qed

section \<open>Granting a lease\<close>

definition lease_row :: "int \<Rightarrow> string \<Rightarrow> int \<Rightarrow> moment \<Rightarrow> db \<Rightarrow> worker_lease" where
  "lease_row i worker secs m s =
     \<lparr>l_id = lease_seq s + 1, l_job_id = i, l_worker_id = worker, l_leased_at = iso_of m,
      l_expires_at = iso_of (m + of_iso secs), l_released_at = None, l_release_reason = None\<rparr>"

definition granted :: "int \<Rightarrow> worker_lease \<Rightarrow> db \<Rightarrow> db" where
  "granted i l s = s\<lparr>
     jobs := update_where (\<lambda>j. j_id j = i \<and> j_status j = READY) (leased_row (l_leased_at l)) (jobs s),
     leases := filter (\<lambda>k. l_job_id k \<noteq> i) (leases s) @ [l], lease_seq := l_id l\<rparr>"

lemma job_by_id_granted:
  "job_by_id k (granted i l s) = map_option
     (\<lambda>j. if j_id j = i \<and> j_status j = READY then leased_row (l_leased_at l) j else j) (job_by_id k s)"
  using leased.job_by_id_update [of k "\<lambda>j. j_id j = i \<and> j_status j = READY" "l_leased_at l" s]
  by (simp add: granted_def job_by_id_def)

lemma log_free_granted: "log_free (granted i l s) = granted i l (log_free s)"
  by (cases s) (simp add: log_free_def granted_def)

lemma ready_holds_no_lease:
  assumes "store_inv s" "job_by_id i s = Some j" "\<not> holds_lease j"
  shows "\<forall>l \<in> set (leases s). l_job_id l = i \<longrightarrow> l_released_at l \<noteq> None"
  using assms store_inv_job_by_id [OF assms(1), of i j] unfolding store_inv_def leases_held_def by metis

lemma row_count_job:
  "store_inv s \<Longrightarrow> row_count (\<lambda>j. j_id j = i \<and> q j) (jobs s) =
     (case job_by_id i s of None \<Rightarrow> 0 | Some j \<Rightarrow> if q j then 1 else 0)"
  by (simp add: store_inv_def jobs_keyed_def row_count_key job_by_id_def)

lemma acquire_on_ready:
  assumes inv: "store_inv u" and job: "job_by_id i u = Some j" "j_status j = READY"
  shows "filter (\<lambda>l. \<not> (l_job_id l = i \<and> l_released_at l \<noteq> None)) (leases u) =
         filter (\<lambda>l. l_job_id l \<noteq> i) (leases u)"
  using ready_holds_no_lease [OF inv job(1)] job(2)
  by (intro filter_cong) (auto simp: holds_lease_def)

lemma acquire_lease_granted:
  assumes inv: "store_inv s" and secs: "0 < secs" and m: "m = moment_of now s"
    and u: "u = recovered (set (list_expired_lease_job_ids m None s)) (iso_of m) s"
    and job: "job_by_id (j_id job) u = Some j" "j_status j = READY"
  shows "\<exists>t. acquire_lease job w secs now s = (Inr (lease_row (j_id job) w secs m s), t) \<and>
             log_free t = log_free (granted (j_id job) (lease_row (j_id job) w secs m s) u)"
proof -
  let ?i = "j_id job" and ?l = "lease_row (j_id job) w secs m s"
  obtain v where v: "recover_expired_leases now None s =
      (Inr (list_expired_lease_job_ids m None s), v)" "log_free v = log_free u"
    using recover_expired_leases_eq [OF inv, of now None] m u by auto
  have inv_v: "store_inv v"
    using keepsD [OF keeps_recover_expired_leases inv, of now None] v(1) by simp
  have v_job: "job_by_id ?i v = Some j" using job job_by_id_log_free [OF v(2)] by simp
  have [simp]: "lease_seq v = lease_seq s" "clk v = clk s"
    using log_freeD(4,5) [OF v(2)] u by simp_all
  have m': "(case now of None \<Rightarrow> clk v | Some t \<Rightarrow> t) = m"
    by (simp add: m moment_of_def split: option.split)
  have count: "row_count (\<lambda>j. j_id j = ?i \<and> j_status j = READY) (jobs v) = 1"
    using row_count_job [OF inv_v, of ?i "\<lambda>j. j_status j = READY"] v_job job(2) by simp
  have "acquire_lease job w secs now s =
      (Inr ?l, logged ?i ''lease.acquired'' (Some ''LEASED'') (Some (''Lease acquired by '' @ w))
        (Some [(''expires_at'', JInt (iso_of (m + of_iso secs))), (''lease_seconds'', JInt secs)])
        (granted ?i ?l v))"
    using secs v(1) v_job job(2) acquire_on_ready [OF inv_v v_job job(2)] count
    by (auto simp: acquire_lease_def op_simps m' Let_def append_run_event_plain
        lease_row_def granted_def job_by_id_def find_row_update_where [where key = j_id])
  moreover have "log_free (granted ?i ?l v) = log_free (granted ?i ?l u)"
    using v(2) by (simp add: log_free_granted)
  ultimately show ?thesis by simp
qed

lemma acquire_lease_refused:
  assumes inv: "store_inv s" and m: "m = moment_of now s"
    and u: "u = recovered (set (list_expired_lease_job_ids m None s)) (iso_of m) s"
    and no: "secs \<le> 0 \<or> (\<forall>j. job_by_id (j_id job) u = Some j \<longrightarrow> j_status j \<noteq> READY)"
  shows "\<exists>t. acquire_lease job w secs now s = (Inl LeaseError, t)"
proof (cases "secs \<le> 0")
  case True
  then show ?thesis by (simp add: acquire_lease_def op_simps)
next
  case False
  obtain v where v: "recover_expired_leases now None s =
      (Inr (list_expired_lease_job_ids m None s), v)" "log_free v = log_free u"
    using recover_expired_leases_eq [OF inv, of now None] m u by auto
  have "store_inv v" using keepsD [OF keeps_recover_expired_leases inv, of now None] v(1) by simp
  then have "row_count (\<lambda>j. j_id j = j_id job \<and> j_status j = READY) (jobs v) = 0"
    using row_count_job [of v "j_id job" "\<lambda>j. j_status j = READY"] no False
      job_by_id_log_free [OF v(2), of "j_id job"] by (auto split: option.splits)
  then show ?thesis
    using False v(1) by (auto simp: acquire_lease_def op_simps Let_def)
qed

lemma inv_granted:
  assumes inv: "store_inv u" and job: "job_by_id i u = Some j" "j_status j = READY"
    and l: "l_job_id l = i" "l_released_at l = None" "l_id l = lease_seq u + 1"
  shows "store_inv (granted i l u)"
proof -
  let ?v = "u\<lparr>jobs := update_where (\<lambda>j. j_id j = i \<and> j_status j = READY)
    (leased_row (l_leased_at l)) (jobs u)\<rparr>"
  have i: "i \<in> j_id ` set (jobs u)" "j \<in> set (jobs u)" "j_id j = i"
    using job inv store_inv_job_by_id by auto
  have same: "k = j" if "k \<in> set (jobs u)" "j_id k = i" for k
    using that i store_inv_job_unique [OF inv] by simp
  have free: "\<forall>k \<in> set (leases u). l_job_id k = i \<longrightarrow> l_released_at k \<noteq> None"
    using ready_holds_no_lease [OF inv job(1)] job(2) by (simp add: holds_lease_def)
  have "jobs_keyed ?v" "isolated ?v" "deps_inside ?v"
    using inv leased.keyed_update leased.isolated_update leased.deps_update
    by (simp_all add: store_inv_def)
  then have "jobs_keyed (granted i l u)" "isolated (granted i l u)" "deps_inside (granted i l u)"
    by (simp_all add: granted_def jobs_keyed_def isolated_def deps_inside_def)
  moreover have "leases_keyed (granted i l u)"
    using inv l i(1) by (force simp: granted_def store_inv_def leases_keyed_def distinct_map_filter
        leased.image_id_update)
  moreover have "leases_held (granted i l u)"
  proof -
    have "holds_lease (if j_id k = i \<and> j_status k = READY then leased_row now k else k) \<longleftrightarrow>
        (\<exists>l' \<in> set (filter (\<lambda>k. l_job_id k \<noteq> i) (leases u) @ [l]). l_job_id l' = j_id k \<and> l_released_at l' = None)"
      if k: "k \<in> set (jobs u)" for k now
    proof (cases "j_id k = i")
      case True
      then show ?thesis using same [OF k] job(2) l by (simp add: holds_lease_def leased_row_def)
    next
      case False
      then show ?thesis using inv k l(1) by (auto simp: store_inv_def leases_held_def)
    qed
    then show ?thesis by (simp add: granted_def leases_held_def)
  qed
  ultimately show ?thesis by (simp add: store_inv_def)
qed

text \<open>\<^verbatim>\<open>acquire_lease\<close> run in a connection: it grants or leaves the database as it was.\<close>

lemma acquire_lease_cases [consumes 3, case_names grant refuse]:
  assumes inv: "store_inv s" and m: "m = moment_of now s"
    and u: "u = recovered (set (list_expired_lease_job_ids m None s)) (iso_of m) s"
  obtains (grant) j t where "0 < secs" "job_by_id (j_id job) u = Some j" "j_status j = READY"
      "transaction (acquire_lease job w secs now) s = (Inr (lease_row (j_id job) w secs m s), t)"
      "log_free t = log_free (granted (j_id job) (lease_row (j_id job) w secs m s) u)" "store_inv t"
  | (refuse) "secs \<le> 0 \<or> (\<forall>j. job_by_id (j_id job) u = Some j \<longrightarrow> j_status j \<noteq> READY)"
      "transaction (acquire_lease job w secs now) s = (Inl LeaseError, s)"
proof (cases "secs \<le> 0 \<or> (\<forall>j. job_by_id (j_id job) u = Some j \<longrightarrow> j_status j \<noteq> READY)")
  case True
  then obtain t where "acquire_lease job w secs now s = (Inl LeaseError, t)"
    using acquire_lease_refused [OF inv m u] by blast
  with True refuse show ?thesis by (simp add: transaction_def)
next
  case False
  then obtain j where j: "0 < secs" "job_by_id (j_id job) u = Some j" "j_status j = READY" by auto
  obtain t where t: "acquire_lease job w secs now s = (Inr (lease_row (j_id job) w secs m s), t)"
      "log_free t = log_free (granted (j_id job) (lease_row (j_id job) w secs m s) u)"
    using acquire_lease_granted [OF inv j(1) m u j(2,3)] by blast
  have "store_inv (granted (j_id job) (lease_row (j_id job) w secs m s) u)"
    by (rule inv_granted [OF _ j(2,3)])
       (use inv u in \<open>simp_all add: inv_recovered lease_row_def\<close>)
  then have "store_inv t" using t(2) log_freeD(3) store_inv_core by metis
  with grant j t show ?thesis by (simp add: transaction_def)
qed

lemma keeps_acquire_lease: "keeps store_inv (transaction (acquire_lease job w secs now))"
proof (rule keepsI)
  fix s assume inv: "store_inv s"
  then show "store_inv (snd (transaction (acquire_lease job w secs now) s))"
    by (rule acquire_lease_cases [OF _ refl refl, of s secs job now w]) (simp_all add: inv)
qed

end
