(* ===== verification/Store_Machine.thy ===== *)
theory Store_Machine
  imports Leases
begin

text \<open>
  The job store as a machine: its steps are the operations of \<^verbatim>\<open>store.py\<close>, each run in a connection
  (\<^verbatim>\<open>db.py\<close>) by any worker in any order, and the passing of time. The store invariant holds in every
  reachable state; what the components above rely on is read off it here.
\<close>

section \<open>Creating jobs and dependencies\<close>

lemma isolation_accepts:
  assumes inv: "isolated s"
  shows "assert_create_job_isolation a s = (if snapshot_clash a s \<or>
      (\<exists>j \<in> set (jobs s). (j_project_human_id j = n_project_human_id a) \<noteq>
         (root_key s (j_repository_root j) = root_key s (n_repository_root a)))
    then (Inl CrossProjectWriteError, s) else (Inr (), s))"
proof (cases "find_row (\<lambda>j. j_project_human_id j = n_project_human_id a) (jobs s)")
  case None
  then have "\<forall>j \<in> set (jobs s). j_project_human_id j \<noteq> n_project_human_id a"
    by (simp add: find_row_None_iff)
  with None show ?thesis by (auto simp: assert_create_job_isolation_def op_simps)
next
  case (Some k)
  then have k: "k \<in> set (jobs s)" "j_project_human_id k = n_project_human_id a"
    by (auto dest: find_row_SomeD)
  have "j_project_human_id j = n_project_human_id a \<longleftrightarrow>
      root_key s (j_repository_root j) = root_key s (j_repository_root k)" if "j \<in> set (jobs s)" for j
    using that k inv unfolding isolated_def by metis
  then show ?thesis
    using Some k(1) by (auto simp: assert_create_job_isolation_def op_simps)
qed

definition created :: "job_args \<Rightarrow> job_status \<Rightarrow> db \<Rightarrow> db" where
  "created a st s = s\<lparr>jobs := jobs s @ [new_job_row a st (job_seq s + 1) (now_iso s)],
     job_seq := job_seq s + 1\<rparr>"

lemma create_job_eq:
  assumes inv: "store_inv s"
  shows "create_job a s = (case map_of JOB_STATUSES (n_status a) of
      None \<Rightarrow> (Inl OrchestrationError, s)
    | Some st \<Rightarrow>
        if snapshot_clash a s \<or>
           (\<exists>j \<in> set (jobs s). (j_project_human_id j = n_project_human_id a) \<noteq>
              (root_key s (j_repository_root j) = root_key s (n_repository_root a)))
        then (Inl CrossProjectWriteError, s)
        else if n_human_id a \<in> j_human_id ` set (jobs s) then (Inl IntegrityError, s)
        else (Inr (new_job_row a st (job_seq s + 1) (now_iso s)), created a st s))"
proof -
  have fresh: "find_row (\<lambda>j. j_id j = job_seq s + 1) (jobs s) = None"
    using inv by (force simp: find_row_None_iff store_inv_def jobs_keyed_def)
  have iso: "isolated s" using inv by (simp add: store_inv_def)
  show ?thesis
    using fresh
    by (auto simp: create_job_def op_simps isolation_accepts [OF iso] bindS_def get_job_def Let_def
        job_by_id_def created_def getS_def modifyS_def returnS_def new_job_row_def thenS_def
        raiseS_def split: option.split)
qed

lemma wlp_create_job:
  assumes "store_inv s"
  shows "wlp (create_job a) (\<lambda>j t. \<exists>st. map_of JOB_STATUSES (n_status a) = Some st \<and>
     j = new_job_row a st (job_seq s + 1) (now_iso s) \<and> t = created a st s) s"
  by (auto simp: wlp_def create_job_eq [OF assms] split: option.splits if_splits)

lemma deps_inside_mono:
  assumes "deps_inside s" "deps t = deps s" "set (jobs s) \<subseteq> set (jobs t)"
  shows "deps_inside t"
  using assms unfolding deps_inside_def by (simp add: case_prod_beta) (meson subsetD)

lemma inv_created:
  assumes inv: "store_inv s" and st: "st \<noteq> LEASED" "st \<noteq> RUNNING"
    and own: "\<forall>j \<in> set (jobs s). (j_project_human_id j = n_project_human_id a) =
       (root_key s (j_repository_root j) = root_key s (n_repository_root a))"
    and fresh: "n_human_id a \<notin> j_human_id ` set (jobs s)"
  shows "store_inv (created a st s)"
proof -
  let ?r = "new_job_row a st (job_seq s + 1) (now_iso s)"
  have r: "j_id ?r = job_seq s + 1" "j_human_id ?r = n_human_id a" "\<not> holds_lease ?r"
    "j_project_human_id ?r = n_project_human_id a" "j_repository_root ?r = n_repository_root a"
    using st by (simp_all add: new_job_row_def holds_lease_def)
  have "jobs_keyed (created a st s)"
    using inv fresh r by (force simp: store_inv_def jobs_keyed_def created_def)
  moreover have "isolated (created a st s)"
  proof -
    have "\<forall>j \<in> set (jobs s). (n_project_human_id a = j_project_human_id j) =
        (root_key s (n_repository_root a) = root_key s (j_repository_root j))"
      using own by metis
    then show ?thesis using inv own r by (simp add: store_inv_def isolated_def created_def)
  qed
  moreover have "deps_inside (created a st s)"
    by (rule deps_inside_mono [of s]) (use inv in \<open>auto simp: store_inv_def created_def\<close>)
  moreover have "leases_keyed (created a st s)"
    using inv by (simp add: store_inv_def leases_keyed_def created_def image_Un)
  moreover have "leases_held (created a st s)"
  proof -
    have "\<forall>l \<in> set (leases s). l_job_id l \<noteq> job_seq s + 1"
      using inv by (force simp: store_inv_def leases_keyed_def jobs_keyed_def)
    then show ?thesis using inv r by (auto simp: store_inv_def leases_held_def created_def)
  qed
  ultimately show ?thesis by (simp add: store_inv_def)
qed

lemma keeps_create_job:
  assumes "n_status a \<notin> {''LEASED'', ''RUNNING''}"
  shows "keeps store_inv (create_job a)"
proof (rule keepsI)
  fix s assume inv: "store_inv s"
  have "st \<noteq> LEASED \<and> st \<noteq> RUNNING" if "map_of JOB_STATUSES (n_status a) = Some st" for st
    using assms that by (auto simp: JOB_STATUSES_def split: if_splits)
  then show "store_inv (snd (create_job a s))"
    using inv inv_created [OF inv] by (auto simp: create_job_eq [OF inv] split: option.split)
qed

lemma require_same_project_pair:
  "require_same_project [i, d] s = (case (job_by_id i s, job_by_id d s) of
     (Some j, Some k) \<Rightarrow> if j_project_human_id j = j_project_human_id k
        then (Inr (j_project_human_id j), s) else (Inl CrossProjectWriteError, s)
   | _ \<Rightarrow> (Inl OrchestrationError, s))"
  by (simp add: require_same_project_def job_project_human_id_def op_simps bindS_assoc
      split: option.split)

lemma keeps_add_job_dependency: "keeps store_inv (add_job_dependency i d)"
proof (rule keepsI)
  fix s assume inv: "store_inv s"
  have "deps_inside (s\<lparr>deps := deps s @ [(i, d)]\<rparr>)"
    if "i \<noteq> d" "(i, d) \<notin> set (deps s)" "job_by_id i s = Some j" "job_by_id d s = Some k"
      "j_project_human_id j = j_project_human_id k" for j k
    using that inv store_inv_job_by_id [OF inv] unfolding store_inv_def deps_inside_def by auto
  then show "store_inv (snd (add_job_dependency i d s))"
    using inv
    by (auto simp: add_job_dependency_def op_simps bindS_def require_same_project_pair store_inv_defs
        getS_def modifyS_def raiseS_def split: option.split)
qed

section \<open>Governed reclaim\<close>

definition backdated :: "int \<Rightarrow> db \<Rightarrow> db" where
  "backdated i s = s\<lparr>leases := update_where (\<lambda>l. l_job_id l = i \<and> l_released_at l = None)
     (\<lambda>l. l\<lparr>l_expires_at := iso_of (clk s - of_iso 5)\<rparr>) (leases s)\<rparr>"

lemma backdated_simps [simp]:
  "clk (backdated i s) = clk s" "job_by_id k (backdated i s) = job_by_id k s"
  "jobs (backdated i s) = jobs s" "lease_seq (backdated i s) = lease_seq s"
  by (simp_all add: backdated_def job_by_id_def)

lemma inv_backdated: "store_inv s \<Longrightarrow> store_inv (backdated i s)"
  by (auto simp: backdated_def store_inv_def leases_keyed_def leases_held_def map_update_where)

text \<open>The backdated lease is always found expired, so the fallback branch of the reclaim is dead.\<close>

lemma backdated_expired:
  assumes inv: "store_inv s" and job: "job_by_id i s = Some j" "holds_lease j"
  shows "i \<in> set (list_expired_lease_job_ids (clk s) None (backdated i s))"
proof -
  have i: "j_id j = i" using job(1) by (auto simp: job_by_id_def dest: find_row_SomeD)
  obtain l where l: "l \<in> set (leases s)" "l_job_id l = i" "l_released_at l = None"
    using inv job store_inv_job_by_id [OF inv, of i j] by (auto simp: store_inv_def leases_held_def)
  let ?l = "l\<lparr>l_expires_at := iso_of (clk s - of_iso 5)\<rparr>"
  have "?l \<in> set (leases (backdated i s))"
    using l by (force simp: backdated_def set_update_where)
  then have "(?l, j) \<in> set (held_rows (backdated i s))"
    using l job by (simp add: held_rows_iff)
  moreover have "is_expired (clk s) None (?l, j)"
    using of_iso_of_le [of "clk s - of_iso 5"]
    by (simp add: is_expired_def matches_def truthy_str_def of_iso_def)
  ultimately show ?thesis
    using i by (force simp: list_expired_lease_job_ids_def)
qed

lemma reclaim_eq:
  assumes inv: "store_inv s" and job: "get_job_by_human_id h s = Some j" "holds_lease j"
  shows "\<exists>t. reclaim_interrupted_running_job h r s = (Inr (expired_row j (now_iso s) j), t) \<and>
     log_free t = log_free (recovered
       (set (list_expired_lease_job_ids (clk s) None (backdated (j_id j) s))) (now_iso s)
       (backdated (j_id j) s))"
proof -
  let ?i = "j_id j" and ?u = "backdated (j_id j) s"
  let ?pl = "Some [(''previous_status'', JStr (job_status_text (j_status j)))]"
  let ?v = "logged ?i ''lease.reclaim_requested'' (Some (job_status_text (j_status j))) (Some r) ?pl ?u"
  have j: "job_by_id ?i s = Some j"
    using job inv by (simp add: store_inv_human_id store_inv_job_by_id)
  have inv_v: "store_inv ?v"
    using inv_backdated [OF inv, of ?i] by (rule store_inv_core [rotated]) simp
  have rows: "list_expired_lease_job_ids (clk s) None ?v = list_expired_lease_job_ids (clk s) None ?u"
    using held_rows_log_free [of ?v ?u] by (simp add: list_expired_lease_job_ids_def)
  obtain t where t: "recover_expired_leases None None ?v =
      (Inr (list_expired_lease_job_ids (clk s) None ?u), t)"
    "log_free t = log_free (recovered (set (list_expired_lease_job_ids (clk s) None ?u)) (iso_of (clk s)) ?v)"
    using recover_expired_leases_eq [OF inv_v, of None None] rows by (auto simp: moment_of_def)
  have t_eq: "log_free t = log_free (recovered (set (list_expired_lease_job_ids (clk s) None ?u)) (now_iso s) ?u)"
    using t(2) by (simp add: log_free_recovered now_iso_def)
  have mem: "?i \<in> set (list_expired_lease_job_ids (clk s) None ?u)"
    using backdated_expired [OF inv j job(2)] .
  have "job_by_id ?i t = Some (expired_row j (now_iso s) j)"
    using job_by_id_log_free [OF t_eq, of ?i] j mem by (simp add: job_by_id_recovered)
  moreover have "reclaim_interrupted_running_job h r s = get_job ?i t"
    using job j t(1) mem
    by (simp add: reclaim_interrupted_running_job_def op_simps holds_lease_def
        append_run_event_plain backdated_def [symmetric] disj_commute)
  ultimately show ?thesis using t_eq by (simp add: get_job_def op_simps)
qed

lemma keeps_reclaim: "keeps store_inv (reclaim_interrupted_running_job h r)"
proof (rule keepsI)
  fix s assume inv: "store_inv s"
  consider (held) j where "get_job_by_human_id h s = Some j" "holds_lease j"
    | (other) "\<forall>j. get_job_by_human_id h s = Some j \<longrightarrow> \<not> holds_lease j" by auto
  then show "store_inv (snd (reclaim_interrupted_running_job h r s))"
  proof cases
    case (held j)
    then obtain t where "reclaim_interrupted_running_job h r s = (Inr (expired_row j (now_iso s) j), t)"
      "core t = core (recovered (set (list_expired_lease_job_ids (clk s) None (backdated (j_id j) s)))
         (now_iso s) (backdated (j_id j) s))"
      using reclaim_eq [OF inv] log_freeD(3) by blast
    then show ?thesis
      using inv_recovered [OF inv_backdated [OF inv]] store_inv_core by (metis snd_conv)
  next
    case other
    then show ?thesis
      using inv by (auto simp: reclaim_interrupted_running_job_def op_simps holds_lease_def
          split: option.split)
  qed
qed

section \<open>The machine\<close>

text \<open>One committed or rolled back connection, or a tick of the clock. \<^verbatim>\<open>create_job\<close> accepts any status,
  but every caller of it passes QUEUED, READY or RETRY_WAIT; a job inserted as LEASED or RUNNING would
  have no lease.\<close>

inductive store_step :: "db \<Rightarrow> db \<Rightarrow> bool" where
  tick: "clk s \<le> t \<Longrightarrow> store_step s (s\<lparr>clk := t\<rparr>)"
| create: "n_status a \<notin> {''LEASED'', ''RUNNING''} \<Longrightarrow>
    store_step s (snd (transaction (create_job a) s))"
| depend: "store_step s (snd (transaction (add_job_dependency i d) s))"
| event: "store_step s (snd (transaction (append_run_event i ev st msg pl) s))"
| acquire: "store_step s (snd (transaction (acquire_lease job w secs now) s))"
| recover: "store_step s (snd (transaction (recover_expired_leases now pid) s))"
| reclaim: "store_step s (snd (transaction (reclaim_interrupted_running_job h r) s))"
| run: "store_step s (snd (transaction (mark_running i) s))"
| succeed: "store_step s (snd (transaction (mark_succeeded i ref c oc) s))"
| fail: "store_step s (snd (transaction (mark_failure i e ref b) s))"
| cancel: "store_step s (snd (transaction (mark_cancelled i r) s))"
| block: "store_step s (snd (transaction (mark_blocked i e r) s))"
| unblock: "store_step s (snd (transaction (mark_ready_from_blocked i r) s))"
| promote_retry: "store_step s (snd (transaction (promote_retry_wait_to_ready i r now) s))"
| promote_queued: "store_step s (snd (transaction (promote_queued_to_ready i r) s))"
| set_worktree: "store_step s (snd (transaction (update_job_worktree i n p base) s))"
| set_outcome: "store_step s (snd (transaction (set_job_outcome i oc' k) s))"
| set_assignment: "store_step s (snd (transaction (set_job_assignment i d') s))"
| set_provenance: "store_step s (snd (transaction (set_job_source_provenance i src sha) s))"
| set_authority: "store_step s (snd (transaction (set_job_sponsor_authority i auth) s))"
| add_action: "store_step s (snd (transaction (persist_run_next_action rid pid' ty ji w' due pl') s))"
| reconcile: "store_step s (snd (transaction (reconcile_run_next_actions rid pid'') s))"
| pause: "store_step s (snd (transaction (set_project_paused project paused why) s))"

definition store_start :: "db \<Rightarrow> bool" where
  "store_start s \<longleftrightarrow> (\<exists>t us rk. s = empty_db t us rk)"

lemma store_inv_tick: "store_inv s \<Longrightarrow> store_inv (s\<lparr>clk := t\<rparr>)"
  by (erule store_inv_core [rotated]) (simp add: core_def)

lemma untouched_core_set_paused [frames]: "untouched core (set_project_paused p b r)"
  unfolding set_project_paused_def by (intro frames) (simp add: core_def)

lemmas keeps_operations = keeps_create_job keeps_add_job_dependency keeps_recover_expired_leases
  keeps_reclaim keeps_mark_running keeps_mark_succeeded keeps_mark_failure keeps_mark_cancelled
  keeps_mark_blocked keeps_mark_ready_from_blocked keeps_promote_retry_wait keeps_promote_queued
  keeps_update_job_worktree keeps_set_job_outcome keeps_set_job_assignment
  keeps_set_job_source_provenance keeps_set_job_sponsor_authority
  keeps_store_inv_frame [OF untouched_core_append_run_event]
  keeps_store_inv_frame [OF untouched_core_persist]
  keeps_store_inv_frame [OF untouched_core_reconcile]
  keeps_store_inv_frame [OF untouched_core_set_paused]

lemma store_step_inv: "store_step s t \<Longrightarrow> store_inv s \<Longrightarrow> store_inv t"
  by (induction rule: store_step.induct)
     (auto intro: store_inv_tick keepsD [OF keeps_acquire_lease]
        keepsD [OF keeps_transaction [OF keeps_operations(1)]]
        keeps_operations [THEN keeps_transaction, THEN keepsD])

interpretation store_machine: invariant_machine store_start store_step store_inv
proof unfold_locales
  show "store_start s \<Longrightarrow> store_inv s" for s
    by (auto simp: store_start_def store_inv_empty)
  show "store_inv s \<Longrightarrow> store_step s t \<Longrightarrow> store_inv t" for s t
    by (rule store_step_inv)
qed

section \<open>What the invariant gives\<close>

lemma lease_exists_unique:
  assumes inv: "store_inv s" and j: "j \<in> set (jobs s)"
  shows "j_status j \<in> {LEASED, RUNNING} \<longleftrightarrow>
    (\<exists>!l. l \<in> set (leases s) \<and> l_job_id l = j_id j \<and> l_released_at l = None)"
  using inv j store_inv_lease_unique [OF inv]
  by (auto simp: store_inv_def leases_held_def holds_lease_def)

lemma granted_blocks_others:
  assumes inv: "store_inv s" and grant: "transaction (acquire_lease job w secs now) s = (Inr l, t)"
    and same: "j_id job' = j_id job" and before: "moment_of now' t < of_iso (l_expires_at l)"
  shows "transaction (acquire_lease job' w' secs' now') t = (Inl LeaseError, t)"
  using inv refl [of "moment_of now s"] refl
proof (cases rule: acquire_lease_cases [where secs = secs and job = job and w = w])
  case (grant j v)
  let ?i = "j_id job" and ?m = "moment_of now s"
  let ?u = "recovered (set (list_expired_lease_job_ids ?m None s)) (iso_of ?m) s"
  have [simp]: "v = t" "l = lease_row ?i w secs ?m s" using grant(4) assms(2) by auto
  let ?u' = "recovered (set (list_expired_lease_job_ids (moment_of now' t) None t)) (iso_of (moment_of now' t)) t"
  have j: "j_id j = ?i" using grant(2) by (auto simp: job_by_id_def dest: find_row_SomeD)
  have t_job: "job_by_id ?i t = Some (leased_row (l_leased_at l) j)"
    using job_by_id_log_free [of t "granted ?i l ?u" ?i] grant(2,3,5) j by (simp add: job_by_id_granted)
  have t_leases: "leases t = filter (\<lambda>k. l_job_id k \<noteq> ?i) (leases ?u) @ [l]"
    using log_freeD(2) [of t "granted ?i l ?u"] grant(5) by (simp add: granted_def)
  have "?i \<notin> set (list_expired_lease_job_ids (moment_of now' t) None t)"
  proof
    assume "?i \<in> set (list_expired_lease_job_ids (moment_of now' t) None t)"
    then obtain k j' where k: "(k, j') \<in> set (held_rows t)" "is_expired (moment_of now' t) None (k, j')"
        "j_id j' = ?i" by (auto simp: list_expired_lease_job_ids_def)
    then have "k = l" using held_rows_id [OF k(1)] by (auto simp: held_rows_iff t_leases)
    with k(2) before show False by (simp add: is_expired_def)
  qed
  then have "job_by_id ?i ?u' = Some (leased_row (l_leased_at l) j)"
    using t_job j by (simp add: job_by_id_recovered)
  then have no: "\<forall>k. job_by_id (j_id job') ?u' = Some k \<longrightarrow> j_status k \<noteq> READY"
    using same by (simp add: leased_row_def)
  have "store_inv t" using grant(6) by simp
  then show ?thesis
    by (rule acquire_lease_cases [OF _ refl refl, of t secs' job' now' w']) (use no in auto)
next
  case refuse
  with assms(2) show ?thesis by simp
qed

section \<open>A store for the witnesses\<close>

definition sample_args :: "string \<Rightarrow> string \<Rightarrow> job_args" where
  "sample_args h st = (job_args_of h ''PRJ-1'' ''/repo'' ''developer'' ''delivery'')\<lparr>n_status := st\<rparr>"

definition sample_empty :: db where
  "sample_empty = empty_db 0 (\<lambda>_. ''u'') (\<lambda>r. r)"

text \<open>Two jobs, the second depending on the first.\<close>

definition sample_store :: db where
  "sample_store = snd (transaction (add_job_dependency 2 1)
     (snd (transaction (create_job (sample_args ''JOB-2'' ''READY''))
        (snd (transaction (create_job (sample_args ''JOB-1'' ''READY'')) sample_empty)))))"

definition sample_job :: "int \<Rightarrow> db \<Rightarrow> job" where
  "sample_job i s = (case job_by_id i s of Some j \<Rightarrow> j | None \<Rightarrow> hd (jobs s))"

text \<open>The first job is leased for ten seconds, then running.\<close>

definition sample_leased :: db where
  "sample_leased =
     snd (transaction (acquire_lease (sample_job 1 sample_store) ''w1'' 10 None) sample_store)"

definition sample_running :: db where
  "sample_running = snd (transaction (mark_running 1) sample_leased)"

text \<open>The project is paused.\<close>

definition sample_paused :: db where
  "sample_paused = snd (transaction (set_project_paused ''PRJ-1'' True (Some ''stop'')) sample_store)"

lemmas store_reach_step = reach_step [where start = store_start and step = store_step]

lemma sample_store_reach: "reach store_start store_step sample_store"
  unfolding sample_store_def sample_empty_def
  by (intro store_reach_step [OF _ depend] store_reach_step [OF _ create] reach_start)
     (auto simp: store_start_def sample_args_def)

lemma sample_leased_reach: "reach store_start store_step sample_leased"
  unfolding sample_leased_def by (rule store_reach_step [OF sample_store_reach acquire])

lemma sample_running_reach: "reach store_start store_step sample_running"
  unfolding sample_running_def by (rule store_reach_step [OF sample_leased_reach run])

lemma sample_paused_reach: "reach store_start store_step sample_paused"
  unfolding sample_paused_def by (rule store_reach_step [OF sample_store_reach pause])

section \<open>Properties of the store\<close>

text \<open>C1: In every state that the operations of the store can reach, in any order and by any number
  of workers, a job is LEASED or RUNNING exactly while it has an unreleased lease, and then it has
  exactly one: no job is held by two workers and none is held by nobody.\<close>

theorem one_lease_per_held_job:
  assumes "reach store_start store_step s" "j \<in> set (jobs s)"
  shows "j_status j \<in> {LEASED, RUNNING} \<longleftrightarrow>
    (\<exists>!l. l \<in> set (leases s) \<and> l_job_id l = j_id j \<and> l_released_at l = None)"
  using lease_exists_unique [OF store_machine.reach_inv] assms by blast

lemma one_lease_per_held_job_witness:
  "j_status (sample_job 1 sample_running) = RUNNING \<and>
   (\<exists>!l. l \<in> set (leases sample_running) \<and> l_job_id l = j_id (sample_job 1 sample_running) \<and>
      l_released_at l = None)"
proof -
  have "sample_job 1 sample_running \<in> set (jobs sample_running)"
    "j_status (sample_job 1 sample_running) = RUNNING" by code_simp+
  with one_lease_per_held_job [OF sample_running_reach, of "sample_job 1 sample_running"]
  show ?thesis by simp
qed

text \<open>C2: A lease excludes: once \<^verbatim>\<open>acquire_lease\<close> has granted a lease on a job, every further attempt
  to lease the same job before the lease expires raises LeaseError and leaves the database as it
  was, whichever worker asks and for however long.\<close>

theorem lease_excludes_others:
  assumes "reach store_start store_step s"
    and "transaction (acquire_lease job w secs now) s = (Inr l, t)"
    and "j_id job' = j_id job" and "moment_of now' t < of_iso (l_expires_at l)"
  shows "transaction (acquire_lease job' w' secs' now') t = (Inl LeaseError, t)"
  using granted_blocks_others [OF store_machine.reach_inv] assms by blast

lemma lease_excludes_others_witness:
  "transaction (acquire_lease (sample_job 1 sample_leased) ''w2'' 900 (Some 9999999)) sample_leased =
     (Inl LeaseError, sample_leased)"
proof (rule lease_excludes_others [OF sample_store_reach])
  show "transaction (acquire_lease (sample_job 1 sample_store) ''w1'' 10 None) sample_store =
      (Inr (hd (leases sample_leased)), sample_leased)"
  proof -
    have "fst (transaction (acquire_lease (sample_job 1 sample_store) ''w1'' 10 None) sample_store) =
      Inr (hd (leases sample_leased))" by code_simp
    then show ?thesis by (simp add: sample_leased_def prod_eq_iff)
  qed
qed code_simp+

text \<open>C3: \<^verbatim>\<open>acquire_lease\<close>, exactly: with \<open>u\<close> the database after recovery of the leases expired at the
  call's moment, it grants iff the duration is positive and the job is READY in \<open>u\<close>; the lease row is
  the next one, runs for the given seconds and replaces the released rows of the job, whose status
  becomes LEASED, and nothing else changes but the event log. Otherwise it raises LeaseError and the
  connection rolls back to \<open>s\<close>.\<close>

theorem acquire_lease_spec:
  assumes "reach store_start store_step s"
    and "m = moment_of now s"
    and "u = recovered (set (list_expired_lease_job_ids m None s)) (iso_of m) s"
  shows "if 0 < secs \<and> (\<exists>j. job_by_id (j_id job) u = Some j \<and> j_status j = READY)
    then \<exists>t. transaction (acquire_lease job w secs now) s = (Inr (lease_row (j_id job) w secs m s), t) \<and>
           log_free t = log_free (granted (j_id job) (lease_row (j_id job) w secs m s) u)
    else transaction (acquire_lease job w secs now) s = (Inl LeaseError, s)"
  by (rule acquire_lease_cases [OF store_machine.reach_inv [OF assms(1)] assms(2,3), of secs job w])
     (auto simp: not_less)

lemma acquire_lease_spec_witness:
  "\<exists>t. transaction (acquire_lease (sample_job 1 sample_store) ''w1'' 10 None) sample_store =
     (Inr (lease_row 1 ''w1'' 10 0 sample_store), t)"
proof -
  let ?u = "recovered (set (list_expired_lease_job_ids 0 None sample_store)) (iso_of 0) sample_store"
  have "j_id (sample_job 1 sample_store) = 1" "0 = moment_of None sample_store"
    "job_by_id 1 ?u = Some (sample_job 1 ?u)" "j_status (sample_job 1 ?u) = READY"
    by code_simp+
  then show ?thesis
    using acquire_lease_spec [OF sample_store_reach, of 0 None ?u 10 "sample_job 1 sample_store" "''w1''"]
    by auto
qed

text \<open>C4: \<^verbatim>\<open>recover_expired_leases\<close> always succeeds, returns exactly the ids of the held jobs whose lease
  has expired, leaves no expired lease behind, and rewrites no other job. A job that was only LEASED
  goes back to READY with its attempts untouched; a RUNNING one spends an attempt and waits for a
  retry, or fails when that was the last.\<close>

theorem recover_expired_leases_spec:
  assumes "reach store_start store_step s" "m = moment_of now s"
  shows "\<exists>t. recover_expired_leases now pid s = (Inr (list_expired_lease_job_ids m pid s), t) \<and>
    list_expired_lease_job_ids m pid t = [] \<and>
    (\<forall>j. job_by_id i s = Some j \<longrightarrow> (\<exists>k. job_by_id i t = Some k \<and>
       (if i \<notin> set (list_expired_lease_job_ids m pid s) then k = j
        else if j_status j = LEASED then j_status k = READY \<and> j_attempt k = j_attempt j
        else j_status k = (if j_max_attempts j \<le> j_attempt j + 1 then FAILED else RETRY_WAIT) \<and>
             j_attempt k = j_attempt j + 1)))"
proof -
  let ?ids = "list_expired_lease_job_ids m pid s"
  have inv: "store_inv s" using assms(1) by (rule store_machine.reach_inv)
  obtain t where t: "recover_expired_leases now pid s = (Inr ?ids, t)"
      "log_free t = log_free (recovered (set ?ids) (iso_of m) s)"
    using recover_expired_leases_eq [OF inv, of now pid] assms(2) by blast
  have "list_expired_lease_job_ids m pid t = []"
    using nothing_expired_left [OF inv, of m pid "iso_of m"] held_rows_log_free [OF t(2)]
    by (simp add: list_expired_lease_job_ids_def)
  moreover have "\<exists>k. job_by_id i t = Some k \<and>
       (if i \<notin> set ?ids then k = j
        else if j_status j = LEASED then j_status k = READY \<and> j_attempt k = j_attempt j
        else j_status k = (if j_max_attempts j \<le> j_attempt j + 1 then FAILED else RETRY_WAIT) \<and>
             j_attempt k = j_attempt j + 1)" if "job_by_id i s = Some j" for j
    using that job_by_id_log_free [OF t(2), of i] store_inv_job_by_id [OF inv, of i j]
    by (simp add: job_by_id_recovered expired_row_def expired_status_def expired_attempt_def Let_def)
  ultimately show ?thesis using t(1) by blast
qed

lemma recover_expired_leases_spec_witness:
  "\<exists>t. recover_expired_leases (Some 10000000) None sample_running = (Inr [1], t) \<and>
     list_expired_lease_job_ids 10000000 None t = [] \<and>
     (\<exists>k. job_by_id 1 t = Some k \<and> j_status k = RETRY_WAIT \<and> j_attempt k = 1)"
proof -
  have "10000000 = moment_of (Some 10000000) sample_running"
    "list_expired_lease_job_ids 10000000 None sample_running = [1]"
    "job_by_id 1 sample_running = Some (sample_job 1 sample_running)"
    "j_status (sample_job 1 sample_running) = RUNNING" "j_attempt (sample_job 1 sample_running) = 0"
    "j_max_attempts (sample_job 1 sample_running) = 3" by code_simp+
  then show ?thesis
    using recover_expired_leases_spec
      [OF sample_running_reach, of 10000000 "Some 10000000" None 1] by auto
qed

text \<open>\<^verbatim>\<open>reclaim_interrupted_running_job\<close> on a LEASED or RUNNING job always applies the expired lease
  policy to it: the lease it backdates is always found expired, so the job leaves its held state in
  the same connection, its lease is released, and its identity and base commit are kept.\<close>

theorem reclaim_releases_job:
  assumes "reach store_start store_step s" "get_job_by_human_id h s = Some j"
    and "j_status j \<in> {LEASED, RUNNING}"
  shows "\<exists>k t. reclaim_interrupted_running_job h r s = (Inr k, t) \<and> job_by_id (j_id j) t = Some k \<and>
    j_status k = expired_status j \<and> j_attempt k = expired_attempt j \<and> same_identity k j \<and>
    j_base_git_sha k = j_base_git_sha j \<and> j_work_item_human_id k = j_work_item_human_id j \<and>
    active_lease_for_job (j_id j) t = None"
proof -
  have inv: "store_inv s" using assms(1) by (rule store_machine.reach_inv)
  have held: "holds_lease j" using assms(3) by (simp add: holds_lease_def disj_commute)
  let ?u = "backdated (j_id j) s" and ?k = "expired_row j (now_iso s) j"
  let ?ids = "set (list_expired_lease_job_ids (clk s) None ?u)"
  obtain t where t: "reclaim_interrupted_running_job h r s = (Inr ?k, t)"
      "log_free t = log_free (recovered ?ids (now_iso s) ?u)"
    using reclaim_eq [OF inv assms(2) held] by blast
  have j: "job_by_id (j_id j) s = Some j"
    using assms(2) inv by (simp add: store_inv_human_id store_inv_job_by_id)
  have mem: "j_id j \<in> ?ids" by (rule backdated_expired [OF inv j held])
  have k: "job_by_id (j_id j) t = Some ?k"
    using job_by_id_log_free [OF t(2), of "j_id j"] j mem by (simp add: job_by_id_recovered)
  have "store_inv t"
    using keeps_eq [OF keeps_reclaim inv t(1)] .
  then have "active_lease_for_job (j_id j) t = None"
    using ready_holds_no_lease [OF _ k] by (auto simp: active_lease_for_job_def find_row_None_iff)
  with t(1) k show ?thesis
    by (auto simp: same_identity_def expired_row_def Let_def)
qed

lemma reclaim_releases_job_witness:
  "\<exists>k t. reclaim_interrupted_running_job ''JOB-1'' ''stop'' sample_running = (Inr k, t) \<and>
     j_status k = RETRY_WAIT \<and> active_lease_for_job 1 t = None"
proof -
  have "get_job_by_human_id ''JOB-1'' sample_running = Some (sample_job 1 sample_running)"
    "j_status (sample_job 1 sample_running) \<in> {LEASED, RUNNING}"
    "expired_status (sample_job 1 sample_running) = RETRY_WAIT" "j_id (sample_job 1 sample_running) = 1"
    by code_simp+
  then show ?thesis
    using reclaim_releases_job [OF sample_running_reach, of "''JOB-1''" "sample_job 1 sample_running" "''stop''"]
    by auto
qed

text \<open>C31: Projects stay apart in every reachable state: two jobs belong to the same project exactly
  when their repository roots name the same repository, and a dependency edge joins two different
  existing jobs of one project.\<close>

theorem projects_isolated:
  assumes "reach store_start store_step s"
  shows "(\<forall>j \<in> set (jobs s). \<forall>k \<in> set (jobs s). j_project_human_id j = j_project_human_id k \<longleftrightarrow>
      root_key s (j_repository_root j) = root_key s (j_repository_root k)) \<and>
    (\<forall>i d. (i, d) \<in> set (deps s) \<longrightarrow> i \<noteq> d \<and> (\<exists>j k. job_by_id i s = Some j \<and>
      job_by_id d s = Some k \<and> j_project_human_id j = j_project_human_id k))"
proof -
  have inv: "store_inv s" using assms by (rule store_machine.reach_inv)
  have "i \<noteq> d \<and> (\<exists>j k. job_by_id i s = Some j \<and> job_by_id d s = Some k \<and>
      j_project_human_id j = j_project_human_id k)" if "(i, d) \<in> set (deps s)" for i d
  proof -
    have "deps_inside s" using inv by (simp add: store_inv_def)
    then have "case (i, d) of (i, d) \<Rightarrow> i \<noteq> d \<and> (\<exists>j \<in> set (jobs s). \<exists>k \<in> set (jobs s).
        j_id j = i \<and> j_id k = d \<and> j_project_human_id j = j_project_human_id k)"
      using that unfolding deps_inside_def by (elim conjE bspec)
    then show ?thesis using store_inv_job_by_id [OF inv] by auto
  qed
  with inv show ?thesis by (simp add: store_inv_def isolated_def)
qed

lemma projects_isolated_witness:
  "deps sample_store = [(2, 1)] \<and> (\<exists>j k. job_by_id 2 sample_store = Some j \<and>
     job_by_id 1 sample_store = Some k \<and> j_project_human_id j = j_project_human_id k)"
proof -
  have "deps sample_store = [(2, 1)]" by code_simp
  with projects_isolated [OF sample_store_reach] show ?thesis by simp
qed

text \<open>\<^verbatim>\<open>create_job\<close>, exactly, in every reachable state: an unknown status, a clash with the isolation of
  projects and a taken human id are refused in this order and change nothing; otherwise the row is
  appended under a fresh id with the arguments given and returned, READY jobs stamped with the time.\<close>

theorem create_job_spec:
  assumes "reach store_start store_step s"
  shows "create_job a s = (case map_of JOB_STATUSES (n_status a) of
      None \<Rightarrow> (Inl OrchestrationError, s)
    | Some st \<Rightarrow>
        if snapshot_clash a s \<or>
           (\<exists>j \<in> set (jobs s). (j_project_human_id j = n_project_human_id a) \<noteq>
              (root_key s (j_repository_root j) = root_key s (n_repository_root a)))
        then (Inl CrossProjectWriteError, s)
        else if n_human_id a \<in> j_human_id ` set (jobs s) then (Inl IntegrityError, s)
        else (Inr (new_job_row a st (job_seq s + 1) (now_iso s)),
              s\<lparr>jobs := jobs s @ [new_job_row a st (job_seq s + 1) (now_iso s)],
                job_seq := job_seq s + 1\<rparr>))"
  by (rule create_job_eq [OF store_machine.reach_inv [OF assms], unfolded created_def])

lemma create_job_spec_witness:
  "fst (create_job ((job_args_of ''JOB-3'' ''PRJ-2'' ''/repo'' ''qa'' ''assurance'')) sample_store) =
     Inl CrossProjectWriteError"
proof -
  let ?a = "job_args_of ''JOB-3'' ''PRJ-2'' ''/repo'' ''qa'' ''assurance''"
  have "map_of JOB_STATUSES (n_status ?a) = Some READY"
    "\<exists>j \<in> set (jobs sample_store). (j_project_human_id j = n_project_human_id ?a) \<noteq>
      (root_key sample_store (j_repository_root j) = root_key sample_store (n_repository_root ?a))"
    by code_simp+
  then show ?thesis by (simp add: create_job_spec [OF sample_store_reach])
qed

end
