(* ===== verification/Dispatch.thy ===== *)
theory Dispatch
  imports Store_Machine
begin

text \<open>
  Which jobs run: dependency satisfaction and the eligible list of \<^verbatim>\<open>store.py\<close>, and the dispatcher of
  \<^verbatim>\<open>dispatch.py\<close>, whose loop over a thread pool is a step relation (a wave, a finished future, a step of
  a worker on the store). The lemmas give closed forms of the selections and the bound on the number
  of jobs in flight.
\<close>

section \<open>Dependencies\<close>

definition deps_met :: "db \<Rightarrow> int \<Rightarrow> bool" where
  "deps_met s i \<longleftrightarrow> (\<forall>d \<in> set (list_job_dependencies i s).
     case job_by_id d s of None \<Rightarrow> False | Some k \<Rightarrow> job_satisfies_dependency k)"

lemma all_satisfied_eq:
  "(\<And>d. d \<in> set ds \<Longrightarrow> job_by_id d s \<noteq> None) \<Longrightarrow>
   all_satisfied ds s = Inr (\<forall>d \<in> set ds.
     case job_by_id d s of None \<Rightarrow> False | Some k \<Rightarrow> job_satisfies_dependency k)"
  by (induction ds) (auto split: option.splits)

lemma store_inv_dependency:
  assumes "store_inv s" "d \<in> set (list_job_dependencies i s)"
  shows "job_by_id d s \<noteq> None"
proof -
  have "(i, d) \<in> set (deps s)" using assms(2) by (auto simp: list_job_dependencies_def)
  then obtain k where "k \<in> set (jobs s)" "j_id k = d"
    using assms(1) unfolding store_inv_def deps_inside_def by blast
  then show ?thesis by (auto simp: job_by_id_def find_row_None_iff)
qed

lemma dependencies_satisfied_eq:
  "store_inv s \<Longrightarrow> dependencies_satisfied i s = Inr (deps_met s i)"
  unfolding dependencies_satisfied_def deps_met_def
  by (rule all_satisfied_eq) (rule store_inv_dependency)

section \<open>The eligible list\<close>

definition eligible :: "string option \<Rightarrow> string option \<Rightarrow> db \<Rightarrow> job list" where
  "eligible q pid s = filter (\<lambda>j. deps_met s (j_id j)) (ready_rows q pid s)"

lemma collect_eligible_None:
  "store_inv s \<Longrightarrow> collect_eligible None acc js s = Inr (acc @ filter (\<lambda>j. deps_met s (j_id j)) js)"
  by (induction js arbitrary: acc) (auto simp: dependencies_satisfied_eq)

lemma collect_eligible_Some:
  assumes "store_inv s" "length acc < n"
  shows "collect_eligible (Some (int n)) acc js s =
         Inr (acc @ take (n - length acc) (filter (\<lambda>j. deps_met s (j_id j)) js))"
  using assms(2)
proof (induction js arbitrary: acc)
  case (Cons j js)
  show ?case
  proof (cases "deps_met s (j_id j) \<and> n \<noteq> Suc (length acc)")
    case True
    then have "Suc (length acc) < n" using Cons.prems by simp
    then have "n - length acc = Suc (n - Suc (length acc))" by simp
    with True \<open>Suc (length acc) < n\<close> Cons.IH [of "acc @ [j]"] show ?thesis
      by (simp add: dependencies_satisfied_eq [OF assms(1)])
  next
    case False
    with Cons show ?thesis by (auto simp: dependencies_satisfied_eq [OF assms(1)])
  qed
qed simp

lemma list_eligible_eq:
  assumes "store_inv s"
  shows "list_eligible_ready_jobs None q pid s = Inr (eligible q pid s)"
    and "0 < n \<Longrightarrow> list_eligible_ready_jobs (Some (int n)) q pid s = Inr (take n (eligible q pid s))"
  using collect_eligible_None [OF assms] collect_eligible_Some [OF assms, of "[]" n]
  by (simp_all add: list_eligible_ready_jobs_def eligible_def)

lemma eligible_iff:
  "j \<in> set (eligible q pid s) \<longleftrightarrow> j \<in> set (jobs s) \<and> j_status j = READY \<and> matches q (j_queue j) \<and>
     matches pid (j_project_human_id j) \<and> deps_met s (j_id j) \<and>
     (\<forall>c \<in> set (controls s). c_paused c \<longrightarrow> c_project_human_id c \<noteq> j_project_human_id j)"
  by (auto simp: eligible_def ready_rows_def image_iff)

lemma eligible_sorted: "sorted (map ready_order (eligible q pid s))"
  by (simp add: eligible_def ready_rows_def sorted_filter)

lemma eligible_distinct:
  assumes "store_inv s" shows "distinct (map j_human_id (eligible q pid s))"
proof -
  have "distinct (jobs s)" "inj_on j_human_id (set (jobs s))"
    using assms by (auto simp: store_inv_def jobs_keyed_def distinct_map)
  then show ?thesis
    unfolding eligible_def ready_rows_def by (auto simp: distinct_map intro: inj_on_subset)
qed

lemma first_satisfied_eq:
  "store_inv s \<Longrightarrow> first_satisfied js s = Inr (find (\<lambda>j. deps_met s (j_id j)) js)"
  by (induction js) (auto simp: dependencies_satisfied_eq)

section \<open>The dispatcher\<close>

text \<open>\<^verbatim>\<open>DispatchResult.exit_code\<close> over the \<^verbatim>\<open>(status, exit_code)\<close> of the completed runs.\<close>

definition dispatch_exit_code :: "bool \<Rightarrow> (string \<times> int) list \<Rightarrow> int" where
  "dispatch_exit_code cancelled completed =
     (if cancelled then 130
      else if \<exists>r \<in> set completed. snd r \<noteq> 0 \<and> fst r \<notin> {''idle'', ''skipped''} then 1 else 0)"

text \<open>The loop over the eligible jobs, and one wave: the values of \<^verbatim>\<open>in_flight\<close> are the human ids of
  the running jobs. \<open>n\<close> is the number of jobs submitted before the cancel event is seen.\<close>

fun pick_jobs :: "string set \<Rightarrow> int \<Rightarrow> job list \<Rightarrow> job list \<Rightarrow> job list" where
  "pick_jobs busy slots sel [] = sel"
| "pick_jobs busy slots sel (j # js) =
     (if j_human_id j \<in> busy then pick_jobs busy slots sel js
      else if slots \<le> int (length (sel @ [j])) then sel @ [j]
      else pick_jobs busy slots (sel @ [j]) js)"

definition select_wave :: "int \<Rightarrow> string option \<Rightarrow> string list \<Rightarrow> db \<Rightarrow> exn + job list" where
  "select_wave max_parallel pid in_flight s =
     (let busy = set in_flight; slots = max_parallel - int (length in_flight) in
      if slots \<le> 0 then Inr []
      else case list_eligible_ready_jobs (Some (slots + int (card busy))) None pid s of
          Inl e \<Rightarrow> Inl e
        | Inr js \<Rightarrow> Inr (pick_jobs busy slots [] js))"

definition dispatch_wave ::
    "int \<Rightarrow> string option \<Rightarrow> nat \<Rightarrow> string list \<Rightarrow> db \<Rightarrow> (exn + string list) \<times> db" where
  "dispatch_wave max_parallel pid n in_flight s =
     transaction (thenS (recover_expired_leases None None)
       (\<lambda>s. (case select_wave (max 1 max_parallel) pid in_flight s of
               Inl e \<Rightarrow> Inl e
             | Inr sel \<Rightarrow> Inr (in_flight @ map j_human_id (take n sel)), s))) s"

inductive dispatch_step :: "int \<Rightarrow> string option \<Rightarrow> db \<times> string list \<Rightarrow> db \<times> string list \<Rightarrow> bool"
  for max_parallel :: int and pid :: "string option" where
  wave: "dispatch_wave max_parallel pid n fl s = (Inr fl', t) \<Longrightarrow>
    dispatch_step max_parallel pid (s, fl) (t, fl')"
| worker: "store_step s t \<Longrightarrow> dispatch_step max_parallel pid (s, fl) (t, fl)"
| finished: "dispatch_step max_parallel pid (s, fl @ h # fl') (s, fl @ fl')"

lemma pick_jobs_eq:
  "0 < slots \<Longrightarrow> length sel < nat slots \<Longrightarrow>
   pick_jobs busy slots sel js =
     sel @ take (nat slots - length sel) (filter (\<lambda>j. j_human_id j \<notin> busy) js)"
proof (induction js arbitrary: sel)
  case (Cons j js)
  have "nat slots - length sel = Suc (nat slots - Suc (length sel))" using Cons.prems by simp
  with Cons show ?case by (auto simp: nat_le_iff not_le)
qed simp

text \<open>Asking for \<open>slots + |busy|\<close> eligible jobs is enough: at most \<open>|busy|\<close> of them are skipped.\<close>

lemma take_filter_take:
  assumes "length (filter (\<lambda>x. \<not> P x) xs) \<le> b"
  shows "take n (filter P (take (n + b) xs)) = take n (filter P xs)"
  using assms
proof (induction xs arbitrary: n b)
  case (Cons x xs)
  show ?case
  proof (cases "P x")
    case True
    with Cons show ?thesis by (cases n) auto
  next
    case False
    then obtain c where "b = Suc c" using Cons.prems by (cases b) auto
    with False Cons show ?thesis by simp
  qed
qed simp

lemma busy_eligible_bound:
  assumes "store_inv s" "finite busy"
  shows "length (filter (\<lambda>j. j_human_id j \<in> busy) (eligible q pid s)) \<le> card busy"
proof -
  let ?js = "filter (\<lambda>j. j_human_id j \<in> busy) (eligible q pid s)"
  have "length ?js = card (set (map j_human_id ?js))"
    using distinct_map_filter [OF eligible_distinct [OF assms(1)], of "\<lambda>j. j_human_id j \<in> busy" q pid]
    by (metis distinct_card length_map)
  also have "\<dots> \<le> card busy" using assms(2) by (intro card_mono) auto
  finally show ?thesis .
qed

lemma select_wave_eq:
  assumes "store_inv s"
  shows "select_wave mp pid fl s = Inr (take (nat (mp - int (length fl)))
           (filter (\<lambda>j. j_human_id j \<notin> set fl) (eligible None pid s)))"
proof (cases "mp - int (length fl) \<le> 0")
  case False
  let ?n = "nat (mp - int (length fl))" and ?b = "card (set fl)"
  have "list_eligible_ready_jobs (Some (int (?n + ?b))) None pid s =
      Inr (take (?n + ?b) (eligible None pid s))"
    using False by (intro list_eligible_eq(2) [OF assms]) simp
  moreover have "int (?n + ?b) = mp - int (length fl) + int ?b" using False by simp
  moreover have "take ?n (filter (\<lambda>j. j_human_id j \<notin> set fl) (take (?n + ?b) (eligible None pid s))) =
      take ?n (filter (\<lambda>j. j_human_id j \<notin> set fl) (eligible None pid s))"
    using busy_eligible_bound [OF assms, of "set fl" None pid] by (intro take_filter_take) simp
  ultimately show ?thesis
    using False by (simp add: select_wave_def Let_def pick_jobs_eq)
qed (simp add: select_wave_def Let_def)

definition dispatch_inv :: "int \<Rightarrow> db \<times> string list \<Rightarrow> bool" where
  "dispatch_inv mp st \<longleftrightarrow> store_inv (fst st) \<and> distinct (snd st) \<and> int (length (snd st)) \<le> max 1 mp"

definition dispatch_start :: "db \<times> string list \<Rightarrow> bool" where
  "dispatch_start st \<longleftrightarrow> reach store_start store_step (fst st) \<and> snd st = []"

lemma dispatch_wave_inv:
  assumes inv: "dispatch_inv mp (s, fl)" and wave: "dispatch_wave mp pid n fl s = (Inr fl', t)"
  shows "dispatch_inv mp (t, fl')"
proof -
  obtain r where r: "recover_expired_leases None None s = (Inr r, t)"
      "select_wave (max 1 mp) pid fl t = Inr sel \<Longrightarrow> fl' = fl @ map j_human_id (take n sel)" for sel
    using wave
    by (auto simp: dispatch_wave_def transaction_Inr thenS_def bindS_eq_Inr_iff split: sum.splits)
  have t: "store_inv t"
    using keeps_eq [OF keeps_recover_expired_leases _ r(1)] inv by (simp add: dispatch_inv_def)
  let ?sel = "take (nat (max 1 mp - int (length fl)))
     (filter (\<lambda>j. j_human_id j \<notin> set fl) (eligible None pid t))"
  have fl': "fl' = fl @ map j_human_id (take n ?sel)"
    using r(2) select_wave_eq [OF t, of "max 1 mp" pid fl] by blast
  have "distinct (map j_human_id (take n ?sel))"
    using distinct_map_filter [OF eligible_distinct [OF t], of "\<lambda>j. j_human_id j \<notin> set fl" None pid]
    by (simp flip: take_map add: distinct_take)
  moreover have "set (map j_human_id (take n ?sel)) \<inter> set fl = {}"
    by (auto dest!: in_set_takeD)
  moreover have "length (take n ?sel) \<le> nat (max 1 mp - int (length fl))" by simp
  ultimately show ?thesis
    using inv t unfolding dispatch_inv_def fl' by (auto simp: le_nat_iff)
qed

interpretation dispatcher: invariant_machine dispatch_start "dispatch_step mp pid" "dispatch_inv mp"
  for mp pid
proof unfold_locales
  show "dispatch_start s \<Longrightarrow> dispatch_inv mp s" for s
    by (auto simp: dispatch_start_def dispatch_inv_def store_machine.reach_inv)
  show "dispatch_inv mp t" if "dispatch_inv mp s" "dispatch_step mp pid s t" for s t
    using that(2,1)
  proof cases
    case wave
    then show ?thesis using that(1) by (blast intro: dispatch_wave_inv)
  qed (auto simp: dispatch_inv_def store_step_inv)
qed

section \<open>Properties\<close>

text \<open>C6: \<^verbatim>\<open>list_eligible_ready_jobs\<close> never raises in a reachable state and returns, in the order of
  dispatch (priority from high to low, then ready or creation time, then id) and cut at the limit,
  exactly the READY jobs of the queue and project asked for whose project is not paused and whose
  dependencies have all succeeded with an outcome that counts.\<close>

theorem eligible_jobs_spec:
  assumes "reach store_start store_step s"
  shows "\<exists>js. list_eligible_ready_jobs None q pid s = Inr js \<and>
    (\<forall>n > 0. list_eligible_ready_jobs (Some (int n)) q pid s = Inr (take n js)) \<and>
    sorted (map ready_order js) \<and> distinct js \<and>
    (\<forall>j. j \<in> set js \<longleftrightarrow> j \<in> set (jobs s) \<and> j_status j = READY \<and> matches q (j_queue j) \<and>
       matches pid (j_project_human_id j) \<and>
       (\<forall>c \<in> set (controls s). c_paused c \<longrightarrow> c_project_human_id c \<noteq> j_project_human_id j) \<and>
       (\<forall>d. (j_id j, d) \<in> set (deps s) \<longrightarrow>
          (\<exists>k. job_by_id d s = Some k \<and> job_satisfies_dependency k)))"
proof -
  have inv: "store_inv s" using assms by (rule store_machine.reach_inv)
  have met: "deps_met s i \<longleftrightarrow> (\<forall>d. (i, d) \<in> set (deps s) \<longrightarrow>
      (\<exists>k. job_by_id d s = Some k \<and> job_satisfies_dependency k))" for i
    by (fastforce simp: deps_met_def list_job_dependencies_def split: option.splits)
  show ?thesis
    using list_eligible_eq(1) [OF inv, of q pid] list_eligible_eq(2) [OF inv, of _ q pid]
      eligible_sorted [of q pid s]
      distinct_map [of j_human_id "eligible q pid s"] eligible_distinct [OF inv, of q pid]
    by (intro exI [of _ "eligible q pid s"]) (auto simp: eligible_iff met)
qed

text \<open>The first job may run until its project is paused.\<close>

lemma eligible_jobs_spec_witness:
  "(\<exists>js. list_eligible_ready_jobs None None None sample_store = Inr js \<and>
      sample_job 1 sample_store \<in> set js \<and> sample_job 2 sample_store \<notin> set js) \<and>
   list_eligible_ready_jobs None None None sample_paused = Inr []"
proof
  obtain js where js: "list_eligible_ready_jobs None None None sample_store = Inr js"
    "\<forall>j. j \<in> set js \<longleftrightarrow> j \<in> set (jobs sample_store) \<and> j_status j = READY \<and> matches None (j_queue j) \<and>
       matches None (j_project_human_id j) \<and>
       (\<forall>c \<in> set (controls sample_store). c_paused c \<longrightarrow> c_project_human_id c \<noteq> j_project_human_id j) \<and>
       (\<forall>d. (j_id j, d) \<in> set (deps sample_store) \<longrightarrow>
          (\<exists>k. job_by_id d sample_store = Some k \<and> job_satisfies_dependency k))"
    using eligible_jobs_spec [OF sample_store_reach, of None None] by blast
  have "sample_job 1 sample_store \<in> set (jobs sample_store)"
    "j_status (sample_job 1 sample_store) = READY" "controls sample_store = []"
    "j_id (sample_job 1 sample_store) = 1" "j_id (sample_job 2 sample_store) = 2"
    "deps sample_store = [(2, 1)]" "job_by_id 1 sample_store = Some (sample_job 1 sample_store)"
    "\<not> job_satisfies_dependency (sample_job 1 sample_store)" by code_simp+
  with js show "\<exists>js. list_eligible_ready_jobs None None None sample_store = Inr js \<and>
      sample_job 1 sample_store \<in> set js \<and> sample_job 2 sample_store \<notin> set js"
    by (simp add: matches_def truthy_str_def)
next
  obtain js where js: "list_eligible_ready_jobs None None None sample_paused = Inr js"
    "\<forall>j. j \<in> set js \<longrightarrow> j \<in> set (jobs sample_paused) \<and>
       (\<forall>c \<in> set (controls sample_paused). c_paused c \<longrightarrow> c_project_human_id c \<noteq> j_project_human_id j)"
    using eligible_jobs_spec [OF sample_paused_reach, of None None] by blast
  have "controls sample_paused = [control_row ''PRJ-1'' True (Some ''stop'') 0]"
    "\<forall>j \<in> set (jobs sample_paused). j_project_human_id j = ''PRJ-1''" by code_simp+
  with js(2) have "j \<notin> set js" for j by (fastforce simp: control_row_def)
  then have "js = []" by (metis last_in_set)
  with js(1) show "list_eligible_ready_jobs None None None sample_paused = Inr []" by simp
qed

text \<open>One wave of the dispatcher selects the first jobs of the eligible list that are not in
  flight, as many as there are free slots: reading only \<^verbatim>\<open>slots + len(busy)\<close> eligible jobs loses none.\<close>

theorem select_wave_spec:
  assumes "reach store_start store_step s"
  shows "\<exists>js. list_eligible_ready_jobs None None pid s = Inr js \<and>
    select_wave mp pid fl s =
      Inr (take (nat (mp - int (length fl))) (filter (\<lambda>j. j_human_id j \<notin> set fl) js))"
  using list_eligible_eq(1) [OF store_machine.reach_inv [OF assms]]
    select_wave_eq [OF store_machine.reach_inv [OF assms]] by blast

lemma select_wave_spec_witness:
  "map_sum id (map j_human_id) (select_wave 2 None [''JOB-9''] sample_store) = Inr [''JOB-1'']"
proof -
  obtain js where "list_eligible_ready_jobs None None None sample_store = Inr js"
    "select_wave 2 None [''JOB-9''] sample_store =
       Inr (take (nat (2 - int (length [''JOB-9'']))) (filter (\<lambda>j. j_human_id j \<notin> set [''JOB-9'']) js))"
    using select_wave_spec [OF sample_store_reach, of None 2 "[''JOB-9'']"] by blast
  moreover have "list_eligible_ready_jobs None None None sample_store = Inr [sample_job 1 sample_store]"
    "j_human_id (sample_job 1 sample_store) = ''JOB-1''" by code_simp+
  ultimately show ?thesis by auto
qed

text \<open>C5: However waves, finished runs and the workers' own steps on the store interleave, the
  dispatcher never has more than \<^verbatim>\<open>max_parallel\<close> jobs in flight (one, when the setting is below one) and
  never the same job twice.\<close>

theorem dispatch_bounded:
  assumes "reach dispatch_start (dispatch_step mp pid) (s, fl)"
  shows "int (length fl) \<le> max 1 mp \<and> distinct fl"
  using dispatcher.reach_inv [OF assms] by (simp add: dispatch_inv_def)

lemma dispatch_bounded_witness:
  "int (length [''JOB-1'']) \<le> max 1 2 \<and> distinct [''JOB-1'']"
proof (rule dispatch_bounded)
  have "fst (dispatch_wave 2 None 5 [] sample_store) = Inr [''JOB-1'']" by code_simp
  then have "dispatch_step 2 None (sample_store, [])
      (snd (dispatch_wave 2 None 5 [] sample_store), [''JOB-1''])"
    by (intro wave [of _ _ 5]) (metis prod.collapse)
  moreover have "reach dispatch_start (dispatch_step 2 None) (sample_store, [])"
    by (rule reach_start) (simp add: dispatch_start_def sample_store_reach)
  ultimately show "reach dispatch_start (dispatch_step 2 None)
      (snd (dispatch_wave 2 None 5 [] sample_store), [''JOB-1''])"
    by (rule reach_step [rotated])
qed

end
