(* ===== verification/Job_Rows.thy ===== *)
theory Job_Rows
  imports Store_Machine
begin

text \<open>
  What becomes of a row of the job table over the operations of \<^verbatim>\<open>store.py\<close>. The locale \<open>row_order\<close> is the contract between
  a relation on rows and the SET clauses of the store: a preorder that every SET clause respects relates every job of a
  state to a job of each later state, whichever operations run in between. It is interpreted here on the identity of a job, and
  in \<open>Retry_Policy\<close> on the account of its attempts.
\<close>

section \<open>Preorders that the SET clauses respect\<close>

locale row_order =
  fixes ord :: "job \<Rightarrow> job \<Rightarrow> bool"
  assumes ord_refl: "ord j j"
    and ord_trans: "ord j k \<Longrightarrow> ord k l \<Longrightarrow> ord j l"
    and ord_worker: "ord j (running_row now j)" "ord j (leased_row now j)" "ord j (unleased_row now j)"
    and ord_ended: "ord j (succeeded_row ref c oc now j)" "ord j (cancelled_row r now j)" "ord j (blocked_row e now j)"
      "ord j (failure_row b e ref m j)" "ord j (expired_row j now j)"
    and ord_ready: "ord j (revalidated_row now j)" "ord j (retry_ready_row now j)" "ord j (queued_ready_row now j)"
    and ord_fields: "ord j (worktree_row n p base now j)" "ord j (outcome_row v by_job now j)" "ord j (assignment_row d now j)"
      "ord j (provenance_row src sha now j)" "ord j (authority_row a now j)"
begin

definition follows :: "job \<Rightarrow> db \<Rightarrow> bool" where
  "follows j s \<longleftrightarrow> (\<exists>k \<in> set (jobs s). ord j k)"

lemma follows_updated:
  assumes "follows j s" "\<And>k. p k \<Longrightarrow> ord k (f k)" "jobs t = update_where p f (jobs s)"
  shows "follows j t"
proof -
  obtain k where k: "k \<in> set (jobs s)" "ord j k" using assms(1) by (auto simp: follows_def)
  then have "(if p k then f k else k) \<in> set (jobs t)" unfolding assms(3) set_update_where by auto
  moreover have "ord j (if p k then f k else k)" using assms(2) k(2) ord_trans by auto
  ultimately show ?thesis unfolding follows_def by blast
qed

lemma keeps_follows_update:
  assumes "\<And>s k. p s k \<Longrightarrow> ord k (f s k)"
  shows "keeps (follows j) (modifyS (\<lambda>s. s\<lparr>jobs := update_where (p s) (f s) (jobs s)\<rparr>))"
proof (rule keepsI)
  fix s assume "follows j s"
  then show "follows j (snd (modifyS (\<lambda>s. s\<lparr>jobs := update_where (p s) (f s) (jobs s)\<rparr>) s))"
    unfolding modifyS_def snd_conv using assms by (rule follows_updated [where p = "p s" and f = "f s"]) simp_all
qed

lemma keeps_follows_frame: "untouched core m \<Longrightarrow> keeps (follows j) m"
  by (rule keeps_untouched [of core]) (auto simp: core_def follows_def)

lemma keeps_follows_leases: "keeps (follows j) (modifyS (\<lambda>s. s\<lparr>leases := f s\<rparr>))"
  by (rule keepsI) (simp add: modifyS_def follows_def)

lemma keeps_follows_release: "keeps (follows j) (release_lease i r)"
  unfolding release_lease_def by (intro keeps_intros keeps_follows_leases keeps_follows_frame frames)

lemmas keeps_row = keeps_intros keeps_follows_update keeps_follows_release
  keeps_follows_frame [OF untouched_core_get_job] keeps_follows_frame [OF untouched_core_append_run_event]
  keeps_follows_frame [OF untouched_core_require_same_project] keeps_follows_frame [OF untouched_core_sync]
  keeps_follows_frame [OF untouched_getS] keeps_follows_frame [OF untouched_guardS]
  keeps_follows_frame [OF untouched_returnS] keeps_follows_frame [OF untouched_raiseS]

lemmas ord_rows = ord_worker ord_ended ord_ready ord_fields

lemma keeps_follows_marks:
  "keeps (follows j) (mark_running i)" "keeps (follows j) (mark_succeeded i ref c oc)"
  "keeps (follows j) (mark_failure i e ref b)" "keeps (follows j) (mark_cancelled i r)"
  "keeps (follows j) (mark_blocked i e r)"
  unfolding mark_running_def mark_succeeded_def mark_failure_def mark_cancelled_def mark_blocked_def update_job_def
  by (intro keeps_row ord_rows)+

lemma keeps_follows_ready:
  "keeps (follows j) (mark_ready_from_blocked i r)" "keeps (follows j) (promote_retry_wait_to_ready i r now)"
  "keeps (follows j) (promote_queued_to_ready i r)"
  unfolding mark_ready_from_blocked_def promote_retry_wait_to_ready_def promote_queued_to_ready_def
  by (intro keeps_row ord_rows)+

lemma keeps_follows_fields:
  "keeps (follows j) (update_job_worktree i n p base)" "keeps (follows j) (set_job_outcome i v by_job)"
  "keeps (follows j) (set_job_assignment i d)" "keeps (follows j) (set_job_source_provenance i src sha)"
  "keeps (follows j) (set_job_sponsor_authority i a)"
  unfolding update_job_worktree_def set_job_outcome_def set_job_assignment_def set_job_source_provenance_def
    set_job_sponsor_authority_def update_job_def
  by (intro keeps_row ord_rows)+

lemma follows_log_free: "log_free t = log_free s \<Longrightarrow> follows j t = follows j s"
  using log_freeD(1) [of t s] by (simp add: follows_def)

lemma follows_recovered: "follows j s \<Longrightarrow> follows j (recovered ids now s)"
  by (erule follows_updated) (auto simp: recovered_def ord_ended)

lemma follows_recover:
  assumes "store_inv s" "follows j s" shows "follows j (snd (recover_expired_leases now pid s))"
  using recover_expired_leases_eq [OF assms(1), of now pid] assms(2) follows_recovered follows_log_free
  by (metis snd_conv)

lemma follows_acquire:
  assumes "store_inv s" "follows j s" shows "follows j (snd (transaction (acquire_lease job w secs now) s))"
  using assms(1) refl refl
proof (cases rule: acquire_lease_cases [where secs = secs and job = job and w = w and now = now])
  case (grant k t)
  have "follows j (granted (j_id job) l (recovered ids n s))" for l ids n
    by (rule follows_updated [OF follows_recovered [OF assms(2)]]) (auto simp: granted_def ord_worker)
  with grant(4,5) follows_log_free show ?thesis by (metis snd_conv)
qed (use assms(2) in simp)

lemma follows_reclaim:
  assumes inv: "store_inv s" and j: "follows j s"
  shows "follows j (snd (reclaim_interrupted_running_job h r s))"
proof (cases "\<exists>k. get_job_by_human_id h s = Some k \<and> holds_lease k")
  case True
  then obtain k t where "reclaim_interrupted_running_job h r s = (Inr (expired_row k (now_iso s) k), t)"
      "log_free t = log_free (recovered (set (list_expired_lease_job_ids (clk s) None (backdated (j_id k) s)))
         (now_iso s) (backdated (j_id k) s))"
    using reclaim_eq [OF inv] by blast
  moreover have "follows j (recovered ids n (backdated i s))" for ids n i
    by (rule follows_recovered) (use j in \<open>simp add: follows_def\<close>)
  ultimately show ?thesis using follows_log_free by (metis snd_conv)
next
  case False
  then show ?thesis
    using j by (auto simp: reclaim_interrupted_running_job_def op_simps holds_lease_def split: option.split)
qed

lemma keeps_follows_create: "keeps (follows j) (create_job a)"
proof -
  have "keeps (follows j) (modifyS (\<lambda>s. s\<lparr>jobs := jobs s @ [row], job_seq := i\<rparr>))" for row i
    by (rule keepsI) (auto simp: modifyS_def follows_def)
  moreover have "untouched core (assert_create_job_isolation a)"
    unfolding assert_create_job_isolation_def by (intro frames)
  ultimately show ?thesis
    unfolding create_job_def by (intro keeps_row keeps_follows_frame [OF \<open>untouched core (assert_create_job_isolation a)\<close>])
qed

lemma keeps_follows_depend: "keeps (follows j) (add_job_dependency i d)"
proof -
  have "keeps (follows j) (modifyS (\<lambda>s. s\<lparr>deps := f s\<rparr>))" for f
    by (rule keepsI) (simp add: modifyS_def follows_def)
  then show ?thesis unfolding add_job_dependency_def by (intro keeps_row)
qed

lemma follows_transaction: "(follows j s \<Longrightarrow> follows j (snd (m s))) \<Longrightarrow> follows j s \<Longrightarrow> follows j (snd (transaction m s))"
  by (auto simp: transaction_def split: prod.split sum.split)

lemmas keeps_follows_operations = keeps_follows_marks keeps_follows_ready keeps_follows_fields keeps_follows_depend keeps_follows_create
  keeps_follows_frame [OF untouched_core_append_run_event] keeps_follows_frame [OF untouched_core_persist]
  keeps_follows_frame [OF untouched_core_reconcile] keeps_follows_frame [OF untouched_core_set_paused]

lemma follows_step: "store_step s t \<Longrightarrow> store_inv s \<Longrightarrow> follows j s \<Longrightarrow> follows j t"
proof (induction rule: store_step.induct)
  case (tick s t)
  then show ?case by (simp add: follows_def)
qed (auto intro: follows_acquire follows_transaction follows_recover follows_reclaim
    keeps_follows_operations [THEN keeps_transaction, THEN keepsD])

lemma row_kept: "store_step s t \<Longrightarrow> store_inv s \<Longrightarrow> j \<in> set (jobs s) \<Longrightarrow> \<exists>k \<in> set (jobs t). ord j k"
  using follows_step [of s t j] ord_refl by (auto simp: follows_def)

end

section \<open>The identity of a job\<close>

text \<open>No operation of the store removes a job, or changes its id, its human id, its project or its limit of attempts.\<close>

definition same_job :: "job \<Rightarrow> job \<Rightarrow> bool" where
  "same_job j k \<longleftrightarrow> j_id k = j_id j \<and> j_human_id k = j_human_id j \<and> j_project_human_id k = j_project_human_id j \<and>
     j_max_attempts k = j_max_attempts j"

lemmas row_defs = running_row_def leased_row_def unleased_row_def succeeded_row_def cancelled_row_def blocked_row_def
  failure_row_def expired_row_def revalidated_row_def retry_ready_row_def queued_ready_row_def worktree_row_def
  outcome_row_def assignment_row_def provenance_row_def authority_row_def

interpretation job_identity: row_order same_job
  by unfold_locales (simp_all add: same_job_def row_defs Let_def)

section \<open>The tables the store does not write\<close>

text \<open>The contract towards the components that keep tables of their own: what does not depend on the tables of the job store is
  left alone by each of its operations.\<close>

locale foreign_table =
  fixes g :: "db \<Rightarrow> 'a"
  assumes foreign: "g (s\<lparr>jobs := a\<rparr>) = g s" "g (s\<lparr>job_seq := n\<rparr>) = g s" "g (s\<lparr>leases := b\<rparr>) = g s"
      "g (s\<lparr>lease_seq := n\<rparr>) = g s" "g (s\<lparr>deps := c\<rparr>) = g s" "g (s\<lparr>run_events := d\<rparr>) = g s"
      "g (s\<lparr>run_event_seq := n\<rparr>) = g s" "g (s\<lparr>actions := e\<rparr>) = g s" "g (s\<lparr>controls := f\<rparr>) = g s"
      "g (s\<lparr>uuid_next := m\<rparr>) = g s" "g (s\<lparr>clk := t\<rparr>) = g s"
begin

lemma kept_reads: "untouched g (get_job i)" "untouched g (require_same_project is)" "untouched g (job_project_human_id i)"
  unfolding get_job_def require_same_project_def job_project_human_id_def by (intro frames)+

lemma kept_log: "untouched g (append_run_event i ev st msg pl)"
  unfolding append_run_event_def by (intro frames kept_reads) (simp add: foreign)

lemma kept_rows: "untouched g (modifyS (\<lambda>s. s\<lparr>jobs := x s\<rparr>))" "untouched g (modifyS (\<lambda>s. s\<lparr>leases := y s\<rparr>))"
  "untouched g (modifyS (\<lambda>s. s\<lparr>actions := z s\<rparr>))" "untouched g (modifyS (\<lambda>s. s\<lparr>deps := v s\<rparr>))"
  "untouched g (modifyS (\<lambda>s. s\<lparr>controls := w s\<rparr>))" "untouched g (modifyS (\<lambda>s. s\<lparr>leases := y s, lease_seq := n s\<rparr>))"
  "untouched g (modifyS (\<lambda>s. s\<lparr>jobs := x s, job_seq := n s\<rparr>))"
  by (intro frames; simp add: foreign)+

lemma kept_release: "untouched g (release_lease i r)"
  unfolding release_lease_def by (intro frames kept_log kept_rows)

lemma kept_uuid: "untouched g new_uuid"
  by (simp add: untouched_def new_uuid_def foreign)

lemma kept_actions: "untouched g (set_actions p st)" "untouched g (persist_run_next_action rid pid ty ji w due pl)"
  unfolding set_actions_def persist_run_next_action_def Let_def by (intro untouched_bindS untouched_thenS untouched_if
      untouched_getS untouched_guardS untouched_raiseS untouched_returnS kept_uuid kept_rows)+

lemmas kept_steps = untouched_bindS untouched_thenS untouched_if untouched_case_option untouched_case_list untouched_tryS
  untouched_mapS untouched_getS untouched_guardS untouched_raiseS untouched_returnS kept_reads kept_log kept_rows kept_release

lemma kept_reconcile: "untouched g (reconcile_run_next_actions rid pid)"
  unfolding reconcile_run_next_actions_def complete_stale_def complete_run_next_action_def
  by (intro kept_steps kept_actions)

lemma kept_sync: "untouched g (sync_next_actions_for_terminal_job j)"
  unfolding sync_next_actions_for_terminal_job_def complete_run_next_action_for_job_def
  by (intro kept_steps kept_actions kept_reconcile)

lemma kept_create: "untouched g (create_job a)"
  unfolding create_job_def assert_create_job_isolation_def Let_def by (intro kept_steps)

lemma kept_depend: "untouched g (add_job_dependency i d)"
  unfolding add_job_dependency_def by (intro kept_steps)

lemma kept_recover: "untouched g (recover_expired_leases now pid)"
  unfolding recover_expired_leases_def recover_one_def Let_def case_prod_unfold by (intro kept_steps)

lemma kept_acquire: "untouched g (acquire_lease job w secs now)"
  unfolding acquire_lease_def Let_def by (intro kept_steps kept_recover)

lemma kept_marks: "untouched g (mark_running i)" "untouched g (mark_succeeded i ref c oc)" "untouched g (mark_failure i e ref b)"
  "untouched g (mark_cancelled i r)" "untouched g (mark_blocked i e r)" "untouched g (mark_ready_from_blocked i r)"
  "untouched g (promote_retry_wait_to_ready i r now)" "untouched g (promote_queued_to_ready i r)"
  unfolding mark_running_def mark_succeeded_def mark_failure_def mark_cancelled_def mark_blocked_def update_job_def Let_def
    mark_ready_from_blocked_def promote_retry_wait_to_ready_def promote_queued_to_ready_def
  by (intro kept_steps kept_sync)+

lemma kept_reclaim: "untouched g (reclaim_interrupted_running_job h r)"
  unfolding reclaim_interrupted_running_job_def by (intro kept_steps kept_recover kept_marks)

lemma kept_fields: "untouched g (update_job_worktree i n p base)" "untouched g (set_job_outcome i v by_job)"
  "untouched g (set_job_assignment i a)" "untouched g (set_job_source_provenance i src sha)"
  "untouched g (set_job_sponsor_authority i auth)" "untouched g (set_project_paused pr b why)"
  unfolding update_job_worktree_def set_job_outcome_def set_job_assignment_def set_job_source_provenance_def
    set_job_sponsor_authority_def set_project_paused_def update_job_def
  by (intro kept_steps)+

lemmas kept_operations = kept_log kept_actions kept_reconcile kept_create kept_depend kept_recover kept_acquire kept_marks
  kept_reclaim kept_fields

lemma kept_step: "store_step s t \<Longrightarrow> g t = g s"
  by (induction rule: store_step.induct)
     (auto simp: foreign intro!: untouchedD [OF untouched_transaction] kept_operations)

end

interpretation works_frame: foreign_table works
  by unfold_locales simp_all

end
