(* ===== verification/Retry_Policy.thy ===== *)
theory Retry_Policy
  imports Job_Rows
begin

text \<open>
  Retries of jobs in \<^verbatim>\<open>store.py\<close>: what \<^verbatim>\<open>mark_failure\<close> returns and leaves behind, the backoff it sets and
  its enforcement by \<^verbatim>\<open>promote_retry_wait_to_ready\<close>, and the bound on the number of retries over any run of the
  store, from an interpretation of \<open>row_order\<close> on the account of the attempts of a job.
\<close>

section \<open>The results of the ending operations\<close>

lemma sync_returns: "\<exists>t. sync_next_actions_for_terminal_job j s = (Inr (), t)"
  by (auto simp: sync_next_actions_for_terminal_job_def tryS_def returnS_def split: prod.split sum.split)

lemma get_then_sync:
  assumes "job_by_id i u = Some k"
  shows "\<exists>t. bindS (get_job i) (\<lambda>updated.
      thenS (sync_next_actions_for_terminal_job updated) (returnS updated)) u = (Inr k, t) \<and> core t = core u"
proof -
  obtain t where t: "sync_next_actions_for_terminal_job k u = (Inr (), t)"
    using sync_returns by blast
  then have "core t = core u"
    using untouched_core_sync [of k] unfolding untouched_def by (metis snd_conv)
  with t assms show ?thesis by (simp add: get_job_def op_simps bindS_assoc)
qed

lemma mark_failure_returns:
  assumes "job_by_id i s = Some j"
  shows "\<exists>t. mark_failure i e ref b s = (Inr (failure_row b e ref (clk s) j), t) \<and>
     jobs t = update_where (\<lambda>k. j_id k = i) (failure_row b e ref (clk s)) (jobs s)"
proof -
  let ?u = "ended i (failure_row b e ref) (clk s)
      (if failure_status b j \<noteq> RETRY_WAIT then ''job.failed'' else ''job.retry_wait'')
      (Some (job_status_text (failure_status b j))) (Some e)
      (Some [(''attempt'', JInt (j_attempt j + 1)), (''max_attempts'', JInt (j_max_attempts j))])
      (release_reason (failure_status b j)) s"
  have i: "j_id j = i" using assms by (auto simp: job_by_id_def dest: find_row_SomeD)
  have "job_by_id i ?u = Some (failure_row b e ref (clk s) j)"
    using assms i by (simp add: failure.ended_job)
  then obtain t where "bindS (get_job i) (\<lambda>updated.
      thenS (sync_next_actions_for_terminal_job updated) (returnS updated)) ?u
        = (Inr (failure_row b e ref (clk s) j), t)" "core t = core ?u"
    using get_then_sync by blast
  moreover have "jobs ?u = update_where (\<lambda>k. j_id k = i) (failure_row b e ref (clk s)) (jobs s)"
    by (simp add: ended_def)
  ultimately show ?thesis
    using assms unfolding mark_failure_ending
    by (simp add: get_job_def op_simps bindS_assoc Let_def failure.ending_found core_def)
qed

lemma mark_failure_job:
  assumes "job_by_id i s = Some j" "mark_failure i e ref b s = (Inr k, t)"
  shows "k = failure_row b e ref (clk s) j" "job_by_id i t = Some k"
proof -
  have i: "j_id j = i" using assms(1) by (auto simp: job_by_id_def dest: find_row_SomeD)
  obtain u where u: "mark_failure i e ref b s = (Inr (failure_row b e ref (clk s) j), u)"
      "jobs u = update_where (\<lambda>k. j_id k = i) (failure_row b e ref (clk s)) (jobs s)"
    using mark_failure_returns [OF assms(1), of e ref b] by blast
  then show k: "k = failure_row b e ref (clk s) j" using assms(2) by simp
  have "job_by_id i t = job_by_id i (s\<lparr>jobs := jobs u\<rparr>)"
    using u(1) assms(2) by (simp add: job_by_id_def)
  also have "\<dots> = Some k"
    using failure.job_by_id_update [of i "\<lambda>k. j_id k = i" b e ref "clk s" s] u(2) assms(1) i k by simp
  finally show "job_by_id i t = Some k" .
qed

lemma promote_retry_wait_eq:
  assumes inv: "store_inv s" and job: "job_by_id i s = Some j" "j_status j = RETRY_WAIT"
    and m: "m = moment_of now s"
  shows "if \<exists>t. j_retry_at j = Some t \<and> m < of_iso t
    then promote_retry_wait_to_ready i r now s = (Inl OrchestrationError, s)
    else \<exists>t. promote_retry_wait_to_ready i r now s = (Inr (retry_ready_row (iso_of m) j), t)"
proof -
  have i: "j_id j = i" using job(1) by (auto simp: job_by_id_def dest: find_row_SomeD)
  let ?u = "s\<lparr>jobs := update_where (\<lambda>j. j_id j = i \<and> j_status j = RETRY_WAIT)
     (retry_ready_row (iso_of m)) (jobs s)\<rparr>"
  have n: "row_count (\<lambda>j. j_id j = i \<and> j_status j = RETRY_WAIT) (jobs s) = 1"
    using row_count_job [OF inv, of i "\<lambda>j. j_status j = RETRY_WAIT"] job by simp
  have "job_by_id i ?u = Some (retry_ready_row (iso_of m) j)"
    using retry_ready.job_by_id_update [of i _ "iso_of m" s] job i by simp
  then show ?thesis
    using job n m
    by (auto simp: promote_retry_wait_to_ready_def get_job_def op_simps bindS_assoc Let_def
        moment_of_def append_run_event_plain split: option.splits)
qed

section \<open>The account of attempts\<close>

text \<open>From row \<open>j\<close> to row \<open>k\<close> of a job no attempt is given back, and a job that has come to wait for a retry has spent an
  attempt and has one left.\<close>

definition spends :: "job \<Rightarrow> job \<Rightarrow> bool" where
  "spends j k \<longleftrightarrow> same_job j k \<and> j_attempt j \<le> j_attempt k \<and>
     (j_status k = RETRY_WAIT \<longrightarrow> j_status j = RETRY_WAIT \<and> j_attempt k = j_attempt j \<or>
        j_attempt j < j_attempt k \<and> j_attempt k < j_max_attempts k)"

interpretation attempts: row_order spends
proof unfold_locales
  show "spends j k \<Longrightarrow> spends k l \<Longrightarrow> spends j l" for j k l by (auto simp: spends_def same_job_def)
qed (auto simp: spends_def same_job_def row_defs failure_status_def expired_status_def expired_attempt_def Let_def)

definition waits :: "int \<Rightarrow> db \<Rightarrow> bool" where
  "waits i s = (case job_by_id i s of None \<Rightarrow> False | Some j \<Rightarrow> j_status j = RETRY_WAIT)"

text \<open>How often the job comes to wait for a retry along a sequence of states.\<close>

fun retries :: "int \<Rightarrow> db list \<Rightarrow> nat" where
  "retries i (s # t # ss) = (if \<not> waits i s \<and> waits i t then 1 else 0) + retries i (t # ss)"
| "retries i ss = 0"

lemma spends_step:
  assumes "store_step s t" "store_inv s" "job_by_id i s = Some j"
  shows "\<exists>k. job_by_id i t = Some k \<and> spends j k"
proof -
  have j: "j \<in> set (jobs s)" "j_id j = i" using assms(2,3) by (simp_all add: store_inv_job_by_id)
  obtain k where k: "k \<in> set (jobs t)" "spends j k" using attempts.row_kept [OF assms(1,2) j(1)] by blast
  have "j_id k = i" using k(2) j(2) by (simp add: spends_def same_job_def)
  then show ?thesis using k store_inv_job_by_id [OF store_step_inv [OF assms(1,2)]] by blast
qed

lemma retries_spend:
  assumes "store_inv s" "job_by_id i s = Some j" "successively store_step (s # ss)"
  shows "\<exists>k. job_by_id i (last (s # ss)) = Some k \<and> same_job j k \<and> j_attempt j + int (retries i (s # ss)) \<le> j_attempt k \<and>
    (0 < retries i (s # ss) \<longrightarrow> j_attempt j + int (retries i (s # ss)) < j_max_attempts j)"
  using assms
proof (induction ss arbitrary: s j)
  case Nil
  then show ?case by (simp add: same_job_def)
next
  case (Cons t ss)
  have step: "store_step s t" and rest: "successively store_step (t # ss)" using Cons.prems(3) by simp_all
  obtain l where l: "job_by_id i t = Some l" "spends j l" using spends_step [OF step Cons.prems(1,2)] by blast
  obtain k where k: "job_by_id i (last (t # ss)) = Some k" "same_job l k" "j_attempt l + int (retries i (t # ss)) \<le> j_attempt k"
      "0 < retries i (t # ss) \<longrightarrow> j_attempt l + int (retries i (t # ss)) < j_max_attempts l"
    using Cons.IH [OF store_step_inv [OF step Cons.prems(1)] l(1) rest] by (elim exE conjE)
  have spent: "j_attempt j + (if \<not> waits i s \<and> waits i t then 1 else 0) \<le> j_attempt l"
    "\<not> waits i s \<and> waits i t \<longrightarrow> j_attempt l < j_max_attempts l" "j_max_attempts l = j_max_attempts j" "same_job j l"
    using l Cons.prems(2) by (auto simp: waits_def spends_def same_job_def)
  have "same_job j k" using k(2) spent(4) by (simp add: same_job_def)
  with k spent show ?case by (auto split: if_splits)
qed

section \<open>Properties\<close>

text \<open>C40: \<^verbatim>\<open>mark_failure\<close> always returns for an existing job: it spends exactly one attempt, blocks when
  asked to, fails when the attempts are used up and otherwise waits for a retry between 30 and 300
  seconds ahead (up to the truncation to seconds); it leaves no lease on the job.\<close>

theorem mark_failure_spec:
  assumes "reach store_start store_step s" "job_by_id i s = Some j" "0 \<le> j_attempt j"
  shows "\<exists>k t. mark_failure i e ref b s = (Inr k, t) \<and> job_by_id i t = Some k \<and>
    j_attempt k = j_attempt j + 1 \<and> active_lease_for_job i t = None \<and>
    (if b then j_status k = BLOCKED \<and> j_retry_at k = None
     else if j_max_attempts j \<le> j_attempt j + 1 then j_status k = FAILED \<and> j_retry_at k = None
     else j_status k = RETRY_WAIT \<and> (\<exists>r. j_retry_at k = Some r \<and>
            clk s + of_iso 29 < of_iso r \<and> of_iso r \<le> clk s + of_iso 300))"
proof -
  have inv: "store_inv s" using assms(1) by (rule store_machine.reach_inv)
  let ?k = "failure_row b e ref (clk s) j"
  obtain t where t: "mark_failure i e ref b s = (Inr ?k, t)"
    using mark_failure_returns [OF assms(2)] by blast
  have k: "job_by_id i t = Some ?k" using mark_failure_job [OF assms(2) t] by simp
  have "store_inv t" using keeps_eq [OF keeps_mark_failure inv t] .
  then have "active_lease_for_job i t = None"
    using ready_holds_no_lease [OF _ k] by (auto simp: active_lease_for_job_def find_row_None_iff)
  moreover have "clk s + of_iso 29 < of_iso (iso_of (clk s + of_iso (retry_delay (j_attempt j + 1))))"
    "of_iso (iso_of (clk s + of_iso (retry_delay (j_attempt j + 1)))) \<le> clk s + of_iso 300"
    using assms(3) by (auto simp: of_iso_def iso_of_def retry_delay_def min_def)
  ultimately show ?thesis
    using t k by (simp add: failure_row_def failure_status_def Let_def)
qed

lemma mark_failure_spec_witness:
  "\<exists>k t. mark_failure 1 ''boom'' None False sample_running = (Inr k, t) \<and> j_status k = RETRY_WAIT \<and>
     j_attempt k = 1 \<and> active_lease_for_job 1 t = None"
proof -
  have "job_by_id 1 sample_running = Some (sample_job 1 sample_running)"
    "j_attempt (sample_job 1 sample_running) = 0" "j_max_attempts (sample_job 1 sample_running) = 3"
    by code_simp+
  then show ?thesis
    using mark_failure_spec [OF sample_running_reach, of 1 "sample_job 1 sample_running" "''boom''" None False]
    by auto
qed

text \<open>The backoff is enforced: after a failure that set a retry time, promotion to READY before
  that time raises and changes nothing, and from that time on it succeeds with the error and the
  retry time cleared and the attempts kept.\<close>

theorem retry_backoff_enforced:
  assumes "reach store_start store_step s" "job_by_id i s = Some j"
    and "mark_failure i e ref False s = (Inr k, t)" "j_retry_at k = Some r"
  shows "if m < of_iso r then promote_retry_wait_to_ready i why (Some m) t = (Inl OrchestrationError, t)
    else \<exists>k' t'. promote_retry_wait_to_ready i why (Some m) t = (Inr k', t') \<and> j_status k' = READY \<and>
      j_retry_at k' = None \<and> j_last_error k' = None \<and> j_attempt k' = j_attempt j + 1"
proof -
  have k: "k = failure_row False e ref (clk s) j" "job_by_id i t = Some k"
    using mark_failure_job [OF assms(2,3)] by simp_all
  have st: "j_status k = RETRY_WAIT" "j_attempt k = j_attempt j + 1"
    using assms(4) k(1) by (auto simp: failure_row_def Let_def split: if_splits)
  have "store_inv t"
    using keeps_eq [OF keeps_mark_failure store_machine.reach_inv [OF assms(1)] assms(3)] .
  then show ?thesis
    using promote_retry_wait_eq [OF _ k(2) st(1), of m "Some m" why] assms(4) st(2)
    by (auto simp: moment_of_def retry_ready_row_def split: if_splits)
qed

lemma retry_backoff_enforced_witness:
  "fst (promote_retry_wait_to_ready 1 ''retry'' (Some 29999999)
     (snd (mark_failure 1 ''boom'' None False sample_running))) = Inl OrchestrationError \<and>
   \<not> isl (fst (promote_retry_wait_to_ready 1 ''retry'' (Some 30000000)
     (snd (mark_failure 1 ''boom'' None False sample_running))))"
proof -
  let ?t = "snd (mark_failure 1 ''boom'' None False sample_running)"
  have j: "job_by_id 1 sample_running = Some (sample_job 1 sample_running)"
    "fst (mark_failure 1 ''boom'' None False sample_running) = Inr (sample_job 1 ?t)"
    "j_retry_at (sample_job 1 ?t) = Some 30" by code_simp+
  then have "mark_failure 1 ''boom'' None False sample_running = (Inr (sample_job 1 ?t), ?t)"
    by (metis prod.collapse)
  note spec = retry_backoff_enforced [OF sample_running_reach j(1) this j(3)]
  show ?thesis
    using spec [of 29999999 "''retry''"] spec [of 30000000 "''retry''"] by (auto simp: of_iso_def)
qed

text \<open>C30: Retries are bounded. From any reachable state and over any sequence of operations of the store (leases, starts,
  failures, expiries, reclaims, promotions and the rest, in any order and by any number of workers), the job stays in the
  table, is given no attempt back, pays at least one attempt for every retry it is sent into, and is sent into fewer retries
  than it had attempts left at the start.\<close>

theorem job_retries_bounded:
  assumes "reach store_start store_step s" "job_by_id i s = Some j" "successively store_step (s # ss)"
  shows "(\<exists>k. job_by_id i (last (s # ss)) = Some k \<and> j_max_attempts k = j_max_attempts j \<and>
      j_attempt j + int (retries i (s # ss)) \<le> j_attempt k) \<and>
    int (retries i (s # ss)) \<le> max 0 (j_max_attempts j - j_attempt j - 1)"
  using retries_spend [OF store_machine.reach_inv [OF assms(1)] assms(2,3)]
  by (cases "0 < retries i (s # ss)") (auto simp: same_job_def)

text \<open>A running job fails, is promoted, leased and started again, and its lease expires.\<close>

definition sample_retried :: "db list" where
  "sample_retried =
     (let s1 = snd (transaction (mark_failure 1 ''boom'' None False) sample_running);
          s2 = s1\<lparr>clk := 60000000\<rparr>;
          s3 = snd (transaction (promote_retry_wait_to_ready 1 ''retry'' None) s2);
          s4 = snd (transaction (acquire_lease (sample_job 1 s3) ''w2'' 10 None) s3);
          s5 = snd (transaction (mark_running 1) s4);
          s6 = snd (transaction (recover_expired_leases (Some 90000000) None) s5)
      in [s1, s2, s3, s4, s5, s6])"

lemma job_retries_bounded_witness:
  "retries 1 (sample_running # sample_retried) = 2 \<and>
   int (retries 1 (sample_running # sample_retried)) \<le>
     max 0 (j_max_attempts (sample_job 1 sample_running) - j_attempt (sample_job 1 sample_running) - 1)"
proof
  show "retries 1 (sample_running # sample_retried) = 2" by code_simp
  have "successively store_step (sample_running # sample_retried)"
    unfolding sample_retried_def Let_def successively.simps
    by (intro conjI TrueI store_step.fail store_step.promote_retry store_step.acquire store_step.run store_step.recover
        store_step.tick) code_simp
  moreover have "job_by_id 1 sample_running = Some (sample_job 1 sample_running)" by code_simp
  ultimately show "int (retries 1 (sample_running # sample_retried)) \<le>
     max 0 (j_max_attempts (sample_job 1 sample_running) - j_attempt (sample_job 1 sample_running) - 1)"
    using job_retries_bounded [OF sample_running_reach] by blast
qed

end
