(* ===== verification/Liveness.thy ===== *)
theory Liveness
  imports Retry_Policy
begin

text \<open>
  Runs keep moving: the lemmas on durable next actions (\<^verbatim>\<open>run_next_actions.py\<close>), their upkeep when jobs
  end (\<^verbatim>\<open>store.py\<close>) and the no-inert-run diagnostic (\<^verbatim>\<open>run_liveness.py\<close>).
\<close>

section \<open>An accepted action is live\<close>

text \<open>The action that \<^verbatim>\<open>persist_run_next_action\<close> inserts.\<close>

definition new_action ::
    "string \<Rightarrow> string \<Rightarrow> string \<Rightarrow> string \<Rightarrow> int option \<Rightarrow> string option \<Rightarrow> iso option \<Rightarrow> dict option \<Rightarrow>
     iso \<Rightarrow> next_action" where
  "new_action aid rid pid ty job_id work_id due payload now =
     \<lparr>a_action_id = aid, a_run_id = rid, a_project_id = pid, a_action_type = ty,
      a_status = Pending, a_orchestration_job_id = job_id,
      a_remediation_work_id = work_id, a_due_at = due,
      a_payload_json = (case payload of
         None \<Rightarrow> None | Some d \<Rightarrow> if d = [] then None else Some (JText (JObj d))),
      a_created_at = now, a_updated_at = now\<rparr>"

definition next_action_id :: "db \<Rightarrow> string" where
  "next_action_id s = ''RNA-'' @ py_upper (take 10 (uuids s (uuid_next s)))"

lemma persist_eq:
  "persist_run_next_action rid pid ty job_id work_id due pl s =
    (if \<not> validate_action_backing ty rid job_id work_id due s then (Inl OrchestrationError, s)
     else let u = s\<lparr>uuid_next := uuid_next s + 1\<rparr> in
       if next_action_id s \<in> a_action_id ` set (actions s) then (Inl IntegrityError, u)
       else (Inr (next_action_id s), u\<lparr>actions := actions s @
         [new_action (next_action_id s) rid pid ty job_id work_id due pl (now_iso s)]\<rparr>))"
  by (simp add: persist_run_next_action_def op_simps new_uuid_def bindS_def getS_def guardS_def
      returnS_def raiseS_def modifyS_def thenS_def next_action_id_def new_action_def Let_def
      now_iso_def)

lemma executable_or_terminal: "j_status j \<notin> set TERMINAL_JOB \<longleftrightarrow> j_status j \<in> set EXECUTABLE_JOB"
  by (cases "j_status j") (auto simp: TERMINAL_JOB_def EXECUTABLE_JOB_def)

lemma liveness_state_cong:
  assumes "jobs t = jobs s" "works t = works s" "runs t = runs s"
  shows "next_action_is_live a t = next_action_is_live a s"
  unfolding next_action_is_live_def job_keeps_action_live_def work_keeps_action_live_def
    job_by_id_def work_by_id_def get_execution_run_def assms ..

text \<open>An action on a job: backed at the time of creation means live, but for a scheduled retry of a
  QUEUED job and for work rows, whose status the backing check does not read.\<close>

lemma backed_job_action_live:
  assumes "validate_action_backing ty rid (Some i) None due s" "ty \<in> {''ACTIVE_ASSESSMENT'', ''PM_QUEUE'', ''EXECUTABLE_JOB''}"
  shows "next_action_is_live (new_action aid rid pid ty (Some i) None due pl now) s"
  using assms executable_or_terminal
  by (auto simp: validate_action_backing_def next_action_is_live_def new_action_def
      job_keeps_action_live_def work_keeps_action_live_def job_types_def truthy_str_def
      split: option.splits if_splits)

section \<open>Reconciliation\<close>

definition closed_stale :: "next_action list \<Rightarrow> db \<Rightarrow> db" where
  "closed_stale xs s = s\<lparr>actions := update_where
     (\<lambda>a. \<exists>x \<in> set xs. stale_action s x \<and> a_action_id x = a_action_id a)
     (\<lambda>a. a\<lparr>a_status := Completed, a_updated_at := now_iso s\<rparr>) (actions s)\<rparr>"

lemma stale_action_cong: assumes "jobs t = jobs s" shows "stale_action t a = stale_action s a"
  unfolding stale_action_def job_by_id_def assms ..

lemma mapS_complete_stale:
  "\<exists>dones. mapS complete_stale xs s = (Inr dones, closed_stale xs s)"
proof (induction xs arbitrary: s)
  case Nil
  then show ?case by (simp add: op_simps closed_stale_def update_where_def)
next
  case (Cons x xs)
  define u where "u = (if stale_action s x then s\<lparr>actions := update_where (\<lambda>a. a_action_id a = a_action_id x)
     (\<lambda>a. a\<lparr>a_status := Completed, a_updated_at := now_iso s\<rparr>) (actions s)\<rparr> else s)"
  have x: "complete_stale x s = (Inr (if stale_action s x then [a_action_id x] else []), u)"
    by (simp add: complete_stale_def op_simps complete_run_next_action_def set_actions_def u_def)
  have u: "jobs u = jobs s" "now_iso u = now_iso s" by (simp_all add: u_def now_iso_def)
  obtain dones where "mapS complete_stale xs u = (Inr dones, closed_stale xs u)"
    using Cons.IH by blast
  moreover have "closed_stale xs u = closed_stale (x # xs) s"
  proof -
    have "closed_stale xs u = u\<lparr>actions := update_where
        (\<lambda>a. \<exists>x \<in> set xs. stale_action s x \<and> a_action_id x = a_action_id a)
        (\<lambda>a. a\<lparr>a_status := Completed, a_updated_at := now_iso s\<rparr>) (actions u)\<rparr>"
      by (simp add: closed_stale_def stale_action_cong [OF u(1)] u(2))
    also have "\<dots> = closed_stale (x # xs) s"
      by (cases "stale_action s x")
         (simp_all add: u_def closed_stale_def update_where_twice eq_commute [of "a_action_id x"])
    finally show ?thesis .
  qed
  ultimately show ?case using x by (simp add: op_simps)
qed

lemma closed_stale_simps [simp]:
  "jobs (closed_stale xs s) = jobs s" "works (closed_stale xs s) = works s"
  "runs (closed_stale xs s) = runs s" "uuids (closed_stale xs s) = uuids s"
  "uuid_next (closed_stale xs s) = uuid_next s" "clk (closed_stale xs s) = clk s"
  by (simp_all add: closed_stale_def)

lemma closed_stale_ids: "a_action_id ` set (actions (closed_stale xs s)) = a_action_id ` set (actions s)"
proof -
  have "map a_action_id (actions (closed_stale xs s)) = map a_action_id (actions s)"
    by (simp add: closed_stale_def map_update_where)
  then show ?thesis by (metis list.set_map)
qed

text \<open>No open action of the run is left on a finished job.\<close>

lemma closed_stale_open:
  assumes "\<And>a. a \<in> set (actions s) \<Longrightarrow> open_action rid a \<Longrightarrow> a \<in> set xs"
    and "a \<in> set (actions (closed_stale xs s))" "open_action rid a"
  shows "\<not> stale_action s a \<and> a \<in> set (actions s)"
  using assms by (auto simp: closed_stale_def set_update_where open_action_def split: if_splits)

definition run_is_open :: "string \<Rightarrow> db \<Rightarrow> bool" where
  "run_is_open rid s \<longleftrightarrow> (case get_execution_run rid s of None \<Rightarrow> False
     | Some run \<Rightarrow> \<not> is_terminal_run_status (r_status run))"

lemma list_active_iff:
  "a \<in> set (list_active_next_actions rid s) \<longleftrightarrow>
   a \<in> set (actions s) \<and> open_action rid a \<and> next_action_is_live a s"
  by (auto simp: list_active_next_actions_def)

definition open_actions :: "string \<Rightarrow> db \<Rightarrow> next_action list" where
  "open_actions rid s = sort_key a_created_at (filter (open_action rid) (actions s))"

lemma reconcile_eq:
  assumes "run_is_open rid s"
  shows "\<exists>dones. reconcile_run_next_actions rid pid s =
    (let u = closed_stale (open_actions rid s) s in
     if list_active_next_actions rid u \<noteq> [] then (Inr dones, u)
     else case sort_key (\<lambda>j. (j_priority j, j_id j)) (list_jobs_for_run rid (Some EXECUTABLE_JOB) u) of
        [] \<Rightarrow> (Inr dones, u)
      | j # _ \<Rightarrow> bindS (persist_run_next_action rid pid ''EXECUTABLE_JOB'' (Some (j_id j)) None None
             (Some [(''job_human_id'', JStr (j_human_id j)), (''reconciled'', JBool True)]))
           (\<lambda>aid. returnS (dones @ [aid])) u)"
proof -
  obtain dones where "mapS complete_stale (open_actions rid s) s =
      (Inr dones, closed_stale (open_actions rid s) s)"
    using mapS_complete_stale by blast
  then have "reconcile_run_next_actions rid pid s =
    (let u = closed_stale (open_actions rid s) s in
     if list_active_next_actions rid u \<noteq> [] then (Inr (concat dones), u)
     else case sort_key (\<lambda>j. (j_priority j, j_id j)) (list_jobs_for_run rid (Some EXECUTABLE_JOB) u) of
        [] \<Rightarrow> (Inr (concat dones), u)
      | j # _ \<Rightarrow> bindS (persist_run_next_action rid pid ''EXECUTABLE_JOB'' (Some (j_id j)) None None
             (Some [(''job_human_id'', JStr (j_human_id j)), (''reconciled'', JBool True)]))
           (\<lambda>aid. returnS (concat dones @ [aid])) u)"
    using assms
    by (auto simp: reconcile_run_next_actions_def run_is_open_def op_simps Let_def
        open_actions_def [symmetric] split: option.splits list.split)
  then show ?thesis by blast
qed

text \<open>Reconciliation of a run with an executable job: unless the id of the new action collides, it
  returns and the run has a live action.\<close>

lemma list_jobs_for_run_iff:
  "j \<in> set (list_jobs_for_run rid (Some EXECUTABLE_JOB) s) \<longleftrightarrow>
   j \<in> set (jobs s) \<and> j_run_id j = Some rid \<and> j_status j \<in> set EXECUTABLE_JOB"
  by (auto simp: list_jobs_for_run_def EXECUTABLE_JOB_def)

lemma list_jobs_for_run_cong:
  assumes "jobs t = jobs s" shows "list_jobs_for_run rid sts t = list_jobs_for_run rid sts s"
  unfolding list_jobs_for_run_def assms ..

lemma executable_job_backs_action:
  assumes inv: "store_inv s" and run: "run_is_open rid s"
    and j: "j \<in> set (list_jobs_for_run rid (Some EXECUTABLE_JOB) s)"
  shows "validate_action_backing ''EXECUTABLE_JOB'' rid (Some (j_id j)) None None s"
proof -
  have "job_by_id (j_id j) s = Some j" "j_run_id j = Some rid" "j_status j \<notin> set TERMINAL_JOB"
    using j inv executable_or_terminal by (auto simp: list_jobs_for_run_iff store_inv_job_by_id)
  then show ?thesis
    using run by (auto simp: validate_action_backing_def run_is_open_def run_mismatch_def
        split: option.splits)
qed

lemma validate_cong:
  assumes "jobs t = jobs s" "works t = works s" "runs t = runs s"
  shows "validate_action_backing ty rid i w due t = validate_action_backing ty rid i w due s"
  unfolding validate_action_backing_def job_by_id_def work_by_id_def get_execution_run_def assms ..

lemma reconcile_live:
  assumes inv: "store_inv s" and run: "run_is_open rid s"
    and job: "list_jobs_for_run rid (Some EXECUTABLE_JOB) s \<noteq> []"
    and fresh: "next_action_id s \<notin> a_action_id ` set (actions s)"
  shows "\<exists>ids t. reconcile_run_next_actions rid pid s = (Inr ids, t) \<and> list_active_next_actions rid t \<noteq> []"
proof -
  define u where "u = closed_stale (open_actions rid s) s"
  have cong: "list_jobs_for_run rid (Some EXECUTABLE_JOB) u = list_jobs_for_run rid (Some EXECUTABLE_JOB) s"
    by (rule list_jobs_for_run_cong) (simp add: u_def)
  show ?thesis
  proof (cases "list_active_next_actions rid u = []")
    case False
    then show ?thesis
      using reconcile_eq [OF run, of pid] by (auto simp: u_def [symmetric] Let_def)
  next
    case True
    obtain j js where j: "sort_key (\<lambda>j. (j_priority j, j_id j))
        (list_jobs_for_run rid (Some EXECUTABLE_JOB) u) = j # js"
      using job cong by (metis list.exhaust set_empty set_sort)
    then have "j \<in> set (list_jobs_for_run rid (Some EXECUTABLE_JOB) s)"
      using cong by (metis list.set_intros(1) set_sort)
    note val = executable_job_backs_action [OF inv run this]
    let ?pl = "Some [(''job_human_id'', JStr (j_human_id j)), (''reconciled'', JBool True)]"
    let ?a = "new_action (next_action_id s) rid pid ''EXECUTABLE_JOB'' (Some (j_id j)) None None ?pl (now_iso s)"
    let ?t = "u\<lparr>uuid_next := uuid_next s + 1, actions := actions u @ [?a]\<rparr>"
    have [simp]: "next_action_id u = next_action_id s" "now_iso u = now_iso s" "uuid_next u = uuid_next s"
      by (simp_all add: u_def next_action_id_def now_iso_def)
    have "validate_action_backing ''EXECUTABLE_JOB'' rid (Some (j_id j)) None None u"
      using val validate_cong [of u s] by (simp add: u_def)
    moreover have "next_action_id s \<notin> a_action_id ` set (actions u)"
      using fresh by (simp add: u_def closed_stale_ids)
    ultimately have "persist_run_next_action rid pid ''EXECUTABLE_JOB'' (Some (j_id j)) None None ?pl u
        = (Inr (next_action_id s), ?t)"
      by (simp add: persist_eq Let_def)
    then have "\<exists>ids. reconcile_run_next_actions rid pid s = (Inr ids, ?t)"
      using reconcile_eq [OF run, of pid] True j by (auto simp: u_def [symmetric] Let_def op_simps)
    moreover have "next_action_is_live ?a ?t"
      using backed_job_action_live [OF val, of _ pid ?pl "now_iso s"]
        liveness_state_cong [of ?t s ?a] by (simp add: u_def)
    then have "?a \<in> set (list_active_next_actions rid ?t)"
      unfolding list_active_iff by (simp add: open_action_def new_action_def)
    ultimately show ?thesis by (metis empty_iff list.set(1))
  qed
qed

lemma untouched_runs_reconcile: "untouched runs (reconcile_run_next_actions rid pid)"
  unfolding reconcile_run_next_actions_def complete_stale_def complete_run_next_action_def
    set_actions_def persist_run_next_action_def Let_def new_uuid_def
  by (intro frames) (simp_all add: untouched_def)

section \<open>Ending a job closes its actions\<close>

lemma set_actions_eq:
  "set_actions p st s = (Inr (), s\<lparr>actions := update_where p
     (\<lambda>a. a\<lparr>a_status := st, a_updated_at := now_iso s\<rparr>) (actions s)\<rparr>)"
  by (simp add: set_actions_def op_simps)

definition no_open_action :: "int \<Rightarrow> db \<Rightarrow> bool" where
  "no_open_action i s \<longleftrightarrow> (\<forall>a \<in> set (actions s).
     a_orchestration_job_id a = Some i \<longrightarrow> a_status a \<notin> {Pending, Claimed})"

text \<open>Whatever reconciliation does, also when it raises, it opens actions on executable jobs only.\<close>

lemma closed_stale_no_open: "no_open_action i s \<Longrightarrow> no_open_action i (closed_stale xs s)"
  by (auto simp: no_open_action_def closed_stale_def set_update_where)

lemma persist_no_open:
  "no_open_action i s \<Longrightarrow> k \<noteq> i \<Longrightarrow>
   no_open_action i (snd (persist_run_next_action rid pid ty (Some k) w due pl s))"
  by (auto simp: persist_eq no_open_action_def new_action_def Let_def)

lemma reconcile_no_open:
  assumes inv: "store_inv s" and no: "no_open_action i s"
    and ended: "job_by_id i s = Some j" "j_status j \<in> set TERMINAL_JOB"
  shows "no_open_action i (snd (reconcile_run_next_actions rid pid s))"
proof (cases "run_is_open rid s")
  case False
  then show ?thesis
    using no by (auto simp: run_is_open_def reconcile_run_next_actions_def op_simps split: option.splits)
next
  case True
  define u where "u = closed_stale (open_actions rid s) s"
  have u: "no_open_action i u" using closed_stale_no_open [OF no] by (simp add: u_def)
  have other: "j_id k \<noteq> i" if "sort_key (\<lambda>j. (j_priority j, j_id j))
      (list_jobs_for_run rid (Some EXECUTABLE_JOB) u) = k # ks" for k ks
  proof
    assume "j_id k = i"
    have "k \<in> set (list_jobs_for_run rid (Some EXECUTABLE_JOB) u)"
      using that by (metis list.set_intros(1) set_sort)
    then have "k \<in> set (jobs s)" "j_status k \<in> set EXECUTABLE_JOB"
      by (auto simp: list_jobs_for_run_iff u_def)
    then have "k = j"
      using \<open>j_id k = i\<close> ended(1) store_inv_job_unique [OF inv] store_inv_job_by_id [OF inv, of i j]
      by simp
    with ended(2) \<open>j_status k \<in> set EXECUTABLE_JOB\<close> executable_or_terminal show False by blast
  qed
  obtain dones where "reconcile_run_next_actions rid pid s =
     (if list_active_next_actions rid u \<noteq> [] then (Inr dones, u)
     else case sort_key (\<lambda>j. (j_priority j, j_id j)) (list_jobs_for_run rid (Some EXECUTABLE_JOB) u) of
        [] \<Rightarrow> (Inr dones, u)
      | j # _ \<Rightarrow> bindS (persist_run_next_action rid pid ''EXECUTABLE_JOB'' (Some (j_id j)) None None
             (Some [(''job_human_id'', JStr (j_human_id j)), (''reconciled'', JBool True)]))
           (\<lambda>aid. returnS (dones @ [aid])) u)"
    using reconcile_eq [OF True, of pid] unfolding u_def [symmetric] Let_def by blast
  then show ?thesis
    using u persist_no_open [OF u other]
    by (auto simp: snd_bindS_returnS split: list.split)
qed

lemma sync_closes_actions:
  assumes inv: "store_inv s" and j: "job_by_id (j_id j) s = Some j" "j_status j \<in> set TERMINAL_STATUSES"
  shows "no_open_action (j_id j) (snd (sync_next_actions_for_terminal_job j s))"
proof -
  let ?i = "j_id j"
  let ?u = "s\<lparr>actions := update_where (\<lambda>a. a_orchestration_job_id a = Some ?i \<and> a_status a \<in> {Pending, Claimed})
     (\<lambda>a. a\<lparr>a_status := Completed, a_updated_at := now_iso s\<rparr>) (actions s)\<rparr>"
  have u: "no_open_action ?i ?u" by (auto simp: no_open_action_def set_update_where)
  have "store_inv ?u" using inv by (rule store_inv_core [rotated]) (simp add: core_def)
  moreover have "job_by_id ?i ?u = Some j" using j(1) by (simp add: job_by_id_def)
  moreover have "j_status j \<in> set TERMINAL_JOB"
    using j(2) by (simp add: TERMINAL_JOB_def TERMINAL_STATUSES_def)
  ultimately have r: "no_open_action ?i (snd (reconcile_run_next_actions rid pid ?u))" for rid pid
    using reconcile_no_open u by blast
  show ?thesis
    using j(2) u r [of "str_of (j_run_id j)" "j_project_human_id j"]
    by (auto simp: sync_next_actions_for_terminal_job_def complete_run_next_action_for_job_def
        set_actions_eq thenS_def bindS_def tryS_def returnS_def split: prod.splits sum.splits)
qed

lemma untouched_no_open_get_job: "snd (get_job i s) = s"
  by (simp add: get_job_def op_simps split: option.split)

lemma get_then_sync_closes:
  assumes "store_inv u" "job_by_id i u = Some k" "j_status k \<in> set TERMINAL_STATUSES"
  shows "no_open_action i (snd (bindS (get_job i) (\<lambda>updated.
      thenS (sync_next_actions_for_terminal_job updated) (returnS updated)) u))"
proof -
  have i: "j_id k = i" using assms(2) by (auto simp: job_by_id_def dest: find_row_SomeD)
  obtain t where t: "sync_next_actions_for_terminal_job k u = (Inr (), t)" using sync_returns by blast
  then show ?thesis
    using assms sync_closes_actions [of u k] i by (simp add: get_job_def op_simps bindS_assoc)
qed

lemma mark_succeeded_result:
  assumes inv: "store_inv s" and job: "job_by_id i s = Some j"
  shows "\<exists>t. mark_succeeded i ref c oc s = (Inr (succeeded_row ref c oc (now_iso s) j), t) \<and>
     job_by_id i t = Some (succeeded_row ref c oc (now_iso s) j) \<and> no_open_action i t"
proof -
  let ?k = "succeeded_row ref c oc (now_iso s) j"
  let ?pl = "if truthy_str oc then Some [(''outcome'', JStr (str_of oc))] else None"
  let ?u = "ended i (succeeded_row ref c oc) (now_iso s) ''job.succeeded'' (Some ''SUCCEEDED'')
      (Some ''Worker task completed (not QA/release acceptance)'') ?pl ''succeeded'' s"
  have i: "j_id j = i" using job by (auto simp: job_by_id_def dest: find_row_SomeD)
  have u: "job_by_id i ?u = Some ?k" using job i by (simp add: succeeded.ended_job)
  have "store_inv ?u" by (rule succeeded.ended_inv [OF inv]) simp
  note closes = get_then_sync_closes [OF this u]
  obtain t where t: "bindS (get_job i) (\<lambda>updated.
      thenS (sync_next_actions_for_terminal_job updated) (returnS updated)) ?u = (Inr ?k, t)"
      "core t = core ?u"
    using get_then_sync [OF u] by blast
  have "plain_payload ?pl" by simp
  then have "mark_succeeded i ref c oc s = (Inr ?k, t)"
    using job t(1) by (simp only: mark_succeeded_ending succeeded.ending_found)
  moreover have "job_by_id i t = Some ?k" using u core_eqD(1) [OF t(2)] by (simp add: job_by_id_def)
  moreover have "no_open_action i t"
    using closes t(1) by (simp add: TERMINAL_STATUSES_def succeeded_row_def)
  ultimately show ?thesis by blast
qed

lemma list_outstanding_empty:
  "list_outstanding_remediation_work rid s = [] \<longleftrightarrow>
   \<not> (\<exists>w \<in> set (works s). w_run_id w = rid \<and> w_status w \<in> {''ASSIGNED'', ''RUNNING''})"
  by (auto simp: list_outstanding_remediation_work_def filter_empty_conv)

lemma list_executable_empty:
  "list_jobs_for_run rid (Some EXECUTABLE_JOB) s = [] \<longleftrightarrow>
   \<not> (\<exists>j \<in> set (jobs s). j_run_id j = Some rid \<and> j_status j \<notin> set TERMINAL_JOB)"
  using list_jobs_for_run_iff [of _ rid s] executable_or_terminal by (metis all_not_in_conv set_empty)

section \<open>Properties\<close>

text \<open>A run in progress with one READY job.\<close>

definition sample_run_store :: db where
  "sample_run_store = (snd (create_job ((sample_args ''JOB-1'' ''READY'')\<lparr>n_run_id := Some ''RUN-1''\<rparr>)
     sample_empty))\<lparr>runs := [sample_run]\<rparr>"

text \<open>C28: Reconciling an unfinished run that has an executable job returns and leaves the run with a
  live next action, provided the fresh action id is not taken already; and it leaves no open action
  of the run pointing at a finished job.\<close>

theorem reconcile_gives_live_action:
  assumes "store_inv s" "get_execution_run rid s = Some run"
    and "\<not> is_terminal_run_status (r_status run)"
    and "j \<in> set (jobs s)" "j_run_id j = Some rid" "j_status j \<in> set EXECUTABLE_JOB"
    and "next_action_id s \<notin> a_action_id ` set (actions s)"
  shows "\<exists>ids t. reconcile_run_next_actions rid pid s = (Inr ids, t) \<and>
    list_active_next_actions rid t \<noteq> [] \<and> has_durable_next_action rid t"
proof -
  have run: "run_is_open rid s" using assms(2,3) by (simp add: run_is_open_def)
  have jobs: "list_jobs_for_run rid (Some EXECUTABLE_JOB) s \<noteq> []"
    using assms(4-6) list_jobs_for_run_iff by (metis empty_iff list.set(1))
  obtain ids t where t: "reconcile_run_next_actions rid pid s = (Inr ids, t)"
      "list_active_next_actions rid t \<noteq> []"
    using reconcile_live [OF assms(1) run jobs assms(7)] by blast
  have "runs t = runs s"
    using untouched_runs_reconcile [of rid pid] t(1) unfolding untouched_def by (metis snd_conv)
  then have "get_execution_run rid t = Some run" using assms(2) by (simp add: get_execution_run_def)
  with t show ?thesis by (simp add: has_durable_next_action_def)
qed

lemma reconcile_gives_live_action_witness:
  "\<exists>ids t. reconcile_run_next_actions ''RUN-1'' ''PRJ-1'' sample_run_store = (Inr ids, t) \<and>
    list_active_next_actions ''RUN-1'' t \<noteq> [] \<and> has_durable_next_action ''RUN-1'' t"
  by (rule reconcile_gives_live_action [of _ _ sample_run "sample_job 1 sample_run_store"]) code_simp+

text \<open>\<^verbatim>\<open>mark_succeeded\<close> always returns for an existing job: the job is SUCCEEDED with its error cleared,
  a given candidate or outcome replaces the stored one and an absent one keeps it, no lease is left
  on the job and no open next action points at it any more.\<close>

theorem mark_succeeded_spec:
  assumes "store_inv s" "job_by_id i s = Some j"
  shows "\<exists>k t. mark_succeeded i ref c oc s = (Inr k, t) \<and> job_by_id i t = Some k \<and>
    j_status k = SUCCEEDED \<and> j_last_error k = None \<and> j_output_ref k = ref \<and>
    j_candidate_git_sha k = (if c = None then j_candidate_git_sha j else c) \<and>
    j_outcome k = (if oc = None then j_outcome j else oc) \<and> j_attempt k = j_attempt j \<and>
    active_lease_for_job i t = None \<and>
    (\<forall>a \<in> set (actions t). a_orchestration_job_id a = Some i \<longrightarrow> a_status a \<notin> {Pending, Claimed})"
proof -
  let ?k = "succeeded_row ref c oc (now_iso s) j"
  obtain t where t: "mark_succeeded i ref c oc s = (Inr ?k, t)" "job_by_id i t = Some ?k"
      "no_open_action i t"
    using mark_succeeded_result [OF assms] by blast
  have "store_inv t" using keeps_eq [OF keeps_mark_succeeded assms(1) t(1)] .
  then have "active_lease_for_job i t = None"
    using ready_holds_no_lease [OF _ t(2)] by (auto simp: active_lease_for_job_def find_row_None_iff)
  with t show ?thesis
    by (auto simp: succeeded_row_def no_open_action_def split: option.split)
qed

lemma mark_succeeded_spec_witness:
  "\<exists>k t. mark_succeeded 1 (Some ''out'') (Some ''abc'') None sample_running = (Inr k, t) \<and>
     j_status k = SUCCEEDED \<and> j_candidate_git_sha k = Some ''abc'' \<and> active_lease_for_job 1 t = None"
proof -
  have "job_by_id 1 sample_running = Some (sample_job 1 sample_running)" by code_simp
  then show ?thesis
    using mark_succeeded_spec [OF store_machine.reach_inv [OF sample_running_reach],
        of 1 "sample_job 1 sample_running" "Some ''out''" "Some ''abc''" None] by auto
qed

lemma classify_inert_iff:
  "classify_run_next_action rid s = ''RUN_INERT'' \<longleftrightarrow> run_is_open rid s \<and> \<not> has_durable_next_action rid s"
proof -
  have "a_action_type a \<noteq> ''RUN_INERT''" if "list_active_next_actions rid s = a # as" for a as
  proof -
    have "next_action_is_live a s" using that list_active_iff [of a rid s] by simp
    then show ?thesis by (auto simp: next_action_is_live_def job_types_def split: if_splits)
  qed
  then show ?thesis
    by (auto simp: classify_run_next_action_def run_is_open_def has_durable_next_action_def
        split: option.splits list.splits)
qed

text \<open>\<^verbatim>\<open>classify_run_next_action\<close> reports RUN_INERT, and \<^verbatim>\<open>assert_run_has_next_action\<close> raises, exactly
  for a run that exists, is neither finished nor waiting for the sponsor, and has no executable job,
  no outstanding remediation work and no live next action.\<close>

theorem run_inert_iff:
  "(assert_run_has_next_action rid s =
      (if classify_run_next_action rid s = ''RUN_INERT'' then Inl AssertionError else Inr (), s)) \<and>
   (classify_run_next_action rid s = ''RUN_INERT'' \<longleftrightarrow>
      (\<exists>run. get_execution_run rid s = Some run \<and> \<not> is_terminal_run_status (r_status run) \<and>
         r_status run \<noteq> ''WAITING_FOR_SPONSOR'') \<and>
      \<not> (\<exists>j \<in> set (jobs s). j_run_id j = Some rid \<and> j_status j \<notin> set TERMINAL_JOB) \<and>
      \<not> (\<exists>w \<in> set (works s). w_run_id w = rid \<and> w_status w \<in> {''ASSIGNED'', ''RUNNING''}) \<and>
      \<not> (\<exists>a \<in> set (actions s). open_action rid a \<and> next_action_is_live a s))"
proof -
  have active: "list_active_next_actions rid s = [] \<longleftrightarrow>
      \<not> (\<exists>a \<in> set (actions s). open_action rid a \<and> next_action_is_live a s)"
    using list_active_iff [of _ rid s] by (metis all_not_in_conv set_empty)
  show ?thesis
    unfolding classify_inert_iff using active
    by (auto simp: assert_run_has_next_action_def op_simps classify_inert_iff run_is_open_def
        has_durable_next_action_def list_outstanding_empty list_executable_empty split: option.splits)
qed

end
