(* ===== verification/Outbox.thy ===== *)
theory Outbox
  imports Job_Store
begin

text \<open>
  Delivery of domain events to subscribers (\<^verbatim>\<open>event_dispatcher.py\<close>): claiming pending outbox rows,
  marking them, and the dispatch loop with its causal hold: once a row of a stream fails, the later
  rows of the stream are held behind it. What the loop reads of the rest of the world is a record:
  the rendering of blocks (\<^verbatim>\<open>slack_activity_blocks.py\<close>), the answer of Slack to a post, which may
  depend on everything that happened before it, the texts of exceptions, and the detail setting.
\<close>

section \<open>Rows\<close>

definition MAX_OUTBOX_ATTEMPTS :: int where
  "MAX_OUTBOX_ATTEMPTS = 10"

definition sql_limit :: "int \<Rightarrow> 'r list \<Rightarrow> 'r list" where
  "sql_limit n rs = (if n < 0 then rs else take (nat n) rs)"

definition list_pending_subscriber_outbox :: "string \<Rightarrow> int \<Rightarrow> db \<Rightarrow> outbox_row list" where
  "list_pending_subscriber_outbox sub lim s =
     sql_limit lim (sort_key o_created_at
       (filter (\<lambda>r. o_subscriber r = sub \<and> o_status r = OPending \<and> o_attempts r < MAX_OUTBOX_ATTEMPTS)
         (outbox s)))"

definition update_outbox :: "(outbox_row \<Rightarrow> bool) \<Rightarrow> (iso \<Rightarrow> outbox_row \<Rightarrow> outbox_row) \<Rightarrow> unit dbop" where
  "update_outbox p f = modifyS (\<lambda>s. s\<lparr>outbox := update_where p (f (now_iso s)) (outbox s)\<rparr>)"

definition unclaimed_row :: "outbox_row \<Rightarrow> outbox_row" where
  "unclaimed_row r = r\<lparr>o_status := OPending, o_claimed_by := None, o_claim_expires_at := None,
     o_blocked_by_outbox_id := None\<rparr>"

definition claimed_row :: "string \<Rightarrow> iso \<Rightarrow> outbox_row \<Rightarrow> outbox_row" where
  "claimed_row by_whom expires r =
     r\<lparr>o_status := OClaimed, o_claimed_by := Some by_whom, o_claim_expires_at := Some expires\<rparr>"

definition claim_expired :: "string \<Rightarrow> iso \<Rightarrow> outbox_row \<Rightarrow> bool" where
  "claim_expired sub now r \<longleftrightarrow> o_subscriber r = sub \<and> o_status r = OClaimed \<and>
     (case o_claim_expires_at r of None \<Rightarrow> False | Some t \<Rightarrow> t < now)"

definition claim_one :: "string \<Rightarrow> iso \<Rightarrow> outbox_row \<Rightarrow> outbox_row list dbop" where
  "claim_one by_whom expires row =
     bindS (getS (\<lambda>s. row_count (\<lambda>r. o_id r = o_id row \<and> o_status r = OPending) (outbox s))) (\<lambda>n.
     thenS (update_outbox (\<lambda>r. o_id r = o_id row \<and> o_status r = OPending) (\<lambda>_. claimed_row by_whom expires))
       (returnS (if n = 1 then [row] else [])))"

definition claim_pending_outbox :: "string \<Rightarrow> string \<Rightarrow> int \<Rightarrow> int \<Rightarrow> outbox_row list dbop" where
  "claim_pending_outbox sub claimed_by lim lease_seconds =
     bindS (getS clk) (\<lambda>c.
     let expires = iso_of (c + of_iso lease_seconds) in
     thenS (modifyS (\<lambda>s. s\<lparr>outbox := update_where (claim_expired sub (now_iso s)) unclaimed_row (outbox s)\<rparr>))
     (bindS (getS (list_pending_subscriber_outbox sub lim)) (\<lambda>pending.
      bindS (mapS (claim_one claimed_by expires) pending) (\<lambda>rows. returnS (concat rows)))))"

definition delivered_row :: "iso \<Rightarrow> outbox_row \<Rightarrow> outbox_row" where
  "delivered_row now r = r\<lparr>o_status := ODelivered, o_delivered_at := Some now, o_claimed_by := None,
     o_claim_expires_at := None, o_blocked_by_outbox_id := None\<rparr>"

definition unroutable_row :: "string \<Rightarrow> iso \<Rightarrow> outbox_row \<Rightarrow> outbox_row" where
  "unroutable_row err now r = r\<lparr>o_status := OUnroutable, o_last_error := Some (take 500 err),
     o_claimed_by := None, o_claim_expires_at := None\<rparr>"

definition failed_row :: "string \<Rightarrow> iso \<Rightarrow> outbox_row \<Rightarrow> outbox_row" where
  "failed_row err now r = r\<lparr>o_attempts := o_attempts r + 1, o_last_error := Some (take 500 err),
     o_status := (if MAX_OUTBOX_ATTEMPTS \<le> o_attempts r + 1 then ODead else OPending),
     o_claimed_by := None, o_claim_expires_at := None\<rparr>"

definition held_row :: "int \<Rightarrow> string \<Rightarrow> iso \<Rightarrow> outbox_row \<Rightarrow> outbox_row" where
  "held_row by_id err now r = r\<lparr>o_status := OBlocked, o_blocked_by_outbox_id := Some by_id,
     o_last_error := Some (take 500 err), o_claimed_by := None, o_claim_expires_at := None\<rparr>"

definition unheld_row :: "iso \<Rightarrow> outbox_row \<Rightarrow> outbox_row" where
  "unheld_row now r = r\<lparr>o_status := OPending, o_blocked_by_outbox_id := None, o_last_error := None\<rparr>"

definition mark_subscriber_delivered :: "int \<Rightarrow> unit dbop" where
  "mark_subscriber_delivered i = update_outbox (\<lambda>r. o_id r = i) delivered_row"

definition mark_subscriber_unroutable :: "int \<Rightarrow> string \<Rightarrow> unit dbop" where
  "mark_subscriber_unroutable i err = update_outbox (\<lambda>r. o_id r = i) (unroutable_row err)"

definition mark_subscriber_failed :: "int \<Rightarrow> string \<Rightarrow> unit dbop" where
  "mark_subscriber_failed i err = update_outbox (\<lambda>r. o_id r = i) (failed_row err)"

definition mark_subscriber_blocked :: "int \<Rightarrow> int \<Rightarrow> string \<Rightarrow> unit dbop" where
  "mark_subscriber_blocked i by_id err = update_outbox (\<lambda>r. o_id r = i) (held_row by_id err)"

definition release_blocked_outbox :: "int \<Rightarrow> int dbop" where
  "release_blocked_outbox i =
     bindS (getS (\<lambda>s. row_count (\<lambda>r. o_blocked_by_outbox_id r = Some i \<and> o_status r = OBlocked) (outbox s)))
     (\<lambda>n. thenS (update_outbox (\<lambda>r. o_blocked_by_outbox_id r = Some i \<and> o_status r = OBlocked) unheld_row)
       (returnS (int n)))"

section \<open>Messages\<close>

record message =
  m_channel :: string
  m_text :: string
  m_thread_ts :: "string option"
  m_blocks :: json
  m_response_url :: "string option"

record slack_world =
  sw_blocks :: "dict \<Rightarrow> json"
  sw_post :: "db \<Rightarrow> message \<Rightarrow> string option"
  sw_exc_text :: "exn \<Rightarrow> string"
  sw_detail_setting :: "string option"

definition DETAIL_LEVELS :: "string list" where
  "DETAIL_LEVELS = [''milestone'', ''normal'', ''verbose'']"

definition get_activity_detail_level :: "slack_world \<Rightarrow> string" where
  "get_activity_detail_level w =
     (let level = py_lower (case sw_detail_setting w of None \<Rightarrow> ''normal'' | Some v \<Rightarrow> v) in
      if level \<in> set DETAIL_LEVELS then level else ''normal'')"

text \<open>\<^verbatim>\<open>str(payload.get(k) or default)\<close>.\<close>

definition get_str :: "dict \<Rightarrow> string \<Rightarrow> string \<Rightarrow> string" where
  "get_str d k dflt = (if truthy (dict_get d k) then py_str (dict_get d k) else dflt)"

definition level_order :: "string \<Rightarrow> int" where
  "level_order l = (case map_of [(''milestone'', 0), (''normal'', 1), (''verbose'', 2)] l of
     None \<Rightarrow> 1 | Some n \<Rightarrow> n)"

definition should_project :: "dict \<Rightarrow> string \<Rightarrow> bool" where
  "should_project payload sponsor_level \<longleftrightarrow>
     \<not> level_order sponsor_level < level_order (py_lower (get_str payload ''detail_level'' ''normal'')) \<and>
     get_str payload ''visibility'' ''SPONSOR'' \<noteq> ''AUDIT''"

definition stream_key :: "dict \<Rightarrow> string \<Rightarrow> string" where
  "stream_key payload sub = join_with ''|'' [sub, get_str payload ''slack_channel_id'' [],
     get_str payload ''slack_thread_ts'' [], get_str payload ''run_id'' []]"

text \<open>The em dash between actor and run id is its three UTF-8 bytes.\<close>

definition slack_text :: "dict \<Rightarrow> string" where
  "slack_text payload =
     (let actor = get_str payload ''actor_role'' ''ProjectOS'';
          run = get_str payload ''run_id'' [];
          summary = get_str payload ''summary'' (get_str payload ''event_type'' []);
          prefix = actor @ (if run = [] then [] else
             '' '' @ [CHR 0xE2, CHR 0x80, CHR 0x94] @ '' `'' @ run @ ''`'')
      in ''*ProjectOS:*'' @ [CHR 0x0A] @ prefix @ [CHR 0x0A] @ summary)"

datatype slack_action = AlreadyShown | MissingChannel | PostMessage message

text \<open>The body of the loop for Slack up to the call of \<^verbatim>\<open>post_message\<close>.\<close>

definition opt_text :: "string \<Rightarrow> string option" where
  "opt_text t = (if t = [] then None else Some t)"

definition slack_decision :: "slack_world \<Rightarrow> dict \<Rightarrow> exn + slack_action" where
  "slack_decision w payload =
     (if \<not> should_project payload (get_activity_detail_level w) then Inr AlreadyShown else
      let metadata = dict_get payload ''metadata'' in
      if truthy metadata \<and> (case metadata of JObj _ \<Rightarrow> False | _ \<Rightarrow> True) then Inl AttributeError else
      let meta = (case metadata of JObj m \<Rightarrow> m | _ \<Rightarrow> []);
          url = py_strip (get_str meta ''response_url'' (get_str payload ''response_url'' []));
          channel = get_str payload ''slack_channel_id'' [] in
      if channel = [] then Inr MissingChannel else
      let blocks = (case dict_get meta ''blocks'' of
                      JList (b # bs) \<Rightarrow> JList (b # bs) | _ \<Rightarrow> sw_blocks w payload);
          text = (if get_str payload ''event_type'' [] = ''SLACK_SPONSOR_REPLY''
                  then get_str payload ''summary'' (slack_text payload) else slack_text payload)
      in Inr (PostMessage \<lparr>m_channel = channel, m_text = text,
           m_thread_ts = opt_text (get_str payload ''slack_thread_ts'' []), m_blocks = blocks,
           m_response_url = opt_text url\<rparr>))"

section \<open>The dispatch loop\<close>

datatype row_result = RDelivered | RFailed | RUnroutable | RBlocked

record counts =
  n_delivered :: nat
  n_failed :: nat
  n_unroutable :: nat
  n_blocked :: nat

definition no_counts :: counts where
  "no_counts = \<lparr>n_delivered = 0, n_failed = 0, n_unroutable = 0, n_blocked = 0\<rparr>"

fun count_result :: "row_result \<Rightarrow> counts \<Rightarrow> counts" where
  "count_result RDelivered c = c\<lparr>n_delivered := Suc (n_delivered c)\<rparr>"
| "count_result RFailed c = c\<lparr>n_failed := Suc (n_failed c)\<rparr>"
| "count_result RUnroutable c = c\<lparr>n_unroutable := Suc (n_unroutable c)\<rparr>"
| "count_result RBlocked c = c\<lparr>n_blocked := Suc (n_blocked c)\<rparr>"

type_synonym streams = "(string \<times> int) list"

text \<open>The calls of \<^verbatim>\<open>post_message\<close> are observed: each result carries the messages that were posted on the way to it, with the
  row they were posted for, whether Slack took them or not.\<close>

type_synonym posts = "(int \<times> message) list"

definition fail_row :: "int \<Rightarrow> string \<Rightarrow> streams \<Rightarrow> posts \<Rightarrow> (streams \<times> row_result \<times> posts) dbop" where
  "fail_row i err bs ps = thenS (transaction (mark_subscriber_failed i err)) (returnS (bs, RFailed, ps))"

definition deliver_row :: "int \<Rightarrow> streams \<Rightarrow> posts \<Rightarrow> (streams \<times> row_result \<times> posts) dbop" where
  "deliver_row i bs ps =
     thenS (transaction (thenS (mark_subscriber_delivered i) (release_blocked_outbox i)))
       (returnS (bs, RDelivered, ps))"

definition dispatch_payload ::
    "slack_world \<Rightarrow> string \<Rightarrow> int \<Rightarrow> dict \<Rightarrow> streams \<Rightarrow> (streams \<times> row_result \<times> posts) dbop" where
  "dispatch_payload w sub i payload bs =
     (let stream = stream_key payload sub;
          bs' = (if payload = [] then bs else (stream, i) # bs) in
      case map_of bs stream of
        Some k \<Rightarrow> thenS (transaction (mark_subscriber_blocked i k ''causal ordering hold''))
                   (returnS (bs, RBlocked, []))
      | None \<Rightarrow>
          if sub \<noteq> ''slack'' then deliver_row i bs [] else
          (case slack_decision w payload of
             Inl e \<Rightarrow> fail_row i (sw_exc_text w e) bs' []
           | Inr AlreadyShown \<Rightarrow>
               thenS (transaction (mark_subscriber_delivered i)) (returnS (bs, RDelivered, []))
           | Inr MissingChannel \<Rightarrow>
               thenS (transaction (mark_subscriber_unroutable i ''missing slack_channel_id''))
                 (returnS (bs, RUnroutable, []))
           | Inr (PostMessage msg) \<Rightarrow>
               bindS (getS (\<lambda>s. sw_post w s msg)) (\<lambda>err.
                 case err of
                   None \<Rightarrow> deliver_row i bs [(i, msg)]
                 | Some t \<Rightarrow> fail_row i t bs' [(i, msg)])))"

text \<open>A payload that is not an object raises in the loop; a truthy one raises again in the handler,
  out of the function.\<close>

definition dispatch_row ::
    "slack_world \<Rightarrow> string \<Rightarrow> outbox_row \<Rightarrow> streams \<Rightarrow> (streams \<times> row_result \<times> posts) dbop" where
  "dispatch_row w sub row bs =
     (case o_payload row of
        JBad \<Rightarrow> fail_row (o_id row) (sw_exc_text w JSONDecodeError) bs []
      | JText (JObj d) \<Rightarrow> dispatch_payload w sub (o_id row) d bs
      | JText v \<Rightarrow>
          thenS (fail_row (o_id row) (sw_exc_text w AttributeError) bs [])
            (if truthy v then raiseS AttributeError else returnS (bs, RFailed, [])))"

fun dispatch_rows ::
    "slack_world \<Rightarrow> string \<Rightarrow> outbox_row list \<Rightarrow> streams \<Rightarrow> counts \<Rightarrow> posts \<Rightarrow> (counts \<times> posts) dbop" where
  "dispatch_rows w sub [] bs c ps = returnS (c, ps)"
| "dispatch_rows w sub (row # rows) bs c ps =
     bindS (dispatch_row w sub row bs) (\<lambda>(bs', res, ps').
       dispatch_rows w sub rows bs' (count_result res c) (ps @ ps'))"

definition dispatch_event_outbox :: "slack_world \<Rightarrow> string \<Rightarrow> int \<Rightarrow> string \<Rightarrow> (counts \<times> posts) dbop" where
  "dispatch_event_outbox w sub lim claimed_by =
     bindS (transaction (claim_pending_outbox sub claimed_by lim 300)) (\<lambda>pending.
       dispatch_rows w sub pending [] no_counts [])"

definition outbox_diagnostics :: "db \<Rightarrow> outbox_status \<Rightarrow> nat" where
  "outbox_diagnostics s st = row_count (\<lambda>r. o_status r = st) (outbox s)"

section \<open>Rows by id\<close>

definition outbox_by_id :: "int \<Rightarrow> db \<Rightarrow> outbox_row option" where
  "outbox_by_id i s = find_row (\<lambda>r. o_id r = i) (outbox s)"

lemma o_id_rows [simp]:
  "o_id (unclaimed_row r) = o_id r" "o_id (claimed_row b e r) = o_id r"
  "o_id (delivered_row n r) = o_id r" "o_id (unroutable_row t n r) = o_id r"
  "o_id (failed_row t n r) = o_id r" "o_id (held_row k t n r) = o_id r" "o_id (unheld_row n r) = o_id r"
  by (simp_all add: unclaimed_row_def claimed_row_def delivered_row_def unroutable_row_def
      failed_row_def held_row_def unheld_row_def)

lemma outbox_by_id_update:
  assumes "\<And>r. o_id (f r) = o_id r"
  shows "outbox_by_id i (s\<lparr>outbox := update_where p f (outbox s)\<rparr>) =
         map_option (\<lambda>r. if p r then f r else r) (outbox_by_id i s)"
  unfolding outbox_by_id_def by (simp add: find_row_update_where [where key = o_id] assms)

lemma outbox_by_id_key: "outbox_by_id i s = Some r \<Longrightarrow> o_id r = i"
  by (auto simp: outbox_by_id_def dest: find_row_SomeD)

section \<open>Claims\<close>

definition expired_released :: "string \<Rightarrow> db \<Rightarrow> db" where
  "expired_released sub s = s\<lparr>outbox := update_where (claim_expired sub (now_iso s)) unclaimed_row (outbox s)\<rparr>"

definition with_claims :: "int set \<Rightarrow> string \<Rightarrow> iso \<Rightarrow> db \<Rightarrow> db" where
  "with_claims ids by_whom expires s =
     s\<lparr>outbox := update_where (\<lambda>r. o_id r \<in> ids) (claimed_row by_whom expires) (outbox s)\<rparr>"

lemma claim_one_eq:
  assumes "distinct (map o_id (outbox s))" "row \<in> set (outbox s)" "o_status row = OPending"
  shows "claim_one b e row s = (Inr [row], with_claims {o_id row} b e s)"
proof -
  have "find_row (\<lambda>r. o_id r = o_id row) (outbox s) = Some row"
    using assms by (simp add: find_row_Some_key)
  then have n: "row_count (\<lambda>r. o_id r = o_id row \<and> o_status r = OPending) (outbox s) = 1"
    using row_count_key [OF assms(1), of "o_id row" "\<lambda>r. o_status r = OPending"] assms(3) by simp
  have "update_where (\<lambda>r. o_id r = o_id row \<and> o_status r = OPending) (claimed_row b e) (outbox s) =
      update_where (\<lambda>r. o_id r = o_id row) (claimed_row b e) (outbox s)"
    using assms unfolding update_where_def
    by (intro map_cong [OF refl]) (metis distinct_map inj_onD)
  with n show ?thesis by (simp add: claim_one_def op_simps update_outbox_def with_claims_def)
qed

lemma with_claims_compose:
  "with_claims ids b e (with_claims {i} b e s) = with_claims (insert i ids) b e s"
proof -
  have "update_where (\<lambda>r. o_id r \<in> ids) (claimed_row b e)
      (update_where (\<lambda>r. o_id r \<in> {i}) (claimed_row b e) rs) =
      update_where (\<lambda>r. o_id r \<in> {i} \<or> o_id r \<in> ids) (claimed_row b e) rs" for rs
    by (rule update_where_twice) (simp_all add: claimed_row_def)
  then show ?thesis by (simp add: with_claims_def)
qed

lemma mapS_claim_one:
  assumes "distinct (map o_id (outbox s))" "distinct (map o_id rows)"
    and "\<forall>row \<in> set rows. row \<in> set (outbox s) \<and> o_status row = OPending"
  shows "mapS (claim_one b e) rows s =
     (Inr (map (\<lambda>r. [r]) rows), with_claims (set (map o_id rows)) b e s)"
  using assms
proof (induction rows arbitrary: s)
  case Nil
  then show ?case by (simp add: op_simps with_claims_def update_where_def)
next
  case (Cons row rows)
  let ?u = "with_claims {o_id row} b e s"
  have row: "claim_one b e row s = (Inr [row], ?u)" using Cons.prems by (intro claim_one_eq) auto
  have "distinct (map o_id (outbox ?u))"
    using Cons.prems(1) by (simp add: with_claims_def map_update_where)
  moreover have "\<forall>r \<in> set rows. r \<in> set (outbox ?u) \<and> o_status r = OPending"
  proof
    fix r assume r: "r \<in> set rows"
    then have "o_id r \<noteq> o_id row" "r \<in> set (outbox s)" "o_status r = OPending"
      using Cons.prems(2,3) r by (force simp: image_iff)+
    then show "r \<in> set (outbox ?u) \<and> o_status r = OPending"
      by (auto simp: with_claims_def set_update_where intro!: image_eqI [of _ _ r])
  qed
  ultimately have "mapS (claim_one b e) rows ?u =
      (Inr (map (\<lambda>r. [r]) rows), with_claims (set (map o_id rows)) b e ?u)"
    using Cons.IH Cons.prems(2) by simp
  with row show ?case by (simp add: op_simps with_claims_compose)
qed

lemma list_pending_iff_subset:
  "r \<in> set (list_pending_subscriber_outbox sub lim s) \<Longrightarrow>
   r \<in> set (outbox s) \<and> o_subscriber r = sub \<and> o_status r = OPending \<and> o_attempts r < 10"
  by (auto simp: list_pending_subscriber_outbox_def sql_limit_def MAX_OUTBOX_ATTEMPTS_def
      split: if_splits dest!: in_set_takeD)

lemma list_pending_distinct:
  assumes "distinct (map o_id (outbox s))"
  shows "distinct (map o_id (list_pending_subscriber_outbox sub lim s))"
proof -
  have "distinct (outbox s)" "inj_on o_id (set (outbox s))" using assms by (auto simp: distinct_map)
  then have "distinct (map o_id (sort_key o_created_at (filter (\<lambda>r. o_subscriber r = sub \<and>
      o_status r = OPending \<and> o_attempts r < MAX_OUTBOX_ATTEMPTS) (outbox s))))"
    by (auto simp: distinct_map intro: inj_on_subset)
  then show ?thesis
    by (simp add: list_pending_subscriber_outbox_def sql_limit_def flip: take_map)
qed

lemma claim_pending_eq:
  assumes "distinct (map o_id (outbox s))"
  shows "claim_pending_outbox sub b lim secs s =
    (let u = expired_released sub s; pending = list_pending_subscriber_outbox sub lim u in
     (Inr pending, with_claims (set (map o_id pending)) b (iso_of (clk s + of_iso secs)) u))"
proof -
  let ?u = "expired_released sub s"
  let ?p = "list_pending_subscriber_outbox sub lim ?u"
  have d: "distinct (map o_id (outbox ?u))"
    using assms by (simp add: expired_released_def map_update_where)
  have "mapS (claim_one b (iso_of (clk s + of_iso secs))) ?p ?u =
     (Inr (map (\<lambda>r. [r]) ?p), with_claims (set (map o_id ?p)) b (iso_of (clk s + of_iso secs)) ?u)"
    using list_pending_iff_subset by (intro mapS_claim_one d list_pending_distinct) blast
  moreover have "concat (map (\<lambda>r. [r]) xs) = xs" for xs :: "outbox_row list" by (induction xs) auto
  ultimately show ?thesis
    by (simp add: claim_pending_outbox_def op_simps Let_def expired_released_def [symmetric])
qed

lemma keyed_claim:
  "distinct (map o_id (outbox s)) \<Longrightarrow> distinct (map o_id (outbox (snd (claim_pending_outbox sub b lim secs s))))"
  by (simp add: claim_pending_eq Let_def with_claims_def expired_released_def map_update_where)

section \<open>What a row of the loop touches\<close>

text \<open>Processing row \<open>i\<close> leaves every other row alone, except those held behind \<open>i\<close>.\<close>

definition touches_only :: "int \<Rightarrow> db \<Rightarrow> db \<Rightarrow> bool" where
  "touches_only i s t \<longleftrightarrow> map o_id (outbox t) = map o_id (outbox s) \<and>
     (\<forall>b r. b \<noteq> i \<longrightarrow> outbox_by_id b s = Some r \<longrightarrow>
        \<not> (o_status r = OBlocked \<and> o_blocked_by_outbox_id r = Some i) \<longrightarrow> outbox_by_id b t = Some r)"

lemma touches_refl: "touches_only i s s"
  by (simp add: touches_only_def)

lemma snd_transaction_modify: "snd (transaction (update_outbox p f) s) =
    s\<lparr>outbox := update_where p (f (now_iso s)) (outbox s)\<rparr>"
  by (simp add: transaction_def update_outbox_def modifyS_def)

lemma touches_update:
  assumes "\<And>n r. o_id (f n r) = o_id r"
  shows "touches_only i s (snd (transaction (update_outbox (\<lambda>r. o_id r = i) f) s))"
proof -
  have "outbox_by_id b (s\<lparr>outbox := update_where (\<lambda>r. o_id r = i) (f (now_iso s)) (outbox s)\<rparr>) = Some r"
    if "b \<noteq> i" "outbox_by_id b s = Some r" for b r
    using that outbox_by_id_key [OF that(2)] by (simp add: outbox_by_id_update assms)
  then show ?thesis
    by (simp add: touches_only_def snd_transaction_modify map_update_where assms)
qed

lemma touches_marks:
  "touches_only i s (snd (transaction (mark_subscriber_failed i e) s))"
  "touches_only i s (snd (transaction (mark_subscriber_delivered i) s))"
  "touches_only i s (snd (transaction (mark_subscriber_unroutable i e) s))"
  "touches_only i s (snd (transaction (mark_subscriber_blocked i k e) s))"
  unfolding mark_subscriber_failed_def mark_subscriber_delivered_def mark_subscriber_unroutable_def
    mark_subscriber_blocked_def by (rule touches_update; simp)+

lemma deliver_row_state:
  "deliver_row i bs ps s = (Inr (bs, RDelivered, ps),
     s\<lparr>outbox := update_where (\<lambda>r. o_blocked_by_outbox_id r = Some i \<and> o_status r = OBlocked)
        (unheld_row (now_iso s)) (update_where (\<lambda>r. o_id r = i) (delivered_row (now_iso s)) (outbox s))\<rparr>)"
  by (simp add: deliver_row_def op_simps transaction_def bindS_def thenS_def mark_subscriber_delivered_def
      release_blocked_outbox_def update_outbox_def modifyS_def getS_def returnS_def now_iso_def)

lemma touches_deliver: "touches_only i s (snd (deliver_row i bs ps s))"
proof -
  let ?u = "s\<lparr>outbox := update_where (\<lambda>r. o_id r = i) (delivered_row (now_iso s)) (outbox s)\<rparr>"
  let ?t = "?u\<lparr>outbox := update_where (\<lambda>r. o_blocked_by_outbox_id r = Some i \<and> o_status r = OBlocked)
     (unheld_row (now_iso s)) (outbox ?u)\<rparr>"
  have "outbox_by_id b ?t = Some r" if "b \<noteq> i" "outbox_by_id b s = Some r"
      "\<not> (o_status r = OBlocked \<and> o_blocked_by_outbox_id r = Some i)" for b r
  proof -
    have "outbox_by_id b ?u = Some r"
      using that outbox_by_id_key [OF that(2)] by (simp add: outbox_by_id_update)
    then show ?thesis using that(3) by (subst outbox_by_id_update) auto
  qed
  then show ?thesis by (simp add: deliver_row_state touches_only_def map_update_where)
qed

lemma touches_thenS_return:
  "touches_only i s (snd (m s)) \<Longrightarrow> touches_only i s (snd (thenS m (returnS x) s))"
  by (auto simp: thenS_def bindS_def returnS_def split: prod.split sum.split)

lemma touches_fail: "touches_only i s (snd (fail_row i e bs ps s))"
  unfolding fail_row_def by (rule touches_thenS_return) (rule touches_marks)

lemma touches_payload: "touches_only i s (snd (dispatch_payload w sub i d bs s))"
proof (cases "map_of bs (stream_key d sub)")
  case (Some k)
  then show ?thesis
    by (simp add: dispatch_payload_def touches_thenS_return touches_marks)
next
  case None
  note touches = touches_thenS_return touches_marks touches_deliver touches_fail bindS_getS
  show ?thesis
  proof (cases "sub = ''slack''")
    case True
    show ?thesis
    proof (cases "slack_decision w d")
      case (Inl e)
      with None True show ?thesis by (simp add: dispatch_payload_def Let_def touches)
    next
      case (Inr act)
      with None True show ?thesis
        by (cases act) (simp_all add: dispatch_payload_def Let_def touches split: option.split)
    qed
  qed (simp add: dispatch_payload_def Let_def None touches)
qed

lemma touches_row: "touches_only (o_id row) s (snd (dispatch_row w sub row bs s))"
proof (cases "\<exists>d. o_payload row = JText (JObj d)")
  case True
  then show ?thesis by (auto simp: dispatch_row_def touches_payload)
next
  case False
  have "snd (thenS (fail_row i e bs ps) (if b then raiseS x else returnS (bs, RFailed, ps)) s) =
      snd (fail_row i e bs ps s)" for i e b x ps
    by (simp add: thenS_def bindS_def returnS_def raiseS_def split: prod.split sum.split)
  with False show ?thesis
    by (auto simp: dispatch_row_def touches_fail touches_thenS_return split: jtext.split json.split)
qed

text \<open>A row that nothing in the remaining list touches is the same after the loop.\<close>

lemma dispatch_rows_frame:
  assumes "b \<notin> o_id ` set rows" "outbox_by_id b s = Some r"
    and "o_status r = OBlocked \<Longrightarrow> o_blocked_by_outbox_id r \<notin> Some ` o_id ` set rows"
  shows "outbox_by_id b (snd (dispatch_rows w sub rows bs c ps s)) = Some r"
  using assms
proof (induction rows arbitrary: bs c ps s)
  case (Cons row rows)
  obtain res t where t: "dispatch_row w sub row bs s = (res, t)" by fastforce
  have b: "outbox_by_id b t = Some r"
    using touches_row [of row s w sub bs] Cons.prems t unfolding touches_only_def by auto
  show ?case
  proof (cases res)
    case (Inl e)
    with t b show ?thesis by (simp add: op_simps)
  next
    case (Inr x)
    with t Cons.IH [OF _ b] Cons.prems show ?thesis
      by (cases x) (auto simp: op_simps)
  qed
qed (simp add: op_simps)

section \<open>The causal hold\<close>

lemma fail_row_result: "fail_row i e bs ps s = (Inr (bs, RFailed, ps), snd (transaction (mark_subscriber_failed i e) s))"
  by (simp add: fail_row_def thenS_def bindS_def transaction_def mark_subscriber_failed_def
      update_outbox_def modifyS_def returnS_def)

lemma mark_then_return:
  "thenS (transaction (update_outbox p f)) (returnS x) s = (Inr x, snd (transaction (update_outbox p f) s))"
  by (simp add: thenS_def bindS_def transaction_def update_outbox_def modifyS_def returnS_def)

lemma dispatch_payload_result:
  "\<exists>bs' res ps t. dispatch_payload w sub i d bs s = (Inr (bs', res, ps), t) \<and> fst ` set ps \<subseteq> {i} \<and>
     (bs' = bs \<or> (bs' = (stream_key d sub, i) # bs \<and> map_of bs (stream_key d sub) = None)) \<and>
     (res = RFailed \<longrightarrow> d \<noteq> [] \<longrightarrow> bs' = (stream_key d sub, i) # bs)"
proof (cases "map_of bs (stream_key d sub)")
  case (Some k)
  then show ?thesis
    by (simp add: dispatch_payload_def mark_then_return mark_subscriber_blocked_def)
next
  case None
  note results = mark_then_return mark_subscriber_delivered_def mark_subscriber_unroutable_def
    fail_row_result deliver_row_state bindS_getS
  show ?thesis
  proof (cases "sub = ''slack''")
    case True
    show ?thesis
    proof (cases "slack_decision w d")
      case (Inl e)
      with None True show ?thesis by (simp add: dispatch_payload_def Let_def results)
    next
      case (Inr act)
      with None True show ?thesis
        by (cases act) (simp_all add: dispatch_payload_def Let_def results split: option.split)
    qed
  qed (simp add: dispatch_payload_def Let_def None results)
qed

lemma dispatch_row_streams:
  assumes "dispatch_row w sub row bs s = (Inr (bs', res, ps), t)" "map_of bs st = Some k"
  shows "map_of bs' st = Some k"
proof (cases "\<exists>d. o_payload row = JText (JObj d)")
  case True
  then obtain d where "o_payload row = JText (JObj d)" by blast
  then show ?thesis
    using assms dispatch_payload_result [of w sub "o_id row" d bs s]
    by (auto simp: dispatch_row_def split: if_splits)
next
  case False
  then have "bs' = bs"
    using assms(1) by (auto simp: dispatch_row_def fail_row_result thenS_def bindS_def returnS_def
        raiseS_def split: jtext.splits json.splits if_splits)
  with assms(2) show ?thesis by simp
qed

lemma dispatch_row_held:
  assumes "o_payload row = JText (JObj d)" "map_of bs (stream_key d sub) = Some k"
    and "outbox_by_id (o_id row) s = Some r"
  shows "\<exists>t r'. dispatch_row w sub row bs s = (Inr (bs, RBlocked, []), t) \<and>
    outbox_by_id (o_id row) t = Some r' \<and> o_status r' = OBlocked \<and>
    o_blocked_by_outbox_id r' = Some k \<and> o_attempts r' = o_attempts r"
  using assms outbox_by_id_key [OF assms(3)]
  by (simp add: dispatch_row_def dispatch_payload_def Let_def mark_subscriber_blocked_def
      mark_then_return snd_transaction_modify outbox_by_id_update held_row_def)

lemma dispatch_row_posts:
  assumes "dispatch_row w sub row bs s = (Inr (bs', res, ps), t)"
  shows "fst ` set ps \<subseteq> {o_id row}"
proof (cases "\<exists>d. o_payload row = JText (JObj d)")
  case True
  then obtain d where "o_payload row = JText (JObj d)" by blast
  then show ?thesis using assms dispatch_payload_result [of w sub "o_id row" d bs s] by (auto simp: dispatch_row_def)
next
  case False
  then have "ps = []"
    using assms by (auto simp: dispatch_row_def fail_row_result thenS_def bindS_def returnS_def
        raiseS_def split: jtext.splits json.splits if_splits)
  then show ?thesis by simp
qed

text \<open>A pass only posts messages of its own rows.\<close>

lemma dispatch_rows_posts:
  "dispatch_rows w sub rows bs c ps s = (Inr (c', ps'), t) \<Longrightarrow> \<exists>new. ps' = ps @ new \<and> fst ` set new \<subseteq> o_id ` set rows"
proof (induction rows arbitrary: bs c ps s)
  case (Cons row rows)
  obtain bs' res qs u where u: "dispatch_row w sub row bs s = (Inr (bs', res, qs), u)"
      "dispatch_rows w sub rows bs' (count_result res c) (ps @ qs) u = (Inr (c', ps'), t)"
    using Cons.prems by (auto simp: bindS_eq_Inr_iff)
  obtain new where "ps' = (ps @ qs) @ new" "fst ` set new \<subseteq> o_id ` set rows" using Cons.IH [OF u(2)] by blast
  with dispatch_row_posts [OF u(1)] show ?case by (intro exI [of _ "qs @ new"]) auto
qed (simp add: op_simps)

lemma held_in_blocked_stream:
  assumes "dispatch_rows w sub rows bs c ps s = (Inr (c', ps'), t)" "b \<in> set rows"
    and "o_payload b = JText (JObj d)" "map_of bs (stream_key d sub) = Some k"
    and "distinct (map o_id rows)" "k \<notin> o_id ` set rows"
    and "outbox_by_id (o_id b) s = Some r" "o_status r \<noteq> OBlocked"
  shows "(\<exists>r'. outbox_by_id (o_id b) t = Some r' \<and> o_status r' = OBlocked \<and>
      o_blocked_by_outbox_id r' = Some k \<and> o_attempts r' = o_attempts r) \<and>
    (\<exists>new. ps' = ps @ new \<and> o_id b \<notin> fst ` set new)"
  using assms
proof (induction rows arbitrary: bs c ps s)
  case (Cons row rows)
  obtain bs' res qs u where u: "dispatch_row w sub row bs s = (Inr (bs', res, qs), u)"
      "dispatch_rows w sub rows bs' (count_result res c) (ps @ qs) u = (Inr (c', ps'), t)"
    using Cons.prems(1) by (auto simp: bindS_eq_Inr_iff)
  show ?case
  proof (cases "row = b")
    case True
    obtain r' where r': "outbox_by_id (o_id b) u = Some r'" "o_status r' = OBlocked"
        "o_blocked_by_outbox_id r' = Some k" "o_attempts r' = o_attempts r" and qs: "qs = []"
      using dispatch_row_held [OF Cons.prems(3,4,7), of w] u(1) True by auto
    have "outbox_by_id (o_id b) (snd (dispatch_rows w sub rows bs' (count_result res c) (ps @ qs) u)) = Some r'"
      using Cons.prems(5,6) True r' by (intro dispatch_rows_frame) auto
    moreover have "\<exists>new. ps' = ps @ new \<and> o_id b \<notin> fst ` set new"
      using dispatch_rows_posts [OF u(2)] Cons.prems(5) True qs by auto
    ultimately show ?thesis using u(2) r' by simp
  next
    case False
    then have b: "b \<in> set rows" "o_id b \<noteq> o_id row"
      using Cons.prems(2,5) by (force simp: image_iff)+
    have "outbox_by_id (o_id b) u = Some r"
      using touches_row [of row s w sub bs] u(1) Cons.prems(7,8) b(2) unfolding touches_only_def by simp
    then have rest: "(\<exists>r'. outbox_by_id (o_id b) t = Some r' \<and> o_status r' = OBlocked \<and>
        o_blocked_by_outbox_id r' = Some k \<and> o_attempts r' = o_attempts r) \<and>
      (\<exists>new. ps' = (ps @ qs) @ new \<and> o_id b \<notin> fst ` set new)"
      using Cons.IH [OF u(2) b(1) Cons.prems(3) dispatch_row_streams [OF u(1) Cons.prems(4)]]
        Cons.prems(5,6,8) by simp
    then obtain new where "ps' = ps @ (qs @ new)" "o_id b \<notin> fst ` set (qs @ new)"
      using dispatch_row_posts [OF u(1)] b(2) by auto
    with rest show ?thesis by blast
  qed
qed simp

fun total :: "counts \<Rightarrow> nat" where
  "total c = n_delivered c + n_failed c + n_unroutable c + n_blocked c"

lemma total_count_result [simp]: "total (count_result r c) = Suc (total c)"
  by (cases r) auto

lemma dispatch_rows_total:
  "dispatch_rows w sub rows bs c ps s = (Inr (c', ps'), t) \<Longrightarrow> total c' = total c + length rows"
proof (induction rows arbitrary: bs c ps s)
  case (Cons row rows)
  then obtain bs' res qs u where "dispatch_rows w sub rows bs' (count_result res c) (ps @ qs) u = (Inr (c', ps'), t)"
    by (auto simp: bindS_eq_Inr_iff simp del: total.simps)
  from Cons.IH [OF this] show ?case by (simp del: total.simps)
qed (simp add: op_simps)

lemma dispatch_rows_returns:
  assumes "\<forall>row \<in> set rows. \<exists>d. o_payload row = JText (JObj d) \<or> o_payload row = JBad"
  shows "\<exists>c' ps' t. dispatch_rows w sub rows bs c ps s = (Inr (c', ps'), t)"
  using assms
proof (induction rows arbitrary: bs c ps s)
  case (Cons row rows)
  obtain d where "o_payload row = JText (JObj d) \<or> o_payload row = JBad" using Cons.prems by auto
  then have "\<exists>bs' res qs u. dispatch_row w sub row bs s = (Inr (bs', res, qs), u)"
    using dispatch_payload_result [of w sub "o_id row" d bs s]
    by (auto simp: dispatch_row_def fail_row_result)
  then obtain bs' res qs u where "dispatch_row w sub row bs s = (Inr (bs', res, qs), u)" by blast
  with Cons show ?case by (simp add: op_simps)
qed (simp add: op_simps)

section \<open>Bounded delivery attempts\<close>

interpretation outbox_retries: bounded_retry o_attempts "\<lambda>_. MAX_OUTBOX_ATTEMPTS" "failed_row e n"
    "\<lambda>r. o_status r = ODead" for e n
  by unfold_locales (simp_all add: failed_row_def)

section \<open>Rows that nothing releases\<close>

text \<open>A row held behind a row that is finished for good.\<close>

definition stuck :: "int \<Rightarrow> int \<Rightarrow> outbox_row \<Rightarrow> outbox_row \<Rightarrow> db \<Rightarrow> bool" where
  "stuck b k r rk s \<longleftrightarrow> distinct (map o_id (outbox s)) \<and> outbox_by_id b s = Some r \<and>
     outbox_by_id k s = Some rk \<and> o_status r = OBlocked \<and> o_blocked_by_outbox_id r = Some k \<and>
     o_status rk \<in> {ODead, ODelivered, OUnroutable}"

inductive outbox_step :: "db \<Rightarrow> db \<Rightarrow> bool" where
  pass: "outbox_step s (snd (dispatch_event_outbox w sub lim by_whom s))"
| time: "clk s \<le> t \<Longrightarrow> outbox_step s (s\<lparr>clk := t\<rparr>)"

lemma claim_keeps_row:
  assumes d: "distinct (map o_id (outbox s))" and r: "outbox_by_id b s = Some r"
    and st: "o_status r \<notin> {OPending, OClaimed}"
  shows "outbox_by_id b (snd (claim_pending_outbox sub by_whom lim secs s)) = Some r"
    "b \<notin> o_id ` set (list_pending_subscriber_outbox sub lim (expired_released sub s))"
proof -
  let ?u = "expired_released sub s"
  let ?p = "list_pending_subscriber_outbox sub lim ?u"
  have u: "outbox_by_id b ?u = Some r"
    using r st by (simp add: expired_released_def outbox_by_id_update claim_expired_def)
  have d': "distinct (map o_id (outbox ?u))"
    using d by (simp add: expired_released_def map_update_where)
  show no: "b \<notin> o_id ` set ?p"
  proof
    assume "b \<in> o_id ` set ?p"
    then obtain x where "x \<in> set ?p" "o_id x = b" by auto
    then have "x \<in> set (outbox ?u)" "o_status x = OPending" "o_id x = b"
      using list_pending_iff_subset by blast+
    then have "outbox_by_id b ?u = Some x"
      using find_row_Some_key [OF d', of b x] by (simp add: outbox_by_id_def)
    with u st \<open>o_status x = OPending\<close> show False by simp
  qed
  show "outbox_by_id b (snd (claim_pending_outbox sub by_whom lim secs s)) = Some r"
    using u no outbox_by_id_key [OF u]
    by (simp add: claim_pending_eq [OF d] Let_def with_claims_def outbox_by_id_update)
qed

lemma dispatch_rows_keyed:
  "map o_id (outbox (snd (dispatch_rows w sub rows bs c ps s))) = map o_id (outbox s)"
proof (induction rows arbitrary: bs c ps s)
  case (Cons row rows)
  obtain res t where t: "dispatch_row w sub row bs s = (res, t)" by fastforce
  have "map o_id (outbox t) = map o_id (outbox s)"
    using touches_row [of row s w sub bs] t by (simp add: touches_only_def)
  with t Cons.IH show ?case by (cases res) (auto simp: op_simps split_beta)
qed (simp add: op_simps)

lemma stuck_step:
  assumes "stuck b k r rk s" "outbox_step s t"
  shows "stuck b k r rk t"
  using assms(2,1)
proof cases
  case (pass w sub lim by_whom)
  let ?u = "snd (claim_pending_outbox sub by_whom lim 300 s)"
  let ?p = "list_pending_subscriber_outbox sub lim (expired_released sub s)"
  have st: "distinct (map o_id (outbox s))" "outbox_by_id b s = Some r" "outbox_by_id k s = Some rk"
    "o_status r = OBlocked" "o_blocked_by_outbox_id r = Some k"
    "o_status rk \<in> {ODead, ODelivered, OUnroutable}" using assms(1) by (simp_all add: stuck_def)
  have u: "outbox_by_id b ?u = Some r" "outbox_by_id k ?u = Some rk"
    "b \<notin> o_id ` set ?p" "k \<notin> o_id ` set ?p"
    using claim_keeps_row(1) [OF st(1,2), of sub by_whom lim 300] claim_keeps_row(2) [OF st(1,2), of sub lim]
      claim_keeps_row(1) [OF st(1,3), of sub by_whom lim 300] claim_keeps_row(2) [OF st(1,3), of sub lim]
      st(4,6) by auto
  have t: "t = snd (dispatch_rows w sub ?p [] no_counts [] ?u)"
    using pass by (simp add: dispatch_event_outbox_def op_simps transaction_def claim_pending_eq [OF st(1)]
        Let_def)
  have "outbox_by_id b t = Some r" "outbox_by_id k t = Some rk"
    unfolding t using u st by (auto intro!: dispatch_rows_frame)
  moreover have "distinct (map o_id (outbox t))"
    unfolding t dispatch_rows_keyed by (rule keyed_claim [OF st(1)])
  ultimately show ?thesis using st by (simp add: stuck_def)
next
  case (time t')
  then show ?thesis using assms(1) by (simp add: stuck_def outbox_by_id_def)
qed

interpretation stuck_machine: invariant_machine "stuck b k r rk" outbox_step "stuck b k r rk" for b k r rk
  by unfold_locales (auto intro: stuck_step)

section \<open>An outbox for the witnesses\<close>

definition sample_outbox_row :: "int \<Rightarrow> int \<Rightarrow> outbox_row" where
  "sample_outbox_row i att = \<lparr>o_id = i, o_event_id = ''EVT'', o_subscriber = ''slack'',
     o_idempotency_key = ''slack:'' @ show_int i,
     o_payload = JText (JObj [(''slack_channel_id'', JStr ''C1''), (''run_id'', JStr ''RUN-1''),
       (''summary'', JStr ''hello'')]),
     o_status = OPending, o_attempts = att, o_last_error = None, o_created_at = 0,
     o_delivered_at = None, o_claimed_by = None, o_claim_expires_at = None,
     o_blocked_by_outbox_id = None\<rparr>"

definition sample_outbox :: "int \<Rightarrow> db" where
  "sample_outbox att = (empty_db 0 (\<lambda>_. ''u'') (\<lambda>r. r))\<lparr>
     outbox := [sample_outbox_row 1 att, sample_outbox_row 2 0]\<rparr>"

text \<open>Slack refusing every post.\<close>

definition sample_world :: slack_world where
  "sample_world = \<lparr>sw_blocks = (\<lambda>_. JList []), sw_post = (\<lambda>_ _. Some ''down''),
     sw_exc_text = (\<lambda>_. ''error''), sw_detail_setting = None\<rparr>"

section \<open>Properties\<close>

text \<open>C32: Causal order is kept: when the delivery of a row fails, every later row of the same pass and
  stream (subscriber, channel, thread and run) ends held behind exactly that row, without spending a
  delivery attempt, and the pass posts no message for it.\<close>

theorem failed_row_holds_its_stream:
  assumes "dispatch_rows w sub (row # rows) bs c ps s = (Inr (c', ps'), t)"
    and "dispatch_row w sub row bs s = (Inr (bs', RFailed, qs), u)"
    and "o_payload row = JText (JObj d)" "d \<noteq> []" "distinct (map o_id (row # rows))"
    and "b \<in> set rows" "o_payload b = JText (JObj e)" "stream_key e sub = stream_key d sub"
    and "outbox_by_id (o_id b) s = Some r" "o_status r = OClaimed"
  shows "(\<exists>r'. outbox_by_id (o_id b) t = Some r' \<and> o_status r' = OBlocked \<and>
      o_blocked_by_outbox_id r' = Some (o_id row) \<and> o_attempts r' = o_attempts r) \<and>
    (\<exists>new. ps' = ps @ new \<and> (\<forall>m. (o_id b, m) \<notin> set new))"
proof -
  have rest: "dispatch_rows w sub rows bs' (count_result RFailed c) (ps @ qs) u = (Inr (c', ps'), t)"
    using assms(1,2) by (simp add: op_simps)
  have stream: "map_of bs' (stream_key e sub) = Some (o_id row)"
    using dispatch_payload_result [of w sub "o_id row" d bs s] assms(2-4,8)
    by (auto simp: dispatch_row_def)
  have other: "o_id b \<noteq> o_id row" using assms(5,6) by (force simp: image_iff)
  then have "outbox_by_id (o_id b) u = Some r"
    using touches_row [of row s w sub bs] assms(2,9,10) unfolding touches_only_def by simp
  then have held: "(\<exists>r'. outbox_by_id (o_id b) t = Some r' \<and> o_status r' = OBlocked \<and>
      o_blocked_by_outbox_id r' = Some (o_id row) \<and> o_attempts r' = o_attempts r) \<and>
    (\<exists>new. ps' = (ps @ qs) @ new \<and> o_id b \<notin> fst ` set new)"
    using held_in_blocked_stream [OF rest assms(6,7) stream] assms(5,10) by simp
  then obtain new where "ps' = ps @ (qs @ new)" "\<forall>m. (o_id b, m) \<notin> set (qs @ new)"
    using dispatch_row_posts [OF assms(2)] other by force
  with held show ?thesis by blast
qed

text \<open>Slack is down: the pass posts the first message, the second row is held and nothing is posted for it.\<close>

lemma failed_row_holds_its_stream_witness:
  "\<exists>r' c ps t. dispatch_event_outbox sample_world ''slack'' 25 ''d'' (sample_outbox 0) = (Inr (c, ps), t) \<and>
     outbox_by_id 2 t = Some r' \<and> o_status r' = OBlocked \<and> o_blocked_by_outbox_id r' = Some 1 \<and> o_attempts r' = 0 \<and>
     ps \<noteq> [] \<and> (\<forall>m. (2, m) \<notin> set ps)"
proof -
  let ?s = "snd (claim_pending_outbox ''slack'' ''d'' 25 300 (sample_outbox 0))"
  let ?a = "sample_outbox_row 1 0" and ?b = "sample_outbox_row 2 0"
  let ?d = "[(''slack_channel_id'', JStr ''C1''), (''run_id'', JStr ''RUN-1''), (''summary'', JStr ''hello'')]"
  let ?rows = "dispatch_rows sample_world ''slack'' [?a, ?b] [] no_counts [] ?s"
  have "case fst ?rows of Inr (c, ps) \<Rightarrow> ps \<noteq> [] | Inl _ \<Rightarrow> False" by code_simp
  then obtain c ps where run: "?rows = (Inr (c, ps), snd ?rows)" and posted: "ps \<noteq> []"
    by (cases ?rows) (auto split: sum.splits)
  have "case fst (dispatch_row sample_world ''slack'' ?a [] ?s) of Inr (_, res, _) \<Rightarrow> res = RFailed | Inl _ \<Rightarrow> False" by code_simp
  then obtain bs qs where first: "dispatch_row sample_world ''slack'' ?a [] ?s =
      (Inr (bs, RFailed, qs), snd (dispatch_row sample_world ''slack'' ?a [] ?s))"
    by (cases "dispatch_row sample_world ''slack'' ?a [] ?s") (auto split: sum.splits)
  have b: "outbox_by_id 2 ?s = Some (claimed_row ''d'' 300 ?b)" by code_simp
  have eq: "dispatch_event_outbox sample_world ''slack'' 25 ''d'' (sample_outbox 0) = ?rows"
  proof -
    have "fst (claim_pending_outbox ''slack'' ''d'' 25 300 (sample_outbox 0)) = Inr [?a, ?b]" by code_simp
    then show ?thesis
      by (simp add: dispatch_event_outbox_def transaction_def bindS_def split_beta)
  qed
  have "(\<exists>r'. outbox_by_id 2 (snd ?rows) = Some r' \<and> o_status r' = OBlocked \<and> o_blocked_by_outbox_id r' = Some 1 \<and>
      o_attempts r' = 0) \<and> (\<exists>new. ps = [] @ new \<and> (\<forall>m. (2, m) \<notin> set new))"
    using failed_row_holds_its_stream [OF run first, of ?d ?b ?d "claimed_row ''d'' 300 ?b"] b
    by (simp add: sample_outbox_row_def claimed_row_def)
  with run posted show ?thesis unfolding eq by (metis append_Nil)
qed

text \<open>A claim is exclusive: the rows one dispatcher claims are distinct, were pending with attempts
  left, and are claimed afterwards; a second dispatcher claiming while the first claim is still valid
  gets none of them.\<close>

theorem claims_are_exclusive:
  assumes "distinct (map o_id (outbox s))" "0 \<le> secs"
    and "claim_pending_outbox sub a lim secs s = (Inr rows, t)"
    and "now_iso (t\<lparr>clk := m\<rparr>) \<le> iso_of (clk s + of_iso secs)"
  shows "distinct (map o_id rows) \<and>
    (\<forall>row \<in> set rows. o_subscriber row = sub \<and> o_status row = OPending \<and> o_attempts row < 10 \<and>
       outbox_by_id (o_id row) t = Some (claimed_row a (iso_of (clk s + of_iso secs)) row)) \<and>
    (\<exists>rows' u. claim_pending_outbox sub' b lim' secs' (t\<lparr>clk := m\<rparr>) = (Inr rows', u) \<and>
       o_id ` set rows \<inter> o_id ` set rows' = {})"
proof -
  let ?u = "expired_released sub s" and ?e = "iso_of (clk s + of_iso secs)"
  have d': "distinct (map o_id (outbox ?u))"
    using assms(1) by (simp add: expired_released_def map_update_where)
  have rows: "rows = list_pending_subscriber_outbox sub lim ?u"
    and t: "t = with_claims (set (map o_id rows)) a ?e ?u"
    using assms(3) by (auto simp: claim_pending_eq [OF assms(1)] Let_def)
  have in_t: "outbox_by_id (o_id row) t = Some (claimed_row a ?e row)" if "row \<in> set rows" for row
  proof -
    have "row \<in> set (outbox ?u)" using that list_pending_iff_subset rows by blast
    then have "outbox_by_id (o_id row) ?u = Some row"
      using find_row_Some_key [OF d'] by (simp add: outbox_by_id_def)
    then show ?thesis using that by (simp add: t with_claims_def outbox_by_id_update)
  qed
  have dt: "distinct (map o_id (outbox (t\<lparr>clk := m\<rparr>)))"
    using d' by (simp add: t with_claims_def map_update_where)
  let ?t = "t\<lparr>clk := m\<rparr>"
  let ?v = "expired_released sub' ?t"
  have none: "o_id row \<notin> o_id ` set (list_pending_subscriber_outbox sub' lim' ?v)"
    if "row \<in> set rows" for row
  proof
    assume "o_id row \<in> o_id ` set (list_pending_subscriber_outbox sub' lim' ?v)"
    then obtain x where x0: "x \<in> set (list_pending_subscriber_outbox sub' lim' ?v)" "o_id row = o_id x"
      by (rule imageE) blast
    have x: "x \<in> set (outbox ?v)" "o_status x = OPending" "o_id x = o_id row"
      using list_pending_iff_subset [OF x0(1)] x0(2) by simp_all
    have dv: "distinct (map o_id (outbox ?v))"
      using dt by (simp add: expired_released_def map_update_where)
    have "outbox_by_id (o_id row) ?t = Some (claimed_row a ?e row)"
      using in_t [OF that] by (simp add: outbox_by_id_def)
    then have "outbox_by_id (o_id row) ?v = Some (claimed_row a ?e row)"
      unfolding expired_released_def outbox_by_id_update [of unclaimed_row, OF o_id_rows(1)]
      using assms(4) by (simp add: claim_expired_def claimed_row_def)
    moreover have "outbox_by_id (o_id row) ?v = Some x"
      using find_row_Some_key [OF dv, of "o_id row" x] x by (simp add: outbox_by_id_def)
    ultimately show False using x(2) by (simp add: claimed_row_def)
  qed
  have inter: "o_id ` set rows \<inter> o_id ` set (list_pending_subscriber_outbox sub' lim' ?v) = {}"
    by (rule Int_emptyI, erule imageE) (simp add: none)
  obtain u where u: "claim_pending_outbox sub' b lim' secs' ?t =
      (Inr (list_pending_subscriber_outbox sub' lim' ?v), u)"
    by (simp add: claim_pending_eq [OF dt] Let_def)
  have dist: "distinct (map o_id rows)" unfolding rows by (rule list_pending_distinct [OF d'])
  have pend: "o_subscriber row = sub \<and> o_status row = OPending \<and> o_attempts row < 10"
    if "row \<in> set rows" for row
    using list_pending_iff_subset [of row sub lim ?u] that rows by simp
  show ?thesis
  proof (intro conjI)
    show "\<forall>row \<in> set rows. o_subscriber row = sub \<and> o_status row = OPending \<and> o_attempts row < 10 \<and>
       outbox_by_id (o_id row) t = Some (claimed_row a ?e row)"
      using pend in_t by simp
    show "\<exists>rows' u. claim_pending_outbox sub' b lim' secs' ?t = (Inr rows', u) \<and>
       o_id ` set rows \<inter> o_id ` set rows' = {}"
      using u inter by (intro exI conjI)
  qed (rule dist)
qed

lemma claims_are_exclusive_witness:
  "\<exists>rows' u. claim_pending_outbox ''slack'' ''b'' 25 300
       ((snd (claim_pending_outbox ''slack'' ''a'' 25 300 (sample_outbox 0)))\<lparr>clk := 300000000\<rparr>) = (Inr rows', u) \<and>
     o_id ` set [sample_outbox_row 1 0, sample_outbox_row 2 0] \<inter> o_id ` set rows' = {}"
proof -
  let ?t = "snd (claim_pending_outbox ''slack'' ''a'' 25 300 (sample_outbox 0))"
  have "fst (claim_pending_outbox ''slack'' ''a'' 25 300 (sample_outbox 0)) =
      Inr [sample_outbox_row 1 0, sample_outbox_row 2 0]" by code_simp
  then have claim: "claim_pending_outbox ''slack'' ''a'' 25 300 (sample_outbox 0) =
      (Inr [sample_outbox_row 1 0, sample_outbox_row 2 0], ?t)" by (metis prod.collapse)
  have "distinct (map o_id (outbox (sample_outbox 0)))"
    "now_iso (?t\<lparr>clk := 300000000\<rparr>) \<le> iso_of (clk (sample_outbox 0) + of_iso 300)" by code_simp+
  then show ?thesis using claims_are_exclusive [OF _ _ claim, of 300000000 "''slack''" "''b''" 25 300] by simp
qed

text \<open>A row is given up after exactly as many failed deliveries as its budget of ten leaves, and not
  before; and a pass over rows whose payloads are objects or undecodable texts always returns,
  accounting for every row it claimed exactly once.\<close>

theorem outbox_attempts_bounded:
  assumes "o_attempts r < MAX_OUTBOX_ATTEMPTS"
    and "\<forall>row \<in> set rows. \<exists>d. o_payload row = JText (JObj d) \<or> o_payload row = JBad"
  shows "o_status ((failed_row e n ^^ nat (10 - o_attempts r)) r) = ODead \<and>
    (\<forall>k. 0 < k \<and> k < nat (10 - o_attempts r) \<longrightarrow> o_status ((failed_row e n ^^ k) r) \<noteq> ODead) \<and>
    (\<exists>c ps t. dispatch_rows w sub rows bs no_counts [] s = (Inr (c, ps), t) \<and>
       n_delivered c + n_failed c + n_unroutable c + n_blocked c = length rows)"
proof -
  obtain c ps t where "dispatch_rows w sub rows bs no_counts [] s = (Inr (c, ps), t)"
    using dispatch_rows_returns [OF assms(2)] by blast
  moreover from dispatch_rows_total [OF this] have
    "n_delivered c + n_failed c + n_unroutable c + n_blocked c = length rows"
    by (simp add: no_counts_def)
  ultimately show ?thesis
    using outbox_retries.exhausts_after_budget [OF assms(1)] by (auto simp: MAX_OUTBOX_ATTEMPTS_def)
qed

lemma outbox_attempts_bounded_witness:
  "o_status ((failed_row ''x'' 0 ^^ 2) (sample_outbox_row 1 8)) = ODead \<and>
   o_status ((failed_row ''x'' 0 ^^ 1) (sample_outbox_row 1 8)) \<noteq> ODead"
proof -
  have att: "o_attempts (sample_outbox_row 1 8) = 8" by (simp add: sample_outbox_row_def)
  have both: "o_status ((failed_row ''x'' 0 ^^ nat (10 - o_attempts (sample_outbox_row 1 8)))
       (sample_outbox_row 1 8)) = ODead \<and>
    (\<forall>k. 0 < k \<and> k < nat (10 - o_attempts (sample_outbox_row 1 8)) \<longrightarrow>
       o_status ((failed_row ''x'' 0 ^^ k) (sample_outbox_row 1 8)) \<noteq> ODead)"
    using outbox_attempts_bounded [of "sample_outbox_row 1 8" "[]" "''x''" 0 sample_world "''slack''" "[]"
        "sample_outbox 0"] att by (simp add: MAX_OUTBOX_ATTEMPTS_def)
  show ?thesis
    using both [THEN conjunct1] both [THEN conjunct2, rule_format, of 1] unfolding att by simp
qed

text \<open>A row held behind a row that is dead, delivered or unroutable stays held for ever: no pass of
  the dispatcher, for any subscriber and with any answers of Slack, and no amount of waiting changes
  it. A pass in which the tenth attempt of a row fails leaves the later rows of its stream in exactly
  this state.\<close>

theorem held_behind_finished_row_is_stuck:
  assumes "distinct (map o_id (outbox s))" "outbox_by_id b s = Some r" "outbox_by_id k s = Some rk"
    and "o_status r = OBlocked" "o_blocked_by_outbox_id r = Some k"
    and "o_status rk \<in> {ODead, ODelivered, OUnroutable}"
    and "outbox_step\<^sup>*\<^sup>* s t"
  shows "outbox_by_id b t = Some r"
  using stuck_machine.run_inv [OF assms(7), of b k r rk] assms(1-6) by (simp add: stuck_def)

lemma held_behind_finished_row_is_stuck_witness:
  "let s = snd (dispatch_event_outbox sample_world ''slack'' 25 ''d'' (sample_outbox 9)) in
   \<exists>r. o_status r = OBlocked \<and> outbox_by_id 2 s = Some r \<and>
     outbox_by_id 2 (snd (dispatch_event_outbox sample_world ''slack'' 25 ''d'' s)) = Some r"
proof -
  let ?s = "snd (dispatch_event_outbox sample_world ''slack'' 25 ''d'' (sample_outbox 9))"
  let ?r = "held_row 1 ''causal ordering hold'' 0 (sample_outbox_row 2 0)"
  let ?k = "failed_row ''down'' 0 (sample_outbox_row 1 9)"
  have s: "distinct (map o_id (outbox ?s))" "outbox_by_id 2 ?s = Some ?r" "outbox_by_id 1 ?s = Some ?k"
    "o_status ?r = OBlocked" "o_blocked_by_outbox_id ?r = Some 1"
    "o_status ?k \<in> {ODead, ODelivered, OUnroutable}" by code_simp+
  have "outbox_step\<^sup>*\<^sup>* ?s (snd (dispatch_event_outbox sample_world ''slack'' 25 ''d'' ?s))"
    by (intro r_into_rtranclp pass)
  from held_behind_finished_row_is_stuck [OF s this] s(2,4) show ?thesis by (auto simp: Let_def)
qed

end
