(* ===== verification/Invalidation.thy ===== *)
theory Invalidation
  imports Store_Machine Dispatch
begin

text \<open>
  Evidence rows of \<^verbatim>\<open>store.py\<close> (QA evidence, candidate invalidations, integration runs) and the governed
  invalidation of a delivery candidate (\<^verbatim>\<open>invalidate.py\<close>): its assurance is cancelled, a rework job is
  created, and the delivery no longer satisfies dependencies.
\<close>

section \<open>Evidence rows\<close>

definition QA_RESULTS :: "string list" where
  "QA_RESULTS = [''pass'', ''fail'', ''stale_rejected'', ''pending'', ''inconclusive'']"

definition insert_qa_evidence ::
    "string \<Rightarrow> string \<Rightarrow> int \<Rightarrow> int \<Rightarrow> string \<Rightarrow> string \<Rightarrow> string \<Rightarrow> string option \<Rightarrow> int option \<Rightarrow>
     int option \<Rightarrow> int dbop" where
  "insert_qa_evidence pid root delivery_id assurance_id sha role result rid att prior =
     bindS (require_same_project [delivery_id, assurance_id]) (\<lambda>owner.
     thenS (guardS (owner = pid) CrossProjectWriteError)
     (bindS (get_job delivery_id) (\<lambda>delivery.
      bindS (getS (\<lambda>s. s)) (\<lambda>s.
      thenS (guardS (root_key s (j_repository_root delivery) = root_key s root) CrossProjectWriteError)
      (thenS (guardS (result \<in> set QA_RESULTS) IntegrityError)
      (thenS (modifyS (\<lambda>s. s\<lparr>evidence := evidence s @
          [\<lparr>q_id = evidence_seq s + 1, q_project_human_id = pid, q_repository_root = root,
            q_delivery_job_id = delivery_id, q_assurance_job_id = assurance_id,
            q_candidate_git_sha = sha, q_assurance_role = role, q_result = result,
            q_defect_human_id = None, q_evidence_ref = None, q_run_id = rid,
            q_remediation_cycle = (case att of None \<Rightarrow> 0 | Some n \<Rightarrow> n),
            q_created_at = now_iso s\<rparr>], evidence_seq := evidence_seq s + 1\<rparr>))
      (thenS (case prior of
           None \<Rightarrow> returnS ()
         | Some p \<Rightarrow> append_run_event assurance_id ''qa.retry_attempt'' (Some ''READY'')
             (Some (''Assurance retry attempt '' @
                show_int (case att of None \<Rightarrow> 1 | Some n \<Rightarrow> if n = 0 then 1 else n)))
             (Some [(''prior_assurance_job_id'', JInt p),
                    (''attempt_number'', (case att of None \<Rightarrow> JNull | Some n \<Rightarrow> JInt n)),
                    (''run_id'', opt_json rid)]))
        (getS evidence_seq))))))))"

definition insert_candidate_invalidation ::
    "int \<Rightarrow> string option \<Rightarrow> string \<Rightarrow> int option \<Rightarrow> int dbop" where
  "insert_candidate_invalidation delivery_id sha reason rework =
     thenS (require_same_project (delivery_id # (case rework of None \<Rightarrow> [] | Some r \<Rightarrow> [r])))
     (thenS (modifyS (\<lambda>s. s\<lparr>invalidations := invalidations s @
          [\<lparr>i_id = invalidation_seq s + 1, i_delivery_job_id = delivery_id,
            i_invalidated_candidate_sha = sha, i_reason = reason, i_rework_job_id = rework\<rparr>],
          invalidation_seq := invalidation_seq s + 1\<rparr>))
       (getS invalidation_seq))"

definition existing_sources :: "int list \<Rightarrow> db \<Rightarrow> job list" where
  "existing_sources ids s = concat (map (\<lambda>i. case job_by_id i s of None \<Rightarrow> [] | Some j \<Rightarrow> [j]) ids)"

definition INTEGRATION_STATUSES :: "string list" where
  "INTEGRATION_STATUSES =
     [''planned'', ''integrating'', ''succeeded'', ''conflict'', ''blocked'', ''failed'']"

definition insert_integration_run ::
    "string \<Rightarrow> string \<Rightarrow> string option \<Rightarrow> int list \<Rightarrow> string list \<Rightarrow> string \<Rightarrow> iso option \<Rightarrow> int dbop" where
  "insert_integration_run pid root iter source_ids shas status updated_at =
     bindS (getS (\<lambda>s. s)) (\<lambda>s.
     thenS (guardS (\<forall>j \<in> set (existing_sources source_ids s). j_project_human_id j = pid)
              CrossProjectWriteError)
     (thenS (guardS (case existing_sources source_ids s of
                [] \<Rightarrow> True
              | first # _ \<Rightarrow> root_key s (j_repository_root first) = root_key s root)
              CrossProjectWriteError)
     (thenS (guardS (status \<in> set INTEGRATION_STATUSES) IntegrityError)
     (thenS (modifyS (\<lambda>s. s\<lparr>integrations := integrations s @
          [\<lparr>g_id = integration_seq s + 1, g_project_human_id = pid, g_repository_root = root,
            g_iteration_human_id = iter, g_source_job_ids = source_ids, g_source_shas = shas,
            g_status = status,
            g_updated_at = (case updated_at of None \<Rightarrow> now_iso s | Some t \<Rightarrow> t)\<rparr>],
          integration_seq := integration_seq s + 1\<rparr>))
       (getS integration_seq)))))"

section \<open>SQL patterns\<close>

text \<open>\<^verbatim>\<open>x LIKE pattern\<close> of SQLite: \<^verbatim>\<open>%\<close> stands for any text, \<^verbatim>\<open>_\<close> for any one character, and letters match
  in either case.\<close>

function sql_like :: "string \<Rightarrow> string \<Rightarrow> bool" where
  "sql_like [] s = (s = [])"
| "sql_like (p # ps) [] = (p = CHR ''%'' \<and> sql_like ps [])"
| "sql_like (p # ps) (c # cs) =
     (if p = CHR ''%'' then sql_like ps (c # cs) \<or> sql_like (p # ps) cs
      else (p = CHR ''_'' \<or> lower_char p = lower_char c) \<and> sql_like ps cs)"
  by pat_completeness auto
termination by (relation "measure (\<lambda>(p, s). length p + length s)") auto

section \<open>Invalidating a delivery\<close>

definition assurance_rows :: "job \<Rightarrow> db \<Rightarrow> job list" where
  "assurance_rows delivery s = filter (\<lambda>j. j_source_delivery_job_id j = Some (j_id delivery) \<or>
     sql_like (j_human_id delivery @ ''__%'') (j_human_id j)) (jobs s)"

definition cancel_one :: "job \<Rightarrow> string \<Rightarrow> job \<Rightarrow> string list dbop" where
  "cancel_one delivery reason row =
     (if j_human_id row = j_human_id delivery then returnS []
      else if j_status row = CANCELLED then returnS [j_human_id row]
      else if j_status row \<in> {SUCCEEDED, FAILED, BLOCKED} then returnS []
      else thenS (mark_cancelled (j_id row) reason) (returnS [j_human_id row]))"

definition cancel_assurance_for_delivery :: "job \<Rightarrow> string \<Rightarrow> string list dbop" where
  "cancel_assurance_for_delivery delivery reason =
     bindS (getS (assurance_rows delivery)) (\<lambda>rows.
     bindS (mapS (cancel_one delivery reason) rows) (\<lambda>cancelled.
     thenS (modifyS (\<lambda>s. s\<lparr>evidence := update_where
              (\<lambda>q. q_delivery_job_id q = j_id delivery \<and> q_result q = ''pending'')
              (\<lambda>q. q\<lparr>q_result := ''stale_rejected'',
                     q_evidence_ref := (case q_evidence_ref q of
                        None \<Rightarrow> Some ''invalidated_candidate'' | Some r \<Rightarrow> Some r)\<rparr>) (evidence s)\<rparr>))
       (returnS (concat cancelled))))"

record invalidate_result =
  v_delivery_human_id :: string
  v_invalidated :: bool
  v_assurance_cancelled :: "string list"
  v_rework_human_id :: "string option"

record invalidate_args =
  x_reason :: string
  x_rework_human_id :: string
  x_work_item_type :: string
  x_work_item_human_id :: string
  x_assignment :: "dict option"
  x_base_git_sha :: "string option"
  x_depend_on :: "string list"

definition refused :: "string \<Rightarrow> invalidate_result" where
  "refused h = \<lparr>v_delivery_human_id = h, v_invalidated = False, v_assurance_cancelled = [],
     v_rework_human_id = None\<rparr>"

definition accepted :: "string \<Rightarrow> string list \<Rightarrow> string \<Rightarrow> invalidate_result" where
  "accepted h cancelled rework = \<lparr>v_delivery_human_id = h, v_invalidated = True,
     v_assurance_cancelled = cancelled, v_rework_human_id = Some rework\<rparr>"

definition rework_identity :: "job \<Rightarrow> dict" where
  "rework_identity delivery = (case j_identity_snapshot_json delivery of
     Some (JText (JObj d)) \<Rightarrow> d
   | _ \<Rightarrow> [(''project_human_id'', JStr (j_project_human_id delivery)),
           (''repository_root'', JStr (j_repository_root delivery))])"

definition rework_args :: "job \<Rightarrow> invalidate_args \<Rightarrow> job_args" where
  "rework_args delivery a =
     (job_args_of (x_rework_human_id a) (j_project_human_id delivery) (j_repository_root delivery)
        ''DELIVERY'' ''DELIVERY'')
     \<lparr>n_iteration_human_id := j_iteration_human_id delivery,
      n_work_item_type := Some (x_work_item_type a), n_work_item_human_id := Some (x_work_item_human_id a),
      n_requires_worktree := True,
      n_worktree_name := Some (j_project_human_id delivery @ ''__'' @ x_rework_human_id a),
      n_base_git_sha := str_or (x_base_git_sha a) (j_base_git_sha delivery),
      n_identity_snapshot := Some (rework_identity delivery), n_assignment := x_assignment a\<rparr>"

definition depend_on :: "int \<Rightarrow> string \<Rightarrow> unit dbop" where
  "depend_on i dep_hid = bindS (getS (get_job_by_human_id dep_hid)) (\<lambda>dep.
     case dep of None \<Rightarrow> raiseS OrchestrationError | Some d \<Rightarrow> add_job_dependency i (j_id d))"

definition create_rework :: "job \<Rightarrow> invalidate_args \<Rightarrow> string list \<Rightarrow> invalidate_result dbop" where
  "create_rework delivery a cancelled =
     bindS (create_job (rework_args delivery a)) (\<lambda>rework.
     thenS (mapS (depend_on (j_id rework)) (x_depend_on a))
     (thenS (set_job_outcome (j_id delivery) ''INVALIDATED'' (Some (j_id rework)))
     (thenS (insert_candidate_invalidation (j_id delivery) (j_candidate_git_sha delivery) (x_reason a)
               (Some (j_id rework)))
     (thenS (append_run_event (j_id delivery) ''delivery.candidate_invalidated'' (Some ''INVALIDATED'')
               (Some (x_reason a))
               (Some [(''invalidated_candidate_sha'', opt_json (j_candidate_git_sha delivery)),
                      (''rework_job'', JStr (x_rework_human_id a)),
                      (''assurance_cancelled'', JList (map JStr cancelled))]))
     (thenS (append_run_event (j_id rework) ''delivery.rework_created'' (Some ''READY'')
               (Some (''Rework for invalidated '' @ j_human_id delivery))
               (Some [(''supersedes'', JStr (j_human_id delivery)),
                      (''work_item_type'', JStr (x_work_item_type a)),
                      (''work_item_human_id'', JStr (x_work_item_human_id a))]))
       (returnS (accepted (j_human_id delivery) cancelled (x_rework_human_id a))))))))"

definition invalidate_delivery_candidate :: "string \<Rightarrow> invalidate_args \<Rightarrow> invalidate_result dbop" where
  "invalidate_delivery_candidate h a =
     bindS (getS (get_job_by_human_id h)) (\<lambda>found.
     case found of None \<Rightarrow> returnS (refused h) | Some delivery \<Rightarrow>
     if j_queue delivery \<noteq> ''DELIVERY'' then returnS (refused h) else
     bindS (getS (get_job_by_human_id (x_rework_human_id a))) (\<lambda>existing.
     case existing of
       Some rework \<Rightarrow>
         thenS (if j_outcome delivery \<noteq> Some ''INVALIDATED''
                then thenS (set_job_outcome (j_id delivery) ''INVALIDATED'' (Some (j_id rework))) (returnS ())
                else returnS ())
           (returnS (accepted h [] (x_rework_human_id a)))
     | None \<Rightarrow>
         bindS (cancel_assurance_for_delivery delivery
                  (''Invalidated delivery candidate: '' @ x_reason a))
           (create_rework delivery a)))"

section \<open>Rewiring an integration\<close>

definition rewire_one :: "job \<Rightarrow> string \<times> string \<Rightarrow> unit dbop" where
  "rewire_one integ pair =
     bindS (getS (get_job_by_human_id (fst pair))) (\<lambda>old.
     bindS (getS (get_job_by_human_id (snd pair))) (\<lambda>new.
     case (old, new) of
       (Some o', Some n) \<Rightarrow>
         thenS (modifyS (\<lambda>s. s\<lparr>deps := filter (\<lambda>e. e \<noteq> (j_id integ, j_id o')) (deps s)\<rparr>))
         (bindS (getS (\<lambda>s. (j_id integ, j_id n) \<in> set (deps s))) (\<lambda>existing.
           if existing then returnS () else add_job_dependency (j_id integ) (j_id n)))
     | _ \<Rightarrow> raiseS OrchestrationError))"

definition rewire_integration_dependencies :: "string \<Rightarrow> (string \<times> string) list \<Rightarrow> bool dbop" where
  "rewire_integration_dependencies h replace =
     bindS (getS (get_job_by_human_id h)) (\<lambda>found.
     case found of None \<Rightarrow> returnS False | Some integ \<Rightarrow>
     thenS (mapS (rewire_one integ) replace)
     (thenS (append_run_event (j_id integ) ''integration.deps_rewired''
               (Some (job_status_text (j_status integ)))
               (Some ''Rewired delivery dependencies onto rework jobs'')
               (Some [(''replace'', JObj (map (\<lambda>(o', n). (o', JStr n)) replace))]))
       (returnS True)))"

section \<open>Frames\<close>

definition view :: "db \<Rightarrow> job list \<times> qa_evidence list \<times> moment" where
  "view s = (jobs s, evidence s, clk s)"

lemma view_eqD: "view t = view s \<Longrightarrow> jobs t = jobs s \<and> evidence t = evidence s \<and> clk t = clk s"
  by (simp add: view_def)

lemma untouched_view_append_run_event [frames]: "untouched view (append_run_event i ev st msg pl)"
  unfolding append_run_event_def job_project_human_id_def by (intro frames) (simp add: view_def)

lemma untouched_view_require_same_project [frames]: "untouched view (require_same_project ids)"
  unfolding require_same_project_def job_project_human_id_def
  by (auto intro!: frames split: list.splits)

lemma untouched_view_get_job [frames]: "untouched view (get_job i)"
  unfolding get_job_def by (intro frames)

lemma untouched_view_add_job_dependency [frames]: "untouched view (add_job_dependency i d)"
  unfolding add_job_dependency_def by (intro frames) (simp add: view_def)

lemma untouched_view_depend_on [frames]: "untouched view (depend_on i h)"
  unfolding depend_on_def by (intro frames)

lemma untouched_view_insert_invalidation [frames]:
  "untouched view (insert_candidate_invalidation i sha r k)"
  unfolding insert_candidate_invalidation_def by (intro frames) (simp add: view_def)

lemma untouched_core_insert_invalidation [frames]:
  "untouched core (insert_candidate_invalidation i sha r k)"
  unfolding insert_candidate_invalidation_def by (intro frames) (simp add: core_def)

lemma untouched_core_insert_qa_evidence:
  "untouched core (insert_qa_evidence pid root d a sha role result rid att prior)"
  unfolding insert_qa_evidence_def by (intro frames) (simp_all add: core_def)

lemma untouched_core_insert_integration_run:
  "untouched core (insert_integration_run pid root iter ids shas st upd)"
  unfolding insert_integration_run_def by (intro frames) (simp_all add: core_def)

section \<open>The invariant is kept\<close>

lemma keeps_cancel_one: "keeps store_inv (cancel_one d r row)"
  unfolding cancel_one_def by (intro store_keeps keeps_mark_cancelled)

lemma keeps_evidence_update: "keeps store_inv (modifyS (\<lambda>s. s\<lparr>evidence := f s\<rparr>))"
  by (rule keeps_store_inv_frame) (simp add: untouched_def modifyS_def core_def)

lemma keeps_cancel_assurance: "keeps store_inv (cancel_assurance_for_delivery d r)"
  unfolding cancel_assurance_for_delivery_def
  by (intro store_keeps keeps_mapS keeps_cancel_one keeps_evidence_update)

lemma keeps_depend_on: "keeps store_inv (depend_on i h)"
  unfolding depend_on_def by (intro store_keeps keeps_add_job_dependency)

lemma keeps_create_rework: "keeps store_inv (create_rework d a cs)"
  unfolding create_rework_def
  by (intro store_keeps keeps_create_job keeps_mapS keeps_depend_on keeps_set_job_outcome
      keeps_store_inv_frame [OF untouched_core_insert_invalidation])
     (simp add: rework_args_def job_args_of_def)

lemma keeps_invalidate: "keeps store_inv (invalidate_delivery_candidate h a)"
  unfolding invalidate_delivery_candidate_def
  by (intro store_keeps keeps_set_job_outcome keeps_cancel_assurance keeps_create_rework)

lemma keeps_delete_dependency: "keeps store_inv (modifyS (\<lambda>s. s\<lparr>deps := filter p (deps s)\<rparr>))"
  by (rule keepsI) (auto simp: modifyS_def store_inv_defs)

lemma keeps_rewire: "keeps store_inv (rewire_integration_dependencies h pairs)"
proof -
  have "keeps store_inv (rewire_one integ pair)" for integ pair
    unfolding rewire_one_def case_prod_beta
    by (intro store_keeps keeps_delete_dependency keeps_add_job_dependency)
  then show ?thesis
    unfolding rewire_integration_dependencies_def by (intro store_keeps keeps_mapS)
qed

section \<open>What cancelling and reworking leave\<close>

definition still_active :: "job \<Rightarrow> job \<Rightarrow> bool" where
  "still_active d j \<longleftrightarrow> j_human_id j \<noteq> j_human_id d \<and> j_status j \<notin> set TERMINAL_STATUSES"

lemma mapS_cancel_one:
  assumes "\<forall>row \<in> set rows. job_by_id (j_id row) s \<noteq> None"
  shows "\<exists>names t. mapS (cancel_one d r) rows s = (Inr names, t) \<and> evidence t = evidence s \<and>
    clk t = clk s \<and> jobs t = update_where (\<lambda>j. j_id j \<in> j_id ` set (filter (still_active d) rows))
       (cancelled_row r (now_iso s)) (jobs s)"
  using assms
proof (induction rows arbitrary: s)
  case Nil
  then show ?case by (simp add: op_simps update_where_def)
next
  case (Cons row rows)
  obtain u ns where u: "cancel_one d r row s = (Inr ns, u)" "evidence u = evidence s" "clk u = clk s"
    "jobs u = update_where (\<lambda>j. still_active d row \<and> j_id j = j_id row) (cancelled_row r (now_iso s)) (jobs s)"
  proof (cases "still_active d row")
    case True
    obtain j where "job_by_id (j_id row) s = Some j" using Cons.prems by auto
    from mark_cancelled_jobs [OF this, of r] True that show ?thesis
      by (auto simp: cancel_one_def still_active_def TERMINAL_STATUSES_def op_simps)
  next
    case False
    then have "\<exists>ns. cancel_one d r row s = (Inr ns, s)"
      by (auto simp: cancel_one_def still_active_def TERMINAL_STATUSES_def returnS_def)
    moreover have "update_where (\<lambda>j. still_active d row \<and> j_id j = j_id row) (cancelled_row r (now_iso s)) (jobs s)
        = jobs s" using False by (auto intro: update_where_none)
    ultimately show ?thesis using that by auto
  qed
  have now: "now_iso u = now_iso s" using u(3) by (simp add: now_iso_def)
  have "\<forall>row \<in> set rows. job_by_id (j_id row) u \<noteq> None"
    using Cons.prems cancelled.job_by_id_update u(4) by (auto simp: job_by_id_def find_row_None_iff)
  then obtain ns' t where t: "mapS (cancel_one d r) rows u = (Inr ns', t)" "evidence t = evidence u"
      "clk t = clk u" "jobs t = update_where (\<lambda>j. j_id j \<in> j_id ` set (filter (still_active d) rows))
       (cancelled_row r (now_iso s)) (jobs u)"
    using Cons.IH [of u] now by auto
  have "jobs t = update_where (\<lambda>j. (still_active d row \<and> j_id j = j_id row) \<or>
      j_id j \<in> j_id ` set (filter (still_active d) rows)) (cancelled_row r (now_iso s)) (jobs s)"
    unfolding t(4) u(4) by (rule update_where_twice) (simp_all add: cancelled_row_def)
  also have "(\<lambda>j. (still_active d row \<and> j_id j = j_id row) \<or>
      j_id j \<in> j_id ` set (filter (still_active d) rows)) =
      (\<lambda>j. j_id j \<in> j_id ` set (filter (still_active d) (row # rows)))" by auto
  finally show ?case using t(1-3) u(1-3) by (simp add: op_simps)
qed

lemma cancel_assurance_result:
  assumes "store_inv s"
  shows "\<exists>names t. cancel_assurance_for_delivery d r s = (Inr names, t) \<and> clk t = clk s \<and>
    jobs t = update_where (\<lambda>j. j_id j \<in> j_id ` set (filter (still_active d) (assurance_rows d s)))
       (cancelled_row r (now_iso s)) (jobs s) \<and>
    (\<forall>q \<in> set (evidence t). q_delivery_job_id q = j_id d \<longrightarrow> q_result q \<noteq> ''pending'')"
proof -
  have "\<forall>row \<in> set (assurance_rows d s). job_by_id (j_id row) s \<noteq> None"
    by (auto simp: assurance_rows_def job_by_id_def find_row_None_iff)
  then obtain names u where u: "mapS (cancel_one d r) (assurance_rows d s) s = (Inr names, u)"
    "clk u = clk s" "jobs u = update_where (\<lambda>j. j_id j \<in> j_id ` set (filter (still_active d)
       (assurance_rows d s))) (cancelled_row r (now_iso s)) (jobs s)"
    using mapS_cancel_one by blast
  let ?t = "u\<lparr>evidence := update_where (\<lambda>q. q_delivery_job_id q = j_id d \<and> q_result q = ''pending'')
      (\<lambda>q. q\<lparr>q_result := ''stale_rejected'', q_evidence_ref := (case q_evidence_ref q of
         None \<Rightarrow> Some ''invalidated_candidate'' | Some r \<Rightarrow> Some r)\<rparr>) (evidence u)\<rparr>"
  have "cancel_assurance_for_delivery d r s = (Inr (concat names), ?t)"
    using u(1) by (simp add: cancel_assurance_for_delivery_def op_simps)
  moreover have "\<forall>q \<in> set (evidence ?t). q_delivery_job_id q = j_id d \<longrightarrow> q_result q \<noteq> ''pending''"
    by simp
  ultimately show ?thesis using u(2,3) by (intro exI [of _ "concat names"] exI [of _ ?t]) simp
qed

lemma active_assurance_gone:
  assumes inv: "store_inv s" and t: "jobs t = update_where (\<lambda>j. j_id j \<in> j_id ` set (filter (still_active d)
      (assurance_rows d s))) (cancelled_row r now) (jobs s)"
    and j: "j \<in> set (jobs t)" "j_source_delivery_job_id j = Some (j_id d)" "j_human_id j \<noteq> j_human_id d"
  shows "j_status j \<in> set TERMINAL_STATUSES"
proof -
  obtain k where k: "k \<in> set (jobs s)" "j = (if j_id k \<in> j_id ` set (filter (still_active d) (assurance_rows d s))
      then cancelled_row r now k else k)" using j(1) t by (auto simp: set_update_where)
  show ?thesis
  proof (cases "j_id k \<in> j_id ` set (filter (still_active d) (assurance_rows d s))")
    case True
    with k(2) show ?thesis by (simp add: cancelled_row_def TERMINAL_STATUSES_def)
  next
    case False
    then have "k \<in> set (assurance_rows d s)" "j = k"
      using k j(2) by (auto simp: assurance_rows_def)
    with False j(3) show ?thesis by (auto simp: still_active_def)
  qed
qed

lemma wlp_set_job_outcome:
  "wlp (set_job_outcome i oc k) (\<lambda>j t. evidence t = evidence s \<and> clk t = clk s \<and>
     jobs t = update_where (\<lambda>j. j_id j = i) (outcome_row oc k (now_iso s)) (jobs s)) s"
proof -
  have "wlp (case k of None \<Rightarrow> returnS [] | Some k \<Rightarrow> require_same_project [i, k]) (\<lambda>x t. view t = view s) s"
    by (rule wlp_frame) (auto intro!: frames split: option.split)
  moreover have "wlp (thenS (update_job i (outcome_row oc k)) (get_job i)) (\<lambda>j t. evidence t = evidence s \<and>
      clk t = clk s \<and> jobs t = update_where (\<lambda>j. j_id j = i) (outcome_row oc k (now_iso s)) (jobs s)) u"
    if "view u = view s" for u
    using view_eqD [OF that]
    by (auto simp: wlp_simps update_job_def get_job_def now_iso_def split: option.split)
  ultimately show ?thesis
    unfolding set_job_outcome_def wlp_thenS by (auto elim: wlp_mono)
qed

lemma wlp_create_rework:
  assumes inv: "store_inv s"
  shows "wlp (create_rework d a cs) (\<lambda>res t. \<exists>row. row = new_job_row (rework_args d a) READY (job_seq s + 1) (now_iso s) \<and>
     res = accepted (j_human_id d) cs (x_rework_human_id a) \<and> evidence t = evidence s \<and>
     jobs t = update_where (\<lambda>j. j_id j = j_id d)
       (outcome_row ''INVALIDATED'' (Some (job_seq s + 1)) (now_iso s)) (jobs s @ [row])) s"
  (is "wlp _ ?Q s")
proof -
  have st: "map_of JOB_STATUSES (n_status (rework_args d a)) = Some READY"
    by (simp add: rework_args_def job_args_of_def JOB_STATUSES_def)
  let ?row = "new_job_row (rework_args d a) READY (job_seq s + 1) (now_iso s)"
  let ?jobs = "update_where (\<lambda>j. j_id j = j_id d)
       (outcome_row ''INVALIDATED'' (Some (job_seq s + 1)) (now_iso s)) (jobs s @ [?row])"
  have tail: "wlp (thenS (insert_candidate_invalidation i sha r k) (thenS (append_run_event e1 e2 e3 e4 e5)
      (thenS (append_run_event f1 f2 f3 f4 f5) (returnS x)))) (\<lambda>res t. res = x \<and> view t = view u) u"
    for i sha r k e1 e2 e3 e4 e5 f1 f2 f3 f4 f5 u and x :: invalidate_result
  proof -
    have "untouched view (thenS (insert_candidate_invalidation i sha r k) (thenS (append_run_event e1 e2 e3 e4 e5)
      (thenS (append_run_event f1 f2 f3 f4 f5) (returnS x))))" by (intro frames)
    then have "wlp (thenS (insert_candidate_invalidation i sha r k) (thenS (append_run_event e1 e2 e3 e4 e5)
      (thenS (append_run_event f1 f2 f3 f4 f5) (returnS x)))) (\<lambda>res t. view t = view u) u" by (rule wlp_frame)
    moreover have "wlp (thenS (insert_candidate_invalidation i sha r k) (thenS (append_run_event e1 e2 e3 e4 e5)
      (thenS (append_run_event f1 f2 f3 f4 f5) (returnS x)))) (\<lambda>res t. res = x) u"
      by (auto simp: wlp_def thenS_def bindS_eq_Inr_iff returnS_def)
    ultimately show ?thesis by (auto intro: wlp_conj [THEN wlp_mono])
  qed
  let ?c = "created (rework_args d a) READY s"
  have c: "view ?c = (jobs s @ [?row], evidence s, clk s)" by (simp add: created_def view_def)
  have i: "j_id (new_job_row x st n now) = n" for x st n now by (simp add: new_job_row_def)
  have outcome: "wlp (set_job_outcome (j_id d) ''INVALIDATED'' (Some (j_id ?row)))
      (\<lambda>_ t. evidence t = evidence s \<and> jobs t = ?jobs) u" if "view u = view ?c" for u
    using that c by (auto intro!: wlp_mono [OF wlp_set_job_outcome] simp: view_def now_iso_def i)
  show ?thesis
    unfolding create_rework_def
  proof (rule wlp_bindI [OF wlp_create_job [OF inv]], clarsimp simp: st)
    show "wlp (thenS (mapS (depend_on (j_id ?row)) (x_depend_on a))
     (thenS (set_job_outcome (j_id d) ''INVALIDATED'' (Some (j_id ?row)))
     (thenS (insert_candidate_invalidation (j_id d) (j_candidate_git_sha d) (x_reason a) (Some (j_id ?row)))
     (thenS (append_run_event e1 e2 e3 e4 e5) (thenS (append_run_event f1 f2 f3 f4 f5)
       (returnS (accepted (j_human_id d) cs (x_rework_human_id a))))))))
      (\<lambda>res t. res = accepted (j_human_id d) cs (x_rework_human_id a) \<and> evidence t = evidence s \<and> jobs t = ?jobs) ?c"
      for e1 e2 e3 e4 e5 f1 f2 f3 f4 f5
      by (rule wlp_thenI [OF wlp_frame [of view]], intro frames)
         (rule wlp_thenI [OF outcome], assumption, rule wlp_mono [OF tail], auto dest: view_eqD)
  qed
qed

lemma invalidate_new_rework:
  assumes inv: "store_inv s" and d: "get_job_by_human_id h s = Some d" "j_queue d = ''DELIVERY''"
    and new: "get_job_by_human_id (x_rework_human_id a) s = None"
    and run: "invalidate_delivery_candidate h a s = (Inr res, t)"
  obtains names u row where "res = accepted (j_human_id d) names (x_rework_human_id a)" "store_inv u"
    "jobs u = update_where (\<lambda>j. j_id j \<in> j_id ` set (filter (still_active d) (assurance_rows d s)))
       (cancelled_row (''Invalidated delivery candidate: '' @ x_reason a) (now_iso s)) (jobs s)"
    "row = new_job_row (rework_args d a) READY (job_seq u + 1) (now_iso u)"
    "jobs t = update_where (\<lambda>j. j_id j = j_id d)
       (outcome_row ''INVALIDATED'' (Some (job_seq u + 1)) (now_iso u)) (jobs u @ [row])"
    "\<forall>q \<in> set (evidence t). q_delivery_job_id q = j_id d \<longrightarrow> q_result q \<noteq> ''pending''"
proof -
  let ?r = "''Invalidated delivery candidate: '' @ x_reason a"
  obtain names u where u: "cancel_assurance_for_delivery d ?r s = (Inr names, u)"
      "jobs u = update_where (\<lambda>j. j_id j \<in> j_id ` set (filter (still_active d) (assurance_rows d s)))
         (cancelled_row ?r (now_iso s)) (jobs s)"
      "\<forall>q \<in> set (evidence u). q_delivery_job_id q = j_id d \<longrightarrow> q_result q \<noteq> ''pending''"
    using cancel_assurance_result [OF inv, of d ?r] by auto
  have inv_u: "store_inv u" using keeps_eq [OF keeps_cancel_assurance inv u(1)] .
  have "create_rework d a names u = (Inr res, t)"
    using run d new u(1) by (simp add: invalidate_delivery_candidate_def op_simps)
  from wlp_apply [OF wlp_create_rework [OF inv_u] this] u(2,3) inv_u that show ?thesis by auto
qed

section \<open>Properties\<close>

definition sample_delivery :: "string \<Rightarrow> string \<Rightarrow> string \<Rightarrow> job_args" where
  "sample_delivery h pid root = job_args_of h pid root ''DELIVERY'' ''DELIVERY''"

definition sample_invalidation :: invalidate_args where
  "sample_invalidation = \<lparr>x_reason = ''no-op'', x_rework_human_id = ''DEL-1__REWORK'',
     x_work_item_type = ''story'', x_work_item_human_id = ''ST-1'', x_assignment = None,
     x_base_git_sha = None, x_depend_on = []\<rparr>"

text \<open>A delivery, a job of another project whose id begins like it, and a job that waits for it.\<close>

definition sample_deliveries :: db where
  "sample_deliveries = snd (transaction (add_job_dependency 3 1)
     (snd (transaction (create_job (sample_delivery ''INT-1'' ''PRJ-1'' ''/repo''))
       (snd (transaction (create_job (sample_delivery ''DEL-123'' ''PRJ-2'' ''/other''))
         (snd (transaction (create_job (sample_delivery ''DEL-1'' ''PRJ-1'' ''/repo'')) sample_empty)))))))"

lemma sample_deliveries_reach: "reach store_start store_step sample_deliveries"
  unfolding sample_deliveries_def sample_empty_def
  by (intro store_reach_step [OF _ depend] store_reach_step [OF _ create] reach_start)
     (auto simp: store_start_def sample_delivery_def job_args_of_def)

text \<open>C33: Invalidating a delivery takes it out of every dependency: whenever the operation reports the
  delivery invalidated, the delivery carries the outcome INVALIDATED and no longer satisfies
  dependencies, the store invariant still holds, and no job that depends on the delivery can be
  selected for dispatch.\<close>

theorem invalidated_delivery_blocks_dependents:
  assumes "store_inv s" "invalidate_delivery_candidate h a s = (Inr res, t)" "v_invalidated res"
  shows "store_inv t \<and> (\<exists>d. get_job_by_human_id h t = Some d \<and> j_outcome d = Some ''INVALIDATED'' \<and>
    \<not> job_satisfies_dependency d \<and>
    (\<forall>js j q pid. list_eligible_ready_jobs None q pid t = Inr js \<and> j \<in> set js \<longrightarrow>
       (j_id j, j_id d) \<notin> set (deps t)))"
proof -
  have inv_t: "store_inv t" using keeps_eq [OF keeps_invalidate assms(1,2)] .
  obtain d0 where d0: "get_job_by_human_id h s = Some d0" "j_queue d0 = ''DELIVERY''"
    using assms(2,3) by (auto simp: invalidate_delivery_candidate_def op_simps refused_def
        split: option.splits if_splits)
  have mem0: "d0 \<in> set (jobs s)" "j_human_id d0 = h" using d0(1) assms(1) by (simp_all add: store_inv_human_id)
  have "\<exists>d \<in> set (jobs t). j_human_id d = h \<and> j_outcome d = Some ''INVALIDATED''"
  proof (cases "get_job_by_human_id (x_rework_human_id a) s")
    case None
    obtain u row where u: "jobs u = update_where (\<lambda>j. j_id j \<in> j_id ` set (filter (still_active d0) (assurance_rows d0 s)))
          (cancelled_row (''Invalidated delivery candidate: '' @ x_reason a) (now_iso s)) (jobs s)"
        "jobs t = update_where (\<lambda>j. j_id j = j_id d0)
          (outcome_row ''INVALIDATED'' (Some (job_seq u + 1)) (now_iso u)) (jobs u @ [row])"
      using invalidate_new_rework [OF assms(1) d0 None assms(2)] by metis
    have "\<exists>k \<in> set (jobs u). j_id k = j_id d0 \<and> j_human_id k = h"
      unfolding u(1) bex_update_where
      by (rule bexI [OF _ mem0(1)]) (simp add: mem0(2) cancelled_row_def)
    then obtain k where k: "k \<in> set (jobs u)" "j_id k = j_id d0" "j_human_id k = h" by blast
    show ?thesis unfolding u(2) bex_update_where
      by (rule bexI [of _ k]) (simp_all add: k outcome_row_def)
  next
    case (Some rework)
    show ?thesis
    proof (cases "j_outcome d0 = Some ''INVALIDATED''")
      case True
      then have "t = s"
        using assms(2) d0 Some by (simp add: invalidate_delivery_candidate_def op_simps)
      with True mem0 show ?thesis by blast
    next
      case False
      then obtain j where "set_job_outcome (j_id d0) ''INVALIDATED'' (Some (j_id rework)) s = (Inr j, t)"
        using assms(2) d0 Some
        by (auto simp: invalidate_delivery_candidate_def op_simps thenS_def bindS_eq_Inr_iff returnS_def)
      then have t: "jobs t = update_where (\<lambda>j. j_id j = j_id d0)
          (outcome_row ''INVALIDATED'' (Some (j_id rework)) (now_iso s)) (jobs s)"
        using wlp_apply [OF wlp_set_job_outcome] by blast
      show ?thesis unfolding t bex_update_where
        by (rule bexI [OF _ mem0(1)]) (simp add: mem0(2) outcome_row_def)
    qed
  qed
  then obtain d where d: "d \<in> set (jobs t)" "j_human_id d = h" "j_outcome d = Some ''INVALIDATED''" by blast
  have no: "\<not> job_satisfies_dependency d" using d(3) by (simp add: job_satisfies_dependency_def)
  have "(j_id j, j_id d) \<notin> set (deps t)"
    if "list_eligible_ready_jobs None q pid t = Inr js" "j \<in> set js" for js j q pid
  proof
    assume "(j_id j, j_id d) \<in> set (deps t)"
    then have "j_id d \<in> set (list_job_dependencies (j_id j) t)"
      by (force simp: list_job_dependencies_def)
    moreover have "deps_met t (j_id j)"
      using that list_eligible_eq(1) [OF inv_t, of q pid] eligible_iff by auto
    moreover have "job_by_id (j_id d) t = Some d" using d(1) inv_t by (simp add: store_inv_job_by_id)
    ultimately show False using no by (auto simp: deps_met_def)
  qed
  then show ?thesis using inv_t d no store_inv_human_id [OF inv_t] by blast
qed

lemma invalidated_delivery_blocks_dependents_witness:
  "\<exists>d. get_job_by_human_id ''DEL-1'' (snd (invalidate_delivery_candidate ''DEL-1'' sample_invalidation
     sample_deliveries)) = Some d \<and> \<not> job_satisfies_dependency d"
proof -
  let ?m = "invalidate_delivery_candidate ''DEL-1'' sample_invalidation sample_deliveries"
  have "fst ?m = Inr (accepted ''DEL-1'' [''DEL-123''] ''DEL-1__REWORK'')" by code_simp
  then have "?m = (Inr (accepted ''DEL-1'' [''DEL-123''] ''DEL-1__REWORK''), snd ?m)" by (metis prod.collapse)
  from invalidated_delivery_blocks_dependents [OF store_machine.reach_inv [OF sample_deliveries_reach] this]
  show ?thesis by (auto simp: accepted_def)
qed


text \<open>Invalidating a delivery for the first time ends its assurance and opens the rework: when the
  operation returns and no rework existed, every job assessing the delivery is in a terminal status,
  no evidence on it is still pending, a READY delivery job with the requested id exists in the same
  project and repository, and the delivery is superseded by that job.\<close>

theorem invalidation_ends_assurance:
  assumes "store_inv s" "get_job_by_human_id h s = Some d" "j_queue d = ''DELIVERY''"
    "get_job_by_human_id (x_rework_human_id a) s = None"
    "invalidate_delivery_candidate h a s = (Inr res, t)"
  shows "(\<forall>j \<in> set (jobs t). j_source_delivery_job_id j = Some (j_id d) \<and> j_human_id j \<noteq> h \<longrightarrow>
       j_status j \<in> set TERMINAL_STATUSES) \<and>
    (\<forall>q \<in> set (evidence t). q_delivery_job_id q = j_id d \<longrightarrow> q_result q \<noteq> ''pending'') \<and>
    (\<exists>rework d'. get_job_by_human_id (x_rework_human_id a) t = Some rework \<and> j_status rework = READY \<and>
       j_queue rework = ''DELIVERY'' \<and> j_project_human_id rework = j_project_human_id d \<and>
       j_repository_root rework = j_repository_root d \<and>
       get_job_by_human_id h t = Some d' \<and> j_superseded_by_job_id d' = Some (j_id rework))"
proof -
  have inv_t: "store_inv t" using keeps_eq [OF keeps_invalidate assms(1,5)] .
  have d: "d \<in> set (jobs s)" "j_human_id d = h" using assms(1,2) by (simp_all add: store_inv_human_id)
  let ?hit = "\<lambda>j. j_id j \<in> j_id ` set (filter (still_active d) (assurance_rows d s))"
  let ?cut = "cancelled_row (''Invalidated delivery candidate: '' @ x_reason a) (now_iso s)"
  obtain u row where u: "store_inv u" "jobs u = update_where ?hit ?cut (jobs s)"
      and row: "row = new_job_row (rework_args d a) READY (job_seq u + 1) (now_iso u)"
      and t: "jobs t = update_where (\<lambda>j. j_id j = j_id d)
          (outcome_row ''INVALIDATED'' (Some (job_seq u + 1)) (now_iso u)) (jobs u @ [row])"
      and ev: "\<forall>q \<in> set (evidence t). q_delivery_job_id q = j_id d \<longrightarrow> q_result q \<noteq> ''pending''"
    using invalidate_new_rework [OF assms] by metis
  let ?d' = "outcome_row ''INVALIDATED'' (Some (job_seq u + 1)) (now_iso u) (if ?hit d then ?cut d else d)"
  have row_facts: "j_id row = job_seq u + 1" "j_human_id row = x_rework_human_id a" "j_status row = READY"
    "j_queue row = ''DELIVERY''" "j_project_human_id row = j_project_human_id d"
    "j_repository_root row = j_repository_root d" "j_source_delivery_job_id row = None"
    unfolding row by (simp_all add: new_job_row_def rework_args_def job_args_of_def)
  have kept: "(if ?hit d then ?cut d else d) \<in> set (jobs u)" "j_id (if ?hit d then ?cut d else d) = j_id d"
    unfolding u(2) set_update_where using d(1) by (auto simp: cancelled_row_def)
  have new_id: "j_id d \<noteq> job_seq u + 1"
    using kept u(1) by (fastforce simp: store_inv_def jobs_keyed_def)
  have "row \<in> set (jobs t)"
    unfolding t set_update_where using row_facts(1) new_id by (auto intro!: rev_image_eqI [of row])
  then have "get_job_by_human_id (x_rework_human_id a) t = Some row"
    using row_facts(2) by (simp add: store_inv_human_id [OF inv_t])
  moreover have "?d' \<in> set (jobs t)"
    unfolding t set_update_where
    using kept by (intro rev_image_eqI [of "if ?hit d then ?cut d else d"]) auto
  then have "get_job_by_human_id h t = Some ?d'"
    using d(2) by (simp add: store_inv_human_id [OF inv_t] outcome_row_def cancelled_row_def)
  moreover have "j_status j \<in> set TERMINAL_STATUSES"
    if j: "j \<in> set (jobs t)" "j_source_delivery_job_id j = Some (j_id d)" "j_human_id j \<noteq> h" for j
  proof -
    obtain k where "k \<in> set (jobs u @ [row])" "j = (if j_id k = j_id d
        then outcome_row ''INVALIDATED'' (Some (job_seq u + 1)) (now_iso u) k else k)"
      using j(1) unfolding t set_update_where by blast
    then have k: "k \<in> set (jobs u @ [row])" "j_source_delivery_job_id j = j_source_delivery_job_id k"
        "j_human_id j = j_human_id k" "j_status j = j_status k"
      by (auto simp: outcome_row_def)
    then have "k \<in> set (jobs u)" using j(2) row_facts(7) by auto
    from active_assurance_gone [OF assms(1) u(2) this] k j d(2) show ?thesis by simp
  qed
  ultimately show ?thesis using ev row_facts by (auto simp: outcome_row_def)
qed

lemma invalidation_ends_assurance_witness:
  "\<exists>rework. get_job_by_human_id ''DEL-1__REWORK'' (snd (invalidate_delivery_candidate ''DEL-1'' sample_invalidation
     sample_deliveries)) = Some rework \<and> j_status rework = READY"
proof -
  let ?m = "invalidate_delivery_candidate ''DEL-1'' sample_invalidation sample_deliveries"
  have "fst ?m = Inr (accepted ''DEL-1'' [''DEL-123''] ''DEL-1__REWORK'')" by code_simp
  then have m: "?m = (Inr (accepted ''DEL-1'' [''DEL-123''] ''DEL-1__REWORK''), snd ?m)" by (metis prod.collapse)
  have "map_option j_queue (get_job_by_human_id ''DEL-1'' sample_deliveries) = Some ''DELIVERY''" by code_simp
  then obtain d where d: "get_job_by_human_id ''DEL-1'' sample_deliveries = Some d" "j_queue d = ''DELIVERY''" by auto
  have "get_job_by_human_id (x_rework_human_id sample_invalidation) sample_deliveries = None" by code_simp
  from invalidation_ends_assurance [OF store_machine.reach_inv [OF sample_deliveries_reach] d this m]
  show ?thesis by (auto simp: sample_invalidation_def)
qed

lemma sql_like_prefix: "sql_like (h @ ''__%'') (h @ x # y # rest)"
proof -
  have any: "sql_like ''%'' r" for r by (induction r) auto
  have skip: "sql_like (CHR ''%'' # ps) cs" if "sql_like ps cs" for ps cs using that by (cases cs) auto
  have lead: "sql_like (p @ ps) (p @ cs)" if "sql_like ps cs" for p ps cs
  proof (induction p)
    case Nil
    then show ?case using that by simp
  next
    case (Cons c p)
    then show ?case using skip [of "p @ ps" "p @ cs"] by simp
  qed
  show ?thesis by (rule lead) (simp add: any)
qed

text \<open>The underscores of the pattern \<^verbatim>\<open><id>__%\<close> are wildcards: invalidating a delivery cancels every
  unfinished job, of whatever project, whose id extends the delivery's id by at least two
  characters, although such a job need not assess the delivery.\<close>

theorem invalidation_cancels_by_prefix:
  assumes "store_inv s" "get_job_by_human_id h s = Some d" "j_queue d = ''DELIVERY''"
    "get_job_by_human_id (x_rework_human_id a) s = None"
    "invalidate_delivery_candidate h a s = (Inr res, t)"
    "get_job_by_human_id (h @ x # y # rest) s = Some k" "j_status k \<notin> set TERMINAL_STATUSES"
  shows "\<exists>k'. get_job_by_human_id (h @ x # y # rest) t = Some k' \<and> j_status k' = CANCELLED \<and>
    j_project_human_id k' = j_project_human_id k"
proof -
  have inv_t: "store_inv t" using keeps_eq [OF keeps_invalidate assms(1,5)] .
  have d: "d \<in> set (jobs s)" "j_human_id d = h" using assms(1,2) by (simp_all add: store_inv_human_id)
  have k: "k \<in> set (jobs s)" "j_human_id k = h @ x # y # rest"
    using assms(1,6) by (simp_all add: store_inv_human_id)
  let ?hit = "\<lambda>j. j_id j \<in> j_id ` set (filter (still_active d) (assurance_rows d s))"
  let ?cut = "cancelled_row (''Invalidated delivery candidate: '' @ x_reason a) (now_iso s)"
  obtain u row where u: "jobs u = update_where ?hit ?cut (jobs s)"
      and t: "jobs t = update_where (\<lambda>j. j_id j = j_id d)
          (outcome_row ''INVALIDATED'' (Some (job_seq u + 1)) (now_iso u)) (jobs u @ [row])"
    using invalidate_new_rework [OF assms(1-5)] by metis
  have "k \<in> set (filter (still_active d) (assurance_rows d s))"
    using k d assms(7) sql_like_prefix by (simp add: assurance_rows_def still_active_def)
  then have hit: "?hit k" by blast
  have "j_id k \<noteq> j_id d"
    using k d assms(1) store_inv_job_by_id [OF assms(1)] by (metis append_self_conv list.distinct(1) option.inject)
  moreover have "?cut k \<in> set (jobs u)"
    unfolding u set_update_where using k(1) hit by (intro rev_image_eqI [of k]) auto
  ultimately have "?cut k \<in> set (jobs t)"
    unfolding t set_update_where by (intro rev_image_eqI [of "?cut k"]) (auto simp: cancelled_row_def)
  then have "get_job_by_human_id (h @ x # y # rest) t = Some (?cut k)"
    using k(2) by (simp add: store_inv_human_id [OF inv_t] cancelled_row_def)
  then show ?thesis by (simp add: cancelled_row_def)
qed

lemma invalidation_cancels_by_prefix_witness:
  "\<exists>k. get_job_by_human_id ''DEL-123'' (snd (invalidate_delivery_candidate ''DEL-1'' sample_invalidation
     sample_deliveries)) = Some k \<and> j_status k = CANCELLED \<and> j_project_human_id k = ''PRJ-2''"
proof -
  let ?m = "invalidate_delivery_candidate ''DEL-1'' sample_invalidation sample_deliveries"
  have "fst ?m = Inr (accepted ''DEL-1'' [''DEL-123''] ''DEL-1__REWORK'')" by code_simp
  then have m: "?m = (Inr (accepted ''DEL-1'' [''DEL-123''] ''DEL-1__REWORK''), snd ?m)" by (metis prod.collapse)
  have "map_option j_queue (get_job_by_human_id ''DEL-1'' sample_deliveries) = Some ''DELIVERY''" by code_simp
  then obtain d where d: "get_job_by_human_id ''DEL-1'' sample_deliveries = Some d" "j_queue d = ''DELIVERY''" by auto
  have "map_option (\<lambda>k. (j_status k, j_project_human_id k)) (get_job_by_human_id ''DEL-123'' sample_deliveries)
      = Some (READY, ''PRJ-2'')" by code_simp
  then obtain k where k: "get_job_by_human_id ''DEL-123'' sample_deliveries = Some k" "j_status k = READY"
      "j_project_human_id k = ''PRJ-2''" by auto
  have "get_job_by_human_id (x_rework_human_id sample_invalidation) sample_deliveries = None" by code_simp
  from invalidation_cancels_by_prefix [OF store_machine.reach_inv [OF sample_deliveries_reach] d this m,
      of "CHR ''2''" "CHR ''3''" "[]"] k
  show ?thesis by (auto simp: TERMINAL_STATUSES_def)
qed

end
