(* ===== verification/Control.thy ===== *)
theory Control
  imports Dispatch
begin

text \<open>
  The control plane: identifiers that are safe to use in paths,
  operation locks and idempotency records of \<^verbatim>\<open>store.py\<close>, and how \<^verbatim>\<open>ControlService\<close> of
  \<^verbatim>\<open>services/control.py\<close> puts locks and idempotency records around an operation. The lemmas show what a pause
  does to dispatch, when a lock is granted, that a recorded response is replayed, and that
  releasing a lock does not ask who holds it.
\<close>

section \<open>Identifiers\<close>

definition char_code :: "char \<Rightarrow> nat" where
  "char_code c = of_char c"

definition alnum :: "char \<Rightarrow> bool" where
  "alnum c \<longleftrightarrow> 65 \<le> char_code c \<and> char_code c \<le> 90 \<or> 97 \<le> char_code c \<and> char_code c \<le> 122 \<or>
     48 \<le> char_code c \<and> char_code c \<le> 57"

definition id_char :: "char \<Rightarrow> bool" where
  "id_char c \<longleftrightarrow> alnum c \<or> c \<in> {CHR ''.'', CHR ''_'', CHR ''-''}"

text \<open>\<^verbatim>\<open>_SAFE_ID_RE.fullmatch\<close>.\<close>

definition safe_id_match :: "string \<Rightarrow> bool" where
  "safe_id_match t = (case t of [] \<Rightarrow> False | c # cs \<Rightarrow> alnum c \<and> length cs \<le> 127 \<and> list_all id_char cs)"

definition safe_id_text :: "string \<Rightarrow> bool" where
  "safe_id_text t \<longleftrightarrow> t \<noteq> [] \<and> safe_id_match t \<and> \<not> py_in ''..'' t \<and> \<not> py_in ''/'' t \<and> \<not> py_in [CHR 0x5C] t"

definition require_safe_id :: "string \<Rightarrow> exn + string" where
  "require_safe_id value = (let t = py_strip value in if safe_id_text t then Inr t else Inl OrchestrationError)"

definition require_safe_filename :: "string \<Rightarrow> exn + string" where
  "require_safe_filename value =
     (let t = py_strip value in
      if t = [] \<or> py_in ''/'' t \<or> py_in [CHR 0x5C] t \<or> py_in ''..'' t then Inl OrchestrationError
      else require_safe_id t)"

definition public_artifact_ref :: "string option \<Rightarrow> string option" where
  "public_artifact_ref value =
     (if truthy_str value then
        let t = py_strip (map (\<lambda>c. if c = CHR 0x5C then CHR ''/'' else c) (str_of value)) in
        if t = [] then None else Some (rev (takeWhile (\<lambda>c. c \<noteq> CHR ''/'') (rev t)))
      else None)"

section \<open>Operation locks\<close>

definition lock_of :: "string \<Rightarrow> db \<Rightarrow> (string \<times> string \<times> iso) option" where
  "lock_of name s = find_row (\<lambda>l. fst l = name) (op_locks s)"

definition release_operation_lock :: "string \<Rightarrow> unit dbop" where
  "release_operation_lock name = modifyS (\<lambda>s. s\<lparr>op_locks := filter (\<lambda>l. fst l \<noteq> name) (op_locks s)\<rparr>)"

text \<open>An age in seconds is a difference of moments; the bound is \<open>stale_seconds\<close>.\<close>

definition acquire_operation_lock :: "string \<Rightarrow> string \<Rightarrow> int \<Rightarrow> unit dbop" where
  "acquire_operation_lock name owner stale_seconds =
     bindS (getS (\<lambda>s. (clk s, lock_of name s))) (\<lambda>(now, row).
     thenS (case row of
         None \<Rightarrow> returnS ()
       | Some (_, _, acquired) \<Rightarrow>
           thenS (guardS (\<not> now - of_iso acquired < of_iso stale_seconds) ConflictError)
             (modifyS (\<lambda>s. s\<lparr>op_locks := filter (\<lambda>l. fst l \<noteq> name) (op_locks s)\<rparr>)))
       (modifyS (\<lambda>s. s\<lparr>op_locks := op_locks s @ [(name, owner, now_iso s)]\<rparr>)))"

section \<open>Idempotency records\<close>

definition get_idempotency_record :: "string \<Rightarrow> string \<Rightarrow> db \<Rightarrow> (string \<times> int \<times> jtext) option" where
  "get_idempotency_record scope key s = map_option snd (find_row (\<lambda>r. fst r = (scope, key)) (idempotency s))"

text \<open>(scope, idempotency_key) is the primary key.\<close>

definition put_idempotency_record :: "string \<Rightarrow> string \<Rightarrow> string \<Rightarrow> int \<Rightarrow> jtext \<Rightarrow> unit dbop" where
  "put_idempotency_record scope key fingerprint status response =
     bindS (getS (get_idempotency_record scope key)) (\<lambda>existing.
     thenS (guardS (existing = None) IntegrityError)
       (modifyS (\<lambda>s. s\<lparr>idempotency := idempotency s @ [((scope, key), fingerprint, status, response)]\<rparr>)))"

section \<open>The control service (\<^verbatim>\<open>services/control.py\<close>)\<close>

definition lock_name :: "string \<Rightarrow> string" where
  "lock_name pid = ''project:'' @ pid @ '':control''"

definition fingerprint :: "dict \<Rightarrow> string" where
  "fingerprint payload = json_dumps (JObj payload)"

record idempotent_result =
  ir_status_code :: int
  ir_payload :: json
  ir_replayed :: bool

definition replay_or_begin ::
    "string \<Rightarrow> string \<Rightarrow> string option \<Rightarrow> dict \<Rightarrow> idempotent_result option dbop" where
  "replay_or_begin pid operation key request =
     (if \<not> truthy_str key then returnS None else
      bindS (transaction (getS (get_idempotency_record (pid @ '':'' @ operation) (str_of key)))) (\<lambda>existing.
      case existing of
        None \<Rightarrow> returnS None
      | Some (fp, status, response) \<Rightarrow>
          thenS (guardS (fp = fingerprint request) ConflictError)
            (case json_loads response of
               Inl e \<Rightarrow> raiseS e
             | Inr v \<Rightarrow> returnS (Some \<lparr>ir_status_code = status, ir_payload = v, ir_replayed = True\<rparr>))))"

definition remember :: "string \<Rightarrow> string \<Rightarrow> string option \<Rightarrow> dict \<Rightarrow> int \<Rightarrow> dict \<Rightarrow> unit dbop" where
  "remember pid operation key request status payload =
     (if \<not> truthy_str key then returnS () else
      transaction (put_idempotency_record (pid @ '':'' @ operation) (str_of key) (fingerprint request)
        status (JText (JObj payload))))"

definition with_lock :: "string \<Rightarrow> 'a dbop \<Rightarrow> 'a dbop" where
  "with_lock pid fn =
     bindS new_uuid (\<lambda>owner.
     thenS (transaction (acquire_operation_lock (lock_name pid) owner 7200))
       (finallyS fn (transaction (release_operation_lock (lock_name pid)))))"

definition require_unpaused :: "string \<Rightarrow> unit dbop" where
  "require_unpaused pid =
     transaction (bindS (getS (is_project_paused pid)) (\<lambda>p. guardS (\<not> p) ConflictError))"

section \<open>Lemmas\<close>

subsection \<open>Identifiers\<close>

lemma is_prefix_iff: "is_prefix n s \<longleftrightarrow> (\<exists>b. s = n @ b)"
  by (induction n s rule: is_prefix.induct) auto

lemma py_in_iff: "py_in n s \<longleftrightarrow> (\<exists>a b. s = a @ n @ b)"
proof (induction n s rule: py_in.induct)
  case (1 n)
  then show ?case by auto
next
  case (2 n c cs)
  have "(\<exists>a b. c # cs = a @ n @ b) \<longleftrightarrow> (\<exists>b. c # cs = n @ b) \<or> (\<exists>a b. cs = a @ n @ b)"
  proof
    assume "\<exists>a b. c # cs = a @ n @ b"
    then obtain a b where ab: "c # cs = a @ n @ b" by blast
    show "(\<exists>b. c # cs = n @ b) \<or> (\<exists>a b. cs = a @ n @ b)"
      using ab by (cases a) auto
  next
    assume "(\<exists>b. c # cs = n @ b) \<or> (\<exists>a b. cs = a @ n @ b)"
    then show "\<exists>a b. c # cs = a @ n @ b"
      by (metis append_Cons append_Nil)
  qed
  then show ?case by (simp add: "2" is_prefix_iff)
qed

lemma py_in_char: "py_in [c] s \<longleftrightarrow> c \<in> set s"
  by (induction s) auto

lemma dropWhile_idem: "dropWhile p (dropWhile p xs) = dropWhile p xs"
  by (induction xs) auto

lemma dropWhile_none: "\<forall>c \<in> set xs. \<not> p c \<Longrightarrow> dropWhile p xs = xs"
  by (cases xs) auto

lemma id_char_not_space: "id_char c \<Longrightarrow> \<not> py_space c"
  by (auto simp: id_char_def alnum_def char_code_def py_space_def)

lemma py_strip_no_space: "\<forall>c \<in> set t. \<not> py_space c \<Longrightarrow> py_strip t = t"
  using dropWhile_none [of t] dropWhile_none [of "rev t"] by (simp add: py_strip_def)

lemma safe_id_chars: "safe_id_text t \<Longrightarrow> c \<in> set t \<Longrightarrow> id_char c"
  by (auto simp: safe_id_text_def safe_id_match_def list_all_iff id_char_def split: list.splits)

lemma require_safe_id_cases:
  assumes "require_safe_id v = Inr t"
  shows "t = py_strip v" "safe_id_text t" "py_strip t = t" "require_safe_id t = Inr t"
proof -
  show t: "t = py_strip v" "safe_id_text t"
    using assms by (auto simp: require_safe_id_def Let_def split: if_splits)
  show "py_strip t = t"
    using safe_id_chars [OF t(2)] id_char_not_space by (intro py_strip_no_space) blast
  with t(2) show "require_safe_id t = Inr t" by (simp add: require_safe_id_def)
qed

subsection \<open>Controls\<close>

definition controls_keyed :: "db \<Rightarrow> bool" where
  "controls_keyed s \<longleftrightarrow> distinct (map c_project_human_id (controls s))"

lemma is_project_paused_iff:
  assumes "controls_keyed s"
  shows "is_project_paused pid s \<longleftrightarrow> (\<exists>c \<in> set (controls s). c_project_human_id c = pid \<and> c_paused c)"
proof (cases "find_row (\<lambda>c. c_project_human_id c = pid) (controls s)")
  case None
  moreover have "\<forall>c \<in> set (controls s). c_project_human_id c \<noteq> pid"
    using None by (simp add: find_row_None_iff)
  ultimately show ?thesis
    by (auto simp: is_project_paused_def get_orchestration_control_def)
next
  case (Some c)
  then have "c \<in> set (controls s)" "c_project_human_id c = pid" by (auto dest: find_row_SomeD)
  moreover have "inj_on c_project_human_id (set (controls s))"
    using assms by (simp add: controls_keyed_def distinct_map)
  ultimately show ?thesis
    using Some by (auto simp: is_project_paused_def get_orchestration_control_def dest: inj_onD)
qed

lemma set_project_paused_run:
  obtains t where "set_project_paused pid p r s = (Inr (get_orchestration_control pid t), t)"
    "t = s\<lparr>controls := upsert_row (\<lambda>c. c_project_human_id c = pid) (\<lambda>_. control_row pid p r (now_iso s))
       (control_row pid p r (now_iso s)) (controls s)\<rparr>"
  by (simp add: set_project_paused_def op_simps)

lemma paused_after:
  assumes "t = s\<lparr>controls := upsert_row (\<lambda>c. c_project_human_id c = pid) (\<lambda>_. control_row pid p r now)
       (control_row pid p r now) (controls s)\<rparr>"
  shows "is_project_paused q t \<longleftrightarrow> (if q = pid then p else is_project_paused q s)"
    and "controls_keyed s \<Longrightarrow> controls_keyed t"
proof -
  let ?u = "upsert_row (\<lambda>c. c_project_human_id c = pid) (\<lambda>_. control_row pid p r now)
       (control_row pid p r now) (controls s)"
  have same: "find_row (\<lambda>c. c_project_human_id c = pid) ?u = Some (control_row pid p r now)"
    by (cases "find_row (\<lambda>c. c_project_human_id c = pid) (controls s)")
       (simp_all add: upsert_row_def control_row_def find_row_update_const)
  have other: "find_row (\<lambda>c. c_project_human_id c = q) ?u = find_row (\<lambda>c. c_project_human_id c = q) (controls s)"
    if "q \<noteq> pid" using that by (intro find_row_upsert_other) (auto simp: control_row_def)
  show "is_project_paused q t \<longleftrightarrow> (if q = pid then p else is_project_paused q s)"
    using same other by (auto simp: assms is_project_paused_def get_orchestration_control_def control_row_def)
  show "controls_keyed t" if "controls_keyed s"
    using that unfolding controls_keyed_def assms
    by (simp add: distinct_upsert_row control_row_def)
qed

subsection \<open>Locks\<close>

text \<open>A lock may be taken when no row has its name or the row is stale.\<close>

definition lock_available :: "string \<Rightarrow> int \<Rightarrow> db \<Rightarrow> bool" where
  "lock_available name stale s = (case lock_of name s of
     None \<Rightarrow> True | Some (_, _, acquired) \<Rightarrow> of_iso (acquired + stale) \<le> clk s)"

definition locked :: "string \<Rightarrow> string \<Rightarrow> db \<Rightarrow> db" where
  "locked name owner s = s\<lparr>op_locks := filter (\<lambda>l. fst l \<noteq> name) (op_locks s) @ [(name, owner, now_iso s)]\<rparr>"

lemma acquire_operation_lock_eq:
  "acquire_operation_lock name owner stale s =
     (if lock_available name stale s then (Inr (), locked name owner s) else (Inl ConflictError, s))"
proof (cases "lock_of name s")
  case None
  then have "filter (\<lambda>l. fst l \<noteq> name) (op_locks s) = op_locks s"
    by (auto simp: lock_of_def find_row_None_iff filter_id_conv)
  with None show ?thesis
    by (simp add: acquire_operation_lock_def lock_available_def locked_def op_simps)
next
  case (Some l)
  then show ?thesis
    by (cases l) (auto simp: acquire_operation_lock_def lock_available_def locked_def op_simps
        of_iso_def now_iso_def algebra_simps)
qed

lemma find_row_filter_none: "(\<And>r. q r \<Longrightarrow> \<not> p r) \<Longrightarrow> find_row q (filter p rs) = None"
  by (auto simp: find_row_None_iff)

lemma lock_of_locked [simp]: "lock_of name (locked name owner s) = Some (name, owner, now_iso s)"
  by (simp add: lock_of_def locked_def find_row_filter_none)

lemma lock_of_released [simp]: "lock_of name (snd (release_operation_lock name s)) = None"
  by (simp add: lock_of_def release_operation_lock_def modifyS_def find_row_filter_none)

lemma acquire_release_cases:
  shows "fst (release_operation_lock name s) = Inr ()"
    and "clk (snd (release_operation_lock name s)) = clk s"
  by (simp_all add: release_operation_lock_def modifyS_def)

section \<open>Properties\<close>

text \<open>A safe identifier stays a single path component: what \<^verbatim>\<open>require_safe_id\<close> accepts is the stripped
  text, has 1 to 128 characters, starts with a letter or digit, contains no slash, no backslash and
  no two dots in a row, and is accepted again unchanged, also as a file name.\<close>

theorem safe_id_is_one_component:
  assumes "require_safe_id v = Inr t"
  shows "t = py_strip v \<and> t \<noteq> [] \<and> length t \<le> 128 \<and> alnum (hd t) \<and> CHR ''/'' \<notin> set t \<and>
    CHR 0x5C \<notin> set t \<and> (\<nexists>a b. t = a @ ''..'' @ b) \<and>
    require_safe_id t = Inr t \<and> require_safe_filename t = Inr t"
proof -
  note t = require_safe_id_cases(1,2) [OF assms] and strip = require_safe_id_cases(3) [OF assms]
  have "\<not> py_in ''..'' t" "\<not> py_in ''/'' t" "\<not> py_in [CHR 0x5C] t"
    using t(2) by (simp_all add: safe_id_text_def)
  then show ?thesis
    using t strip py_in_iff [of "''..''" t] py_in_char [of "CHR ''/''" t] py_in_char [of "CHR 0x5C" t]
    by (auto simp: require_safe_id_def require_safe_filename_def safe_id_text_def safe_id_match_def
        split: list.splits)
qed

lemma safe_id_is_one_component_witness:
  "CHR ''/'' \<notin> set ''PRJ-1'' \<and> require_safe_filename ''PRJ-1'' = Inr ''PRJ-1''"
proof -
  have "require_safe_id '' PRJ-1 '' = Inr ''PRJ-1''" by code_simp
  from safe_id_is_one_component [OF this] show ?thesis by blast
qed

text \<open>A pause takes exactly one project out of dispatch: setting the switch of a project to \<open>p\<close>
  reports \<open>p\<close>, leaves the switch of every other project and the jobs alone, and the eligible jobs
  afterwards are the READY jobs with satisfied dependencies of the projects that are not paused,
  this project counting as paused exactly when \<open>p\<close>.\<close>

theorem pause_gates_dispatch:
  assumes "store_inv s" "controls_keyed s" "set_project_paused pid p r s = (res, t)"
  shows "controls_keyed t \<and> (\<exists>v. res = Inr v \<and> cv_paused v = p) \<and>
    (\<forall>q. is_project_paused q t \<longleftrightarrow> (if q = pid then p else is_project_paused q s)) \<and>
    (\<exists>js. list_eligible_ready_jobs None queue proj t = Inr js \<and> (\<forall>j. j \<in> set js \<longleftrightarrow>
       j \<in> set (jobs s) \<and> j_status j = READY \<and> matches queue (j_queue j) \<and>
       matches proj (j_project_human_id j) \<and> deps_met s (j_id j) \<and>
       (if j_project_human_id j = pid then \<not> p else \<not> is_project_paused (j_project_human_id j) s)))"
proof -
  have run: "res = Inr (get_orchestration_control pid t)"
    and t: "t = s\<lparr>controls := upsert_row (\<lambda>c. c_project_human_id c = pid)
       (\<lambda>_. control_row pid p r (now_iso s)) (control_row pid p r (now_iso s)) (controls s)\<rparr>"
    using set_project_paused_run [of pid p r s] assms(3) by auto
  have paused: "is_project_paused q t \<longleftrightarrow> (if q = pid then p else is_project_paused q s)" for q
    using paused_after(1) [OF t] .
  have keyed: "controls_keyed t" using paused_after(2) [OF t assms(2)] .
  have "core s = core t" by (simp add: t core_def)
  from store_inv_core [OF this assms(1)] have inv: "store_inv t" .
  have js: "jobs t = jobs s" "deps t = deps s" by (simp_all add: t)
  then have met: "deps_met t i \<longleftrightarrow> deps_met s i" for i
    by (simp add: deps_met_def list_job_dependencies_def job_by_id_def)
  have "list_eligible_ready_jobs None queue proj t = Inr (eligible queue proj t)"
    using list_eligible_eq(1) [OF inv] .
  moreover have "(\<forall>c \<in> set (controls t). c_paused c \<longrightarrow> c_project_human_id c \<noteq> q) \<longleftrightarrow>
      (if q = pid then \<not> p else \<not> is_project_paused q s)" for q
    using is_project_paused_iff [OF keyed, of q] paused [of q] by auto
  ultimately show ?thesis
    using keyed paused run js met
    by (auto simp: eligible_iff is_project_paused_def)
qed

lemma pause_gates_dispatch_witness:
  "list_eligible_ready_jobs None None None (snd (set_project_paused ''PRJ-1'' True None sample_store)) = Inr [] \<and>
   is_project_paused ''PRJ-1'' (snd (set_project_paused ''PRJ-1'' True None sample_store))"
proof -
  let ?m = "set_project_paused ''PRJ-1'' True None sample_store"
  have "controls_keyed sample_store" by code_simp
  from pause_gates_dispatch [OF store_machine.reach_inv [OF sample_store_reach] this prod.collapse [symmetric],
      of "''PRJ-1''" True None None None]
  obtain js where p: "is_project_paused ''PRJ-1'' (snd ?m)"
    and js: "list_eligible_ready_jobs None None None (snd ?m) = Inr js"
      "\<forall>j. j \<in> set js \<longrightarrow> j \<in> set (jobs sample_store) \<and> j_project_human_id j \<noteq> ''PRJ-1''" by auto
  have "\<forall>j \<in> set (jobs sample_store). j_project_human_id j = ''PRJ-1''" by code_simp
  then have "\<forall>j \<in> set js. False" using js(2) by metis
  then have "set js = {}" by simp
  then show ?thesis using p js(1) by simp
qed

text \<open>C34: A project's control lock excludes other operations until it goes stale and is always given
  back: while a row for it is younger than 7200 seconds the operation is not run, \<^verbatim>\<open>ConflictError\<close>
  is raised and no table changes; otherwise the operation runs once, with the lock held under a new
  owner, its result (or its exception) is what the caller gets, and afterwards the lock is free.\<close>

theorem with_lock_spec:
  "with_lock pid fn s =
     (let u = s\<lparr>uuid_next := Suc (uuid_next s)\<rparr>; name = lock_name pid in
      if lock_available name 7200 s then
        let (r, t) = fn (locked name (uuids s (uuid_next s)) u) in
        (r, t\<lparr>op_locks := filter (\<lambda>l. fst l \<noteq> name) (op_locks t)\<rparr>)
      else (Inl ConflictError, u)) \<and>
   (lock_available (lock_name pid) 7200 s \<longleftrightarrow>
      (\<nexists>owner acquired. lock_of (lock_name pid) s = Some (lock_name pid, owner, acquired) \<and>
         clk s < of_iso (acquired + 7200))) \<and>
   (lock_available (lock_name pid) 7200 s \<longrightarrow> lock_of (lock_name pid) (snd (with_lock pid fn s)) = None)"
proof -
  let ?u = "s\<lparr>uuid_next := Suc (uuid_next s)\<rparr>" and ?n = "lock_name pid"
  have avail: "lock_available ?n 7200 ?u = lock_available ?n 7200 s"
    by (simp add: lock_available_def lock_of_def split: option.split)
  have eq: "with_lock pid fn s = (if lock_available ?n 7200 s then
      let (r, t) = fn (locked ?n (uuids s (uuid_next s)) ?u) in
      (r, t\<lparr>op_locks := filter (\<lambda>l. fst l \<noteq> ?n) (op_locks t)\<rparr>) else (Inl ConflictError, ?u))"
    by (simp add: with_lock_def bindS_def thenS_def new_uuid_def transaction_def acquire_operation_lock_eq
        avail finallyS_def release_operation_lock_def modifyS_def split: prod.split)
  have key: "fst l = ?n" if "lock_of ?n s = Some l" for l
    using that by (auto simp: lock_of_def dest: find_row_SomeD)
  have "lock_available ?n 7200 s \<longleftrightarrow> (\<nexists>owner acquired. lock_of ?n s = Some (?n, owner, acquired) \<and>
         clk s < of_iso (acquired + 7200))"
    using key by (force simp: lock_available_def not_less split: option.split)
  moreover have "lock_of ?n (snd (with_lock pid fn s)) = None" if "lock_available ?n 7200 s"
    using that by (simp add: eq lock_of_def find_row_filter_none split: prod.split)
  ultimately show ?thesis unfolding eq by (simp add: Let_def)
qed

lemma with_lock_spec_witness:
  "lock_of (lock_name ''PRJ-1'') (snd (with_lock ''PRJ-1'' (raiseS LeaseError :: unit dbop) sample_store)) = None \<and>
   fst (with_lock ''PRJ-1'' (raiseS LeaseError :: unit dbop) sample_store) = Inl LeaseError"
proof -
  have "lock_available (lock_name ''PRJ-1'') 7200 sample_store" by code_simp
  note w = with_lock_spec [of "''PRJ-1''" "raiseS LeaseError :: unit dbop" sample_store] this
  then have "lock_of (lock_name ''PRJ-1'') (snd (with_lock ''PRJ-1'' (raiseS LeaseError :: unit dbop)
      sample_store)) = None" by blast
  moreover have "fst (with_lock ''PRJ-1'' (raiseS LeaseError :: unit dbop) sample_store) = Inl LeaseError"
    using w(2) conjunct1 [OF w(1)] by (simp only: Let_def if_True raiseS_apply prod.case fst_conv)
  ultimately show ?thesis by blast
qed

text \<open>Releasing a lock does not ask who holds it: when an operation outlives the 7200 seconds and a
  second one takes the stale lock over, the release of the first frees the lock of the second, and
  a third operation is let in at once although the second one is still inside.\<close>

theorem late_release_frees_successor:
  assumes "acquire_operation_lock name a 7200 s = (Inr (), s1)"
    "clk u = of_iso (now_iso s + 7200) + d" "0 \<le> d" "op_locks u = op_locks s1"
    "release_operation_lock name (snd (acquire_operation_lock name b 7200 u)) = (x, v)"
  shows "fst (acquire_operation_lock name b 7200 u) = Inr () \<and>
    lock_of name (snd (acquire_operation_lock name b 7200 u)) = Some (name, b, now_iso u) \<and>
    fst (acquire_operation_lock name c 7200 (snd (acquire_operation_lock name b 7200 u))) = Inl ConflictError \<and>
    fst (acquire_operation_lock name c 7200 v) = Inr ()"
proof -
  have "s1 = locked name a s" using assms(1) by (simp add: acquire_operation_lock_eq split: if_splits)
  then have "lock_of name u = Some (name, a, now_iso s)"
    using assms(4) lock_of_locked [of name a s] by (simp add: lock_of_def)
  then have "lock_available name 7200 u" using assms(2,3) by (simp add: lock_available_def)
  then have b: "acquire_operation_lock name b 7200 u = (Inr (), locked name b u)"
    by (simp add: acquire_operation_lock_eq)
  have young: "\<not> lock_available name 7200 (locked name b u)"
    using of_iso_iso_of_add [of "clk u"]
    by (simp add: lock_available_def now_iso_def) (simp add: locked_def of_iso_def algebra_simps)
  have "lock_of name v = None" using assms(5) b lock_of_released [of name "locked name b u"] by simp
  then have "lock_available name 7200 v" by (simp add: lock_available_def)
  with b young show ?thesis by (simp add: acquire_operation_lock_eq)
qed

lemma late_release_frees_successor_witness:
  "\<exists>v. release_operation_lock ''L'' (snd (acquire_operation_lock ''L'' ''b'' 7200
      ((locked ''L'' ''a'' sample_store)\<lparr>clk := of_iso (now_iso sample_store + 7200)\<rparr>))) = (Inr (), v) \<and>
     fst (acquire_operation_lock ''L'' ''c'' 7200 v) = Inr ()"
proof -
  let ?u = "(locked ''L'' ''a'' sample_store)\<lparr>clk := of_iso (now_iso sample_store + 7200)\<rparr>"
  have "lock_available ''L'' 7200 sample_store" by code_simp
  then have "acquire_operation_lock ''L'' ''a'' 7200 sample_store = (Inr (), locked ''L'' ''a'' sample_store)"
    by (simp add: acquire_operation_lock_eq)
  from late_release_frees_successor [OF this, of ?u 0, simplified, OF prod.collapse [symmetric]]
  show ?thesis by (metis acquire_release_cases(1) prod.collapse)
qed

text \<open>C35: A recorded response is replayed: after \<^verbatim>\<open>remember\<close> has stored the response to a request under
  a key, repeating the request with the key gives the stored status and payload, marked as a
  replay; the key with a request of another fingerprint raises \<^verbatim>\<open>ConflictError\<close>; and storing under
  the key again raises \<^verbatim>\<open>IntegrityError\<close> and changes nothing, so the first response stays.\<close>

theorem remembered_response_is_replayed:
  assumes "key \<noteq> []" "remember pid operation (Some key) request status payload s = (Inr (), t)"
  shows "replay_or_begin pid operation (Some key) request' t =
      (if fingerprint request' = fingerprint request
       then (Inr (Some \<lparr>ir_status_code = status, ir_payload = JObj payload, ir_replayed = True\<rparr>), t)
       else (Inl ConflictError, t)) \<and>
    remember pid operation (Some key) request'' status'' payload'' t = (Inl IntegrityError, t) \<and>
    replay_or_begin pid operation (Some key) request s = (Inr None, s)"
proof -
  let ?k = "(pid @ '':'' @ operation, key)"
  have none: "get_idempotency_record (fst ?k) (snd ?k) s = None"
    and t: "t = s\<lparr>idempotency := idempotency s @ [(?k, fingerprint request, status, JText (JObj payload))]\<rparr>"
    using assms by (auto simp: remember_def transaction_def put_idempotency_record_def op_simps str_of_def
        split: if_splits)
  have "get_idempotency_record (fst ?k) (snd ?k) t = Some (fingerprint request, status, JText (JObj payload))"
    using none by (simp add: t get_idempotency_record_def)
  then show ?thesis
    using assms(1) none
    by (simp add: replay_or_begin_def remember_def transaction_def put_idempotency_record_def op_simps
        str_of_def json_loads_def)
qed

lemma remembered_response_is_replayed_witness:
  "\<exists>t. remember ''PRJ-1'' ''pause'' (Some ''k1'') [] 200 [(''ok'', JBool True)] sample_store = (Inr (), t) \<and>
     replay_or_begin ''PRJ-1'' ''pause'' (Some ''k1'') [] t =
       (Inr (Some \<lparr>ir_status_code = 200, ir_payload = JObj [(''ok'', JBool True)], ir_replayed = True\<rparr>), t)"
proof -
  let ?m = "remember ''PRJ-1'' ''pause'' (Some ''k1'') [] 200 [(''ok'', JBool True)] sample_store"
  have "fst ?m = Inr ()" by code_simp
  then have m: "?m = (Inr (), snd ?m)" by (metis prod.collapse)
  have "''k1'' \<noteq> []" by simp
  from remembered_response_is_replayed [OF this m, of "[]"] m show ?thesis by auto
qed

end
