(* ===== verification/Semver.thy ===== *)
theory Semver
  imports Control
begin

text \<open>
  Semantic versions (\<^verbatim>\<open>delivery/semver.py\<close>) and the choice of the next release version
  (\<^verbatim>\<open>delivery/release_version.py\<close>). The lemmas show that printing and parsing are inverse, that a bump
  grows the version, and that the search for an unpublished version ends.
\<close>

section \<open>Versions\<close>

definition is_digit :: "char \<Rightarrow> bool" where
  "is_digit c \<longleftrightarrow> 48 \<le> char_code c \<and> char_code c \<le> 57"

definition nat_of_digits :: "string \<Rightarrow> nat" where
  "nat_of_digits ds = foldl (\<lambda>n d. 10 * n + (char_code d - 48)) 0 ds"

text \<open>\<^verbatim>\<open>(\d+)\<close> at the front of a text, with the rest.\<close>

definition read_num :: "string \<Rightarrow> (nat \<times> string) option" where
  "read_num t = (let ds = takeWhile is_digit t in
     if ds = [] then None else Some (nat_of_digits ds, dropWhile is_digit t))"

fun after_dot :: "string \<Rightarrow> string option" where
  "after_dot [] = None"
| "after_dot (c # cs) = (if c = CHR ''.'' then Some cs else None)"

definition pre_char :: "char \<Rightarrow> bool" where
  "pre_char c \<longleftrightarrow> alnum c \<or> c \<in> {CHR ''.'', CHR ''-''}"

fun read_pre :: "string \<Rightarrow> string option option" where
  "read_pre [] = Some None"
| "read_pre (c # cs) = (if c = CHR ''-'' \<and> cs \<noteq> [] \<and> list_all pre_char cs then Some (Some cs) else None)"

type_synonym version = "nat \<times> nat \<times> nat \<times> string option"

text \<open>The match of \<^verbatim>\<open>SEMVER_RE\<close>.\<close>

definition semver_match :: "string \<Rightarrow> version option" where
  "semver_match t =
     Option.bind (read_num t) (\<lambda>(major, t1).
     Option.bind (after_dot t1) (\<lambda>t2.
     Option.bind (read_num t2) (\<lambda>(minor, t3).
     Option.bind (after_dot t3) (\<lambda>t4.
     Option.bind (read_num t4) (\<lambda>(patch, t5).
     Option.bind (read_pre t5) (\<lambda>pre. Some (major, minor, patch, pre)))))))"

definition parse_semver :: "string \<Rightarrow> exn + version" where
  "parse_semver value =
     (case semver_match (dropWhile (\<lambda>c. c \<in> {CHR ''v'', CHR ''V''}) (py_strip value)) of
        None \<Rightarrow> Inl OrchestrationError | Some v \<Rightarrow> Inr v)"

definition format_semver :: "nat \<Rightarrow> nat \<Rightarrow> nat \<Rightarrow> string option \<Rightarrow> string" where
  "format_semver major minor patch pre =
     (let base = show_nat major @ ''.'' @ show_nat minor @ ''.'' @ show_nat patch in
      if truthy_str pre then base @ ''-'' @ str_of pre else base)"

definition format_tag :: "string \<Rightarrow> string" where
  "format_tag version = (let t = py_strip version in if is_prefix ''v'' t then t else ''v'' @ t)"

definition propose_bump :: "string \<Rightarrow> string \<Rightarrow> exn + string" where
  "propose_bump current change_type =
     (case parse_semver current of Inl e \<Rightarrow> Inl e | Inr (major, minor, patch, pre) \<Rightarrow>
      if truthy_str pre then Inl OrchestrationError else
      let kind = py_lower (py_strip change_type) in
      if kind \<in> {''patch'', ''bugfix'', ''fix''} then Inr (format_semver major minor (patch + 1) None)
      else if kind \<in> {''minor'', ''feature''} then Inr (format_semver major (minor + 1) 0 None)
      else if kind \<in> {''major'', ''breaking''} then Inr (format_semver (major + 1) 0 0 None)
      else Inl OrchestrationError)"

section \<open>The next release version\<close>

definition published_versions :: "string \<Rightarrow> db \<Rightarrow> string list" where
  "published_versions pid s = map dr_version
     (filter (\<lambda>r. dr_project_human_id r = pid \<and> dr_publication_status r = ''published'') (releases s))"

text \<open>\<^verbatim>\<open>while version in published: version = propose_bump(version, change_type="patch")\<close>; the outer
  option is \<open>None\<close> when the loop does not end.\<close>

partial_function (option) bump_while :: "string list \<Rightarrow> string \<Rightarrow> (exn + string) option" where
  "bump_while published version =
     (if version \<in> set published then
        case propose_bump version ''patch'' of
          Inl e \<Rightarrow> Some (Inl e)
        | Inr version' \<Rightarrow> bump_while published version'
      else Some (Inr version))"

declare bump_while.simps [code]

text \<open>\<open>declared\<close> is the result of \<^verbatim>\<open>read_declared_version\<close>, which reads \<^verbatim>\<open>pyproject.toml\<close> and
  \<^verbatim>\<open>project/repository.json\<close> of the repository.\<close>

definition resolve_release_version ::
    "string \<Rightarrow> string option \<Rightarrow> bool \<Rightarrow> db \<Rightarrow> (exn + string) option" where
  "resolve_release_version pid declared allow_republish s =
     (let version = str_of (str_or declared (Some ''0.1.0''));
          published = published_versions pid s in
      if version \<in> set published \<and> \<not> allow_republish then bump_while published version
      else Some (Inr version))"

section \<open>Lemmas\<close>

subsection \<open>Decimal numbers\<close>

lemma char_code_digit: "d < 10 \<Longrightarrow> char_code (digit d) = 48 + d"
  by (simp add: char_code_def digit_def)

lemma is_digit_digit: "d < 10 \<Longrightarrow> is_digit (digit d)"
  by (simp add: is_digit_def char_code_digit)

lemma nat_of_digits_snoc: "nat_of_digits (ds @ [d]) = 10 * nat_of_digits ds + (char_code d - 48)"
  by (simp add: nat_of_digits_def)

lemma show_nat_digits: "\<forall>c \<in> set (show_nat n). is_digit c"
  by (induction n rule: show_nat.induct) (subst show_nat.simps, auto simp: is_digit_digit)

lemma show_nat_not_Nil: "show_nat n \<noteq> []"
  by (subst show_nat.simps) simp

lemma nat_of_digits_show_nat: "nat_of_digits (show_nat n) = n"
proof (induction n rule: show_nat.induct)
  case (1 n)
  then show ?case
    by (subst show_nat.simps)
       (simp add: nat_of_digits_snoc char_code_digit nat_of_digits_def [of "[digit n]"] del: foldl_Cons,
        simp add: nat_of_digits_def char_code_digit)
qed

lemma read_num_show_nat:
  assumes "\<And>c cs. t = c # cs \<Longrightarrow> \<not> is_digit c"
  shows "read_num (show_nat n @ t) = Some (n, t)"
proof -
  have "takeWhile is_digit t = []" "dropWhile is_digit t = t"
    using assms by (cases t; simp)+
  then have "takeWhile is_digit (show_nat n @ t) = show_nat n" "dropWhile is_digit (show_nat n @ t) = t"
    using show_nat_digits [of n] by (simp_all add: takeWhile_append2 dropWhile_append2)
  then show ?thesis by (simp add: read_num_def show_nat_not_Nil nat_of_digits_show_nat)
qed

subsection \<open>Printing and parsing\<close>

definition valid_pre :: "string option \<Rightarrow> bool" where
  "valid_pre pre = (case pre of None \<Rightarrow> True | Some p \<Rightarrow> p \<noteq> [] \<and> list_all pre_char p)"

lemma not_digit [simp]: "\<not> is_digit (CHR ''.'')" "\<not> is_digit (CHR ''-'')"
  by (simp_all add: is_digit_def char_code_def)

lemma digit_char_facts:
  assumes "is_digit c" shows "\<not> py_space c" "c \<noteq> CHR ''v''" "c \<noteq> CHR ''V''"
  using assms by (auto simp: is_digit_def char_code_def py_space_def)

lemma pre_char_not_space: "pre_char c \<Longrightarrow> \<not> py_space c"
  by (auto simp: pre_char_def alnum_def char_code_def py_space_def)

lemma format_semver_eq:
  assumes "valid_pre pre"
  shows "format_semver a b c pre = show_nat a @ CHR ''.'' # show_nat b @ CHR ''.'' # show_nat c @
     (case pre of None \<Rightarrow> [] | Some p \<Rightarrow> CHR ''-'' # p)"
  using assms by (cases pre) (auto simp: format_semver_def valid_pre_def str_of_def Let_def)

lemma read_pre_case:
  assumes "valid_pre pre"
  shows "read_pre (case pre of None \<Rightarrow> [] | Some p \<Rightarrow> CHR ''-'' # p) = Some pre"
  using assms by (cases pre) (auto simp: valid_pre_def)

lemma semver_match_format:
  assumes "valid_pre pre" shows "semver_match (format_semver a b c pre) = Some (a, b, c, pre)"
proof -
  have dot: "read_num (show_nat n @ CHR ''.'' # t) = Some (n, CHR ''.'' # t)" for n t
    by (rule read_num_show_nat) simp
  have "read_num (show_nat c @ (case pre of None \<Rightarrow> [] | Some p \<Rightarrow> CHR ''-'' # p)) =
      Some (c, case pre of None \<Rightarrow> [] | Some p \<Rightarrow> CHR ''-'' # p)"
    by (rule read_num_show_nat) (auto split: option.splits)
  then show ?thesis
    using read_pre_case [OF assms] by (simp add: format_semver_eq [OF assms] semver_match_def dot)
qed

lemma py_strip_format:
  assumes "valid_pre pre" shows "py_strip (format_semver a b c pre) = format_semver a b c pre"
proof (rule py_strip_no_space)
  show "\<forall>x \<in> set (format_semver a b c pre). \<not> py_space x"
    using assms show_nat_digits digit_char_facts(1) pre_char_not_space
    by (auto simp: format_semver_eq valid_pre_def list_all_iff py_space_def split: option.splits)
qed

lemma dropWhile_v_format:
  assumes "valid_pre pre"
  shows "dropWhile (\<lambda>c. c \<in> {CHR ''v'', CHR ''V''}) (format_semver a b c pre) = format_semver a b c pre"
proof -
  obtain d ds where d: "show_nat a = d # ds" using show_nat_not_Nil [of a] by (cases "show_nat a") auto
  then have "is_digit d" using show_nat_digits [of a] by simp
  with d digit_char_facts [of d] show ?thesis by (simp add: format_semver_eq [OF assms])
qed

lemma parse_format: "valid_pre pre \<Longrightarrow> parse_semver (format_semver a b c pre) = Inr (a, b, c, pre)"
  by (simp only: parse_semver_def py_strip_format dropWhile_v_format semver_match_format option.case)

lemma read_num_Some: "read_num t = Some (n, r) \<Longrightarrow> \<exists>ds. ds \<noteq> [] \<and> t = ds @ r"
  by (auto simp: read_num_def Let_def split: if_splits intro: takeWhile_dropWhile_id [symmetric])

lemma read_pre_valid: "read_pre t = Some pre \<Longrightarrow> valid_pre pre"
  by (cases t) (auto simp: valid_pre_def split: if_splits)

lemma semver_match_valid: "semver_match t = Some (a, b, c, pre) \<Longrightarrow> valid_pre pre"
  by (auto simp: semver_match_def Option.bind_eq_Some_conv dest: read_pre_valid)

lemma parse_semver_valid: "parse_semver v = Inr (a, b, c, pre) \<Longrightarrow> valid_pre pre"
  by (auto simp: parse_semver_def dest: semver_match_valid split: option.splits)

lemma valid_pre_None [simp]: "valid_pre None"
  by (simp add: valid_pre_def)

lemma valid_pre_truthy: "valid_pre pre \<Longrightarrow> truthy_str pre \<longleftrightarrow> pre \<noteq> None"
  by (cases pre) (auto simp: valid_pre_def)

subsection \<open>The search for an unpublished version\<close>

lemma propose_patch:
  assumes "parse_semver v = Inr (a, b, c, None)"
  shows "propose_bump v ''patch'' = Inr (format_semver a b (c + 1) None)"
proof -
  have "py_lower (py_strip ''patch'') = ''patch''" by code_simp
  then show ?thesis using assms by (simp add: propose_bump_def)
qed

text \<open>The patch numbers from \<open>c\<close> on that are published: a finite set that each bump shrinks.\<close>

definition taken :: "string list \<Rightarrow> nat \<Rightarrow> nat \<Rightarrow> nat \<Rightarrow> nat set" where
  "taken published a b c = {k. c \<le> k \<and> format_semver a b k None \<in> set published}"

lemma finite_taken: "finite (taken published a b c)"
proof (rule finite_subset)
  show "taken published a b c \<subseteq> (\<lambda>v. case parse_semver v of Inr (_, _, k, _) \<Rightarrow> k | _ \<Rightarrow> 0) ` set published"
    by (force simp: taken_def parse_format image_iff)
qed simp

lemma bump_while_ends:
  "\<exists>k \<ge> c. bump_while published (format_semver a b c None) = Some (Inr (format_semver a b k None)) \<and>
     format_semver a b k None \<notin> set published \<and>
     (\<forall>i. c \<le> i \<and> i < k \<longrightarrow> format_semver a b i None \<in> set published)"
proof (induction "card (taken published a b c)" arbitrary: c rule: less_induct)
  case less
  show ?case
  proof (cases "format_semver a b c None \<in> set published")
    case False
    then have "bump_while published (format_semver a b c None) = Some (Inr (format_semver a b c None))"
      by (subst bump_while.simps) simp
    with False show ?thesis by (intro exI [of _ c]) auto
  next
    case True
    have "taken published a b c = insert c (taken published a b (Suc c))"
      using True by (auto simp: taken_def le_eq_less_or_eq Suc_le_eq)
    then have "card (taken published a b (Suc c)) < card (taken published a b c)"
      using finite_taken by (simp add: taken_def card_insert_if)
    from less [OF this] obtain k where k: "Suc c \<le> k"
        "bump_while published (format_semver a b (Suc c) None) = Some (Inr (format_semver a b k None))"
        "format_semver a b k None \<notin> set published"
        "\<forall>i. Suc c \<le> i \<and> i < k \<longrightarrow> format_semver a b i None \<in> set published" by blast
    have "bump_while published (format_semver a b c None) = bump_while published (format_semver a b (Suc c) None)"
      using True propose_patch [OF parse_format [of None a b c]] by (subst bump_while.simps) simp
    moreover have "format_semver a b i None \<in> set published" if "c \<le> i" "i < k" for i
      using that k(4) True by (cases "i = c") auto
    ultimately show ?thesis using k(1,2,3) by (intro exI [of _ k]) auto
  qed
qed

section \<open>Properties\<close>

text \<open>Versions round-trip: parsing the text of a version with a valid prerelease part gives the
  version back, and what any accepted text parses to prints to a text that parses to the same.\<close>

theorem semver_round_trip:
  "(valid_pre pre \<longrightarrow> parse_semver (format_semver a b c pre) = Inr (a, b, c, pre)) \<and>
   (parse_semver v = Inr (a', b', c', pre') \<longrightarrow>
      valid_pre pre' \<and> parse_semver (format_semver a' b' c' pre') = Inr (a', b', c', pre'))"
  using parse_format parse_semver_valid by blast

lemma semver_round_trip_witness:
  "parse_semver ''v01.2.3-rc.1'' = Inr (1, 2, 3, Some ''rc.1'') \<and>
   parse_semver (format_semver 1 2 3 (Some ''rc.1'')) = Inr (1, 2, 3, Some ''rc.1'')"
proof -
  have "parse_semver ''v01.2.3-rc.1'' = Inr (1, 2, 3, Some ''rc.1'')" by code_simp
  then show ?thesis using semver_round_trip [of None 0 0 0 "''v01.2.3-rc.1''" 1 2 3 "Some ''rc.1''"] by blast
qed

text \<open>A bump grows the version: a proposed version parses to a release version that is strictly
  greater, in the order of major, minor and patch, than the version it starts from; a prerelease
  and an unknown kind of change are refused.\<close>

theorem propose_bump_grows:
  assumes "parse_semver v = Inr (a, b, c, pre)"
  shows "(case propose_bump v kind of
      Inr w \<Rightarrow> pre = None \<and> (\<exists>a' b' c'. parse_semver w = Inr (a', b', c', None) \<and> (a, b, c) < (a', b', c'))
    | Inl e \<Rightarrow> e = OrchestrationError \<and> (pre \<noteq> None \<or> py_lower (py_strip kind) \<notin>
        {''patch'', ''bugfix'', ''fix'', ''minor'', ''feature'', ''major'', ''breaking''}))"
proof -
  have "truthy_str pre \<longleftrightarrow> pre \<noteq> None" using parse_semver_valid [OF assms] by (rule valid_pre_truthy)
  then show ?thesis using assms by (auto simp: propose_bump_def Let_def parse_format)
qed

lemma propose_bump_grows_witness:
  "propose_bump ''v1.2.9'' ''feature'' = Inr ''1.3.0'' \<and>
   (\<exists>a b c. parse_semver ''1.3.0'' = Inr (a, b, c, None) \<and> (1, 2, 9) < (a, b, c))"
proof -
  have "parse_semver ''v1.2.9'' = Inr (1, 2, 9, None)" "propose_bump ''v1.2.9'' ''feature'' = Inr ''1.3.0''"
    by code_simp+
  then show ?thesis using propose_bump_grows [of "''v1.2.9''" 1 2 9 None "''feature''"] by simp
qed

text \<open>C36: The next release version is always found and is not a published one: for a declared version
  that parses, the search ends; unless republication is allowed it returns a text that no published
  release of the project has, namely the declared one or the lowest unpublished patch above it; and
  it refuses, by raising, exactly a published prerelease.\<close>

theorem release_version_is_unpublished:
  assumes v_def: "v = str_of (str_or declared (Some ''0.1.0''))" and pub_def: "pub = set (published_versions pid s)"
    and parse: "parse_semver v = Inr (a, b, c, pre)"
  shows "(case resolve_release_version pid declared False s of
      None \<Rightarrow> False
    | Some (Inl e) \<Rightarrow> e = OrchestrationError \<and> pre \<noteq> None \<and> v \<in> pub
    | Some (Inr w) \<Rightarrow> w \<notin> pub \<and> (if v \<notin> pub then w = v else
        \<exists>k > c. w = format_semver a b k None \<and> (\<forall>i. c < i \<and> i < k \<longrightarrow> format_semver a b i None \<in> pub)))"
proof (cases "v \<in> pub")
  case False
  then show ?thesis by (simp add: resolve_release_version_def v_def pub_def Let_def)
next
  case True
  let ?p = "published_versions pid s"
  have res: "resolve_release_version pid declared False s = bump_while ?p v"
    using True by (simp add: resolve_release_version_def v_def pub_def Let_def)
  show ?thesis
  proof (cases pre)
    case None
    obtain k where k: "Suc c \<le> k"
        "bump_while ?p (format_semver a b (Suc c) None) = Some (Inr (format_semver a b k None))"
        "format_semver a b k None \<notin> set ?p"
        "\<forall>i. Suc c \<le> i \<and> i < k \<longrightarrow> format_semver a b i None \<in> set ?p"
      using bump_while_ends [of "Suc c" ?p a b] by blast
    have "bump_while ?p v = bump_while ?p (format_semver a b (Suc c) None)"
      using True propose_patch [OF parse [unfolded None]] by (subst bump_while.simps) (simp add: pub_def)
    then have "resolve_release_version pid declared False s = Some (Inr (format_semver a b k None))"
      using k(2) res by simp
    moreover have "\<exists>k' > c. format_semver a b k None = format_semver a b k' None \<and>
        (\<forall>i. c < i \<and> i < k' \<longrightarrow> format_semver a b i None \<in> pub)"
      using k(1,4) by (intro exI [of _ k]) (auto simp: pub_def)
    ultimately show ?thesis using True k(3) by (simp add: pub_def)
  next
    case (Some p)
    have "truthy_str pre" using valid_pre_truthy [OF parse_semver_valid [OF parse]] Some by simp
    then have "propose_bump v ''patch'' = Inl OrchestrationError" using parse by (simp add: propose_bump_def)
    then have "bump_while ?p v = Some (Inl OrchestrationError)"
      using True by (subst bump_while.simps) (simp add: pub_def)
    then show ?thesis using True Some res by simp
  qed
qed

definition sample_release :: "string \<Rightarrow> string \<Rightarrow> delivery_release" where
  "sample_release pid v = \<lparr>dr_release_record_id = ''DLV-'' @ v, dr_project_human_id = pid,
     dr_release_human_id = ''REL-'' @ v, dr_version = v, dr_candidate_git_sha = ''abc'',
     dr_lifecycle_status = ''released'', dr_build_executor = None, dr_build_id = None,
     dr_publication_status = ''published'', dr_github_release_url = None, dr_github_tag = None,
     dr_manifest_sha256 = None, dr_slack_announced = 0, dr_proposal_id = None,
     dr_sponsor_user_id = None, dr_last_error = None, dr_created_at = 0, dr_updated_at = 0\<rparr>"

lemma release_version_is_unpublished_witness:
  "\<exists>w. resolve_release_version ''PRJ-1'' None False (sample_store\<lparr>releases := [sample_release ''PRJ-1'' ''0.1.0'']\<rparr>)
     = Some (Inr w) \<and> w \<noteq> ''0.1.0''"
proof -
  let ?s = "sample_store\<lparr>releases := [sample_release ''PRJ-1'' ''0.1.0'']\<rparr>"
  have p: "''0.1.0'' = str_of (str_or None (Some ''0.1.0''))" "parse_semver ''0.1.0'' = Inr (0, 1, 0, None)"
    by code_simp+
  have "published_versions ''PRJ-1'' ?s = [''0.1.0'']"
    by (simp add: published_versions_def sample_release_def)
  then show ?thesis using release_version_is_unpublished [OF p(1) refl p(2), of "''PRJ-1''" ?s]
    by (auto split: option.splits sum.splits)
qed

text \<open>Two spellings of one version are different texts, so a declared \<^verbatim>\<open>v0.1.0\<close> is released again after
  \<^verbatim>\<open>0.1.0\<close> has been published.\<close>

lemma spelling_escapes_republication_check:
  "parse_semver ''v0.1.0'' = parse_semver ''0.1.0'' \<and>
   resolve_release_version ''PRJ-1'' (Some ''v0.1.0'') False
     (sample_store\<lparr>releases := [sample_release ''PRJ-1'' ''0.1.0'']\<rparr>) = Some (Inr ''v0.1.0'')"
  by (rule conjI, code_simp)
     (simp add: resolve_release_version_def published_versions_def sample_release_def str_or_def str_of_def)

end
