(* ===== verification/Decisions.thy ===== *)
theory Decisions
  imports Control Store_Machine
begin

text \<open>
  Governed Sponsor decisions: the rows of \<^verbatim>\<open>governance_decisions\<close> in \<^verbatim>\<open>store.py\<close> and the operations of
  \<^verbatim>\<open>decisions.py\<close> that open, approve and reject them. An approval carries out its action: it cancels
  a job, grants a release job the Sponsor's authority, or pauses the project. The lemmas show that a
  decision is taken once, that nothing is approved without confirmation, what an approval changes,
  and that at most one decision is open for an action and target. A result is the decision with its events;
  the constant notice of \<^verbatim>\<open>_envelope\<close> is left out.
\<close>

section \<open>Rows\<close>

definition ACTIONS :: "string list" where
  "ACTIONS = [''sponsor_reserved'', ''release_approve'', ''cancel_job'', ''recover_salvage'',
     ''recover_reconcile'', ''governance_change'']"

definition TARGET_KINDS :: "string list" where
  "TARGET_KINDS = [''job'', ''release'', ''project'', ''none'']"

definition DECISION_STATUSES :: "string list" where
  "DECISION_STATUSES = [''OPEN'', ''APPROVED'', ''REJECTED'']"

definition append_governance_decision_event ::
    "string \<Rightarrow> string \<Rightarrow> string \<Rightarrow> string option \<Rightarrow> string option \<Rightarrow> unit dbop" where
  "append_governance_decision_event pid hid ev actor reason =
     modifyS (\<lambda>s. s\<lparr>decision_events := decision_events s @
       [\<lparr>ge_project_human_id = pid, ge_decision_human_id = hid, ge_event_type = ev, ge_actor = actor,
         ge_reason = reason, ge_created_at = now_iso s\<rparr>]\<rparr>)"

definition decision_by_id :: "string \<Rightarrow> db \<Rightarrow> governance_decision option" where
  "decision_by_id hid s = find_row (\<lambda>d. gd_decision_human_id d = hid) (decisions s)"

definition get_governance_decision :: "string \<Rightarrow> string \<Rightarrow> governance_decision option dbop" where
  "get_governance_decision project_human_id decision_human_id =
     bindS (liftS (require_safe_id project_human_id)) (\<lambda>project.
     bindS (liftS (require_safe_id decision_human_id)) (\<lambda>hid.
     bindS (getS (decision_by_id hid)) (\<lambda>foreign.
     thenS (guardS (case foreign of None \<Rightarrow> True | Some d \<Rightarrow> gd_project_human_id d = project)
              CrossProjectWriteError)
       (getS (\<lambda>s. find_row (\<lambda>d. gd_project_human_id d = project \<and> gd_decision_human_id d = hid)
          (decisions s))))))"

definition insert_governance_decision ::
    "string \<Rightarrow> string \<Rightarrow> string \<Rightarrow> string \<Rightarrow> string option \<Rightarrow> string \<Rightarrow> string \<Rightarrow> string \<Rightarrow>
     governance_decision dbop" where
  "insert_governance_decision decision_human_id project_human_id action target_kind target reason impact
       requested_by =
     bindS (liftS (require_safe_id project_human_id)) (\<lambda>project.
     bindS (liftS (require_safe_id decision_human_id)) (\<lambda>hid.
     bindS (getS (decision_by_id hid)) (\<lambda>clash.
     thenS (guardS (clash = None \<and> action \<in> set ACTIONS \<and> target_kind \<in> set TARGET_KINDS) IntegrityError)
     (thenS (modifyS (\<lambda>s. s\<lparr>decisions := decisions s @
          [\<lparr>gd_id = decision_seq s + 1, gd_decision_human_id = hid, gd_project_human_id = project,
            gd_action = action, gd_target_kind = target_kind, gd_target_human_id = target,
            gd_reason = reason, gd_impact = impact, gd_requested_by = requested_by, gd_status = ''OPEN'',
            gd_decided_by = None, gd_decision_reason = None, gd_execution_result = None,
            gd_created_at = now_iso s, gd_updated_at = now_iso s, gd_decided_at = None\<rparr>],
          decision_seq := decision_seq s + 1\<rparr>))
     (thenS (append_governance_decision_event project hid ''opened'' (Some requested_by) (Some reason))
     (bindS (get_governance_decision project hid) (\<lambda>row.
        case row of None \<Rightarrow> raiseS AssertionError | Some d \<Rightarrow> returnS d)))))))"

definition list_governance_decision_events :: "string \<Rightarrow> string \<Rightarrow> decision_event list dbop" where
  "list_governance_decision_events project_human_id decision_human_id =
     bindS (liftS (require_safe_id project_human_id)) (\<lambda>project.
     bindS (liftS (require_safe_id decision_human_id)) (\<lambda>hid.
     getS (\<lambda>s. filter (\<lambda>e. ge_project_human_id e = project \<and> ge_decision_human_id e = hid)
        (decision_events s))))"

text \<open>\<^verbatim>\<open>IFNULL(target_human_id, '') = IFNULL(?, '')\<close>, newest first.\<close>

definition open_for :: "string \<Rightarrow> string \<Rightarrow> string option \<Rightarrow> governance_decision \<Rightarrow> bool" where
  "open_for project action target d \<longleftrightarrow> gd_project_human_id d = project \<and> gd_action d = action \<and>
     gd_status d = ''OPEN'' \<and> str_of (gd_target_human_id d) = str_of target"

definition find_open_governance_decision ::
    "string \<Rightarrow> string \<Rightarrow> string option \<Rightarrow> governance_decision option dbop" where
  "find_open_governance_decision project_human_id action target =
     bindS (liftS (require_safe_id project_human_id)) (\<lambda>project.
     getS (\<lambda>s. find_row (open_for project action target) (rev (decisions s))))"

definition decided_row ::
    "string \<Rightarrow> string \<Rightarrow> string \<Rightarrow> string option \<Rightarrow> iso \<Rightarrow> governance_decision \<Rightarrow> governance_decision" where
  "decided_row status by_whom reason res now d =
     d\<lparr>gd_status := status, gd_decided_by := Some by_whom, gd_decision_reason := Some reason,
       gd_execution_result := res, gd_decided_at := Some now, gd_updated_at := now\<rparr>"

definition update_governance_decision ::
    "string \<Rightarrow> string \<Rightarrow> string \<Rightarrow> string \<Rightarrow> string \<Rightarrow> string option \<Rightarrow> governance_decision dbop" where
  "update_governance_decision project_human_id decision_human_id status decided_by reason res =
     bindS (liftS (require_safe_id project_human_id)) (\<lambda>project.
     bindS (liftS (require_safe_id decision_human_id)) (\<lambda>hid.
     thenS (modifyS (\<lambda>s. s\<lparr>decisions := update_where
              (\<lambda>d. gd_project_human_id d = project \<and> gd_decision_human_id d = hid)
              (decided_row status decided_by reason res (now_iso s)) (decisions s)\<rparr>))
     (bindS (get_governance_decision project hid) (\<lambda>row.
        case row of None \<Rightarrow> raiseS OrchestrationError | Some d \<Rightarrow> returnS d))))"

section \<open>Texts of a request\<close>

definition has_path_marker :: "string \<Rightarrow> bool" where
  "has_path_marker t \<longleftrightarrow> py_in ''/'' t \<or> py_in [CHR 0x5C] t \<or> py_in ''..'' t"

definition clean_text :: "string \<Rightarrow> nat \<Rightarrow> exn + string" where
  "clean_text value limit =
     (let t = join_with '' '' (py_split value) in
      if t = [] \<or> has_path_marker t \<or> limit < length t then Inl OrchestrationError else Inr t)"

definition clean_actor :: "string \<Rightarrow> exn + string" where
  "clean_actor value =
     (let t = py_strip value in
      if t = [] \<or> 128 < length t \<or> has_path_marker t then Inl OrchestrationError else Inr t)"

section \<open>Opening, approving and rejecting (\<^verbatim>\<open>decisions.py\<close>)\<close>

type_synonym envelope = "governance_decision \<times> decision_event list"

definition with_events :: "governance_decision \<Rightarrow> envelope dbop" where
  "with_events d =
     bindS (list_governance_decision_events (gd_project_human_id d) (gd_decision_human_id d))
       (\<lambda>events. returnS (d, events))"

definition get_decision :: "string \<Rightarrow> string \<Rightarrow> envelope dbop" where
  "get_decision project_human_id decision_human_id =
     bindS (get_governance_decision project_human_id decision_human_id) (\<lambda>row.
       case row of None \<Rightarrow> raiseS OrchestrationError | Some d \<Rightarrow> with_events d)"

definition require_job :: "string \<Rightarrow> string \<Rightarrow> job dbop" where
  "require_job project h =
     bindS (getS (get_job_by_human_id h)) (\<lambda>row.
     case row of
       None \<Rightarrow> raiseS OrchestrationError
     | Some j \<Rightarrow> if j_project_human_id j \<noteq> project then raiseS OrchestrationError else returnS j)"

record open_args =
  oa_project_human_id :: string
  oa_action :: string
  oa_reason :: string
  oa_impact :: string
  oa_requested_by :: string
  oa_target_kind :: string
  oa_target_human_id :: "string option"

text \<open>The tests on the target look at the action as given, the others at the stripped one.\<close>

definition check_target :: "string \<Rightarrow> string \<Rightarrow> string \<Rightarrow> string option \<Rightarrow> unit dbop" where
  "check_target project action kind target =
     thenS (if action \<in> {''cancel_job'', ''release_approve'', ''recover_salvage'', ''recover_reconcile''}
            then thenS (guardS (kind \<in> {''job'', ''release''} \<and> truthy_str target) OrchestrationError)
                   (thenS (require_job project (str_of target)) (returnS ()))
            else returnS ())
       (guardS (\<not> (action = ''governance_change'' \<and> kind \<notin> {''project'', ''none''})) OrchestrationError)"

definition open_decision :: "open_args \<Rightarrow> envelope dbop" where
  "open_decision a =
     bindS (liftS (require_safe_id (oa_project_human_id a))) (\<lambda>project.
     let action_key = py_strip (oa_action a);
         kind = py_strip (if oa_target_kind a = [] then ''none'' else oa_target_kind a) in
     thenS (guardS (action_key \<in> set ACTIONS) OrchestrationError)
     (thenS (guardS (kind \<in> set TARGET_KINDS) OrchestrationError)
     (bindS (if truthy_str (oa_target_human_id a)
             then bindS (liftS (require_safe_id (str_of (oa_target_human_id a)))) (\<lambda>t. returnS (Some t))
             else returnS None) (\<lambda>target.
      thenS (check_target project (oa_action a) kind target)
     (bindS (find_open_governance_decision project action_key target) (\<lambda>existing.
      case existing of
        Some d \<Rightarrow> with_events d
      | None \<Rightarrow>
          bindS new_uuid (\<lambda>hex.
          bindS (liftS (clean_text (oa_reason a) 2000)) (\<lambda>reason.
          bindS (liftS (clean_text (oa_impact a) 2000)) (\<lambda>impact.
          bindS (liftS (clean_actor (oa_requested_by a))) (\<lambda>requested_by.
          bindS (insert_governance_decision (''DEC-'' @ take 12 hex) project action_key kind target reason
                   impact requested_by) with_events))))))))))"

definition apply_approved_action :: "governance_decision \<Rightarrow> string \<Rightarrow> string dbop" where
  "apply_approved_action d reason =
     (let project = gd_project_human_id d;
          target = (case gd_target_human_id d of None \<Rightarrow> ''None'' | Some t \<Rightarrow> t) in
      if gd_action d = ''sponsor_reserved'' then
        returnS ''sponsor reservation granted; intake may proceed under PM authority''
      else if gd_action d = ''cancel_job'' then
        bindS (require_job project target) (\<lambda>j.
        thenS (guardS (j_status j \<notin> set TERMINAL_STATUSES) OrchestrationError)
        (thenS (mark_cancelled (j_id j) reason) (returnS (''cancelled '' @ j_human_id j))))
      else if gd_action d = ''release_approve'' then
        bindS (require_job project target) (\<lambda>j.
        thenS (guardS (j_queue j = ''RELEASE'') OrchestrationError)
        (thenS (set_job_sponsor_authority (j_id j) ''approved'')
           (returnS (''sponsor release grant recorded on '' @ j_human_id j))))
      else if gd_action d = ''governance_change'' then
        thenS (set_project_paused project True (Some reason))
          (returnS (''governance pause applied to '' @ project))
      else if gd_action d \<in> {''recover_salvage'', ''recover_reconcile''} then
        returnS (gd_action d @ '' authorized for '' @ target @
          ''. Destructive recovery remains a separate operator command after this grant.'')
      else raiseS OrchestrationError)"

text \<open>\<^verbatim>\<open>get_governance_decision\<close> and the tests that it exists and is open, which approving and rejecting
  share.\<close>

definition open_row :: "string \<Rightarrow> string \<Rightarrow> governance_decision dbop" where
  "open_row project_human_id decision_human_id =
     bindS (get_governance_decision project_human_id decision_human_id) (\<lambda>row.
     case row of
       None \<Rightarrow> raiseS OrchestrationError
     | Some d \<Rightarrow> if gd_status d \<noteq> ''OPEN'' then raiseS OrchestrationError else returnS d)"

definition approve_decision :: "string \<Rightarrow> string \<Rightarrow> bool \<Rightarrow> string \<Rightarrow> string \<Rightarrow> envelope dbop" where
  "approve_decision project_human_id decision_human_id confirmed actor reason =
     thenS (guardS confirmed OrchestrationError)
     (bindS (liftS (clean_actor actor)) (\<lambda>actor_text.
      bindS (liftS (clean_text reason 2000)) (\<lambda>reason_text.
      bindS (open_row project_human_id decision_human_id) (\<lambda>row.
      bindS (apply_approved_action row reason_text) (\<lambda>result.
      bindS (update_governance_decision (gd_project_human_id row) (gd_decision_human_id row) ''APPROVED''
               actor_text reason_text (Some result)) (\<lambda>updated.
      thenS (append_governance_decision_event (gd_project_human_id updated) (gd_decision_human_id updated)
               ''approved'' (Some actor_text) (Some reason_text))
      (thenS (append_governance_decision_event (gd_project_human_id updated) (gd_decision_human_id updated)
               ''executed'' (Some actor_text) (Some result))
        (with_events updated))))))))"

definition reject_decision :: "string \<Rightarrow> string \<Rightarrow> bool \<Rightarrow> string \<Rightarrow> string \<Rightarrow> envelope dbop" where
  "reject_decision project_human_id decision_human_id confirmed actor reason =
     thenS (guardS confirmed OrchestrationError)
     (bindS (liftS (clean_actor actor)) (\<lambda>actor_text.
      bindS (liftS (clean_text reason 2000)) (\<lambda>reason_text.
      bindS (open_row project_human_id decision_human_id) (\<lambda>row.
      bindS (update_governance_decision (gd_project_human_id row) (gd_decision_human_id row) ''REJECTED''
               actor_text reason_text None) (\<lambda>updated.
      thenS (append_governance_decision_event (gd_project_human_id updated) (gd_decision_human_id updated)
               ''rejected'' (Some actor_text) (Some reason_text))
        (with_events updated))))))"

definition intake_args :: "string \<Rightarrow> string \<Rightarrow> dict \<Rightarrow> open_args" where
  "intake_args pid requested_by item =
     (let code = (if truthy (dict_get item ''code'') then py_str (dict_get item ''code'') else ''sponsor_reserved'')
      in \<lparr>oa_project_human_id = pid, oa_action = ''sponsor_reserved'',
          oa_reason = (if truthy (dict_get item ''question'') then py_str (dict_get item ''question'')
                       else ''Sponsor-reserved decision is required.''),
          oa_impact = ''Work intake is blocked until a Sponsor grants this on the Decisions page.'',
          oa_requested_by = requested_by, oa_target_kind = ''none'',
          oa_target_human_id = (case require_safe_id code of Inr t \<Rightarrow> Some t | Inl _ \<Rightarrow> None)\<rparr>)"

definition record_intake_decisions :: "string \<Rightarrow> dict list \<Rightarrow> string \<Rightarrow> envelope list dbop" where
  "record_intake_decisions pid requests requested_by =
     mapS (\<lambda>item. open_decision (intake_args pid requested_by item)) requests"

section \<open>Lemmas\<close>

subsection \<open>What the operations leave alone\<close>

definition gov :: "db \<Rightarrow> governance_decision list \<times> decision_event list \<times> control list \<times> moment" where
  "gov s = (decisions s, decision_events s, controls s, clk s)"

lemma gov_eqD: "gov t = gov s \<Longrightarrow> decisions t = decisions s \<and> decision_events t = decision_events s \<and>
    controls t = controls s \<and> clk t = clk s"
  by (simp add: gov_def)

lemma untouched_gov_update_job [frames]: "untouched gov (update_job i f)"
  unfolding update_job_def by (intro frames) (simp add: gov_def)

lemma untouched_gov_append_run_event [frames]: "untouched gov (append_run_event i ev st msg pl)"
  unfolding append_run_event_def job_project_human_id_def by (intro frames) (simp add: gov_def)

lemma untouched_gov_release_lease [frames]: "untouched gov (release_lease i r)"
  unfolding release_lease_def by (intro frames) (simp_all add: gov_def)

lemma untouched_gov_get_job [frames]: "untouched gov (get_job i)"
  unfolding get_job_def by (intro frames)

lemma untouched_gov_mark_cancelled [frames]: "untouched gov (mark_cancelled i r)"
  unfolding mark_cancelled_def by (intro frames)

lemma untouched_gov_authority [frames]: "untouched gov (set_job_sponsor_authority i a)"
  unfolding set_job_sponsor_authority_def by (intro frames)

lemma untouched_require_job [frames]: "untouched g (require_job p h)"
  unfolding require_job_def by (intro frames)

lemma untouched_get_governance_decision [frames]: "untouched g (get_governance_decision p h)"
  unfolding get_governance_decision_def by (intro frames)

lemma untouched_with_events [frames]: "untouched g (with_events d)"
  unfolding with_events_def list_governance_decision_events_def by (intro frames)

lemma untouched_open_row [frames]: "untouched g (open_row p h)"
  unfolding open_row_def by (intro frames)

lemma untouched_find_open [frames]: "untouched g (find_open_governance_decision p a t)"
  unfolding find_open_governance_decision_def by (intro frames)

lemma untouched_check_target [frames]: "untouched g (check_target p a k t)"
  unfolding check_target_def by (intro frames)

lemma untouched_decisions_set_paused [frames]: "untouched decisions (set_project_paused p b r)"
  unfolding set_project_paused_def by (intro frames) simp

lemma untouched_clk_set_paused [frames]: "untouched clk (set_project_paused p b r)"
  unfolding set_project_paused_def by (intro frames) simp

lemma untouched_jobs_set_paused [frames]: "untouched jobs (set_project_paused p b r)"
  unfolding set_project_paused_def by (intro frames) simp

lemma untouched_of_gov:
  assumes "untouched gov m"
  shows "untouched decisions m" "untouched clk m" "untouched controls m"
  using assms by (auto simp: untouched_def gov_def)

lemma untouched_decisions_apply: "untouched decisions (apply_approved_action d r)"
  unfolding apply_approved_action_def Let_def
  by (intro frames untouched_of_gov(1) [OF untouched_gov_mark_cancelled]
      untouched_of_gov(1) [OF untouched_gov_authority])

lemma untouched_core_open_decision: "untouched core (open_decision a)"
  unfolding open_decision_def insert_governance_decision_def append_governance_decision_event_def Let_def
  by (intro frames) (simp_all add: core_def)

subsection \<open>Deciding\<close>

abbreviation is_decision :: "governance_decision \<Rightarrow> governance_decision \<Rightarrow> bool" where
  "is_decision d e \<equiv> gd_project_human_id e = gd_project_human_id d \<and>
     gd_decision_human_id e = gd_decision_human_id d"

lemma open_row_success:
  assumes "open_row p h s = (Inr d, t)"
  shows "t = s" "gd_status d = ''OPEN''" "d \<in> set (decisions s)"
    "require_safe_id p = Inr (gd_project_human_id d)" "require_safe_id h = Inr (gd_decision_human_id d)"
    "get_governance_decision p h s = (Inr (Some d), s)"
proof -
  show "t = s" using untouched_eq [OF untouched_open_row assms, of "\<lambda>s. s"] by simp
  have row: "get_governance_decision p h s = (Inr (Some d), s)" "gd_status d = ''OPEN''"
    using assms untouchedD [OF untouched_get_governance_decision, of "\<lambda>s. s" p h s]
    by (auto simp: open_row_def bindS_def raiseS_def returnS_def
        split: prod.splits sum.splits option.splits if_splits)
  then show "gd_status d = ''OPEN''" "get_governance_decision p h s = (Inr (Some d), s)" by auto
  obtain project hid where ids: "require_safe_id p = Inr project" "require_safe_id h = Inr hid"
    and found: "find_row (\<lambda>d. gd_project_human_id d = project \<and> gd_decision_human_id d = hid) (decisions s) = Some d"
    using row(1) by (auto simp: get_governance_decision_def op_simps split: sum.splits if_splits)
  from find_row_SomeD [OF found] ids show "d \<in> set (decisions s)"
    "require_safe_id p = Inr (gd_project_human_id d)" "require_safe_id h = Inr (gd_decision_human_id d)" by auto
qed

lemma get_governance_decision_eq:
  assumes "require_safe_id p = Inr project" "require_safe_id h = Inr hid"
  shows "get_governance_decision p h s =
     (if (case decision_by_id hid s of None \<Rightarrow> True | Some d \<Rightarrow> gd_project_human_id d = project)
      then (Inr (find_row (\<lambda>d. gd_project_human_id d = project \<and> gd_decision_human_id d = hid) (decisions s)), s)
      else (Inl CrossProjectWriteError, s))"
  using assms by (simp add: get_governance_decision_def op_simps)

lemma decided_row_keys [simp]:
  "gd_project_human_id (decided_row st b r res now d) = gd_project_human_id d"
  "gd_decision_human_id (decided_row st b r res now d) = gd_decision_human_id d"
  "gd_status (decided_row st b r res now d) = st"
  "gd_action (decided_row st b r res now d) = gd_action d"
  "gd_target_human_id (decided_row st b r res now d) = gd_target_human_id d"
  "gd_decided_by (decided_row st b r res now d) = Some b"
  "gd_execution_result (decided_row st b r res now d) = res"
  by (simp_all add: decided_row_def)

lemma update_governance_decision_eq:
  fixes st b r :: string and res :: "string option"
  assumes row: "open_row p h s = (Inr d, s)" and u: "decisions u = decisions s"
  defines "d' \<equiv> decided_row st b r res (now_iso u) d"
    and "t \<equiv> u\<lparr>decisions := update_where (is_decision d) (decided_row st b r res (now_iso u)) (decisions u)\<rparr>"
  shows "update_governance_decision (gd_project_human_id d) (gd_decision_human_id d) st b r res u = (Inr d', t)"
    and "decisions v = decisions t \<Longrightarrow> get_governance_decision p h v = (Inr (Some d'), v)"
proof -
  let ?f = "decided_row st b r res (now_iso u)"
  note o = open_row_success [OF row]
  have own: "require_safe_id (gd_project_human_id d) = Inr (gd_project_human_id d)"
    "require_safe_id (gd_decision_human_id d) = Inr (gd_decision_human_id d)"
    using require_safe_id_cases(4) [OF o(4)] require_safe_id_cases(4) [OF o(5)] by simp_all
  have got: "case decision_by_id (gd_decision_human_id d) s of None \<Rightarrow> True
      | Some x \<Rightarrow> gd_project_human_id x = gd_project_human_id d"
    "find_row (is_decision d) (decisions s) = Some d"
    using o(6) get_governance_decision_eq [OF o(4,5), of s] by (auto split: if_splits)
  have "decision_by_id (gd_decision_human_id d) t =
      map_option (\<lambda>x. if is_decision d x then ?f x else x) (decision_by_id (gd_decision_human_id d) s)"
    unfolding decision_by_id_def t_def by (simp add: u find_row_update_where)
  then have foreign: "case decision_by_id (gd_decision_human_id d) t of None \<Rightarrow> True
      | Some x \<Rightarrow> gd_project_human_id x = gd_project_human_id d"
    using got(1) by (auto split: option.splits)
  have found: "find_row (is_decision d) (decisions t) = Some d'"
    using got(2) by (simp add: t_def u d'_def find_row_update_same)
  show "update_governance_decision (gd_project_human_id d) (gd_decision_human_id d) st b r res u = (Inr d', t)"
    using own foreign found
    by (simp add: update_governance_decision_def op_simps get_governance_decision_eq t_def [symmetric])
  show "get_governance_decision p h v = (Inr (Some d'), v)" if "decisions v = decisions t"
    using get_governance_decision_eq [OF o(4,5), of v] foreign found that by (simp add: decision_by_id_def)
qed

lemma untouched_decisions_append [frames]: "untouched decisions (append_governance_decision_event p h e a r)"
  unfolding append_governance_decision_event_def by (intro frames) simp

lemma untouched_jobs_append [frames]: "untouched jobs (append_governance_decision_event p h e a r)"
  unfolding append_governance_decision_event_def by (intro frames) simp

lemma untouched_controls_append [frames]: "untouched controls (append_governance_decision_event p h e a r)"
  unfolding append_governance_decision_event_def by (intro frames) simp

text \<open>What decides a decision: after the checks the row is rewritten, and events are added.\<close>

definition decides ::
    "string \<Rightarrow> string \<Rightarrow> bool \<Rightarrow> string \<Rightarrow> string \<Rightarrow> string \<Rightarrow> string option \<Rightarrow> db \<Rightarrow> db \<Rightarrow> governance_decision \<Rightarrow> db \<Rightarrow> bool" where
  "decides p h confirmed actor reason st res s u d t \<longleftrightarrow> confirmed \<and> open_row p h s = (Inr d, s) \<and>
     (\<exists>a r. clean_actor actor = Inr a \<and> clean_text reason 2000 = Inr r \<and> decisions u = decisions s \<and>
       decisions t = update_where (is_decision d) (decided_row st a r res (now_iso u)) (decisions u) \<and>
       get_governance_decision p h t = (Inr (Some (decided_row st a r res (now_iso u) d)), t)) \<and>
     jobs t = jobs u \<and> controls t = controls u"

lemma approve_decision_cases:
  assumes "approve_decision p h c actor reason s = (Inr (d', evs), t)"
  obtains d r res u where "clean_text reason 2000 = Inr r" "apply_approved_action d r s = (Inr res, u)"
    "decides p h c actor reason ''APPROVED'' (Some res) s u d t" "get_governance_decision p h t = (Inr (Some d'), t)"
proof -
  obtain a r d res u upd v where run: "c" "clean_actor actor = Inr a" "clean_text reason 2000 = Inr r"
      "open_row p h s = (Inr d, s)" "apply_approved_action d r s = (Inr res, u)"
      "update_governance_decision (gd_project_human_id d) (gd_decision_human_id d) ''APPROVED'' a r (Some res) u = (Inr upd, v)"
    and tail: "thenS (append_governance_decision_event (gd_project_human_id upd) (gd_decision_human_id upd)
        ''approved'' (Some a) (Some r)) (thenS (append_governance_decision_event (gd_project_human_id upd)
        (gd_decision_human_id upd) ''executed'' (Some a) (Some res)) (with_events upd)) v = (Inr (d', evs), t)"
      (is "?tail v = _")
    using assms open_row_success(1)
    by (simp add: approve_decision_def op_simps bindS_eq_Inr_iff [of "open_row p h"]
          bindS_eq_Inr_iff [of "apply_approved_action _ _"]
          bindS_eq_Inr_iff [of "update_governance_decision _ _ _ _ _ _"]
        split: if_splits sum.splits) blast
  have u: "decisions u = decisions s" using untouched_eq [OF untouched_decisions_apply run(5)] .
  note upd = update_governance_decision_eq
    [where st = "''APPROVED''" and b = a and r = r and res = "Some res", OF run(4) u]
  have v: "upd = decided_row ''APPROVED'' a r (Some res) (now_iso u) d"
    "v = u\<lparr>decisions := update_where (is_decision d) (decided_row ''APPROVED'' a r (Some res) (now_iso u)) (decisions u)\<rparr>"
    using upd(1) run(6) by simp_all
  have frame: "decisions t = decisions v" "jobs t = jobs v" "controls t = controls v"
    using tail by (auto intro!: untouched_eq [of _ ?tail v] frames)
  have "d' = upd" using tail by (auto simp: op_simps with_events_def bindS_eq_Inr_iff returnS_def thenS_def)
  moreover have "get_governance_decision p h t = (Inr (Some upd), t)"
    using upd(2) [of t] frame(1) v by simp
  moreover have "decides p h c actor reason ''APPROVED'' (Some res) s u d t"
    using run u v frame calculation by (simp add: decides_def)
  ultimately show ?thesis using that run by blast
qed

lemma reject_decision_cases:
  assumes "reject_decision p h c actor reason s = (Inr (d', evs), t)"
  obtains d where "decides p h c actor reason ''REJECTED'' None s s d t"
    "get_governance_decision p h t = (Inr (Some d'), t)"
proof -
  obtain a r d upd v where run: "c" "clean_actor actor = Inr a" "clean_text reason 2000 = Inr r"
      "open_row p h s = (Inr d, s)"
      "update_governance_decision (gd_project_human_id d) (gd_decision_human_id d) ''REJECTED'' a r None s = (Inr upd, v)"
    and tail: "thenS (append_governance_decision_event (gd_project_human_id upd) (gd_decision_human_id upd)
        ''rejected'' (Some a) (Some r)) (with_events upd) v = (Inr (d', evs), t)"
      (is "?tail v = _")
    using assms open_row_success(1)
    by (simp add: reject_decision_def op_simps bindS_eq_Inr_iff [of "open_row p h"]
          bindS_eq_Inr_iff [of "update_governance_decision _ _ _ _ _ _"]
        split: if_splits sum.splits) blast
  note upd = update_governance_decision_eq
    [where st = "''REJECTED''" and b = a and r = r and res = None, OF run(4) refl]
  have v: "upd = decided_row ''REJECTED'' a r None (now_iso s) d"
    "v = s\<lparr>decisions := update_where (is_decision d) (decided_row ''REJECTED'' a r None (now_iso s)) (decisions s)\<rparr>"
    using upd(1) run(5) by simp_all
  have frame: "decisions t = decisions v" "jobs t = jobs v" "controls t = controls v"
    using tail by (auto intro!: untouched_eq [of _ ?tail v] frames)
  have "d' = upd" using tail by (auto simp: op_simps with_events_def bindS_eq_Inr_iff returnS_def thenS_def)
  moreover have "get_governance_decision p h t = (Inr (Some upd), t)"
    using upd(2) [of t] frame(1) v by simp
  moreover have "decides p h c actor reason ''REJECTED'' None s s d t"
    using run v frame calculation by (simp add: decides_def)
  ultimately show ?thesis using that by blast
qed

text \<open>Every way to refuse a decision that is not open raises \<^verbatim>\<open>OrchestrationError\<close> before anything is
  written.\<close>

lemma decided_refuses:
  assumes "get_governance_decision p h t = (Inr (Some d), t)" "gd_status d \<noteq> ''OPEN''"
  shows "approve_decision p h c a r t = (Inl OrchestrationError, t)"
    and "reject_decision p h c a r t = (Inl OrchestrationError, t)"
proof -
  have no: "open_row p h t = (Inl OrchestrationError, t)"
    using assms by (simp add: open_row_def op_simps)
  have e: "clean_actor a = Inl e \<Longrightarrow> e = OrchestrationError" "clean_text r 2000 = Inl e \<Longrightarrow> e = OrchestrationError" for e
    by (auto simp: clean_actor_def clean_text_def Let_def split: if_splits)
  show "approve_decision p h c a r t = (Inl OrchestrationError, t)"
    using no e by (auto simp: approve_decision_def op_simps split: sum.split)
  show "reject_decision p h c a r t = (Inl OrchestrationError, t)"
    using no e by (auto simp: reject_decision_def op_simps split: sum.split)
qed

subsection \<open>Opening\<close>

text \<open>What opening adds: nothing, or one OPEN row for an action and target that had none.\<close>

definition opened_row :: "db \<Rightarrow> governance_decision \<Rightarrow> bool" where
  "opened_row s d \<longleftrightarrow> gd_status d = ''OPEN'' \<and> gd_action d \<in> set ACTIONS \<and> gd_decided_at d = None \<and>
     gd_id d = decision_seq s + 1 \<and> decision_by_id (gd_decision_human_id d) s = None \<and>
     find_row (open_for (gd_project_human_id d) (gd_action d) (gd_target_human_id d)) (rev (decisions s)) = None"

lemma bindS_pure:
  assumes "untouched (\<lambda>s. s) m"
  shows "bindS m f s = (case fst (m s) of Inl e \<Rightarrow> (Inl e, s) | Inr x \<Rightarrow> f x s)"
  using untouchedD [OF assms, of s] by (auto simp: bindS_def split: prod.splits sum.splits)

lemma snd_bindS_reads: "(\<And>x. untouched (\<lambda>s. s) (f x)) \<Longrightarrow> snd (bindS m f s) = snd (m s)"
  by (auto simp: bindS_def untouched_def split: prod.split sum.split)

lemma insert_governance_decision_result:
  assumes "find_row (open_for project action target) (rev (decisions s)) = None"
    "require_safe_id project = Inr project"
  shows "decisions (snd (insert_governance_decision hid0 project action kind target reason impact by_whom s)) = decisions s \<or>
    (\<exists>d. decisions (snd (insert_governance_decision hid0 project action kind target reason impact by_whom s)) = decisions s @ [d] \<and>
      opened_row s d)"
proof (cases "require_safe_id hid0")
  case (Inl e)
  then show ?thesis using assms(2) by (simp add: insert_governance_decision_def op_simps)
next
  case (Inr hid)
  show ?thesis
  proof (cases "decision_by_id hid s = None \<and> action \<in> set ACTIONS \<and> kind \<in> set TARGET_KINDS")
    case False
    then have "decisions (snd (insert_governance_decision hid0 project action kind target reason impact by_whom s)) = decisions s"
      using assms(2) Inr by (auto simp: insert_governance_decision_def op_simps)
    then show ?thesis by blast
  next
    case True
    let ?d = "\<lparr>gd_id = decision_seq s + 1, gd_decision_human_id = hid, gd_project_human_id = project,
            gd_action = action, gd_target_kind = kind, gd_target_human_id = target,
            gd_reason = reason, gd_impact = impact, gd_requested_by = by_whom, gd_status = ''OPEN'',
            gd_decided_by = None, gd_decision_reason = None, gd_execution_result = None,
            gd_created_at = now_iso s, gd_updated_at = now_iso s, gd_decided_at = None\<rparr>"
    have "decisions (snd (insert_governance_decision hid0 project action kind target reason impact by_whom s)) = decisions s @ [?d]"
      using assms(2) Inr True
      by (simp add: insert_governance_decision_def op_simps append_governance_decision_event_def)
         (subst snd_bindS_reads, auto intro!: frames split: option.split
            simp: untouchedD [OF untouched_get_governance_decision, of decisions])
    moreover have "opened_row s ?d" using True assms(1) by (simp add: opened_row_def)
    ultimately show ?thesis by blast
  qed
qed

definition open_new :: "open_args \<Rightarrow> string \<Rightarrow> string option \<Rightarrow> envelope dbop" where
  "open_new a project target =
     bindS new_uuid (\<lambda>hex.
     bindS (liftS (clean_text (oa_reason a) 2000)) (\<lambda>reason.
     bindS (liftS (clean_text (oa_impact a) 2000)) (\<lambda>impact.
     bindS (liftS (clean_actor (oa_requested_by a))) (\<lambda>requested_by.
     bindS (insert_governance_decision (''DEC-'' @ take 12 hex) project (py_strip (oa_action a))
         (py_strip (if oa_target_kind a = [] then ''none'' else oa_target_kind a)) target reason impact
         requested_by) with_events))))"

lemma open_new_result:
  assumes "find_row (open_for project (py_strip (oa_action a)) target) (rev (decisions s)) = None"
    "require_safe_id project = Inr project"
  shows "decisions (snd (open_new a project target s)) = decisions s \<or>
    (\<exists>d. decisions (snd (open_new a project target s)) = decisions s @ [d] \<and> opened_row s d)"
proof -
  let ?u = "s\<lparr>uuid_next := Suc (uuid_next s)\<rparr>"
  have u: "opened_row ?u d = opened_row s d" "decisions ?u = decisions s" for d
    by (simp_all add: opened_row_def decision_by_id_def)
  have w: "snd (bindS m with_events v) = snd (m v)" for m v
    by (rule snd_bindS_reads) (rule untouched_with_events)
  have start: "open_new a project target s = (bindS (liftS (clean_text (oa_reason a) 2000)) (\<lambda>reason.
     bindS (liftS (clean_text (oa_impact a) 2000)) (\<lambda>impact.
     bindS (liftS (clean_actor (oa_requested_by a))) (\<lambda>requested_by.
     bindS (insert_governance_decision (''DEC-'' @ take 12 (uuids s (uuid_next s))) project (py_strip (oa_action a))
         (py_strip (if oa_target_kind a = [] then ''none'' else oa_target_kind a)) target reason impact
         requested_by) with_events)))) ?u"
    unfolding open_new_def by (rule bindS_Inr) (simp add: new_uuid_def)
  show ?thesis
    using insert_governance_decision_result [of project "py_strip (oa_action a)" target ?u] assms u
    unfolding start bindS_liftS
    by (auto simp: w split: sum.split)
qed

lemma open_search_result:
  fixes act kind :: string and target :: "string option" and m :: "envelope dbop"
  assumes "require_safe_id project = Inr project"
  defines "rest \<equiv> thenS (check_target project act kind target)
     (bindS (find_open_governance_decision project (py_strip act) target) (\<lambda>existing.
        case existing of Some d \<Rightarrow> with_events d | None \<Rightarrow> m))"
  shows "snd (rest s) = s \<or>
    find_row (open_for project (py_strip act) target) (rev (decisions s)) = None \<and> rest s = m s"
proof -
  have w: "snd (with_events d v) = v" for d v using untouchedD [OF untouched_with_events, of "\<lambda>s. s"] .
  show ?thesis
    unfolding rest_def thenS_apply bindS_pure [OF untouched_check_target]
    using assms(1)
    by (auto simp: find_open_governance_decision_def bindS_assoc op_simps w split: sum.split option.split)
qed

lemma open_decision_result:
  "decisions (snd (open_decision a s)) = decisions s \<or>
    (\<exists>d. decisions (snd (open_decision a s)) = decisions s @ [d] \<and> opened_row s d)"
proof (cases "require_safe_id (oa_project_human_id a)")
  case (Inl e)
  then show ?thesis by (simp add: open_decision_def op_simps)
next
  case (Inr project)
  let ?kind = "py_strip (if oa_target_kind a = [] then ''none'' else oa_target_kind a)"
  let ?tm = "if truthy_str (oa_target_human_id a)
     then bindS (liftS (require_safe_id (str_of (oa_target_human_id a)))) (\<lambda>t. returnS (Some t))
     else returnS None"
  let ?rest = "\<lambda>target. thenS (check_target project (oa_action a) ?kind target)
     (bindS (find_open_governance_decision project (py_strip (oa_action a)) target) (\<lambda>existing.
        case existing of Some d \<Rightarrow> with_events d | None \<Rightarrow> open_new a project target))"
  have safe: "require_safe_id project = Inr project" using require_safe_id_cases(4) [OF Inr] .
  have eq: "open_decision a s = thenS (guardS (py_strip (oa_action a) \<in> set ACTIONS) OrchestrationError)
      (thenS (guardS (?kind \<in> set TARGET_KINDS) OrchestrationError) (bindS ?tm ?rest)) s"
    unfolding open_decision_def open_new_def bindS_liftS Inr sum.case Let_def by (rule refl)
  have tm: "untouched (\<lambda>s. s) ?tm" by (intro frames)
  consider "snd (open_decision a s) = s" | target where "open_decision a s = ?rest target s"
  proof (cases "py_strip (oa_action a) \<in> set ACTIONS \<and> ?kind \<in> set TARGET_KINDS")
    case False
    then have "snd (open_decision a s) = s" unfolding eq by (simp only: thenS_apply bindS_guardS) simp
    then show ?thesis using that(1) by blast
  next
    case True
    then have "open_decision a s = (case fst (?tm s) of Inl e \<Rightarrow> (Inl e, s) | Inr x \<Rightarrow> ?rest x s)"
      unfolding eq by (simp only: thenS_apply bindS_guardS bindS_pure [OF tm] if_True)
    then show ?thesis using that by (cases "fst (?tm s)") (simp_all only: sum.case snd_conv)
  qed
  then show ?thesis
  proof cases
    case (2 target)
    from open_search_result [where act = "oa_action a" and kind = ?kind and target = target
        and m = "open_new a project target" and s = s, OF safe]
    show ?thesis
      using open_new_result [OF _ safe, of a target s] 2 by auto
  qed simp
qed

section \<open>The machine of decisions\<close>

text \<open>Requests that open, approve or reject, each in its own transaction, between any steps of the rest of
  the program, which leaves the table of decisions alone.\<close>

inductive decision_step :: "db \<Rightarrow> db \<Rightarrow> bool" where
  other: "decisions t = decisions s \<Longrightarrow> decision_step s t"
| open_one: "decision_step s (snd (transaction (open_decision a) s))"
| intake: "decision_step s (snd (transaction (record_intake_decisions p items by_whom) s))"
| approving: "decision_step s (snd (transaction (approve_decision p h c actor reason) s))"
| rejecting: "decision_step s (snd (transaction (reject_decision p h c actor reason) s))"

definition decision_start :: "db \<Rightarrow> bool" where
  "decision_start s \<longleftrightarrow> decisions s = []"

definition decisions_inv :: "db \<Rightarrow> bool" where
  "decisions_inv s \<longleftrightarrow> distinct (map gd_decision_human_id (decisions s)) \<and>
     (\<forall>d \<in> set (decisions s). gd_status d \<in> set DECISION_STATUSES \<and>
        (gd_status d = ''OPEN'' \<longleftrightarrow> gd_decided_at d = None)) \<and>
     (\<forall>d \<in> set (decisions s). \<forall>e \<in> set (decisions s). gd_status d = ''OPEN'' \<and>
        open_for (gd_project_human_id d) (gd_action d) (gd_target_human_id d) e \<longrightarrow> e = d)"

lemma decisions_inv_open:
  assumes "decisions_inv s" "opened_row s d" "decisions t = decisions s @ [d]"
  shows "decisions_inv t"
proof -
  have none: "\<forall>e \<in> set (decisions s). \<not> open_for (gd_project_human_id d) (gd_action d) (gd_target_human_id d) e"
    and fresh: "gd_decision_human_id d \<notin> gd_decision_human_id ` set (decisions s)"
    and d: "gd_status d = ''OPEN''" "gd_decided_at d = None"
    using assms(2) by (auto simp: opened_row_def find_row_None_iff decision_by_id_def)
  have sym: "\<not> open_for (gd_project_human_id e) (gd_action e) (gd_target_human_id e) d"
    if "e \<in> set (decisions s)" "gd_status e = ''OPEN''" for e
    using none that d by (auto simp: open_for_def)
  show ?thesis
    unfolding decisions_inv_def assms(3)
    using assms(1) none fresh d sym by (auto simp: decisions_inv_def DECISION_STATUSES_def)
qed

lemma decisions_inv_decided:
  assumes "decisions_inv s" "decisions t = update_where (is_decision d) (decided_row st a r res now) (decisions s)"
    "st \<in> {''APPROVED'', ''REJECTED''}"
  shows "decisions_inv t"
proof -
  let ?f = "\<lambda>e. if is_decision d e then decided_row st a r res now e else e"
  have st: "st \<in> set DECISION_STATUSES" "st \<noteq> ''OPEN''" using assms(3) by (auto simp: DECISION_STATUSES_def)
  have ids: "map gd_decision_human_id (decisions t) = map gd_decision_human_id (decisions s)"
    unfolding assms(2) by (rule map_update_where) simp
  have keep: "?f e = e" if "gd_status (?f e) = ''OPEN''" for e using that st by (auto split: if_splits)
  have rows: "\<forall>e \<in> set (decisions t). gd_status e \<in> set DECISION_STATUSES \<and>
      (gd_status e = ''OPEN'' \<longleftrightarrow> gd_decided_at e = None)"
    using assms(1) st unfolding assms(2) ball_update_where
    by (auto simp: decisions_inv_def decided_row_def)
  have "e = d0" if e: "d0 \<in> set (decisions t)" "e \<in> set (decisions t)" "gd_status d0 = ''OPEN''"
      "open_for (gd_project_human_id d0) (gd_action d0) (gd_target_human_id d0) e" for d0 e
  proof -
    have "gd_status e = ''OPEN''" using e(4) by (simp add: open_for_def)
    then have "d0 \<in> set (decisions s)" "e \<in> set (decisions s)"
      using e(1-3) keep unfolding assms(2) set_update_where by force+
    then show ?thesis using assms(1) e(3,4) by (auto simp: decisions_inv_def)
  qed
  with ids rows assms(1) show ?thesis by (auto simp: decisions_inv_def)
qed

lemma decides_inv:
  assumes "decisions_inv s" "decides p h c actor reason st res s u d t" "st \<in> {''APPROVED'', ''REJECTED''}"
  shows "decisions_inv t"
proof -
  obtain a r where "decisions t = update_where (is_decision d) (decided_row st a r res (now_iso u)) (decisions s)"
    using assms(2) by (auto simp: decides_def)
  from decisions_inv_decided [OF assms(1) this assms(3)] show ?thesis .
qed

lemma keeps_open_decision: "keeps decisions_inv (open_decision a)"
proof (rule keepsI)
  fix s assume inv: "decisions_inv s"
  from open_decision_result [of a s] show "decisions_inv (snd (open_decision a s))"
  proof
    assume "decisions (snd (open_decision a s)) = decisions s"
    with inv show ?thesis by (simp add: decisions_inv_def)
  next
    assume "\<exists>d. decisions (snd (open_decision a s)) = decisions s @ [d] \<and> opened_row s d"
    then show ?thesis using decisions_inv_open [OF inv] by blast
  qed
qed

lemma keeps_record_intake: "keeps decisions_inv (record_intake_decisions p items by_whom)"
  unfolding record_intake_decisions_def by (intro keeps_mapS keeps_open_decision)

lemma decision_step_inv: "decision_step s t \<Longrightarrow> decisions_inv s \<Longrightarrow> decisions_inv t"
proof (induction rule: decision_step.induct)
  case (other t s)
  then show ?case by (simp add: decisions_inv_def)
next
  case (open_one s a)
  then show ?case by (rule transaction_keeps) (rule keeps_eq [OF keeps_open_decision open_one])
next
  case (intake s p items by_whom)
  then show ?case by (rule transaction_keeps) (rule keeps_eq [OF keeps_record_intake intake])
next
  case (approving s p h c actor reason)
  then show ?case
  proof (rule transaction_keeps)
    fix x t assume "approve_decision p h c actor reason s = (Inr x, t)"
    then show "decisions_inv t" by (cases x) (auto elim!: approve_decision_cases intro: decides_inv [OF approving])
  qed
next
  case (rejecting s p h c actor reason)
  then show ?case
  proof (rule transaction_keeps)
    fix x t assume "reject_decision p h c actor reason s = (Inr x, t)"
    then show "decisions_inv t" by (cases x) (auto elim!: reject_decision_cases intro: decides_inv [OF rejecting])
  qed
qed

interpretation decision_machine: invariant_machine decision_start decision_step decisions_inv
  by unfold_locales (simp add: decision_start_def decisions_inv_def, rule decision_step_inv)

section \<open>What an approval changes\<close>

lemma require_job_success:
  assumes "require_job p h s = (Inr j, t)"
  shows "t = s" "get_job_by_human_id h s = Some j" "j_project_human_id j = p"
  using assms by (auto simp: require_job_def op_simps raiseS_def returnS_def split: option.splits if_splits)

text \<open>The state after the action of decision \<open>d\<close> has been carried out.\<close>

definition action_effect :: "governance_decision \<Rightarrow> string \<Rightarrow> db \<Rightarrow> db \<Rightarrow> bool" where
  "action_effect d reason s t \<longleftrightarrow>
     (if gd_action d = ''cancel_job'' then controls t = controls s \<and>
        (\<exists>j. get_job_by_human_id (case gd_target_human_id d of None \<Rightarrow> ''None'' | Some h \<Rightarrow> h) s = Some j \<and>
           j_project_human_id j = gd_project_human_id d \<and> j_status j \<notin> set TERMINAL_STATUSES \<and>
           jobs t = update_where (\<lambda>k. j_id k = j_id j) (cancelled_row reason (now_iso s)) (jobs s))
      else if gd_action d = ''release_approve'' then controls t = controls s \<and>
        (\<exists>j. get_job_by_human_id (case gd_target_human_id d of None \<Rightarrow> ''None'' | Some h \<Rightarrow> h) s = Some j \<and>
           j_project_human_id j = gd_project_human_id d \<and> j_queue j = ''RELEASE'' \<and>
           jobs t = update_where (\<lambda>k. j_id k = j_id j) (authority_row ''approved'' (now_iso s)) (jobs s))
      else jobs t = jobs s \<and>
        (if gd_action d = ''governance_change''
         then \<forall>q. is_project_paused q t \<longleftrightarrow> q = gd_project_human_id d \<or> is_project_paused q s
         else controls t = controls s))"

lemma apply_approved_action_effect:
  assumes inv: "store_inv s" and run: "apply_approved_action d reason s = (Inr res, t)"
  shows "action_effect d reason s t"
proof -
  let ?h = "case gd_target_human_id d of None \<Rightarrow> ''None'' | Some h \<Rightarrow> h"
  have byid: "job_by_id (j_id j) s = Some j" if "get_job_by_human_id h s = Some j" for h j
    using that inv by (auto simp: store_inv_human_id store_inv_job_by_id)
  consider "gd_action d = ''cancel_job''" | "gd_action d = ''release_approve''" | "gd_action d = ''governance_change''"
    | "gd_action d \<notin> {''cancel_job'', ''release_approve'', ''governance_change''}" by blast
  then show ?thesis
  proof cases
    case 1
    then obtain j k s' where j': "require_job (gd_project_human_id d) ?h s = (Inr j, s')"
        "j_status j \<notin> set TERMINAL_STATUSES" "mark_cancelled (j_id j) reason s' = (Inr k, t)"
      using run
      by (auto simp: apply_approved_action_def Let_def bindS_eq_Inr_iff thenS_def guardS_def returnS_def raiseS_def
          split: if_splits)
    note r = require_job_success [OF j'(1)] and j = j' [unfolded require_job_success(1) [OF j'(1)]]
    have "jobs t = update_where (\<lambda>k. j_id k = j_id j) (cancelled_row reason (now_iso s)) (jobs s)"
      using mark_cancelled_jobs [OF byid [OF r(2)], of reason] j(3) by auto
    moreover have "controls t = controls s"
      using untouched_eq [OF untouched_of_gov(3) [OF untouched_gov_mark_cancelled] j(3)] .
    ultimately show ?thesis using 1 r j(2) by (auto simp: action_effect_def)
  next
    case 2
    then obtain j k s' where j': "require_job (gd_project_human_id d) ?h s = (Inr j, s')" "j_queue j = ''RELEASE''"
        "set_job_sponsor_authority (j_id j) ''approved'' s' = (Inr k, t)"
      using run
      by (auto simp: apply_approved_action_def Let_def bindS_eq_Inr_iff thenS_def guardS_def returnS_def raiseS_def
          split: if_splits)
    note r = require_job_success [OF j'(1)] and j = j' [unfolded require_job_success(1) [OF j'(1)]]
    have "jobs t = update_where (\<lambda>k. j_id k = j_id j) (authority_row ''approved'' (now_iso s)) (jobs s)"
      using set_job_sponsor_authority_jobs [OF byid [OF r(2)], of "''approved''"] j(3) by auto
    moreover have "controls t = controls s"
      using untouched_eq [OF untouched_of_gov(3) [OF untouched_gov_authority] j(3)] .
    ultimately show ?thesis using 2 r j(2) by (auto simp: action_effect_def)
  next
    case 3
    then obtain v where v: "set_project_paused (gd_project_human_id d) True (Some reason) s = (Inr v, t)"
      using run by (auto simp: apply_approved_action_def Let_def bindS_eq_Inr_iff thenS_def returnS_def)
    have t: "t = s\<lparr>controls := upsert_row (\<lambda>c. c_project_human_id c = gd_project_human_id d)
        (\<lambda>_. control_row (gd_project_human_id d) True (Some reason) (now_iso s))
        (control_row (gd_project_human_id d) True (Some reason) (now_iso s)) (controls s)\<rparr>"
      using set_project_paused_run [of "gd_project_human_id d" True "Some reason" s] v by auto
    show ?thesis using 3 paused_after(1) [OF t] t by (auto simp: action_effect_def)
  next
    case 4
    then have "t = s"
      using run by (auto simp: apply_approved_action_def Let_def returnS_def raiseS_def split: if_splits)
    with 4 show ?thesis by (simp add: action_effect_def)
  qed
qed

section \<open>Properties\<close>

definition sample_request :: "string \<Rightarrow> string option \<Rightarrow> open_args" where
  "sample_request action target = \<lparr>oa_project_human_id = ''PRJ-1'', oa_action = action, oa_reason = ''stuck'',
     oa_impact = ''none'', oa_requested_by = ''pm'', oa_target_kind = ''job'', oa_target_human_id = target\<rparr>"

definition sample_open :: db where
  "sample_open = snd (transaction (open_decision (sample_request ''cancel_job'' (Some ''JOB-1''))) sample_store)"

definition sample_approval :: "(exn + envelope) \<times> db" where
  "sample_approval = approve_decision ''PRJ-1'' ''DEC-u'' True ''ann'' ''agreed'' sample_open"

lemma sample_approval_returns: "\<exists>d evs. sample_approval = (Inr (d, evs), snd sample_approval)"
proof -
  have "(case fst sample_approval of Inr _ \<Rightarrow> True | Inl _ \<Rightarrow> False)" by code_simp
  then show ?thesis by (auto simp: prod_eq_iff split: sum.splits)
qed

lemma sample_open_inv: "store_inv sample_open"
proof -
  have "core sample_store = core sample_open"
    unfolding sample_open_def using untouchedD [OF untouched_transaction [OF untouched_core_open_decision]] by simp
  from store_inv_core [OF this store_machine.reach_inv [OF sample_store_reach]] show ?thesis .
qed

text \<open>C37: A decision is taken once, by a confirmed request: when an approval or a rejection returns, the
  request was confirmed and named an actor and a reason, the decision was open before and is
  recorded as decided by that actor, and every later approval or rejection of it raises
  \<^verbatim>\<open>OrchestrationError\<close> and changes nothing.\<close>

theorem decision_is_taken_once:
  assumes "approve_decision p h c actor reason s = (Inr (d, evs), t) \<and> st = ''APPROVED'' \<or>
    reject_decision p h c actor reason s = (Inr (d, evs), t) \<and> st = ''REJECTED''"
  shows "c \<and> (\<exists>a r. clean_actor actor = Inr a \<and> clean_text reason 2000 = Inr r \<and> gd_status d = st \<and>
      gd_decided_by d = Some a \<and> gd_decision_reason d = Some r) \<and>
    (\<exists>d0. open_row p h s = (Inr d0, s) \<and> gd_decision_human_id d0 = gd_decision_human_id d) \<and>
    get_governance_decision p h t = (Inr (Some d), t) \<and>
    approve_decision p h c' actor' reason' t = (Inl OrchestrationError, t) \<and>
    reject_decision p h c' actor' reason' t = (Inl OrchestrationError, t)"
proof -
  obtain res u d0 where dec: "decides p h c actor reason st res s u d0 t"
      and got: "get_governance_decision p h t = (Inr (Some d), t)"
    using assms by (auto elim!: approve_decision_cases reject_decision_cases)
  then obtain a r where ar: "clean_actor actor = Inr a" "clean_text reason 2000 = Inr r"
      and d: "d = decided_row st a r res (now_iso u) d0" and o: "open_row p h s = (Inr d0, s)" and "c"
    by (auto simp: decides_def)
  have "gd_status d \<noteq> ''OPEN''" using assms d by auto
  from decided_refuses [OF got this] show ?thesis
    using ar d o got \<open>c\<close> by (auto simp: decided_row_def)
qed

lemma decision_is_taken_once_witness:
  "reject_decision ''PRJ-1'' ''DEC-u'' True ''bob'' ''no'' (snd sample_approval) =
     (Inl OrchestrationError, snd sample_approval)"
proof -
  obtain d evs where "sample_approval = (Inr (d, evs), snd sample_approval)" using sample_approval_returns by blast
  then have run: "approve_decision ''PRJ-1'' ''DEC-u'' True ''ann'' ''agreed'' sample_open = (Inr (d, evs), snd sample_approval)"
    by (simp add: sample_approval_def)
  have "approve_decision ''PRJ-1'' ''DEC-u'' True ''ann'' ''agreed'' sample_open = (Inr (d, evs), snd sample_approval) \<and>
      ''APPROVED'' = ''APPROVED'' \<or> reject_decision ''PRJ-1'' ''DEC-u'' True ''ann'' ''agreed'' sample_open =
      (Inr (d, evs), snd sample_approval) \<and> ''APPROVED'' = ''REJECTED''" using run by blast
  from decision_is_taken_once [OF this, of True "''bob''" "''no''"] show ?thesis by blast
qed

text \<open>An approval does what its action says and nothing else to jobs and pauses: an approved
  cancellation cancels exactly the target job, which belongs to the decision's project and was not
  finished; an approved release grants the Sponsor's authority to exactly the target, a job of the
  release queue of the project; an approved governance change pauses exactly the project; every
  other approval leaves all jobs and pauses alone.\<close>

theorem approval_does_its_action:
  assumes "store_inv s" "approve_decision p h c actor reason s = (Inr (d, evs), t)"
  shows "\<exists>r. clean_text reason 2000 = Inr r \<and> action_effect d r s t"
proof -
  obtain d0 r res u where run: "clean_text reason 2000 = Inr r" "apply_approved_action d0 r s = (Inr res, u)"
      "decides p h c actor reason ''APPROVED'' (Some res) s u d0 t" "get_governance_decision p h t = (Inr (Some d), t)"
    using assms(2) by (rule approve_decision_cases)
  then have d: "gd_action d = gd_action d0" "gd_target_human_id d = gd_target_human_id d0"
      "gd_project_human_id d = gd_project_human_id d0" "jobs t = jobs u" "controls t = controls u"
    by (auto simp: decides_def)
  have "is_project_paused q t = is_project_paused q u" for q
    using d(5) by (simp add: is_project_paused_def get_orchestration_control_def)
  then have "action_effect d r s t"
    using apply_approved_action_effect [OF assms(1) run(2)] by (simp add: action_effect_def d)
  with run(1) show ?thesis by blast
qed

lemma approval_does_its_action_witness:
  "\<exists>r d. action_effect d r sample_open (snd sample_approval) \<and> r = ''agreed''"
proof -
  obtain d evs where "sample_approval = (Inr (d, evs), snd sample_approval)" using sample_approval_returns by blast
  then have "approve_decision ''PRJ-1'' ''DEC-u'' True ''ann'' ''agreed'' sample_open = (Inr (d, evs), snd sample_approval)"
    by (simp add: sample_approval_def)
  from approval_does_its_action [OF sample_open_inv this]
  obtain r where "clean_text ''agreed'' 2000 = Inr r" "action_effect d r sample_open (snd sample_approval)" by blast
  moreover have "clean_text ''agreed'' 2000 = Inr ''agreed''" by code_simp
  ultimately show ?thesis by auto
qed

text \<open>At most one decision is open for an action and target: in every reachable state of the
  decisions, opened, approved and rejected in any order, two open decisions of a project with the
  same action and target are the same row, and a decision has a time of decision exactly when it is
  not open.\<close>

theorem one_open_decision_per_target:
  assumes "reach decision_start decision_step s" "d \<in> set (decisions s)" "e \<in> set (decisions s)"
  shows "(gd_status d = ''OPEN'' \<and> gd_status e = ''OPEN'' \<and> gd_project_human_id d = gd_project_human_id e \<and>
       gd_action d = gd_action e \<and> str_of (gd_target_human_id d) = str_of (gd_target_human_id e) \<longrightarrow> d = e) \<and>
    gd_status d \<in> {''OPEN'', ''APPROVED'', ''REJECTED''} \<and> (gd_status d = ''OPEN'' \<longleftrightarrow> gd_decided_at d = None)"
  using decision_machine.reach_inv [OF assms(1)] assms(2,3)
  by (fastforce simp: decisions_inv_def open_for_def DECISION_STATUSES_def)

lemma one_open_decision_per_target_witness:
  "gd_status (hd (decisions sample_open)) \<in> {''OPEN'', ''APPROVED'', ''REJECTED''}"
proof -
  have start: "decision_start sample_store" by code_simp
  have "reach decision_start decision_step sample_open"
    unfolding sample_open_def by (rule reach_step [of _ _ sample_store, OF reach_start [of decision_start, OF start]])
      (rule open_one)
  moreover have "decisions sample_open \<noteq> []" by code_simp
  then have "hd (decisions sample_open) \<in> set (decisions sample_open)" by simp
  ultimately show ?thesis using one_open_decision_per_target by blast
qed

text \<open>White space around an action skips its target check: \<^verbatim>\<open>open_decision\<close> strips the action before
  it looks it up but tests the text as given for the actions that need a target, so opening
  \<^verbatim>\<open>cancel_job\<close> without a target is refused, and opening it with a trailing blank records an open
  \<^verbatim>\<open>cancel_job\<close> decision that names no job.\<close>

theorem padded_action_skips_target_check:
  "fst (open_decision (sample_request ''cancel_job'' None) sample_store) = Inl OrchestrationError \<and>
   map (\<lambda>d. (gd_action d, gd_target_human_id d, gd_status d))
     (decisions (snd (open_decision (sample_request ''cancel_job '' None) sample_store))) =
     [(''cancel_job'', None, ''OPEN'')]"
  by (intro conjI; code_simp)

end
