(* ===== verification/Findings.thy ===== *)
theory Findings
  imports Job_Store
begin

text \<open>
  Routing of QA findings (\<^verbatim>\<open>finding_routing.py\<close>) and the choice of who executes the remediation
  (\<^verbatim>\<open>remediation_capability.py\<close>): a finding is a dictionary, its category is given or classified from
  the assessor and the observed text, an owner is routed from it, and findings are grouped by the agent
  and queue that execute them. The lemmas show that routing is total and closed over the known agents, and
  that grouping is a partition that keeps the order of the findings.
\<close>

section \<open>Actors and categories\<close>

definition ACTOR_PM :: string where "ACTOR_PM = ''pm-agent''"
definition ACTOR_ARCHITECTURE :: string where "ACTOR_ARCHITECTURE = ''architecture-agent''"
definition ACTOR_DEVELOPER :: string where "ACTOR_DEVELOPER = ''developer-agent''"
definition ACTOR_QA :: string where "ACTOR_QA = ''qa-agent''"
definition ACTOR_SECURITY :: string where "ACTOR_SECURITY = ''security-agent''"
definition ACTOR_DELIVERY :: string where "ACTOR_DELIVERY = ''delivery-agent''"
definition ACTOR_RELEASE :: string where "ACTOR_RELEASE = ''release-agent''"

lemmas actor_defs = ACTOR_PM_def ACTOR_ARCHITECTURE_def ACTOR_DEVELOPER_def ACTOR_QA_def
  ACTOR_SECURITY_def ACTOR_DELIVERY_def ACTOR_RELEASE_def

definition CATEGORY_TO_AGENT :: "(string \<times> string) list" where
  "CATEGORY_TO_AGENT =
     [(''SOURCE_CODE_DEFECT'', ACTOR_DEVELOPER), (''ARCHITECTURE_VIOLATION'', ACTOR_ARCHITECTURE),
      (''SECURITY_FINDING'', ACTOR_SECURITY), (''PACKAGING_DEFECT'', ACTOR_DELIVERY),
      (''DELIVERY_CONFIGURATION'', ACTOR_DELIVERY), (''TEST_INFRASTRUCTURE'', ACTOR_DEVELOPER),
      (''RELEASE_CONFIGURATION'', ACTOR_RELEASE), (''DOCUMENTATION_GOVERNANCE'', ACTOR_PM),
      (''UNKNOWN'', ACTOR_PM)]"

definition ASSURANCE_ROLE_CATEGORY :: "(string \<times> string) list" where
  "ASSURANCE_ROLE_CATEGORY =
     [(''ASSURANCE_FUNCTIONAL'', ''SOURCE_CODE_DEFECT''), (''ASSURANCE_INTEGRATION'', ''SOURCE_CODE_DEFECT''),
      (''ASSURANCE_SECURITY'', ''SECURITY_FINDING''), (''ASSURANCE_QUALITY'', ''TEST_INFRASTRUCTURE'')]"

text \<open>\<^verbatim>\<open>_LEGACY_PREFIX_RE.match\<close>; \<^verbatim>\<open>$\<close> also matches before a final newline.\<close>

definition legacy_role :: "string \<Rightarrow> bool" where
  "legacy_role role = (is_prefix ''ASSURANCE_'' role \<and>
     (let ds = drop (length ''ASSURANCE_'') role;
          ds' = (if ds \<noteq> [] \<and> last ds = CHR 0x0A then butlast ds else ds)
      in ds' \<noteq> [] \<and> list_all (\<lambda>c. 48 \<le> (of_char c :: nat) \<and> (of_char c :: nat) \<le> 57) ds'))"

definition classify_finding_category :: "string \<Rightarrow> string \<Rightarrow> string" where
  "classify_finding_category assurance_role actual_condition =
     (let role = py_upper assurance_role; lowered = py_lower actual_condition in
      case map_of ASSURANCE_ROLE_CATEGORY role of
        Some cat \<Rightarrow> cat
      | None \<Rightarrow>
          if py_in ''security'' lowered \<or> py_in ''vuln'' lowered then ''SECURITY_FINDING''
          else if py_in ''architecture'' lowered \<or> py_in ''design'' lowered then ''ARCHITECTURE_VIOLATION''
          else if py_in ''package'' lowered \<or> py_in ''installer'' lowered \<or> py_in ''artifact'' lowered
          then ''PACKAGING_DEFECT''
          else if py_in ''delivery.json'' lowered \<or> py_in ''configuration'' lowered
          then ''DELIVERY_CONFIGURATION''
          else if py_in ''release'' lowered then ''RELEASE_CONFIGURATION''
          else if py_in ''documentation'' lowered \<or> py_in ''governance'' lowered
          then ''DOCUMENTATION_GOVERNANCE''
          else if legacy_role role then ''SOURCE_CODE_DEFECT''
          else ''UNKNOWN'')"

section \<open>Owners\<close>

text \<open>\<^verbatim>\<open>str(d.get(k) or default)\<close>.\<close>

definition field_or :: "dict \<Rightarrow> string \<Rightarrow> string \<Rightarrow> string" where
  "field_or d k dflt = (if truthy (dict_get d k) then py_str (dict_get d k) else dflt)"

definition finding_category :: "dict \<Rightarrow> string" where
  "finding_category finding = field_or finding ''category''
     (classify_finding_category
        (field_or finding ''source_gate_or_review'' (field_or finding ''assurance_role'' []))
        (field_or finding ''actual_condition'' []))"

definition RECOMMENDED_AGENT :: "(string \<times> string) list" where
  "RECOMMENDED_AGENT =
     [(''developer'', ACTOR_DEVELOPER), (''delivery'', ACTOR_DELIVERY), (''architecture'', ACTOR_ARCHITECTURE),
      (''security'', ACTOR_SECURITY), (''qa'', ACTOR_QA), (''release'', ACTOR_RELEASE)]"

definition category_agent :: "string \<Rightarrow> string" where
  "category_agent cat = (case map_of CATEGORY_TO_AGENT cat of None \<Rightarrow> ACTOR_PM | Some a \<Rightarrow> a)"

definition route_finding_to_agent :: "dict \<Rightarrow> string \<times> string" where
  "route_finding_to_agent finding =
     (let category = finding_category finding;
          recommended = py_lower (field_or finding ''recommended_owner_role'' []) in
      case map_of RECOMMENDED_AGENT recommended of
        Some agent \<Rightarrow>
          (agent, ''QA recommended '' @ recommended @ ''; PM routed by category '' @ category)
      | None \<Rightarrow>
          if category = ''UNKNOWN'' then (ACTOR_PM, ''PM evaluating finding with unknown category'')
          else (category_agent category, ''PM routed '' @ category @ '' to '' @ category_agent category))"

section \<open>Execution\<close>

definition EXECUTION_CAPABILITY :: "(string \<times> string \<times> string) list" where
  "EXECUTION_CAPABILITY =
     [(''SOURCE_CODE_DEFECT'', ACTOR_DEVELOPER, ''DELIVERY''), (''ARCHITECTURE_VIOLATION'', ACTOR_DEVELOPER, ''DELIVERY''),
      (''SECURITY_FINDING'', ACTOR_DEVELOPER, ''DELIVERY''), (''PACKAGING_DEFECT'', ACTOR_DELIVERY, ''DELIVERY''),
      (''DELIVERY_CONFIGURATION'', ACTOR_DELIVERY, ''DELIVERY''), (''TEST_INFRASTRUCTURE'', ACTOR_DEVELOPER, ''DELIVERY''),
      (''RELEASE_CONFIGURATION'', ACTOR_RELEASE, ''DELIVERY''), (''DOCUMENTATION_GOVERNANCE'', ACTOR_DEVELOPER, ''DELIVERY''),
      (''UNKNOWN'', ACTOR_DEVELOPER, ''DELIVERY'')]"

text \<open>(finding_owner, assigned_agent, execution_queue, reason).\<close>

definition resolve_remediation_execution :: "dict \<Rightarrow> string \<times> string \<times> string \<times> string" where
  "resolve_remediation_execution finding =
     (case route_finding_to_agent finding of (owner, reason) \<Rightarrow>
      let category = field_or finding ''category'' ''UNKNOWN'' in
      case (case map_of EXECUTION_CAPABILITY category of
              None \<Rightarrow> (ACTOR_DEVELOPER, ''DELIVERY'') | Some c \<Rightarrow> c) of (executor, queue) \<Rightarrow>
      if category \<in> {''SECURITY_FINDING'', ''ARCHITECTURE_VIOLATION''} then
        (owner, executor, queue,
         owner @ '' owns finding; '' @ executor @ '' executes corrective source work'')
      else (owner, (if owner \<in> {ACTOR_DELIVERY, ACTOR_RELEASE} then owner else executor), queue, reason))"

type_synonym bucket = "(string \<times> string) \<times> dict list \<times> string"

text \<open>One round of the loop: \<^verbatim>\<open>buckets.setdefault(key, []).append(...)\<close> and \<^verbatim>\<open>reasons.setdefault(key, reason)\<close>, on
  one association list in insertion order.\<close>

fun add_to_bucket :: "string \<times> string \<Rightarrow> dict \<Rightarrow> string \<Rightarrow> bucket list \<Rightarrow> bucket list" where
  "add_to_bucket key f reason [] = [(key, [f], reason)]"
| "add_to_bucket key f reason ((k, fs, r) # bs) =
     (if k = key then (k, fs @ [f], r) # bs else (k, fs, r) # add_to_bucket key f reason bs)"

definition bucket_step :: "dict \<Rightarrow> bucket list \<Rightarrow> bucket list" where
  "bucket_step finding bs =
     (case resolve_remediation_execution finding of (owner, assigned, queue, reason) \<Rightarrow>
        add_to_bucket (assigned, queue) (dict_set ''finding_owner'' (JStr owner) finding) reason bs)"

definition group_findings_for_remediation :: "dict list \<Rightarrow> (string \<times> string \<times> dict list \<times> string) list" where
  "group_findings_for_remediation findings =
     map (\<lambda>((assigned, queue), fs, reason). (assigned, queue, fs, reason)) (fold bucket_step findings [])"

section \<open>Lemmas\<close>

abbreviation executor_of :: "dict \<Rightarrow> string \<times> string" where
  "executor_of f \<equiv> (case resolve_remediation_execution f of (_, assigned, queue, _) \<Rightarrow> (assigned, queue))"

abbreviation reason_of :: "dict \<Rightarrow> string" where
  "reason_of f \<equiv> snd (snd (snd (resolve_remediation_execution f)))"

abbreviation owned :: "dict \<Rightarrow> dict" where
  "owned f \<equiv> dict_set ''finding_owner'' (JStr (fst (resolve_remediation_execution f))) f"

lemma bucket_step_eq: "bucket_step f bs = add_to_bucket (executor_of f) (owned f) (reason_of f) bs"
  by (simp add: bucket_step_def split: prod.split)

lemma capability_range:
  "map_of EXECUTION_CAPABILITY c = Some (a, q) \<Longrightarrow> a \<in> {ACTOR_DEVELOPER, ACTOR_DELIVERY, ACTOR_RELEASE} \<and> q = ''DELIVERY''"
  by (auto simp: EXECUTION_CAPABILITY_def split: if_splits)

lemma executor_range:
  "executor_of f \<in> {ACTOR_DEVELOPER, ACTOR_DELIVERY, ACTOR_RELEASE} \<times> {''DELIVERY''}"
proof -
  obtain owner reason where route: "route_finding_to_agent f = (owner, reason)" by fastforce
  let ?cat = "field_or f ''category'' ''UNKNOWN''"
  obtain ex q where cap: "(case map_of EXECUTION_CAPABILITY ?cat of
      None \<Rightarrow> (ACTOR_DEVELOPER, ''DELIVERY'') | Some c \<Rightarrow> c) = (ex, q)" by fastforce
  then have "ex \<in> {ACTOR_DEVELOPER, ACTOR_DELIVERY, ACTOR_RELEASE}" "q = ''DELIVERY''"
    using capability_range [of ?cat ex q] by (cases "map_of EXECUTION_CAPABILITY ?cat"; simp)+
  then show ?thesis
    unfolding resolve_remediation_execution_def route prod.case Let_def cap by (simp split: if_split)
qed

lemma category_agent_range: "category_agent c \<in> snd ` set CATEGORY_TO_AGENT"
  by (auto simp: category_agent_def CATEGORY_TO_AGENT_def split: option.splits if_splits)

lemma classify_range: "classify_finding_category role actual \<in> fst ` set CATEGORY_TO_AGENT"
  by (auto simp: classify_finding_category_def Let_def ASSURANCE_ROLE_CATEGORY_def CATEGORY_TO_AGENT_def
      split: option.splits if_splits)

lemma keys_add_to_bucket:
  "map fst (add_to_bucket k f r bs) = (if k \<in> fst ` set bs then map fst bs else map fst bs @ [k])"
  by (induction k f r bs rule: add_to_bucket.induct) auto

lemma set_add_to_bucket:
  assumes "distinct (map fst bs)"
  shows "(k', fs, r') \<in> set (add_to_bucket k f r bs) \<longleftrightarrow>
     (if k' = k then (if k \<in> fst ` set bs then \<exists>fs'. (k, fs', r') \<in> set bs \<and> fs = fs' @ [f]
                      else fs = [f] \<and> r' = r)
      else (k', fs, r') \<in> set bs)"
  using assms
proof (induction k f r bs rule: add_to_bucket.induct)
  case (2 k f r k1 fs1 r1 bs)
  have dist: "distinct (map fst bs)" "k1 \<notin> fst ` set bs" using "2.prems" by simp_all
  show ?case
  proof (cases "k1 = k")
    case True
    have "(k, x, y) \<notin> set bs" for x y using dist(2) True by (metis fst_conv image_eqI)
    with True show ?thesis by auto
  next
    case False
    then show ?thesis using "2.IH" [OF False dist(1)] by auto
  qed
qed auto

lemma fold_buckets:
  defines "key \<equiv> executor_of"
  shows "distinct (map fst (fold bucket_step xs [])) \<and> fst ` set (fold bucket_step xs []) = key ` set xs \<and>
    (\<forall>k fs r. (k, fs, r) \<in> set (fold bucket_step xs []) \<longrightarrow>
       fs = map owned (filter (\<lambda>f. key f = k) xs) \<and> fs \<noteq> [] \<and>
       r = reason_of (hd (filter (\<lambda>f. key f = k) xs)))"
proof (induction xs rule: rev_induct)
  case Nil
  then show ?case by simp
next
  case (snoc f xs)
  let ?bs = "fold bucket_step xs []"
  let ?cs = "add_to_bucket (key f) (owned f) (reason_of f) ?bs"
  have cs: "fold bucket_step (xs @ [f]) [] = ?cs" by (simp add: bucket_step_eq key_def)
  have dist: "distinct (map fst ?bs)" and keys: "fst ` set ?bs = key ` set xs"
    and each: "\<And>k fs r. (k, fs, r) \<in> set ?bs \<Longrightarrow> fs = map owned (filter (\<lambda>f. key f = k) xs) \<and>
        fs \<noteq> [] \<and> r = reason_of (hd (filter (\<lambda>f. key f = k) xs))"
    using snoc by blast+
  have "distinct (map fst ?cs)" using dist by (auto simp: keys_add_to_bucket)
  moreover have "fst ` set ?cs = key ` set (xs @ [f])"
  proof -
    have "set (map fst ?cs) = insert (key f) (set (map fst ?bs))"
      by (simp add: keys_add_to_bucket insert_absorb del: set_map) (simp add: insert_absorb)
    then show ?thesis using keys by simp
  qed
  moreover have "fs = map owned (filter (\<lambda>f. key f = k) (xs @ [f])) \<and> fs \<noteq> [] \<and>
      r = reason_of (hd (filter (\<lambda>f. key f = k) (xs @ [f])))"
    if in_cs: "(k, fs, r) \<in> set ?cs" for k fs r
  proof (cases "k = key f")
    case False
    then have "(k, fs, r) \<in> set ?bs" using in_cs by (simp add: set_add_to_bucket [OF dist])
    with each False show ?thesis by auto
  next
    case True
    show ?thesis
    proof (cases "key f \<in> fst ` set ?bs")
      case old: True
      then obtain fs' where "(k, fs', r) \<in> set ?bs" "fs = fs' @ [owned f]"
        using in_cs True by (auto simp: set_add_to_bucket [OF dist])
      moreover from this(1) have "filter (\<lambda>f. key f = k) xs \<noteq> []" using each by fastforce
      ultimately show ?thesis using each [of k fs' r] True by (simp add: hd_append)
    next
      case new: False
      then have "filter (\<lambda>f. key f = k) xs = []" using keys True by (auto simp: filter_empty_conv image_iff)
      moreover have "fs = [owned f]" "r = reason_of f"
        using in_cs True new by (simp_all add: set_add_to_bucket [OF dist])
      ultimately show ?thesis using True by simp
    qed
  qed
  ultimately show ?case unfolding cs by blast
qed

section \<open>Properties\<close>

text \<open>Grouping is a partition by executor: the groups have different executors, each of them the
  developer, delivery or release agent on the delivery queue, so an assessor is never assigned and
  there are at most three groups; every finding is in the group of its executor, with its owner
  recorded and in the order of the findings; no group is empty, and its reason is that of its first
  finding.\<close>

theorem findings_partitioned_by_executor:
  "(let gs = group_findings_for_remediation findings; key = (\<lambda>(a, q, fs, r). (a, q)) in
    distinct (map key gs) \<and> set (map key gs) = executor_of ` set findings \<and> length gs \<le> 3 \<and>
    (\<forall>(a, q, fs, r) \<in> set gs. a \<in> {ACTOR_DEVELOPER, ACTOR_DELIVERY, ACTOR_RELEASE} \<and> q = ''DELIVERY'' \<and>
       fs = map owned (filter (\<lambda>f. executor_of f = (a, q)) findings) \<and> fs \<noteq> [] \<and>
       r = reason_of (hd (filter (\<lambda>f. executor_of f = (a, q)) findings))))"
proof -
  let ?bs = "fold bucket_step findings []"
  let ?gs = "group_findings_for_remediation findings"
  let ?key = "\<lambda>(a :: string, q :: string, fs :: dict list, r :: string). (a, q)"
  have keys: "map ?key ?gs = map fst ?bs"
    by (simp add: group_findings_for_remediation_def case_prod_beta)
  have set: "(a, q, fs, r) \<in> set ?gs \<longleftrightarrow> ((a, q), fs, r) \<in> set ?bs" for a q fs r
    by (force simp: group_findings_for_remediation_def image_iff)
  note b = fold_buckets [of findings]
  have range: "set (map fst ?bs) \<subseteq> {ACTOR_DEVELOPER, ACTOR_DELIVERY, ACTOR_RELEASE} \<times> {''DELIVERY''}"
    using b executor_range by (metis (no_types, lifting) image_subset_iff set_map)
  have "length ?gs = card (set (map fst ?bs))"
    using distinct_card [OF conjunct1 [OF b]] by (simp add: group_findings_for_remediation_def)
  also have "\<dots> \<le> card ({ACTOR_DEVELOPER, ACTOR_DELIVERY, ACTOR_RELEASE} \<times> {''DELIVERY''})"
    by (rule card_mono [OF _ range]) simp
  also have "\<dots> = 3" by (simp add: actor_defs)
  finally have few: "length ?gs \<le> 3" .
  have ex: "a \<in> {ACTOR_DEVELOPER, ACTOR_DELIVERY, ACTOR_RELEASE} \<and> q = ''DELIVERY''"
    if "(a, q, fs, r) \<in> set ?gs" for a q fs r
  proof -
    have "((a, q), fs, r) \<in> set ?bs" using that set by blast
    then have "(a, q) \<in> set (map fst ?bs)" by (metis fst_conv image_eqI set_map)
    then have "(a, q) \<in> {ACTOR_DEVELOPER, ACTOR_DELIVERY, ACTOR_RELEASE} \<times> {''DELIVERY''}"
      using range by (rule rev_subsetD)
    then show ?thesis by (simp only: mem_Sigma_iff singleton_iff)
  qed
  have rest: "fs = map owned (filter (\<lambda>f. executor_of f = (a, q)) findings) \<and> fs \<noteq> [] \<and>
      r = reason_of (hd (filter (\<lambda>f. executor_of f = (a, q)) findings))"
    if "(a, q, fs, r) \<in> set ?gs" for a q fs r
    using b [THEN conjunct2, THEN conjunct2, rule_format, OF iffD1 [OF set that]] .
  have "distinct (map ?key ?gs)" "set (map ?key ?gs) = executor_of ` set findings"
    using b unfolding keys by simp_all
  moreover have "\<forall>(a, q, fs, r) \<in> set ?gs. a \<in> {ACTOR_DEVELOPER, ACTOR_DELIVERY, ACTOR_RELEASE} \<and>
      q = ''DELIVERY'' \<and> fs = map owned (filter (\<lambda>f. executor_of f = (a, q)) findings) \<and> fs \<noteq> [] \<and>
      r = reason_of (hd (filter (\<lambda>f. executor_of f = (a, q)) findings))"
  proof (intro ballI, unfold split_paired_all prod.case)
    fix a q fs r assume "(a, q, fs, r) \<in> set ?gs"
    from ex [OF this] rest [OF this] show "a \<in> {ACTOR_DEVELOPER, ACTOR_DELIVERY, ACTOR_RELEASE} \<and>
      q = ''DELIVERY'' \<and> fs = map owned (filter (\<lambda>f. executor_of f = (a, q)) findings) \<and> fs \<noteq> [] \<and>
      r = reason_of (hd (filter (\<lambda>f. executor_of f = (a, q)) findings))" by blast
  qed
  ultimately show ?thesis unfolding Let_def using few by blast
qed

lemma findings_partitioned_by_executor_witness:
  "length (group_findings_for_remediation [[(''category'', JStr ''SECURITY_FINDING'')],
      [(''category'', JStr ''PACKAGING_DEFECT'')], [(''recommended_owner_role'', JStr ''qa'')]]) \<le> 3 \<and>
   executor_of [(''recommended_owner_role'', JStr ''qa'')] = (ACTOR_DEVELOPER, ''DELIVERY'')"
proof -
  have "executor_of [(''recommended_owner_role'', JStr ''qa'')] = (ACTOR_DEVELOPER, ''DELIVERY'')" by code_simp
  then show ?thesis
    using findings_partitioned_by_executor [of "[[(''category'', JStr ''SECURITY_FINDING'')],
      [(''category'', JStr ''PACKAGING_DEFECT'')], [(''recommended_owner_role'', JStr ''qa'')]]"]
    unfolding Let_def by blast
qed

end
