(* ===== verification/Remediation.thy ===== *)
theory Remediation
  imports Findings Semver Job_Rows Liveness
begin

text \<open>
  Durable remediation work (\<^verbatim>\<open>remediation_store.py\<close>, \<^verbatim>\<open>work_sequencing.py\<close>): the next sequence number
  of a run, the id of the job that executes a work item, and the creation, update and listing of work
  items. The schema is the migrated one, with the columns \<^verbatim>\<open>work_sequence\<close>, \<^verbatim>\<open>finding_owner\<close> and
  \<^verbatim>\<open>execution_queue\<close>. The lemmas show that the items of a run are numbered one by one, that every item is linked
  to a job of its own, and that creating an item leaves its run with something to do.
\<close>

section \<open>Sequence numbers and job ids (\<^verbatim>\<open>work_sequencing.py\<close>)\<close>

definition next_work_sequence :: "string \<Rightarrow> db \<Rightarrow> int" where
  "next_work_sequence rid s =
     (case map w_work_sequence (filter (\<lambda>w. w_run_id w = rid) (works s)) of
        [] \<Rightarrow> 0 | n # ns \<Rightarrow> fold max ns n) + 1"

text \<open>\<^verbatim>\<open>s.replace(old, new)\<close>.\<close>

function py_replace :: "string \<Rightarrow> string \<Rightarrow> string \<Rightarrow> string" where
  "py_replace old new [] = []"
| "py_replace old new (c # cs) =
     (if old \<noteq> [] \<and> is_prefix old (c # cs) then new @ py_replace old new (drop (length old) (c # cs))
      else c # py_replace old new cs)"
  by pat_completeness auto
termination by (relation "measure (\<lambda>(_, _, s). length s)") auto

text \<open>\<^verbatim>\<open>f"{n:04d}"\<close> for a number that is not negative.\<close>

definition pad4 :: "int \<Rightarrow> string" where
  "pad4 n = replicate (4 - length (show_nat (nat n))) (CHR ''0'') @ show_nat (nat n)"

definition remediation_job_human_id :: "string \<Rightarrow> int \<Rightarrow> string \<Rightarrow> string" where
  "remediation_job_human_id rid work_sequence assigned_agent =
     rid @ ''__WORK_'' @ pad4 work_sequence @ ''__'' @
     py_replace ''_'' ''-'' (py_replace ''-agent'' [] assigned_agent)"

section \<open>Work items (\<^verbatim>\<open>remediation_store.py\<close>)\<close>

definition WORK_STATUSES :: "string list" where
  "WORK_STATUSES = [''PENDING'', ''ASSIGNED'', ''RUNNING'', ''COMPLETED'', ''FAILED'', ''BLOCKED'']"

definition AGENT_TO_QUEUE :: "(string \<times> string) list" where
  "AGENT_TO_QUEUE =
     [(''developer-agent'', ''DELIVERY''), (''architecture-agent'', ''DELIVERY''), (''security-agent'', ''DELIVERY''),
      (''delivery-agent'', ''DELIVERY''), (''release-agent'', ''DELIVERY''), (''qa-agent'', ''DELIVERY''),
      (''pm-agent'', ''PM'')]"

definition QUEUE_TO_ROLE :: "(string \<times> string) list" where
  "QUEUE_TO_ROLE =
     [(''PM'', ''PM''), (''ARCHITECTURE'', ''ARCHITECTURE''), (''DELIVERY'', ''DELIVERY''),
      (''ASSURANCE_FUNCTIONAL'', ''ASSURANCE_FUNCTIONAL''), (''ASSURANCE_INTEGRATION'', ''ASSURANCE_INTEGRATION''),
      (''ASSURANCE_SECURITY'', ''ASSURANCE_SECURITY''), (''ASSURANCE_QUALITY'', ''ASSURANCE_QUALITY''),
      (''QA_MANAGER'', ''QA_MANAGER''), (''RELEASE'', ''RELEASE''), (''INTEGRATION'', ''INTEGRATION'')]"

record work_args =
  wa_run_id :: string
  wa_project_id :: string
  wa_remediation_cycle :: int
  wa_finding_ids :: "string list"
  wa_assigned_agent :: string
  wa_objective :: string
  wa_acceptance_criteria :: string
  wa_source_candidate_id :: "string option"
  wa_repository_root :: string
  wa_assignment_reason :: string
  wa_findings :: "dict list"
  wa_execution_queue :: "string option"
  wa_finding_owner :: "string option"

text \<open>The owner and the queue of the work: the arguments, or what the first finding resolves to.\<close>

definition work_owner :: "work_args \<Rightarrow> string" where
  "work_owner a = str_of (str_or (wa_finding_owner a)
     (Some (fst (resolve_remediation_execution (case wa_findings a of [] \<Rightarrow> [] | f # _ \<Rightarrow> f)))))"

definition work_queue :: "work_args \<Rightarrow> string" where
  "work_queue a =
     (case resolve_remediation_execution (case wa_findings a of [] \<Rightarrow> [] | f # _ \<Rightarrow> f) of
        (_, _, default_queue, _) \<Rightarrow>
          str_of (str_or (wa_execution_queue a) (str_or (Some default_queue)
            (Some (case map_of AGENT_TO_QUEUE (wa_assigned_agent a) of None \<Rightarrow> ''DELIVERY'' | Some q \<Rightarrow> q)))))"

definition work_assignment :: "work_args \<Rightarrow> string \<Rightarrow> int \<Rightarrow> dict" where
  "work_assignment a work_item_id n =
     [(''remediation_work_item_id'', JStr work_item_id), (''run_id'', JStr (wa_run_id a)),
      (''remediation_cycle'', JInt (wa_remediation_cycle a)), (''work_sequence'', JInt n),
      (''finding_ids'', JList (map JStr (wa_finding_ids a))), (''assigned_agent'', JStr (wa_assigned_agent a)),
      (''finding_owner'', JStr (work_owner a)), (''execution_queue'', JStr (work_queue a)),
      (''reason'', JStr (wa_assignment_reason a)), (''source_candidate_id'', opt_json (wa_source_candidate_id a)),
      (''findings'', JList (map JObj (wa_findings a))), (''objective'', JStr (wa_objective a)),
      (''acceptance_criteria'', JStr (wa_acceptance_criteria a))]"

definition work_job_args :: "work_args \<Rightarrow> string \<Rightarrow> int \<Rightarrow> job_args" where
  "work_job_args a work_item_id n =
     (job_args_of (remediation_job_human_id (wa_run_id a) n (wa_assigned_agent a)) (wa_project_id a)
        (wa_repository_root a)
        (case map_of QUEUE_TO_ROLE (work_queue a) of None \<Rightarrow> ''DELIVERY'' | Some r \<Rightarrow> r) (work_queue a))
     \<lparr>n_base_git_sha := wa_source_candidate_id a,
      n_requires_worktree := work_queue a \<in> {''DELIVERY'', ''ARCHITECTURE'', ''INTEGRATION''},
      n_assignment := Some (work_assignment a work_item_id n), n_run_id := Some (wa_run_id a)\<rparr>"

definition work_row :: "work_args \<Rightarrow> string \<Rightarrow> int \<Rightarrow> int \<Rightarrow> iso \<Rightarrow> remediation_work" where
  "work_row a work_item_id n job_id now =
     \<lparr>w_work_item_id = work_item_id, w_run_id = wa_run_id a, w_project_id = wa_project_id a,
      w_remediation_cycle = wa_remediation_cycle a, w_work_sequence = n, w_finding_ids = wa_finding_ids a,
      w_assigned_agent = wa_assigned_agent a, w_finding_owner = Some (work_owner a),
      w_execution_queue = Some (work_queue a), w_objective = take 2000 (wa_objective a),
      w_acceptance_criteria = take 2000 (wa_acceptance_criteria a), w_status = ''ASSIGNED'',
      w_source_candidate_id = wa_source_candidate_id a, w_target_candidate_id = None,
      w_orchestration_job_id = Some job_id, w_result_json = None, w_created_at = now,
      w_completed_at = None\<rparr>"

definition get_remediation_work :: "string \<Rightarrow> db \<Rightarrow> remediation_work option" where
  "get_remediation_work w s = find_row (\<lambda>r. w_work_item_id r = w) (works s)"

text \<open>The INSERT, whose primary key is the work item id, and the SELECT that reads the row back.\<close>

definition insert_work :: "work_args \<Rightarrow> string \<Rightarrow> int \<Rightarrow> int \<Rightarrow> remediation_work dbop" where
  "insert_work a work_item_id n job_id =
     bindS (getS (get_remediation_work work_item_id)) (\<lambda>clash.
     thenS (guardS (clash = None) IntegrityError)
     (thenS (modifyS (\<lambda>s. s\<lparr>works := works s @ [work_row a work_item_id n job_id (now_iso s)]\<rparr>))
     (bindS (getS (get_remediation_work work_item_id)) (\<lambda>row.
        case row of None \<Rightarrow> raiseS AssertionError | Some w \<Rightarrow> returnS w))))"

definition create_remediation_work :: "work_args \<Rightarrow> remediation_work dbop" where
  "create_remediation_work a =
     bindS new_uuid (\<lambda>hex.
     let work_item_id = ''RWK-'' @ py_upper (take 10 hex) in
     bindS (getS (next_work_sequence (wa_run_id a))) (\<lambda>n.
     bindS (create_job (work_job_args a work_item_id n)) (\<lambda>job. insert_work a work_item_id n (j_id job))))"

definition work_fields ::
    "iso \<Rightarrow> string option \<Rightarrow> string option \<Rightarrow> dict option \<Rightarrow> remediation_work \<Rightarrow> remediation_work" where
  "work_fields now status target res w =
     w\<lparr>w_status := (case status of None \<Rightarrow> w_status w | Some st \<Rightarrow> st),
       w_target_candidate_id := (case target of None \<Rightarrow> w_target_candidate_id w | Some c \<Rightarrow> Some c),
       w_result_json := (case res of None \<Rightarrow> w_result_json w | Some d \<Rightarrow> Some (JText (JObj d))),
       w_completed_at := (case status of
          Some st \<Rightarrow> if st \<in> {''COMPLETED'', ''FAILED'', ''BLOCKED''} then Some now else w_completed_at w
        | None \<Rightarrow> w_completed_at w)\<rparr>"

text \<open>The CHECK constraint refuses a status outside \<open>WORK_STATUSES\<close>, for a row that exists.\<close>

definition update_remediation_work ::
    "string \<Rightarrow> string option \<Rightarrow> string option \<Rightarrow> dict option \<Rightarrow> remediation_work dbop" where
  "update_remediation_work w status target res =
     bindS (getS (get_remediation_work w)) (\<lambda>old.
     thenS (guardS (\<not> (old \<noteq> None \<and> (case status of None \<Rightarrow> False | Some st \<Rightarrow> st \<notin> set WORK_STATUSES))) IntegrityError)
     (thenS (modifyS (\<lambda>s. s\<lparr>works := update_where (\<lambda>r. w_work_item_id r = w)
              (work_fields (now_iso s) status target res) (works s)\<rparr>))
     (bindS (getS (get_remediation_work w)) (\<lambda>row.
        case row of None \<Rightarrow> raiseS OrchestrationError | Some r \<Rightarrow> returnS r))))"

definition list_remediation_work_for_run :: "string \<Rightarrow> db \<Rightarrow> remediation_work list" where
  "list_remediation_work_for_run rid s = sort_key w_created_at (filter (\<lambda>w. w_run_id w = rid) (works s))"

definition count_remediation_cycles :: "string \<Rightarrow> db \<Rightarrow> nat" where
  "count_remediation_cycles rid s = length (remdups (map w_remediation_cycle
     (filter (\<lambda>w. w_run_id w = rid \<and> w_status w \<in> {''COMPLETED'', ''FAILED'', ''RUNNING'', ''ASSIGNED''})
        (works s))))"

section \<open>Lemmas\<close>

subsection \<open>Job ids\<close>

lemma pad4_digits: "\<forall>c \<in> set (pad4 n). is_digit c"
  using show_nat_digits [of "nat n"] by (auto simp: pad4_def is_digit_def char_code_def)

lemma nat_of_digits_zeros: "nat_of_digits (replicate k (CHR ''0'') @ ds) = nat_of_digits ds"
  by (induction k) (simp_all add: nat_of_digits_def char_code_def)

lemma nat_of_digits_pad4: "nat_of_digits (pad4 n) = nat n"
  by (simp add: pad4_def nat_of_digits_zeros nat_of_digits_show_nat)

lemma remediation_job_human_id_inj:
  assumes "remediation_job_human_id rid n a = remediation_job_human_id rid m b" "0 \<le> n" "0 \<le> m"
  shows "n = m"
proof -
  have stop: "takeWhile is_digit (pad4 k @ CHR ''_'' # x) = pad4 k" for k x
    using pad4_digits [of k] by (simp add: takeWhile_append2 is_digit_def char_code_def)
  have "pad4 n = pad4 m"
    using assms(1) stop [of n] stop [of m] by (simp add: remediation_job_human_id_def) metis
  then have "nat n = nat m" using nat_of_digits_pad4 by metis
  then show ?thesis using assms(2,3) by simp
qed

subsection \<open>Sequence numbers\<close>

definition run_sequence :: "string \<Rightarrow> db \<Rightarrow> int list" where
  "run_sequence rid s = map w_work_sequence (filter (\<lambda>w. w_run_id w = rid) (works s))"

text \<open>The job a work item is linked to.\<close>

definition linked_to :: "remediation_work \<Rightarrow> job \<Rightarrow> bool" where
  "linked_to w j \<longleftrightarrow> w_orchestration_job_id w = Some (j_id j) \<and>
     j_human_id j = remediation_job_human_id (w_run_id w) (w_work_sequence w) (w_assigned_agent w)"

definition works_inv :: "db \<Rightarrow> bool" where
  "works_inv s \<longleftrightarrow> store_inv s \<and> distinct (map w_work_item_id (works s)) \<and>
     distinct (map w_orchestration_job_id (works s)) \<and> (\<forall>w \<in> set (works s). \<exists>j \<in> set (jobs s). linked_to w j) \<and>
     (\<forall>rid. run_sequence rid s = [1..int (length (run_sequence rid s))])"

lemma next_work_sequence_eq:
  assumes "works_inv s"
  shows "next_work_sequence rid s = int (length (run_sequence rid s)) + 1"
proof (cases "run_sequence rid s")
  case Nil
  then show ?thesis by (simp add: next_work_sequence_def run_sequence_def)
next
  case (Cons n ns)
  then have "set (n # ns) = {1..int (length (n # ns))}"
    using assms by (metis works_inv_def set_upto)
  then have "Max (set (n # ns)) = int (length (n # ns))"
    by (intro Max_eqI) auto
  then show ?thesis
    using Cons by (simp add: next_work_sequence_def run_sequence_def Max.set_eq_fold [symmetric] del: list.set)
qed

lemma untouched_works_create_job [frames]: "untouched works (create_job a)"
  unfolding create_job_def assert_create_job_isolation_def get_job_def Let_def
  by (auto intro!: frames split: option.split)

lemma untouched_works_new_uuid [frames]: "untouched works new_uuid"
  by (simp add: untouched_def new_uuid_def)

lemma insert_work_eq:
  "insert_work a wid n i s =
     (if get_remediation_work wid s \<noteq> None then (Inl IntegrityError, s)
      else let w = work_row a wid n i (now_iso s) in (Inr w, s\<lparr>works := works s @ [w]\<rparr>))"
  by (auto simp: insert_work_def op_simps get_remediation_work_def work_row_def Let_def raiseS_def returnS_def)

lemma works_cong:
  assumes "works t = works s"
  shows "next_work_sequence r t = next_work_sequence r s" "get_remediation_work k t = get_remediation_work k s"
  using assms by (simp_all add: next_work_sequence_def get_remediation_work_def)

lemma wlp_insert_work:
  assumes "works u = works s"
  shows "wlp (insert_work a wid n i) (\<lambda>w t. \<exists>now. w = work_row a wid n i now \<and>
     get_remediation_work wid s = None \<and> works t = works s @ [w]) u"
  using assms by (auto simp: wlp_def insert_work_eq works_cong [OF assms] Let_def split: if_splits)

lemma wlp_create_remediation_work:
  "wlp (create_remediation_work a) (\<lambda>w t. \<exists>wid i now.
     w = work_row a wid (next_work_sequence (wa_run_id a) s) i now \<and>
     get_remediation_work wid s = None \<and> works t = works s @ [w]) s" (is "wlp _ ?Q s")
  unfolding create_remediation_work_def Let_def
proof (rule wlp_bindI [OF wlp_frame [OF untouched_works_new_uuid]])
  fix hex and u :: db assume u: "works u = works s"
  let ?wid = "''RWK-'' @ py_upper (take 10 hex)" and ?n = "next_work_sequence (wa_run_id a) u"
  have "wlp (bindS (create_job (work_job_args a ?wid ?n)) (\<lambda>job. insert_work a ?wid ?n (j_id job))) ?Q u"
  proof (rule wlp_bindI [OF wlp_frame [OF untouched_works_create_job]])
    fix job and v :: db assume "works v = works u"
    then have v: "works v = works s" using u by simp
    show "wlp (insert_work a ?wid ?n (j_id job)) ?Q v"
      by (rule wlp_mono [OF wlp_insert_work [OF v]]) (auto simp: works_cong(1) [OF u])
  qed
  then show "wlp (bindS (getS (next_work_sequence (wa_run_id a))) (\<lambda>n.
      bindS (create_job (work_job_args a ?wid n)) (\<lambda>job. insert_work a ?wid n (j_id job)))) ?Q u"
    by (simp only: wlp_bindS [of "getS _"] wlp_getS)
qed

lemma create_remediation_work_eq:
  fixes a s
  defines "wid \<equiv> ''RWK-'' @ py_upper (take 10 (uuids s (uuid_next s)))"
    and "n \<equiv> next_work_sequence (wa_run_id a) s"
    and "u \<equiv> s\<lparr>uuid_next := Suc (uuid_next s)\<rparr>"
  assumes "store_inv s"
  shows "create_remediation_work a s =
    (if \<exists>j \<in> set (jobs s). (j_project_human_id j = wa_project_id a) \<noteq>
          (root_key s (j_repository_root j) = root_key s (wa_repository_root a))
     then (Inl CrossProjectWriteError, u)
     else if remediation_job_human_id (wa_run_id a) n (wa_assigned_agent a) \<in> j_human_id ` set (jobs s)
     then (Inl IntegrityError, u)
     else let t = created (work_job_args a wid n) READY u; w = work_row a wid n (job_seq s + 1) (now_iso s) in
       if get_remediation_work wid s \<noteq> None then (Inl IntegrityError, t)
       else (Inr w, t\<lparr>works := works s @ [w]\<rparr>))"
proof -
  have u: "store_inv u" using assms(4) by (rule store_inv_core [rotated]) (simp add: u_def core_def)
  have [simp]: "n_status (work_job_args a i k) = ''READY''" "n_identity_snapshot (work_job_args a i k) = None"
    "n_project_human_id (work_job_args a i k) = wa_project_id a"
    "n_repository_root (work_job_args a i k) = wa_repository_root a"
    "n_human_id (work_job_args a i k) = remediation_job_human_id (wa_run_id a) k (wa_assigned_agent a)" for i k
    by (simp_all add: work_job_args_def job_args_of_def)
  have [simp]: "jobs u = jobs s" "works u = works s" "job_seq u = job_seq s" "root_key u = root_key s"
    "now_iso u = now_iso s" "snapshot_clash (work_job_args a i k) t = False" for i k t
    by (simp_all add: u_def now_iso_def snapshot_clash_def)
  have uuid: "new_uuid s = (Inr (uuids s (uuid_next s)), u)" by (simp add: new_uuid_def u_def)
  have ready: "map_of JOB_STATUSES ''READY'' = Some READY" by (simp add: JOB_STATUSES_def)
  have seq: "next_work_sequence (wa_run_id a) u = n" by (simp add: n_def works_cong(1) [of u s])
  have made: "works (created b st u) = works s" "now_iso (created b st u) = now_iso s" for b st
    by (simp_all add: created_def now_iso_def u_def)
  have key: "j_id (new_job_row b st i now) = i" for b st i now by (simp add: new_job_row_def)
  define foreign where "foreign \<longleftrightarrow> (\<exists>j \<in> set (jobs s). (j_project_human_id j = wa_project_id a) \<noteq>
    (root_key s (j_repository_root j) = root_key s (wa_repository_root a)))"
  define clash where "clash \<longleftrightarrow>
    remediation_job_human_id (wa_run_id a) n (wa_assigned_agent a) \<in> j_human_id ` set (jobs s)"
  let ?ja = "work_job_args a wid n"
  have job: "create_job ?ja u = (if foreign then (Inl CrossProjectWriteError, u)
      else if clash then (Inl IntegrityError, u)
      else (Inr (new_job_row ?ja READY (job_seq s + 1) (now_iso s)), created ?ja READY u))"
    unfolding create_job_eq [OF u] foreign_def clash_def by (simp add: ready)
  have "create_remediation_work a s = bindS (create_job ?ja) (\<lambda>job. insert_work a wid n (j_id job)) u"
    by (simp add: create_remediation_work_def bindS_Inr [of new_uuid s, OF uuid] Let_def bindS_getS seq wid_def)
  also have "\<dots> = (if foreign then (Inl CrossProjectWriteError, u)
      else if clash then (Inl IntegrityError, u)
      else insert_work a wid n (job_seq s + 1) (created ?ja READY u))"
    by (simp add: bindS_def job key)
  finally show ?thesis
    unfolding foreign_def [symmetric] clash_def [symmetric] insert_work_eq works_cong [OF made(1)] made by (simp add: Let_def)
qed

subsection \<open>The machine of work items\<close>

lemma r_work_fields [simp]:
  "w_work_item_id (work_fields now st tc res w) = w_work_item_id w"
  "w_run_id (work_fields now st tc res w) = w_run_id w"
  "w_work_sequence (work_fields now st tc res w) = w_work_sequence w"
  "w_orchestration_job_id (work_fields now st tc res w) = w_orchestration_job_id w"
  "linked_to (work_fields now st tc res w) j = linked_to w j"
  by (simp_all add: work_fields_def linked_to_def)

lemma get_remediation_work_update:
  "works t = update_where (\<lambda>r. w_work_item_id r = k) (work_fields now st tc res) (works s) \<Longrightarrow>
   get_remediation_work k t = map_option (work_fields now st tc res) (get_remediation_work k s)"
  unfolding get_remediation_work_def by (simp add: find_row_update_same)

lemma update_remediation_work_eq:
  "update_remediation_work k st tc res s =
     (case get_remediation_work k s of
        None \<Rightarrow> (Inl OrchestrationError, s)
      | Some w \<Rightarrow>
          if st \<noteq> None \<and> the st \<notin> set WORK_STATUSES then (Inl IntegrityError, s)
          else (Inr (work_fields (now_iso s) st tc res w), s\<lparr>works :=
             update_where (\<lambda>r. w_work_item_id r = k) (work_fields (now_iso s) st tc res) (works s)\<rparr>))"
proof -
  let ?ws = "update_where (\<lambda>r. w_work_item_id r = k) (work_fields (now_iso s) st tc res) (works s)"
  have upd: "get_remediation_work k (s\<lparr>works := ?ws\<rparr>) =
      map_option (work_fields (now_iso s) st tc res) (get_remediation_work k s)"
    by (rule get_remediation_work_update) simp
  have none: "?ws = works s" if "get_remediation_work k s = None"
    using that by (intro update_where_none) (auto simp: get_remediation_work_def find_row_None_iff)
  show ?thesis
    using upd none
    by (cases "get_remediation_work k s"; cases st)
       (auto simp: update_remediation_work_def op_simps raiseS_def returnS_def)
qed

text \<open>The writers of work items and the operations of the job store, in any order, between writes to the other tables.\<close>

inductive work_step :: "db \<Rightarrow> db \<Rightarrow> bool" where
  storing: "store_step s t \<Longrightarrow> work_step s t"
| creating: "work_step s (snd (transaction (create_remediation_work a) s))"
| updating: "work_step s (snd (transaction (update_remediation_work k st tc res) s))"
| other: "works t = works s \<Longrightarrow> core t = core s \<Longrightarrow> work_step s t"

lemma run_sequence_snoc:
  "works t = works s @ [w] \<Longrightarrow>
   run_sequence rid t = run_sequence rid s @ (if w_run_id w = rid then [w_work_sequence w] else [])"
  by (simp add: run_sequence_def)

lemma run_sequence_created:
  assumes inv: "works_inv s" and t: "works t = works s @ [work_row a wid (next_work_sequence (wa_run_id a) s) i now]"
  shows "run_sequence rid t = [1..int (length (run_sequence rid t))]"
proof -
  have "run_sequence rid s = [1..int (length (run_sequence rid s))]" using inv by (simp add: works_inv_def)
  then show ?thesis by (auto simp: run_sequence_snoc [OF t] next_work_sequence_eq [OF inv] work_row_def upto_rec2)
qed

lemma keeps_create_remediation_work: "keeps store_inv (create_remediation_work a)"
proof -
  have "untouched core (insert_work a wid n i)" for wid n i
    unfolding insert_work_def by (intro frames) (simp add: core_def)
  moreover have "untouched core new_uuid" by (simp add: untouched_def new_uuid_def core_def)
  ultimately show ?thesis
    unfolding create_remediation_work_def Let_def
    by (intro store_keeps keeps_create_job keeps_store_inv_frame) (simp_all add: work_job_args_def job_args_of_def)
qed

lemma works_inv_created:
  assumes inv: "works_inv s" and run: "create_remediation_work a s = (Inr w, t)"
  shows "works_inv t"
proof -
  let ?n = "next_work_sequence (wa_run_id a) s"
  have store: "store_inv s" "store_inv t"
    using inv keeps_eq [OF keeps_create_remediation_work _ run] by (simp_all add: works_inv_def)
  obtain wid where w: "w = work_row a wid ?n (job_seq s + 1) (now_iso s)" "get_remediation_work wid s = None"
      and t: "works t = works s @ [w]" "jobs t = jobs s @ [new_job_row (work_job_args a wid ?n) READY (job_seq s + 1) (now_iso s)]"
    using run unfolding create_remediation_work_eq [OF store(1)]
    by (auto simp: Let_def created_def now_iso_def split: if_splits)
  have "w_orchestration_job_id w \<notin> w_orchestration_job_id ` set (works s)"
  proof
    assume "w_orchestration_job_id w \<in> w_orchestration_job_id ` set (works s)"
    then obtain v where "v \<in> set (works s)" "w_orchestration_job_id v = Some (job_seq s + 1)" by (auto simp: w(1) work_row_def)
    then obtain j where "j \<in> set (jobs s)" "j_id j = job_seq s + 1" using inv by (auto simp: works_inv_def linked_to_def)
    then show False using store(1) by (force simp: store_inv_def jobs_keyed_def)
  qed
  moreover have "linked_to w (new_job_row (work_job_args a wid ?n) READY (job_seq s + 1) (now_iso s))"
    by (simp add: linked_to_def w(1) work_row_def new_job_row_def work_job_args_def job_args_of_def)
  moreover have "w_work_item_id w \<notin> w_work_item_id ` set (works s)"
    using w by (auto simp: get_remediation_work_def find_row_None_iff work_row_def)
  moreover have "run_sequence rid t = [1..int (length (run_sequence rid t))]" for rid
    by (rule run_sequence_created [OF inv t(1) [unfolded w(1)]])
  ultimately show ?thesis using inv store(2) by (auto simp: works_inv_def t)
qed

lemma works_inv_updated:
  assumes inv: "works_inv s" and t: "t = s\<lparr>works := update_where (\<lambda>r. w_work_item_id r = k) (work_fields now st tc res) (works s)\<rparr>"
  shows "works_inv t"
proof -
  have "map w_work_item_id (works t) = map w_work_item_id (works s)"
    "map w_orchestration_job_id (works t) = map w_orchestration_job_id (works s)"
    unfolding t by (simp_all add: map_update_where)
  moreover have "run_sequence rid t = run_sequence rid s" for rid
    unfolding run_sequence_def t by (simp, rule map_filter_update_where) simp_all
  moreover have "store_inv t" using inv by (intro store_inv_core [of s t]) (simp_all add: works_inv_def t core_def)
  ultimately show ?thesis using inv by (auto simp: works_inv_def t ball_update_where)
qed

lemma works_inv_stored:
  assumes inv: "works_inv s" and step: "store_step s t"
  shows "works_inv t"
proof -
  have works: "works t = works s" by (rule works_frame.kept_step [OF step])
  have "\<exists>k \<in> set (jobs t). linked_to w k" if w: "w \<in> set (works s)" for w
  proof -
    obtain j where j: "j \<in> set (jobs s)" "linked_to w j" using inv w by (auto simp: works_inv_def)
    obtain k where "k \<in> set (jobs t)" "same_job j k"
      using job_identity.row_kept [OF step _ j(1)] inv by (auto simp: works_inv_def)
    with j(2) show ?thesis by (intro bexI [of _ k]) (simp_all add: linked_to_def same_job_def)
  qed
  then show ?thesis using inv store_step_inv [OF step] by (simp add: works_inv_def works run_sequence_def)
qed

lemma work_step_inv: "work_step s t \<Longrightarrow> works_inv s \<Longrightarrow> works_inv t"
proof (induction rule: work_step.induct)
  case (creating s a)
  then show ?case by (rule transaction_keeps) (rule works_inv_created [OF creating])
next
  case (updating s k st tc res)
  then show ?case
  proof (rule transaction_keeps)
    fix x t assume "update_remediation_work k st tc res s = (Inr x, t)"
    then have "t = s\<lparr>works := update_where (\<lambda>r. w_work_item_id r = k) (work_fields (now_iso s) st tc res) (works s)\<rparr>"
      unfolding update_remediation_work_eq by (auto split: option.splits if_splits)
    then show "works_inv t" by (rule works_inv_updated [OF updating])
  qed
next
  case (other t s)
  then show ?case using store_inv_core [of s t] core_eqD [of t s] by (simp add: works_inv_def run_sequence_def)
qed (rule works_inv_stored)

interpretation work_machine: invariant_machine store_start work_step works_inv
proof unfold_locales
  show "store_start s \<Longrightarrow> works_inv s" for s
    using store_machine.inv_start [of s] by (auto simp: store_start_def works_inv_def run_sequence_def empty_db_def)
qed (rule work_step_inv)

section \<open>Properties\<close>

text \<open>Two jobs of a project and a run, then one work item.\<close>

definition sample_work_args :: work_args where
  "sample_work_args =
     \<lparr>wa_run_id = ''RUN-1'', wa_project_id = ''PRJ-1'', wa_remediation_cycle = 1, wa_finding_ids = [''F1''],
      wa_assigned_agent = ''developer-agent'', wa_objective = ''fix'', wa_acceptance_criteria = ''tests pass'',
      wa_source_candidate_id = Some ''abc'', wa_repository_root = ''/repo'', wa_assignment_reason = ''routed'',
      wa_findings = [[(''category'', JStr ''SECURITY_FINDING'')]], wa_execution_queue = None,
      wa_finding_owner = None\<rparr>"

definition sample_work_start :: db where
  "sample_work_start = sample_store\<lparr>runs := [sample_run]\<rparr>"

definition sample_works :: db where
  "sample_works = snd (transaction (create_remediation_work sample_work_args) sample_work_start)"

lemma sample_work_start_inv: "store_inv sample_work_start"
  by (rule store_inv_core [OF _ store_machine.reach_inv [OF sample_store_reach]])
     (simp add: sample_work_start_def core_def)

lemma reach_storing: "reach store_start store_step s \<Longrightarrow> reach store_start work_step s"
  by (induction rule: reach.induct) (auto intro: reach_start reach_step storing)

lemma sample_works_reach: "reach store_start work_step sample_works"
proof -
  have "work_step sample_store sample_work_start"
    by (rule work_step.other) (simp_all add: sample_work_start_def core_def)
  then have "reach store_start work_step sample_work_start"
    by (rule reach_step [OF reach_storing [OF sample_store_reach]])
  then show ?thesis unfolding sample_works_def by (rule reach_step) (rule work_step.creating)
qed

text \<open>C27: The work items of a run are numbered in the order of their creation and each has a job of its own: in every
  reachable state, items created and updated and the store operated in any order, the sequence numbers of the
  items of a run are 1, 2, 3 and so on in the order of the table; the next number continues them; every item, of any
  run, is linked to an existing job, named after the run, the number and the agent of the item; and no two
  items are linked to the same job.\<close>

theorem work_items_are_numbered:
  assumes "reach store_start work_step s"
  shows "map w_work_sequence (filter (\<lambda>w. w_run_id w = rid) (works s)) =
           [1..int (length (filter (\<lambda>w. w_run_id w = rid) (works s)))] \<and>
         next_work_sequence rid s = int (length (filter (\<lambda>w. w_run_id w = rid) (works s))) + 1 \<and>
         (\<forall>w \<in> set (works s). \<exists>j \<in> set (jobs s). w_orchestration_job_id w = Some (j_id j) \<and>
            j_human_id j = remediation_job_human_id (w_run_id w) (w_work_sequence w) (w_assigned_agent w)) \<and>
         distinct (map w_orchestration_job_id (works s))"
proof -
  let ?ws = "filter (\<lambda>w. w_run_id w = rid) (works s)"
  have inv: "works_inv s" by (rule work_machine.reach_inv [OF assms])
  then have "map w_work_sequence ?ws = [1..int (length ?ws)]"
    unfolding works_inv_def run_sequence_def by (metis length_map)
  then show ?thesis
    using inv next_work_sequence_eq [OF inv, of rid] by (simp add: works_inv_def linked_to_def run_sequence_def)
qed

theorem work_items_are_numbered_witness:
  "works sample_works \<noteq> [] \<and> next_work_sequence ''RUN-1'' sample_works = 2 \<and>
   (\<exists>w \<in> set (works sample_works). \<exists>j \<in> set (jobs sample_works). w_orchestration_job_id w = Some (j_id j))"
proof -
  have one: "length (filter (\<lambda>w. w_run_id w = ''RUN-1'') (works sample_works)) = 1" by code_simp
  then have some: "works sample_works \<noteq> []" by auto
  moreover have "\<exists>w \<in> set (works sample_works). \<exists>j \<in> set (jobs sample_works). w_orchestration_job_id w = Some (j_id j)"
    using work_items_are_numbered [OF sample_works_reach, of "''RUN-1''"] hd_in_set [OF some] by blast
  ultimately show ?thesis using one work_items_are_numbered [OF sample_works_reach, of "''RUN-1''"] by simp
qed

text \<open>Creating remediation work gives the run something to do: on a consistent store the operation
  raises exactly when the project or the repository belongs to another project's jobs, or the id of the
  job or of the work item is taken; otherwise it appends the work item, ASSIGNED to the job it appends,
  which is READY for the run on the queue of the work, and a run that exists then has a durable next
  action and is not inert unless it is finished.\<close>

theorem create_remediation_work_spec:
  assumes "store_inv s" "create_remediation_work a s = (res, t)"
  shows "(case res of
      Inl e \<Rightarrow> works t = works s \<and>
        (e = CrossProjectWriteError \<and> (\<exists>j \<in> set (jobs s). (j_project_human_id j = wa_project_id a) \<noteq>
            (root_key s (j_repository_root j) = root_key s (wa_repository_root a))) \<or>
         e = IntegrityError \<and>
           (remediation_job_human_id (wa_run_id a) (next_work_sequence (wa_run_id a) s) (wa_assigned_agent a)
              \<in> j_human_id ` set (jobs s) \<or>
            (\<exists>w \<in> set (works s). w_work_item_id w = ''RWK-'' @ py_upper (take 10 (uuids s (uuid_next s))))))
    | Inr w \<Rightarrow> works t = works s @ [w] \<and> w_status w = ''ASSIGNED'' \<and> w_run_id w = wa_run_id a \<and>
        w_work_sequence w = next_work_sequence (wa_run_id a) s \<and>
        (\<exists>j. jobs t = jobs s @ [j] \<and> w_orchestration_job_id w = Some (j_id j) \<and> j_status j = READY \<and>
           j_run_id j = Some (wa_run_id a) \<and> j_queue j = work_queue a \<and>
           j_human_id j = remediation_job_human_id (wa_run_id a) (w_work_sequence w) (wa_assigned_agent a)) \<and>
        (get_execution_run (wa_run_id a) s \<noteq> None \<longrightarrow> has_durable_next_action (wa_run_id a) t \<and>
           classify_run_next_action (wa_run_id a) t \<noteq> ''RUN_INERT''))"
proof -
  define wid where "wid = ''RWK-'' @ py_upper (take 10 (uuids s (uuid_next s)))"
  have free: "get_remediation_work wid s = None \<longleftrightarrow> \<not> (\<exists>w \<in> set (works s). w_work_item_id w = wid)"
    by (auto simp: get_remediation_work_def find_row_None_iff)
  have ja: "j_human_id (new_job_row (work_job_args a wid n) READY i now) =
      remediation_job_human_id (wa_run_id a) n (wa_assigned_agent a)"
    "j_run_id (new_job_row (work_job_args a wid n) READY i now) = Some (wa_run_id a)"
    "j_queue (new_job_row (work_job_args a wid n) READY i now) = work_queue a"
    "j_status (new_job_row (work_job_args a wid n) READY i now) = READY"
    "j_id (new_job_row (work_job_args a wid n) READY i now) = i" for n i now
    by (simp_all add: work_job_args_def job_args_of_def new_job_row_def)
  have live: "has_durable_next_action (wa_run_id a) t" if "get_execution_run (wa_run_id a) s \<noteq> None"
      "runs t = runs s" "works t = works s @ [w]" "w_status w = ''ASSIGNED''" "w_run_id w = wa_run_id a" for w
    using that by (auto simp: has_durable_next_action_def get_execution_run_def list_outstanding_empty)
  show ?thesis
    using assms(2) free ja live
    unfolding create_remediation_work_eq [OF assms(1)] wid_def [symmetric] classify_inert_iff
    by (auto simp: Let_def created_def work_row_def image_iff split: if_splits)
qed

theorem create_remediation_work_spec_witness:
  "\<exists>w t. create_remediation_work sample_work_args sample_work_start = (Inr w, t) \<and>
     works t = [w] \<and> has_durable_next_action ''RUN-1'' t"
proof -
  have "fst (create_remediation_work sample_work_args sample_work_start) =
      Inr (hd (works sample_works))" by code_simp
  then obtain t where t: "create_remediation_work sample_work_args sample_work_start = (Inr (hd (works sample_works)), t)"
    by (metis prod.collapse)
  have "wa_run_id sample_work_args = ''RUN-1''" "get_execution_run ''RUN-1'' sample_work_start \<noteq> None"
    "works sample_work_start = []" by code_simp+
  then show ?thesis using create_remediation_work_spec [OF sample_work_start_inv t] t by auto
qed

end
