(* ===== verification/Delivery_Store.thy ===== *)
theory Delivery_Store
  imports Schema
begin

text \<open>
  Persistence of the delivery pipeline (\<^verbatim>\<open>delivery/store.py\<close>) and the release gates
  (\<^verbatim>\<open>delivery/gates.py\<close>): release records, their gate statuses, their artifacts. The table constraints are
  those of migrations 020 and 030; foreign keys are enforced. The lemmas show that a gate status reads
  back, that a new release starts with its gates pending, and what can pass the gates.
\<close>

section \<open>Gates (\<^verbatim>\<open>delivery/gates.py\<close>)\<close>

definition RELEASE_GATES :: "string list" where
  "RELEASE_GATES = [''QA_GATE'', ''SOURCE_GATE'', ''BUILD_GATE'', ''PACKAGE_GATE'', ''CHECKSUM_GATE'',
     ''SBOM_GATE'', ''SIGNATURE_GATE'', ''PUBLICATION_GATE'', ''DELIVERY_GATE'']"

type_synonym gates = "(string \<times> string) list"

definition gate_of :: "gates \<Rightarrow> string \<Rightarrow> string" where
  "gate_of g k = (case map_of g k of None \<Rightarrow> ''pending'' | Some st \<Rightarrow> st)"

text \<open>\<^verbatim>\<open>d[k] = v\<close> on a dictionary of texts.\<close>

fun put_gate :: "string \<Rightarrow> string \<Rightarrow> gates \<Rightarrow> gates" where
  "put_gate k v [] = [(k, v)]"
| "put_gate k v ((k', v') # g) = (if k' = k then (k, v) # g else (k', v') # put_gate k v g)"

definition initial_gate_statuses :: "bool \<Rightarrow> bool \<Rightarrow> bool \<Rightarrow> gates" where
  "initial_gate_statuses signing_required sbom_required github_enabled =
     (let g = map (\<lambda>k. (k, ''pending'')) RELEASE_GATES;
          g = (if signing_required then g else put_gate ''SIGNATURE_GATE'' ''not_required'' g);
          g = (if sbom_required then g else put_gate ''SBOM_GATE'' ''not_required'' g)
      in if github_enabled then g else put_gate ''PUBLICATION_GATE'' ''skipped'' g)"

definition all_required_gates_passed :: "gates \<Rightarrow> bool" where
  "all_required_gates_passed g = list_all (\<lambda>k. gate_of g k \<notin> {''failed'', ''pending''}) RELEASE_GATES"

definition blocking_gates :: "gates \<Rightarrow> string list" where
  "blocking_gates g = filter (\<lambda>k. gate_of g k \<in> {''failed'', ''pending''}) RELEASE_GATES"

section \<open>Release records and gate rows (\<^verbatim>\<open>delivery/store.py\<close>)\<close>

definition GATE_STATUSES :: "string list" where
  "GATE_STATUSES = [''pending'', ''passed'', ''failed'', ''skipped'', ''not_required'']"

definition LIFECYCLE_STATUSES :: "string list" where
  "LIFECYCLE_STATUSES =
     [''planned'', ''candidate'', ''qa_passed'', ''packaged'', ''verified'', ''local_complete'', ''released'']"

definition PUBLICATION_STATUSES :: "string list" where
  "PUBLICATION_STATUSES = [''pending'', ''in_progress'', ''published'', ''failed'', ''partial'', ''local_complete'']"

text \<open>\<^verbatim>\<open>get_delivery_release(conn, release_record_id=rid)\<close>, and the lookup by project and release id; an
  empty id finds nothing.\<close>

definition get_delivery_release :: "string \<Rightarrow> db \<Rightarrow> delivery_release option" where
  "get_delivery_release rid s =
     (if rid = [] then None else find_row (\<lambda>r. dr_release_record_id r = rid) (releases s))"

definition get_delivery_release_of :: "string \<Rightarrow> string \<Rightarrow> db \<Rightarrow> delivery_release option" where
  "get_delivery_release_of pid h s =
     (if pid = [] \<or> h = [] then None
      else find_row (\<lambda>r. dr_project_human_id r = pid \<and> dr_release_human_id r = h) (releases s))"

definition list_delivery_releases :: "string \<Rightarrow> db \<Rightarrow> delivery_release list" where
  "list_delivery_releases pid s =
     sort_key (\<lambda>r. - dr_created_at r) (filter (\<lambda>r. dr_project_human_id r = pid) (releases s))"

definition gate_entry :: "string \<Rightarrow> string \<Rightarrow> string \<Rightarrow> string option \<Rightarrow> dict option \<Rightarrow> iso \<Rightarrow> gate_row" where
  "gate_entry rid gate st detail ev now =
     \<lparr>gs_release_record_id = rid, gs_gate_name = gate, gs_status = st, gs_detail = detail,
      gs_evidence_json = (case ev of None \<Rightarrow> None | Some d \<Rightarrow> if d = [] then None else Some (JText (JObj d))),
      gs_updated_at = now\<rparr>"

definition upsert_gate_status ::
    "string \<Rightarrow> string \<Rightarrow> string \<Rightarrow> string option \<Rightarrow> dict option \<Rightarrow> unit dbop" where
  "upsert_gate_status rid gate st detail ev =
     thenS (guardS (st \<in> set GATE_STATUSES) IntegrityError)
     (bindS (getS (\<lambda>s. rid \<in> dr_release_record_id ` set (releases s))) (\<lambda>known.
      thenS (guardS known IntegrityError)
      (modifyS (\<lambda>s. s\<lparr>gate_rows :=
         upsert_row (\<lambda>g. gs_release_record_id g = rid \<and> gs_gate_name g = gate)
           (\<lambda>_. gate_entry rid gate st detail ev (now_iso s)) (gate_entry rid gate st detail ev (now_iso s))
           (gate_rows s)\<rparr>))))"

definition list_gate_statuses :: "string \<Rightarrow> db \<Rightarrow> gates" where
  "list_gate_statuses rid s =
     fold (\<lambda>g. put_gate (gs_gate_name g) (gs_status g)) (filter (\<lambda>g. gs_release_record_id g = rid) (gate_rows s))
       (map (\<lambda>k. (k, ''pending'')) RELEASE_GATES)"

record release_args =
  ra_release_record_id :: string
  ra_project_human_id :: string
  ra_release_human_id :: string
  ra_version :: string
  ra_candidate_git_sha :: string
  ra_lifecycle_status :: string
  ra_build_executor :: "string option"
  ra_proposal_id :: "string option"
  ra_sponsor_user_id :: "string option"
  ra_signing_required :: bool
  ra_sbom_required :: bool
  ra_github_enabled :: bool

definition release_row :: "release_args \<Rightarrow> iso \<Rightarrow> delivery_release" where
  "release_row a now =
     \<lparr>dr_release_record_id = ra_release_record_id a, dr_project_human_id = ra_project_human_id a,
      dr_release_human_id = ra_release_human_id a, dr_version = ra_version a,
      dr_candidate_git_sha = ra_candidate_git_sha a, dr_lifecycle_status = ra_lifecycle_status a,
      dr_build_executor = ra_build_executor a, dr_build_id = None, dr_publication_status = ''pending'',
      dr_github_release_url = None, dr_github_tag = None, dr_manifest_sha256 = None, dr_slack_announced = 0,
      dr_proposal_id = ra_proposal_id a, dr_sponsor_user_id = ra_sponsor_user_id a, dr_last_error = None,
      dr_created_at = now, dr_updated_at = now\<rparr>"

definition release_clash :: "release_args \<Rightarrow> db \<Rightarrow> bool" where
  "release_clash a s \<longleftrightarrow> ra_lifecycle_status a \<notin> set LIFECYCLE_STATUSES \<or>
     (\<exists>r \<in> set (releases s). dr_release_record_id r = ra_release_record_id a \<or>
        dr_project_human_id r = ra_project_human_id a \<and> dr_release_human_id r = ra_release_human_id a)"

text \<open>The result \<open>None\<close> is the empty dictionary of \<^verbatim>\<open>get_delivery_release(...) or {}\<close>.\<close>

definition insert_delivery_release :: "release_args \<Rightarrow> delivery_release option dbop" where
  "insert_delivery_release a =
     bindS (getS (release_clash a)) (\<lambda>clash.
     thenS (guardS (\<not> clash) IntegrityError)
     (thenS (modifyS (\<lambda>s. s\<lparr>releases := releases s @ [release_row a (now_iso s)]\<rparr>))
     (thenS (mapS (\<lambda>(gate, st). upsert_gate_status (ra_release_record_id a) gate st None None)
        (initial_gate_statuses (ra_signing_required a) (ra_sbom_required a) (ra_github_enabled a)))
     (getS (get_delivery_release (ra_release_record_id a))))))"

text \<open>What SQLite stores in a TEXT column for a bound value; containers cannot be bound.\<close>

fun sql_text :: "json \<Rightarrow> exn + string option" where
  "sql_text JNull = Inr None"
| "sql_text (JStr t) = Inr (Some t)"
| "sql_text (JInt i) = Inr (Some (show_int i))"
| "sql_text (JBool b) = Inr (Some (if b then ''1'' else ''0''))"
| "sql_text _ = Inl ValueError"

definition not_null :: "exn + string option \<Rightarrow> exn + string" where
  "not_null v = (case v of Inl e \<Rightarrow> Inl e | Inr None \<Rightarrow> Inl IntegrityError | Inr (Some t) \<Rightarrow> Inr t)"

definition member_of :: "string list \<Rightarrow> exn + string \<Rightarrow> exn + string" where
  "member_of xs v = (case v of Inl e \<Rightarrow> Inl e | Inr t \<Rightarrow> if t \<in> set xs then Inr t else Inl IntegrityError)"

text \<open>One assignment of the SET clause. \<^verbatim>\<open>slack_announced\<close> is an integer column checked to be 0 or 1.\<close>

definition release_setters :: "exn + string option \<Rightarrow> delivery_release \<Rightarrow> (string \<times> (exn + delivery_release)) list" where
  "release_setters t r =
     [(''version'', map_sum id (\<lambda>x. r\<lparr>dr_version := x\<rparr>) (not_null t)),
      (''candidate_git_sha'', map_sum id (\<lambda>x. r\<lparr>dr_candidate_git_sha := x\<rparr>) (not_null t)),
      (''lifecycle_status'', map_sum id (\<lambda>x. r\<lparr>dr_lifecycle_status := x\<rparr>) (member_of LIFECYCLE_STATUSES (not_null t))),
      (''build_executor'', map_sum id (\<lambda>x. r\<lparr>dr_build_executor := x\<rparr>) t),
      (''build_id'', map_sum id (\<lambda>x. r\<lparr>dr_build_id := x\<rparr>) t),
      (''publication_status'', map_sum id (\<lambda>x. r\<lparr>dr_publication_status := x\<rparr>) (member_of PUBLICATION_STATUSES (not_null t))),
      (''github_release_url'', map_sum id (\<lambda>x. r\<lparr>dr_github_release_url := x\<rparr>) t),
      (''github_tag'', map_sum id (\<lambda>x. r\<lparr>dr_github_tag := x\<rparr>) t),
      (''manifest_sha256'', map_sum id (\<lambda>x. r\<lparr>dr_manifest_sha256 := x\<rparr>) t),
      (''slack_announced'', map_sum id (\<lambda>x. r\<lparr>dr_slack_announced := (if x = ''1'' then 1 else 0)\<rparr>)
         (member_of [''0'', ''1''] (not_null t))),
      (''last_error'', map_sum id (\<lambda>x. r\<lparr>dr_last_error := x\<rparr>) t)]"

definition set_release_column :: "string \<Rightarrow> json \<Rightarrow> delivery_release \<Rightarrow> exn + delivery_release" where
  "set_release_column k v r = (case map_of (release_setters (sql_text v) r) k of None \<Rightarrow> Inr r | Some r' \<Rightarrow> r')"

definition UPDATABLE_RELEASE_COLUMNS :: "string list" where
  "UPDATABLE_RELEASE_COLUMNS = [''version'', ''candidate_git_sha'', ''lifecycle_status'', ''build_executor'',
     ''build_id'', ''publication_status'', ''github_release_url'', ''github_tag'', ''manifest_sha256'',
     ''slack_announced'', ''last_error'']"

fun set_release_columns :: "dict \<Rightarrow> delivery_release \<Rightarrow> exn + delivery_release" where
  "set_release_columns [] r = Inr r"
| "set_release_columns ((k, v) # d) r =
     (case set_release_column k v r of Inl e \<Rightarrow> Inl e | Inr r' \<Rightarrow> set_release_columns d r')"

text \<open>Values are bound before the statement runs, so a container is refused whether or not the record
  exists; constraints are checked on the row, and an unknown record is no row.\<close>

definition update_delivery_release :: "string \<Rightarrow> dict \<Rightarrow> unit dbop" where
  "update_delivery_release rid columns =
     (let updates = filter (\<lambda>(k, _). k \<in> set UPDATABLE_RELEASE_COLUMNS) columns in
      if updates = [] then returnS ()
      else thenS (guardS (list_all (\<lambda>(_, v). \<not> isl (sql_text v)) updates) ValueError)
        (bindS (getS (\<lambda>s. find_row (\<lambda>r. dr_release_record_id r = rid) (releases s))) (\<lambda>row.
         case row of
           None \<Rightarrow> returnS ()
         | Some r \<Rightarrow> bindS (liftS (set_release_columns updates r)) (\<lambda>r'.
             modifyS (\<lambda>s. s\<lparr>releases := update_where (\<lambda>x. dr_release_record_id x = rid)
               (\<lambda>_. r'\<lparr>dr_updated_at := now_iso s\<rparr>) (releases s)\<rparr>)))))"

section \<open>Artifacts\<close>

definition insert_delivery_artifact :: "delivery_artifact \<Rightarrow> delivery_artifact dbop" where
  "insert_delivery_artifact a =
     bindS (getS (\<lambda>s. ar_artifact_id a \<notin> ar_artifact_id ` set (artifacts s) \<and>
       ar_release_record_id a \<in> dr_release_record_id ` set (releases s))) (\<lambda>ok.
     thenS (guardS ok IntegrityError)
     (bindS (getS now_iso) (\<lambda>now.
      let row = a\<lparr>ar_created_at := now, ar_updated_at := now\<rparr> in
      thenS (modifyS (\<lambda>s. s\<lparr>artifacts := artifacts s @ [row]\<rparr>)) (returnS row))))"

definition get_delivery_artifact :: "string \<Rightarrow> db \<Rightarrow> delivery_artifact option" where
  "get_delivery_artifact i s = find_row (\<lambda>a. ar_artifact_id a = i) (artifacts s)"

definition list_delivery_artifacts :: "string \<Rightarrow> db \<Rightarrow> delivery_artifact list" where
  "list_delivery_artifacts rid s =
     sort_key ar_created_at (filter (\<lambda>a. ar_release_record_id a = rid) (artifacts s))"

section \<open>Lemmas\<close>

lemma map_of_put_gate: "map_of (put_gate k v g) = (map_of g)(k \<mapsto> v)"
  by (induction k v g rule: put_gate.induct) auto

lemma gate_of_put_gate [simp]: "gate_of (put_gate k v g) j = (if j = k then v else gate_of g j)"
  by (simp add: gate_of_def map_of_put_gate)

lemma gate_of_pending [simp]: "gate_of (map (\<lambda>k. (k, ''pending'')) ks) j = ''pending''"
  by (induction ks) (auto simp: gate_of_def)

subsection \<open>Gate rows\<close>

definition gate_key :: "gate_row \<Rightarrow> string \<times> string" where
  "gate_key g = (gs_release_record_id g, gs_gate_name g)"

definition gate_at :: "string \<Rightarrow> string \<Rightarrow> db \<Rightarrow> string" where
  "gate_at rid k s = (case find_row (\<lambda>g. gate_key g = (rid, k)) (gate_rows s) of None \<Rightarrow> ''pending'' | Some g \<Rightarrow> gs_status g)"

lemma gate_of_fold:
  assumes "distinct (map gs_gate_name rows)"
  shows "gate_of (fold (\<lambda>g. put_gate (gs_gate_name g) (gs_status g)) rows init) k =
     (case find_row (\<lambda>g. gs_gate_name g = k) rows of None \<Rightarrow> gate_of init k | Some g \<Rightarrow> gs_status g)"
  using assms
proof (induction rows arbitrary: init)
  case (Cons r rows)
  have "find_row (\<lambda>g. gs_gate_name g = k) rows = None" if "gs_gate_name r = k"
    using Cons.prems that by (auto simp: find_row_None_iff) (metis imageI)
  with Cons show ?case by (auto split: option.split)
qed simp

lemma list_gate_statuses_at:
  assumes "distinct (map gate_key (gate_rows s))"
  shows "gate_of (list_gate_statuses rid s) k = gate_at rid k s"
proof -
  let ?rows = "filter (\<lambda>g. gs_release_record_id g = rid) (gate_rows s)"
  have "distinct (map gate_key ?rows)" using assms by (rule distinct_map_filter)
  then have "distinct (map gs_gate_name ?rows)"
    by (auto simp: distinct_map inj_on_def gate_key_def)
  then show ?thesis
    unfolding list_gate_statuses_def gate_of_fold [OF \<open>distinct (map gs_gate_name ?rows)\<close>] gate_of_pending
    by (simp add: find_row_filter gate_at_def gate_key_def)
qed

definition gated :: "string \<Rightarrow> string \<Rightarrow> string \<Rightarrow> string option \<Rightarrow> dict option \<Rightarrow> db \<Rightarrow> db" where
  "gated rid gate st detail ev s = s\<lparr>gate_rows :=
     upsert_row (\<lambda>g. gate_key g = (rid, gate)) (\<lambda>_. gate_entry rid gate st detail ev (now_iso s))
       (gate_entry rid gate st detail ev (now_iso s)) (gate_rows s)\<rparr>"

lemma upsert_gate_status_eq:
  "upsert_gate_status rid gate st detail ev s =
     (if st \<in> set GATE_STATUSES \<and> rid \<in> dr_release_record_id ` set (releases s)
      then (Inr (), gated rid gate st detail ev s) else (Inl IntegrityError, s))"
  by (simp add: upsert_gate_status_def op_simps gated_def gate_key_def raiseS_def)

lemma gate_key_entry [simp]: "gate_key (gate_entry rid gate st detail ev now) = (rid, gate)"
  by (simp add: gate_key_def gate_entry_def)

lemma gate_at_gated: "gate_at rid' k (gated rid gate st detail ev s) =
   (if rid' = rid \<and> k = gate then st else gate_at rid' k s)"
proof (cases "rid' = rid \<and> k = gate")
  case True
  let ?e = "gate_entry rid gate st detail ev (now_iso s)"
  have "find_row (\<lambda>g. gate_key g = (rid, gate)) (gate_rows (gated rid gate st detail ev s)) = Some ?e"
    by (cases "find_row (\<lambda>g. gate_key g = (rid, gate)) (gate_rows s)")
       (simp_all add: gated_def upsert_row_def find_row_update_const)
  with True show ?thesis by (simp add: gate_at_def gate_entry_def)
next
  case False
  then have "find_row (\<lambda>g. gate_key g = (rid', k)) (gate_rows (gated rid gate st detail ev s)) =
      find_row (\<lambda>g. gate_key g = (rid', k)) (gate_rows s)"
    unfolding gated_def by (auto intro: find_row_upsert_other)
  with False show ?thesis by (auto simp: gate_at_def)
qed

lemma gated_rows: "g \<in> set (gate_rows (gated rid gate st detail ev s)) \<Longrightarrow>
   g \<in> set (gate_rows s) \<or> g = gate_entry rid gate st detail ev (now_iso s)"
  by (auto simp: gated_def upsert_row_def set_update_where split: if_splits)

lemma distinct_gated:
  "distinct (map gate_key (gate_rows s)) \<Longrightarrow> distinct (map gate_key (gate_rows (gated rid gate st detail ev s)))"
  unfolding gated_def by (simp add: distinct_upsert_row)

lemma gated_simps [simp]:
  "releases (gated rid gate st detail ev s) = releases s" "artifacts (gated rid gate st detail ev s) = artifacts s"
  by (simp_all add: gated_def)

subsection \<open>The machine of the delivery tables\<close>

definition delivery_inv :: "db \<Rightarrow> bool" where
  "delivery_inv s \<longleftrightarrow>
     distinct (map dr_release_record_id (releases s)) \<and>
     distinct (map (\<lambda>r. (dr_project_human_id r, dr_release_human_id r)) (releases s)) \<and>
     (\<forall>r \<in> set (releases s). dr_lifecycle_status r \<in> set LIFECYCLE_STATUSES \<and>
        dr_publication_status r \<in> set PUBLICATION_STATUSES \<and> dr_slack_announced r \<in> {0, 1}) \<and>
     distinct (map gate_key (gate_rows s)) \<and>
     (\<forall>g \<in> set (gate_rows s). gs_status g \<in> set GATE_STATUSES \<and>
        gs_release_record_id g \<in> dr_release_record_id ` set (releases s)) \<and>
     distinct (map ar_artifact_id (artifacts s)) \<and>
     (\<forall>a \<in> set (artifacts s). ar_release_record_id a \<in> dr_release_record_id ` set (releases s))"

inductive delivery_step :: "db \<Rightarrow> db \<Rightarrow> bool" where
  other: "releases t = releases s \<Longrightarrow> gate_rows t = gate_rows s \<Longrightarrow> artifacts t = artifacts s \<Longrightarrow> delivery_step s t"
| inserting: "delivery_step s (snd (transaction (insert_delivery_release a) s))"
| updating: "delivery_step s (snd (transaction (update_delivery_release rid d) s))"
| gating: "delivery_step s (snd (transaction (upsert_gate_status rid gate st detail ev) s))"
| building: "delivery_step s (snd (transaction (insert_delivery_artifact ar) s))"

definition delivery_start :: "db \<Rightarrow> bool" where
  "delivery_start s \<longleftrightarrow> releases s = [] \<and> gate_rows s = [] \<and> artifacts s = []"

lemma delivery_inv_gated:
  assumes "delivery_inv s" "st \<in> set GATE_STATUSES" "rid \<in> dr_release_record_id ` set (releases s)"
  shows "delivery_inv (gated rid gate st detail ev s)"
proof -
  have "gs_status g \<in> set GATE_STATUSES \<and> gs_release_record_id g \<in> dr_release_record_id ` set (releases s)"
    if "g \<in> set (gate_rows (gated rid gate st detail ev s))" for g
    using gated_rows [OF that] assms by (auto simp: delivery_inv_def gate_entry_def)
  then show ?thesis using assms(1) distinct_gated by (simp add: delivery_inv_def)
qed

lemma keeps_upsert_gate: "keeps delivery_inv (upsert_gate_status rid gate st detail ev)"
  by (rule keepsI) (simp add: upsert_gate_status_eq delivery_inv_gated)

lemma wlp_insert_delivery_release:
  assumes "delivery_inv s"
  shows "wlp (insert_delivery_release a) (\<lambda>_ t. delivery_inv t) s"
proof -
  let ?u = "s\<lparr>releases := releases s @ [release_row a (now_iso s)]\<rparr>"
  have "delivery_inv ?u" if "\<not> release_clash a s"
    using assms that
    by (auto simp: delivery_inv_def release_clash_def release_row_def PUBLICATION_STATUSES_def image_iff)
  then show ?thesis
    unfolding insert_delivery_release_def
    by (auto simp: wlp_simps intro!: wlp_mono [OF wlp_keeps [OF keeps_mapS]] keeps_upsert_gate split: prod.split)
qed

lemma Inr_eq_map_sum: "Inr y = map_sum id g w \<longleftrightarrow> (\<exists>x. w = Inr x \<and> y = g x)"
  by (cases w) auto

lemma set_release_column_ok:
  assumes "set_release_column k v r = Inr r'" "dr_lifecycle_status r \<in> set LIFECYCLE_STATUSES"
    "dr_publication_status r \<in> set PUBLICATION_STATUSES" "dr_slack_announced r \<in> {0, 1}"
  shows "dr_release_record_id r' = dr_release_record_id r \<and> dr_project_human_id r' = dr_project_human_id r \<and>
    dr_release_human_id r' = dr_release_human_id r \<and> dr_lifecycle_status r' \<in> set LIFECYCLE_STATUSES \<and>
    dr_publication_status r' \<in> set PUBLICATION_STATUSES \<and> dr_slack_announced r' \<in> {0, 1}"
proof -
  have member: "x \<in> set xs" if "member_of xs w = Inr x" for xs w x
    using that by (auto simp: member_of_def split: sum.splits if_splits)
  show ?thesis
  proof (cases "map_of (release_setters (sql_text v) r) k")
    case None
    then have "r' = r" using assms(1) by (simp add: set_release_column_def)
    with assms(2-4) show ?thesis by simp
  next
    case (Some x)
    then have "(k, Inr r') \<in> set (release_setters (sql_text v) r)"
      using assms(1) map_of_SomeD [OF Some] by (simp add: set_release_column_def)
    then show ?thesis
      unfolding release_setters_def list.set insert_iff empty_iff prod.inject Inr_eq_map_sum
      by (elim disjE conjE exE FalseE) (use assms(2-4) in \<open>auto dest: member\<close>)
  qed
qed

lemma set_release_columns_ok:
  assumes "set_release_columns d r = Inr r'" "dr_lifecycle_status r \<in> set LIFECYCLE_STATUSES"
    "dr_publication_status r \<in> set PUBLICATION_STATUSES" "dr_slack_announced r \<in> {0, 1}"
  shows "dr_release_record_id r' = dr_release_record_id r \<and> dr_project_human_id r' = dr_project_human_id r \<and>
    dr_release_human_id r' = dr_release_human_id r \<and> dr_lifecycle_status r' \<in> set LIFECYCLE_STATUSES \<and>
    dr_publication_status r' \<in> set PUBLICATION_STATUSES \<and> dr_slack_announced r' \<in> {0, 1}"
  using assms
proof (induction d r rule: set_release_columns.induct)
  case (2 k v d r)
  obtain q where q: "set_release_column k v r = Inr q" "set_release_columns d q = Inr r'"
    using 2(2) by (cases "set_release_column k v r") simp_all
  note ok = set_release_column_ok [OF q(1) 2(3-5)]
  from 2(1) [OF q] ok show ?case by simp
qed simp

lemma delivery_inv_updated:
  assumes inv: "delivery_inv s" and r: "find_row (\<lambda>x. dr_release_record_id x = rid) (releases s) = Some r"
    and r': "set_release_columns d r = Inr r'"
  shows "delivery_inv (s\<lparr>releases := update_where (\<lambda>x. dr_release_record_id x = rid) (\<lambda>_. r'\<lparr>dr_updated_at := now\<rparr>) (releases s)\<rparr>)"
    (is "delivery_inv (s\<lparr>releases := ?rs\<rparr>)")
proof -
  have mem: "r \<in> set (releases s)" "dr_release_record_id r = rid" using find_row_SomeD [OF r] by auto
  have ok: "dr_release_record_id r' = rid" "dr_project_human_id r' = dr_project_human_id r"
      "dr_release_human_id r' = dr_release_human_id r" "dr_lifecycle_status r' \<in> set LIFECYCLE_STATUSES"
      "dr_publication_status r' \<in> set PUBLICATION_STATUSES" "dr_slack_announced r' \<in> {0, 1}"
    using set_release_columns_ok [OF r'] mem inv by (auto simp: delivery_inv_def)
  have one: "x = r" if "x \<in> set (releases s)" "dr_release_record_id x = rid" for x
    using that mem inv by (auto simp: delivery_inv_def distinct_map inj_on_def)
  have ids: "map dr_release_record_id ?rs = map dr_release_record_id (releases s)"
    unfolding update_where_def using ok(1) by auto
  have names: "map (\<lambda>x. (dr_project_human_id x, dr_release_human_id x)) ?rs =
      map (\<lambda>x. (dr_project_human_id x, dr_release_human_id x)) (releases s)"
    unfolding update_where_def using ok(2,3) one by auto
  have "dr_release_record_id ` set ?rs = dr_release_record_id ` set (releases s)" using ids by (metis list.set_map)
  then show ?thesis
    using inv ids names ok(4-6) by (auto simp: delivery_inv_def ball_update_where)
qed

lemma delivery_step_inv: "delivery_step s t \<Longrightarrow> delivery_inv s \<Longrightarrow> delivery_inv t"
proof (induction rule: delivery_step.induct)
  case (other t s)
  then show ?case by (simp add: delivery_inv_def)
next
  case (inserting s a)
  then show ?case by (rule transaction_keeps) (rule wlp_apply [OF wlp_insert_delivery_release [OF inserting]])
next
  case (updating s rid d)
  then show ?case
  proof (rule transaction_keeps)
    fix x t assume "update_delivery_release rid d s = (Inr x, t)"
    then show "delivery_inv t"
      using updating
      by (auto simp: update_delivery_release_def Let_def op_simps returnS_def raiseS_def bindS_liftS
          split: if_splits option.splits sum.splits intro!: delivery_inv_updated)
  qed
next
  case (gating s rid gate st detail ev)
  then show ?case by (rule transaction_keeps) (rule keeps_eq [OF keeps_upsert_gate gating])
next
  case (building s ar)
  then show ?case
    by (rule transaction_keeps)
       (use building in \<open>auto simp: insert_delivery_artifact_def op_simps raiseS_def Let_def delivery_inv_def
         split: if_splits\<close>)
qed

interpretation delivery_machine: invariant_machine delivery_start delivery_step delivery_inv
  by unfold_locales (simp add: delivery_start_def delivery_inv_def, rule delivery_step_inv)

section \<open>Properties\<close>

text \<open>The delivery tables stay well formed: in every reachable state, releases, gates and artifacts
  written in any order between other steps, record ids and the pairs of project and release id are unique,
  statuses are among those of the CHECK constraints, a release has at most one row per gate, and every
  gate and artifact belongs to a release that exists.\<close>

theorem delivery_tables_well_formed:
  assumes "reach delivery_start delivery_step s" "r \<in> set (releases s)" "q \<in> set (releases s)"
    "g \<in> set (gate_rows s)" "h \<in> set (gate_rows s)" "a \<in> set (artifacts s)"
  shows "(dr_release_record_id r = dr_release_record_id q \<longrightarrow> r = q) \<and>
    (dr_project_human_id r = dr_project_human_id q \<and> dr_release_human_id r = dr_release_human_id q \<longrightarrow> r = q) \<and>
    dr_lifecycle_status r \<in> set LIFECYCLE_STATUSES \<and> dr_publication_status r \<in> set PUBLICATION_STATUSES \<and>
    gs_status g \<in> set GATE_STATUSES \<and>
    (gs_release_record_id g = gs_release_record_id h \<and> gs_gate_name g = gs_gate_name h \<longrightarrow> g = h) \<and>
    gs_release_record_id g \<in> dr_release_record_id ` set (releases s) \<and>
    ar_release_record_id a \<in> dr_release_record_id ` set (releases s)"
  using delivery_machine.reach_inv [OF assms(1)] assms(2-6)
  by (simp add: delivery_inv_def distinct_map inj_on_def gate_key_def)

definition sample_release_args :: release_args where
  "sample_release_args =
     \<lparr>ra_release_record_id = ''DLV-1'', ra_project_human_id = ''PRJ-1'', ra_release_human_id = ''REL-1'',
      ra_version = ''1.0.0'', ra_candidate_git_sha = ''abc'', ra_lifecycle_status = ''qa_passed'',
      ra_build_executor = None, ra_proposal_id = None, ra_sponsor_user_id = None, ra_signing_required = False,
      ra_sbom_required = True, ra_github_enabled = True\<rparr>"

definition sample_artifact :: delivery_artifact where
  "sample_artifact =
     \<lparr>ar_artifact_id = ''ART-1'', ar_release_record_id = ''DLV-1'', ar_project_human_id = ''PRJ-1'',
      ar_artifact_name = ''app.zip'', ar_artifact_type = ''zip'', ar_platform = ''windows'', ar_architecture = ''x64'',
      ar_version = ''1.0.0'', ar_source_git_sha = ''abc'', ar_build_id = None, ar_build_timestamp = None,
      ar_local_build_path = ''out/app.zip'', ar_published_url = None, ar_sha256 = ''00'', ar_size_bytes = 1,
      ar_signature_status = ''not_required'', ar_signature_identity = None, ar_sbom_url = None,
      ar_provenance_status = ''recorded'', ar_publication_status = ''pending'', ar_created_at = 0, ar_updated_at = 0\<rparr>"

text \<open>A release with one artifact.\<close>

definition sample_delivery_store :: db where
  "sample_delivery_store = snd (transaction (insert_delivery_artifact sample_artifact)
     (snd (transaction (insert_delivery_release sample_release_args) (empty_db 0 (\<lambda>_. ''u'') (\<lambda>r. r)))))"

lemma sample_delivery_reach: "reach delivery_start delivery_step sample_delivery_store"
proof -
  have "delivery_start (empty_db 0 (\<lambda>_. ''u'') (\<lambda>r. r))" by code_simp
  then show ?thesis
    unfolding sample_delivery_store_def
    using reach_start reach_step delivery_step.inserting delivery_step.building by metis
qed

theorem delivery_tables_well_formed_witness:
  "gs_status (hd (gate_rows sample_delivery_store)) \<in> set GATE_STATUSES \<and>
   ar_release_record_id (hd (artifacts sample_delivery_store)) \<in> dr_release_record_id ` set (releases sample_delivery_store)"
proof -
  let ?s = sample_delivery_store
  have "hd (releases ?s) \<in> set (releases ?s)" "hd (gate_rows ?s) \<in> set (gate_rows ?s)"
    "hd (artifacts ?s) \<in> set (artifacts ?s)" by code_simp+
  from delivery_tables_well_formed [OF sample_delivery_reach this(1,1,2,2,3)] show ?thesis by simp
qed

text \<open>A gate status reads back: setting the status of a gate of a release that exists, to a status
  of the CHECK constraint, is what \<^verbatim>\<open>list_gate_statuses\<close> then reports for it, and changes no other gate and
  no other release; otherwise \<^verbatim>\<open>IntegrityError\<close> is raised and nothing changes. A gate without a row is
  reported as pending, so a release passes only when every release gate has been decided.\<close>

theorem gate_status_reads_back:
  assumes "delivery_inv s" "upsert_gate_status rid gate st detail ev s = (res, t)"
  shows "(if st \<in> set GATE_STATUSES \<and> rid \<in> dr_release_record_id ` set (releases s)
          then res = Inr () \<and> delivery_inv t \<and>
            (\<forall>rid' k. gate_of (list_gate_statuses rid' t) k =
               (if rid' = rid \<and> k = gate then st else gate_of (list_gate_statuses rid' s) k))
          else res = Inl IntegrityError \<and> t = s) \<and>
    (all_required_gates_passed (list_gate_statuses rid' s) \<longleftrightarrow>
       (\<forall>k \<in> set RELEASE_GATES. \<exists>g \<in> set (gate_rows s). gs_release_record_id g = rid' \<and> gs_gate_name g = k \<and>
          gs_status g \<in> {''passed'', ''skipped'', ''not_required''}))"
proof -
  have keyed: "distinct (map gate_key (gate_rows s))" and typed: "\<forall>g \<in> set (gate_rows s). gs_status g \<in> set GATE_STATUSES"
    using assms(1) by (auto simp: delivery_inv_def)
  have row: "gate_at rid' k s \<notin> {''failed'', ''pending''} \<longleftrightarrow>
      (\<exists>g \<in> set (gate_rows s). gs_release_record_id g = rid' \<and> gs_gate_name g = k \<and>
         gs_status g \<in> {''passed'', ''skipped'', ''not_required''})" for rid' k
  proof (cases "find_row (\<lambda>g. gate_key g = (rid', k)) (gate_rows s)")
    case None
    then have "\<forall>g \<in> set (gate_rows s). \<not> (gs_release_record_id g = rid' \<and> gs_gate_name g = k)"
      by (auto simp: find_row_None_iff gate_key_def)
    with None show ?thesis by (auto simp: gate_at_def)
  next
    case (Some x)
    then have x: "x \<in> set (gate_rows s)" "gs_release_record_id x = rid'" "gs_gate_name x = k"
      using find_row_Some_key [OF keyed, of "(rid', k)" x] by (auto simp: gate_key_def)
    have only: "g = x" if "g \<in> set (gate_rows s)" "gs_release_record_id g = rid'" "gs_gate_name g = k" for g
      using that x keyed by (auto simp: distinct_map inj_on_def gate_key_def)
    have "(\<exists>g \<in> set (gate_rows s). gs_release_record_id g = rid' \<and> gs_gate_name g = k \<and> Q g) \<longleftrightarrow> Q x" for Q
      by (rule iffI, elim bexE conjE, drule (2) only, simp) (rule bexI [OF _ x(1)], simp add: x)
    moreover have "gs_status x \<notin> {''failed'', ''pending''} \<longleftrightarrow> gs_status x \<in> {''passed'', ''skipped'', ''not_required''}"
      using typed x(1) by (auto simp: GATE_STATUSES_def)
    ultimately show ?thesis using Some by (simp add: gate_at_def)
  qed
  have passes: "all_required_gates_passed (list_gate_statuses rid' s) \<longleftrightarrow>
      (\<forall>k \<in> set RELEASE_GATES. \<exists>g \<in> set (gate_rows s). gs_release_record_id g = rid' \<and> gs_gate_name g = k \<and>
         gs_status g \<in> {''passed'', ''skipped'', ''not_required''})"
    by (simp only: all_required_gates_passed_def list_all_iff list_gate_statuses_at [OF keyed] row)
  have reads: "gate_of (list_gate_statuses r (gated rid gate st detail ev s)) k =
      (if r = rid \<and> k = gate then st else gate_of (list_gate_statuses r s) k)" for r k
    by (simp only: list_gate_statuses_at [OF keyed] list_gate_statuses_at [OF distinct_gated [OF keyed]] gate_at_gated)
  show ?thesis
  proof (cases "st \<in> set GATE_STATUSES \<and> rid \<in> dr_release_record_id ` set (releases s)")
    case True
    with assms(2) have "res = Inr ()" "t = gated rid gate st detail ev s" by (simp_all add: upsert_gate_status_eq)
    with True passes reads delivery_inv_gated [OF assms(1)] show ?thesis by simp
  next
    case False
    with assms(2) have "res = Inl IntegrityError" "t = s" by (auto simp: upsert_gate_status_eq)
    with False passes show ?thesis by simp
  qed
qed

theorem gate_status_reads_back_witness:
  "\<exists>t. upsert_gate_status ''DLV-1'' ''VERIFY_GATE'' ''passed'' None None sample_delivery_store = (Inr (), t) \<and>
     gate_of (list_gate_statuses ''DLV-1'' t) ''VERIFY_GATE'' = ''passed''"
proof -
  have "''DLV-1'' \<in> dr_release_record_id ` set (releases sample_delivery_store)" "''passed'' \<in> set GATE_STATUSES"
    by code_simp+
  then show ?thesis
    using gate_status_reads_back [OF delivery_machine.reach_inv [OF sample_delivery_reach],
      of "''DLV-1''" "''VERIFY_GATE''" "''passed''" None None _ _ "''DLV-1''"]
    by (cases "upsert_gate_status ''DLV-1'' ''VERIFY_GATE'' ''passed'' None None sample_delivery_store") auto
qed

end
