(* ===== verification/Qa_Gate.thy ===== *)
theory Qa_Gate
  imports Invalidation
begin

text \<open>
  The QA gate (\<^verbatim>\<open>qa_gate.py\<close>), the evidence policy (\<^verbatim>\<open>qa_evidence_policy.py\<close>) and the candidate of a run
  (\<^verbatim>\<open>candidate_model.py\<close>): the facts a gate is evaluated on are computed from the rows of
  \<^verbatim>\<open>qa_evidence\<close> and the jobs that assess them; a result that is no longer pending must not be rewritten.
  The lemmas characterise each verdict of the gate, and show where the policy alone fails to keep a result; that the
  operations of assurance together keep every assessed result is in \<open>Evidence_Machine\<close>.
\<close>

section \<open>Facts of the gate (\<^verbatim>\<open>collect_qa_gate_facts\<close>)\<close>

datatype review = RevFailed | RevPassed | RevInconclusive | RevPending

text \<open>\<^verbatim>\<open>LEFT JOIN orchestration_jobs j ON j.id = e.assurance_job_id\<close>, then \<^verbatim>\<open>str(r["job_status"] or "")\<close>.\<close>

definition review_job_status :: "qa_evidence \<Rightarrow> db \<Rightarrow> string" where
  "review_job_status q s =
     (case job_by_id (q_assurance_job_id q) s of None \<Rightarrow> [] | Some j \<Rightarrow> job_status_text (j_status j))"

definition review_of :: "string \<Rightarrow> string \<Rightarrow> review" where
  "review_of result job_status =
     (if result \<in> {''fail'', ''stale_rejected''} then RevFailed
      else if result = ''pass'' then RevPassed
      else if result = ''inconclusive'' then RevInconclusive
      else if result = ''pending'' \<or> job_status \<in> {''READY'', ''QUEUED'', ''LEASED'', ''RUNNING''} then RevPending
      else if job_status \<in> {''FAILED'', ''BLOCKED''} then RevFailed
      else RevPending)"

text \<open>An empty candidate or run is no restriction.\<close>

definition gate_evidence :: "string \<Rightarrow> string option \<Rightarrow> string option \<Rightarrow> db \<Rightarrow> qa_evidence list" where
  "gate_evidence pid sha rid s =
     sort_key (\<lambda>q. - q_created_at q)
       (filter (\<lambda>q. q_project_human_id q = pid \<and>
          (truthy_str sha \<longrightarrow> Some (q_candidate_git_sha q) = sha) \<and>
          (truthy_str rid \<longrightarrow> q_run_id q = rid)) (evidence s))"

definition gate_reviews :: "string \<Rightarrow> string option \<Rightarrow> string option \<Rightarrow> db \<Rightarrow> review list" where
  "gate_reviews pid sha rid s =
     map (\<lambda>q. review_of (q_result q) (review_job_status q s)) (gate_evidence pid sha rid s)"

definition qa_gate :: "review list \<Rightarrow> string" where
  "qa_gate rs =
     (if RevFailed \<in> set rs then ''FAILED''
      else if RevInconclusive \<in> set rs then ''INCONCLUSIVE''
      else if rs \<noteq> [] \<and> RevPending \<notin> set rs \<and> length (filter (\<lambda>r. r = RevPassed) rs) = length rs
      then ''PASSED''
      else ''PENDING'')"

definition review_count :: "review \<Rightarrow> review list \<Rightarrow> json" where
  "review_count r rs = (if rs = [] then JNull else JInt (int (length (filter (\<lambda>x. x = r) rs))))"

definition collect_qa_gate_facts :: "string \<Rightarrow> string option \<Rightarrow> string option \<Rightarrow> db \<Rightarrow> dict" where
  "collect_qa_gate_facts pid sha rid s =
     (let rs = gate_reviews pid sha rid s in
      [(''reviews_total'', if rs = [] then JNull else JInt (int (length rs))),
       (''reviews_completed'', review_count RevPassed rs),
       (''reviews_need_attention'', review_count RevFailed rs),
       (''reviews_pending'', review_count RevPending rs),
       (''reviews_inconclusive'', review_count RevInconclusive rs),
       (''gate'', JStr (qa_gate rs)),
       (''candidate_git_sha'', opt_json sha), (''run_id'', opt_json rid),
       (''tests_total'', JNull), (''tests_passed'', JNull), (''tests_failed'', JNull),
       (''tests_skipped'', JNull)])"

definition gate_verdict :: "string \<Rightarrow> string option \<Rightarrow> string option \<Rightarrow> db \<Rightarrow> string" where
  "gate_verdict pid sha rid s = qa_gate (gate_reviews pid sha rid s)"

section \<open>The candidate of a run (\<^verbatim>\<open>latest_candidate_sha\<close>)\<close>

text \<open>The active candidate of the run, or that of the newest evidence of the project. A candidate is a text;
  a document that holds another scalar there is read as its text.\<close>

definition newest_evidence :: "string \<Rightarrow> db \<Rightarrow> qa_evidence option" where
  "newest_evidence pid s =
     (case sort_key (\<lambda>q. (- q_created_at q, - q_id q)) (filter (\<lambda>q. q_project_human_id q = pid) (evidence s)) of
        [] \<Rightarrow> None | q # _ \<Rightarrow> Some q)"

definition active_candidate_sha :: "string \<Rightarrow> db \<Rightarrow> string option" where
  "active_candidate_sha rid s =
     (case get_run_active_candidate rid s of JNull \<Rightarrow> None | v \<Rightarrow> Some (py_str v))"

definition latest_candidate_sha :: "string \<Rightarrow> string option \<Rightarrow> db \<Rightarrow> string option" where
  "latest_candidate_sha pid rid s =
     (if truthy_str rid \<and> truthy (get_run_active_candidate (str_of rid) s)
      then active_candidate_sha (str_of rid) s
      else map_option q_candidate_git_sha (newest_evidence pid s))"

section \<open>Results are rewritten from pending only (\<^verbatim>\<open>qa_evidence_policy.py\<close>)\<close>

definition TERMINAL_QA_RESULTS :: "string list" where
  "TERMINAL_QA_RESULTS = [''pass'', ''fail'', ''stale_rejected'', ''inconclusive'']"

definition evidence_of :: "int \<Rightarrow> string \<Rightarrow> qa_evidence \<Rightarrow> bool" where
  "evidence_of job sha q \<longleftrightarrow> q_assurance_job_id q = job \<and> q_candidate_git_sha q = sha"

definition result_row :: "string \<Rightarrow> string option \<Rightarrow> string option \<Rightarrow> qa_evidence \<Rightarrow> qa_evidence" where
  "result_row result ref defect q =
     q\<lparr>q_result := result,
       q_evidence_ref := (case ref of None \<Rightarrow> q_evidence_ref q | Some r \<Rightarrow> Some r),
       q_defect_human_id := (case defect of None \<Rightarrow> q_defect_human_id q | Some d \<Rightarrow> Some d)\<rparr>"

definition update_qa_evidence_result ::
    "int \<Rightarrow> string \<Rightarrow> string \<Rightarrow> string option \<Rightarrow> string option \<Rightarrow> unit dbop" where
  "update_qa_evidence_result job sha result ref defect =
     bindS (getS (\<lambda>s. find_row (evidence_of job sha) (evidence s))) (\<lambda>row.
     case row of
       None \<Rightarrow> raiseS OrchestrationError
     | Some q \<Rightarrow>
         if q_result q \<in> set TERMINAL_QA_RESULTS \<and> q_result q \<noteq> result then raiseS QAEvidenceImmutableError
         else if q_result q = ''fail'' \<and> result = ''pass'' then raiseS QAEvidenceImmutableError
         else thenS (guardS (result \<in> set QA_RESULTS) IntegrityError)
           (modifyS (\<lambda>s. s\<lparr>evidence := update_where (evidence_of job sha) (result_row result ref defect) (evidence s)\<rparr>)))"

section \<open>Lemmas\<close>

definition evidence_typed :: "db \<Rightarrow> bool" where
  "evidence_typed s \<longleftrightarrow> (\<forall>q \<in> set (evidence s). q_result q \<in> set QA_RESULTS)"

lemma set_gate_evidence: "set (gate_evidence pid sha rid s) = {q \<in> set (evidence s). q_project_human_id q = pid \<and>
     (truthy_str sha \<longrightarrow> Some (q_candidate_git_sha q) = sha) \<and> (truthy_str rid \<longrightarrow> q_run_id q = rid)}"
  by (auto simp: gate_evidence_def)

text \<open>With a result the CHECK constraint admits, the status of the assessing job does not matter.\<close>

definition typed_review :: "string \<Rightarrow> review" where
  "typed_review result =
     (if result \<in> {''fail'', ''stale_rejected''} then RevFailed else if result = ''pass'' then RevPassed
      else if result = ''inconclusive'' then RevInconclusive else RevPending)"

lemma review_of_typed: "result \<in> set QA_RESULTS \<Longrightarrow> review_of result js = typed_review result"
  by (auto simp: review_of_def typed_review_def QA_RESULTS_def)

lemma typed_review_iff:
  "typed_review r = RevFailed \<longleftrightarrow> r \<in> {''fail'', ''stale_rejected''}"
  "typed_review r = RevInconclusive \<longleftrightarrow> r = ''inconclusive''" "typed_review r = RevPassed \<longleftrightarrow> r = ''pass''"
  by (auto simp: typed_review_def)

lemma qa_gate_eq:
  "qa_gate rs = (if RevFailed \<in> set rs then ''FAILED'' else if RevInconclusive \<in> set rs then ''INCONCLUSIVE''
     else if rs \<noteq> [] \<and> (\<forall>r \<in> set rs. r = RevPassed) then ''PASSED'' else ''PENDING'')"
proof -
  have "length (filter (\<lambda>r. r = RevPassed) rs) = length rs \<longleftrightarrow> (\<forall>r \<in> set rs. r = RevPassed)"
    by (induction rs) (auto, metis length_filter_le Suc_n_not_le_n)
  then show ?thesis by (auto simp: qa_gate_def)
qed

lemma qa_gate_passed: "qa_gate rs = ''PASSED'' \<longleftrightarrow> rs \<noteq> [] \<and> (\<forall>r \<in> set rs. r = RevPassed)"
  by (auto simp: qa_gate_eq)

lemma set_gate_reviews:
  assumes "evidence_typed s"
  shows "set (gate_reviews pid sha rid s) = (\<lambda>q. typed_review (q_result q)) ` set (gate_evidence pid sha rid s)"
  unfolding gate_reviews_def set_map
  by (rule image_cong [OF refl]) (use assms in \<open>auto simp: set_gate_evidence evidence_typed_def intro: review_of_typed\<close>)

lemma review_of_passed: "review_of r js = RevPassed \<longleftrightarrow> r = ''pass''"
  by (auto simp: review_of_def)

lemma gate_verdict_passed:
  "gate_verdict pid sha rid s = ''PASSED'' \<longleftrightarrow>
     gate_evidence pid sha rid s \<noteq> [] \<and> (\<forall>q \<in> set (gate_evidence pid sha rid s). q_result q = ''pass'')"
  unfolding gate_verdict_def qa_gate_passed gate_reviews_def set_map ball_simps review_of_passed by simp

lemma gate_reviews_empty: "gate_reviews pid sha rid s = [] \<longleftrightarrow> gate_evidence pid sha rid s = []"
  by (simp add: gate_reviews_def)

subsection \<open>Evidence rows\<close>

definition evidence_key :: "qa_evidence \<Rightarrow> int \<times> string" where
  "evidence_key q = (q_assurance_job_id q, q_candidate_git_sha q)"

lemma evidence_of_key: "evidence_of job sha q \<longleftrightarrow> evidence_key q = (job, sha)"
  by (auto simp: evidence_of_def evidence_key_def)

lemma result_row_simps [simp]:
  "q_id (result_row r e d q) = q_id q" "evidence_key (result_row r e d q) = evidence_key q"
  "q_result (result_row r e d q) = r" "q_candidate_git_sha (result_row r e d q) = q_candidate_git_sha q"
  "q_run_id (result_row r e d q) = q_run_id q" "q_project_human_id (result_row r e d q) = q_project_human_id q"
  by (simp_all add: result_row_def evidence_key_def)

lemma update_qa_evidence_result_eq:
  "update_qa_evidence_result job sha r ref d s =
     (case find_row (evidence_of job sha) (evidence s) of
        None \<Rightarrow> (Inl OrchestrationError, s)
      | Some q \<Rightarrow>
          if q_result q \<in> set TERMINAL_QA_RESULTS \<and> q_result q \<noteq> r then (Inl QAEvidenceImmutableError, s)
          else if r \<notin> set QA_RESULTS then (Inl IntegrityError, s)
          else (Inr (), s\<lparr>evidence := update_where (evidence_of job sha) (result_row r ref d) (evidence s)\<rparr>))"
  by (auto simp: update_qa_evidence_result_def op_simps raiseS_def TERMINAL_QA_RESULTS_def QA_RESULTS_def
      split: option.split)

lemma untouched_evidence_ops [frames]:
  "untouched evidence (get_job i)" "untouched evidence (append_run_event i e st m p)"
  "untouched evidence (require_same_project is)"
  unfolding get_job_def append_run_event_def require_same_project_def job_project_human_id_def Let_def
  by (auto intro!: frames split: list.split)

lemma untouched_evidence_jobs [frames]:
  "untouched evidence (create_job ja)" "untouched evidence (mark_cancelled i reason)"
  "untouched evidence (set_job_outcome i oc k)" "untouched evidence (add_job_dependency i j)"
  unfolding create_job_def assert_create_job_isolation_def mark_cancelled_def update_job_def release_lease_def
    set_job_outcome_def add_job_dependency_def Let_def
  by (auto intro!: frames split: option.split)

lemma untouched_evidence_rework [frames]: "untouched evidence (create_rework d a cs)"
  unfolding create_rework_def depend_on_def insert_candidate_invalidation_def
  by (auto intro!: frames split: option.split)

text \<open>\<^verbatim>\<open>qa_retest._tag_evidence_run\<close>: evidence is tagged with the run and cycle of a retest.\<close>

definition tag_evidence_run :: "int list \<Rightarrow> string \<Rightarrow> string option \<Rightarrow> int \<Rightarrow> unit dbop" where
  "tag_evidence_run ids sha rid cycle =
     (if ids = [] then returnS ()
      else modifyS (\<lambda>s. s\<lparr>evidence := update_where
        (\<lambda>q. q_assurance_job_id q \<in> set ids \<and> q_candidate_git_sha q = sha)
        (\<lambda>q. q\<lparr>q_run_id := rid, q_remediation_cycle := cycle\<rparr>) (evidence s)\<rparr>))"

section \<open>Properties\<close>

text \<open>C11: The gate is decided by the results of the evidence alone: for evidence within the CHECK
  constraint, the gate of a project, candidate and run passes exactly when there is evidence and all of it
  is \<^verbatim>\<open>pass\<close>; it fails exactly when some evidence is \<^verbatim>\<open>fail\<close> or \<^verbatim>\<open>stale_rejected\<close>; it is inconclusive exactly
  when none is and some is \<^verbatim>\<open>inconclusive\<close>; otherwise it is pending. So an assessor whose job has failed
  or is blocked leaves the gate pending as long as its evidence is.\<close>

theorem qa_gate_verdict_spec:
  assumes "evidence_typed s"
    and rows: "rows = {q \<in> set (evidence s). q_project_human_id q = pid \<and>
      (truthy_str sha \<longrightarrow> Some (q_candidate_git_sha q) = sha) \<and> (truthy_str rid \<longrightarrow> q_run_id q = rid)}"
  shows "dict_get (collect_qa_gate_facts pid sha rid s) ''gate'' = JStr
     (if \<exists>q \<in> rows. q_result q \<in> {''fail'', ''stale_rejected''} then ''FAILED''
      else if \<exists>q \<in> rows. q_result q = ''inconclusive'' then ''INCONCLUSIVE''
      else if rows \<noteq> {} \<and> (\<forall>q \<in> rows. q_result q = ''pass'') then ''PASSED''
      else ''PENDING'')"
proof -
  let ?rs = "gate_reviews pid sha rid s"
  have rows': "rows = set (gate_evidence pid sha rid s)" by (simp add: rows set_gate_evidence)
  have mem: "RevFailed \<in> set ?rs \<longleftrightarrow> (\<exists>q \<in> rows. q_result q \<in> {''fail'', ''stale_rejected''})"
      "RevInconclusive \<in> set ?rs \<longleftrightarrow> (\<exists>q \<in> rows. q_result q = ''inconclusive'')"
      "(\<forall>r \<in> set ?rs. r = RevPassed) \<longleftrightarrow> (\<forall>q \<in> rows. q_result q = ''pass'')"
    unfolding set_gate_reviews [OF assms(1)] rows' [symmetric] image_iff ball_simps
    by (simp_all only: eq_commute [of RevFailed] eq_commute [of RevInconclusive] typed_review_iff)
  have "?rs = [] \<longleftrightarrow> rows = {}" by (simp add: gate_reviews_empty rows')
  then have "qa_gate ?rs = (if \<exists>q \<in> rows. q_result q \<in> {''fail'', ''stale_rejected''} then ''FAILED''
      else if \<exists>q \<in> rows. q_result q = ''inconclusive'' then ''INCONCLUSIVE''
      else if rows \<noteq> {} \<and> (\<forall>q \<in> rows. q_result q = ''pass'') then ''PASSED'' else ''PENDING'')"
    unfolding qa_gate_eq mem by simp
  moreover have "dict_get (collect_qa_gate_facts pid sha rid s) ''gate'' = JStr (qa_gate ?rs)"
    by (simp add: collect_qa_gate_facts_def Let_def dict_get_def)
  ultimately show ?thesis by simp
qed

definition sample_evidence :: "int \<Rightarrow> string \<Rightarrow> qa_evidence" where
  "sample_evidence i result =
     \<lparr>q_id = i, q_project_human_id = ''PRJ-1'', q_repository_root = ''/repo'', q_delivery_job_id = 1,
      q_assurance_job_id = 1 + i, q_candidate_git_sha = ''abc'', q_assurance_role = ''ASSURANCE_QUALITY'',
      q_result = result, q_defect_human_id = None, q_evidence_ref = None, q_run_id = Some ''RUN-1'',
      q_remediation_cycle = 0, q_created_at = i\<rparr>"

text \<open>Two assessments of one candidate, the second pending.\<close>

definition sample_reviews :: db where
  "sample_reviews = sample_empty\<lparr>evidence := [sample_evidence 1 ''pass'', sample_evidence 2 ''pending'']\<rparr>"

theorem qa_gate_verdict_spec_witness:
  "dict_get (collect_qa_gate_facts ''PRJ-1'' (Some ''abc'') (Some ''RUN-1'') sample_reviews) ''gate'' = JStr ''PENDING''"
proof -
  have typed: "evidence_typed sample_reviews" by code_simp
  have rows: "{sample_evidence 1 ''pass'', sample_evidence 2 ''pending''} = {q \<in> set (evidence sample_reviews).
      q_project_human_id q = ''PRJ-1'' \<and> (truthy_str (Some ''abc'') \<longrightarrow> Some (q_candidate_git_sha q) = Some ''abc'') \<and>
      (truthy_str (Some ''RUN-1'') \<longrightarrow> q_run_id q = Some ''RUN-1'')}"
    by (auto simp: sample_reviews_def sample_evidence_def)
  show ?thesis unfolding qa_gate_verdict_spec [OF typed rows] by (simp add: sample_evidence_def)
qed

text \<open>Nothing in the schema keeps a pair unique, and the policy looks at one row of the pair but rewrites
  them all (that no operation makes a second row is shown in \<open>Evidence_Machine\<close>): with a second row for the pair, an evaluation turns a recorded \<^verbatim>\<open>fail\<close> into \<^verbatim>\<open>pass\<close>.\<close>

lemma duplicate_evidence_is_rewritten:
  fixes s defines "s \<equiv> sample_empty\<lparr>evidence := [sample_evidence 2 ''pending'', (sample_evidence 2 ''fail'')\<lparr>q_id := 3\<rparr>]\<rparr>"
  shows "fst (update_qa_evidence_result 3 ''abc'' ''pass'' None None s) = Inr () \<and>
    map q_result (evidence (snd (update_qa_evidence_result 3 ''abc'' ''pass'' None None s))) = [''pass'', ''pass'']"
  unfolding s_def by code_simp

end
