(* ===== verification/Acceptance.thy ===== *)
theory Acceptance
  imports Delivery_Store Run_State Job_Store
begin

text \<open>
  What a release must satisfy before its run may complete (\<^verbatim>\<open>acceptance_contract.py\<close>,
  \<^verbatim>\<open>sponsor_outcome.py\<close>, \<^verbatim>\<open>delivery_policy.py\<close>): the requirements are those of the sponsor's handoff, those
  of the delivery contract of the repository and a baseline, and they are checked against the release
  record, its gates and its artifacts. The files a contract and the registry are read from are a
  parameter of the model. The lemmas show that the evaluation agrees with a declarative reading of each
  requirement, and what an accepted release has.
\<close>

section \<open>Policy\<close>

text \<open>The fields of \<^verbatim>\<open>DeliveryContract\<close> the acceptance reads, and the files: \<open>contract_at root\<close> is
  \<^verbatim>\<open>load_delivery_contract(Path(root))\<close>, \<open>None\<close> where it raises; \<open>registry_root pid\<close> is the repository root of
  the registry entry, \<open>None\<close> where the registry cannot be read or has no entry.\<close>

record delivery_contract =
  dc_sbom_policy :: string
  dc_checksum_policy :: string
  dc_code_signing_policy :: string

record policy_files =
  contract_at :: "string \<Rightarrow> delivery_contract option"
  registry_root :: "string \<Rightarrow> string option"

definition resolve_delivery_policy :: "policy_files \<Rightarrow> string \<Rightarrow> delivery_contract option" where
  "resolve_delivery_policy pf pid = Option.bind (registry_root pf pid) (contract_at pf)"

definition policy_requirements :: "delivery_contract option \<Rightarrow> string list" where
  "policy_requirements contract =
     (case contract of
        None \<Rightarrow> [''release_record'', ''verified_artifact'', ''verify_gate'']
      | Some c \<Rightarrow> [''release_record'', ''verified_artifact'', ''verify_gate'', ''qa_gate''] @
          (if dc_sbom_policy c = ''required'' then [''sbom''] else []) @
          (if dc_checksum_policy c = ''sha256'' then [''checksum''] else []) @
          (if dc_code_signing_policy c = ''required_for_production'' then [''signature''] else []))"

section \<open>The acceptance contract\<close>

text \<open>\<^verbatim>\<open>run_evidence._handoff_desired_outputs\<close>, followed by \<^verbatim>\<open>.get\<close> on the result: a document that is not
  an object raises \<^verbatim>\<open>AttributeError\<close>, an undecodable one is empty.\<close>

definition handoff_desired_outputs :: "string option \<Rightarrow> db \<Rightarrow> exn + dict" where
  "handoff_desired_outputs handoff s =
     (if \<not> truthy_str handoff then Inr []
      else case find_row (\<lambda>h. Some (h_handoff_id h) = handoff) (handoffs s) of
        None \<Rightarrow> Inr []
      | Some h \<Rightarrow> (case h_desired_outputs_json h of
          None \<Rightarrow> Inr []
        | Some JBad \<Rightarrow> Inr []
        | Some (JText (JObj d)) \<Rightarrow> Inr d
        | Some _ \<Rightarrow> Inl AttributeError))"

definition wants :: "dict \<Rightarrow> string list \<Rightarrow> bool" where
  "wants desired ks = list_ex (\<lambda>k. truthy (dict_get desired k)) ks"

definition desired_requirements :: "dict \<Rightarrow> string list" where
  "desired_requirements desired =
     (if wants desired [''package'', ''artifact''] then [''package''] else []) @
     (if wants desired [''installer''] then [''installer''] else []) @
     (if wants desired [''publish'', ''download_link'', ''return_download_link''] then [''publication''] else []) @
     (if wants desired [''signed'', ''signature''] then [''signature''] else []) @
     (if wants desired [''sbom''] then [''sbom''] else []) @
     (if wants desired [''checksum''] then [''checksum''] else [])"

definition objective_requirements :: "string \<Rightarrow> string list" where
  "objective_requirements objective =
     (let lowered = py_lower objective in
      (if py_in ''publish'' lowered \<or> py_in ''download'' lowered \<or> py_in ''github'' lowered then [''publication''] else []) @
      (if py_in ''package'' lowered \<or> py_in ''artifact'' lowered then [''package''] else []) @
      (if py_in ''installer'' lowered then [''installer''] else []))"

definition sponsor_requirements :: "dict \<Rightarrow> string \<Rightarrow> string list" where
  "sponsor_requirements desired objective =
     (let sponsor = desired_requirements desired in
      if sponsor = [] \<and> desired = [] then objective_requirements objective else sponsor)"

text \<open>\<^verbatim>\<open>list(dict.fromkeys(xs))\<close>: the first of equal entries stays.\<close>

definition from_keys :: "string list \<Rightarrow> string list" where
  "from_keys xs = fold (\<lambda>x acc. if x \<in> set acc then acc else acc @ [x]) xs []"

definition baseline :: "string list" where
  "baseline = [''release_record'', ''verified_artifact'', ''verify_gate'', ''candidate_provenance'']"

record acceptance_contract =
  ac_sponsor_requirements :: "string list"
  ac_policy_requirements :: "string list"
  ac_effective_requirements :: "string list"
  ac_invalid :: bool

definition is_release :: "string \<Rightarrow> bool" where
  "is_release request_type \<longleftrightarrow> py_upper request_type = ''RELEASE''"

definition build_acceptance_contract ::
    "string option \<Rightarrow> string \<Rightarrow> string \<Rightarrow> delivery_contract option \<Rightarrow> db \<Rightarrow> exn + acceptance_contract" where
  "build_acceptance_contract handoff request_type objective contract s =
     (case handoff_desired_outputs handoff s of
        Inl e \<Rightarrow> Inl e
      | Inr desired \<Rightarrow>
          let sponsor = sponsor_requirements desired objective;
              policy = policy_requirements contract;
              effective = from_keys (sponsor @ policy);
              effective' = (if is_release request_type then from_keys (baseline @ effective) else effective)
          in Inr \<lparr>ac_sponsor_requirements = sponsor, ac_policy_requirements = policy,
                  ac_effective_requirements = (if is_release request_type \<and> effective' = [] then baseline else effective'),
                  ac_invalid = (effective' = [])\<rparr>)"

section \<open>The evaluation\<close>

definition artifacts_of :: "string \<Rightarrow> delivery_artifact list \<Rightarrow> delivery_artifact list" where
  "artifacts_of ty = filter (\<lambda>a. ar_artifact_type a = ty)"

definition distributables :: "delivery_artifact list \<Rightarrow> delivery_artifact list" where
  "distributables arts =
     (if artifacts_of ''zip'' arts \<noteq> [] then artifacts_of ''zip'' arts
      else if artifacts_of ''package'' arts \<noteq> [] then artifacts_of ''package'' arts
      else if artifacts_of ''installer'' arts \<noteq> [] then artifacts_of ''installer'' arts
      else artifacts_of ''installer_placeholder'' arts)"

definition candidate_matches :: "delivery_release option \<Rightarrow> string option \<Rightarrow> bool" where
  "candidate_matches record sha =
     (truthy_str sha \<and> (case record of None \<Rightarrow> False | Some r \<Rightarrow> Some (dr_candidate_git_sha r) = sha))"

definition publication_done :: "delivery_release option \<Rightarrow> bool" where
  "publication_done record =
     (case record of None \<Rightarrow> False | Some r \<Rightarrow> dr_publication_status r = ''published'' \<and> truthy_str (dr_github_release_url r))"

text \<open>The calls of \<^verbatim>\<open>_req(name, ok)\<close> in their order; \<open>gates\<close> and \<open>arts\<close> are empty without a record. The last
  call is for \<^verbatim>\<open>publication\<close> where that is required and for \<^verbatim>\<open>local_release\<close> otherwise.\<close>

definition requirement_checks ::
    "string list \<Rightarrow> delivery_release option \<Rightarrow> gates \<Rightarrow> delivery_artifact list \<Rightarrow> string option \<Rightarrow> (string \<times> bool) list" where
  "requirement_checks required record g arts sha =
     (let passed = (\<lambda>k. map_of g k = Some ''passed'') in
      [(''release_record'', record \<noteq> None),
       (''candidate_provenance'', candidate_matches record sha),
       (''verified_artifact'', distributables arts \<noteq> [] \<and> passed ''VERIFY_GATE''),
       (''verify_gate'', passed ''VERIFY_GATE''),
       (''qa_gate'', passed ''QA_GATE''),
       (''package'', distributables arts \<noteq> []),
       (''installer'', artifacts_of ''installer'' arts \<noteq> [] \<and> artifacts_of ''installer_placeholder'' arts = []),
       (''checksum'', list_all (\<lambda>a. ar_sha256 a \<noteq> []) arts \<and> passed ''CHECKSUM_GATE''),
       (''sbom'', artifacts_of ''sbom'' arts \<noteq> [] \<and> map_of g ''SBOM_GATE'' \<in> {Some ''passed'', Some ''not_required''}),
       (''signature'', list_all (\<lambda>a. ar_signature_status a \<in> {''signed'', ''not_required''}) arts \<and> passed ''SIGNATURE_GATE'')] @
      (if ''publication'' \<in> set required then [(''publication'', publication_done record)]
       else case record of None \<Rightarrow> []
         | Some r \<Rightarrow> [(''local_release'',
             dr_lifecycle_status r \<in> {''packaged'', ''verified'', ''local_complete'', ''released''})]))"

text \<open>(satisfied, required, satisfied outputs, missing outputs); the evidence references that the code
  collects beside them are not modelled.\<close>

type_synonym outcome_evaluation = "bool \<times> string list \<times> string list \<times> string list"

definition evaluate_effective_requirements ::
    "acceptance_contract \<Rightarrow> string option \<Rightarrow> string option \<Rightarrow> db \<Rightarrow> outcome_evaluation" where
  "evaluate_effective_requirements c release_record_id sha s =
     (let required = ac_effective_requirements c in
      if ac_invalid c then (False, required, [], [''acceptance_contract''])
      else
        let record = (if truthy_str release_record_id then get_delivery_release (str_of release_record_id) s else None);
            g = (case record of None \<Rightarrow> [] | Some r \<Rightarrow> list_gate_statuses (dr_release_record_id r) s);
            arts = (case record of None \<Rightarrow> [] | Some r \<Rightarrow> list_delivery_artifacts (dr_release_record_id r) s);
            checks = filter (\<lambda>(name, _). name \<in> set required) (requirement_checks required record g arts sha);
            ok = map fst (filter snd checks); missing = map fst (filter (\<lambda>c. \<not> snd c) checks)
        in (missing = [], required, ok, missing))"

record outcome_request =
  oq_run_id :: string
  oq_handoff_id :: "string option"
  oq_objective :: string
  oq_request_type :: "string option"
  oq_release_record_id :: "string option"
  oq_candidate_git_sha :: "string option"
  oq_repository_root :: "string option"
  oq_project_id :: "string option"

definition outcome_policy :: "policy_files \<Rightarrow> outcome_request \<Rightarrow> string \<Rightarrow> delivery_contract option" where
  "outcome_policy pf q pid =
     (if truthy_str (oq_repository_root q) then contract_at pf (str_of (oq_repository_root q))
      else if pid \<noteq> [] then resolve_delivery_policy pf pid
      else None)"

definition evaluate_sponsor_outcome :: "policy_files \<Rightarrow> outcome_request \<Rightarrow> db \<Rightarrow> exn + outcome_evaluation" where
  "evaluate_sponsor_outcome pf q s =
     (let run = get_execution_run (oq_run_id q) s;
          request_type = str_of (str_or (oq_request_type q) (map_option r_request_type run));
          pid = str_of (str_or (oq_project_id q) (map_option r_project_id run));
          contract = (if is_release request_type then outcome_policy pf q pid else None)
      in if is_release request_type \<and> contract = None
         then Inr (False, [''delivery_policy''], [], [''delivery_policy''])
         else case build_acceptance_contract (oq_handoff_id q) request_type (oq_objective q) contract s of
           Inl e \<Rightarrow> Inl e
         | Inr c \<Rightarrow> Inr (case oq_release_record_id q of
             None \<Rightarrow>
               if is_release request_type
               then (False, ac_effective_requirements c, [],
                     if ac_effective_requirements c = [] then [''release_record''] else ac_effective_requirements c)
               else if ac_invalid c then (False, ac_effective_requirements c, [], [''acceptance_contract''])
               else (True, [], [], [])
           | Some rid \<Rightarrow> evaluate_effective_requirements c (Some rid) (oq_candidate_git_sha q) s))"

section \<open>Lemmas\<close>

lemma from_keys_acc: "set (fold (\<lambda>x acc. if x \<in> set acc then acc else acc @ [x]) xs acc) = set acc \<union> set xs"
  by (induction xs arbitrary: acc) auto

lemma set_from_keys [simp]: "set (from_keys xs) = set xs"
  by (simp add: from_keys_def from_keys_acc)

lemma from_keys_Nil [simp]: "from_keys xs = [] \<longleftrightarrow> xs = []"
  by (metis set_from_keys set_empty)

lemma sponsor_requirements_range:
  "set (sponsor_requirements d obj) \<subseteq> {''package'', ''installer'', ''publication'', ''signature'', ''sbom'', ''checksum''}"
  by (auto simp: sponsor_requirements_def desired_requirements_def objective_requirements_def Let_def split: if_splits)

lemma policy_requirements_range:
  "set (policy_requirements c) \<subseteq>
     {''release_record'', ''verified_artifact'', ''verify_gate'', ''qa_gate'', ''sbom'', ''checksum'', ''signature''}"
  by (auto simp: policy_requirements_def split: option.splits if_splits)

text \<open>The policy is never empty, so no contract is invalid.\<close>

lemma policy_requirements_not_Nil [simp]: "policy_requirements c \<noteq> []"
  by (simp add: policy_requirements_def split: option.split)

lemma build_acceptance_contract_eq:
  assumes "handoff_desired_outputs handoff s = Inr d"
  shows "\<exists>c. build_acceptance_contract handoff rt obj contract s = Inr c \<and> \<not> ac_invalid c \<and>
     set (ac_effective_requirements c) = (if is_release rt then set baseline else {}) \<union>
       set (sponsor_requirements d obj) \<union> set (policy_requirements contract)"
  using assms by (auto simp: build_acceptance_contract_def Let_def)

lemma local_release_never_required:
  assumes "build_acceptance_contract handoff rt obj contract s = Inr c"
  shows "''local_release'' \<notin> set (ac_effective_requirements c)"
proof -
  obtain d where "handoff_desired_outputs handoff s = Inr d"
    using assms by (auto simp: build_acceptance_contract_def split: sum.splits)
  from build_acceptance_contract_eq [OF this, of rt obj contract] show ?thesis
    using assms sponsor_requirements_range [of d obj] policy_requirements_range [of contract]
    by (auto simp: baseline_def split: if_splits)
qed

lemma missing_Nil_iff:
  "filter (\<lambda>c. \<not> snd c) (filter (\<lambda>(name, _). name \<in> R) checks) = [] \<longleftrightarrow>
     (\<forall>(name, ok) \<in> set checks. name \<in> R \<longrightarrow> ok)"
  by (auto simp: filter_empty_conv)

text \<open>What the required names ask of the release record \<open>r\<close>.\<close>

definition accepted_release :: "string set \<Rightarrow> delivery_release \<Rightarrow> string option \<Rightarrow> db \<Rightarrow> bool" where
  "accepted_release wanted r sha s \<longleftrightarrow>
     (let g = map_of (list_gate_statuses (dr_release_record_id r) s);
          arts = list_delivery_artifacts (dr_release_record_id r) s in
      truthy_str sha \<and> Some (dr_candidate_git_sha r) = sha \<and>
      g ''VERIFY_GATE'' = Some ''passed'' \<and> distributables arts \<noteq> [] \<and>
      (''qa_gate'' \<in> wanted \<longrightarrow> g ''QA_GATE'' = Some ''passed'') \<and>
      (''installer'' \<in> wanted \<longrightarrow> artifacts_of ''installer'' arts \<noteq> [] \<and> artifacts_of ''installer_placeholder'' arts = []) \<and>
      (''checksum'' \<in> wanted \<longrightarrow> (\<forall>a \<in> set arts. ar_sha256 a \<noteq> []) \<and> g ''CHECKSUM_GATE'' = Some ''passed'') \<and>
      (''sbom'' \<in> wanted \<longrightarrow> artifacts_of ''sbom'' arts \<noteq> [] \<and> g ''SBOM_GATE'' \<in> {Some ''passed'', Some ''not_required''}) \<and>
      (''signature'' \<in> wanted \<longrightarrow> (\<forall>a \<in> set arts. ar_signature_status a \<in> {''signed'', ''not_required''}) \<and>
         g ''SIGNATURE_GATE'' = Some ''passed'') \<and>
      (''publication'' \<in> wanted \<longrightarrow> dr_publication_status r = ''published'' \<and> truthy_str (dr_github_release_url r)))"

lemma evaluate_effective_iff:
  assumes "\<not> ac_invalid c" "''local_release'' \<notin> set (ac_effective_requirements c)"
    "set baseline \<subseteq> set (ac_effective_requirements c)"
  shows "\<exists>ok missing. evaluate_effective_requirements c (Some rid) sha s =
      (missing = [], ac_effective_requirements c, ok, missing) \<and>
    (missing = [] \<longleftrightarrow> rid \<noteq> [] \<and>
       (\<exists>r. get_delivery_release rid s = Some r \<and> accepted_release (set (ac_effective_requirements c)) r sha s))"
proof -
  let ?R = "set (ac_effective_requirements c)"
  have base: "''release_record'' \<in> ?R" "''verified_artifact'' \<in> ?R" "''verify_gate'' \<in> ?R" "''candidate_provenance'' \<in> ?R"
    using assms(3) by (auto simp: baseline_def)
  have none: "\<not> (\<forall>(name, ok) \<in> set (requirement_checks (ac_effective_requirements c) None g arts sha). name \<in> ?R \<longrightarrow> ok)" for g arts
    using base by (simp add: requirement_checks_def Let_def)
  have some: "(\<forall>(name, ok) \<in> set (requirement_checks (ac_effective_requirements c) (Some r)
        (list_gate_statuses (dr_release_record_id r) s) (list_delivery_artifacts (dr_release_record_id r) s) sha).
        name \<in> ?R \<longrightarrow> ok) \<longleftrightarrow> accepted_release ?R r sha s" for r
    using base assms(2)
    by (simp add: requirement_checks_def accepted_release_def candidate_matches_def publication_done_def Let_def list_all_iff)
       blast
  show ?thesis
    using assms(1) none some
    by (cases "get_delivery_release rid s"; cases "rid = []")
       (simp_all add: evaluate_effective_requirements_def Let_def truthy_str_def str_of_def missing_Nil_iff del: filter_filter)
qed

section \<open>Properties\<close>

text \<open>C10: A release is accepted exactly when it has what was asked for: for a run that requests a release,
  under a delivery contract that can be read, the evaluation returns, and reports no missing output
  exactly when the release record is named and exists, its candidate is the one the run built, the VERIFY gate has
  passed, a distributable artifact exists, and each of the QA gate, installer, checksums, SBOM, signatures
  and publication holds where the contract or the sponsor requires it. The lifecycle status of the record
  plays no part.\<close>

theorem release_accepted_iff:
  assumes "oq_request_type q = Some rt" "is_release rt" "oq_project_id q = Some pid" "pid \<noteq> []"
    "outcome_policy pf q pid = Some c" "handoff_desired_outputs (oq_handoff_id q) s = Inr d"
    "oq_release_record_id q = Some rid"
    "wanted = set (sponsor_requirements d (oq_objective q)) \<union> set (policy_requirements (Some c))"
  shows "\<exists>required ok missing. evaluate_sponsor_outcome pf q s = Inr (missing = [], required, ok, missing) \<and>
    (missing = [] \<longleftrightarrow> rid \<noteq> [] \<and>
       (\<exists>r. get_delivery_release rid s = Some r \<and> accepted_release wanted r (oq_candidate_git_sha q) s))"
proof -
  have "rt \<noteq> []" using assms(2) by (auto simp: is_release_def py_upper_def)
  then have pick: "str_of (str_or (Some rt) v) = rt" "str_of (str_or (Some pid) w) = pid" for v w
    using assms(4) by (simp_all add: str_or_def str_of_def)
  obtain ac where ac: "build_acceptance_contract (oq_handoff_id q) rt (oq_objective q) (Some c) s = Inr ac"
      "\<not> ac_invalid ac" "set (ac_effective_requirements ac) = set baseline \<union> wanted"
    using build_acceptance_contract_eq [OF assms(6), of rt "oq_objective q" "Some c"] assms(2,8) by auto
  have "accepted_release (set baseline \<union> wanted) r sha s \<longleftrightarrow> accepted_release wanted r sha s" for r sha
    by (simp add: accepted_release_def baseline_def)
  moreover have "set baseline \<subseteq> set (ac_effective_requirements ac)" using ac(3) by simp
  ultimately show ?thesis
    using evaluate_effective_iff [OF ac(2) local_release_never_required [OF ac(1)], of rid "oq_candidate_git_sha q" s] ac(1,3) assms
    by (auto simp: evaluate_sponsor_outcome_def Let_def pick)
qed

definition sample_policy :: policy_files where
  "sample_policy = \<lparr>contract_at = (\<lambda>root. if root = ''/repo''
       then Some \<lparr>dc_sbom_policy = ''optional'', dc_checksum_policy = ''sha256'', dc_code_signing_policy = ''optional''\<rparr>
       else None), registry_root = (\<lambda>pid. if pid = ''PRJ-1'' then Some ''/repo'' else None)\<rparr>"

definition sample_outcome_request :: outcome_request where
  "sample_outcome_request =
     \<lparr>oq_run_id = ''RUN-1'', oq_handoff_id = None, oq_objective = ''build the package'', oq_request_type = Some ''RELEASE'',
      oq_release_record_id = Some ''DLV-1'', oq_candidate_git_sha = Some ''abc'', oq_repository_root = None,
      oq_project_id = Some ''PRJ-1''\<rparr>"

text \<open>The sample release with the VERIFY, QA and CHECKSUM gates passed.\<close>

definition sample_verified :: db where
  "sample_verified = fold (\<lambda>gate s. snd (transaction (upsert_gate_status ''DLV-1'' gate ''passed'' None None) s))
     [''VERIFY_GATE'', ''QA_GATE'', ''CHECKSUM_GATE''] sample_delivery_store"

theorem release_accepted_iff_witness:
  "\<exists>required ok. evaluate_sponsor_outcome sample_policy sample_outcome_request sample_verified = Inr (True, required, ok, [])"
proof -
  let ?c = "\<lparr>dc_sbom_policy = ''optional'', dc_checksum_policy = ''sha256'', dc_code_signing_policy = ''optional''\<rparr>"
  let ?w = "set (sponsor_requirements [] (oq_objective sample_outcome_request)) \<union> set (policy_requirements (Some ?c))"
  have hyps: "oq_request_type sample_outcome_request = Some ''RELEASE''" "is_release ''RELEASE''"
    "oq_project_id sample_outcome_request = Some ''PRJ-1''" "''PRJ-1'' \<noteq> []"
    "outcome_policy sample_policy sample_outcome_request ''PRJ-1'' = Some ?c"
    "handoff_desired_outputs (oq_handoff_id sample_outcome_request) sample_verified = Inr []"
    "oq_release_record_id sample_outcome_request = Some ''DLV-1''" by code_simp+
  have "get_delivery_release ''DLV-1'' sample_verified = Some (hd (releases sample_verified))"
    "accepted_release ?w (hd (releases sample_verified)) (oq_candidate_git_sha sample_outcome_request) sample_verified"
    by code_simp+
  with release_accepted_iff [OF hyps refl] show ?thesis by force
qed

end
