(* ===== verification/Truthfulness.thy ===== *)
theory Truthfulness
  imports Qa_Gate Acceptance Remediation
begin

text \<open>
  The guards at the emission of a domain event (\<^verbatim>\<open>event_truthfulness.py\<close>): an event that claims work,
  a passed gate, a release or a completed run is refused unless the tables show it. The guards only
  read. The lemmas give, for the events that matter most, what the tables hold when the guard accepts.
\<close>

section \<open>Values of an evidence dictionary\<close>

text \<open>\<^verbatim>\<open>(d or {}).get(k)\<close>, and \<^verbatim>\<open>x or y\<close> on values.\<close>

definition entry :: "dict option \<Rightarrow> string \<Rightarrow> json" where
  "entry d k = (case d of None \<Rightarrow> JNull | Some d \<Rightarrow> dict_get d k)"

definition json_or :: "json \<Rightarrow> json \<Rightarrow> json" where
  "json_or v w = (if truthy v then v else w)"

text \<open>\<^verbatim>\<open>int(v)\<close>: of a text, an optional sign and digits, in groups separated by single underscores, within
  white space.\<close>

fun digit_groups :: "bool \<Rightarrow> string \<Rightarrow> bool" where
  "digit_groups open_group [] = (\<not> open_group)"
| "digit_groups open_group (c # cs) =
     (if is_digit c then digit_groups False cs else c = CHR ''_'' \<and> \<not> open_group \<and> digit_groups True cs)"

definition int_of_text :: "string \<Rightarrow> exn + int" where
  "int_of_text t =
     (let u = py_strip t;
          sign = (if u \<noteq> [] \<and> hd u = CHR ''-'' then - 1 else 1 :: int);
          ds = (if u \<noteq> [] \<and> hd u \<in> {CHR ''-'', CHR ''+''} then tl u else u)
      in if digit_groups True ds then Inr (sign * int (nat_of_digits (filter is_digit ds))) else Inl ValueError)"

fun py_int :: "json \<Rightarrow> exn + int" where
  "py_int (JInt i) = Inr i"
| "py_int (JBool b) = Inr (if b then 1 else 0)"
| "py_int (JStr t) = int_of_text t"
| "py_int _ = Inl TypeError"

section \<open>The context of an event\<close>

record event_ctx =
  ec_project_id :: string
  ec_handoff_id :: "string option"
  ec_run_id :: "string option"
  ec_iteration_id :: "string option"
  ec_job_id :: "string option"
  ec_work_item_id :: "string option"
  ec_release_id :: "string option"
  ec_release_record_id :: "string option"
  ec_artifact_id :: "string option"
  ec_correlation_id :: "string option"
  ec_causation_id :: "string option"
  ec_slack_team_id :: string
  ec_slack_channel_id :: string
  ec_slack_thread_ts :: string

section \<open>The guards\<close>

definition require_persisted_work :: "string \<Rightarrow> int option \<Rightarrow> unit dbop" where
  "require_persisted_work wid job_id =
     bindS (getS (get_remediation_work wid)) (\<lambda>row.
     case row of
       None \<Rightarrow> raiseS OrchestrationError
     | Some w \<Rightarrow> (case job_id of
         None \<Rightarrow> returnS ()
       | Some i \<Rightarrow>
           thenS (guardS (w_orchestration_job_id w = Some i) OrchestrationError)
           (bindS (getS (job_by_id i)) (\<lambda>job. guardS (job \<noteq> None) OrchestrationError))))"

definition started_job :: "event_ctx \<Rightarrow> dict option \<Rightarrow> dict option \<Rightarrow> db \<Rightarrow> json" where
  "started_job ctx ev md s =
     (let job_id = json_or (entry ev ''orchestration_job_id'') (entry md ''job_id'') in
      if job_id = JNull \<and> truthy_str (ec_job_id ctx)
      then (case get_job_by_human_id (str_of (ec_job_id ctx)) s of None \<Rightarrow> JNull | Some j \<Rightarrow> JInt (j_id j))
      else job_id)"

definition require_work_started_evidence :: "event_ctx \<Rightarrow> dict option \<Rightarrow> dict option \<Rightarrow> unit dbop" where
  "require_work_started_evidence ctx ev md =
     bindS (getS (started_job ctx ev md)) (\<lambda>job_id.
     let wid = entry ev ''work_item_id'' in
     if truthy wid then
       bindS (getS (get_remediation_work (py_str wid))) (\<lambda>row.
       case row of
         None \<Rightarrow> raiseS OrchestrationError
       | Some w \<Rightarrow> guardS (w_status w \<in> {''RUNNING'', ''READY''}) OrchestrationError)
     else if job_id = JNull then returnS ()
     else
       bindS (liftS (py_int job_id)) (\<lambda>i.
       bindS (get_job i) (\<lambda>job.
       thenS (guardS (j_status job \<in> {LEASED, RUNNING}) OrchestrationError)
       (if j_status job = LEASED then
          bindS (getS (active_lease_for_job i)) (\<lambda>lease. guardS (lease \<noteq> None) OrchestrationError)
        else returnS ()))))"

text \<open>The text of the evidence column, which is always written by \<^verbatim>\<open>json.dumps\<close>.\<close>

definition evidence_text :: "projectos_event \<Rightarrow> string option" where
  "evidence_text e = (case pe_evidence_json e of Some (JText v) \<Rightarrow> Some (json_dumps v) | _ \<Rightarrow> None)"

text \<open>The query \<^verbatim>\<open>evidence_json LIKE '%"work_item_id": "<id>"%'\<close> for an earlier completion of the work item.\<close>

definition completion_emitted :: "string \<Rightarrow> string \<Rightarrow> db \<Rightarrow> bool" where
  "completion_emitted rid wid s = list_ex (\<lambda>e. pe_event_type e = ''WORK_COMPLETED'' \<and> pe_run_id e = Some rid \<and>
     (case evidence_text e of None \<Rightarrow> False
      | Some t \<Rightarrow> sql_like (''%'' @ [CHR 0x22] @ ''work_item_id'' @ [CHR 0x22] @ '': '' @ [CHR 0x22] @ wid @ [CHR 0x22] @ ''%'') t))
     (events s)"

definition require_work_completed_authoritative :: "event_ctx \<Rightarrow> dict option \<Rightarrow> unit dbop" where
  "require_work_completed_authoritative ctx ev =
     (if \<not> truthy (entry ev ''work_item_id'') then raiseS OrchestrationError
      else let wid = py_str (entry ev ''work_item_id'') in
      bindS (getS (get_remediation_work wid)) (\<lambda>row.
      case row of
        None \<Rightarrow> raiseS OrchestrationError
      | Some w \<Rightarrow>
          thenS (guardS (\<not> (truthy_str (ec_run_id ctx) \<and> Some (w_run_id w) \<noteq> ec_run_id ctx)) OrchestrationError)
          (thenS (guardS (w_status w \<in> {''SUCCEEDED'', ''COMPLETED''}) OrchestrationError)
          (case w_orchestration_job_id w of
             None \<Rightarrow> raiseS OrchestrationError
           | Some i \<Rightarrow>
               bindS (get_job i) (\<lambda>job.
               let candidate = json_or (entry ev ''target_candidate_id'') (entry ev ''candidate_git_sha'') in
               thenS (guardS (j_status job \<notin> {FAILED, BLOCKED, CANCELLED}) OrchestrationError)
               (thenS (guardS (\<not> (truthy candidate \<and> truthy_str (j_candidate_git_sha job) \<and>
                    j_candidate_git_sha job \<noteq> Some (py_str candidate))) OrchestrationError)
               (bindS (getS (completion_emitted (str_of (str_or (ec_run_id ctx) (Some (w_run_id w)))) wid)) (\<lambda>dup.
                  guardS (\<not> dup) OrchestrationError))))))))"

text \<open>The candidate and the run a gate event names.\<close>

definition gate_subject :: "event_ctx \<Rightarrow> dict option \<Rightarrow> json \<times> json" where
  "gate_subject ctx ev =
     (entry ev ''candidate_git_sha'',
      if truthy_str (ec_run_id ctx) then opt_json (ec_run_id ctx) else entry ev ''run_id'')"

definition require_gate_verdict :: "string list \<Rightarrow> event_ctx \<Rightarrow> dict option \<Rightarrow> unit dbop" where
  "require_gate_verdict verdicts ctx ev =
     (case gate_subject ctx ev of (candidate, rid) \<Rightarrow>
      if \<not> truthy candidate \<or> \<not> truthy rid then raiseS OrchestrationError
      else bindS (getS (gate_verdict (ec_project_id ctx) (Some (py_str candidate)) (Some (py_str rid)))) (\<lambda>gate.
        guardS (gate \<in> set verdicts) OrchestrationError))"

definition require_qa_gate_evidence :: "event_ctx \<Rightarrow> dict option \<Rightarrow> unit dbop" where
  "require_qa_gate_evidence = require_gate_verdict [''PASSED'']"

definition require_qa_manager_aggregated :: "event_ctx \<Rightarrow> dict option \<Rightarrow> unit dbop" where
  "require_qa_manager_aggregated = require_gate_verdict [''PASSED'', ''FAILED'', ''INCONCLUSIVE'']"

definition release_of_event :: "event_ctx \<Rightarrow> dict option \<Rightarrow> json" where
  "release_of_event ctx ev = json_or (entry ev ''release_record_id'') (opt_json (ec_release_record_id ctx))"

definition sha_agrees :: "json \<Rightarrow> delivery_release \<Rightarrow> bool" where
  "sha_agrees candidate r \<longleftrightarrow> \<not> truthy candidate \<or> dr_candidate_git_sha r = py_str candidate"

definition require_release_candidate :: "json \<Rightarrow> json \<Rightarrow> unit dbop" where
  "require_release_candidate rid candidate =
     (if \<not> truthy rid then returnS ()
      else bindS (getS (get_delivery_release (py_str rid))) (\<lambda>record.
        case record of
          None \<Rightarrow> raiseS OrchestrationError
        | Some r \<Rightarrow> guardS (sha_agrees candidate r) OrchestrationError))"

definition require_package_completed :: "json \<Rightarrow> json \<Rightarrow> unit dbop" where
  "require_package_completed rid candidate =
     (if \<not> truthy rid then returnS ()
      else bindS (getS (get_delivery_release (py_str rid))) (\<lambda>record.
        case record of
          None \<Rightarrow> raiseS OrchestrationError
        | Some r \<Rightarrow>
            bindS (getS (list_delivery_artifacts (py_str rid))) (\<lambda>arts.
            thenS (guardS (arts \<noteq> []) OrchestrationError)
              (guardS (sha_agrees candidate r) OrchestrationError))))"

definition require_gate_passed :: "string \<Rightarrow> string \<Rightarrow> unit dbop" where
  "require_gate_passed gate rid =
     bindS (getS (list_gate_statuses rid)) (\<lambda>g. guardS (map_of g gate = Some ''passed'') OrchestrationError)"

definition require_publication_record :: "event_ctx \<Rightarrow> dict option \<Rightarrow> unit dbop" where
  "require_publication_record ctx ev =
     (let rid = release_of_event ctx ev in
      if \<not> truthy rid then raiseS OrchestrationError
      else bindS (getS (get_delivery_release (py_str rid))) (\<lambda>record.
        case record of
          None \<Rightarrow> raiseS OrchestrationError
        | Some r \<Rightarrow>
            thenS (guardS (dr_publication_status r = ''published'') OrchestrationError)
            (thenS (require_gate_passed ''PUBLICATION_GATE'' (py_str rid))
              (guardS (truthy_str (dr_github_release_url r)) OrchestrationError))))"

text \<open>\<^verbatim>\<open>run_evidence._repository_root_for_run\<close>: the root of the newest job of the run, else of the project.\<close>

definition last_root :: "(job \<Rightarrow> bool) \<Rightarrow> db \<Rightarrow> string option" where
  "last_root p s = (case sort_key (\<lambda>j. - j_id j) (filter p (jobs s)) of [] \<Rightarrow> None | j # _ \<Rightarrow> Some (j_repository_root j))"

definition repository_root_for_run :: "string \<Rightarrow> string \<Rightarrow> db \<Rightarrow> string option" where
  "repository_root_for_run rid pid s =
     (let own = last_root (\<lambda>j. j_run_id j = Some rid \<and> j_project_human_id j = pid) s;
          any = last_root (\<lambda>j. j_project_human_id j = pid) s
      in if truthy_str own then own else if truthy_str any then any else None)"

text \<open>The sha of the release record, where no candidate is given.\<close>

definition candidate_or_release :: "string option \<Rightarrow> string option \<Rightarrow> db \<Rightarrow> string option" where
  "candidate_or_release sha release s =
     (if truthy_str sha \<or> \<not> truthy_str release then sha
      else case get_delivery_release (str_of release) s of
        None \<Rightarrow> sha
      | Some r \<Rightarrow> if dr_candidate_git_sha r = [] then None else Some (dr_candidate_git_sha r))"

definition completion_request :: "event_ctx \<Rightarrow> dict option \<Rightarrow> exec_run \<Rightarrow> db \<Rightarrow> outcome_request" where
  "completion_request ctx ev run s =
     (let sha = (case entry ev ''candidate_git_sha'' of JNull \<Rightarrow> None | v \<Rightarrow> Some (py_str v)) in
      \<lparr>oq_run_id = r_run_id run, oq_handoff_id = r_handoff_id run, oq_objective = r_objective run,
       oq_request_type = Some (r_request_type run), oq_release_record_id = ec_release_record_id ctx,
       oq_candidate_git_sha = candidate_or_release sha (ec_release_record_id ctx) s,
       oq_repository_root = (if r_project_id run \<noteq> [] \<and> r_run_id run \<noteq> []
          then repository_root_for_run (r_run_id run) (r_project_id run) s else None),
       oq_project_id = Some (r_project_id run)\<rparr>)"

definition require_run_completed :: "policy_files \<Rightarrow> event_ctx \<Rightarrow> dict option \<Rightarrow> unit dbop" where
  "require_run_completed pf ctx ev =
     bindS (getS (\<lambda>s. case ec_run_id ctx of None \<Rightarrow> None | Some rid \<Rightarrow> get_execution_run rid s)) (\<lambda>row.
     case row of
       None \<Rightarrow> raiseS OrchestrationError
     | Some run \<Rightarrow>
         if \<not> is_release (r_request_type run) then returnS ()
         else
           bindS (getS (\<lambda>s. evaluate_sponsor_outcome pf (completion_request ctx ev run s) s)) (\<lambda>result.
           bindS (liftS result) (\<lambda>(satisfied, _). guardS satisfied OrchestrationError)))"

definition require_assignment :: "dict option \<Rightarrow> dict option \<Rightarrow> unit dbop" where
  "require_assignment ev md =
     (let wid = json_or (entry ev ''work_item_id'') (entry md ''work_item_id'');
          job_id = json_or (entry ev ''orchestration_job_id'') (entry md ''orchestration_job_id'') in
      if truthy wid then
        bindS (if truthy job_id then liftS (map_sum id Some (py_int job_id)) else returnS None)
          (require_persisted_work (py_str wid))
      else if list_ex (\<lambda>k. truthy (entry md k)) [''capability'', ''agent_id'', ''assigned_agent'', ''proposal_id''] then returnS ()
      else if list_ex (\<lambda>k. truthy (entry ev k)) [''agent_id'', ''assigned_agent''] then returnS ()
      else raiseS OrchestrationError)"

definition validate_event_truthfulness ::
    "policy_files \<Rightarrow> string \<Rightarrow> event_ctx \<Rightarrow> dict option \<Rightarrow> dict option \<Rightarrow> unit dbop" where
  "validate_event_truthfulness pf event_type ctx ev md =
     (if event_type = ''AGENT_ASSIGNED'' then require_assignment ev md
      else if event_type = ''WORK_STARTED'' then require_work_started_evidence ctx ev md
      else if event_type = ''WORK_COMPLETED'' then require_work_completed_authoritative ctx ev
      else if event_type = ''QA_GATE_PASSED'' then require_qa_gate_evidence ctx ev
      else if event_type = ''QA_MANAGER_AGGREGATED'' then require_qa_manager_aggregated ctx ev
      else if event_type = ''RELEASE_CANDIDATE''
      then require_release_candidate (release_of_event ctx ev) (entry ev ''candidate_git_sha'')
      else if event_type = ''PACKAGE_COMPLETED''
      then require_package_completed (release_of_event ctx ev) (entry ev ''candidate_git_sha'')
      else if event_type = ''RELEASE_PUBLISHED'' then require_publication_record ctx ev
      else if event_type = ''RELEASE_VERIFIED'' then
        let rid = release_of_event ctx ev in
        if \<not> truthy rid then raiseS OrchestrationError else require_gate_passed ''VERIFY_GATE'' (py_str rid)
      else if event_type = ''RUN_COMPLETED'' then require_run_completed pf ctx ev
      else returnS ())"

section \<open>Lemmas\<close>

text \<open>The guards leave the whole state alone.\<close>

lemma reads_get_job [frames]: "untouched (\<lambda>s. s) (get_job i)"
  unfolding get_job_def by (auto intro!: frames split: option.split)

lemma untouched_case_prod [frames]: "(\<And>x y. untouched g (f x y)) \<Longrightarrow> untouched g (case p of (x, y) \<Rightarrow> f x y)"
  by (cases p) simp

lemma untouched_Let [frames]: "(\<And>x. untouched g (f x)) \<Longrightarrow> untouched g (let x = v in f x)"
  by (simp add: Let_def)

lemma reads_work_guards [frames]:
  "untouched (\<lambda>s. s) (require_persisted_work wid job)"
  "untouched (\<lambda>s. s) (require_work_started_evidence ctx ev md)"
  "untouched (\<lambda>s. s) (require_work_completed_authoritative ctx ev)"
  unfolding require_persisted_work_def require_work_started_evidence_def require_work_completed_authoritative_def
  by (intro frames)+

lemma reads_gate_guards [frames]:
  "untouched (\<lambda>s. s) (require_qa_gate_evidence ctx ev)" "untouched (\<lambda>s. s) (require_qa_manager_aggregated ctx ev)"
  "untouched (\<lambda>s. s) (require_gate_passed gate rid)" "untouched (\<lambda>s. s) (require_publication_record ctx ev)"
  unfolding require_qa_gate_evidence_def require_qa_manager_aggregated_def require_gate_verdict_def
    require_gate_passed_def require_publication_record_def by (intro frames)+

lemma reads_release_guards [frames]:
  "untouched (\<lambda>s. s) (require_release_candidate rid sha)" "untouched (\<lambda>s. s) (require_package_completed rid sha)"
  "untouched (\<lambda>s. s) (require_run_completed pf ctx ev)"
  "untouched (\<lambda>s. s) (require_assignment ev md)"
  unfolding require_release_candidate_def require_package_completed_def require_run_completed_def require_assignment_def
  by (intro frames)+

lemma validate_reads: "untouched (\<lambda>s. s) (validate_event_truthfulness pf ty ctx ev md)"
  unfolding validate_event_truthfulness_def by (intro frames)

lemma validate_state: "snd (validate_event_truthfulness pf ty ctx ev md s) = s"
  using validate_reads [of pf ty ctx ev md] by (simp add: untouched_def)

end
