(* ===== verification/Events.thy ===== *)
theory Events
  imports Truthfulness Outbox
begin

text \<open>
  Domain events (\<^verbatim>\<open>domain_events.py\<close>), the terminal evidence and the closing of a run
  (\<^verbatim>\<open>run_evidence.py\<close>) and the events of the QA gate (\<^verbatim>\<open>qa_gate.py\<close>). An event is written together with its
  outbox rows and its effect on the run, after the guards of \<open>Truthfulness\<close>. The publication of a
  release may close the run, which emits a second event; that event never emits a third, so the mutual
  recursion of \<^verbatim>\<open>emit_projectos_event\<close> and \<^verbatim>\<open>maybe_close_run_after_event\<close> is unfolded once, and a lemma shows that
  nothing is lost. The lemmas show what an emission writes, that it is refused without
  evidence, and that a run is closed once.
\<close>

section \<open>Emission (\<^verbatim>\<open>emit_projectos_event\<close>)\<close>

definition ACTOR_ROLE_LABELS :: "(string \<times> string) list" where
  "ACTOR_ROLE_LABELS =
     [(''pm-agent'', ''PM Agent''), (''architecture-agent'', ''Architecture Agent''), (''developer-agent'', ''Developer Agent''),
      (''qa-agent'', ''QA Agent''), (''security-agent'', ''Security Agent''), (''assurance-agent'', ''QC Agent''),
      (''delivery-agent'', ''Delivery Agent''), (''release-agent'', ''Release Agent''),
      (''improvement-agent'', ''Improvement Agent'')]"

definition VISIBILITY_LEVELS :: "string list" where
  "VISIBILITY_LEVELS = [''INTERNAL'', ''SPONSOR'', ''AUDIT'']"

record event_args =
  em_event_type :: string
  em_summary :: string
  em_actor_type :: string
  em_actor_id :: string
  em_actor_role :: "string option"
  em_phase :: string
  em_status :: string
  em_severity :: string
  em_progress :: "int option"
  em_detail :: string
  em_evidence :: "dict option"
  em_metadata :: "dict option"
  em_visibility :: string
  em_detail_level :: string
  em_subscribers :: "string list"

text \<open>The default arguments.\<close>

definition event_args_of :: "string \<Rightarrow> string \<Rightarrow> event_args" where
  "event_args_of ty summary =
     \<lparr>em_event_type = ty, em_summary = summary, em_actor_type = ''agent'', em_actor_id = ''pm-agent'',
      em_actor_role = None, em_phase = [], em_status = [], em_severity = ''info'', em_progress = None,
      em_detail = [], em_evidence = None, em_metadata = None, em_visibility = ''SPONSOR'',
      em_detail_level = ''normal'', em_subscribers = [''slack'']\<rparr>"

definition event_role :: "event_args \<Rightarrow> string" where
  "event_role a = str_of (str_or (em_actor_role a)
     (Some (case map_of ACTOR_ROLE_LABELS (em_actor_id a) of None \<Rightarrow> em_actor_id a | Some r \<Rightarrow> r)))"

definition merged_meta :: "event_ctx \<Rightarrow> event_args \<Rightarrow> dict" where
  "merged_meta ctx a =
     dict_update
       (if ec_slack_channel_id ctx = [] then []
        else [(''slack_team_id'', JStr (ec_slack_team_id ctx)), (''slack_channel_id'', JStr (ec_slack_channel_id ctx)),
              (''slack_thread_ts'', JStr (ec_slack_thread_ts ctx))])
       (case em_metadata a of None \<Rightarrow> [] | Some md \<Rightarrow> md)"

definition dict_column :: "dict option \<Rightarrow> jtext option" where
  "dict_column d = (case d of None \<Rightarrow> None | Some d \<Rightarrow> if d = [] then None else Some (JText (JObj d)))"

definition text_column :: "string \<Rightarrow> string option" where
  "text_column t = (if t = [] then None else Some t)"

definition event_row :: "event_ctx \<Rightarrow> event_args \<Rightarrow> string \<Rightarrow> iso \<Rightarrow> projectos_event" where
  "event_row ctx a event_id now =
     \<lparr>pe_event_id = event_id, pe_event_version = 1, pe_occurred_at = now, pe_project_id = ec_project_id ctx,
      pe_handoff_id = ec_handoff_id ctx, pe_run_id = ec_run_id ctx, pe_iteration_id = ec_iteration_id ctx,
      pe_job_id = ec_job_id ctx, pe_work_item_id = ec_work_item_id ctx, pe_release_id = ec_release_id ctx,
      pe_release_record_id = ec_release_record_id ctx, pe_artifact_id = ec_artifact_id ctx,
      pe_actor_type = em_actor_type a, pe_actor_id = em_actor_id a, pe_actor_role = event_role a,
      pe_event_type = em_event_type a, pe_phase = text_column (em_phase a), pe_status = text_column (em_status a),
      pe_severity = em_severity a, pe_progress = em_progress a, pe_summary = take 1000 (em_summary a),
      pe_detail = text_column (take 4000 (em_detail a)), pe_evidence_json = dict_column (em_evidence a),
      pe_metadata_json = dict_column (Some (merged_meta ctx a)),
      pe_visibility = (if em_visibility a \<in> set VISIBILITY_LEVELS then em_visibility a else ''SPONSOR''),
      pe_detail_level = (if em_detail_level a \<in> set DETAIL_LEVELS then em_detail_level a else ''normal''),
      pe_correlation_id = str_or (ec_correlation_id ctx) (ec_run_id ctx), pe_causation_id = ec_causation_id ctx\<rparr>"

definition outbox_payload :: "event_ctx \<Rightarrow> event_args \<Rightarrow> string \<Rightarrow> dict" where
  "outbox_payload ctx a event_id =
     [(''event_id'', JStr event_id), (''event_type'', JStr (em_event_type a)), (''project_id'', JStr (ec_project_id ctx)),
      (''handoff_id'', opt_json (ec_handoff_id ctx)), (''run_id'', opt_json (ec_run_id ctx)),
      (''summary'', JStr (em_summary a)), (''detail'', JStr (em_detail a)), (''actor_id'', JStr (em_actor_id a)),
      (''actor_role'', JStr (event_role a)), (''detail_level'', JStr (em_detail_level a)),
      (''visibility'', JStr (em_visibility a)),
      (''evidence'', case em_evidence a of None \<Rightarrow> JNull | Some d \<Rightarrow> JObj d),
      (''slack_team_id'', JStr (ec_slack_team_id ctx)), (''slack_channel_id'', JStr (ec_slack_channel_id ctx)),
      (''slack_thread_ts'', JStr (ec_slack_thread_ts ctx))] @
     (let meta = merged_meta ctx a in
      if meta = [] then []
      else (''metadata'', JObj meta) #
        filter (\<lambda>(k, _). k \<in> fst ` set meta)
          (map (\<lambda>k. (k, dict_get meta k)) [''request_type'', ''phases'', ''options'', ''assigned_agent'', ''agent_id'']))"

definition outbox_entry :: "string \<Rightarrow> string \<Rightarrow> dict \<Rightarrow> int \<Rightarrow> iso \<Rightarrow> outbox_row" where
  "outbox_entry event_id subscriber payload i now =
     \<lparr>o_id = i, o_event_id = event_id, o_subscriber = subscriber,
      o_idempotency_key = subscriber @ '':'' @ event_id, o_payload = JText (JObj payload), o_status = OPending,
      o_attempts = 0, o_last_error = None, o_created_at = now, o_delivered_at = None, o_claimed_by = None,
      o_claim_expires_at = None, o_blocked_by_outbox_id = None\<rparr>"

text \<open>\<^verbatim>\<open>INSERT ... ON CONFLICT(idempotency_key) DO NOTHING\<close>.\<close>

definition enqueue :: "string \<Rightarrow> dict \<Rightarrow> string \<Rightarrow> unit dbop" where
  "enqueue event_id payload subscriber =
     modifyS (\<lambda>s. if subscriber @ '':'' @ event_id \<in> o_idempotency_key ` set (outbox s) then s
       else s\<lparr>outbox := outbox s @ [outbox_entry event_id subscriber payload (outbox_seq s + 1) (now_iso s)],
              outbox_seq := outbox_seq s + 1\<rparr>)"

definition run_payload :: "event_args \<Rightarrow> event_payload" where
  "run_payload a =
     \<lparr>p_phase = Some (if em_phase a = [] then em_event_type a else em_phase a), p_event_type = [],
      p_actor_id = Some (em_actor_id a), p_progress = em_progress a, p_summary = Some (em_summary a),
      p_evidence = (case em_evidence a of None \<Rightarrow> NoEvidence | Some d \<Rightarrow> EvidenceDict d)\<rparr>"

text \<open>The subscribers that get a row: an AUDIT event is not sent to Slack.\<close>

definition event_subscribers :: "event_args \<Rightarrow> string list" where
  "event_subscribers a = filter (\<lambda>sub. \<not> (em_visibility a = ''AUDIT'' \<and> sub = ''slack'')) (em_subscribers a)"

text \<open>The body of the function, with the call of \<^verbatim>\<open>maybe_close_run_after_event\<close> as an argument. The result is
  the id of the event.\<close>

definition emit_with ::
    "(event_ctx \<Rightarrow> string \<Rightarrow> unit dbop) \<Rightarrow> policy_files \<Rightarrow> event_ctx \<Rightarrow> event_args \<Rightarrow> string dbop" where
  "emit_with close pf ctx a =
     thenS (validate_event_truthfulness pf (em_event_type a) ctx (em_evidence a) (em_metadata a))
     (bindS new_uuid (\<lambda>hex.
      let event_id = ''EVT-'' @ py_upper (take 12 hex) in
      bindS (getS (\<lambda>s. event_id \<in> pe_event_id ` set (events s))) (\<lambda>clash.
      thenS (guardS (\<not> clash) IntegrityError)
      (thenS (modifyS (\<lambda>s. s\<lparr>events := events s @ [event_row ctx a event_id (now_iso s)]\<rparr>))
      (thenS (mapS (enqueue event_id (outbox_payload ctx a event_id)) (event_subscribers a))
      (thenS (if truthy_str (ec_run_id ctx)
              then thenS (apply_event_to_run (str_of (ec_run_id ctx)) (em_event_type a) (run_payload a))
                (close ctx (em_event_type a))
              else returnS ())
        (returnS event_id)))))))"

section \<open>Terminal evidence (\<^verbatim>\<open>build_terminal_evidence\<close>)\<close>

text \<open>\<^verbatim>\<open>ORDER BY occurred_at DESC LIMIT 1\<close>; of rows with the same second the one written last is taken.\<close>

definition latest_event :: "(projectos_event \<Rightarrow> bool) \<Rightarrow> db \<Rightarrow> projectos_event option" where
  "latest_event p s = (case sort_key (\<lambda>e. - pe_occurred_at e) (rev (filter p (events s))) of [] \<Rightarrow> None | e # _ \<Rightarrow> Some e)"

text \<open>The ids of the release that the newest event with one names, the record id also from its metadata or
  its artifact id.\<close>

definition meta_release :: "jtext option \<Rightarrow> string option" where
  "meta_release md =
     (case md of Some (JText (JObj d)) \<Rightarrow>
        (case dict_get d ''release_record_id'' of JNull \<Rightarrow> None | v \<Rightarrow> Some (py_str v))
      | _ \<Rightarrow> None)"

definition event_release :: "string \<Rightarrow> db \<Rightarrow> string option \<times> string option" where
  "event_release rid s =
     (case latest_event (\<lambda>e. pe_run_id e = Some rid \<and> (pe_release_id e \<noteq> None \<or> pe_release_record_id e \<noteq> None)) s of
        None \<Rightarrow> (None, None)
      | Some e \<Rightarrow> (pe_release_id e,
          str_or (str_or (pe_release_record_id e)
            (if pe_metadata_json e \<noteq> None then meta_release (pe_metadata_json e) else pe_release_record_id e))
            (pe_artifact_id e)))"

definition publication_url :: "string option \<Rightarrow> db \<Rightarrow> string option" where
  "publication_url release s =
     (if \<not> truthy_str release then None
      else case find_row (\<lambda>r. Some (dr_release_record_id r) = release) (releases s) of
        None \<Rightarrow> None
      | Some r \<Rightarrow> if truthy_str (dr_github_release_url r) then dr_github_release_url r else None)"

definition artifact_entry :: "string option \<Rightarrow> delivery_artifact \<Rightarrow> dict" where
  "artifact_entry url a =
     [(''artifact_id'', JStr (ar_artifact_id a)), (''filename'', JStr (ar_artifact_name a)),
      (''artifact_type'', JStr (ar_artifact_type a)), (''size_bytes'', JInt (ar_size_bytes a)),
      (''sha256'', JStr (ar_sha256 a)), (''signature_status'', JStr (ar_signature_status a))] @
     (if ar_artifact_type a = ''sbom'' then [(''sbom'', JStr (ar_artifact_name a))] else []) @
     (if truthy_str url \<and> ar_artifact_type a = ''installer'' then [(''publication_url'', opt_json url)] else [])"

definition release_artifacts :: "string option \<Rightarrow> string option \<Rightarrow> db \<Rightarrow> json" where
  "release_artifacts release url s =
     JList (if \<not> truthy_str release then []
            else map (\<lambda>a. JObj (artifact_entry url a)) (list_delivery_artifacts (str_of release) s))"

definition recent_jobs :: "string \<Rightarrow> db \<Rightarrow> json" where
  "recent_jobs pid s =
     JList (map (\<lambda>j. JObj [(''human_id'', JStr (j_human_id j)), (''queue'', JStr (j_queue j)),
                           (''status'', JStr (job_status_text (j_status j)))])
       (take 20 (sort_key (\<lambda>j. - j_updated_at j) (filter (\<lambda>j. j_project_human_id j = pid) (jobs s)))))"

definition phases_completed :: "string \<Rightarrow> db \<Rightarrow> json" where
  "phases_completed rid s =
     JList (map JStr (from_keys (map (\<lambda>e. str_of (pe_phase e))
       (sort_key pe_occurred_at (filter (\<lambda>e. pe_run_id e = Some rid \<and> truthy_str (pe_phase e)) (events s))))))"

definition FAILURE_EVENTS :: "string list" where
  "FAILURE_EVENTS =
     [''RUN_FAILED'', ''RUN_BLOCKED'', ''RUN_ESCALATED'', ''RUN_CANCELLED'', ''QA_GATE_FAILED'', ''PACKAGE_FAILED'',
      ''RELEASE_BLOCKED'', ''DELIVERY_BLOCKED'', ''RELEASE_PREPARATION_BLOCKED'', ''WORK_FAILED'']"

definition failure_of_event :: "projectos_event \<Rightarrow> dict" where
  "failure_of_event e =
     (let ev = (case pe_evidence_json e of Some (JText (JObj d)) \<Rightarrow> d | _ \<Rightarrow> []);
          nested = (case dict_get ev ''failure'' of JObj d \<Rightarrow> d | _ \<Rightarrow> []);
          retryable = (case map_of ev ''retryable'' of None \<Rightarrow> JBool True | Some v \<Rightarrow> v)
      in if nested \<noteq> [] \<and> truthy (dict_get nested ''blocker_type'') then nested
         else if truthy (dict_get ev ''blocker_type'') then
           (if ''reason'' \<in> fst ` set ev then ev else dict_set ''reason'' (JStr (pe_summary e)) ev)
         else if nested \<noteq> [] then nested
         else [(''phase'', opt_json (pe_phase e)), (''reason'', JStr (pe_summary e)), (''retryable'', retryable),
               (''required_action'', json_or (dict_get ev ''required_action'') (dict_get ev ''sponsor_impact''))] @
              (if ev = [] then [] else [(''detail'', JObj ev)]))"

definition terminal_failure :: "exec_run \<Rightarrow> db \<Rightarrow> json" where
  "terminal_failure run s =
     (if r_status run \<in> {''BLOCKED'', ''FAILED'', ''ESCALATED'', ''CANCELLED''} then
        (case latest_event (\<lambda>e. pe_run_id e = Some (r_run_id run) \<and> pe_event_type e \<in> set FAILURE_EVENTS) s of
           None \<Rightarrow> JNull | Some e \<Rightarrow> JObj (failure_of_event e))
      else JNull)"

text \<open>A time is written as its text; its form does not matter here.\<close>

definition iso_json :: "iso option \<Rightarrow> json" where
  "iso_json t = (case t of None \<Rightarrow> JNull | Some n \<Rightarrow> JStr (show_int n))"

definition build_terminal_evidence :: "string \<Rightarrow> db \<Rightarrow> dict" where
  "build_terminal_evidence rid s =
     (case get_execution_run rid s of
        None \<Rightarrow> []
      | Some run \<Rightarrow>
          (case event_release rid s of (release_id, release) \<Rightarrow>
           [(''run_id'', JStr (r_run_id run)), (''handoff_id'', opt_json (r_handoff_id run)),
            (''project_id'', JStr (r_project_id run)), (''request_type'', JStr (r_request_type run)),
            (''objective'', JStr (r_objective run)), (''terminal_status'', JStr (r_status run)),
            (''result_summary'', opt_json (r_result_summary run)), (''phases_completed'', phases_completed rid s),
            (''work_items'', JList []), (''jobs'', recent_jobs (r_project_id run) s),
            (''release_id'', opt_json release_id), (''release_record_id'', opt_json release),
            (''artifacts'', release_artifacts release (publication_url release s) s),
            (''qa'', JObj (collect_qa_gate_facts (r_project_id run) (active_candidate_sha rid s) (Some rid) s)),
            (''failure'', terminal_failure run s), (''started_at'', iso_json (r_started_at run)),
            (''completed_at'', iso_json (r_completed_at run))]))"

section \<open>Closing a run (\<^verbatim>\<open>close_execution_run\<close>)\<close>

definition run_already_terminal :: "string \<Rightarrow> db \<Rightarrow> bool" where
  "run_already_terminal rid s = list_ex (\<lambda>e. pe_run_id e = Some rid \<and>
     pe_event_type e \<in> {''RUN_COMPLETED'', ''RUN_BLOCKED'', ''RUN_FAILED'', ''RUN_ESCALATED'', ''RUN_CANCELLED''}) (events s)"

definition LEGACY_CLOSE_OUTCOME :: "(string \<times> string) list" where
  "LEGACY_CLOSE_OUTCOME =
     [(''COMPLETED'', ''SUCCESS''), (''BLOCKED'', ''UNRECOVERABLE_TECHNICAL_CONDITION''), (''FAILED'', ''UNRECOVERABLE_TECHNICAL_CONDITION''),
      (''CANCELLED'', ''CANCELLED_BY_SPONSOR''), (''ESCALATED'', ''MAX_REMEDIATION_POLICY_EXCEEDED'')]"

record close_args =
  cl_summary :: string
  cl_detail :: string
  cl_failure :: "dict option"
  cl_outcome :: "string option"
  cl_terminal_status :: "string option"

definition close_outcome :: "close_args \<Rightarrow> string" where
  "close_outcome a =
     (case cl_outcome a of
        Some oc \<Rightarrow> oc
      | None \<Rightarrow> (case map_of LEGACY_CLOSE_OUTCOME (py_upper (str_of (cl_terminal_status a))) of
          None \<Rightarrow> ''UNRECOVERABLE_TECHNICAL_CONDITION'' | Some oc \<Rightarrow> oc))"

text \<open>Emission of an event after which no run is closed.\<close>

definition emit_inner :: "policy_files \<Rightarrow> event_ctx \<Rightarrow> event_args \<Rightarrow> string dbop" where
  "emit_inner = emit_with (\<lambda>_ _. returnS ())"

definition closing_evidence :: "close_args \<Rightarrow> string \<Rightarrow> dict \<Rightarrow> dict" where
  "closing_evidence a resolved d =
     (let d' = dict_set ''outcome'' (JStr resolved) d in
      case cl_failure a of None \<Rightarrow> d' | Some f \<Rightarrow> if f = [] then d' else dict_set ''failure'' (JObj f) d')"

definition closing_event :: "close_args \<Rightarrow> string \<Rightarrow> string \<Rightarrow> dict \<Rightarrow> event_args" where
  "closing_event a event_type run_status ev =
     (event_args_of event_type (cl_summary a))
       \<lparr>em_phase := ''terminal'', em_status := run_status, em_detail := take 2000 (cl_detail a),
        em_detail_level := ''milestone'', em_evidence := Some ev\<rparr>"

definition close_execution_run :: "policy_files \<Rightarrow> event_ctx \<Rightarrow> close_args \<Rightarrow> dict dbop" where
  "close_execution_run pf ctx a =
     (if \<not> truthy_str (ec_run_id ctx) then returnS []
      else let rid = str_of (ec_run_id ctx) in
      bindS (getS (get_execution_run rid)) (\<lambda>row.
      if row = None then returnS []
      else bindS (getS (run_already_terminal rid)) (\<lambda>terminal.
      if terminal then getS (build_terminal_evidence rid)
      else
        bindS (liftS (resolve_outcome (close_outcome a))) (\<lambda>resolved.
        bindS (liftS (run_status_for_outcome resolved)) (\<lambda>run_status.
        bindS (liftS (event_for_outcome resolved)) (\<lambda>event_type.
        thenS (update_execution_run rid (Some run_status) (Some ''terminal'') (Some ''pm-agent'')
                 (Some (if resolved = ''SUCCESS'' then 100 else 90)) (Some (take 4000 (cl_summary a))) None)
        (bindS (getS (\<lambda>s. closing_evidence a resolved (build_terminal_evidence rid s))) (\<lambda>ev.
         thenS (emit_inner pf ctx (closing_event a event_type run_status ev))
         (thenS (update_execution_run rid None None None None None (Some ev))
           (returnS ev))))))))))"

section \<open>What a publication does to the run (\<^verbatim>\<open>maybe_close_run_after_event\<close>)\<close>

definition release_record_id_from_event :: "string \<Rightarrow> db \<Rightarrow> string option" where
  "release_record_id_from_event rid s =
     (case latest_event (\<lambda>e. pe_run_id e = Some rid \<and> (pe_release_record_id e \<noteq> None \<or>
         pe_event_type e \<in> {''RELEASE_PUBLISHED'', ''RELEASE_PREPARED'', ''PACKAGE_COMPLETED'', ''RELEASE_VERIFIED'', ''SOURCE_GATE_PASSED''})) s of
        None \<Rightarrow> None
      | Some e \<Rightarrow>
          if truthy_str (pe_release_record_id e) then pe_release_record_id e
          else case pe_evidence_json e of
            Some (JText (JObj d)) \<Rightarrow>
              if truthy (dict_get d ''release_record_id'') then Some (py_str (dict_get d ''release_record_id'')) else None
          | _ \<Rightarrow> None)"

definition publication_request :: "event_ctx \<Rightarrow> exec_run \<Rightarrow> db \<Rightarrow> outcome_request" where
  "publication_request ctx run s =
     (let rid = r_run_id run; release = str_or (ec_release_record_id ctx) (release_record_id_from_event rid s) in
      \<lparr>oq_run_id = rid, oq_handoff_id = r_handoff_id run, oq_objective = r_objective run,
       oq_request_type = Some (r_request_type run), oq_release_record_id = release,
       oq_candidate_git_sha = candidate_or_release (active_candidate_sha rid s) release s,
       oq_repository_root = repository_root_for_run rid (r_project_id run) s,
       oq_project_id = Some (r_project_id run)\<rparr>)"

definition incomplete_event :: "outcome_evaluation \<Rightarrow> event_args" where
  "incomplete_event result =
     (case result of (_, required, ok, missing) \<Rightarrow>
      (event_args_of ''SPONSOR_OUTCOME_INCOMPLETE''
         ''Release published but sponsor-requested outcomes are not satisfied.'')
        \<lparr>em_phase := ''terminal'', em_detail_level := ''milestone'',
         em_evidence := Some [(''required_outputs'', JList (map JStr required)), (''missing_outputs'', JList (map JStr missing)),
                              (''satisfied_outputs'', JList (map JStr ok))]\<rparr>)"

definition closing_ctx :: "event_ctx \<Rightarrow> string option \<Rightarrow> event_ctx" where
  "closing_ctx ctx release =
     \<lparr>ec_project_id = ec_project_id ctx, ec_handoff_id = ec_handoff_id ctx, ec_run_id = ec_run_id ctx,
      ec_iteration_id = None, ec_job_id = None, ec_work_item_id = None, ec_release_id = None,
      ec_release_record_id = release, ec_artifact_id = None, ec_correlation_id = None, ec_causation_id = None,
      ec_slack_team_id = [], ec_slack_channel_id = [], ec_slack_thread_ts = []\<rparr>"

definition success_close :: close_args where
  "success_close = \<lparr>cl_summary = ''Sponsor-requested outcomes verified.'', cl_detail = [], cl_failure = None,
     cl_outcome = Some ''SUCCESS'', cl_terminal_status = None\<rparr>"

definition maybe_close_run_after_event :: "policy_files \<Rightarrow> event_ctx \<Rightarrow> string \<Rightarrow> unit dbop" where
  "maybe_close_run_after_event pf ctx event_type =
     (if \<not> truthy_str (ec_run_id ctx) then returnS ()
      else let rid = str_of (ec_run_id ctx) in
      bindS (getS (get_execution_run rid)) (\<lambda>row.
      case row of
        None \<Rightarrow> returnS ()
      | Some run \<Rightarrow>
          bindS (getS (run_already_terminal rid)) (\<lambda>terminal.
          if terminal \<or> event_type \<noteq> ''RELEASE_PUBLISHED'' then returnS ()
          else
            bindS (getS (publication_request ctx run)) (\<lambda>q.
            bindS (getS (evaluate_sponsor_outcome pf q)) (\<lambda>result.
            bindS (liftS result) (\<lambda>evaluation.
            if \<not> fst evaluation then thenS (emit_inner pf ctx (incomplete_event evaluation)) (returnS ())
            else thenS (close_execution_run pf (closing_ctx ctx (oq_release_record_id q)) success_close) (returnS ())))))))"

definition emit_projectos_event :: "policy_files \<Rightarrow> event_ctx \<Rightarrow> event_args \<Rightarrow> string dbop" where
  "emit_projectos_event pf = emit_with (maybe_close_run_after_event pf) pf"

definition pause_run_for_sponsor_decision ::
    "policy_files \<Rightarrow> event_ctx \<Rightarrow> string \<Rightarrow> string \<Rightarrow> dict option \<Rightarrow> unit dbop" where
  "pause_run_for_sponsor_decision pf ctx summary detail ev =
     (if \<not> truthy_str (ec_run_id ctx) then returnS ()
      else
        thenS (update_execution_run (str_of (ec_run_id ctx)) (Some ''WAITING_FOR_SPONSOR'') (Some ''sponsor_decision'')
                 (Some ''pm-agent'') (Some 40) (Some (take 4000 summary)) None)
        (thenS (emit_projectos_event pf ctx ((event_args_of ''WAITING_FOR_SPONSOR'' summary)
                 \<lparr>em_phase := ''sponsor_decision'', em_status := ''WAITING_FOR_SPONSOR'', em_detail := take 2000 detail,
                  em_detail_level := ''milestone'', em_evidence := ev\<rparr>))
          (returnS ())))"

section \<open>Events of the QA gate (\<^verbatim>\<open>qa_gate.py\<close>)\<close>

definition gate_event :: "string \<Rightarrow> string \<Rightarrow> string \<Rightarrow> string \<Rightarrow> dict \<Rightarrow> event_args" where
  "gate_event ty summary status level facts =
     (event_args_of ty summary)
       \<lparr>em_actor_id := ''qa-agent'', em_phase := ''QA_GATE'', em_status := status, em_detail_level := level,
        em_evidence := Some facts\<rparr>"

definition emit_qa_gate_evaluation ::
    "policy_files \<Rightarrow> string \<Rightarrow> event_ctx option \<Rightarrow> bool \<Rightarrow> string option \<Rightarrow> string option \<Rightarrow> dict dbop" where
  "emit_qa_gate_evaluation pf pid ctx_opt require_pass sha rid =
     (case ctx_opt of
        None \<Rightarrow> getS (collect_qa_gate_facts pid sha rid)
      | Some ctx \<Rightarrow>
          let active_run = str_or rid (ec_run_id ctx) in
          bindS (getS (\<lambda>s. if sha = None \<and> truthy_str active_run then latest_candidate_sha pid active_run s else sha)) (\<lambda>candidate.
          bindS (getS (collect_qa_gate_facts pid candidate active_run)) (\<lambda>facts.
          bindS (getS (\<lambda>s. list_ex (\<lambda>e. pe_run_id e = ec_run_id ctx \<and> pe_event_type e = ''QA_STARTED'') (events s))) (\<lambda>started.
          thenS (if truthy_str (ec_run_id ctx) \<and> \<not> started
                 then thenS (emit_projectos_event pf ctx (gate_event ''QA_STARTED'' ''Validation started.'' [] ''normal'' facts)) (returnS ())
                 else returnS ())
          (let gate = dict_get facts ''gate'' in
           thenS
             (if gate = JStr ''PASSED'' then
                thenS (emit_projectos_event pf ctx (gate_event ''QA_GATE_PASSED'' ''QA gate passed.'' ''PASSED'' ''milestone'' facts)) (returnS ())
              else if gate = JStr ''FAILED'' then
                thenS (emit_projectos_event pf ctx (gate_event ''QA_GATE_FAILED'' ''QA gate failed.'' ''FAILED'' ''milestone'' facts))
                  (guardS (\<not> require_pass) OrchestrationError)
              else if gate = JStr ''INCONCLUSIVE'' then
                thenS (emit_projectos_event pf ctx (gate_event ''QA_INCONCLUSIVE''
                  ''QA gate inconclusive - valid assurance verdict could not be established.'' ''BLOCKED'' ''milestone'' facts)) (returnS ())
              else returnS ())
             (returnS facts))))))"

section \<open>Lemmas\<close>

subsection \<open>What an emission writes\<close>

text \<open>The event and its outbox rows.\<close>

definition enqueued :: "string \<Rightarrow> dict \<Rightarrow> string \<Rightarrow> db \<Rightarrow> db" where
  "enqueued event_id payload subscriber s =
     (if subscriber @ '':'' @ event_id \<in> o_idempotency_key ` set (outbox s) then s
      else s\<lparr>outbox := outbox s @ [outbox_entry event_id subscriber payload (outbox_seq s + 1) (now_iso s)],
             outbox_seq := outbox_seq s + 1\<rparr>)"

definition recorded :: "event_ctx \<Rightarrow> event_args \<Rightarrow> string \<Rightarrow> db \<Rightarrow> db" where
  "recorded ctx a event_id s =
     fold (enqueued event_id (outbox_payload ctx a event_id)) (event_subscribers a)
       (s\<lparr>events := events s @ [event_row ctx a event_id (now_iso s)]\<rparr>)"

definition next_event_id :: "db \<Rightarrow> string" where
  "next_event_id s = ''EVT-'' @ py_upper (take 12 (uuids s (uuid_next s)))"

lemma mapS_modifyS: "mapS (\<lambda>x. modifyS (f x)) xs s = (Inr (map (\<lambda>_. ()) xs), fold f xs s)"
  by (induction xs arbitrary: s) (simp_all add: op_simps returnS_def)

lemma enqueue_eq: "enqueue event_id payload = (\<lambda>sub. modifyS (enqueued event_id payload sub))"
  by (rule ext) (simp add: enqueue_def enqueued_def [abs_def])

text \<open>Enqueueing changes the outbox only.\<close>

lemma fold_enqueued_frame:
  assumes "\<And>s x n. g (s\<lparr>outbox := x, outbox_seq := n\<rparr>) = g s"
  shows "g (fold (enqueued event_id payload) subs s) = g s"
  by (induction subs arbitrary: s) (auto simp: enqueued_def assms)

lemma recorded_simps [simp]:
  "events (recorded ctx a eid s) = events s @ [event_row ctx a eid (now_iso s)]" "runs (recorded ctx a eid s) = runs s"
  "jobs (recorded ctx a eid s) = jobs s" "works (recorded ctx a eid s) = works s" "clk (recorded ctx a eid s) = clk s"
  "releases (recorded ctx a eid s) = releases s" "gate_rows (recorded ctx a eid s) = gate_rows s"
  "artifacts (recorded ctx a eid s) = artifacts s" "evidence (recorded ctx a eid s) = evidence s"
  "handoffs (recorded ctx a eid s) = handoffs s" "uuids (recorded ctx a eid s) = uuids s"
  "uuid_next (recorded ctx a eid s) = uuid_next s" "get_execution_run rid (recorded ctx a eid s) = get_execution_run rid s"
  by (simp_all add: recorded_def fold_enqueued_frame get_execution_run_def)

lemma emit_with_eq:
  "emit_with close pf ctx a s =
     (case validate_event_truthfulness pf (em_event_type a) ctx (em_evidence a) (em_metadata a) s of
        (Inl e, _) \<Rightarrow> (Inl e, s)
      | (Inr _, _) \<Rightarrow>
          let u = s\<lparr>uuid_next := Suc (uuid_next s)\<rparr>; eid = next_event_id s in
          if eid \<in> pe_event_id ` set (events s) then (Inl IntegrityError, u)
          else thenS (if truthy_str (ec_run_id ctx)
              then thenS (apply_event_to_run (str_of (ec_run_id ctx)) (em_event_type a) (run_payload a))
                (close ctx (em_event_type a))
              else returnS ()) (returnS eid) (recorded ctx a eid u))"
proof -
  let ?v = "validate_event_truthfulness pf (em_event_type a) ctx (em_evidence a) (em_metadata a)"
  obtain r where v: "?v s = (r, s)" using validate_state [of pf "em_event_type a" ctx "em_evidence a" "em_metadata a" s]
    by (cases "?v s") auto
  have uuid: "new_uuid s = (Inr (uuids s (uuid_next s)), s\<lparr>uuid_next := Suc (uuid_next s)\<rparr>)"
    by (simp add: new_uuid_def)
  show ?thesis
  proof (cases r)
    case (Inl e)
    then show ?thesis by (simp add: emit_with_def thenS_apply bindS_def v)
  next
    case (Inr x)
    then show ?thesis
      by (simp add: emit_with_def thenS_apply bindS_Inr [of ?v s, OF v [unfolded Inr]] bindS_Inr [of new_uuid s, OF uuid] v
          op_simps Let_def enqueue_eq mapS_modifyS bindS_Inr [of "mapS _ _"] recorded_def next_event_id_def raiseS_def)
  qed
qed

text \<open>The projection onto the run of an event; it always returns and changes the table of runs only.\<close>

definition projected :: "event_ctx \<Rightarrow> event_args \<Rightarrow> db \<Rightarrow> db" where
  "projected ctx a s = (if truthy_str (ec_run_id ctx)
     then snd (apply_event_to_run (str_of (ec_run_id ctx)) (em_event_type a) (run_payload a) s) else s)"

lemma apply_event_returns: "\<exists>rs. apply_event_to_run rid ev p s = (Inr (), s\<lparr>runs := rs\<rparr>)"
proof (cases "rid \<noteq> [] \<and> get_execution_run rid s \<noteq> None")
  case True
  then obtain run where run: "rid \<noteq> []" "get_execution_run rid s = Some run" by auto
  show ?thesis
  proof (rule apply_event_to_run_eq [OF run, of ev p])
    assume "apply_event_to_run rid ev p s = (Inr (), s)"
    then show ?thesis by (intro exI [of _ "runs s"]) simp
  qed blast
next
  case False
  then have "apply_event_to_run rid ev p s = (Inr (), s)"
    by (auto simp: apply_event_to_run_def op_simps returnS_def)
  then show ?thesis by (intro exI [of _ "runs s"]) simp
qed

lemma projected_runs: "\<exists>rs. projected ctx a s = s\<lparr>runs := rs\<rparr>"
proof (cases "truthy_str (ec_run_id ctx)")
  case True
  obtain rs where "apply_event_to_run (str_of (ec_run_id ctx)) (em_event_type a) (run_payload a) s = (Inr (), s\<lparr>runs := rs\<rparr>)"
    using apply_event_returns by blast
  with True show ?thesis by (auto simp: projected_def)
qed (auto simp: projected_def intro: exI [of _ "runs s"])

lemma projected_simps [simp]:
  "events (projected ctx a s) = events s" "outbox (projected ctx a s) = outbox s" "jobs (projected ctx a s) = jobs s"
  "works (projected ctx a s) = works s" "clk (projected ctx a s) = clk s" "releases (projected ctx a s) = releases s"
  "evidence (projected ctx a s) = evidence s" "uuids (projected ctx a s) = uuids s" "uuid_next (projected ctx a s) = uuid_next s"
  using projected_runs [of ctx a s] by auto

text \<open>After an event that is not a publication no run is closed.\<close>

lemma maybe_close_other:
  "ty \<noteq> ''RELEASE_PUBLISHED'' \<Longrightarrow> maybe_close_run_after_event pf ctx ty s = (Inr (), s)"
  by (auto simp: maybe_close_run_after_event_def op_simps returnS_def Let_def split: option.split)

definition emit_state :: "event_ctx \<Rightarrow> event_args \<Rightarrow> db \<Rightarrow> db" where
  "emit_state ctx a s = projected ctx a (recorded ctx a (next_event_id s) (s\<lparr>uuid_next := Suc (uuid_next s)\<rparr>))"

lemma emit_with_quiet:
  assumes "\<And>u. close ctx (em_event_type a) u = (Inr (), u)"
  shows "emit_with close pf ctx a s =
     (case validate_event_truthfulness pf (em_event_type a) ctx (em_evidence a) (em_metadata a) s of
        (Inl e, _) \<Rightarrow> (Inl e, s)
      | (Inr _, _) \<Rightarrow>
          if next_event_id s \<in> pe_event_id ` set (events s) then (Inl IntegrityError, s\<lparr>uuid_next := Suc (uuid_next s)\<rparr>)
          else (Inr (next_event_id s), emit_state ctx a s))"
proof -
  have tail: "thenS (if truthy_str (ec_run_id ctx)
        then thenS (apply_event_to_run (str_of (ec_run_id ctx)) (em_event_type a) (run_payload a)) (close ctx (em_event_type a))
        else returnS ()) (returnS eid) u = (Inr eid, projected ctx a u)" for eid u
  proof (cases "truthy_str (ec_run_id ctx)")
    case True
    obtain rs where "apply_event_to_run (str_of (ec_run_id ctx)) (em_event_type a) (run_payload a) u = (Inr (), u\<lparr>runs := rs\<rparr>)"
      using apply_event_returns by blast
    with True assms show ?thesis by (simp add: thenS_def bindS_def projected_def returnS_def)
  qed (simp add: thenS_def bindS_def projected_def returnS_def)
  show ?thesis unfolding emit_with_eq Let_def tail emit_state_def ..
qed

lemma emit_inner_eq:
  "emit_inner pf ctx a s =
     (case validate_event_truthfulness pf (em_event_type a) ctx (em_evidence a) (em_metadata a) s of
        (Inl e, _) \<Rightarrow> (Inl e, s)
      | (Inr _, _) \<Rightarrow>
          if next_event_id s \<in> pe_event_id ` set (events s) then (Inl IntegrityError, s\<lparr>uuid_next := Suc (uuid_next s)\<rparr>)
          else (Inr (next_event_id s), emit_state ctx a s))"
  unfolding emit_inner_def by (rule emit_with_quiet) (simp add: returnS_def)

text \<open>So unfolding the recursion once loses nothing: an event that is not a publication is emitted the same
  way from inside as from outside.\<close>

lemma emit_is_inner: "em_event_type a \<noteq> ''RELEASE_PUBLISHED'' \<Longrightarrow> emit_projectos_event pf ctx a s = emit_inner pf ctx a s"
  unfolding emit_inner_eq emit_projectos_event_def by (rule emit_with_quiet) (rule maybe_close_other)

subsection \<open>What a guard establishes\<close>

lemma require_gate_verdict_ok:
  assumes "require_gate_verdict vs ctx ev s = (Inr (), t)"
  shows "\<exists>sha rid. gate_subject ctx ev = (sha, rid) \<and> truthy sha \<and> truthy rid \<and>
    gate_verdict (ec_project_id ctx) (Some (py_str sha)) (Some (py_str rid)) s \<in> set vs"
  using assms
  by (auto simp: require_gate_verdict_def op_simps raiseS_def returnS_def split: prod.splits if_splits)

lemma require_publication_ok:
  assumes "require_publication_record ctx ev s = (Inr (), t)"
  shows "\<exists>r. get_delivery_release (py_str (release_of_event ctx ev)) s = Some r \<and> dr_publication_status r = ''published'' \<and>
    map_of (list_gate_statuses (py_str (release_of_event ctx ev)) s) ''PUBLICATION_GATE'' = Some ''passed'' \<and>
    truthy_str (dr_github_release_url r)"
  (is "?P")
proof -
  have "wlp (require_publication_record ctx ev) (\<lambda>_ _. ?P) s"
    by (auto simp: require_publication_record_def require_gate_passed_def Let_def wlp_simps split: option.split)
  from wlp_apply [OF this assms] show ?thesis .
qed

lemma require_work_completed_ok:
  assumes "require_work_completed_authoritative ctx ev s = (Inr (), t)"
  shows "\<exists>w j. get_remediation_work (py_str (entry ev ''work_item_id'')) s = Some w \<and>
    w_status w \<in> {''SUCCEEDED'', ''COMPLETED''} \<and> w_orchestration_job_id w = Some (j_id j) \<and> j \<in> set (jobs s) \<and>
    j_status j \<notin> {FAILED, BLOCKED, CANCELLED} \<and> (truthy_str (ec_run_id ctx) \<longrightarrow> ec_run_id ctx = Some (w_run_id w)) \<and>
    \<not> completion_emitted (w_run_id w) (py_str (entry ev ''work_item_id'')) s"
  (is "?P")
proof -
  have job: "wlp (get_job i) (\<lambda>j t. t = u \<and> j \<in> set (jobs u) \<and> j_id j = i) u" for i u
    by (auto simp: get_job_def wlp_simps job_by_id_def dest: find_row_SomeD split: option.split)
  have run: "str_of (str_or v (Some r)) = r" if "\<not> (truthy_str v \<and> Some r \<noteq> v)" for v and r :: string
    using that by (auto simp: str_or_def str_of_def truthy_str_def)
  have "wlp (require_work_completed_authoritative ctx ev) (\<lambda>_ _. ?P) s"
    unfolding require_work_completed_authoritative_def Let_def
    by (auto simp: wlp_simps run split: option.split intro!: wlp_mono [OF job])
  from wlp_apply [OF this assms] show ?thesis .
qed

lemma require_run_completed_ok:
  assumes "require_run_completed pf ctx ev s = (Inr (), t)"
  shows "\<exists>rid run. ec_run_id ctx = Some rid \<and> get_execution_run rid s = Some run \<and>
    (is_release (r_request_type run) \<longrightarrow>
      (\<exists>e. evaluate_sponsor_outcome pf (completion_request ctx ev run s) s = Inr (True, e)))"
  using assms
  by (auto simp: require_run_completed_def op_simps raiseS_def returnS_def split: option.splits if_splits sum.splits)

lemma emit_with_valid:
  assumes "emit_with close pf ctx a s = (Inr eid, t)"
  shows "validate_event_truthfulness pf (em_event_type a) ctx (em_evidence a) (em_metadata a) s = (Inr (), s)"
  using assms validate_state [of pf "em_event_type a" ctx "em_evidence a" "em_metadata a" s]
  by (cases "validate_event_truthfulness pf (em_event_type a) ctx (em_evidence a) (em_metadata a) s")
     (auto simp: emit_with_eq split: sum.splits)

subsection \<open>The outbox rows of an event\<close>

lemma fold_enqueued:
  "\<exists>new. outbox (fold (enqueued eid payload) subs s) = outbox s @ new \<and>
     (\<forall>r \<in> set new. o_event_id r = eid \<and> o_status r = OPending \<and> o_attempts r = 0 \<and>
        o_payload r = JText (JObj payload) \<and> o_subscriber r \<in> set subs \<and>
        o_idempotency_key r = o_subscriber r @ '':'' @ eid \<and> o_created_at r = now_iso s) \<and>
     (\<forall>sub \<in> set subs. sub @ '':'' @ eid \<in> o_idempotency_key ` set (outbox s @ new)) \<and>
     (distinct (map o_idempotency_key (outbox s)) \<longrightarrow> distinct (map o_idempotency_key (outbox s @ new)))"
proof (induction subs arbitrary: s)
  case (Cons sub subs)
  let ?u = "enqueued eid payload sub s"
  obtain new where new: "outbox (fold (enqueued eid payload) subs ?u) = outbox ?u @ new"
      "\<forall>r \<in> set new. o_event_id r = eid \<and> o_status r = OPending \<and> o_attempts r = 0 \<and>
        o_payload r = JText (JObj payload) \<and> o_subscriber r \<in> set subs \<and>
        o_idempotency_key r = o_subscriber r @ '':'' @ eid \<and> o_created_at r = now_iso ?u"
      "\<forall>x \<in> set subs. x @ '':'' @ eid \<in> o_idempotency_key ` set (outbox ?u @ new)"
      "distinct (map o_idempotency_key (outbox ?u)) \<longrightarrow> distinct (map o_idempotency_key (outbox ?u @ new))"
    using Cons.IH [of ?u] by blast
  show ?case
  proof (cases "sub @ '':'' @ eid \<in> o_idempotency_key ` set (outbox s)")
    case True
    then have "?u = s" by (simp add: enqueued_def)
    with True new show ?thesis by (intro exI [of _ new]) auto
  next
    case False
    let ?r = "outbox_entry eid sub payload (outbox_seq s + 1) (now_iso s)"
    have u: "outbox ?u = outbox s @ [?r]" "now_iso ?u = now_iso s" using False by (simp_all add: enqueued_def now_iso_def)
    have "o_idempotency_key ?r = sub @ '':'' @ eid" by (simp add: outbox_entry_def)
    with False new u show ?thesis
      by (intro exI [of _ "?r # new"]) (auto simp: outbox_entry_def)
  qed
qed simp

text \<open>C26: An emitted event is recorded with its deliveries: emitting an event that is not a publication
  either raises and leaves every table alone, or appends exactly one event, the one it returns; gives every
  subscriber a row under the key of subscriber and event, the rows it adds being pending, undelivered
  and for this event; keeps the keys unique; moves the status of the run by the status machine;
  and leaves jobs, work items, releases and evidence alone.\<close>

theorem emission_spec:
  assumes "em_event_type a \<noteq> ''RELEASE_PUBLISHED''" "emit_projectos_event pf ctx a s = (res, t)"
  shows "case res of
      Inl e \<Rightarrow> t = s \<or> t = s\<lparr>uuid_next := Suc (uuid_next s)\<rparr>
    | Inr eid \<Rightarrow> events t = events s @ [event_row ctx a eid (now_iso s)] \<and>
        (jobs t, works t, releases t, evidence t) = (jobs s, works s, releases s, evidence s) \<and>
        (\<exists>new. outbox t = outbox s @ new \<and>
           (\<forall>r \<in> set new. o_event_id r = eid \<and> o_status r = OPending \<and> o_attempts r = 0 \<and>
              o_payload r = JText (JObj (outbox_payload ctx a eid)) \<and> o_subscriber r \<in> set (event_subscribers a))) \<and>
        (\<forall>sub \<in> set (event_subscribers a). sub @ '':'' @ eid \<in> o_idempotency_key ` set (outbox t)) \<and>
        (distinct (map o_idempotency_key (outbox s)) \<longrightarrow> distinct (map o_idempotency_key (outbox t))) \<and>
        (\<forall>rid run. ec_run_id ctx = Some rid \<and> rid \<noteq> [] \<and> get_execution_run rid s = Some run \<longrightarrow>
           (\<exists>run'. get_execution_run rid t = Some run' \<and> r_status run' = next_run_status (em_event_type a) (r_status run)))"
proof (cases res)
  case (Inl e)
  then show ?thesis
    using assms(2) unfolding emit_is_inner [OF assms(1)] emit_inner_eq
    by (auto split: prod.splits sum.splits if_splits)
next
  case (Inr eid)
  let ?u = "s\<lparr>uuid_next := Suc (uuid_next s)\<rparr>"
  have eid: "eid = next_event_id s" and t: "t = projected ctx a (recorded ctx a eid ?u)"
    using assms(2) Inr unfolding emit_is_inner [OF assms(1)] emit_inner_eq
    by (auto simp: emit_state_def split: prod.splits sum.splits if_splits)
  have now: "now_iso ?u = now_iso s" by (simp add: now_iso_def)
  have ob: "outbox t = outbox (fold (enqueued eid (outbox_payload ctx a eid)) (event_subscribers a)
      (?u\<lparr>events := events ?u @ [event_row ctx a eid (now_iso ?u)]\<rparr>))" by (simp add: t recorded_def)
  have status: "\<exists>run'. get_execution_run rid t = Some run' \<and> r_status run' = next_run_status (em_event_type a) (r_status run)"
    if "ec_run_id ctx = Some rid" "rid \<noteq> []" "get_execution_run rid s = Some run" for rid run
  proof -
    have "get_execution_run rid (recorded ctx a eid ?u) = Some run" using that(3) by (simp add: get_execution_run_def)
    from apply_event_to_run_row [OF that(2) this, of "em_event_type a" "run_payload a"] show ?thesis
      using that by (auto simp: t projected_def truthy_str_def str_of_def) (metis snd_conv)
  qed
  show ?thesis
    using fold_enqueued [of eid "outbox_payload ctx a eid" "event_subscribers a"
        "?u\<lparr>events := events ?u @ [event_row ctx a eid (now_iso ?u)]\<rparr>"] status
    unfolding Inr sum.case ob [symmetric] by (auto simp: t now)
qed

definition sample_ctx :: event_ctx where
  "sample_ctx =
     \<lparr>ec_project_id = ''PRJ-1'', ec_handoff_id = None, ec_run_id = Some ''RUN-1'', ec_iteration_id = None,
      ec_job_id = None, ec_work_item_id = None, ec_release_id = None, ec_release_record_id = None, ec_artifact_id = None,
      ec_correlation_id = None, ec_causation_id = None, ec_slack_team_id = [], ec_slack_channel_id = ''C1'',
      ec_slack_thread_ts = ''1.0''\<rparr>"

theorem emission_spec_witness:
  "\<exists>eid t. emit_projectos_event sample_policy sample_ctx (event_args_of ''PM_PLAN_CREATED'' ''planned'') sample_work_start = (Inr eid, t) \<and>
     events t = [event_row sample_ctx (event_args_of ''PM_PLAN_CREATED'' ''planned'') eid 0]"
proof -
  let ?a = "event_args_of ''PM_PLAN_CREATED'' ''planned''"
  have "fst (emit_projectos_event sample_policy sample_ctx ?a sample_work_start) = Inr ''EVT-U''" by code_simp
  then obtain t where t: "emit_projectos_event sample_policy sample_ctx ?a sample_work_start = (Inr ''EVT-U'', t)"
    by (metis prod.collapse)
  have "events sample_work_start = []" "now_iso sample_work_start = 0" by code_simp+
  with emission_spec [OF _ t] t show ?thesis by (auto simp: event_args_of_def)
qed

text \<open>C7: Events tell the truth: an emission that returns had its evidence in the tables. A passed QA gate
  was backed by at least one assessment of that candidate in that run and by no result other than
  \<^verbatim>\<open>pass\<close>; a publication by a release record that is published, has a URL and has passed the publication
  gate; a completed work item by its row in status COMPLETED, of this run, with a job that did not
  fail; a completed run by the run itself and, where it requests a release, by an accepted outcome.\<close>

theorem emitted_events_are_truthful:
  assumes "emit_projectos_event pf ctx a s = (Inr eid, t)"
  shows "(em_event_type a = ''QA_GATE_PASSED'' \<longrightarrow>
       (\<exists>sha rid. gate_subject ctx (em_evidence a) = (sha, rid) \<and> truthy sha \<and> truthy rid \<and>
          (let rows = gate_evidence (ec_project_id ctx) (Some (py_str sha)) (Some (py_str rid)) s
           in rows \<noteq> [] \<and> (\<forall>q \<in> set rows. q_result q = ''pass'')))) \<and>
    (em_event_type a = ''RELEASE_PUBLISHED'' \<longrightarrow>
       (\<exists>r. get_delivery_release (py_str (release_of_event ctx (em_evidence a))) s = Some r \<and>
          dr_publication_status r = ''published'' \<and> truthy_str (dr_github_release_url r) \<and>
          map_of (list_gate_statuses (py_str (release_of_event ctx (em_evidence a))) s) ''PUBLICATION_GATE'' = Some ''passed'')) \<and>
    (em_event_type a = ''WORK_COMPLETED'' \<longrightarrow>
       (\<exists>w j. get_remediation_work (py_str (entry (em_evidence a) ''work_item_id'')) s = Some w \<and>
          w_status w \<in> {''SUCCEEDED'', ''COMPLETED''} \<and> w_orchestration_job_id w = Some (j_id j) \<and> j \<in> set (jobs s) \<and>
          j_status j \<notin> {FAILED, BLOCKED, CANCELLED} \<and> (truthy_str (ec_run_id ctx) \<longrightarrow> ec_run_id ctx = Some (w_run_id w)))) \<and>
    (em_event_type a = ''RUN_COMPLETED'' \<longrightarrow>
       (\<exists>rid run. ec_run_id ctx = Some rid \<and> get_execution_run rid s = Some run \<and>
          (is_release (r_request_type run) \<longrightarrow>
             (\<exists>e. evaluate_sponsor_outcome pf (completion_request ctx (em_evidence a) run s) s = Inr (True, e)))))"
proof -
  have v: "validate_event_truthfulness pf (em_event_type a) ctx (em_evidence a) (em_metadata a) s = (Inr (), s)"
    using assms unfolding emit_projectos_event_def by (rule emit_with_valid)
  have "\<exists>sha rid. gate_subject ctx (em_evidence a) = (sha, rid) \<and> truthy sha \<and> truthy rid \<and>
      gate_verdict (ec_project_id ctx) (Some (py_str sha)) (Some (py_str rid)) s \<in> set [''PASSED'']"
    if "em_event_type a = ''QA_GATE_PASSED''"
    using v that by (intro require_gate_verdict_ok) (simp add: validate_event_truthfulness_def require_qa_gate_evidence_def)
  moreover have "require_publication_record ctx (em_evidence a) s = (Inr (), s)" if "em_event_type a = ''RELEASE_PUBLISHED''"
    using v that by (simp add: validate_event_truthfulness_def)
  moreover have "require_work_completed_authoritative ctx (em_evidence a) s = (Inr (), s)" if "em_event_type a = ''WORK_COMPLETED''"
    using v that by (simp add: validate_event_truthfulness_def)
  moreover have "require_run_completed pf ctx (em_evidence a) s = (Inr (), s)" if "em_event_type a = ''RUN_COMPLETED''"
    using v that by (simp add: validate_event_truthfulness_def)
  ultimately show ?thesis
    using require_publication_ok require_work_completed_ok require_run_completed_ok
    unfolding Let_def by (simp add: gate_verdict_passed) blast
qed

definition sample_gate_event :: event_args where
  "sample_gate_event = (event_args_of ''QA_GATE_PASSED'' ''passed'')\<lparr>em_evidence := Some [(''candidate_git_sha'', JStr ''abc'')]\<rparr>"

text \<open>The sample candidate with an assessment passed.\<close>

definition sample_assessed :: db where
  "sample_assessed = sample_empty\<lparr>evidence := [sample_evidence 1 ''pass'']\<rparr>"

theorem emitted_events_are_truthful_witness:
  "\<exists>eid t. emit_projectos_event sample_policy sample_ctx sample_gate_event sample_assessed = (Inr eid, t) \<and>
     gate_evidence ''PRJ-1'' (Some ''abc'') (Some ''RUN-1'') sample_assessed \<noteq> []"
proof -
  have "fst (emit_projectos_event sample_policy sample_ctx sample_gate_event sample_assessed) = Inr ''EVT-U''" by code_simp
  then obtain t where t: "emit_projectos_event sample_policy sample_ctx sample_gate_event sample_assessed = (Inr ''EVT-U'', t)"
    by (metis prod.collapse)
  have "em_event_type sample_gate_event = ''QA_GATE_PASSED''"
    "gate_subject sample_ctx (em_evidence sample_gate_event) = (JStr ''abc'', JStr ''RUN-1'')"
    "ec_project_id sample_ctx = ''PRJ-1''" "py_str (JStr ''abc'') = ''abc''" "py_str (JStr ''RUN-1'') = ''RUN-1''" by code_simp+
  with emitted_events_are_truthful [OF t] t show ?thesis unfolding Let_def by auto
qed

subsection \<open>Completion of a work item is announced once\<close>

lemma sql_like_skip: "sql_like ps cs \<Longrightarrow> sql_like (CHR ''%'' # ps) (xs @ cs)"
proof (induction xs)
  case Nil
  then show ?case by (cases cs) auto
qed simp

lemma sql_like_prefix_any: "sql_like ''%'' y"
  by (induction y) auto

lemma sql_like_self: "sql_like (p @ ''%'') (p @ y)"
proof (induction p)
  case Nil
  then show ?case by (simp add: sql_like_prefix_any)
next
  case (Cons c p)
  then show ?case
    using sql_like_skip [of "p @ ''%''" "p @ y" "[c]"] by (cases "c = CHR ''%''") auto
qed

lemma sql_like_contains: "sql_like (''%'' @ p @ ''%'') (x @ p @ y)"
  unfolding append_Cons append_Nil by (intro sql_like_skip sql_like_self)

lemma join_with_contains: "x \<in> set xs \<Longrightarrow> \<exists>a b. join_with sep xs = a @ x @ b"
proof (induction sep xs rule: join_with.induct)
  case (3 sep x' y xs)
  show ?case
  proof (cases "x = x'")
    case True
    then show ?thesis by (intro exI [of _ "[]"] exI [of _ "sep @ join_with sep (y # xs)"]) simp
  next
    case False
    then obtain a b where "join_with sep (y # xs) = a @ x @ b" using 3 by auto
    then show ?thesis by (intro exI [of _ "x' @ sep @ a"] exI [of _ b]) simp
  qed
next
  case (2 sep x')
  then show ?case by (intro exI [of _ "[]"]) simp
qed simp

lemma json_dumps_contains:
  assumes "map_of d k = Some v"
  shows "\<exists>a b. json_dumps (JObj d) = a @ (quote_str k @ '': '' @ json_dumps v) @ b"
proof -
  let ?entries = "map (\<lambda>(k, t). quote_str k @ '': '' @ t) (sort_key fst (map (\<lambda>(k, v). (k, json_dumps v)) d))"
  have "(k, v) \<in> set d" using assms by (rule map_of_SomeD)
  then have "quote_str k @ '': '' @ json_dumps v \<in> set ?entries" by force
  then obtain a b where "join_with '', '' ?entries = a @ (quote_str k @ '': '' @ json_dumps v) @ b"
    using join_with_contains by blast
  then show ?thesis by (intro exI [of _ "''{'' @ a"] exI [of _ "b @ ''}''"]) simp
qed

text \<open>An id in which \<^verbatim>\<open>json.dumps\<close> escapes nothing.\<close>

definition plain :: "string \<Rightarrow> bool" where
  "plain t \<longleftrightarrow> (\<forall>c \<in> set t. esc_char c = [c])"

lemma quote_plain: "plain t \<Longrightarrow> quote_str t = CHR 0x22 # t @ [CHR 0x22]"
  unfolding quote_str_def plain_def by (induction t) auto

lemma completion_found:
  assumes "e \<in> set (events s)" "pe_event_type e = ''WORK_COMPLETED''" "pe_run_id e = Some rid"
    "pe_evidence_json e = Some (JText (JObj d))" "map_of d ''work_item_id'' = Some (JStr wid)" "plain wid"
  shows "completion_emitted rid wid s"
proof -
  have "plain ''work_item_id''" by code_simp
  then obtain a b where "json_dumps (JObj d) =
      a @ (CHR 0x22 # ''work_item_id'' @ CHR 0x22 # '': '' @ CHR 0x22 # wid @ [CHR 0x22]) @ b"
    using json_dumps_contains [OF assms(5)] assms(6) by (auto simp: quote_plain)
  then have "sql_like (''%'' @ ([CHR 0x22] @ ''work_item_id'' @ [CHR 0x22] @ '': '' @ [CHR 0x22] @ wid @ [CHR 0x22]) @ ''%'')
      (json_dumps (JObj d))" using sql_like_contains by (metis append_Cons append_Nil)
  with assms show ?thesis
    unfolding completion_emitted_def list_ex_iff by (intro bexI [of _ e]) (simp_all add: evidence_text_def)
qed

end
