(* ===== verification/Run_Closing.thy ===== *)
theory Run_Closing
  imports Events
begin

text \<open>
  What the closing of a run (\<^verbatim>\<open>run_evidence.py\<close>) and the announcement of completed work
  (\<^verbatim>\<open>event_truthfulness.py\<close>, \<^verbatim>\<open>domain_events.py\<close>) promise, over the definitions of \<open>Events\<close>: a run is closed once,
  a publication closes the run exactly when the sponsor's outcome is accepted, and the completion
  of a work item is announced once.
\<close>

section \<open>A run is closed once\<close>

lemma resolve_outcome_fix:
  assumes "resolve_outcome x = Inr oc"
  shows "resolve_outcome oc = Inr oc"
proof -
  have "list_all (\<lambda>oc. resolve_outcome oc = Inr oc) (map fst OUTCOME_TO_EVENT)" by code_simp
  with resolve_outcome_range [OF assms] show ?thesis by (auto simp: list_all_iff)
qed

lemma outcome_status_ok: "resolve_outcome x = Inr oc \<Longrightarrow> the (map_of OUTCOME_TO_RUN_STATUS oc) \<in> set RUN_STATUSES"
  using resolve_outcome_range [of x oc] by (auto simp: outcome_tables RUN_STATUSES_def)

text \<open>The state after the first update of the run.\<close>

definition closing_state :: "string \<Rightarrow> close_args \<Rightarrow> string \<Rightarrow> string \<Rightarrow> db \<Rightarrow> db" where
  "closing_state rid a oc st s =
     s\<lparr>runs := update_where (\<lambda>r. r_run_id r = rid)
        (run_fields (now_iso s) (Some st) (Some ''terminal'') (Some ''pm-agent'')
           (Some (if oc = ''SUCCESS'' then 100 else 90)) (Some (take 4000 (cl_summary a))) None) (runs s)\<rparr>"

lemma close_execution_run_eq:
  assumes "ec_run_id ctx = Some rid" "rid \<noteq> []" "get_execution_run rid s = Some run" "\<not> run_already_terminal rid s"
    "resolve_outcome (close_outcome a) = Inr oc"
  defines "ev \<equiv> the (map_of OUTCOME_TO_EVENT oc)" and "st \<equiv> the (map_of OUTCOME_TO_RUN_STATUS oc)"
  defines "u \<equiv> closing_state rid a oc st s"
  defines "d \<equiv> closing_evidence a oc (build_terminal_evidence rid u)"
  shows "close_execution_run pf ctx a s =
    (case emit_inner pf ctx (closing_event a ev st d) u of
       (Inl e, v) \<Rightarrow> (Inl e, v)
     | (Inr _, v) \<Rightarrow> (Inr d, v\<lparr>runs := update_where (\<lambda>r. r_run_id r = rid)
         (run_fields (now_iso v) None None None None None (Some d)) (runs v)\<rparr>))"
proof -
  have tables: "event_for_outcome oc = Inr ev" "run_status_for_outcome oc = Inr st"
    using outcome_tables_total [OF resolve_outcome_fix [OF assms(5)]] by (simp_all add: ev_def st_def)
  have upd: "update_execution_run rid (Some st) (Some ''terminal'') (Some ''pm-agent'')
      (Some (if oc = ''SUCCESS'' then 100 else 90)) (Some (take 4000 (cl_summary a))) None s = (Inr (), u)"
    unfolding u_def closing_state_def by (rule update_execution_run_eq) (use outcome_status_ok [OF assms(5)] in \<open>auto simp: st_def\<close>)
  have upd': "update_execution_run rid None None None None None (Some d) v =
      (Inr (), v\<lparr>runs := update_where (\<lambda>r. r_run_id r = rid)
         (run_fields (now_iso v) None None None None None (Some d)) (runs v)\<rparr>)" for v
    by (rule update_execution_run_eq) simp
  show ?thesis
    by (simp add: close_execution_run_def assms(1-5) truthy_str_def str_of_def bindS_def thenS_def getS_def liftS_def returnS_def
        tables upd d_def [symmetric] upd' split: prod.split sum.split)
qed

text \<open>An emission inside the closing appends its event and moves the run by the status machine.\<close>

lemma emit_inner_run:
  assumes "emit_inner pf ctx e s = (Inr eid, t)" "ec_run_id ctx = Some rid" "rid \<noteq> []" "get_execution_run rid s = Some run"
  shows "events t = events s @ [event_row ctx e eid (now_iso s)]"
    and "\<exists>run'. get_execution_run rid t = Some run' \<and> r_status run' = next_run_status (em_event_type e) (r_status run)"
proof -
  have eid: "eid = next_event_id s" and t: "t = emit_state ctx e s"
    using assms(1) unfolding emit_inner_eq by (auto split: prod.splits sum.splits if_splits)
  let ?u = "recorded ctx e eid (s\<lparr>uuid_next := Suc (uuid_next s)\<rparr>)"
  show "events t = events s @ [event_row ctx e eid (now_iso s)]"
    by (simp add: t emit_state_def eid now_iso_def)
  have "get_execution_run rid ?u = Some run" using assms(4) by (simp add: get_execution_run_def)
  from apply_event_to_run_row [OF assms(3) this, of "em_event_type e" "run_payload e"]
  obtain v run' where "apply_event_to_run rid (em_event_type e) (run_payload e) ?u = (Inr (), v)"
      "get_execution_run rid v = Some run'" "r_status run' = next_run_status (em_event_type e) (r_status run)"
    by blast
  then show "\<exists>run'. get_execution_run rid t = Some run' \<and> r_status run' = next_run_status (em_event_type e) (r_status run)"
    using assms(2,3) by (simp add: t emit_state_def projected_def truthy_str_def str_of_def eid)
qed

lemma terminal_outcome_event:
  assumes "oc \<in> set TERMINAL_OUTCOMES"
  shows "\<exists>ev st. map_of OUTCOME_TO_EVENT oc = Some ev \<and> map_of OUTCOME_TO_RUN_STATUS oc = Some st \<and>
    is_terminal_run_status st \<and> next_run_status ev st = st \<and> ev \<in> set TERMINAL_RUN_EVENTS"
proof -
  have "list_all (\<lambda>oc. case (map_of OUTCOME_TO_EVENT oc, map_of OUTCOME_TO_RUN_STATUS oc) of
      (Some ev, Some st) \<Rightarrow> is_terminal_run_status st \<and> next_run_status ev st = st \<and> ev \<in> set TERMINAL_RUN_EVENTS
    | _ \<Rightarrow> False) TERMINAL_OUTCOMES" by code_simp
  then have "case (map_of OUTCOME_TO_EVENT oc, map_of OUTCOME_TO_RUN_STATUS oc) of
      (Some ev, Some st) \<Rightarrow> is_terminal_run_status st \<and> next_run_status ev st = st \<and> ev \<in> set TERMINAL_RUN_EVENTS
    | _ \<Rightarrow> False" using assms unfolding list_all_iff by blast
  then show ?thesis by (auto split: option.splits)
qed

lemma terminal_events_close: "e \<in> set (events s) \<Longrightarrow> pe_run_id e = Some rid \<Longrightarrow> pe_event_type e \<in> set TERMINAL_RUN_EVENTS \<Longrightarrow>
    run_already_terminal rid s"
  by (auto simp: run_already_terminal_def list_ex_iff TERMINAL_RUN_EVENTS_def)

lemma close_terminal:
  assumes "ec_run_id ctx = Some rid" "rid \<noteq> []" "get_execution_run rid s \<noteq> None" "run_already_terminal rid s"
  shows "close_execution_run pf ctx a s = (Inr (build_terminal_evidence rid s), s)"
  using assms by (auto simp: close_execution_run_def truthy_str_def str_of_def op_simps returnS_def)

text \<open>C9: A run is closed once. Closing an open run with a terminal outcome, where it returns, writes one
  event, the one of the outcome, with the evidence it returns; leaves the run in the status
  of the outcome with that evidence; and from then on every further closing of the run, whatever
  its outcome, only reads the evidence and changes nothing.\<close>

theorem run_closed_once:
  assumes "ec_run_id ctx = Some rid" "rid \<noteq> []" "get_execution_run rid s = Some run" "\<not> run_already_terminal rid s"
    "resolve_outcome (close_outcome a) = Inr oc" "oc \<in> set TERMINAL_OUTCOMES" "close_execution_run pf ctx a s = (Inr d, t)"
  shows "\<exists>ev st eid run'. map_of OUTCOME_TO_EVENT oc = Some ev \<and> map_of OUTCOME_TO_RUN_STATUS oc = Some st \<and>
    events t = events s @ [event_row ctx (closing_event a ev st d) eid (now_iso s)] \<and>
    get_execution_run rid t = Some run' \<and> r_status run' = st \<and> is_terminal_run_status st \<and>
    r_evidence_json run' = Some (clipped_dumps 8000 d) \<and>
    (\<forall>a'. close_execution_run pf ctx a' t = (Inr (build_terminal_evidence rid t), t))"
proof -
  obtain ev st where tab: "map_of OUTCOME_TO_EVENT oc = Some ev" "map_of OUTCOME_TO_RUN_STATUS oc = Some st"
      "is_terminal_run_status st" "next_run_status ev st = st" "ev \<in> set TERMINAL_RUN_EVENTS"
    using terminal_outcome_event [OF assms(6)] by blast
  let ?u = "closing_state rid a oc st s"
  obtain eid v where v: "emit_inner pf ctx (closing_event a ev st d) ?u = (Inr eid, v)"
      and t: "t = v\<lparr>runs := update_where (\<lambda>r. r_run_id r = rid)
         (run_fields (now_iso v) None None None None None (Some d)) (runs v)\<rparr>"
    using assms(7) unfolding close_execution_run_eq [OF assms(1-5)] tab option.sel
    by (auto split: prod.splits sum.splits)
  obtain run1 where "get_execution_run rid ?u = Some run1" "r_status run1 = st"
    using assms(3) by (simp add: closing_state_def get_execution_run_runs_update run_fields_def)
  note run1 = this and ev = emit_inner_run [OF v assms(1,2) this(1)]
  obtain run2 where run2: "get_execution_run rid v = Some run2" "r_status run2 = st"
    using ev(2) tab(4) run1(2) by (auto simp: closing_event_def event_args_of_def)
  have events: "events t = events s @ [event_row ctx (closing_event a ev st d) eid (now_iso s)]"
    using ev(1) by (simp add: t closing_state_def now_iso_def)
  have row: "get_execution_run rid t = Some (run_fields (now_iso v) None None None None None (Some d) run2)"
    using run2(1) by (simp add: t get_execution_run_runs_update)
  have "run_already_terminal rid t"
    by (rule terminal_events_close [of "event_row ctx (closing_event a ev st d) eid (now_iso s)"])
       (use tab(5) assms(1) in \<open>simp_all add: events event_row_def closing_event_def event_args_of_def\<close>)
  with row close_terminal [OF assms(1,2)] have "\<forall>a'. close_execution_run pf ctx a' t = (Inr (build_terminal_evidence rid t), t)"
    by simp
  with tab events row run2(2) show ?thesis
    by (intro exI [of _ ev] exI [of _ st] exI [of _ eid] exI conjI) (assumption | simp add: run_fields_def)+
qed

section \<open>What a publication does to the run\<close>

text \<open>The emission of a publication is the emission of its event followed by the decision on the run.\<close>

lemma emit_publication_eq:
  assumes "ec_run_id ctx = Some rid" "rid \<noteq> []" "emit_projectos_event pf ctx a s = (Inr eid, t)"
  shows "eid = next_event_id s" and "maybe_close_run_after_event pf ctx (em_event_type a) (emit_state ctx a s) = (Inr (), t)"
proof -
  let ?u = "recorded ctx a (next_event_id s) (s\<lparr>uuid_next := Suc (uuid_next s)\<rparr>)"
  obtain rs where rs: "apply_event_to_run rid (em_event_type a) (run_payload a) ?u = (Inr (), ?u\<lparr>runs := rs\<rparr>)"
    using apply_event_returns by blast
  then have proj: "emit_state ctx a s = ?u\<lparr>runs := rs\<rparr>"
    using assms(1,2) by (simp add: emit_state_def projected_def truthy_str_def str_of_def)
  have run: "truthy_str (ec_run_id ctx)" "str_of (ec_run_id ctx) = rid" using assms(1,2) by (simp_all add: truthy_str_def str_of_def)
  have "eid = next_event_id s \<and> maybe_close_run_after_event pf ctx (em_event_type a) (?u\<lparr>runs := rs\<rparr>) = (Inr (), t)"
    using assms(3) unfolding emit_projectos_event_def emit_with_eq
    by (auto simp: run rs thenS_def bindS_def returnS_def Let_def split: prod.splits sum.splits if_splits)
  then show "eid = next_event_id s" "maybe_close_run_after_event pf ctx (em_event_type a) (emit_state ctx a s) = (Inr (), t)"
    by (simp_all add: proj)
qed

lemma emit_state_run:
  assumes "ec_run_id ctx = Some rid" "rid \<noteq> []" "get_execution_run rid s = Some run"
  shows "\<exists>run'. get_execution_run rid (emit_state ctx a s) = Some run' \<and>
    r_status run' = next_run_status (em_event_type a) (r_status run)"
proof -
  let ?u = "recorded ctx a (next_event_id s) (s\<lparr>uuid_next := Suc (uuid_next s)\<rparr>)"
  have "get_execution_run rid ?u = Some run" using assms(3) by (simp add: get_execution_run_def)
  from apply_event_to_run_row [OF assms(2) this, of "em_event_type a" "run_payload a"] show ?thesis
    using assms(1,2) by (auto simp: emit_state_def projected_def truthy_str_def str_of_def) (metis snd_conv)
qed

lemma emit_state_events: "events (emit_state ctx a s) = events s @ [event_row ctx a (next_event_id s) (now_iso s)]"
  by (simp add: emit_state_def now_iso_def)

lemma quiet_events:
  assumes "ev \<in> {''RELEASE_PUBLISHED'', ''SPONSOR_OUTCOME_INCOMPLETE''}"
  shows "next_run_status ev st = st"
    and "ev \<notin> {''RUN_COMPLETED'', ''RUN_BLOCKED'', ''RUN_FAILED'', ''RUN_ESCALATED'', ''RUN_CANCELLED''}"
  using assms by (auto simp: next_run_status_def run_event_tables)

lemma run_already_terminal_snoc:
  assumes "events t = events s @ [event_row ctx a eid n]" "ec_run_id ctx = Some rid"
  shows "run_already_terminal rid t \<longleftrightarrow> run_already_terminal rid s \<or>
    em_event_type a \<in> {''RUN_COMPLETED'', ''RUN_BLOCKED'', ''RUN_FAILED'', ''RUN_ESCALATED'', ''RUN_CANCELLED''}"
  using assms by (simp add: run_already_terminal_def event_row_def)

lemma maybe_close_open_run:
  assumes "ec_run_id ctx = Some rid" "rid \<noteq> []" "get_execution_run rid u = Some run" "\<not> run_already_terminal rid u"
    "maybe_close_run_after_event pf ctx ''RELEASE_PUBLISHED'' u = (Inr (), t)"
  defines "q \<equiv> publication_request ctx run u"
  obtains e where "evaluate_sponsor_outcome pf q u = Inr e" "\<not> fst e"
      "\<exists>eid. emit_inner pf ctx (incomplete_event e) u = (Inr eid, t)"
  | e where "evaluate_sponsor_outcome pf q u = Inr e" "fst e"
      "\<exists>d. close_execution_run pf (closing_ctx ctx (oq_release_record_id q)) success_close u = (Inr d, t)"
  using assms(5)
  by (cases "evaluate_sponsor_outcome pf q u")
     (auto simp: maybe_close_run_after_event_def assms(1-4) q_def [symmetric] truthy_str_def str_of_def op_simps thenS_def bindS_def
       returnS_def split: prod.splits sum.splits if_splits)

lemma success_close_outcome: "resolve_outcome (close_outcome success_close) = Inr ''SUCCESS''" "''SUCCESS'' \<in> set TERMINAL_OUTCOMES"
  "map_of OUTCOME_TO_EVENT ''SUCCESS'' = Some ''RUN_COMPLETED''" "map_of OUTCOME_TO_RUN_STATUS ''SUCCESS'' = Some ''COMPLETED''"
  by code_simp+

text \<open>Closing with success.\<close>

lemma close_success:
  assumes "ec_run_id ctx = Some rid" "rid \<noteq> []" "get_execution_run rid u = Some run" "\<not> run_already_terminal rid u"
    "close_execution_run pf ctx success_close u = (Inr d, t)"
  shows "\<exists>e run'. events t = events u @ [e] \<and> pe_event_type e = ''RUN_COMPLETED'' \<and> pe_run_id e = Some rid \<and>
    get_execution_run rid t = Some run' \<and> r_status run' = ''COMPLETED''"
proof -
  let ?v = "closing_state rid success_close ''SUCCESS'' ''COMPLETED'' u"
  obtain eid v where v: "emit_inner pf ctx (closing_event success_close ''RUN_COMPLETED'' ''COMPLETED'' d) ?v = (Inr eid, v)"
      and t: "t = v\<lparr>runs := update_where (\<lambda>r. r_run_id r = rid)
         (run_fields (now_iso v) None None None None None (Some d)) (runs v)\<rparr>"
    using assms(5) unfolding close_execution_run_eq [OF assms(1-4) success_close_outcome(1)] success_close_outcome option.sel
    by (auto split: prod.splits sum.splits)
  have "\<exists>run1. get_execution_run rid ?v = Some run1 \<and> r_status run1 = ''COMPLETED''"
    using assms(3) by (simp add: closing_state_def get_execution_run_runs_update run_fields_def)
  then obtain run1 where run1: "get_execution_run rid ?v = Some run1" "r_status run1 = ''COMPLETED''" by blast
  have "next_run_status ''RUN_COMPLETED'' ''COMPLETED'' = ''COMPLETED''" by code_simp
  with emit_inner_run [OF v assms(1,2) run1(1)] run1(2) show ?thesis
    using assms(1) by (auto simp: t closing_state_def get_execution_run_runs_update run_fields_def event_row_def closing_event_def event_args_of_def)
qed

text \<open>C8: A publication completes the run exactly when the sponsor's outcome is accepted. Publishing a
  release of an open run, where it returns, writes the publication and one more event. If the
  evaluation of the outcome on the state with the publication accepts it, that event is
  \<^verbatim>\<open>RUN_COMPLETED\<close> and the run is COMPLETED; if not, it is \<^verbatim>\<open>SPONSOR_OUTCOME_INCOMPLETE\<close>, the run keeps its status and
  stays open.\<close>

theorem publication_completes_accepted_run:
  assumes "em_event_type a = ''RELEASE_PUBLISHED''" "ec_run_id ctx = Some rid" "rid \<noteq> []"
    "get_execution_run rid s = Some run" "\<not> run_already_terminal rid s" "emit_projectos_event pf ctx a s = (Inr eid, t)"
  shows "\<exists>run1 ok e ev run'. get_execution_run rid (emit_state ctx a s) = Some run1 \<and>
    evaluate_sponsor_outcome pf (publication_request ctx run1 (emit_state ctx a s)) (emit_state ctx a s) = Inr (ok, e) \<and>
    events t = events s @ [event_row ctx a eid (now_iso s), ev] \<and> get_execution_run rid t = Some run' \<and>
    pe_event_type ev = (if ok then ''RUN_COMPLETED'' else ''SPONSOR_OUTCOME_INCOMPLETE'') \<and>
    r_status run' = (if ok then ''COMPLETED'' else r_status run) \<and> (run_already_terminal rid t \<longleftrightarrow> ok)"
proof -
  let ?u = "emit_state ctx a s"
  obtain run1 where run1: "get_execution_run rid ?u = Some run1" "r_status run1 = r_status run"
    using emit_state_run [OF assms(2-4), of a] assms(1) by (auto simp: quiet_events(1))
  have eid: "eid = next_event_id s" and close: "maybe_close_run_after_event pf ctx ''RELEASE_PUBLISHED'' ?u = (Inr (), t)"
    using emit_publication_eq [OF assms(2,3,6)] assms(1) by simp_all
  have events: "events ?u = events s @ [event_row ctx a eid (now_iso s)]" by (simp add: eid emit_state_events)
  have "\<not> run_already_terminal rid ?u"
    using run_already_terminal_snoc [OF events assms(2)] assms(1,5) quiet_events(2) by simp
  note opened = this
  from maybe_close_open_run [OF assms(2,3) run1(1) opened close] show ?thesis
  proof cases
    case (1 e)
    then obtain eid' where em: "emit_inner pf ctx (incomplete_event e) ?u = (Inr eid', t)" by blast
    have ty: "em_event_type (incomplete_event e) = ''SPONSOR_OUTCOME_INCOMPLETE''"
      by (simp add: incomplete_event_def event_args_of_def split: prod.split)
    note inner = emit_inner_run [OF em assms(2,3) run1(1)]
    obtain run' where "get_execution_run rid t = Some run'" "r_status run' = r_status run"
      using inner(2) run1(2) by (auto simp: ty quiet_events(1))
    moreover have "\<not> run_already_terminal rid t"
      using run_already_terminal_snoc [OF inner(1) assms(2)] opened by (simp add: ty)
    ultimately show ?thesis
      using 1(1,2) run1(1) inner(1) ty by (cases e) (auto simp: events event_row_def)
  next
    case (2 e)
    then obtain d where "close_execution_run pf (closing_ctx ctx (oq_release_record_id (publication_request ctx run1 ?u))) success_close ?u = (Inr d, t)"
      by blast
    from close_success [OF _ assms(3) run1(1) opened this] assms(2)
    obtain ev run' where ev: "events t = events ?u @ [ev]" "pe_event_type ev = ''RUN_COMPLETED''" "pe_run_id ev = Some rid"
        "get_execution_run rid t = Some run'" "r_status run' = ''COMPLETED''"
      by (auto simp: closing_ctx_def)
    then have "run_already_terminal rid t" by (simp add: run_already_terminal_def)
    with 2(1,2) run1(1) ev show ?thesis by (cases e) (auto simp: events)
  qed
qed

section \<open>Completion of a work item is announced once\<close>

lemma completed_again:
  assumes "completion_emitted rid wid s" "entry ev ''work_item_id'' = JStr wid" "wid \<noteq> []" "ec_run_id ctx = Some rid" "rid \<noteq> []"
  shows "\<exists>e. require_work_completed_authoritative ctx ev s = (Inl e, s)"
proof (rule ccontr)
  assume none: "\<not> ?thesis"
  have "snd (require_work_completed_authoritative ctx ev s) = s"
    using reads_work_guards(3) [of ctx ev] by (auto simp: untouched_def)
  with none have "require_work_completed_authoritative ctx ev s = (Inr (), s)"
    by (metis prod.collapse sum.exhaust old.unit.exhaust)
  from require_work_completed_ok [OF this] assms show False
    by (auto simp: truthy_str_def)
qed

text \<open>The completion of a work item is announced once. After WORK_COMPLETED has been emitted for a work
  item of a run, with an id in which JSON escapes nothing, every later emission of WORK_COMPLETED
  for that item and run raises and changes nothing, as long as the events are kept.\<close>

theorem completion_announced_once:
  assumes "em_event_type a = ''WORK_COMPLETED''" "em_evidence a = Some ev" "map_of ev ''work_item_id'' = Some (JStr wid)"
    "wid \<noteq> []" "plain wid" "ec_run_id ctx = Some rid" "rid \<noteq> []" "emit_projectos_event pf ctx a s = (Inr eid, t)"
    and "set (events t) \<subseteq> set (events u)" "ec_run_id ctx' = Some rid" "em_event_type a' = ''WORK_COMPLETED''"
    "entry (em_evidence a') ''work_item_id'' = JStr wid"
  shows "\<exists>e. emit_projectos_event pf ctx' a' u = (Inl e, u)"
proof -
  have "emit_inner pf ctx a s = (Inr eid, t)" using assms(1,8) emit_is_inner [of a pf ctx s] by simp
  then have "t = emit_state ctx a s" "eid = next_event_id s"
    unfolding emit_inner_eq by (auto split: prod.splits sum.splits if_splits)
  then have "event_row ctx a eid (now_iso s) \<in> set (events u)" using assms(9) by (auto simp: emit_state_events)
  moreover have "ev \<noteq> []" using assms(3) by auto
  ultimately have "completion_emitted rid wid u"
    by (intro completion_found [of "event_row ctx a eid (now_iso s)" _ _ ev])
       (use assms(1,2,3,5,6) in \<open>simp_all add: event_row_def dict_column_def\<close>)
  from completed_again [OF this assms(12,4,10,7)] obtain e where
    "require_work_completed_authoritative ctx' (em_evidence a') u = (Inl e, u)" by blast
  then show ?thesis
    unfolding emit_projectos_event_def emit_with_eq
    by (simp add: assms(11) validate_event_truthfulness_def)
qed

section \<open>When a closing returns\<close>

text \<open>The evidence a closing writes never names a candidate. So where the run is a release, the guard of
  RUN_COMPLETED takes the candidate from the release record it then compares it with.\<close>

lemma closing_names_no_candidate:
  "entry (Some (closing_evidence a oc (build_terminal_evidence rid u))) ''candidate_git_sha'' = JNull"
  by (simp add: entry_def closing_evidence_def build_terminal_evidence_def dict_get_dict_set Let_def
      split: option.split prod.split) (simp add: dict_get_def)

lemma completion_request_unnamed:
  "entry d ''candidate_git_sha'' = JNull \<Longrightarrow> completion_request ctx d = completion_request ctx None"
  by (intro ext) (simp add: completion_request_def, simp add: entry_def)

lemma require_run_completed_unnamed:
  "entry d ''candidate_git_sha'' = JNull \<Longrightarrow> require_run_completed pf ctx d = require_run_completed pf ctx None"
  by (simp only: require_run_completed_def completion_request_unnamed)

text \<open>The guard reads the candidate only, so it decides alone whether an open run can be closed.\<close>

definition closing_guard :: "policy_files \<Rightarrow> event_ctx \<Rightarrow> string \<Rightarrow> db \<Rightarrow> bool" where
  "closing_guard pf ctx ev u \<longleftrightarrow> ev = ''RUN_COMPLETED'' \<longrightarrow> fst (require_run_completed pf ctx None u) = Inr ()"

lemma validate_closing:
  assumes "ev \<in> set TERMINAL_RUN_EVENTS" "entry d ''candidate_git_sha'' = JNull" "closing_guard pf ctx ev u"
  shows "fst (validate_event_truthfulness pf ev ctx d md u) = Inr ()"
proof (cases "ev = ''RUN_COMPLETED''")
  case True
  with assms(3) show ?thesis
    by (simp add: validate_event_truthfulness_def closing_guard_def require_run_completed_unnamed [OF assms(2)])
next
  case False
  with assms(1) have "ev \<in> {''RUN_BLOCKED'', ''RUN_ESCALATED'', ''RUN_CANCELLED''}" by (auto simp: TERMINAL_RUN_EVENTS_def)
  then show ?thesis by (elim insertE emptyE) (simp_all only: validate_event_truthfulness_def, simp_all add: returnS_def)
qed

lemma close_returns:
  assumes "ec_run_id ctx = Some rid" "rid \<noteq> []" "get_execution_run rid s = Some run" "\<not> run_already_terminal rid s"
    "resolve_outcome (close_outcome a) = Inr oc" "oc \<in> set TERMINAL_OUTCOMES" "next_event_id s \<notin> pe_event_id ` set (events s)"
    and guard: "closing_guard pf ctx (the (map_of OUTCOME_TO_EVENT oc)) (closing_state rid a oc (the (map_of OUTCOME_TO_RUN_STATUS oc)) s)"
  shows "\<exists>d t. close_execution_run pf ctx a s = (Inr d, t)"
proof -
  obtain ev st where tab: "map_of OUTCOME_TO_EVENT oc = Some ev" "map_of OUTCOME_TO_RUN_STATUS oc = Some st" "ev \<in> set TERMINAL_RUN_EVENTS"
    using terminal_outcome_event [OF assms(6)] by blast
  let ?u = "closing_state rid a oc st s"
  let ?e = "closing_event a ev st (closing_evidence a oc (build_terminal_evidence rid ?u))"
  have ty: "em_event_type ?e = ev" by (simp add: closing_event_def event_args_of_def)
  have "fst (validate_event_truthfulness pf ev ctx (em_evidence ?e) (em_metadata ?e) ?u) = Inr ()"
    using guard tab by (intro validate_closing) (simp_all add: closing_event_def closing_names_no_candidate)
  moreover have "next_event_id ?u = next_event_id s" "events ?u = events s" by (simp_all add: closing_state_def next_event_id_def)
  ultimately have "\<exists>eid v. emit_inner pf ctx ?e ?u = (Inr eid, v)"
    using assms(7) unfolding emit_inner_eq ty by (auto split: prod.splits sum.splits)
  then show ?thesis unfolding close_execution_run_eq [OF assms(1-5)] tab option.sel by auto
qed

text \<open>The emission of a publication whose outcome is accepted.\<close>

lemma publication_returns:
  assumes "em_event_type a = ''RELEASE_PUBLISHED''" "ec_run_id ctx = Some rid" "rid \<noteq> []"
    "fst (require_publication_record ctx (em_evidence a) s) = Inr ()" "next_event_id s \<notin> pe_event_id ` set (events s)"
  defines "u \<equiv> emit_state ctx a s"
  assumes "get_execution_run rid u = Some run" "\<not> run_already_terminal rid u" "next_event_id u \<notin> pe_event_id ` set (events u)"
    and q: "evaluate_sponsor_outcome pf (publication_request ctx run u) u = Inr (True, e)"
    and guard: "closing_guard pf (closing_ctx ctx (oq_release_record_id (publication_request ctx run u))) ''RUN_COMPLETED''
      (closing_state rid success_close ''SUCCESS'' ''COMPLETED'' u)"
  shows "\<exists>t. emit_projectos_event pf ctx a s = (Inr (next_event_id s), t)"
proof -
  let ?ctx = "closing_ctx ctx (oq_release_record_id (publication_request ctx run u))"
  have "ec_run_id ?ctx = Some rid" by (simp add: closing_ctx_def assms(2))
  from close_returns [where pf = pf, OF this assms(3,7,8) success_close_outcome(1,2) assms(9)] guard obtain d t where
    "close_execution_run pf ?ctx success_close u = (Inr d, t)" by (auto simp: success_close_outcome)
  then have "maybe_close_run_after_event pf ctx ''RELEASE_PUBLISHED'' u = (Inr (), t)"
    by (simp add: maybe_close_run_after_event_def assms(2,3,7,8) q truthy_str_def str_of_def op_simps thenS_def bindS_def returnS_def)
  moreover obtain rs where "apply_event_to_run rid (em_event_type a) (run_payload a)
      (recorded ctx a (next_event_id s) (s\<lparr>uuid_next := Suc (uuid_next s)\<rparr>)) =
      (Inr (), (recorded ctx a (next_event_id s) (s\<lparr>uuid_next := Suc (uuid_next s)\<rparr>))\<lparr>runs := rs\<rparr>)"
    using apply_event_returns by blast
  ultimately show ?thesis
    using assms(2-5) unfolding emit_projectos_event_def emit_with_eq u_def
    by (auto simp: assms(1) validate_event_truthfulness_def emit_state_def projected_def truthy_str_def str_of_def Let_def
        thenS_def bindS_def returnS_def split: prod.splits sum.splits)
qed

section \<open>Samples\<close>

text \<open>A released candidate that is published, in an open run that requests a release.\<close>

definition sample_published :: db where
  "sample_published =
     snd (transaction (upsert_gate_status ''DLV-1'' ''PUBLICATION_GATE'' ''passed'' None None) sample_verified)
       \<lparr>runs := [sample_run\<lparr>r_request_type := ''RELEASE'', r_objective := ''build the package''\<rparr>],
        releases := map (\<lambda>r. r\<lparr>dr_publication_status := ''published'', dr_github_release_url := Some ''https://x''\<rparr>) (releases sample_verified),
        uuids := (\<lambda>n. replicate n CHR ''a''), uuid_next := 1\<rparr>"

definition sample_release_ctx :: event_ctx where
  "sample_release_ctx = sample_ctx\<lparr>ec_release_record_id := Some ''DLV-1''\<rparr>"

definition sample_publication :: event_args where
  "sample_publication = event_args_of ''RELEASE_PUBLISHED'' ''published''"

definition sample_blocked_close :: close_args where
  "sample_blocked_close = \<lparr>cl_summary = ''stuck'', cl_detail = [], cl_failure = None, cl_outcome = None,
     cl_terminal_status = Some ''FAILED''\<rparr>"


theorem run_closed_once_witness:
  "\<exists>d t run'. close_execution_run sample_policy sample_ctx sample_blocked_close sample_published = (Inr d, t) \<and>
     get_execution_run ''RUN-1'' t = Some run' \<and> r_status run' = ''BLOCKED'' \<and>
     (\<forall>a'. snd (close_execution_run sample_policy sample_ctx a' t) = t)"
proof -
  let ?r = "sample_run\<lparr>r_request_type := ''RELEASE'', r_objective := ''build the package''\<rparr>"
  have hyps: "ec_run_id sample_ctx = Some ''RUN-1''" "''RUN-1'' \<noteq> []" "get_execution_run ''RUN-1'' sample_published = Some ?r"
    "\<not> run_already_terminal ''RUN-1'' sample_published"
    "resolve_outcome (close_outcome sample_blocked_close) = Inr ''UNRECOVERABLE_TECHNICAL_CONDITION''"
    "''UNRECOVERABLE_TECHNICAL_CONDITION'' \<in> set TERMINAL_OUTCOMES" by code_simp+
  have tab: "map_of OUTCOME_TO_RUN_STATUS ''UNRECOVERABLE_TECHNICAL_CONDITION'' = Some ''BLOCKED''"
    "map_of OUTCOME_TO_EVENT ''UNRECOVERABLE_TECHNICAL_CONDITION'' = Some ''RUN_BLOCKED''" by code_simp+
  have "next_event_id sample_published \<notin> pe_event_id ` set (events sample_published)" by code_simp
  from close_returns [where pf = sample_policy, OF hyps this] obtain d t where
    t: "close_execution_run sample_policy sample_ctx sample_blocked_close sample_published = (Inr d, t)"
    by (auto simp: closing_guard_def tab)
  from run_closed_once [OF hyps t] t tab show ?thesis by auto
qed

text \<open>The publication of the sample release: the state with its event, on which the outcome is accepted.\<close>

definition sample_announced :: db where
  "sample_announced = emit_state sample_release_ctx sample_publication sample_published"

lemma sample_announced_guard:
  "closing_guard sample_policy (closing_ctx sample_release_ctx (Some ''DLV-1'')) ''RUN_COMPLETED''
     (closing_state ''RUN-1'' success_close ''SUCCESS'' ''COMPLETED'' sample_announced)"
  unfolding closing_guard_def by code_simp

lemma sample_announced_accepted:
  "\<exists>run1 e. get_execution_run ''RUN-1'' sample_announced = Some run1 \<and>
     evaluate_sponsor_outcome sample_policy (publication_request sample_release_ctx run1 sample_announced) sample_announced = Inr (True, e)"
proof -
  have "case get_execution_run ''RUN-1'' sample_announced of None \<Rightarrow> False | Some run1 \<Rightarrow>
      (case evaluate_sponsor_outcome sample_policy (publication_request sample_release_ctx run1 sample_announced) sample_announced of
         Inr (ok, _) \<Rightarrow> ok | Inl _ \<Rightarrow> False)" by code_simp
  then show ?thesis by (auto split: option.splits sum.splits)
qed

lemma sample_announced_fresh:
  "next_event_id sample_announced \<notin> pe_event_id ` set (events sample_announced)" "\<not> run_already_terminal ''RUN-1'' sample_announced"
  by code_simp+

lemma sample_published_start:
  "em_event_type sample_publication = ''RELEASE_PUBLISHED''" "ec_run_id sample_release_ctx = Some ''RUN-1''" "''RUN-1'' \<noteq> []"
  "get_execution_run ''RUN-1'' sample_published = Some (sample_run\<lparr>r_request_type := ''RELEASE'', r_objective := ''build the package''\<rparr>)"
  "\<not> run_already_terminal ''RUN-1'' sample_published"
  by code_simp+

lemma sample_published_ready:
  "fst (require_publication_record sample_release_ctx (em_evidence sample_publication) sample_published) = Inr ()"
  "next_event_id sample_published \<notin> pe_event_id ` set (events sample_published)"
  by code_simp+

theorem publication_completes_accepted_run_witness:
  "\<exists>eid t run'. emit_projectos_event sample_policy sample_release_ctx sample_publication sample_published = (Inr eid, t) \<and>
     get_execution_run ''RUN-1'' t = Some run' \<and> r_status run' = ''COMPLETED''"
proof -
  obtain run1 e where run1: "get_execution_run ''RUN-1'' sample_announced = Some run1"
      "evaluate_sponsor_outcome sample_policy (publication_request sample_release_ctx run1 sample_announced) sample_announced = Inr (True, e)"
    using sample_announced_accepted by blast
  have "oq_release_record_id (publication_request sample_release_ctx run1 sample_announced) = Some ''DLV-1''"
    by (simp add: publication_request_def sample_release_ctx_def str_or_def truthy_str_def Let_def)
  with sample_announced_guard have guard: "closing_guard sample_policy (closing_ctx sample_release_ctx
      (oq_release_record_id (publication_request sample_release_ctx run1 sample_announced))) ''RUN_COMPLETED''
      (closing_state ''RUN-1'' success_close ''SUCCESS'' ''COMPLETED'' sample_announced)" by simp
  note u = sample_announced_def
  from publication_returns [OF sample_published_start(1-3) sample_published_ready run1(1) [unfolded u]
      sample_announced_fresh(2,1) [unfolded u] run1(2) [unfolded u] guard [unfolded u]]
  obtain eid t where
    t: "emit_projectos_event sample_policy sample_release_ctx sample_publication sample_published = (Inr eid, t)" by blast
  from publication_completes_accepted_run [OF sample_published_start t, folded u] run1 obtain run' where
    "get_execution_run ''RUN-1'' t = Some run'" "r_status run' = ''COMPLETED''" by force
  with t show ?thesis by blast
qed

text \<open>A work item that is completed by its job.\<close>

definition sample_done :: db where
  "sample_done = sample_works\<lparr>works := [(hd (works sample_works))\<lparr>w_work_item_id := ''WRK-1'', w_status := ''COMPLETED'', w_orchestration_job_id := Some 1\<rparr>],
     uuids := (\<lambda>n. replicate n CHR ''a''), uuid_next := 1\<rparr>"

definition sample_completion :: event_args where
  "sample_completion = (event_args_of ''WORK_COMPLETED'' ''done'')\<lparr>em_evidence := Some [(''work_item_id'', JStr ''WRK-1'')]\<rparr>"

lemma sample_completion_returns: "\<exists>t. emit_projectos_event sample_policy sample_ctx sample_completion sample_done = (Inr ''EVT-A'', t)"
proof -
  have "fst (require_work_completed_authoritative sample_ctx (em_evidence sample_completion) sample_done) = Inr ()"
    "events sample_done = []" "next_event_id sample_done = ''EVT-A''" by code_simp+
  then show ?thesis
    using emit_is_inner [of sample_completion sample_policy sample_ctx sample_done]
    by (auto simp: emit_inner_eq sample_completion_def event_args_of_def validate_event_truthfulness_def split: prod.splits sum.splits)
qed

theorem completion_announced_once_witness:
  "\<exists>t. emit_projectos_event sample_policy sample_ctx sample_completion sample_done = (Inr ''EVT-A'', t) \<and>
     (\<exists>e. emit_projectos_event sample_policy sample_ctx sample_completion t = (Inl e, t))"
proof -
  obtain t where t: "emit_projectos_event sample_policy sample_ctx sample_completion sample_done = (Inr ''EVT-A'', t)"
    using sample_completion_returns by blast
  have "plain ''WRK-1''" "ec_run_id sample_ctx = Some ''RUN-1''" by code_simp+
  then have "\<exists>e. emit_projectos_event sample_policy sample_ctx sample_completion t = (Inl e, t)"
    by (intro completion_announced_once [OF _ _ _ _ _ _ _ t subset_refl,
        of "[(''work_item_id'', JStr ''WRK-1'')]" "''WRK-1''" "''RUN-1''"])
       (simp_all add: sample_completion_def event_args_of_def entry_def dict_get_def)
  with t show ?thesis by blast
qed

end
