(* ===== verification/Verdicts.thy ===== *)
theory Verdicts
  imports Outbox Control
begin

text \<open>
  What a worker's output means: the structured verdict of an assessor (\<^verbatim>\<open>assurance_verdict.py\<close>) and the evaluation of
  a delivery (\<^verbatim>\<open>delivery_evidence.py\<close>). The output of a worker is an untrusted text. The two JSON decoders
  of the library are an argument, and what is shown holds whatever they return.
\<close>

text \<open>\<^verbatim>\<open>json.JSONDecoder().raw_decode(t)\<close>, the value of the longest prefix that decodes, and \<^verbatim>\<open>json.loads(t)\<close>;
  \<open>None\<close> is a \<^verbatim>\<open>JSONDecodeError\<close>.\<close>

record decoder =
  raw_decode :: "string \<Rightarrow> json option"
  loads :: "string \<Rightarrow> json option"

section \<open>Structured verdicts (\<^verbatim>\<open>assurance_verdict.py\<close>)\<close>

definition VALID_VERDICTS :: "string list" where
  "VALID_VERDICTS = [''PASS'', ''FAIL'', ''INCONCLUSIVE'']"

definition ASSURANCE_RESULT_MARKER :: string where
  "ASSURANCE_RESULT_MARKER = ''PROJECTOS_ASSURANCE_RESULT''"

record assurance_finding =
  af_finding_id :: string
  af_category :: string
  af_severity :: string
  af_evidence :: string
  af_affected_component :: string
  af_expected_condition :: string
  af_actual_condition :: string
  af_recommended_owner_role :: string
  af_retryable :: bool

record assurance_result =
  as_verdict :: string
  as_summary :: string
  as_findings :: "assurance_finding list"
  as_evidence_refs :: "string list"
  as_candidate_id :: string
  as_candidate_type :: string
  as_assurance_job_id :: string
  as_assessor_role :: string
  as_completed_at :: string

text \<open>\<^verbatim>\<open>AssuranceFinding.to_dict\<close>.\<close>

definition finding_dict :: "assurance_finding \<Rightarrow> dict" where
  "finding_dict f =
     [(''finding_id'', JStr (af_finding_id f)), (''category'', JStr (af_category f)), (''severity'', JStr (af_severity f)),
      (''evidence'', JStr (af_evidence f)), (''affected_component'', JStr (af_affected_component f)),
      (''expected_condition'', JStr (af_expected_condition f)), (''actual_condition'', JStr (af_actual_condition f)),
      (''recommended_owner_role'', JStr (af_recommended_owner_role f)), (''retryable'', JBool (af_retryable f))]"

text \<open>\<^verbatim>\<open>AssuranceResult.to_dict\<close>.\<close>

definition result_dict :: "assurance_result \<Rightarrow> dict" where
  "result_dict r =
     [(''verdict'', JStr (as_verdict r)), (''summary'', JStr (as_summary r)),
      (''findings'', JList (map (\<lambda>f. JObj (finding_dict f)) (as_findings r))),
      (''evidence_refs'', JList (map JStr (as_evidence_refs r))), (''candidate_id'', JStr (as_candidate_id r)),
      (''candidate_type'', JStr (as_candidate_type r)), (''assurance_job_id'', JStr (as_assurance_job_id r)),
      (''assessor_role'', JStr (as_assessor_role r)), (''completed_at'', JStr (as_completed_at r))]"

definition verdict_to_evidence_result :: "string \<Rightarrow> exn + string" where
  "verdict_to_evidence_result verdict =
     (case map_of [(''PASS'', ''pass''), (''FAIL'', ''fail''), (''INCONCLUSIVE'', ''inconclusive'')] (py_upper verdict) of
        None \<Rightarrow> Inl AssuranceValidationError
      | Some r \<Rightarrow> Inr r)"

text \<open>\<^verbatim>\<open>_parse_findings\<close>: entries that are not objects are skipped, but counted by the default id.\<close>

definition parse_finding :: "nat \<Rightarrow> dict \<Rightarrow> assurance_finding" where
  "parse_finding i item =
     \<lparr>af_finding_id = get_str item ''finding_id'' (''FND-'' @ show_nat (i + 1)),
      af_category = get_str item ''category'' ''UNKNOWN'', af_severity = get_str item ''severity'' ''medium'',
      af_evidence = get_str item ''evidence'' [], af_affected_component = get_str item ''affected_component'' [],
      af_expected_condition = get_str item ''expected_condition'' [],
      af_actual_condition = get_str item ''actual_condition'' [],
      af_recommended_owner_role = get_str item ''recommended_owner_role'' (get_str item ''category'' ''UNKNOWN''),
      af_retryable = (case map_of item ''retryable'' of None \<Rightarrow> True | Some v \<Rightarrow> truthy v)\<rparr>"

fun parse_finding_list :: "nat \<Rightarrow> json list \<Rightarrow> assurance_finding list" where
  "parse_finding_list i [] = []"
| "parse_finding_list i (JObj item # xs) = parse_finding i item # parse_finding_list (i + 1) xs"
| "parse_finding_list i (_ # xs) = parse_finding_list (i + 1) xs"

definition parse_findings :: "json \<Rightarrow> assurance_finding list" where
  "parse_findings raw = (case raw of JList xs \<Rightarrow> parse_finding_list 0 xs | _ \<Rightarrow> [])"

subsection \<open>The verdict block of an output (\<^verbatim>\<open>parse_assurance_result_payload\<close>)\<close>

text \<open>\<^verbatim>\<open>t[t.find(sub):]\<close>, where \<^verbatim>\<open>sub\<close> occurs.\<close>

fun suffix_from :: "string \<Rightarrow> string \<Rightarrow> string option" where
  "suffix_from sub [] = (if sub = [] then Some [] else None)"
| "suffix_from sub (c # cs) = (if is_prefix sub (c # cs) then Some (c # cs) else suffix_from sub cs)"

text \<open>The regular expression of a fenced block, at a text and anywhere in it: the shortest body that ends in a
  brace before the closing fence.\<close>

definition fence :: string where
  "fence = [CHR 0x60, CHR 0x60, CHR 0x60]"

definition closes_fence :: "string \<Rightarrow> bool" where
  "closes_fence t \<longleftrightarrow> is_prefix fence (dropWhile py_space t)"

fun fenced_body :: "string \<Rightarrow> string \<Rightarrow> string option" where
  "fenced_body acc [] = None"
| "fenced_body acc (c # cs) =
     (if c = CHR ''}'' \<and> closes_fence cs then Some (acc @ [c]) else fenced_body (acc @ [c]) cs)"

definition fenced_at :: "string \<Rightarrow> string option" where
  "fenced_at t =
     (if \<not> is_prefix fence t then None
      else let u = drop 3 t;
               v = (if py_lower (take 4 u) = ''json'' then drop 4 u else u)
           in case dropWhile py_space v of
                [] \<Rightarrow> None
              | c # cs \<Rightarrow> if c = CHR ''{'' then fenced_body [c] cs else None)"

fun fenced_block :: "string \<Rightarrow> string option" where
  "fenced_block [] = None"
| "fenced_block (c # cs) = (case fenced_at (c # cs) of None \<Rightarrow> fenced_block cs | Some b \<Rightarrow> Some b)"

definition object_of :: "json option \<Rightarrow> dict option" where
  "object_of v = (case v of Some (JObj d) \<Rightarrow> Some d | _ \<Rightarrow> None)"

definition marked_payload :: "decoder \<Rightarrow> string \<Rightarrow> dict option" where
  "marked_payload dec t =
     (case suffix_from ASSURANCE_RESULT_MARKER t of
        None \<Rightarrow> None
      | Some u \<Rightarrow> (case suffix_from ''{'' u of None \<Rightarrow> None | Some v \<Rightarrow> object_of (raw_decode dec v)))"

definition parse_assurance_result_payload :: "decoder \<Rightarrow> string option \<Rightarrow> dict option" where
  "parse_assurance_result_payload dec stdout =
     (case stdout of
        None \<Rightarrow> None
      | Some t \<Rightarrow>
          if py_strip t = [] then None
          else case marked_payload dec t of
            Some d \<Rightarrow> Some d
          | None \<Rightarrow> (case fenced_block t of None \<Rightarrow> None | Some b \<Rightarrow> object_of (loads dec b)))"

subsection \<open>Validation\<close>

text \<open>\<open>now\<close> is the text of \<^verbatim>\<open>utc_now_iso()\<close>.\<close>

definition build_assurance_result :: "string \<Rightarrow> dict \<Rightarrow> assurance_result" where
  "build_assurance_result now payload =
     \<lparr>as_verdict = py_upper (get_str payload ''verdict'' []), as_summary = get_str payload ''summary'' [],
      as_findings = parse_findings (dict_get payload ''findings''),
      as_evidence_refs = (case dict_get payload ''evidence_refs'' of JList xs \<Rightarrow> map py_str xs | _ \<Rightarrow> []),
      as_candidate_id = get_str payload ''candidate_id'' [], as_candidate_type = get_str payload ''candidate_type'' ''git_sha'',
      as_assurance_job_id = get_str payload ''assurance_job_id'' [], as_assessor_role = get_str payload ''assessor_role'' [],
      as_completed_at = get_str payload ''completed_at'' now\<rparr>"

definition expected_candidate :: "job \<Rightarrow> string" where
  "expected_candidate j = str_of (str_or (j_source_candidate_sha j) (j_base_git_sha j))"

definition validate_assurance_result :: "assurance_result \<Rightarrow> job \<Rightarrow> exn + assurance_result" where
  "validate_assurance_result r j =
     (if as_verdict r \<notin> set VALID_VERDICTS then Inl AssuranceValidationError
      else if expected_candidate j = [] then Inl AssuranceValidationError
      else if as_candidate_id r \<noteq> expected_candidate j then Inl AssuranceValidationError
      else if as_assurance_job_id r \<noteq> j_human_id j then Inl AssuranceValidationError
      else if as_assessor_role r \<noteq> j_queue j then Inl AssuranceValidationError
      else if as_verdict r = ''FAIL'' \<and> as_findings r = [] \<and> as_summary r = [] then Inl AssuranceValidationError
      else Inr r)"

definition parse_and_validate_assurance_result ::
    "decoder \<Rightarrow> string \<Rightarrow> string option \<Rightarrow> job \<Rightarrow> exn + assurance_result" where
  "parse_and_validate_assurance_result dec now stdout j =
     (case parse_assurance_result_payload dec stdout of
        None \<Rightarrow> Inl AssuranceValidationError
      | Some payload \<Rightarrow> validate_assurance_result (build_assurance_result now payload) j)"

text \<open>\<^verbatim>\<open>format_assurance_stdout\<close>, with the text of the object as an argument.\<close>

definition format_assurance_stdout :: "(dict \<Rightarrow> string) \<Rightarrow> assurance_result \<Rightarrow> string" where
  "format_assurance_stdout dumps r = ASSURANCE_RESULT_MARKER @ [CHR 0x0A] @ dumps (result_dict r)"

section \<open>Delivery candidates (\<^verbatim>\<open>delivery_evidence.py\<close>)\<close>

text \<open>\<^verbatim>\<open>^\s*OUTCOME:\s*NO_CHANGE\b\<close> at a text, ignoring case; then at the start of every line.\<close>

definition word_char :: "char \<Rightarrow> bool" where
  "word_char c \<longleftrightarrow> alnum c \<or> c = CHR ''_''"

definition no_change_at :: "string \<Rightarrow> bool" where
  "no_change_at t =
     (let u = dropWhile py_space t; v = dropWhile py_space (drop 8 u); w = drop 9 v
      in py_upper (take 8 u) = ''OUTCOME:'' \<and> py_upper (take 9 v) = ''NO_CHANGE'' \<and> (w = [] \<or> \<not> word_char (hd w)))"

fun no_change_line :: "string \<Rightarrow> bool" where
  "no_change_line [] = False"
| "no_change_line (c # cs) = (c = CHR 0x0A \<and> no_change_at cs \<or> no_change_line cs)"

definition stdout_declares_no_change :: "string option \<Rightarrow> bool" where
  "stdout_declares_no_change stdout =
     (case stdout of None \<Rightarrow> False | Some t \<Rightarrow> t \<noteq> [] \<and> (no_change_at t \<or> no_change_line t))"

record candidate_evaluation =
  ce_ok :: bool
  ce_outcome :: "string option"
  ce_error :: "string option"
  ce_handoff_eligible :: bool

definition evaluate_delivery_candidate ::
    "job \<Rightarrow> string option \<Rightarrow> string option \<Rightarrow> bool option \<Rightarrow> string option \<Rightarrow> bool \<Rightarrow> candidate_evaluation" where
  "evaluate_delivery_candidate j base candidate dirty stdout code_changing =
     (let refused = (\<lambda>err. \<lparr>ce_ok = False, ce_outcome = None, ce_error = Some err, ce_handoff_eligible = False\<rparr>) in
      if \<not> truthy_str base then refused ''DELIVERY requires a known base_git_sha''
      else if \<not> truthy_str candidate then refused ''DELIVERY requires an identifiable candidate_git_sha''
      else if dirty = Some True then refused ''DELIVERY left uncommitted changes; dirty worktree cannot be marked SUCCEEDED''
      else if candidate = base then
        (if (stdout_declares_no_change stdout \<or> j_allows_no_change j) \<and> code_changing
         then \<lparr>ce_ok = True, ce_outcome = Some ''NO_CHANGE'', ce_error = None, ce_handoff_eligible = False\<rparr>
         else if \<not> code_changing then \<lparr>ce_ok = True, ce_outcome = None, ce_error = None, ce_handoff_eligible = False\<rparr>
         else refused (''DELIVERY produced no candidate revision (candidate_git_sha == base_git_sha == '' @ str_of base @
           ''); Cursor exit 0 is not delivery success. Declare OUTCOME: NO_CHANGE with rationale only when no code change is legitimate.''))
      else \<lparr>ce_ok = True, ce_outcome = None, ce_error = None, ce_handoff_eligible = True\<rparr>)"

definition is_valid_qa_candidate :: "job \<Rightarrow> bool" where
  "is_valid_qa_candidate j \<longleftrightarrow> j_queue j = ''DELIVERY'' \<and> j_status j = SUCCEEDED \<and>
     j_outcome j \<notin> {Some ''INVALIDATED'', Some ''SUPERSEDED'', Some ''NO_CHANGE''} \<and>
     truthy_str (j_candidate_git_sha j) \<and> truthy_str (j_base_git_sha j) \<and> j_candidate_git_sha j \<noteq> j_base_git_sha j"

end
