(* ===== verification/Assurance.thy ===== *)
theory Assurance
  imports Verdicts Run_Closing
begin

text \<open>
  Independent assurance of a candidate (\<^verbatim>\<open>qa_handoff.py\<close>, \<^verbatim>\<open>qa_manager.py\<close>, \<^verbatim>\<open>qa_inconclusive.py\<close>, with the lookup of an event
  context in \<^verbatim>\<open>domain_events.py\<close>): a delivery is handed over to four assessors and a manager, whose verdicts are recorded
  as evidence; the manager aggregates them; inconclusive assessments are repeated. The lemmas are in \<open>Assurance_Props\<close>.
\<close>

section \<open>The context of a job's events (\<^verbatim>\<open>lookup_event_context_for_job\<close>)\<close>

definition plain_ctx :: "string \<Rightarrow> string option \<Rightarrow> event_ctx" where
  "plain_ctx pid rid =
     \<lparr>ec_project_id = pid, ec_handoff_id = None, ec_run_id = rid, ec_iteration_id = None, ec_job_id = None,
      ec_work_item_id = None, ec_release_id = None, ec_release_record_id = None, ec_artifact_id = None,
      ec_correlation_id = None, ec_causation_id = None, ec_slack_team_id = [], ec_slack_channel_id = [],
      ec_slack_thread_ts = []\<rparr>"

text \<open>The run of a job: its own, else that of its newest evidence, else that of its newest work item.\<close>

definition run_of_job :: "job \<Rightarrow> db \<Rightarrow> string option" where
  "run_of_job j s =
     (let ev = (case sort_key (\<lambda>q. - q_id q) (filter (\<lambda>q. q_assurance_job_id q = j_id j) (evidence s)) of
          [] \<Rightarrow> None | q # _ \<Rightarrow> q_run_id q);
          wk = (case sort_key (\<lambda>w. - w_created_at w) (filter (\<lambda>w. w_orchestration_job_id w = Some (j_id j)) (works s)) of
          [] \<Rightarrow> None | w # _ \<Rightarrow> Some (w_run_id w))
      in if truthy_str (j_run_id j) then j_run_id j else if truthy_str ev then ev else if truthy_str wk then wk else None)"

definition handoff_of_run :: "string \<Rightarrow> db \<Rightarrow> sponsor_handoff option" where
  "handoff_of_run rid s =
     (case get_execution_run rid s of
        None \<Rightarrow> None
      | Some r \<Rightarrow> find_row (\<lambda>h. Some (h_handoff_id h) = r_handoff_id r) (handoffs s))"

definition job_ctx :: "job \<Rightarrow> string \<Rightarrow> db \<Rightarrow> event_ctx" where
  "job_ctx j rid s =
     (case handoff_of_run rid s of
        None \<Rightarrow> plain_ctx (j_project_human_id j) (Some rid)
      | Some h \<Rightarrow> (plain_ctx (h_project_id h) (Some rid))
          \<lparr>ec_handoff_id := (if h_handoff_id h = [] then None else Some (h_handoff_id h)), ec_job_id := Some (j_human_id j),
           ec_work_item_id := j_work_item_human_id j, ec_correlation_id := Some rid, ec_slack_team_id := h_team_id h,
           ec_slack_channel_id := h_channel_id h, ec_slack_thread_ts := h_thread_ts h\<rparr>)"

definition lookup_event_context_for_job :: "int \<Rightarrow> event_ctx dbop" where
  "lookup_event_context_for_job i =
     bindS (get_job i) (\<lambda>j.
     bindS (getS (run_of_job j)) (\<lambda>rid.
     case rid of None \<Rightarrow> raiseS OrchestrationError | Some r \<Rightarrow> getS (job_ctx j r)))"

section \<open>Handing a delivery over (\<^verbatim>\<open>qa_handoff.py\<close>)\<close>

definition REQUIRED_ASSURANCE :: "string list" where
  "REQUIRED_ASSURANCE = [''ASSURANCE_FUNCTIONAL'', ''ASSURANCE_INTEGRATION'', ''ASSURANCE_SECURITY'', ''ASSURANCE_QUALITY'']"

text \<open>A set in the source; its order matters nowhere but in the fallback of \<open>inconclusive_targets\<close>.\<close>

definition ASSURANCE_QUEUES :: "string list" where
  "ASSURANCE_QUEUES = [''ASSURANCE_FUNCTIONAL'', ''ASSURANCE_INTEGRATION'', ''ASSURANCE_SECURITY'', ''ASSURANCE_QUALITY'']"

definition CODE_MODIFYING_ROLES :: "string list" where
  "CODE_MODIFYING_ROLES = [''DELIVERY'', ''ARCHITECTURE'', ''INTEGRATION'']"

definition QA_MANAGER_ROLE :: string where
  "QA_MANAGER_ROLE = ''QA_MANAGER''"

record handoff_result =
  hr_delivery_job_id :: int
  hr_candidate_git_sha :: string
  hr_assurance_job_ids :: "string list"

text \<open>The identity snapshot of the producing job; it is stored from a dictionary, so it decodes to one.\<close>

definition identity_of :: "job \<Rightarrow> string \<Rightarrow> string \<Rightarrow> dict" where
  "identity_of j pid root =
     (case j_identity_snapshot_json j of
        Some (JText (JObj d)) \<Rightarrow> d
      | _ \<Rightarrow> [(''project_human_id'', JStr pid), (''repository_root'', JStr root)])"

text \<open>\<^verbatim>\<open>QUEUE_TO_ROLE[queue]\<close>.\<close>

definition role_of_queue :: "string \<Rightarrow> exn + string" where
  "role_of_queue q = (case map_of QUEUE_TO_ROLE q of None \<Rightarrow> Inl KeyError | Some r \<Rightarrow> Inr r)"

definition assessor_args :: "job \<Rightarrow> string \<Rightarrow> string option \<Rightarrow> string \<Rightarrow> string \<Rightarrow> job_args" where
  "assessor_args delivery sha rid q role =
     (let h = j_human_id delivery @ ''__'' @ q in
      (job_args_of h (j_project_human_id delivery) (j_repository_root delivery) role q)
        \<lparr>n_iteration_human_id := j_iteration_human_id delivery, n_work_item_type := j_work_item_type delivery,
         n_work_item_human_id := j_work_item_human_id delivery, n_requires_worktree := True,
         n_worktree_name := Some (j_project_human_id delivery @ ''__'' @ h), n_base_git_sha := Some sha,
         n_identity_snapshot := Some (identity_of delivery (j_project_human_id delivery) (j_repository_root delivery)),
         n_run_id := rid\<rparr>)"

definition create_assessor :: "job \<Rightarrow> string \<Rightarrow> string option \<Rightarrow> string \<Rightarrow> string dbop" where
  "create_assessor delivery sha rid q =
     bindS (liftS (role_of_queue q)) (\<lambda>role.
     bindS (create_job (assessor_args delivery sha rid q role)) (\<lambda>j.
     thenS (set_job_source_provenance (j_id j) (Some (j_id delivery)) (Some sha))
     (thenS (add_job_dependency (j_id j) (j_id delivery))
     (thenS (insert_qa_evidence (j_project_human_id delivery) (j_repository_root delivery) (j_id delivery) (j_id j) sha q
               ''pending'' rid None None)
       (returnS (j_human_id delivery @ ''__'' @ q))))))"

definition manager_args :: "job \<Rightarrow> string option \<Rightarrow> job_args" where
  "manager_args delivery rid =
     (job_args_of (j_human_id delivery @ ''__QA_MANAGER'') (j_project_human_id delivery) (j_repository_root delivery)
        QA_MANAGER_ROLE QA_MANAGER_ROLE)
       \<lparr>n_iteration_human_id := j_iteration_human_id delivery,
        n_identity_snapshot := Some (identity_of delivery (j_project_human_id delivery) (j_repository_root delivery)),
        n_run_id := rid\<rparr>"

text \<open>The manager waits for the assessor of each queue.\<close>

definition wait_for_assessor :: "job \<Rightarrow> int \<Rightarrow> string \<Rightarrow> unit dbop" where
  "wait_for_assessor delivery manager q =
     bindS (getS (get_job_by_human_id (j_human_id delivery @ ''__'' @ q))) (\<lambda>row.
     case row of None \<Rightarrow> returnS () | Some j \<Rightarrow> add_job_dependency manager (j_id j))"

definition create_manager :: "job \<Rightarrow> string \<Rightarrow> string option \<Rightarrow> string dbop" where
  "create_manager delivery sha rid =
     bindS (create_job (manager_args delivery rid)) (\<lambda>agg.
     thenS (set_job_source_provenance (j_id agg) (Some (j_id delivery)) (Some sha))
     (thenS (mapS (wait_for_assessor delivery (j_id agg)) REQUIRED_ASSURANCE)
     (thenS (insert_qa_evidence (j_project_human_id delivery) (j_repository_root delivery) (j_id delivery) (j_id agg) sha
               QA_MANAGER_ROLE ''pending'' rid None None)
       (returnS (j_human_id delivery @ ''__QA_MANAGER'')))))"

definition delivery_run :: "job \<Rightarrow> db \<Rightarrow> string option" where
  "delivery_run delivery s =
     (if truthy_str (j_run_id delivery) then j_run_id delivery
      else case job_by_id (j_id delivery) s of
        None \<Rightarrow> j_run_id delivery
      | Some j \<Rightarrow> if truthy_str (j_run_id j) then j_run_id j else j_run_id delivery)"

definition create_assurance_jobs_for_delivery :: "job \<Rightarrow> string \<Rightarrow> handoff_result dbop" where
  "create_assurance_jobs_for_delivery delivery sha =
     (if sha = [] then raiseS OrchestrationError
      else if truthy_str (j_base_git_sha delivery) \<and> j_base_git_sha delivery = Some sha then raiseS OrchestrationError
      else if j_outcome delivery \<in> {Some ''INVALIDATED'', Some ''SUPERSEDED'', Some ''NO_CHANGE''} then raiseS OrchestrationError
      else
        bindS (getS (delivery_run delivery)) (\<lambda>rid.
        bindS (mapS (create_assessor delivery sha rid) REQUIRED_ASSURANCE) (\<lambda>assessors.
        bindS (create_manager delivery sha rid) (\<lambda>manager.
        let created = assessors @ [manager] in
        thenS (append_run_event (j_id delivery) ''qa.handoff_created'' (Some ''SUCCEEDED'')
                 (Some (''Created assurance jobs for candidate '' @ sha))
                 (Some [(''assurance_jobs'', JList (map JStr created)), (''candidate_git_sha'', JStr sha)]))
          (returnS \<lparr>hr_delivery_job_id = j_id delivery, hr_candidate_git_sha = sha, hr_assurance_job_ids = created\<rparr>)))))"

definition create_assurance_jobs_for_producer :: "job \<Rightarrow> string \<Rightarrow> handoff_result dbop" where
  "create_assurance_jobs_for_producer producer sha =
     (if j_status producer \<noteq> SUCCEEDED then raiseS OrchestrationError
      else if \<not> truthy_str (j_candidate_git_sha producer) \<or> j_candidate_git_sha producer \<noteq> Some sha then raiseS OrchestrationError
      else create_assurance_jobs_for_delivery producer sha)"

definition maybe_handoff_after_delivery :: "job \<Rightarrow> handoff_result option dbop" where
  "maybe_handoff_after_delivery j =
     (if \<not> is_valid_qa_candidate j then returnS None
      else bindS (getS (\<lambda>s. list_ex (\<lambda>q. q_delivery_job_id q = j_id j) (evidence s))) (\<lambda>handed.
        if handed then returnS None
        else bindS (create_assurance_jobs_for_delivery j (str_of (j_candidate_git_sha j))) (\<lambda>r. returnS (Some r))))"

section \<open>Repeating an assessment\<close>

definition retry_prefix :: "string \<Rightarrow> string \<Rightarrow> string \<Rightarrow> string" where
  "retry_prefix rid sha q = rid @ ''__'' @ take 12 sha @ ''__'' @ q @ ''__RETRY_''"

definition next_assurance_retry_attempt :: "string \<Rightarrow> string \<Rightarrow> string \<Rightarrow> db \<Rightarrow> int" where
  "next_assurance_retry_attempt rid sha q s =
     int (length (filter (\<lambda>j. sql_like (retry_prefix rid sha q @ ''%'') (j_human_id j) \<and> j_queue j = q) (jobs s))) + 1"

text \<open>\<^verbatim>\<open>{n:03d}\<close>.\<close>

definition pad3 :: "int \<Rightarrow> string" where
  "pad3 n = (let t = show_int n in
     if n < 0 then ''-'' @ replicate (3 - length t) CHR ''0'' @ tl t else replicate (3 - length t) CHR ''0'' @ t)"

definition retry_args :: "job \<Rightarrow> string \<Rightarrow> string \<Rightarrow> string \<Rightarrow> string \<Rightarrow> string \<Rightarrow> string \<Rightarrow> string \<Rightarrow> job_args" where
  "retry_args producer h rid pid root sha q role =
     (job_args_of h pid root role q)
       \<lparr>n_requires_worktree := True, n_worktree_name := Some (pid @ ''__'' @ h), n_base_git_sha := Some sha,
        n_identity_snapshot := Some (identity_of producer pid root), n_run_id := Some rid\<rparr>"

definition create_assurance_retry ::
    "string \<Rightarrow> string \<Rightarrow> string \<Rightarrow> string \<Rightarrow> string \<Rightarrow> int \<Rightarrow> int option \<Rightarrow> int option \<Rightarrow> job dbop" where
  "create_assurance_retry rid pid root sha q producer_id prior attempt_number =
     bindS (get_job producer_id) (\<lambda>producer.
     bindS (getS (\<lambda>s. case attempt_number of None \<Rightarrow> next_assurance_retry_attempt rid sha q s
         | Some n \<Rightarrow> if n = 0 then next_assurance_retry_attempt rid sha q s else n)) (\<lambda>attempt.
     let h = retry_prefix rid sha q @ pad3 attempt in
     bindS (getS (get_job_by_human_id h)) (\<lambda>existing.
     case existing of
       Some j \<Rightarrow> get_job (j_id j)
     | None \<Rightarrow>
         bindS (liftS (role_of_queue q)) (\<lambda>role.
         bindS (create_job (retry_args producer h rid pid root sha q role)) (\<lambda>j.
         thenS (set_job_source_provenance (j_id j) (Some producer_id) (Some sha))
         (thenS (case prior of None \<Rightarrow> returnS () | Some p \<Rightarrow> add_job_dependency (j_id j) p)
         (thenS (insert_qa_evidence pid root producer_id (j_id j) sha q ''pending'' (Some rid) (Some attempt) prior)
           (returnS j))))))))"

section \<open>Recording a verdict\<close>

definition assert_assurance_recording_allowed :: "job \<Rightarrow> exn + string" where
  "assert_assurance_recording_allowed j =
     (if j_queue j \<notin> set ASSURANCE_QUEUES \<or> j_agent_role j \<in> set CODE_MODIFYING_ROLES then Inl OrchestrationError
      else if \<not> truthy_str (j_source_candidate_sha j) then Inl OrchestrationError
      else Inr (str_of (j_source_candidate_sha j)))"

definition reject_stale_assurance_evidence :: "job \<Rightarrow> string option \<Rightarrow> unit dbop" where
  "reject_stale_assurance_evidence j ref =
     bindS (liftS (assert_assurance_recording_allowed j)) (\<lambda>expected.
     case j_source_delivery_job_id j of
       None \<Rightarrow> returnS ()
     | Some d \<Rightarrow>
         bindS (get_job d) (\<lambda>delivery.
         let current = j_candidate_git_sha delivery in
         if truthy_str current \<and> current \<noteq> Some expected then
           thenS (update_qa_evidence_result (j_id j) expected ''stale_rejected'' ref None)
           (thenS (append_run_event (j_id j) ''qa.stale_evidence_rejected'' (Some ''BLOCKED'')
                     (Some (''QA evidence for '' @ expected @ '' cannot approve newer candidate '' @ str_of current)) None)
             (raiseS OrchestrationError))
         else returnS ()))"

definition gate_phase_event :: "string \<Rightarrow> string \<Rightarrow> string \<Rightarrow> dict option \<Rightarrow> event_args" where
  "gate_phase_event ty summary level ev =
     (event_args_of ty summary)\<lparr>em_actor_id := ''qa-agent'', em_phase := ''QA_GATE'', em_detail_level := level, em_evidence := ev\<rparr>"

definition emit_qa_finding_created :: "policy_files \<Rightarrow> event_ctx \<Rightarrow> string \<Rightarrow> dict option \<Rightarrow> unit dbop" where
  "emit_qa_finding_created pf ctx summary ev =
     thenS (emit_projectos_event pf ctx (gate_phase_event ''QA_FINDING_CREATED'' (take 500 summary) ''milestone'' ev)) (returnS ())"

text \<open>\<open>reason\<close> is the text of the exception that refused the result.\<close>

definition record_invalid_assurance_result :: "policy_files \<Rightarrow> job \<Rightarrow> string \<Rightarrow> string option \<Rightarrow> string dbop" where
  "record_invalid_assurance_result pf j reason ref =
     bindS (liftS (assert_assurance_recording_allowed j)) (\<lambda>expected.
     thenS (reject_stale_assurance_evidence j ref)
     (thenS (update_qa_evidence_result (j_id j) expected ''inconclusive'' ref None)
     (thenS (append_run_event (j_id j) ''qa.assurance_result_invalid'' (Some ''BLOCKED'') (Some (take 500 reason))
               (Some [(''reason'', JStr reason), (''candidate_git_sha'', JStr expected)]))
     (bindS (lookup_event_context_for_job (j_id j)) (\<lambda>ctx.
      thenS (emit_projectos_event pf ctx (gate_phase_event ''ASSURANCE_RESULT_INVALID''
               (''Assurance result invalid for '' @ j_queue j @ '': '' @ take 200 reason) ''milestone''
               (Some [(''assurance_role'', JStr (j_queue j)), (''job_id'', JStr (j_human_id j)),
                      (''candidate_git_sha'', JStr expected), (''reason'', JStr reason)])))
      (thenS (emit_qa_gate_evaluation pf (j_project_human_id j) (Some ctx) False None None)
        (returnS ''inconclusive'')))))))"

definition emit_failed_findings :: "policy_files \<Rightarrow> event_ctx \<Rightarrow> job \<Rightarrow> string \<Rightarrow> assurance_result \<Rightarrow> string \<Rightarrow> unit dbop" where
  "emit_failed_findings pf ctx j expected r evidence_result =
     (if as_findings r = [] then
        emit_qa_finding_created pf ctx (''QA finding on '' @ j_queue j @ '' for '' @ expected)
          (Some [(''assurance_role'', JStr (j_queue j)), (''job_id'', JStr (j_human_id j)), (''candidate_git_sha'', JStr expected),
                 (''result'', JStr evidence_result), (''summary'', JStr (as_summary r))])
      else thenS (mapS (\<lambda>f. emit_qa_finding_created pf ctx
             (''QA finding '' @ af_finding_id f @ '': '' @ af_actual_condition f) (Some (finding_dict f))) (as_findings r))
        (returnS ()))"

definition emit_verdict_events :: "policy_files \<Rightarrow> event_ctx \<Rightarrow> job \<Rightarrow> string \<Rightarrow> assurance_result \<Rightarrow> string \<Rightarrow> unit dbop" where
  "emit_verdict_events pf ctx j expected r evidence_result =
     thenS (emit_projectos_event pf ctx (gate_phase_event ''ASSURANCE_RESULT_RECORDED''
              (j_queue j @ '' verdict '' @ as_verdict r @ '' for '' @ expected) ''normal''
              (Some [(''verdict'', JStr (as_verdict r)), (''assurance_role'', JStr (j_queue j)), (''job_id'', JStr (j_human_id j)),
                     (''candidate_git_sha'', JStr expected), (''summary'', JStr (as_summary r))])))
     (thenS (if as_verdict r = ''FAIL'' then emit_failed_findings pf ctx j expected r evidence_result
             else if as_verdict r = ''INCONCLUSIVE'' then
               thenS (emit_projectos_event pf ctx (gate_phase_event ''QA_INCONCLUSIVE''
                 (''Assurance '' @ j_queue j @ '' inconclusive for '' @ expected @ '': '' @
                  (if as_summary r = [] then ''assessment could not determine compliance'' else as_summary r)) ''milestone''
                 (Some [(''assurance_role'', JStr (j_queue j)), (''job_id'', JStr (j_human_id j)),
                        (''candidate_git_sha'', JStr expected), (''summary'', JStr (as_summary r))]))) (returnS ())
             else returnS ())
     (thenS (emit_qa_gate_evaluation pf (j_project_human_id j) (Some ctx) False None None) (returnS ())))"

text \<open>\<^verbatim>\<open>create_defect_fn\<close>: the output of the \<^verbatim>\<open>projectctl\<close> program for a root, a title and a description. The id is the
  second word of the first line with \<^verbatim>\<open>Created\<close> that has two words.\<close>

type_synonym defect_fn = "string \<Rightarrow> string \<Rightarrow> string \<Rightarrow> exn + string"

definition line_break :: "char \<Rightarrow> bool" where
  "line_break c \<longleftrightarrow> of_char c \<in> {10, 11, 12, 13, 28, 29, 30, 133 :: nat}"

fun split_lines :: "string \<Rightarrow> string \<Rightarrow> string list" where
  "split_lines acc [] = (if acc = [] then [] else [acc])"
| "split_lines acc (c # cs) = (if line_break c then acc # split_lines [] cs else split_lines (acc @ [c]) cs)"

definition created_id :: "string \<Rightarrow> string option" where
  "created_id out =
     (case filter (\<lambda>line. py_in ''Created'' line \<and> 2 \<le> length (py_split line)) (split_lines [] out) of
        [] \<Rightarrow> None | line # _ \<Rightarrow> Some (py_split line ! 1))"

definition open_defect :: "defect_fn option \<Rightarrow> job \<Rightarrow> string \<Rightarrow> assurance_result \<Rightarrow> exn + string option" where
  "open_defect fn j expected r =
     (case fn of
        None \<Rightarrow> Inr None
      | Some f \<Rightarrow> map_sum id created_id (f (j_repository_root j) (''QA failure on '' @ j_queue j @ '' for '' @ expected)
          (''Assurance job '' @ j_human_id j @ '' failed: '' @ as_summary r)))"

definition record_failure :: "defect_fn option \<Rightarrow> job \<Rightarrow> string \<Rightarrow> assurance_result \<Rightarrow> unit dbop" where
  "record_failure fn j expected r =
     bindS (liftS (open_defect fn j expected r)) (\<lambda>defect.
     thenS (if truthy_str defect
            then modifyS (\<lambda>s. s\<lparr>evidence := update_where (\<lambda>q. q_assurance_job_id q = j_id j)
                   (\<lambda>q. q\<lparr>q_defect_human_id := defect\<rparr>) (evidence s)\<rparr>)
            else returnS ())
       (append_run_event (j_id j) ''qa.failed'' (Some ''FAILED'') (Some ''QA failure recorded; PM owns corrective work'')
          (Some [(''defect'', opt_json defect), (''candidate_git_sha'', JStr expected)])))"

definition record_assurance_verdict ::
    "policy_files \<Rightarrow> job \<Rightarrow> assurance_result \<Rightarrow> string option \<Rightarrow> defect_fn option \<Rightarrow> string dbop" where
  "record_assurance_verdict pf j r ref fn =
     bindS (liftS (assert_assurance_recording_allowed j)) (\<lambda>expected.
     thenS (reject_stale_assurance_evidence j ref)
     (thenS (guardS (as_candidate_id r = expected) OrchestrationError)
     (thenS (guardS (as_assurance_job_id r = j_human_id j) OrchestrationError)
     (thenS (guardS (as_assessor_role r = j_queue j) OrchestrationError)
     (bindS (liftS (verdict_to_evidence_result (as_verdict r))) (\<lambda>evidence_result.
      thenS (update_qa_evidence_result (j_id j) expected evidence_result ref None)
      (thenS (append_run_event (j_id j) ''qa.assurance_result_recorded'' (Some ''SUCCEEDED'')
                (Some (''Assurance verdict '' @ as_verdict r @ '' for '' @ expected))
                (Some [(''verdict'', JStr (as_verdict r)), (''candidate_git_sha'', JStr expected), (''summary'', JStr (as_summary r)),
                       (''findings_count'', JInt (int (length (as_findings r))))]))
      (bindS (lookup_event_context_for_job (j_id j)) (\<lambda>ctx.
       thenS (emit_verdict_events pf ctx j expected r evidence_result)
       (thenS (if as_verdict r = ''FAIL'' then record_failure fn j expected r else returnS ())
         (returnS evidence_result)))))))))))"

text \<open>\<open>msg\<close> is the text of the exception that refuses a result.\<close>

definition process_assurance_worker_success ::
    "policy_files \<Rightarrow> decoder \<Rightarrow> string \<Rightarrow> job \<Rightarrow> string option \<Rightarrow> string option \<Rightarrow> defect_fn option \<Rightarrow> string dbop" where
  "process_assurance_worker_success pf dec msg j stdout ref fn =
     bindS (getS now_iso) (\<lambda>now.
     case parse_and_validate_assurance_result dec (show_int now) stdout j of
       Inl e \<Rightarrow> record_invalid_assurance_result pf j msg ref
     | Inr r \<Rightarrow> record_assurance_verdict pf j r ref fn)"

definition record_assurance_result ::
    "policy_files \<Rightarrow> job \<Rightarrow> bool option \<Rightarrow> string option \<Rightarrow> string option \<Rightarrow> defect_fn option \<Rightarrow> string \<Rightarrow> json list \<Rightarrow> unit dbop" where
  "record_assurance_result pf j passed verdict ref fn summary findings =
     bindS (liftS (assert_assurance_recording_allowed j)) (\<lambda>_.
     bindS (case verdict of
         Some v \<Rightarrow> returnS v
       | None \<Rightarrow> (case passed of None \<Rightarrow> raiseS OrchestrationError | Some b \<Rightarrow> returnS (if b then ''PASS'' else ''FAIL''))) (\<lambda>v.
     bindS (getS now_iso) (\<lambda>now.
     bindS (liftS (validate_assurance_result
       \<lparr>as_verdict = py_upper v, as_summary = (if summary = [] then ''legacy verdict '' @ v else summary),
        as_findings = parse_findings (JList findings), as_evidence_refs = [], as_candidate_id = expected_candidate j,
        as_candidate_type = ''git_sha'', as_assurance_job_id = j_human_id j, as_assessor_role = j_queue j,
        as_completed_at = show_int now\<rparr> j)) (\<lambda>r.
     thenS (record_assurance_verdict pf j r ref fn) (returnS ())))))"

section \<open>The QA manager (\<^verbatim>\<open>qa_manager.py\<close>)\<close>

definition aggregate_gate_result :: "string list \<Rightarrow> string" where
  "aggregate_gate_result results =
     (if list_ex (\<lambda>r. r \<in> {''fail'', ''stale_rejected''}) results then ''fail''
      else if list_ex (\<lambda>r. r = ''inconclusive'') results then ''inconclusive''
      else if list_ex (\<lambda>r. r = ''pending'') results \<or> results = [] then ''pending''
      else if list_all (\<lambda>r. r = ''pass'') results then ''pass''
      else ''pending'')"

text \<open>\<^verbatim>\<open>ORDER BY assurance_role\<close>.\<close>

definition assessor_rows :: "int \<Rightarrow> string \<Rightarrow> db \<Rightarrow> qa_evidence list" where
  "assessor_rows delivery sha s =
     sort_key q_assurance_role (filter (\<lambda>q. q_delivery_job_id q = delivery \<and> q_candidate_git_sha q = sha \<and>
       q_assurance_role q \<in> set REQUIRED_ASSURANCE) (evidence s))"

definition assessor_results :: "qa_evidence list \<Rightarrow> dict" where
  "assessor_results rows = dict_update [] (map (\<lambda>q. (q_assurance_role q, JStr (q_result q))) rows)"

definition aggregation_event :: "string \<Rightarrow> string \<Rightarrow> qa_evidence list \<Rightarrow> event_args" where
  "aggregation_event candidate aggregate rows =
     gate_phase_event ''QA_MANAGER_AGGREGATED'' (''QA Manager aggregated '' @ aggregate @ '' for '' @ candidate) ''normal''
       (Some [(''candidate_git_sha'', JStr candidate), (''aggregate_result'', JStr aggregate),
              (''assessor_results'', JObj (assessor_results rows))])"

text \<open>The result: the aggregate, the candidate and the number of assessments.\<close>

definition execute_qa_manager_aggregation :: "policy_files \<Rightarrow> job \<Rightarrow> (string \<times> string \<times> int) dbop" where
  "execute_qa_manager_aggregation pf j =
     (let candidate = expected_candidate j in
      if candidate = [] then raiseS OrchestrationError
      else case j_source_delivery_job_id j of
        None \<Rightarrow> raiseS OrchestrationError
      | Some delivery \<Rightarrow>
          bindS (getS (assessor_rows delivery candidate)) (\<lambda>rows.
          thenS (guardS (set REQUIRED_ASSURANCE \<subseteq> q_assurance_role ` set rows) OrchestrationError)
          (let aggregate = aggregate_gate_result (map q_result rows) in
           bindS (getS (\<lambda>s. find_row (evidence_of (j_id j) candidate) (evidence s))) (\<lambda>mgmt.
           thenS (guardS (mgmt \<noteq> None) OrchestrationError)
           (thenS (update_qa_evidence_result (j_id j) candidate aggregate
                     (Some (''qa-manager-aggregate:'' @ candidate @ '':'' @ aggregate)) None)
           (thenS (append_run_event (j_id j) ''qa.manager_aggregated'' (Some ''SUCCEEDED'')
                     (Some (''QA Manager aggregated gate='' @ aggregate @ '' for '' @ candidate))
                     (Some [(''candidate_git_sha'', JStr candidate), (''aggregate_result'', JStr aggregate),
                            (''assessor_results'', JObj (assessor_results rows))]))
           (bindS (lookup_event_context_for_job (j_id j)) (\<lambda>ctx.
            thenS (emit_projectos_event pf ctx (aggregation_event candidate aggregate rows))
            (thenS (emit_qa_gate_evaluation pf (j_project_human_id j) (Some ctx) False (Some candidate) (ec_run_id ctx))
              (returnS (aggregate, candidate, int (length rows))))))))))))"

section \<open>Inconclusive assessments (\<^verbatim>\<open>qa_inconclusive.py\<close>)\<close>

definition delivery_producer :: "string \<Rightarrow> string \<Rightarrow> db \<Rightarrow> int option" where
  "delivery_producer pid sha s =
     (case sort_key (\<lambda>j. - j_id j) (filter (\<lambda>j. j_project_human_id j = pid \<and> j_candidate_git_sha j = Some sha \<and>
         j_queue j = ''DELIVERY'' \<and> j_status j = SUCCEEDED) (jobs s)) of
        [] \<Rightarrow> None | j # _ \<Rightarrow> Some (j_id j))"

text \<open>The column of the delivery is NOT NULL, so the producer of an evidence row is always known.\<close>

definition inconclusive_targets :: "string \<Rightarrow> string \<Rightarrow> string \<Rightarrow> string list option \<Rightarrow> db \<Rightarrow> (string \<times> int \<times> int option) list" where
  "inconclusive_targets rid pid sha roles s =
     (let fallback = (\<lambda>qs. case delivery_producer pid sha s of None \<Rightarrow> [] | Some p \<Rightarrow> map (\<lambda>q. (q, p, None)) qs);
          rows = filter (\<lambda>q. q_run_id q = Some rid \<and> q_candidate_git_sha q = sha \<and> q_result q = ''inconclusive'') (evidence s)
      in case roles of
           Some (q # qs) \<Rightarrow> fallback (q # qs)
         | _ \<Rightarrow> if rows = [] then fallback ASSURANCE_QUEUES
                else map (\<lambda>q. (q_assurance_role q, q_delivery_job_id q,
                    if q_assurance_job_id q = 0 then None else Some (q_assurance_job_id q))) (sort_key q_id rows))"

definition schedule_one :: "string \<Rightarrow> string \<Rightarrow> string \<Rightarrow> string \<Rightarrow> string \<times> int \<times> int option \<Rightarrow> int dbop" where
  "schedule_one rid pid root sha target =
     (case target of (role, producer, prior) \<Rightarrow>
      bindS (create_assurance_retry rid pid root sha role producer prior None) (\<lambda>j.
      thenS (persist_run_next_action rid pid ''ACTIVE_ASSESSMENT'' (Some (j_id j)) None None
               (Some [(''reason'', JStr ''qa_inconclusive''), (''candidate_git_sha'', JStr sha), (''assurance_role'', JStr role),
                      (''producer_job_id'', JInt producer)]))
        (returnS (j_id j))))"

definition schedule_assurance_retry_for_inconclusive ::
    "policy_files \<Rightarrow> event_ctx \<Rightarrow> string \<Rightarrow> string \<Rightarrow> string \<Rightarrow> string \<Rightarrow> string list option \<Rightarrow> int list dbop" where
  "schedule_assurance_retry_for_inconclusive pf ctx pid root sha rid roles =
     (if sha = [] then raiseS OrchestrationError
      else bindS (getS (inconclusive_targets rid pid sha roles)) (\<lambda>targets.
        thenS (guardS (targets \<noteq> []) OrchestrationError)
        (bindS (mapS (schedule_one rid pid root sha) targets) (\<lambda>ids.
         thenS (emit_projectos_event pf ctx ((event_args_of ''ASSURANCE_RETRY_SCHEDULED''
                  ''PM scheduled durable assurance retry jobs for inconclusive QA gate.'')
                  \<lparr>em_phase := ''QA_GATE'', em_evidence := Some [(''candidate_git_sha'', JStr sha),
                     (''assurance_job_ids'', JList (map JInt ids)), (''roles'', JList (map (\<lambda>t. JStr (fst t)) targets))]\<rparr>))
           (returnS ids)))))"

end
