(* ===== verification/Assurance_Props.thy ===== *)
theory Assurance_Props
  imports Assurance
begin

text \<open>
  What independent assurance promises, over the definitions of \<open>Assurance\<close>. The locale \<open>emission_frame\<close> is the contract
  of the emission of events towards its callers: whatever does not depend on runs, events and outbox is left alone.
\<close>

section \<open>Emission leaves the rest alone\<close>

lemma untouched_reads: "untouched (\<lambda>s. s) m \<Longrightarrow> untouched g m"
  by (simp add: untouched_def)

locale emission_frame =
  fixes g :: "db \<Rightarrow> 'a"
  assumes frame_runs: "g (s\<lparr>runs := x\<rparr>) = g s"
    and frame_events: "g (s\<lparr>events := y\<rparr>) = g s"
    and frame_outbox: "g (s\<lparr>outbox := z, outbox_seq := n\<rparr>) = g s"
    and frame_uuid: "g (s\<lparr>uuid_next := k\<rparr>) = g s"
begin

lemma untouched_update_run: "untouched g (update_execution_run rid st ph ag pr su ev)"
  unfolding update_execution_run_def by (intro frames) (simp add: frame_runs)

lemma untouched_apply_event: "untouched g (apply_event_to_run rid ev p)"
  unfolding untouched_def
proof
  fix s
  obtain rs where "apply_event_to_run rid ev p s = (Inr (), s\<lparr>runs := rs\<rparr>)" using apply_event_returns by blast
  then show "g (snd (apply_event_to_run rid ev p s)) = g s" by (simp add: frame_runs)
qed

lemma untouched_new_uuid: "untouched g new_uuid"
  unfolding untouched_def new_uuid_def by (simp add: frame_uuid)

lemma untouched_enqueue: "untouched g (enqueue eid payload sub)"
  unfolding enqueue_def by (intro frames) (simp add: frame_outbox)

lemma untouched_emit_with:
  assumes "\<And>ctx ty. untouched g (close ctx ty)"
  shows "untouched g (emit_with close pf ctx a)"
  unfolding emit_with_def
  by (intro frames untouched_Let untouched_reads [OF validate_reads] untouched_new_uuid untouched_enqueue untouched_apply_event assms)
     (simp add: frame_events)

lemma untouched_emit_inner: "untouched g (emit_inner pf ctx a)"
  unfolding emit_inner_def by (intro untouched_emit_with frames)

lemma untouched_close: "untouched g (close_execution_run pf ctx a)"
  unfolding close_execution_run_def by (intro frames untouched_update_run untouched_emit_inner)

lemma untouched_maybe_close: "untouched g (maybe_close_run_after_event pf ctx ty)"
  unfolding maybe_close_run_after_event_def by (intro frames untouched_emit_inner untouched_close)

lemma untouched_emit: "untouched g (emit_projectos_event pf ctx a)"
  unfolding emit_projectos_event_def by (intro untouched_emit_with untouched_maybe_close)

lemma untouched_gate_evaluation: "untouched g (emit_qa_gate_evaluation pf pid ctx req sha rid)"
  unfolding emit_qa_gate_evaluation_def by (intro frames untouched_emit)

lemma untouched_finding_created: "untouched g (emit_qa_finding_created pf ctx summary ev)"
  unfolding emit_qa_finding_created_def by (intro frames untouched_emit)

lemma untouched_verdict_events: "untouched g (emit_verdict_events pf ctx j expected r res)"
  unfolding emit_verdict_events_def emit_failed_findings_def
  by (intro frames untouched_emit untouched_gate_evaluation untouched_finding_created)

end

text \<open>The tables of assurance: the evidence and the core of the job store.\<close>

definition assessed :: "db \<Rightarrow> qa_evidence list \<times> int \<times> (job list \<times> int \<times> worker_lease list \<times> int \<times> (int \<times> int) list \<times> (string \<Rightarrow> string))" where
  "assessed s = (evidence s, evidence_seq s, core s)"

interpretation assessed_frame: emission_frame assessed
  by unfold_locales (simp_all add: assessed_def core_def)

interpretation evidence_frame: emission_frame evidence
  by unfold_locales simp_all

lemma reads_lookup: "untouched (\<lambda>s. s) (lookup_event_context_for_job i)"
  unfolding lookup_event_context_for_job_def by (intro frames)

lemma untouched_assessed_event [frames]: "untouched assessed (append_run_event i e st m p)"
  unfolding append_run_event_def job_project_human_id_def Let_def by (intro frames) (simp add: assessed_def core_def)

lemma untouched_assessed_persist [frames]: "untouched assessed (persist_run_next_action rid pid ty i w due pl)"
  unfolding persist_run_next_action_def Let_def
  by (intro frames assessed_frame.untouched_new_uuid) (simp add: assessed_def core_def)

section \<open>The hand over\<close>

lemma wlp_reads: "untouched (\<lambda>s. s) m \<Longrightarrow> (\<And>x. Q x s) \<Longrightarrow> wlp m Q s"
  by (rule wlp_mono [OF wlp_frame [of "\<lambda>s. s"]]) simp_all

lemma reads_require_same_project [frames]: "untouched (\<lambda>s. s) (require_same_project is)"
  unfolding require_same_project_def job_project_human_id_def by (intro frames)

lemma assessed_eqD:
  assumes "assessed t = assessed s"
  shows "evidence t = evidence s" "jobs t = jobs s" "deps t = deps s" "job_seq t = job_seq s" "core t = core s"
  using assms by (auto simp: assessed_def core_def)

lemma wlp_assessed: "untouched assessed m \<Longrightarrow> (\<And>x t. assessed t = assessed s \<Longrightarrow> Q x t) \<Longrightarrow> wlp m Q s"
  by (rule wlp_mono [OF wlp_frame [of assessed]]) simp_all

definition pending_for :: "job \<Rightarrow> string \<Rightarrow> string option \<Rightarrow> int \<Rightarrow> string \<Rightarrow> qa_evidence \<Rightarrow> bool" where
  "pending_for d sha rid i role q \<longleftrightarrow> q_assurance_job_id q = i \<and> q_assurance_role q = role \<and> q_delivery_job_id q = j_id d \<and>
     q_candidate_git_sha q = sha \<and> q_result q = ''pending'' \<and> q_run_id q = rid \<and> q_project_human_id q = j_project_human_id d"

text \<open>The effect of the insertion of evidence: one row; the rest of the tables of assurance stays.\<close>

lemma wlp_insert_evidence:
  "wlp (insert_qa_evidence pid root dj job sha role r rid att prior)
     (\<lambda>_ t. core t = core s \<and> (\<exists>q. evidence t = evidence s @ [q] \<and> q_assurance_job_id q = job \<and> q_assurance_role q = role \<and>
        q_delivery_job_id q = dj \<and> q_candidate_git_sha q = sha \<and> q_result q = r \<and> q_run_id q = rid \<and> q_project_human_id q = pid)) s"
proof -
  have log: "wlp (case prior of None \<Rightarrow> returnS () | Some p \<Rightarrow> append_run_event job e st m (f p))
      (\<lambda>_ t. assessed t = assessed u) u" for e st m f u
    by (rule wlp_frame) (auto intro!: frames split: option.split)
  show ?thesis
    unfolding insert_qa_evidence_def
    by (rule wlp_bindI [OF wlp_reads [where Q = "\<lambda>_ t. t = s"]], (rule frames)+, simp, simp only: wlp_thenS wlp_guardS, intro impI,
        rule wlp_bindI [OF wlp_reads [where Q = "\<lambda>_ t. t = s"]], (rule frames)+, simp, simp only: wlp_simps, intro impI)
       (auto intro!: wlp_mono [OF log] simp: wlp_simps assessed_def core_def)
qed

lemma wlp_source_provenance:
  "wlp (set_job_source_provenance i (Some k) sha) (\<lambda>_ t. t = s\<lparr>jobs := update_where (\<lambda>j. j_id j = i)
     (provenance_row (Some k) sha (now_iso s)) (jobs s)\<rparr>) s"
  unfolding set_job_source_provenance_def update_job_def option.case
  by (rule wlp_thenI [OF wlp_reads [where Q = "\<lambda>_ t. t = s"]], rule frames, simp)
     (simp add: wlp_simps wlp_reads [OF reads_get_job])

lemma wlp_add_job_dependency:
  "wlp (add_job_dependency i k) (\<lambda>_ t. t = s\<lparr>deps := deps s @ [(i, k)]\<rparr>) s"
proof (cases "i = k")
  case True
  then show ?thesis by (simp add: add_job_dependency_def wlp_simps)
next
  case False
  have "wlp (thenS (require_same_project [i, k]) (bindS (getS deps) (\<lambda>es.
      if (i, k) \<in> set es then raiseS IntegrityError else modifyS (\<lambda>s. s\<lparr>deps := deps s @ [(i, k)]\<rparr>))))
      (\<lambda>_ t. t = s\<lparr>deps := deps s @ [(i, k)]\<rparr>) s"
    by (rule wlp_thenI [OF wlp_reads [where Q = "\<lambda>_ t. t = s"]], rule frames, simp) (simp add: wlp_simps)
  with False show ?thesis by (simp add: add_job_dependency_def)
qed

text \<open>The job the hand over creates for a queue.\<close>

definition assessor_of :: "job \<Rightarrow> string \<Rightarrow> string option \<Rightarrow> string \<Rightarrow> job \<Rightarrow> bool" where
  "assessor_of d sha rid q j \<longleftrightarrow> j_human_id j = j_human_id d @ ''__'' @ q \<and> j_queue j = q \<and> j_status j = READY \<and>
     j_project_human_id j = j_project_human_id d \<and> j_source_delivery_job_id j = Some (j_id d) \<and>
     j_source_candidate_sha j = Some sha \<and> j_run_id j = rid"

text \<open>Creating a job and naming its source appends one row.\<close>

lemma wlp_create_with_provenance:
  assumes inv: "store_inv s" and ready: "n_status a = ''READY''"
    and f: "\<And>j u. u = s\<lparr>jobs := jobs s @ [provenance_row (Some k) (Some sha) (now_iso s) j], job_seq := job_seq s + 1\<rparr> \<Longrightarrow>
      j = new_job_row a READY (job_seq s + 1) (now_iso s) \<Longrightarrow> wlp (f j) Q u"
  shows "wlp (bindS (create_job a) (\<lambda>j. thenS (set_job_source_provenance (j_id j) (Some k) (Some sha)) (f j))) Q s"
proof (rule wlp_bindI [OF wlp_create_job [OF inv]], elim exE conjE)
  fix j t st assume st: "map_of JOB_STATUSES (n_status a) = Some st"
    and j: "j = new_job_row a st (job_seq s + 1) (now_iso s)" and t: "t = created a st s"
  have st: "st = READY" using st ready by (simp add: JOB_STATUSES_def)
  have ids: "j_id r \<noteq> job_seq s + 1" if "r \<in> set (jobs s)" for r
    using inv that by (force simp: store_inv_def jobs_keyed_def)
  have "update_where (\<lambda>r. j_id r = j_id j) (provenance_row (Some k) (Some sha) (now_iso t)) (jobs t) =
      jobs s @ [provenance_row (Some k) (Some sha) (now_iso s) j]"
    using ids by (auto simp: t j st created_def update_where_def new_job_row_def now_iso_def intro: map_idI)
  then have "t\<lparr>jobs := update_where (\<lambda>r. j_id r = j_id j) (provenance_row (Some k) (Some sha) (now_iso t)) (jobs t)\<rparr> =
      s\<lparr>jobs := jobs s @ [provenance_row (Some k) (Some sha) (now_iso s) j], job_seq := job_seq s + 1\<rparr>"
    by (simp add: t created_def)
  with f st j show "wlp (thenS (set_job_source_provenance (j_id j) (Some k) (Some sha)) (f j)) Q t"
    by (intro wlp_thenI [OF wlp_source_provenance]) auto
qed

lemma keeps_create_assessor: "keeps store_inv (create_assessor d sha rid q)"
  unfolding create_assessor_def
  by (intro store_keeps keeps_create_job keeps_set_job_source_provenance keeps_add_job_dependency
      keeps_store_inv_frame [OF untouched_core_insert_qa_evidence] keeps_store_inv_frame [OF untouched_liftS])
     (simp add: assessor_args_def job_args_of_def Let_def)

lemma wlp_create_assessor:
  assumes inv: "store_inv s"
  shows "wlp (create_assessor d sha rid q) (\<lambda>h t. store_inv t \<and> (\<exists>j x. jobs t = jobs s @ [j] \<and> evidence t = evidence s @ [x] \<and>
     deps t = deps s @ [(j_id j, j_id d)] \<and> assessor_of d sha rid q j \<and> pending_for d sha rid (j_id j) q x \<and> h = j_human_id j)) s"
proof (rule wlp_conj [OF wlp_keeps [OF keeps_create_assessor inv]], unfold create_assessor_def wlp_bindS [of "liftS _"] wlp_liftS,
    intro allI impI wlp_create_with_provenance [OF inv])
  fix role j u
  assume role: "role_of_queue q = Inr role" and j: "j = new_job_row (assessor_args d sha rid q role) READY (job_seq s + 1) (now_iso s)"
    and u: "u = s\<lparr>jobs := jobs s @ [provenance_row (Some (j_id d)) (Some sha) (now_iso s) j], job_seq := job_seq s + 1\<rparr>"
  let ?j = "provenance_row (Some (j_id d)) (Some sha) (now_iso s) j"
  have a: "assessor_of d sha rid q ?j" "j_id ?j = j_id j" "j_human_id ?j = j_human_id d @ ''__'' @ q"
    by (simp_all add: assessor_of_def j provenance_row_def new_job_row_def assessor_args_def job_args_of_def Let_def)
  show "wlp (thenS (add_job_dependency (j_id j) (j_id d))
      (thenS (insert_qa_evidence (j_project_human_id d) (j_repository_root d) (j_id d) (j_id j) sha q ''pending'' rid None None)
        (returnS (j_human_id d @ ''__'' @ q))))
      (\<lambda>h t. \<exists>j x. jobs t = jobs s @ [j] \<and> evidence t = evidence s @ [x] \<and>
     deps t = deps s @ [(j_id j, j_id d)] \<and> assessor_of d sha rid q j \<and> pending_for d sha rid (j_id j) q x \<and> h = j_human_id j) u"
    by (rule wlp_thenI [OF wlp_add_job_dependency], rule wlp_thenI [OF wlp_insert_evidence])
       (use a in \<open>auto simp: wlp_simps u core_def pending_for_def\<close>)
qed (simp add: assessor_args_def job_args_of_def Let_def)

lemma wlp_create_assessors:
  assumes "store_inv s"
  shows "wlp (mapS (create_assessor d sha rid) qs) (\<lambda>hs t. store_inv t \<and> (\<exists>new ev. jobs t = jobs s @ new \<and> evidence t = evidence s @ ev \<and>
     deps t = deps s @ map (\<lambda>j. (j_id j, j_id d)) new \<and> list_all2 (assessor_of d sha rid) qs new \<and>
     list_all2 (\<lambda>j. pending_for d sha rid (j_id j) (j_queue j)) new ev \<and> hs = map j_human_id new)) s"
  using assms
proof (induction qs arbitrary: s)
  case Nil
  then show ?case by (simp add: wlp_simps)
next
  case (Cons q qs)
  show ?case
    unfolding mapS.simps
  proof (rule wlp_bindI [OF wlp_create_assessor [OF Cons.prems]], elim conjE exE)
    fix h t j x
    assume t: "store_inv t" and one: "jobs t = jobs s @ [j]" "evidence t = evidence s @ [x]" "deps t = deps s @ [(j_id j, j_id d)]"
        "assessor_of d sha rid q j" "pending_for d sha rid (j_id j) q x" "h = j_human_id j"
    have q: "j_queue j = q" using one(4) by (simp add: assessor_of_def)
    show "wlp (bindS (mapS (create_assessor d sha rid) qs) (\<lambda>ys. returnS (h # ys)))
       (\<lambda>hs t. store_inv t \<and> (\<exists>new ev. jobs t = jobs s @ new \<and> evidence t = evidence s @ ev \<and>
     deps t = deps s @ map (\<lambda>j. (j_id j, j_id d)) new \<and> list_all2 (assessor_of d sha rid) (q # qs) new \<and>
     list_all2 (\<lambda>j. pending_for d sha rid (j_id j) (j_queue j)) new ev \<and> hs = map j_human_id new)) t"
    proof (rule wlp_bindI [OF Cons.IH [OF t]], elim conjE exE)
      fix ys u new ev
      assume "store_inv u" "jobs u = jobs t @ new" "evidence u = evidence t @ ev"
        "deps u = deps t @ map (\<lambda>j. (j_id j, j_id d)) new" "list_all2 (assessor_of d sha rid) qs new"
        "list_all2 (\<lambda>j. pending_for d sha rid (j_id j) (j_queue j)) new ev" "ys = map j_human_id new"
      with one q show "wlp (returnS (h # ys)) (\<lambda>hs t. store_inv t \<and> (\<exists>new ev. jobs t = jobs s @ new \<and> evidence t = evidence s @ ev \<and>
     deps t = deps s @ map (\<lambda>j. (j_id j, j_id d)) new \<and> list_all2 (assessor_of d sha rid) (q # qs) new \<and>
     list_all2 (\<lambda>j. pending_for d sha rid (j_id j) (j_queue j)) new ev \<and> hs = map j_human_id new)) u"
        unfolding wlp_returnS by (intro conjI exI [of _ "j # new"] exI [of _ "x # ev"]) simp_all
    qed
  qed
qed

text \<open>The manager waits for every assessor that exists.\<close>

lemma wlp_wait_for_assessors:
  "wlp (mapS (wait_for_assessor d m) qs) (\<lambda>_ t. jobs t = jobs s \<and> evidence t = evidence s \<and>
     set (deps t) = set (deps s) \<union> {(m, j_id j) |j q. q \<in> set qs \<and> get_job_by_human_id (j_human_id d @ ''__'' @ q) s = Some j}) s"
proof (induction qs arbitrary: s)
  case Nil
  then show ?case by (simp add: wlp_simps)
next
  case (Cons q qs)
  have one: "wlp (wait_for_assessor d m q) (\<lambda>_ t. jobs t = jobs s \<and> evidence t = evidence s \<and>
      set (deps t) = set (deps s) \<union> {(m, j_id j) |j. get_job_by_human_id (j_human_id d @ ''__'' @ q) s = Some j}) s"
    unfolding wait_for_assessor_def
    by (auto simp: wlp_simps intro!: wlp_mono [OF wlp_add_job_dependency] split: option.split)
  show ?case
    unfolding mapS.simps
  proof (rule wlp_bindI [OF one], elim conjE)
    fix x and t :: db
    assume t: "jobs t = jobs s" "evidence t = evidence s"
      "set (deps t) = set (deps s) \<union> {(m, j_id j) |j. get_job_by_human_id (j_human_id d @ ''__'' @ q) s = Some j}"
    have "get_job_by_human_id h t = get_job_by_human_id h s" for h using t(1) by (simp add: get_job_by_human_id_def)
    then have "wlp (mapS (wait_for_assessor d m) qs) (\<lambda>_ u. jobs u = jobs s \<and> evidence u = evidence s \<and>
        set (deps u) = set (deps t) \<union> {(m, j_id j) |j q. q \<in> set qs \<and> get_job_by_human_id (j_human_id d @ ''__'' @ q) s = Some j}) t"
      using Cons.IH [of t] t(1,2) by simp
    then show "wlp (bindS (mapS (wait_for_assessor d m) qs) (\<lambda>ys. returnS (x # ys)))
       (\<lambda>_ u. jobs u = jobs s \<and> evidence u = evidence s \<and> set (deps u) = set (deps s) \<union>
         {(m, j_id j) |j r. r \<in> set (q # qs) \<and> get_job_by_human_id (j_human_id d @ ''__'' @ r) s = Some j}) t"
      unfolding t(3) by (rule wlp_bindI) (auto simp: wlp_returnS)
  qed
qed

lemma keeps_create_manager: "keeps store_inv (create_manager d sha rid)"
proof -
  have "keeps store_inv (wait_for_assessor d m q)" for m q
    unfolding wait_for_assessor_def by (intro store_keeps keeps_add_job_dependency)
  then show ?thesis
    unfolding create_manager_def
    by (intro store_keeps keeps_create_job keeps_set_job_source_provenance keeps_mapS
        keeps_store_inv_frame [OF untouched_core_insert_qa_evidence]) (simp_all add: manager_args_def job_args_of_def)
qed

lemma wlp_create_manager:
  assumes inv: "store_inv s"
  shows "wlp (create_manager d sha rid) (\<lambda>h t. store_inv t \<and> (\<exists>j x. jobs t = jobs s @ [j] \<and> evidence t = evidence s @ [x] \<and>
     set (deps s) \<subseteq> set (deps t) \<and> assessor_of d sha rid QA_MANAGER_ROLE j \<and> pending_for d sha rid (j_id j) QA_MANAGER_ROLE x \<and>
     h = j_human_id j \<and>
     (\<forall>k q. q \<in> set REQUIRED_ASSURANCE \<and> get_job_by_human_id (j_human_id d @ ''__'' @ q) s = Some k \<longrightarrow> (j_id j, j_id k) \<in> set (deps t)))) s"
proof (rule wlp_conj [OF wlp_keeps [OF keeps_create_manager inv]], unfold create_manager_def, intro wlp_create_with_provenance [OF inv])
  fix j u
  assume j: "j = new_job_row (manager_args d rid) READY (job_seq s + 1) (now_iso s)"
    and u: "u = s\<lparr>jobs := jobs s @ [provenance_row (Some (j_id d)) (Some sha) (now_iso s) j], job_seq := job_seq s + 1\<rparr>"
  let ?j = "provenance_row (Some (j_id d)) (Some sha) (now_iso s) j"
  have a: "assessor_of d sha rid QA_MANAGER_ROLE ?j" "j_id ?j = j_id j" "j_human_id ?j = j_human_id d @ ''__QA_MANAGER''"
    by (simp_all add: assessor_of_def j provenance_row_def new_job_row_def manager_args_def job_args_of_def QA_MANAGER_ROLE_def)
  have look: "get_job_by_human_id h u = Some k" if "get_job_by_human_id h s = Some k" for h k
    using that by (simp add: u get_job_by_human_id_def find_row_append)
  show "wlp (thenS (mapS (wait_for_assessor d (j_id j)) REQUIRED_ASSURANCE)
      (thenS (insert_qa_evidence (j_project_human_id d) (j_repository_root d) (j_id d) (j_id j) sha QA_MANAGER_ROLE ''pending'' rid None None)
        (returnS (j_human_id d @ ''__QA_MANAGER''))))
      (\<lambda>h t. \<exists>j x. jobs t = jobs s @ [j] \<and> evidence t = evidence s @ [x] \<and>
     set (deps s) \<subseteq> set (deps t) \<and> assessor_of d sha rid QA_MANAGER_ROLE j \<and> pending_for d sha rid (j_id j) QA_MANAGER_ROLE x \<and>
     h = j_human_id j \<and>
     (\<forall>k q. q \<in> set REQUIRED_ASSURANCE \<and> get_job_by_human_id (j_human_id d @ ''__'' @ q) s = Some k \<longrightarrow> (j_id j, j_id k) \<in> set (deps t))) u"
  proof (rule wlp_thenI [OF wlp_wait_for_assessors], elim conjE, rule wlp_thenI [OF wlp_insert_evidence], elim conjE exE)
    fix ys v w y x
    assume v: "jobs v = jobs u" "evidence v = evidence u" "set (deps v) = set (deps u) \<union>
        {(j_id j, j_id k) |k q. q \<in> set REQUIRED_ASSURANCE \<and> get_job_by_human_id (j_human_id d @ ''__'' @ q) u = Some k}"
      and w: "core w = core v" "evidence w = evidence v @ [x]" "q_assurance_job_id x = j_id j" "q_assurance_role x = QA_MANAGER_ROLE"
        "q_delivery_job_id x = j_id d" "q_candidate_git_sha x = sha" "q_result x = ''pending''" "q_run_id x = rid"
        "q_project_human_id x = j_project_human_id d"
    have same: "deps w = deps v" "jobs w = jobs v" using w(1) by (simp_all add: core_def)
    have start: "deps u = deps s" "evidence u = evidence s" "jobs u = jobs s @ [?j]" by (simp_all add: u)
    have "jobs w = jobs s @ [?j]" "evidence w = evidence s @ [x]" using same(2) start v(1,2) w(2) by simp_all
    moreover have "set (deps s) \<subseteq> set (deps w)" unfolding same v(3) start by blast
    moreover have "\<forall>k q. q \<in> set REQUIRED_ASSURANCE \<and> get_job_by_human_id (j_human_id d @ ''__'' @ q) s = Some k \<longrightarrow>
        (j_id ?j, j_id k) \<in> set (deps w)"
      unfolding same v(3) a(2) using look by blast
    moreover have "pending_for d sha rid (j_id ?j) QA_MANAGER_ROLE x" using w by (simp add: pending_for_def a(2))
    ultimately show "wlp (returnS (j_human_id d @ ''__QA_MANAGER'')) (\<lambda>h t. \<exists>j x. jobs t = jobs s @ [j] \<and> evidence t = evidence s @ [x] \<and>
     set (deps s) \<subseteq> set (deps t) \<and> assessor_of d sha rid QA_MANAGER_ROLE j \<and> pending_for d sha rid (j_id j) QA_MANAGER_ROLE x \<and>
     h = j_human_id j \<and>
     (\<forall>k q. q \<in> set REQUIRED_ASSURANCE \<and> get_job_by_human_id (j_human_id d @ ''__'' @ q) s = Some k \<longrightarrow> (j_id j, j_id k) \<in> set (deps t))) w"
      unfolding wlp_returnS by (intro exI [of _ ?j] exI [of _ x] conjI) (assumption | rule a a(3) [symmetric])+
  qed
qed (simp add: manager_args_def job_args_of_def)

lemma list_all2_map_eq: "list_all2 P xs ys \<Longrightarrow> (\<And>x y. P x y \<Longrightarrow> f y = g x) \<Longrightarrow> map f ys = map g xs"
  by (induction rule: list_all2_induct) auto

lemma list_all2_target: "list_all2 P xs ys \<Longrightarrow> x \<in> set xs \<Longrightarrow> \<exists>y. y \<in> set ys \<and> P x y"
  by (induction rule: list_all2_induct) auto

lemma list_all2_source: "list_all2 P xs ys \<Longrightarrow> y \<in> set ys \<Longrightarrow> \<exists>x. x \<in> set xs \<and> P x y"
  by (induction rule: list_all2_induct) auto

text \<open>What the hand over leaves behind: a job for every queue and one for the manager, a pending row of evidence
  for each, every assessor behind the delivery and the manager behind every assessor.\<close>

definition handed_over :: "job \<Rightarrow> string \<Rightarrow> db \<Rightarrow> string list \<Rightarrow> db \<Rightarrow> bool" where
  "handed_over d sha s ids t \<longleftrightarrow> store_inv t \<and>
    (\<exists>new m ev x. jobs t = jobs s @ new @ [m] \<and> evidence t = evidence s @ ev @ [x] \<and>
      list_all2 (assessor_of d sha (delivery_run d s)) REQUIRED_ASSURANCE new \<and>
      assessor_of d sha (delivery_run d s) QA_MANAGER_ROLE m \<and>
      list_all2 (\<lambda>j. pending_for d sha (delivery_run d s) (j_id j) (j_queue j)) new ev \<and>
      pending_for d sha (delivery_run d s) (j_id m) QA_MANAGER_ROLE x \<and>
      (\<forall>j \<in> set new. (j_id j, j_id d) \<in> set (deps t) \<and> (j_id m, j_id j) \<in> set (deps t)) \<and>
      ids = map j_human_id (new @ [m]))"

lemma handed_over_frame: "handed_over d sha s ids u \<Longrightarrow> assessed t = assessed u \<Longrightarrow> handed_over d sha s ids t"
  using store_inv_core [of u t] assessed_eqD [of t u] unfolding handed_over_def by simp

lemma created_assessor_found:
  assumes "store_inv t" "jobs t = jobs s @ new" "list_all2 (assessor_of d sha rid) qs new" "j \<in> set new"
  shows "\<exists>q. q \<in> set qs \<and> get_job_by_human_id (j_human_id d @ ''__'' @ q) t = Some j"
proof -
  obtain q where q: "q \<in> set qs" "assessor_of d sha rid q j" using list_all2_source [OF assms(3,4)] by blast
  have "distinct (map j_human_id (jobs t))" "j \<in> set (jobs t)" using assms by (simp_all add: store_inv_def jobs_keyed_def)
  with q show ?thesis by (auto simp: get_job_by_human_id_def find_row_Some_key assessor_of_def)
qed

lemma wlp_handoff_jobs:
  fixes d :: job
  assumes inv: "store_inv s"
  defines "rid \<equiv> delivery_run d s"
  shows "wlp (mapS (create_assessor d sha rid) REQUIRED_ASSURANCE) (\<lambda>assessors.
    wlp (create_manager d sha rid) (\<lambda>manager. handed_over d sha s (assessors @ [manager]))) s"
proof (rule wlp_mono [OF wlp_create_assessors [OF inv]], elim conjE exE)
  fix hs t new ev
  assume t: "store_inv t" "jobs t = jobs s @ new" "evidence t = evidence s @ ev" "deps t = deps s @ map (\<lambda>j. (j_id j, j_id d)) new"
    and new: "list_all2 (assessor_of d sha rid) REQUIRED_ASSURANCE new"
      "list_all2 (\<lambda>j. pending_for d sha rid (j_id j) (j_queue j)) new ev" and hs: "hs = map j_human_id new"
  note found = created_assessor_found [OF t(1,2) new(1)]
  show "wlp (create_manager d sha rid) (\<lambda>manager. handed_over d sha s (hs @ [manager])) t"
  proof (rule wlp_mono [OF wlp_create_manager [OF t(1)]], elim conjE exE)
    fix h u m x
    assume u: "store_inv u" "jobs u = jobs t @ [m]" "evidence u = evidence t @ [x]" "set (deps t) \<subseteq> set (deps u)"
        "assessor_of d sha rid QA_MANAGER_ROLE m" "pending_for d sha rid (j_id m) QA_MANAGER_ROLE x" "h = j_human_id m"
      and waits: "\<forall>k q. q \<in> set REQUIRED_ASSURANCE \<and> get_job_by_human_id (j_human_id d @ ''__'' @ q) t = Some k \<longrightarrow>
        (j_id m, j_id k) \<in> set (deps u)"
    have "\<forall>j \<in> set new. (j_id j, j_id d) \<in> set (deps u) \<and> (j_id m, j_id j) \<in> set (deps u)"
      using u(4) waits found t(4) by auto
    then show "handed_over d sha s (hs @ [h]) u"
      unfolding handed_over_def rid_def [symmetric]
      by (intro conjI exI [of _ new] exI [of _ m] exI [of _ ev] exI [of _ x]) (use u new t hs in simp_all)
  qed
qed

lemma wlp_handoff:
  assumes inv: "store_inv s"
  shows "wlp (create_assurance_jobs_for_delivery d sha) (\<lambda>r. handed_over d sha s (hr_assurance_job_ids r)) s"
proof -
  have log: "wlp (thenS (append_run_event i e st msg p) (returnS r)) (\<lambda>r' t. r' = r \<and> assessed t = assessed u) u" for i e st msg p u
    and r :: handoff_result
    unfolding wlp_thenS wlp_returnS by (rule wlp_mono [OF wlp_frame [OF untouched_assessed_event]]) simp
  have "wlp (bindS (mapS (create_assessor d sha (delivery_run d s)) REQUIRED_ASSURANCE) (\<lambda>assessors.
      bindS (create_manager d sha (delivery_run d s)) (\<lambda>manager.
        thenS (append_run_event (j_id d) e st msg (p assessors manager))
          (returnS \<lparr>hr_delivery_job_id = j_id d, hr_candidate_git_sha = sha, hr_assurance_job_ids = assessors @ [manager]\<rparr>))))
      (\<lambda>r. handed_over d sha s (hr_assurance_job_ids r)) s" for e st msg p
    unfolding wlp_bindS
    by (rule wlp_mono [OF wlp_handoff_jobs [OF inv]], rule wlp_mono, assumption, rule wlp_mono [OF log]) (auto intro: handed_over_frame)
  then show ?thesis
    unfolding create_assurance_jobs_for_delivery_def Let_def by (auto simp: wlp_raiseS wlp_bindS [of "getS _"] wlp_getS)
qed

lemma handoff_refused:
  "create_assurance_jobs_for_delivery d sha s = (Inr r, t) \<Longrightarrow> sha \<noteq> [] \<and> j_base_git_sha d \<noteq> Some sha \<and>
     j_outcome d \<notin> {Some ''INVALIDATED'', Some ''SUPERSEDED'', Some ''NO_CHANGE''}"
  by (auto simp: create_assurance_jobs_for_delivery_def raiseS_def split: if_splits)

text \<open>C14: A delivery is handed over to independent assurance. From a reachable store, a hand over that returns was
  of a candidate that is not the base and of a delivery that is not withdrawn. It appends a READY
  job of the project for each of the four assurance queues and one for the QA manager, each bound to
  the delivery and the candidate, with one pending row of evidence; every assessor waits for the
  delivery and the manager for every assessor; and the store stays consistent.\<close>

theorem handoff_creates_assurance:
  assumes "reach store_start store_step s" "create_assurance_jobs_for_delivery d sha s = (Inr r, t)"
  shows "sha \<noteq> [] \<and> j_base_git_sha d \<noteq> Some sha \<and> store_inv t \<and>
    (\<exists>new m ev x. jobs t = jobs s @ new @ [m] \<and> evidence t = evidence s @ ev @ [x] \<and>
      map j_queue (new @ [m]) = REQUIRED_ASSURANCE @ [QA_MANAGER_ROLE] \<and> hr_assurance_job_ids r = map j_human_id (new @ [m]) \<and>
      (\<forall>j \<in> set (new @ [m]). j_status j = READY \<and> j_project_human_id j = j_project_human_id d \<and>
         j_source_delivery_job_id j = Some (j_id d) \<and> j_source_candidate_sha j = Some sha) \<and>
      map q_assurance_job_id (ev @ [x]) = map j_id (new @ [m]) \<and>
      (\<forall>q \<in> set (ev @ [x]). q_result q = ''pending'' \<and> q_candidate_git_sha q = sha \<and> q_delivery_job_id q = j_id d) \<and>
      (\<forall>j \<in> set new. (j_id j, j_id d) \<in> set (deps t) \<and> (j_id m, j_id j) \<in> set (deps t)))"
proof -
  have "store_inv s" using assms(1) by (rule store_machine.reach_inv)
  from wlp_apply [OF wlp_handoff [OF this] assms(2)] obtain new m ev x where
    h: "store_inv t" "jobs t = jobs s @ new @ [m]" "evidence t = evidence s @ ev @ [x]" "hr_assurance_job_ids r = map j_human_id (new @ [m])"
      "\<forall>j \<in> set new. (j_id j, j_id d) \<in> set (deps t) \<and> (j_id m, j_id j) \<in> set (deps t)" and
    new: "list_all2 (assessor_of d sha (delivery_run d s)) REQUIRED_ASSURANCE new" "assessor_of d sha (delivery_run d s) QA_MANAGER_ROLE m" and
    ev: "list_all2 (\<lambda>j. pending_for d sha (delivery_run d s) (j_id j) (j_queue j)) new ev" "pending_for d sha (delivery_run d s) (j_id m) QA_MANAGER_ROLE x"
    unfolding handed_over_def by blast
  have "map j_queue new = map id REQUIRED_ASSURANCE" using new(1) by (rule list_all2_map_eq) (simp add: assessor_of_def)
  moreover have "\<forall>j \<in> set new. \<exists>q. assessor_of d sha (delivery_run d s) q j" using list_all2_source [OF new(1)] by blast
  moreover have "map q_assurance_job_id ev = map j_id new" using ev(1) by (rule list_all2_map_eq) (simp add: pending_for_def)
  moreover have "\<forall>q \<in> set ev. \<exists>i role. pending_for d sha (delivery_run d s) i role q" using list_all2_source [OF ev(1)] by blast
  ultimately show ?thesis
    using h new(2) ev(2) handoff_refused [OF assms(2)]
    by (intro conjI exI [of _ new] exI [of _ m] exI [of _ ev] exI [of _ x]) (auto simp: assessor_of_def pending_for_def)
qed

section \<open>Recording a verdict\<close>

text \<open>The delivery a job assesses has not moved on to another candidate.\<close>

definition source_is_current :: "job \<Rightarrow> db \<Rightarrow> bool" where
  "source_is_current j s \<longleftrightarrow> (case j_source_delivery_job_id j of
     None \<Rightarrow> True
   | Some d \<Rightarrow> (case job_by_id d s of None \<Rightarrow> False
       | Some dj \<Rightarrow> truthy_str (j_candidate_git_sha dj) \<longrightarrow> j_candidate_git_sha dj = j_source_candidate_sha j))"

lemma recording_allowed_iff:
  "assert_assurance_recording_allowed j = Inr sha \<longleftrightarrow> j_queue j \<in> set ASSURANCE_QUEUES \<and> j_agent_role j \<notin> set CODE_MODIFYING_ROLES \<and>
     j_source_candidate_sha j = Some sha \<and> sha \<noteq> []"
  by (cases "j_source_candidate_sha j") (auto simp: assert_assurance_recording_allowed_def str_of_def)

lemma wlp_True [wlp_simps]: "wlp m (\<lambda>_ _. True) s"
  by (simp add: wlp_def)

lemma wlp_then_raise [wlp_simps]: "wlp (thenS m (raiseS e)) Q = (\<lambda>_. True)"
  by (rule ext) (auto simp: wlp_def thenS_def bindS_def raiseS_def split: prod.splits sum.splits)

lemma wlp_reject_stale: "wlp (reject_stale_assurance_evidence j ref) (\<lambda>_ t. t = s \<and> source_is_current j s) s"
  unfolding reject_stale_assurance_evidence_def
  by (auto simp: wlp_simps recording_allowed_iff get_job_def source_is_current_def Let_def split: option.split)

text \<open>Two versions of a row of evidence; they may differ in the result, the reference and the defect.\<close>

definition same_review :: "qa_evidence \<Rightarrow> qa_evidence \<Rightarrow> bool" where
  "same_review q q' \<longleftrightarrow> q_id q' = q_id q \<and> q_project_human_id q' = q_project_human_id q \<and> q_delivery_job_id q' = q_delivery_job_id q \<and>
     q_assurance_job_id q' = q_assurance_job_id q \<and> q_candidate_git_sha q' = q_candidate_git_sha q \<and>
     q_assurance_role q' = q_assurance_role q \<and> q_run_id q' = q_run_id q"

text \<open>The evidence of a pair gets a result, every other row keeps its own.\<close>

definition result_recorded :: "int \<Rightarrow> string \<Rightarrow> string \<Rightarrow> db \<Rightarrow> db \<Rightarrow> bool" where
  "result_recorded i sha res s t \<longleftrightarrow> list_all2 (\<lambda>q q'. same_review q q' \<and>
       q_result q' = (if evidence_of i sha q then res else q_result q)) (evidence s) (evidence t) \<and>
     (\<exists>q \<in> set (evidence s). evidence_of i sha q) \<and>
     (case find_row (evidence_of i sha) (evidence s) of None \<Rightarrow> False | Some q \<Rightarrow> q_result q \<in> set TERMINAL_QA_RESULTS \<longrightarrow> q_result q = res)"

lemma wlp_update_result: "wlp (update_qa_evidence_result i sha res ref d) (\<lambda>_ t. result_recorded i sha res s t \<and> core t = core s) s"
  by (auto simp: wlp_def update_qa_evidence_result_eq result_recorded_def result_row_def update_where_def core_def same_review_def
      list_all2_conv_all_nth split: option.splits if_splits dest: find_row_SomeD)

lemma result_recorded_frame: "result_recorded i sha res s u \<Longrightarrow> evidence t = evidence u \<Longrightarrow> result_recorded i sha res s t"
  by (simp add: result_recorded_def)

lemma result_recorded_defect:
  assumes "result_recorded i sha res s u" "evidence t = update_where p (\<lambda>q. q\<lparr>q_defect_human_id := d\<rparr>) (evidence u)"
  shows "result_recorded i sha res s t"
  using assms(1) unfolding result_recorded_def assms(2) update_where_def list_all2_map2
  by (auto elim!: list_all2_mono simp: same_review_def)

text \<open>What follows the record of a result leaves the evidence alone, but for the id of a defect.\<close>

lemma wlp_after_record:
  assumes "untouched evidence m" "result_recorded i sha res s u"
  shows "wlp m (\<lambda>_ t. result_recorded i sha res s t) u"
  by (rule wlp_mono [OF wlp_frame [OF assms(1)]]) (use assms(2) in \<open>auto intro: result_recorded_frame\<close>)

lemma wlp_record_failure:
  assumes "result_recorded i sha res s u"
  shows "wlp (record_failure fn j expected r) (\<lambda>_ t. result_recorded i sha res s t) u"
proof -
  have upd: "wlp (if truthy_str d then modifyS (\<lambda>s. s\<lparr>evidence := update_where (\<lambda>q. q_assurance_job_id q = j_id j)
                   (\<lambda>q. q\<lparr>q_defect_human_id := d\<rparr>) (evidence s)\<rparr>) else returnS ())
      (\<lambda>_ t. result_recorded i sha res s t) u" for d
    using assms result_recorded_defect [OF assms] by (simp add: wlp_simps)
  show ?thesis
    unfolding record_failure_def wlp_bindS wlp_liftS
    by (intro allI impI wlp_thenI [OF upd] wlp_after_record frames)
qed

lemma wlp_record_verdict:
  "wlp (record_assurance_verdict pf j r ref fn) (\<lambda>res t. \<exists>sha. assert_assurance_recording_allowed j = Inr sha \<and> source_is_current j s \<and>
     as_candidate_id r = sha \<and> as_assurance_job_id r = j_human_id j \<and> as_assessor_role r = j_queue j \<and>
     verdict_to_evidence_result (as_verdict r) = Inr res \<and> result_recorded (j_id j) sha res s t) s"
  unfolding record_assurance_verdict_def wlp_bindS [of "liftS _"] wlp_liftS
proof (intro allI impI, rule wlp_thenI [OF wlp_reject_stale], elim conjE, unfold wlp_thenS [of "guardS _ _"] wlp_guardS wlp_bindS [of "liftS _"] wlp_liftS,
    intro allI impI)
  fix sha u res x
  assume a: "assert_assurance_recording_allowed j = Inr sha" and u: "u = s" and cur: "source_is_current j s"
    and r: "as_candidate_id r = sha" "as_assurance_job_id r = j_human_id j" "as_assessor_role r = j_queue j"
    and v: "verdict_to_evidence_result (as_verdict r) = Inr res"
  note tail = wlp_after_record [OF untouched_evidence_ops(2)]
    wlp_after_record [OF untouched_reads [OF reads_lookup]] wlp_after_record [OF evidence_frame.untouched_verdict_events]
  show "wlp (thenS (update_qa_evidence_result (j_id j) sha res ref None)
      (thenS (append_run_event (j_id j) ''qa.assurance_result_recorded'' (Some ''SUCCEEDED'')
                (Some (''Assurance verdict '' @ as_verdict r @ '' for '' @ sha))
                (Some [(''verdict'', JStr (as_verdict r)), (''candidate_git_sha'', JStr sha), (''summary'', JStr (as_summary r)),
                       (''findings_count'', JInt (int (length (as_findings r))))]))
      (bindS (lookup_event_context_for_job (j_id j)) (\<lambda>ctx.
       thenS (emit_verdict_events pf ctx j sha r res)
       (thenS (if as_verdict r = ''FAIL'' then record_failure fn j sha r else returnS ())
         (returnS res)))))) (\<lambda>res t. \<exists>sha. assert_assurance_recording_allowed j = Inr sha \<and> source_is_current j s \<and>
     as_candidate_id r = sha \<and> as_assurance_job_id r = j_human_id j \<and> as_assessor_role r = j_queue j \<and>
     verdict_to_evidence_result (as_verdict r) = Inr res \<and> result_recorded (j_id j) sha res s t) u"
    unfolding u
    by (rule wlp_thenI [OF wlp_update_result], elim conjE, rule wlp_thenI [OF tail(1)], assumption, rule wlp_bindI [OF tail(2)], assumption,
        rule wlp_thenI [OF tail(3)], assumption)
       (use a cur r v in \<open>auto simp: wlp_simps intro!: wlp_mono [OF wlp_record_failure]\<close>)
qed

lemma wlp_record_invalid:
  "wlp (record_invalid_assurance_result pf j reason ref) (\<lambda>res t. \<exists>sha. assert_assurance_recording_allowed j = Inr sha \<and>
     source_is_current j s \<and> res = ''inconclusive'' \<and> result_recorded (j_id j) sha res s t) s"
  unfolding record_invalid_assurance_result_def wlp_bindS [of "liftS _"] wlp_liftS
proof (intro allI impI, rule wlp_thenI [OF wlp_reject_stale], elim conjE, hypsubst)
  fix sha assume a: "assert_assurance_recording_allowed j = Inr sha" and cur: "source_is_current j s"
  note tail = wlp_after_record [OF untouched_evidence_ops(2)] wlp_after_record [OF untouched_reads [OF reads_lookup]]
    wlp_after_record [OF evidence_frame.untouched_emit] wlp_after_record [OF evidence_frame.untouched_gate_evaluation]
  show "wlp (thenS (update_qa_evidence_result (j_id j) sha ''inconclusive'' ref None)
     (thenS (append_run_event (j_id j) ''qa.assurance_result_invalid'' (Some ''BLOCKED'') (Some (take 500 reason))
               (Some [(''reason'', JStr reason), (''candidate_git_sha'', JStr sha)]))
     (bindS (lookup_event_context_for_job (j_id j)) (\<lambda>ctx.
      thenS (emit_projectos_event pf ctx (gate_phase_event ''ASSURANCE_RESULT_INVALID''
               (''Assurance result invalid for '' @ j_queue j @ '': '' @ take 200 reason) ''milestone''
               (Some [(''assurance_role'', JStr (j_queue j)), (''job_id'', JStr (j_human_id j)),
                      (''candidate_git_sha'', JStr sha), (''reason'', JStr reason)])))
      (thenS (emit_qa_gate_evaluation pf (j_project_human_id j) (Some ctx) False None None)
        (returnS ''inconclusive''))))))
      (\<lambda>res t. \<exists>sha. assert_assurance_recording_allowed j = Inr sha \<and>
     source_is_current j s \<and> res = ''inconclusive'' \<and> result_recorded (j_id j) sha res s t) s"
    by (rule wlp_thenI [OF wlp_update_result], elim conjE, rule wlp_thenI [OF tail(1)], assumption, rule wlp_bindI [OF tail(2)], assumption,
        rule wlp_thenI [OF tail(3)], assumption, rule wlp_thenI [OF tail(4)], assumption)
       (use a cur in \<open>simp add: wlp_simps\<close>)
qed

lemma validated_result:
  assumes "parse_and_validate_assurance_result dec now stdout j = Inr r"
  shows "\<exists>payload. parse_assurance_result_payload dec stdout = Some payload \<and> as_verdict r = py_upper (get_str payload ''verdict'' []) \<and>
    as_verdict r \<in> set VALID_VERDICTS"
  using assms
  by (auto simp: parse_and_validate_assurance_result_def validate_assurance_result_def build_assurance_result_def
      split: option.splits if_splits)

lemma valid_verdict_result:
  assumes "v \<in> set VALID_VERDICTS"
  shows "verdict_to_evidence_result v = Inr (if v = ''PASS'' then ''pass'' else if v = ''FAIL'' then ''fail'' else ''inconclusive'')"
proof -
  have "list_all (\<lambda>v. verdict_to_evidence_result v = Inr (if v = ''PASS'' then ''pass'' else if v = ''FAIL'' then ''fail'' else ''inconclusive''))
    VALID_VERDICTS" by code_simp
  with assms show ?thesis by (simp add: list_all_iff)
qed

text \<open>C13: Only a validated verdict is recorded. Whatever the output of an assessor decodes to, processing it,
  where it returns, is for an assurance job that does not modify code and whose delivery has
  not moved on to another candidate; the evidence of that job and candidate carries the result, every
  other row keeps its own; an output with a structured verdict PASS that names this candidate, job and role is recorded
  as \<^verbatim>\<open>pass\<close>, one with FAIL as \<^verbatim>\<open>fail\<close>, and every other output, structured or not, as \<^verbatim>\<open>inconclusive\<close>.\<close>

theorem recorded_verdict_is_validated:
  assumes "process_assurance_worker_success pf dec msg j stdout ref fn s = (Inr res, t)"
  shows "j_queue j \<in> set ASSURANCE_QUEUES \<and> j_agent_role j \<notin> set CODE_MODIFYING_ROLES \<and> source_is_current j s \<and>
    (\<exists>sha. j_source_candidate_sha j = Some sha \<and>
      list_all2 (\<lambda>q q'. same_review q q' \<and> q_result q' = (if evidence_of (j_id j) sha q then res else q_result q)) (evidence s) (evidence t) \<and>
      (case parse_and_validate_assurance_result dec (show_int (now_iso s)) stdout j of
         Inl _ \<Rightarrow> res = ''inconclusive''
       | Inr r \<Rightarrow> (\<exists>payload. parse_assurance_result_payload dec stdout = Some payload \<and> as_verdict r = py_upper (get_str payload ''verdict'' [])) \<and>
           as_candidate_id r = sha \<and> as_assurance_job_id r = j_human_id j \<and> as_assessor_role r = j_queue j \<and>
           res = (if as_verdict r = ''PASS'' then ''pass'' else if as_verdict r = ''FAIL'' then ''fail'' else ''inconclusive'')))"
proof (cases "parse_and_validate_assurance_result dec (show_int (now_iso s)) stdout j")
  case (Inl e)
  then have "record_invalid_assurance_result pf j msg ref s = (Inr res, t)"
    using assms by (simp add: process_assurance_worker_success_def bindS_getS)
  from wlp_apply [OF wlp_record_invalid this] show ?thesis
    by (auto simp: Inl recording_allowed_iff result_recorded_def)
next
  case (Inr r)
  then have "record_assurance_verdict pf j r ref fn s = (Inr res, t)"
    using assms by (simp add: process_assurance_worker_success_def bindS_getS)
  from wlp_apply [OF wlp_record_verdict this] validated_result [OF Inr] valid_verdict_result [of "as_verdict r"] show ?thesis
    by (auto simp: Inr recording_allowed_iff result_recorded_def split: if_splits)
qed



section \<open>Inconclusive assessments\<close>

interpretation core_frame: emission_frame core
  by unfold_locales (simp_all add: core_def)

lemma untouched_core_update_result [frames]: "untouched core (update_qa_evidence_result i sha r ref d)"
  unfolding update_qa_evidence_result_def by (intro frames) (simp add: core_def)

lemma untouched_core_reject [frames]: "untouched core (reject_stale_assurance_evidence j ref)"
  unfolding reject_stale_assurance_evidence_def by (intro frames)

lemma untouched_core_record_failure [frames]: "untouched core (record_failure fn j sha r)"
  unfolding record_failure_def by (intro frames) (simp add: core_def)

lemma untouched_core_process: "untouched core (process_assurance_worker_success pf dec msg j stdout ref fn)"
proof -
  have "untouched core (record_assurance_verdict pf j r ref fn)" for r
    unfolding record_assurance_verdict_def by (intro frames untouched_reads [OF reads_lookup] core_frame.untouched_verdict_events)
  moreover have "untouched core (record_invalid_assurance_result pf j msg ref)"
    unfolding record_invalid_assurance_result_def
    by (intro frames untouched_reads [OF reads_lookup] core_frame.untouched_emit core_frame.untouched_gate_evaluation)
  ultimately show ?thesis unfolding process_assurance_worker_success_def by (auto intro!: frames split: sum.split)
qed

lemma untouched_core_aggregation: "untouched core (execute_qa_manager_aggregation pf j)"
  unfolding execute_qa_manager_aggregation_def
  by (intro frames untouched_reads [OF reads_lookup] core_frame.untouched_emit core_frame.untouched_gate_evaluation)

lemma wlp_aggregation:
  "wlp (execute_qa_manager_aggregation pf j) (\<lambda>r t. \<exists>delivery. j_source_delivery_job_id j = Some delivery \<and>
     set REQUIRED_ASSURANCE \<subseteq> q_assurance_role ` set (assessor_rows delivery (expected_candidate j) s) \<and>
     fst r = aggregate_gate_result (map q_result (assessor_rows delivery (expected_candidate j) s)) \<and>
     result_recorded (j_id j) (expected_candidate j) (fst r) s t) s"
proof (cases "expected_candidate j = [] \<or> j_source_delivery_job_id j = None")
  case True
  then show ?thesis by (auto simp: execute_qa_manager_aggregation_def Let_def wlp_raiseS)
next
  case False
  then obtain delivery where d: "j_source_delivery_job_id j = Some delivery" "expected_candidate j \<noteq> []" by auto
  note tail = wlp_after_record [OF untouched_evidence_ops(2)] wlp_after_record [OF untouched_reads [OF reads_lookup]]
    wlp_after_record [OF evidence_frame.untouched_emit] wlp_after_record [OF evidence_frame.untouched_gate_evaluation]
  show ?thesis
    unfolding execute_qa_manager_aggregation_def Let_def d(1) option.case if_not_P [OF d(2)] wlp_bindS [of "getS _"] wlp_getS
      wlp_thenS [of "guardS _ _"] wlp_guardS
    by (intro impI, rule wlp_thenI [OF wlp_update_result], elim conjE, rule wlp_thenI [OF tail(1)], assumption,
        rule wlp_bindI [OF tail(2)], assumption, rule wlp_thenI [OF tail(3)], assumption, rule wlp_thenI [OF tail(4)], assumption)
       (simp add: wlp_returnS)
qed

text \<open>Creating a retry adds at most one row of evidence, for a new job.\<close>

definition one_added :: "db \<Rightarrow> db \<Rightarrow> bool" where
  "one_added s t \<longleftrightarrow> (\<exists>x j. evidence t = evidence s @ [x] \<and> jobs t = jobs s @ [j] \<and> q_assurance_job_id x = j_id j \<and>
     j_id j = job_seq s + 1 \<and> job_seq t = job_seq s + 1)"

lemma keeps_create_retry: "keeps store_inv (create_assurance_retry rid pid root sha q producer prior att)"
proof -
  have dep: "keeps store_inv (case prior of None \<Rightarrow> returnS () | Some p \<Rightarrow> add_job_dependency i p)" for i
    by (intro store_keeps keeps_add_job_dependency)
  show ?thesis
    unfolding create_assurance_retry_def Let_def
    by (intro store_keeps keeps_create_job keeps_set_job_source_provenance dep
        keeps_store_inv_frame [OF untouched_core_insert_qa_evidence] keeps_store_inv_frame [OF untouched_liftS])
       (simp add: retry_args_def job_args_of_def)
qed

lemma wlp_create_retry:
  assumes inv: "store_inv s"
  shows "wlp (create_assurance_retry rid pid root sha q producer prior att) (\<lambda>_ t. store_inv t \<and> job_seq s \<le> job_seq t \<and>
    (evidence t = evidence s \<and> jobs t = jobs s \<or> one_added s t)) s"
proof (rule wlp_conj [OF wlp_keeps [OF keeps_create_retry inv]])
  let ?Q = "\<lambda>_ t. job_seq s \<le> job_seq t \<and>
    (evidence t = evidence s \<and> jobs t = jobs s \<or> one_added s t)"
  have make: "wlp (bindS (create_job a) (\<lambda>j. thenS (set_job_source_provenance (j_id j) (Some producer) (Some sha))
         (thenS (case prior of None \<Rightarrow> returnS () | Some p \<Rightarrow> add_job_dependency (j_id j) p)
         (thenS (insert_qa_evidence pid root producer (j_id j) sha q ''pending'' (Some rid) (Some n) prior) (returnS j))))) ?Q s"
    if "n_status a = ''READY''" for a n
  proof (rule wlp_create_with_provenance [OF inv that])
    fix j u
    assume u: "u = s\<lparr>jobs := jobs s @ [provenance_row (Some producer) (Some sha) (now_iso s) j], job_seq := job_seq s + 1\<rparr>"
      and j: "j = new_job_row a READY (job_seq s + 1) (now_iso s)"
    have dep: "wlp (case prior of None \<Rightarrow> returnS () | Some p \<Rightarrow> add_job_dependency (j_id j) p)
        (\<lambda>_ t. evidence t = evidence s \<and> job_seq t = job_seq s + 1 \<and>
           jobs t = jobs s @ [provenance_row (Some producer) (Some sha) (now_iso s) j]) u"
      by (auto simp: u wlp_simps intro!: wlp_mono [OF wlp_add_job_dependency] split: option.split)
    have id: "j_id j = job_seq s + 1" "j_id (provenance_row (Some producer) (Some sha) (now_iso s) j) = j_id j"
      by (simp_all add: j new_job_row_def provenance_row_def)
    show "wlp (thenS (case prior of None \<Rightarrow> returnS () | Some p \<Rightarrow> add_job_dependency (j_id j) p)
         (thenS (insert_qa_evidence pid root producer (j_id j) sha q ''pending'' (Some rid) (Some n) prior) (returnS j))) ?Q u"
      by (rule wlp_thenI [OF dep], rule wlp_thenI [OF wlp_insert_evidence]) (auto simp: wlp_returnS core_def id one_added_def)
  qed
  have ready: "n_status (retry_args p h r a b c d e) = ''READY''" for p h r a b c d e by (simp add: retry_args_def job_args_of_def)
  show "wlp (create_assurance_retry rid pid root sha q producer prior att) ?Q s"
    unfolding create_assurance_retry_def Let_def
    by (rule wlp_bindI [OF wlp_reads [where Q = "\<lambda>_ t. t = s"]], rule frames, simp)
       (auto simp: wlp_simps split: option.split intro!: make [OF ready, unfolded wlp_bindS] wlp_reads [OF reads_get_job])
qed

text \<open>The steps of assurance after the hand over: outputs of assessors are processed, the manager aggregates, the
  PM repeats inconclusive assessments; between them anything that leaves the evidence alone.\<close>

inductive assurance_step :: "db \<Rightarrow> db \<Rightarrow> bool" where
  recording: "assurance_step s (snd (transaction (process_assurance_worker_success pf dec msg j stdout ref fn) s))"
| aggregating: "assurance_step s (snd (transaction (execute_qa_manager_aggregation pf j) s))"
| repeating: "assurance_step s (snd (transaction (schedule_assurance_retry_for_inconclusive pf ctx pid root sha rid roles) s))"
| other: "\<lbrakk>evidence t = evidence s; job_seq s \<le> job_seq t; store_inv t\<rbrakk> \<Longrightarrow> assurance_step s t"

text \<open>Every row of evidence is of its own job and candidate, and of a job that exists.\<close>

definition evidence_keyed :: "db \<Rightarrow> bool" where
  "evidence_keyed s \<longleftrightarrow> store_inv s \<and> distinct (map evidence_key (evidence s)) \<and> (\<forall>q \<in> set (evidence s). q_assurance_job_id q \<le> job_seq s)"

text \<open>Row \<open>i\<close> is an assessment of the candidate in the run that has the terminal result \<open>r\<close>.\<close>

definition assessed_as :: "int \<Rightarrow> string \<Rightarrow> string \<Rightarrow> string \<Rightarrow> string \<Rightarrow> db \<Rightarrow> bool" where
  "assessed_as i pid sha rid r s \<longleftrightarrow> evidence_keyed s \<and> r \<in> set TERMINAL_QA_RESULTS \<and>
     (\<exists>q \<in> set (evidence s). q_id q = i \<and> q_project_human_id q = pid \<and> q_candidate_git_sha q = sha \<and> q_run_id q = Some rid \<and> q_result q = r)"

lemma assessed_as_recorded:
  assumes inv: "assessed_as i pid sha rid r s" and rec: "result_recorded job sha' res s t" and core: "core t = core s"
  shows "assessed_as i pid sha rid r t"
proof -
  have rows: "list_all2 (\<lambda>q q'. same_review q q' \<and> q_result q' = (if evidence_of job sha' q then res else q_result q)) (evidence s) (evidence t)"
    using rec by (simp add: result_recorded_def)
  have keys: "map evidence_key (evidence t) = map evidence_key (evidence s)"
    using rows by (rule list_all2_map_eq) (simp add: same_review_def evidence_key_def)
  have bound: "q_assurance_job_id p \<le> job_seq t" if p: "p \<in> set (evidence t)" for p
    using list_all2_source [OF rows p] inv core_eqD(2) [OF core] by (auto simp: same_review_def assessed_as_def evidence_keyed_def)
  have "evidence_keyed t"
    using inv store_inv_core [OF core [symmetric]] bound by (simp add: assessed_as_def evidence_keyed_def keys)
  moreover obtain q where q: "q \<in> set (evidence s)" "q_id q = i" "q_project_human_id q = pid" "q_candidate_git_sha q = sha"
      "q_run_id q = Some rid" "q_result q = r" using inv by (auto simp: assessed_as_def)
  obtain q' where q': "q' \<in> set (evidence t)" "same_review q q'" "q_result q' = (if evidence_of job sha' q then res else r)"
    using list_all2_target [OF rows q(1)] q(6) by auto
  have "res = r" if e: "evidence_of job sha' q"
  proof -
    have "find_row (evidence_of job sha') (evidence s) = Some q"
      using inv q(1) e unfolding assessed_as_def evidence_keyed_def evidence_of_key by (simp add: find_row_Some_key)
    then show ?thesis using rec inv q(6) by (auto simp: result_recorded_def assessed_as_def)
  qed
  with q' q have "\<exists>p \<in> set (evidence t). q_id p = i \<and> q_project_human_id p = pid \<and> q_candidate_git_sha p = sha \<and> q_run_id p = Some rid \<and> q_result p = r"
    by (intro bexI [OF _ q'(1)]) (auto simp: same_review_def)
  ultimately show ?thesis using inv by (simp add: assessed_as_def)
qed

lemma assessed_as_appended:
  assumes "assessed_as i pid sha rid r s" "store_inv t" "job_seq s \<le> job_seq t"
    "evidence t = evidence s \<or> (\<exists>x. evidence t = evidence s @ [x] \<and> q_assurance_job_id x = job_seq s + 1 \<and> job_seq t = job_seq s + 1)"
  shows "assessed_as i pid sha rid r t"
proof -
  have "evidence_keyed t"
    using assms(4)
  proof
    assume "evidence t = evidence s"
    with assms show ?thesis by (force simp: assessed_as_def evidence_keyed_def)
  next
    assume "\<exists>x. evidence t = evidence s @ [x] \<and> q_assurance_job_id x = job_seq s + 1 \<and> job_seq t = job_seq s + 1"
    then obtain x where x: "evidence t = evidence s @ [x]" "q_assurance_job_id x = job_seq s + 1" "job_seq t = job_seq s + 1" by blast
    have "evidence_key x \<notin> evidence_key ` set (evidence s)"
      using assms(1) x(2) by (force simp: assessed_as_def evidence_keyed_def evidence_key_def)
    with assms x show ?thesis by (force simp: assessed_as_def evidence_keyed_def)
  qed
  with assms show ?thesis unfolding assessed_as_def by auto
qed

lemma wlp_mapS_inv: "(\<And>x s. P s \<Longrightarrow> wlp (f x) (\<lambda>_. P) s) \<Longrightarrow> P s \<Longrightarrow> wlp (mapS f xs) (\<lambda>_. P) s"
proof (induction xs arbitrary: s)
  case (Cons x xs)
  show ?case
    unfolding mapS.simps
    by (rule wlp_bindI [OF Cons.prems(1) [OF Cons.prems(2)]], rule wlp_bindI [OF Cons.IH [OF Cons.prems(1)]]) (simp_all add: wlp_returnS)
qed (simp add: wlp_returnS)

lemma wlp_schedule_inconclusive:
  assumes "assessed_as i p c r res s"
  shows "wlp (schedule_assurance_retry_for_inconclusive pf ctx pid root sha rid roles) (\<lambda>_. assessed_as i p c r res) s"
proof -
  have frame: "wlp m (\<lambda>_. assessed_as i p c r res) u" if "untouched assessed m" "assessed_as i p c r res u" for m :: "'b dbop" and u
  proof (rule wlp_assessed [OF that(1)])
    fix x t assume t: "assessed t = assessed u"
    have "store_inv t" by (rule store_inv_core [OF assessed_eqD(5) [OF t, symmetric]]) (use that(2) in \<open>simp add: assessed_as_def evidence_keyed_def\<close>)
    then show "assessed_as i p c r res t"
      by (rule assessed_as_appended [OF that(2)]) (simp_all add: assessed_eqD [OF t])
  qed
  have one: "wlp (schedule_one rid pid root sha target) (\<lambda>_. assessed_as i p c r res) u" if u: "assessed_as i p c r res u" for target u
  proof -
    have inv: "store_inv u" using u by (simp add: assessed_as_def evidence_keyed_def)
    have retry: "wlp (create_assurance_retry rid pid root sha q k prior None) (\<lambda>_. assessed_as i p c r res) u" for q k prior
      by (rule wlp_mono [OF wlp_create_retry [OF inv]]) (rule assessed_as_appended [OF u], auto simp: one_added_def)
    show ?thesis
      unfolding schedule_one_def
      by (auto split: prod.split simp: wlp_bindS wlp_thenS wlp_returnS intro!: wlp_mono [OF retry] frame frames)
  qed
  have emit: "wlp (thenS (emit_projectos_event pf ctx e) (returnS ids)) (\<lambda>_. assessed_as i p c r res) u"
    if "assessed_as i p c r res u" for e ids u
    by (rule frame [OF untouched_thenS [OF assessed_frame.untouched_emit untouched_returnS] that])
  show ?thesis
    unfolding schedule_assurance_retry_for_inconclusive_def
    using assms by (auto simp: wlp_raiseS wlp_bindS wlp_getS wlp_thenS [of "guardS _ _"] wlp_guardS
        intro!: wlp_mono [OF wlp_mapS_inv [OF one]] emit)
qed

lemma assurance_step_inv: "assurance_step s t \<Longrightarrow> assessed_as i p c r res s \<Longrightarrow> assessed_as i p c r res t"
proof (induction rule: assurance_step.induct)
  case (recording s pf dec msg j stdout ref fn)
  then show ?case
  proof (rule transaction_keeps)
    fix x t assume run: "process_assurance_worker_success pf dec msg j stdout ref fn s = (Inr x, t)"
    have "\<exists>sha. result_recorded (j_id j) sha x s t"
      using run wlp_apply [OF wlp_record_invalid] wlp_apply [OF wlp_record_verdict]
      unfolding process_assurance_worker_success_def bindS_getS by (auto split: sum.splits) blast+
    then show "assessed_as i p c r res t"
      using recording assessed_as_recorded untouched_eq [OF untouched_core_process run] by blast
  qed
next
  case (aggregating s pf j)
  then show ?case
  proof (rule transaction_keeps)
    fix x t assume run: "execute_qa_manager_aggregation pf j s = (Inr x, t)"
    from wlp_apply [OF wlp_aggregation run] show "assessed_as i p c r res t"
      using aggregating assessed_as_recorded untouched_eq [OF untouched_core_aggregation run] by blast
  qed
next
  case (repeating s pf ctx pid root sha rid roles)
  then show ?case by (rule transaction_keeps) (rule wlp_apply [OF wlp_schedule_inconclusive [OF repeating]])
next
  case (other t s)
  then show ?case by (intro assessed_as_appended [OF other(4)]) simp_all
qed

interpretation assurance_machine: invariant_machine "assessed_as i p c r res" assurance_step "assessed_as i p c r res" for i p c r res
  by unfold_locales (auto intro: assurance_step_inv)

text \<open>C15: An inconclusive assessment blocks its candidate for good. Once one row of evidence of a candidate in a run is
  inconclusive, no sequence of processed outputs, aggregations and repeated assessments makes the gate of the
  candidate and run pass: the repeated assessment gets a row of its own, the inconclusive one stays
  and is counted, and no result is rewritten.\<close>

theorem inconclusive_candidate_never_passes:
  assumes "evidence_keyed s" "q \<in> set (evidence s)" "q_result q = ''inconclusive''" "q_run_id q = Some rid" "rid \<noteq> []"
    "q_candidate_git_sha q \<noteq> []" "assurance_step\<^sup>*\<^sup>* s t"
  shows "dict_get (collect_qa_gate_facts (q_project_human_id q) (Some (q_candidate_git_sha q)) (Some rid) t) ''gate'' \<noteq> JStr ''PASSED''"
proof -
  have "assessed_as (q_id q) (q_project_human_id q) (q_candidate_git_sha q) rid ''inconclusive'' s"
    using assms(1-4) by (auto simp: assessed_as_def TERMINAL_QA_RESULTS_def)
  with assurance_machine.run_inv [OF assms(7)]
  have "assessed_as (q_id q) (q_project_human_id q) (q_candidate_git_sha q) rid ''inconclusive'' t" by blast
  then obtain p where "p \<in> set (evidence t)" "q_project_human_id p = q_project_human_id q" "q_candidate_git_sha p = q_candidate_git_sha q"
      "q_run_id p = Some rid" "q_result p = ''inconclusive''" by (auto simp: assessed_as_def)
  then have "p \<in> set (gate_evidence (q_project_human_id q) (Some (q_candidate_git_sha q)) (Some rid) t) \<and> q_result p \<noteq> ''pass''"
    by (simp add: set_gate_evidence)
  then have "gate_verdict (q_project_human_id q) (Some (q_candidate_git_sha q)) (Some rid) t \<noteq> ''PASSED''"
    unfolding gate_verdict_passed by blast
  then show ?thesis by (simp add: collect_qa_gate_facts_def gate_verdict_def dict_get_def Let_def)
qed

text \<open>C23: The manager's aggregate and the gate agree: for results within the CHECK constraint, the aggregate of some
  assessments is the verdict the gate gives on them, in lower case, whatever the status of the assessing jobs.\<close>

theorem aggregate_is_gate_verdict:
  assumes "\<forall>r \<in> set results. r \<in> set QA_RESULTS" "map fst reviews = results"
  shows "map_of [(''fail'', ''FAILED''), (''inconclusive'', ''INCONCLUSIVE''), (''pass'', ''PASSED''), (''pending'', ''PENDING'')]
    (aggregate_gate_result results) = Some (qa_gate (map (\<lambda>(r, job_status). review_of r job_status) reviews))"
proof -
  let ?failed = "\<exists>r \<in> set results. r \<in> {''fail'', ''stale_rejected''}"
  let ?passed = "results \<noteq> [] \<and> (\<forall>r \<in> set results. r = ''pass'')"
  have rs: "map (\<lambda>(r, job_status). review_of r job_status) reviews = map typed_review results"
    using assms by (force intro!: review_of_typed)
  have gate: "qa_gate (map typed_review results) =
      (if ?failed then ''FAILED'' else if ''inconclusive'' \<in> set results then ''INCONCLUSIVE'' else if ?passed then ''PASSED'' else ''PENDING'')"
    unfolding qa_gate_eq set_map image_iff ball_simps bex_simps eq_commute [of "_ :: review" "typed_review _"] typed_review_iff
    by simp
  have "''pending'' \<notin> set results \<longleftrightarrow> (\<forall>r \<in> set results. r = ''pass'')" if "\<not> ?failed" "''inconclusive'' \<notin> set results"
    using assms(1) that unfolding QA_RESULTS_def by fastforce
  then show ?thesis
    unfolding rs gate aggregate_gate_result_def list_ex_iff list_all_iff by (cases ?failed; cases "''inconclusive'' \<in> set results") auto
qed

section \<open>Samples\<close>

text \<open>The first sample delivery with a candidate, handed over; then the functional assessor is inconclusive.\<close>

definition sample_producer :: job where
  "sample_producer = (hd (jobs sample_deliveries))\<lparr>j_run_id := Some ''RUN-1''\<rparr>"

definition sample_handed :: db where
  "sample_handed = snd (transaction (create_assurance_jobs_for_delivery sample_producer ''abc'') sample_deliveries)"

lemma sample_handoff_returns:
  "\<exists>r. create_assurance_jobs_for_delivery sample_producer ''abc'' sample_deliveries = (Inr r, sample_handed)"
proof -
  have "case fst (create_assurance_jobs_for_delivery sample_producer ''abc'' sample_deliveries) of Inr _ \<Rightarrow> True | Inl _ \<Rightarrow> False"
    by code_simp
  then show ?thesis
    unfolding sample_handed_def transaction_def
    by (cases "create_assurance_jobs_for_delivery sample_producer ''abc'' sample_deliveries") (auto split: sum.splits)
qed

theorem handoff_creates_assurance_witness:
  "\<exists>r. create_assurance_jobs_for_delivery sample_producer ''abc'' sample_deliveries = (Inr r, sample_handed) \<and> store_inv sample_handed"
  using sample_handoff_returns handoff_creates_assurance [OF sample_deliveries_reach] by blast

text \<open>An assessor of the candidate \<^verbatim>\<open>abc\<close> in a run, with pending evidence.\<close>

definition sample_assessor :: job where
  "sample_assessor = (new_job_row (job_args_of ''QA-1'' ''PRJ-1'' ''/repo'' ''ASSURANCE_FUNCTIONAL'' ''ASSURANCE_FUNCTIONAL'') READY 1 0)
     \<lparr>j_source_candidate_sha := Some ''abc'', j_run_id := Some ''RUN-1''\<rparr>"

definition sample_assessment :: db where
  "sample_assessment = sample_empty\<lparr>jobs := [sample_assessor], job_seq := 1,
     evidence := [(sample_evidence 1 ''pending'')\<lparr>q_assurance_job_id := 1\<rparr>],
     uuids := (\<lambda>n. replicate n CHR ''a''), uuid_next := 1\<rparr>"

definition sample_decoder :: decoder where
  "sample_decoder = \<lparr>raw_decode = (\<lambda>_. Some (JObj [(''verdict'', JStr ''pass''), (''candidate_id'', JStr ''abc''),
     (''assurance_job_id'', JStr ''QA-1''), (''assessor_role'', JStr ''ASSURANCE_FUNCTIONAL'')])), loads = (\<lambda>_. None)\<rparr>"

definition sample_stdout :: string where
  "sample_stdout = ASSURANCE_RESULT_MARKER @ ''{}''"

lemma sample_process_returns:
  "fst (process_assurance_worker_success sample_policy sample_decoder ''bad'' sample_assessor (Some sample_stdout) None None sample_assessment)
    = Inr ''pass''"
  by code_simp

theorem recorded_verdict_is_validated_witness:
  "\<exists>t. process_assurance_worker_success sample_policy sample_decoder ''bad'' sample_assessor (Some sample_stdout) None None sample_assessment
      = (Inr ''pass'', t) \<and> source_is_current sample_assessor sample_assessment"
proof -
  let ?p = "process_assurance_worker_success sample_policy sample_decoder ''bad'' sample_assessor (Some sample_stdout) None None sample_assessment"
  have "?p = (Inr ''pass'', snd ?p)" using sample_process_returns by (rule prod_eqI [of ?p "(Inr ''pass'', snd ?p)", simplified fst_conv snd_conv, OF _ refl])
  with recorded_verdict_is_validated [OF this] show ?thesis by blast
qed



text \<open>The first assessment was inconclusive; the manager aggregates.\<close>

definition sample_inconclusive :: db where
  "sample_inconclusive = sample_assessment\<lparr>evidence := [(sample_evidence 1 ''inconclusive'')\<lparr>q_assurance_job_id := 1\<rparr>]\<rparr>"

lemma sample_inconclusive_keyed: "evidence_keyed sample_inconclusive"
  by (simp add: evidence_keyed_def store_inv_defs sample_inconclusive_def sample_assessment_def sample_assessor_def sample_empty_def
      new_job_row_def empty_db_def sample_evidence_def holds_lease_def)

theorem inconclusive_candidate_never_passes_witness:
  "\<exists>q \<in> set (evidence sample_inconclusive). q_result q = ''inconclusive'' \<and>
    dict_get (collect_qa_gate_facts (q_project_human_id q) (Some (q_candidate_git_sha q)) (Some ''RUN-1'')
      (snd (transaction (execute_qa_manager_aggregation sample_policy sample_assessor) sample_inconclusive))) ''gate'' \<noteq> JStr ''PASSED''"
proof -
  let ?q = "(sample_evidence 1 ''inconclusive'')\<lparr>q_assurance_job_id := 1\<rparr>"
  have q: "?q \<in> set (evidence sample_inconclusive)" by (simp add: sample_inconclusive_def)
  have fields: "q_result ?q = ''inconclusive''" "q_run_id ?q = Some ''RUN-1''" "q_candidate_git_sha ?q \<noteq> []"
    by (simp_all add: sample_evidence_def)
  show ?thesis
    by (intro bexI [OF _ q] conjI fields(1) inconclusive_candidate_never_passes [OF sample_inconclusive_keyed q]
        fields r_into_rtranclp aggregating) simp
qed

theorem aggregate_is_gate_verdict_witness:
  "aggregate_gate_result [''pass'', ''pending''] = ''pending'' \<and>
    map_of [(''fail'', ''FAILED''), (''inconclusive'', ''INCONCLUSIVE''), (''pass'', ''PASSED''), (''pending'', ''PENDING'')]
    (aggregate_gate_result [''pass'', ''pending'']) = Some (qa_gate (map (\<lambda>(r, job_status). review_of r job_status)
      [(''pass'', ''SUCCEEDED''), (''pending'', ''FAILED'')]))"
  by (rule conjI, code_simp, rule aggregate_is_gate_verdict) (simp_all add: QA_RESULTS_def)

end
