(* ===== verification/Evidence_Machine.thy ===== *)
theory Evidence_Machine
  imports Assurance_Props
begin

text \<open>
  The evidence of assurance as a machine: every writer of \<^verbatim>\<open>qa_evidence\<close> in the source (the hand over of a delivery, the outputs of
  assessors with the defects they open, the legacy record of a result, the aggregation of the manager, the repetition of
  inconclusive assessments, the invalidation of a delivery and the tags of a retest) and every operation of the job store, in any
  order. The schema does not keep the evidence of a job and candidate unique; the operations do, because each creates the job it
  enters evidence for, and with that the policy keeps every assessed result.
\<close>

section \<open>The machine\<close>

inductive evidence_step :: "db \<Rightarrow> db \<Rightarrow> bool" where
  storing: "store_step s t \<Longrightarrow> evidence_step s t"
| handing_over: "evidence_step s (snd (transaction (create_assurance_jobs_for_delivery d sha) s))"
| recording: "evidence_step s (snd (transaction (process_assurance_worker_success pf dec msg j stdout ref fn) s))"
| recording_legacy: "evidence_step s (snd (transaction (record_assurance_result pf j passed verdict ref fn summary findings) s))"
| aggregating: "evidence_step s (snd (transaction (execute_qa_manager_aggregation pf j) s))"
| repeating: "evidence_step s (snd (transaction (schedule_assurance_retry_for_inconclusive pf ctx pid root sha rid roles) s))"
| invalidating: "evidence_step s (snd (transaction (invalidate_delivery_candidate h a) s))"
| tagging: "evidence_step s (snd (transaction (tag_evidence_run ids sha rid cycle) s))"
| other: "evidence t = evidence s \<Longrightarrow> core t = core s \<Longrightarrow> evidence_step s t"

text \<open>Evidence is of jobs that exist, one row for a job and candidate.\<close>

definition evidence_inv :: "db \<Rightarrow> bool" where
  "evidence_inv s \<longleftrightarrow> store_inv s \<and> distinct (map evidence_key (evidence s)) \<and>
     fst ` evidence_key ` set (evidence s) \<subseteq> j_id ` set (jobs s)"

text \<open>Every assessed row of \<open>s\<close> is still there in \<open>t\<close>, with its result.\<close>

definition retains :: "db \<Rightarrow> db \<Rightarrow> bool" where
  "retains s t \<longleftrightarrow> (\<forall>q \<in> set (evidence s). q_result q \<in> set TERMINAL_QA_RESULTS \<longrightarrow>
     (\<exists>p \<in> set (evidence t). q_id p = q_id q \<and> evidence_key p = evidence_key q \<and> q_result p = q_result q))"

section \<open>Rows are appended\<close>

text \<open>Evidence is entered for new jobs, one row for each.\<close>

definition grows :: "db \<Rightarrow> db \<Rightarrow> bool" where
  "grows s t \<longleftrightarrow> (\<exists>new ev. jobs t = jobs s @ new \<and> evidence t = evidence s @ ev \<and> map q_assurance_job_id ev = map j_id new)"

lemma grows_refl: "jobs t = jobs s \<Longrightarrow> evidence t = evidence s \<Longrightarrow> grows s t"
  unfolding grows_def by (intro exI [of _ "[]"]) simp

lemma grows_trans:
  assumes "grows s t" "grows t u" shows "grows s u"
proof -
  obtain n1 e1 where 1: "jobs t = jobs s @ n1" "evidence t = evidence s @ e1" "map q_assurance_job_id e1 = map j_id n1"
    using assms(1) by (auto simp: grows_def)
  obtain n2 e2 where 2: "jobs u = jobs t @ n2" "evidence u = evidence t @ e2" "map q_assurance_job_id e2 = map j_id n2"
    using assms(2) by (auto simp: grows_def)
  show ?thesis unfolding grows_def by (intro exI [of _ "n1 @ n2"] exI [of _ "e1 @ e2"]) (simp add: 1 2)
qed

lemma grown_inv:
  assumes inv: "evidence_inv s" and t: "store_inv t" "grows s t"
  shows "evidence_inv t \<and> retains s t"
proof -
  obtain new ev where g: "jobs t = jobs s @ new" "evidence t = evidence s @ ev" "map q_assurance_job_id ev = map j_id new"
    using t(2) by (auto simp: grows_def)
  have ids: "map (fst \<circ> evidence_key) ev = map j_id new" using g(3) by (simp add: evidence_key_def comp_def)
  have "distinct (map j_id (jobs s @ new))" using t(1) g(1) by (simp add: store_inv_def jobs_keyed_def)
  then have new: "distinct (map j_id new)" "j_id ` set (jobs s) \<inter> j_id ` set new = {}" by auto
  have "distinct (map (fst \<circ> evidence_key) ev)" unfolding ids by (rule new(1))
  then have "distinct (map evidence_key ev)" by (metis distinct_map map_map)
  moreover have of_new: "fst ` evidence_key ` set ev = j_id ` set new" using arg_cong [OF ids, of set] by (simp add: image_image)
  moreover have "evidence_key ` set (evidence s) \<inter> evidence_key ` set ev = {}"
  proof (rule Int_emptyI)
    fix k assume "k \<in> evidence_key ` set (evidence s)" "k \<in> evidence_key ` set ev"
    then have "fst k \<in> fst ` evidence_key ` set (evidence s)" "fst k \<in> j_id ` set new"
      unfolding of_new [symmetric] by simp_all
    then show False using new(2) inv unfolding evidence_inv_def by blast
  qed
  ultimately show ?thesis using inv t(1) g(1,2) by (auto simp: evidence_inv_def retains_def image_Un)
qed

lemma wlp_grows_frame:
  assumes "untouched assessed m" "store_inv u" "grows s u"
  shows "wlp m (\<lambda>_ t. store_inv t \<and> grows s t) u"
proof (rule wlp_assessed [OF assms(1)])
  fix x t assume t: "assessed t = assessed u"
  have "grows u t" using assessed_eqD [OF t] by (intro grows_refl)
  then show "store_inv t \<and> grows s t"
    using store_inv_core [OF assessed_eqD(5) [OF t, symmetric] assms(2)] grows_trans [OF assms(3)] by blast
qed

lemma handoff_grows:
  assumes "store_inv s" "create_assurance_jobs_for_delivery d sha s = (Inr r, t)"
  shows "store_inv t \<and> grows s t"
proof -
  from wlp_apply [OF wlp_handoff [OF assms(1)] assms(2)] obtain new m ev x where
    h: "store_inv t" "jobs t = jobs s @ new @ [m]" "evidence t = evidence s @ ev @ [x]" and
    ev: "list_all2 (\<lambda>j. pending_for d sha (delivery_run d s) (j_id j) (j_queue j)) new ev"
      "pending_for d sha (delivery_run d s) (j_id m) QA_MANAGER_ROLE x"
    unfolding handed_over_def by blast
  have "map q_assurance_job_id ev = map j_id new" using ev(1) by (rule list_all2_map_eq) (simp add: pending_for_def)
  then have "map q_assurance_job_id (ev @ [x]) = map j_id (new @ [m])" using ev(2) by (simp add: pending_for_def)
  then show ?thesis using h unfolding grows_def by blast
qed

lemma repeated_grows:
  assumes "store_inv s" "schedule_assurance_retry_for_inconclusive pf ctx pid root sha rid roles s = (Inr r, t)"
  shows "store_inv t \<and> grows s t"
proof -
  have one: "wlp (schedule_one rid pid root sha target) (\<lambda>_ t. store_inv t \<and> grows s t) u" if u: "store_inv u \<and> grows s u" for target u
  proof -
    have retry: "wlp (create_assurance_retry rid pid root sha q k prior None) (\<lambda>_ t. store_inv t \<and> grows s t) u" for q k prior
    proof (rule wlp_mono [OF wlp_create_retry], use u in simp, elim conjE)
      fix x t assume t: "store_inv t" "evidence t = evidence u \<and> jobs t = jobs u \<or> one_added u t"
      have "grows u t"
        using t(2)
      proof
        assume "one_added u t"
        then obtain y j where "evidence t = evidence u @ [y]" "jobs t = jobs u @ [j]" "q_assurance_job_id y = j_id j"
          by (auto simp: one_added_def)
        then show ?thesis unfolding grows_def by (intro exI [of _ "[j]"] exI [of _ "[y]"]) simp
      qed (simp add: grows_refl)
      with u t(1) show "store_inv t \<and> grows s t" using grows_trans by blast
    qed
    show ?thesis
      unfolding schedule_one_def
      by (auto split: prod.split simp: wlp_bindS wlp_thenS wlp_returnS intro!: wlp_mono [OF retry] wlp_grows_frame frames)
  qed
  have emit: "wlp (thenS (emit_projectos_event pf ctx e) (returnS ids)) (\<lambda>_ t. store_inv t \<and> grows s t) u"
    if "store_inv u \<and> grows s u" for e ids u
    using that by (intro wlp_grows_frame untouched_thenS assessed_frame.untouched_emit untouched_returnS) simp_all
  have "wlp (schedule_assurance_retry_for_inconclusive pf ctx pid root sha rid roles) (\<lambda>_ t. store_inv t \<and> grows s t) s"
    unfolding schedule_assurance_retry_for_inconclusive_def
    using assms(1) grows_refl [of s s]
    by (auto simp: wlp_raiseS wlp_bindS wlp_getS wlp_thenS [of "guardS _ _"] wlp_guardS
        intro!: wlp_mono [OF wlp_mapS_inv [where P = "\<lambda>t. store_inv t \<and> grows s t", OF one]] emit)
  from wlp_apply [OF this assms(2)] show ?thesis .
qed

section \<open>Rows are rewritten\<close>

text \<open>Row by row the id and the pair stay, and so does a result that is not pending.\<close>

definition revises :: "db \<Rightarrow> db \<Rightarrow> bool" where
  "revises s t \<longleftrightarrow> list_all2 (\<lambda>q p. q_id p = q_id q \<and> evidence_key p = evidence_key q \<and>
     (q_result q \<in> set TERMINAL_QA_RESULTS \<longrightarrow> q_result p = q_result q)) (evidence s) (evidence t)"

lemma revises_refl: "evidence t = evidence s \<Longrightarrow> revises s t"
  by (simp add: revises_def list_all2_same)

lemma rewritten_inv:
  assumes inv: "evidence_inv s" and t: "store_inv t" "j_id ` set (jobs s) \<subseteq> j_id ` set (jobs t)" "revises s t"
  shows "evidence_inv t \<and> retains s t"
proof -
  have same: "map evidence_key (evidence t) = map evidence_key (evidence s)"
    using t(3) unfolding revises_def by (rule list_all2_map_eq) simp
  have "retains s t"
    unfolding retains_def using list_all2_target [OF t(3) [unfolded revises_def]] by blast
  moreover have "evidence_key ` set (evidence t) = evidence_key ` set (evidence s)" by (metis same set_map)
  then have "evidence_inv t" using inv t(1,2) same unfolding evidence_inv_def by (metis order_trans)
  ultimately show ?thesis by simp
qed

lemma recorded_revises:
  assumes inv: "evidence_inv s" and rec: "result_recorded i sha res s t"
  shows "revises s t"
proof -
  have "q_result q \<in> set TERMINAL_QA_RESULTS \<longrightarrow> res = q_result q" if "q \<in> set (evidence s)" "evidence_of i sha q" for q
  proof -
    have "find_row (evidence_of i sha) (evidence s) = Some q"
      using inv that unfolding evidence_inv_def evidence_of_key by (simp add: find_row_Some_key)
    then show ?thesis using rec by (auto simp: result_recorded_def)
  qed
  moreover have "list_all2 (\<lambda>q q'. same_review q q' \<and> q_result q' = (if evidence_of i sha q then res else q_result q)) (evidence s) (evidence t)"
    using rec by (simp add: result_recorded_def)
  ultimately show ?thesis
    unfolding revises_def by (auto simp: list_all2_conv_all_nth same_review_def evidence_key_def)
qed

lemma recorded_inv:
  assumes "evidence_inv s" "result_recorded i sha res s t" "core t = core s"
  shows "evidence_inv t \<and> retains s t"
  using assms(1) _ _ recorded_revises [OF assms(1,2)]
proof (rule rewritten_inv)
  show "store_inv t" using assms(1) store_inv_core [OF assms(3) [symmetric]] by (simp add: evidence_inv_def)
qed (use assms(3) in \<open>simp add: core_def\<close>)

lemma untouched_core_legacy: "untouched core (record_assurance_result pf j passed verdict ref fn summary findings)"
proof -
  have "untouched core (record_assurance_verdict pf j r ref fn)" for r
    unfolding record_assurance_verdict_def by (intro frames untouched_reads [OF reads_lookup] core_frame.untouched_verdict_events)
  then show ?thesis unfolding record_assurance_result_def by (intro frames)
qed

lemma wlp_record_legacy:
  "wlp (record_assurance_result pf j passed verdict ref fn summary findings) (\<lambda>_ t. \<exists>sha res. result_recorded (j_id j) sha res s t) s"
proof -
  have rec: "wlp (thenS (record_assurance_verdict pf j r ref fn) (returnS ())) (\<lambda>_ t. \<exists>sha res. result_recorded (j_id j) sha res s t) s" for r
    unfolding wlp_thenS wlp_returnS by (rule wlp_mono [OF wlp_record_verdict]) blast
  show ?thesis
    unfolding record_assurance_result_def
    by (auto simp: wlp_bindS wlp_liftS wlp_getS wlp_returnS wlp_raiseS intro!: rec split: option.split)
qed

lemma keeps_revises_invalidate: "keeps (revises s) (invalidate_delivery_candidate h a)"
proof -
  have frame: "keeps (revises s) m" if "untouched evidence m" for m :: "'b dbop"
    using that by (rule keeps_untouched) (simp add: revises_def)
  have cancel: "keeps (revises s) (cancel_assurance_for_delivery d reason)" for d reason
  proof -
    have "untouched evidence (cancel_one d reason row)" for row
      unfolding cancel_one_def by (intro frames)
    then have rows: "untouched evidence (mapS (cancel_one d reason) rows)" for rows by (intro frames) simp
    have upd: "keeps (revises s) (modifyS (\<lambda>s. s\<lparr>evidence := update_where
              (\<lambda>q. q_delivery_job_id q = j_id d \<and> q_result q = ''pending'')
              (\<lambda>q. q\<lparr>q_result := ''stale_rejected'',
                     q_evidence_ref := (case q_evidence_ref q of
                        None \<Rightarrow> Some ''invalidated_candidate'' | Some r \<Rightarrow> Some r)\<rparr>) (evidence s)\<rparr>))"
      by (rule keepsI) (auto simp: modifyS_def revises_def update_where_def list_all2_map2 evidence_key_def TERMINAL_QA_RESULTS_def
          elim!: list_all2_mono)
    show ?thesis
      unfolding cancel_assurance_for_delivery_def
      by (rule keeps_bindS [OF frame [OF untouched_getS]], rule keeps_bindS [OF frame [OF rows]])
         (intro keeps_thenS upd keeps_returnS)
  qed
  show ?thesis
    unfolding invalidate_delivery_candidate_def
    by (intro keeps_intros cancel frame) (auto intro!: frames)
qed

text \<open>The invalidation of a delivery removes no job.\<close>

lemma keeps_jobs_invalidate: "keeps (job_identity.follows j) (invalidate_delivery_candidate h a)"
proof -
  have frame: "keeps (job_identity.follows j) (modifyS (\<lambda>s. s\<lparr>evidence := f s\<rparr>))" for f
    by (rule job_identity.keeps_follows_frame) (simp add: untouched_def modifyS_def core_def)
  have cancel: "keeps (job_identity.follows j) (cancel_assurance_for_delivery d reason)" for d reason
    unfolding cancel_assurance_for_delivery_def cancel_one_def
    by (intro job_identity.keeps_row job_identity.keeps_follows_marks keeps_mapS frame)
  have "keeps (job_identity.follows j) (create_rework d a cs)" for d cs
    unfolding create_rework_def depend_on_def
    by (intro job_identity.keeps_row job_identity.keeps_follows_create job_identity.keeps_follows_depend
        job_identity.keeps_follows_fields keeps_mapS job_identity.keeps_follows_frame [OF untouched_core_insert_invalidation])
  with cancel show ?thesis
    unfolding invalidate_delivery_candidate_def
    by (intro job_identity.keeps_row job_identity.keeps_follows_fields)
qed

lemma followed_jobs:
  assumes "\<And>j. job_identity.follows j s \<Longrightarrow> job_identity.follows j t"
  shows "j_id ` set (jobs s) \<subseteq> j_id ` set (jobs t)"
proof (intro image_subsetI)
  fix j assume "j \<in> set (jobs s)"
  then have "job_identity.follows j s" by (auto simp: job_identity.follows_def same_job_def)
  from assms [OF this] obtain k where "k \<in> set (jobs t)" "j_id k = j_id j" by (auto simp: job_identity.follows_def same_job_def)
  then show "j_id j \<in> j_id ` set (jobs t)" by (metis imageI)
qed

section \<open>Every step keeps assessed results\<close>

interpretation evidence_table: foreign_table evidence
  by unfold_locales simp_all

text \<open>The result of a connection, from the effect of an operation that returns.\<close>

lemma transaction_retains:
  assumes "evidence_inv s" "\<And>x t. m s = (Inr x, t) \<Longrightarrow> evidence_inv t \<and> retains s t"
  shows "evidence_inv (snd (transaction m s)) \<and> retains s (snd (transaction m s))"
proof (cases "m s")
  case (Pair r t)
  then show ?thesis using assms by (cases r) (auto simp: transaction_def retains_def)
qed

lemma evidence_step_retains: "evidence_step s t \<Longrightarrow> evidence_inv s \<Longrightarrow> evidence_inv t \<and> retains s t"
proof (induction rule: evidence_step.induct)
  case (storing s t)
  have "store_inv s" using storing(2) by (simp add: evidence_inv_def)
  then show ?case
    using storing store_step_inv [of s t] job_identity.follows_step [of s t] evidence_table.kept_step [of s t]
    by (intro rewritten_inv revises_refl followed_jobs) auto
next
  case (handing_over s d sha)
  then show ?case
    by (rule transaction_retains)
       (use handing_over handoff_grows in \<open>metis evidence_inv_def grown_inv\<close>)
next
  case (recording s pf dec msg j stdout ref fn)
  then show ?case
  proof (rule transaction_retains)
    fix x t assume run: "process_assurance_worker_success pf dec msg j stdout ref fn s = (Inr x, t)"
    have "\<exists>sha. result_recorded (j_id j) sha x s t"
      using run wlp_apply [OF wlp_record_invalid] wlp_apply [OF wlp_record_verdict]
      unfolding process_assurance_worker_success_def bindS_getS by (auto split: sum.splits) blast+
    then show "evidence_inv t \<and> retains s t" using recorded_inv [OF recording] untouched_eq [OF untouched_core_process run] by blast
  qed
next
  case (recording_legacy s pf j passed verdict ref fn summary findings)
  then show ?case
  proof (rule transaction_retains)
    fix x t assume run: "record_assurance_result pf j passed verdict ref fn summary findings s = (Inr x, t)"
    from wlp_apply [OF wlp_record_legacy run] show "evidence_inv t \<and> retains s t"
      using recorded_inv [OF recording_legacy] untouched_eq [OF untouched_core_legacy run] by blast
  qed
next
  case (aggregating s pf j)
  then show ?case
  proof (rule transaction_retains)
    fix x t assume run: "execute_qa_manager_aggregation pf j s = (Inr x, t)"
    from wlp_apply [OF wlp_aggregation run] show "evidence_inv t \<and> retains s t"
      using recorded_inv [OF aggregating] untouched_eq [OF untouched_core_aggregation run] by blast
  qed
next
  case (repeating s pf ctx pid root sha rid roles)
  then show ?case
    by (rule transaction_retains)
       (use repeating repeated_grows in \<open>metis evidence_inv_def grown_inv\<close>)
next
  case (invalidating s h a)
  then show ?case
  proof (rule transaction_retains)
    fix x t assume run: "invalidate_delivery_candidate h a s = (Inr x, t)"
    show "evidence_inv t \<and> retains s t"
      using invalidating
    proof (rule rewritten_inv)
      show "store_inv t" using keeps_eq [OF keeps_invalidate _ run] invalidating by (simp add: evidence_inv_def)
      show "j_id ` set (jobs s) \<subseteq> j_id ` set (jobs t)" by (rule followed_jobs) (rule keeps_eq [OF keeps_jobs_invalidate _ run])
      show "revises s t" by (rule keeps_eq [OF keeps_revises_invalidate revises_refl [OF refl] run])
    qed
  qed
next
  case (tagging s ids sha rid cycle)
  then show ?case
  proof (rule transaction_retains)
    fix x t assume run: "tag_evidence_run ids sha rid cycle s = (Inr x, t)"
    have "revises s t" "core t = core s"
      using run by (auto simp: tag_evidence_run_def returnS_def modifyS_def revises_def list_all2_same update_where_def
          list_all2_map2 evidence_key_def core_def split: if_splits)
    then show "evidence_inv t \<and> retains s t"
      using tagging store_inv_core [of s t] by (intro rewritten_inv) (auto simp: evidence_inv_def core_def)
  qed
next
  case (other t s)
  then show ?case
    using store_inv_core [of s t] by (intro rewritten_inv revises_refl) (auto simp: evidence_inv_def core_def)
qed

interpretation evidence_machine: invariant_machine store_start evidence_step evidence_inv
proof unfold_locales
  show "store_start s \<Longrightarrow> evidence_inv s" for s
    using store_machine.inv_start [of s] by (auto simp: store_start_def evidence_inv_def empty_db_def)
qed (use evidence_step_retains in blast)

lemma retains_trans: "retains s t \<Longrightarrow> retains t u \<Longrightarrow> retains s u"
  unfolding retains_def by (metis (no_types, lifting))

lemma evidence_run_retains: "evidence_step\<^sup>*\<^sup>* s t \<Longrightarrow> evidence_inv s \<Longrightarrow> evidence_inv t \<and> retains s t"
proof (induction rule: rtranclp_induct)
  case base
  then show ?case by (auto simp: retains_def)
next
  case (step t u)
  then show ?case using evidence_step_retains [of t u] retains_trans [of s t u] by blast
qed

section \<open>Property\<close>

text \<open>C12: Assessed results are immutable: from a new database on, however hand overs, outputs of assessors, aggregations,
  repeated assessments, invalidations, retests and the operations of the store interleave, a row of evidence whose result is no
  longer pending keeps its id, its job, its candidate and its result, and it stays the only row of that job and candidate.\<close>

theorem assessed_results_are_immutable:
  assumes "reach store_start evidence_step s" "q \<in> set (evidence s)" "q_result q \<in> set TERMINAL_QA_RESULTS" "evidence_step\<^sup>*\<^sup>* s t"
  shows "\<exists>p. {r \<in> set (evidence t). evidence_key r = evidence_key q} = {p} \<and> q_id p = q_id q \<and> q_result p = q_result q"
proof -
  have "evidence_inv t \<and> retains s t" by (rule evidence_run_retains [OF assms(4) evidence_machine.reach_inv [OF assms(1)]])
  then obtain p where p: "p \<in> set (evidence t)" "q_id p = q_id q" "evidence_key p = evidence_key q" "q_result p = q_result q"
      and keys: "inj_on evidence_key (set (evidence t))"
    using assms(2,3) by (auto simp: retains_def evidence_inv_def distinct_map)
  have "r = p" if "r \<in> set (evidence t)" "evidence_key r = evidence_key q" for r
    using inj_onD [OF keys _ that(1) p(1)] that(2) p(3) by simp
  with p(1,3) have "{r \<in> set (evidence t). evidence_key r = evidence_key q} = {p}" by blast
  with p show ?thesis by blast
qed

text \<open>The sample delivery is handed over and then invalidated, so its pending evidence is rejected; the QA manager aggregates.\<close>

definition sample_rejected :: db where
  "sample_rejected = snd (transaction (invalidate_delivery_candidate ''DEL-1'' sample_invalidation) sample_handed)"

lemma sample_rejected_reach: "reach store_start evidence_step sample_rejected"
proof -
  have "reach store_start evidence_step u" if "reach store_start store_step u" for u
    using that by (induction rule: reach.induct) (auto intro: reach_start reach_step storing)
  then have "reach store_start evidence_step sample_handed"
    unfolding sample_handed_def using sample_deliveries_reach evidence_step.handing_over by (blast intro: reach_step)
  then show ?thesis unfolding sample_rejected_def using evidence_step.invalidating by (blast intro: reach_step)
qed

theorem assessed_results_are_immutable_witness:
  "\<exists>q p. q \<in> set (evidence sample_rejected) \<and> q_result q = ''stale_rejected'' \<and> q_id p = q_id q \<and> q_result p = ''stale_rejected'' \<and>
    p \<in> set (evidence (snd (transaction (execute_qa_manager_aggregation sample_policy (last (jobs sample_handed))) sample_rejected)))"
proof -
  let ?q = "hd (evidence sample_rejected)"
  let ?t = "snd (transaction (execute_qa_manager_aggregation sample_policy (last (jobs sample_handed))) sample_rejected)"
  have rows: "map q_result (evidence sample_rejected) = replicate 5 ''stale_rejected''" by code_simp
  then have "evidence sample_rejected \<noteq> []" by auto
  then have q: "?q \<in> set (evidence sample_rejected)" "q_result ?q = ''stale_rejected''" "q_result ?q \<in> set TERMINAL_QA_RESULTS"
    using arg_cong [OF rows, of hd] by (simp_all add: hd_map TERMINAL_QA_RESULTS_def)
  have "evidence_step\<^sup>*\<^sup>* sample_rejected ?t" by (rule r_into_rtranclp) (rule aggregating)
  from assessed_results_are_immutable [OF sample_rejected_reach q(1,3) this] obtain p where
    p: "{r \<in> set (evidence ?t). evidence_key r = evidence_key ?q} = {p}" "q_id p = q_id ?q" "q_result p = q_result ?q"
    by (elim exE conjE)
  have "p \<in> {r \<in> set (evidence ?t). evidence_key r = evidence_key ?q}" unfolding p(1) by (rule singletonI)
  then have "p \<in> set (evidence ?t)" by (elim CollectE conjE)
  with q(1,2) p(2) p(3) [unfolded q(2)] show ?thesis by (intro exI conjI)
qed

end
