(* ===== verification/Release_Provenance.thy ===== *)
theory Release_Provenance
  imports Assurance_Props
begin

text \<open>
  \<^verbatim>\<open>release_provenance.py\<close>: which integrated candidate a RELEASE job is about, and when it may run. The reads
  raise when a dependency names a job that does not exist (\<open>get_job\<close>), so they are functions into a sum; the lemmas show that
  this never happens in a reachable store, and that the reads decide \<open>release_ready\<close>, a predicate over the tables.
\<close>

section \<open>Reads\<close>

definition INVALID_OUTCOMES :: "string list" where
  "INVALID_OUTCOMES = [''INVALIDATED'', ''SUPERSEDED'', ''NO_CHANGE'']"

definition invalid_outcome :: "job \<Rightarrow> bool" where
  "invalid_outcome j \<longleftrightarrow> (case j_outcome j of None \<Rightarrow> False | Some oc \<Rightarrow> oc \<in> set INVALID_OUTCOMES)"

definition identity_matches :: "job \<Rightarrow> job \<Rightarrow> bool" where
  "identity_matches integration release \<longleftrightarrow> j_project_human_id integration = j_project_human_id release \<and>
     j_iteration_human_id integration = j_iteration_human_id release"

text \<open>The dict keeps the last row of a role.\<close>

definition results_by_role :: "int \<Rightarrow> string \<Rightarrow> db \<Rightarrow> dict" where
  "results_by_role delivery sha s = dict_update [] (map (\<lambda>q. (q_assurance_role q, JStr (q_result q)))
     (filter (\<lambda>q. q_delivery_job_id q = delivery \<and> q_candidate_git_sha q = sha) (evidence s)))"

definition delivery_qa_passed :: "job \<Rightarrow> db \<Rightarrow> bool" where
  "delivery_qa_passed d s \<longleftrightarrow> truthy_str (j_candidate_git_sha d) \<and>
     (\<forall>role \<in> set REQUIRED_ASSURANCE. dict_get (results_by_role (j_id d) (str_of (j_candidate_git_sha d)) s) role = JStr ''pass'') \<and>
     (case get_job_by_human_id (j_human_id d @ ''__QA_MANAGER'') s of None \<Rightarrow> False | Some m \<Rightarrow> j_status m = SUCCEEDED)"

fun deliveries_passed :: "int list \<Rightarrow> db \<Rightarrow> exn + bool" where
  "deliveries_passed [] s = Inr True"
| "deliveries_passed (d # ds) s =
     (case job_by_id d s of
        None \<Rightarrow> Inl OrchestrationError
      | Some dep \<Rightarrow>
          if j_queue dep \<noteq> ''DELIVERY'' then deliveries_passed ds s
          else if \<not> job_satisfies_dependency dep then Inr False
          else if \<not> delivery_qa_passed dep s then Inr False
          else deliveries_passed ds s)"

definition integration_qa_gates_satisfied :: "job \<Rightarrow> db \<Rightarrow> exn + bool" where
  "integration_qa_gates_satisfied integration s = deliveries_passed (list_job_dependencies (j_id integration) s) s"

definition integrated :: "job \<Rightarrow> job \<Rightarrow> bool" where
  "integrated dep release \<longleftrightarrow> j_queue dep = ''INTEGRATION'' \<and> j_status dep = SUCCEEDED \<and> \<not> invalid_outcome dep \<and>
     truthy_str (j_candidate_git_sha dep) \<and> identity_matches dep release"

definition integration_allows_release :: "job \<Rightarrow> job \<Rightarrow> db \<Rightarrow> exn + bool" where
  "integration_allows_release integration release s =
     (if integrated integration release then integration_qa_gates_satisfied integration s else Inr False)"

fun some_integration_allows :: "job \<Rightarrow> int list \<Rightarrow> db \<Rightarrow> exn + bool" where
  "some_integration_allows release [] s = Inr False"
| "some_integration_allows release (d # ds) s =
     (case job_by_id d s of
        None \<Rightarrow> Inl OrchestrationError
      | Some dep \<Rightarrow>
          if j_queue dep \<noteq> ''INTEGRATION'' then some_integration_allows release ds s
          else (case integration_allows_release dep release s of
              Inl e \<Rightarrow> Inl e
            | Inr ok \<Rightarrow> if ok then Inr True else some_integration_allows release ds s))"

definition release_prerequisites_met :: "job \<Rightarrow> db \<Rightarrow> exn + bool" where
  "release_prerequisites_met release s =
     (if j_queue release \<noteq> ''RELEASE'' then Inr True
      else some_integration_allows release (list_job_dependencies (j_id release) s) s)"

text \<open>The entries of the dict \<^verbatim>\<open>found\<close>, in the order they are written.\<close>

fun integration_candidates :: "job \<Rightarrow> int list \<Rightarrow> db \<Rightarrow> exn + (string \<times> int) list" where
  "integration_candidates release [] s = Inr []"
| "integration_candidates release (d # ds) s =
     (case job_by_id d s of
        None \<Rightarrow> Inl OrchestrationError
      | Some dep \<Rightarrow>
          if integrated dep release
          then map_sum id (\<lambda>rest. (str_of (j_candidate_git_sha dep), j_id dep) # rest) (integration_candidates release ds s)
          else integration_candidates release ds s)"

definition resolve_integrated_candidate :: "job \<Rightarrow> db \<Rightarrow> exn + (int option \<times> string option)" where
  "resolve_integrated_candidate release s =
     (case integration_candidates release (list_job_dependencies (j_id release) s) s of
        Inl e \<Rightarrow> Inl e
      | Inr found \<Rightarrow>
          (case remdups (map fst found) of
             [] \<Rightarrow> Inr (if truthy_str (j_source_candidate_sha release)
                       then (j_source_delivery_job_id release, j_source_candidate_sha release) else (None, None))
           | [sha] \<Rightarrow> Inr (Some (snd (last found)), Some sha)
           | _ \<Rightarrow> Inl OrchestrationError))"

section \<open>Operations\<close>

definition bound_payload :: "int option \<Rightarrow> string option \<Rightarrow> dict" where
  "bound_payload integ sha = [(''source_integration_job_id'', case integ of None \<Rightarrow> JNull | Some i \<Rightarrow> JInt i), (''source_candidate_sha'', opt_json sha)]"

definition bind_candidate :: "job \<Rightarrow> int option \<Rightarrow> string option \<Rightarrow> job dbop" where
  "bind_candidate release integ sha =
     bindS (set_job_source_provenance (j_id release) integ sha) (\<lambda>updated.
     thenS (append_run_event (j_id release) ''release.candidate_bound'' (Some (job_status_text (j_status release)))
              (Some (''Bound RELEASE to integrated candidate '' @ str_of sha)) (Some (bound_payload integ sha)))
       (returnS updated))"

definition bind_release_provenance :: "job \<Rightarrow> job dbop" where
  "bind_release_provenance release =
     (if j_queue release \<noteq> ''RELEASE'' then returnS release
      else bindS (bindS (getS (release_prerequisites_met release)) liftS) (\<lambda>ok.
        thenS (guardS ok OrchestrationError)
        (bindS (bindS (getS (resolve_integrated_candidate release)) liftS) (\<lambda>(integ, sha).
         thenS (guardS (truthy_str sha) OrchestrationError)
         (if j_source_candidate_sha release = sha \<and> j_source_delivery_job_id release = integ then returnS release
          else bind_candidate release integ sha)))))"

definition bind_sha_from_integration :: "job \<Rightarrow> job \<Rightarrow> unit dbop" where
  "bind_sha_from_integration release integration =
     (if \<not> truthy_str (j_candidate_git_sha integration) then returnS ()
      else if j_source_candidate_sha release = j_candidate_git_sha integration \<and>
              j_source_delivery_job_id release = Some (j_id integration) then returnS ()
      else thenS (bind_candidate release (Some (j_id integration)) (j_candidate_git_sha integration)) (returnS ()))"

definition queued_releases :: "string option \<Rightarrow> string option \<Rightarrow> db \<Rightarrow> job list" where
  "queued_releases pid iter s = sort_key j_id (filter (\<lambda>j. j_queue j = ''RELEASE'' \<and> j_status j = QUEUED \<and>
     (case pid of None \<Rightarrow> True | Some p \<Rightarrow> j_project_human_id j = p) \<and>
     (case iter of None \<Rightarrow> True | Some i \<Rightarrow> j_iteration_human_id j = Some i)) (jobs s))"

definition promote_release :: "int \<Rightarrow> string list dbop" where
  "promote_release i =
     bindS (get_job i) (\<lambda>rel.
     bindS (bindS (getS (release_prerequisites_met rel)) liftS) (\<lambda>ok.
     if \<not> ok then returnS []
     else thenS (bind_release_provenance rel)
       (bindS (promote_queued_to_ready i
          ''RELEASE promoted to READY after INTEGRATION SUCCEEDED with a valid candidate and satisfied QA gates'') (\<lambda>updated.
        returnS (if j_status updated = READY then [j_human_id updated] else [])))))"

definition promote_eligible_release_jobs :: "string option \<Rightarrow> string option \<Rightarrow> string list dbop" where
  "promote_eligible_release_jobs pid iter =
     bindS (getS (\<lambda>s. map j_id (queued_releases pid iter s))) (\<lambda>ids.
     bindS (mapS promote_release ids) (\<lambda>promoted. returnS (concat promoted)))"

definition bind_dependent :: "job \<Rightarrow> int \<Rightarrow> string list dbop" where
  "bind_dependent integration i =
     bindS (get_job i) (\<lambda>rel.
     if j_queue rel \<noteq> ''RELEASE'' \<or> j_status rel \<notin> {READY, QUEUED} \<or> \<not> identity_matches integration rel then returnS []
     else thenS (bind_sha_from_integration rel integration) (returnS [j_human_id rel]))"

definition bind_dependent_release_jobs :: "job \<Rightarrow> string list dbop" where
  "bind_dependent_release_jobs integration =
     (if j_queue integration \<noteq> ''INTEGRATION'' \<or> j_status integration \<noteq> SUCCEEDED \<or>
         \<not> truthy_str (j_candidate_git_sha integration) \<or> invalid_outcome integration then returnS []
      else bindS (getS (list_dependent_job_ids (j_id integration))) (\<lambda>ids.
        bindS (mapS (bind_dependent integration) ids) (\<lambda>bound.
        thenS (promote_eligible_release_jobs (Some (j_project_human_id integration)) (j_iteration_human_id integration))
          (returnS (concat bound)))))"

section \<open>The reads decide a predicate over the tables\<close>

definition depends_on :: "db \<Rightarrow> job \<Rightarrow> job \<Rightarrow> bool" where
  "depends_on s j k \<longleftrightarrow> k \<in> set (jobs s) \<and> (j_id j, j_id k) \<in> set (deps s)"

definition candidate_of :: "db \<Rightarrow> job \<Rightarrow> job \<Rightarrow> bool" where
  "candidate_of s release i \<longleftrightarrow> depends_on s release i \<and> integrated i release"

text \<open>Integration \<open>i\<close> is a candidate of the release and every delivery it integrates passed its QA.\<close>

definition releasable :: "db \<Rightarrow> job \<Rightarrow> job \<Rightarrow> bool" where
  "releasable s release i \<longleftrightarrow> candidate_of s release i \<and>
     (\<forall>d. depends_on s i d \<and> j_queue d = ''DELIVERY'' \<longrightarrow> job_satisfies_dependency d \<and> delivery_qa_passed d s)"

definition release_ready :: "db \<Rightarrow> job \<Rightarrow> bool" where
  "release_ready s release \<longleftrightarrow> (\<exists>i. releasable s release i)"

lemma job_by_id_iff: "store_inv s \<Longrightarrow> job_by_id i s = Some j \<longleftrightarrow> j \<in> set (jobs s) \<and> j_id j = i"
  unfolding job_by_id_def store_inv_def jobs_keyed_def by (simp add: find_row_Some_key)

lemma dependency_exists:
  assumes "store_inv s" "d \<in> set (list_job_dependencies i s)"
  shows "\<exists>k. job_by_id d s = Some k"
  using assms by (fastforce simp: job_by_id_iff list_job_dependencies_def store_inv_def deps_inside_def)

lemma dependencies_iff:
  assumes "store_inv s"
  shows "(\<exists>d \<in> set (list_job_dependencies (j_id j) s). \<exists>k. job_by_id d s = Some k \<and> P k) \<longleftrightarrow> (\<exists>k. depends_on s j k \<and> P k)"
  using assms by (force simp: job_by_id_iff list_job_dependencies_def depends_on_def)

lemma deliveries_passed_iff:
  assumes "\<forall>d \<in> set ds. \<exists>k. job_by_id d s = Some k"
  shows "deliveries_passed ds s = Inr (\<not> (\<exists>d \<in> set ds. \<exists>k. job_by_id d s = Some k \<and>
    j_queue k = ''DELIVERY'' \<and> \<not> (job_satisfies_dependency k \<and> delivery_qa_passed k s)))"
  using assms by (induction ds) auto

lemma qa_gates_iff:
  assumes "store_inv s"
  shows "integration_qa_gates_satisfied i s =
    Inr (\<forall>d. depends_on s i d \<and> j_queue d = ''DELIVERY'' \<longrightarrow> job_satisfies_dependency d \<and> delivery_qa_passed d s)"
  unfolding integration_qa_gates_satisfied_def
  by (subst deliveries_passed_iff) (use assms dependencies_iff [OF assms] in \<open>auto simp: dependency_exists\<close>)

lemma some_integration_allows_iff:
  assumes "store_inv s" "\<forall>d \<in> set ds. \<exists>k. job_by_id d s = Some k"
  shows "some_integration_allows release ds s = Inr (\<exists>d \<in> set ds. \<exists>k. job_by_id d s = Some k \<and> integrated k release \<and>
    (\<forall>d. depends_on s k d \<and> j_queue d = ''DELIVERY'' \<longrightarrow> job_satisfies_dependency d \<and> delivery_qa_passed d s))"
  using assms(2)
  by (induction ds) (auto simp: integration_allows_release_def qa_gates_iff [OF assms(1)] integrated_def split: option.splits)

theorem prerequisites_iff:
  assumes "store_inv s"
  shows "release_prerequisites_met release s = Inr (j_queue release = ''RELEASE'' \<longrightarrow> release_ready s release)"
  unfolding release_prerequisites_met_def
  by (auto simp: some_integration_allows_iff [OF assms] dependency_exists [OF assms] dependencies_iff [OF assms] release_ready_def
      releasable_def candidate_of_def)

lemma candidates_eq:
  assumes "\<forall>d \<in> set ds. \<exists>k. job_by_id d s = Some k"
  shows "\<exists>found. integration_candidates release ds s = Inr found \<and>
    (\<forall>sha i. (sha, i) \<in> set found \<longleftrightarrow> (\<exists>d \<in> set ds. \<exists>k. job_by_id d s = Some k \<and> integrated k release \<and>
      j_candidate_git_sha k = Some sha \<and> j_id k = i))"
  using assms
proof (induction ds)
  case (Cons d ds)
  then obtain found k where "integration_candidates release ds s = Inr found" "job_by_id d s = Some k"
    "\<forall>sha i. (sha, i) \<in> set found \<longleftrightarrow> (\<exists>d \<in> set ds. \<exists>k. job_by_id d s = Some k \<and> integrated k release \<and>
      j_candidate_git_sha k = Some sha \<and> j_id k = i)" by auto
  then show ?case by (cases "j_candidate_git_sha k") (auto simp: integrated_def str_of_def)
qed simp

lemma set_candidates:
  assumes "store_inv s" "integration_candidates release (list_job_dependencies (j_id release) s) s = Inr found"
  shows "(sha, i) \<in> set found \<longleftrightarrow> (\<exists>k. candidate_of s release k \<and> j_candidate_git_sha k = Some sha \<and> j_id k = i)"
  unfolding candidate_of_def conj_assoc using candidates_eq [of "list_job_dependencies (j_id release) s" s release] assms
  unfolding dependencies_iff [OF assms(1), symmetric] by (auto simp: dependency_exists)

lemma candidate_sha: "candidate_of s release k \<Longrightarrow> \<exists>sha. j_candidate_git_sha k = Some sha"
  by (cases "j_candidate_git_sha k") (auto simp: candidate_of_def integrated_def)

lemma remdups_singleD: "remdups xs = [x] \<Longrightarrow> set xs = {x}"
  by (metis empty_set list.simps(15) set_remdups)

lemma resolve_bound:
  assumes inv: "store_inv s" and i: "releasable s release i" and r: "resolve_integrated_candidate release s = Inr (integ, sha)"
  shows "sha = j_candidate_git_sha i \<and> (\<exists>m. candidate_of s release m \<and> integ = Some (j_id m)) \<and>
    (\<forall>n. candidate_of s release n \<longrightarrow> j_candidate_git_sha n = sha)"
proof -
  obtain found where found: "integration_candidates release (list_job_dependencies (j_id release) s) s = Inr found"
    using r by (auto simp: resolve_integrated_candidate_def split: sum.splits)
  note cand = set_candidates [OF inv found]
  obtain c where c: "j_candidate_git_sha i = Some c" using i candidate_sha unfolding releasable_def by blast
  have mem: "(c, j_id i) \<in> set found" using i c by (auto simp: cand releasable_def)
  then have ne: "found \<noteq> []" by auto
  then obtain sh where sh: "remdups (map fst found) = [sh]" "integ = Some (snd (last found))" "sha = Some sh"
    using r found by (auto simp: resolve_integrated_candidate_def split: list.splits)
  have all: "fst ` set found = {sh}" using remdups_singleD [OF sh(1)] by simp
  have last: "last found \<in> set found" using ne by simp
  then have "fst (last found) = sh" using all by blast
  then have "last found = (sh, snd (last found))" by (simp add: prod_eq_iff)
  with last have "(sh, snd (last found)) \<in> set found" by argo
  then obtain m where "candidate_of s release m" "j_candidate_git_sha m = Some sh" "j_id m = snd (last found)"
    unfolding cand by blast
  moreover have "c = sh" using mem all by force
  moreover have "j_candidate_git_sha n = Some sh" if n: "candidate_of s release n" for n
  proof -
    obtain d where d: "j_candidate_git_sha n = Some d" using candidate_sha [OF n] by blast
    then have "(d, j_id n) \<in> set found" using n by (auto simp: cand)
    then have "d = sh" using all by force
    with d show ?thesis by simp
  qed
  ultimately show ?thesis using sh c by auto
qed

section \<open>What binding and promoting do\<close>

text \<open>The row of a release after it is bound to an integrated candidate whose deliveries passed, and after it is promoted.\<close>

definition bound_row :: "db \<Rightarrow> job \<Rightarrow> job \<Rightarrow> bool" where
  "bound_row s release k \<longleftrightarrow> (\<exists>i m now. releasable s release i \<and> candidate_of s release m \<and>
     (\<forall>n. candidate_of s release n \<longrightarrow> j_candidate_git_sha n = j_candidate_git_sha i) \<and>
     k = release\<lparr>j_source_delivery_job_id := Some (j_id m), j_source_candidate_sha := j_candidate_git_sha i, j_updated_at := now\<rparr>)"

definition promoted_row :: "db \<Rightarrow> job \<Rightarrow> job \<Rightarrow> bool" where
  "promoted_row s release k \<longleftrightarrow> (\<exists>b now. bound_row s release b \<and> k = queued_ready_row now b)"

text \<open>Everything but the rows of jobs.\<close>

definition around_jobs :: "db \<Rightarrow> (int \<times> int) list \<times> qa_evidence list \<times> int \<times> worker_lease list \<times> moment" where
  "around_jobs s = (deps s, evidence s, job_seq s, leases s, clk s)"

lemma untouched_around_event: "untouched (\<lambda>s. (jobs s, around_jobs s)) (append_run_event i e st m p)"
  unfolding append_run_event_def job_project_human_id_def Let_def by (intro frames) (simp add: around_jobs_def)

lemma update_where_const:
  assumes "distinct (map key rs)" "r \<in> set rs" "key r = k"
  shows "update_where (\<lambda>x. key x = k) f rs = update_where (\<lambda>x. key x = k) (\<lambda>_. f r) rs"
  unfolding update_where_def by (rule map_cong [OF refl]) (use assms in \<open>auto simp: distinct_map inj_on_def\<close>)

lemma update_where_refl:
  assumes "distinct (map key rs)" "r \<in> set rs" "key r = k"
  shows "update_where (\<lambda>x. key x = k) (\<lambda>_. r) rs = rs"
  unfolding update_where_def by (rule map_idI) (use assms in \<open>auto simp: distinct_map inj_on_def\<close>)

lemma wlp_bind_release:
  assumes inv: "store_inv s" and rel: "job_by_id (j_id release) s = Some release" and q: "j_queue release = ''RELEASE''"
  shows "wlp (bind_release_provenance release) (\<lambda>_ t. \<exists>k. bound_row s release k \<and>
     jobs t = update_where (\<lambda>j. j_id j = j_id release) (\<lambda>_. k) (jobs s) \<and> around_jobs t = around_jobs s) s"
proof -
  have keyed: "distinct (map j_id (jobs s))" and mem: "release \<in> set (jobs s)"
    using inv rel by (simp_all add: store_inv_def jobs_keyed_def job_by_id_iff)
  have bound: "wlp (bind_candidate release integ sha) (\<lambda>_ t. \<exists>k. bound_row s release k \<and>
      jobs t = update_where (\<lambda>j. j_id j = j_id release) (\<lambda>_. k) (jobs s) \<and> around_jobs t = around_jobs s) s"
    if res: "resolve_integrated_candidate release s = Inr (integ, sha)" and able: "releasable s release i" for integ sha i
  proof -
    obtain m where m: "candidate_of s release m" "integ = Some (j_id m)" "sha = j_candidate_git_sha i"
        "\<forall>n. candidate_of s release n \<longrightarrow> j_candidate_git_sha n = sha"
      using resolve_bound [OF inv able res] by blast
    let ?k = "provenance_row integ sha (now_iso s) release"
    have "bound_row s release ?k" using m able by (auto simp: bound_row_def provenance_row_def)
    moreover have "update_where (\<lambda>j. j_id j = j_id release) (provenance_row integ sha (now_iso s)) (jobs s) =
        update_where (\<lambda>j. j_id j = j_id release) (\<lambda>_. ?k) (jobs s)" by (rule update_where_const [OF keyed mem refl])
    ultimately have row: "\<exists>k. bound_row s release k \<and> update_where (\<lambda>j. j_id j = j_id release) (provenance_row integ sha (now_iso s)) (jobs s) =
        update_where (\<lambda>j. j_id j = j_id release) (\<lambda>_. k) (jobs s)" by blast
    show ?thesis
      unfolding bind_candidate_def m(2)
      by (rule wlp_bindI [OF wlp_source_provenance], rule wlp_thenI [OF wlp_frame [OF untouched_around_event]])
         (use row in \<open>simp add: wlp_simps around_jobs_def m(2)\<close>)
  qed
  have same: "\<exists>k. bound_row s release k \<and> jobs s = update_where (\<lambda>j. j_id j = j_id release) (\<lambda>_. k) (jobs s)"
    if res: "resolve_integrated_candidate release s = Inr (j_source_delivery_job_id release, j_source_candidate_sha release)"
      and able: "releasable s release i" for i
  proof -
    obtain m where m: "candidate_of s release m" "j_source_delivery_job_id release = Some (j_id m)"
        "j_source_candidate_sha release = j_candidate_git_sha i"
        "\<forall>n. candidate_of s release n \<longrightarrow> j_candidate_git_sha n = j_source_candidate_sha release"
      using resolve_bound [OF inv able res] by blast
    have "release = release\<lparr>j_source_delivery_job_id := Some (j_id m), j_source_candidate_sha := j_candidate_git_sha i,
        j_updated_at := j_updated_at release\<rparr>"
      unfolding m(2,3) [symmetric] by simp
    with m able have "bound_row s release release" unfolding bound_row_def by metis
    then show ?thesis using update_where_refl [OF keyed mem refl] by metis
  qed
  show ?thesis
    unfolding bind_release_provenance_def using q bound same
    by (auto simp: wlp_simps prerequisites_iff [OF inv] release_ready_def split: prod.split)
qed

lemma bound_row_fields:
  assumes "bound_row s release k"
  shows "j_id k = j_id release" "j_status k = j_status release" "j_queue k = j_queue release"
  using assms by (auto simp: bound_row_def)

lemma keeps_bind_release: "keeps store_inv (bind_release_provenance release)"
  unfolding bind_release_provenance_def bind_candidate_def case_prod_beta
  by (intro keeps_intros keeps_set_job_source_provenance keeps_store_inv_frame frames)

lemma keeps_promote_release: "keeps store_inv (promote_release i)"
  unfolding promote_release_def
  by (intro keeps_intros keeps_bind_release keeps_promote_queued keeps_store_inv_frame frames)

lemma wlp_get_job: "(\<And>j. job_by_id i s = Some j \<Longrightarrow> Q j s) \<Longrightarrow> wlp (get_job i) Q s"
  by (auto simp: get_job_def wlp_simps split: option.split)

lemma wlp_promote_queued:
  assumes k: "job_by_id i s = Some k" "j_status k = QUEUED" and inv: "store_inv s"
  shows "wlp (promote_queued_to_ready i reason) (\<lambda>u t. (\<exists>now. u = queued_ready_row now k) \<and>
     jobs t = update_where (\<lambda>j. j_id j = i) (\<lambda>_. u) (jobs s) \<and> around_jobs t = around_jobs s) s"
proof -
  let ?u = "queued_ready_row (now_iso s) k"
  have mem: "k \<in> set (jobs s)" "j_id k = i" and keyed: "distinct (map j_id (jobs s))"
    using k inv by (simp_all add: job_by_id_iff store_inv_def jobs_keyed_def)
  have rows: "update_where (\<lambda>j. j_id j = i \<and> j_status j = QUEUED) (queued_ready_row now) (jobs s) =
      update_where (\<lambda>j. j_id j = i) (\<lambda>_. queued_ready_row now k) (jobs s)" for now
    unfolding update_where_def
    by (rule map_cong [OF refl]) (use mem keyed k(2) in \<open>auto simp: distinct_map inj_on_def\<close>)
  have found: "find_row (\<lambda>j. j_id j = i) (update_where (\<lambda>j. j_id j = i) (\<lambda>_. ?u) (jobs s)) = Some ?u"
    by (rule find_row_update_const) (use k mem in \<open>auto simp: queued_ready_row_def job_by_id_def\<close>)
  show ?thesis
    unfolding promote_queued_to_ready_def
    by (rule wlp_bindI [OF wlp_get_job [where Q = "\<lambda>j t. j = k \<and> t = s"]], use k in simp)
       (auto simp: wlp_simps k(2) rows found around_jobs_def job_by_id_def
         intro!: wlp_mono [OF wlp_frame [OF untouched_around_event]] wlp_get_job)
qed

lemma job_by_id_updated:
  assumes "jobs t = update_where (\<lambda>j. j_id j = i) (\<lambda>_. k) (jobs s)" "job_by_id i s = Some j" "j_id k = i"
  shows "job_by_id i t = Some k"
  using find_row_update_const [of "\<lambda>j. j_id j = i" k "jobs s"] assms by (simp add: job_by_id_def)

lemma update_where_again: "p c \<Longrightarrow> update_where p (\<lambda>_. d) (update_where p (\<lambda>_. c) rs) = update_where p (\<lambda>_. d) rs"
  by (simp add: update_where_def)

text \<open>Promoting one queued release: it happens exactly when the release is ready.\<close>

lemma wlp_promote_release:
  assumes inv: "store_inv s" and rel: "job_by_id i s = Some release" "j_queue release = ''RELEASE''" "j_status release = QUEUED"
  shows "wlp (promote_release i) (\<lambda>ps t. store_inv t \<and> around_jobs t = around_jobs s \<and>
     (if release_ready s release
      then ps = [j_human_id release] \<and> (\<exists>k. promoted_row s release k \<and> jobs t = update_where (\<lambda>j. j_id j = i) (\<lambda>_. k) (jobs s))
      else ps = [] \<and> jobs t = jobs s)) s"
proof -
  have id: "j_id release = i" using rel inv by (simp add: job_by_id_iff)
  let ?Q = "\<lambda>ps t. around_jobs t = around_jobs s \<and> (if release_ready s release
      then ps = [j_human_id release] \<and> (\<exists>k. promoted_row s release k \<and> jobs t = update_where (\<lambda>j. j_id j = i) (\<lambda>_. k) (jobs s))
      else ps = [] \<and> jobs t = jobs s)"
  have promote: "wlp (bindS (promote_queued_to_ready i reason) (\<lambda>u. returnS (if j_status u = READY then [j_human_id u] else []))) ?Q t"
    if b: "bound_row s release b" "jobs t = update_where (\<lambda>j. j_id j = j_id release) (\<lambda>_. b) (jobs s)"
      "around_jobs t = around_jobs s" and t: "store_inv t" and ready: "release_ready s release" for b t reason
  proof (rule wlp_bindI [OF wlp_promote_queued [OF _ _ t]])
    have b': "j_id b = i" "j_human_id b = j_human_id release" "j_status b = QUEUED" using b(1) rel(3) id by (auto simp: bound_row_def)
    show "job_by_id i t = Some b" "j_status b = QUEUED" using b(2) rel(1) b' id by (auto intro: job_by_id_updated)
    fix u v assume u: "(\<exists>now. u = queued_ready_row now b) \<and> jobs v = update_where (\<lambda>j. j_id j = i) (\<lambda>_. u) (jobs t) \<and>
        around_jobs v = around_jobs t"
    then have "promoted_row s release u" "j_status u = READY" "j_human_id u = j_human_id release"
      using b(1) b' by (auto simp: promoted_row_def queued_ready_row_def)
    then show "wlp (returnS (if j_status u = READY then [j_human_id u] else [])) ?Q v"
      using u b ready b' id by (auto simp: wlp_simps update_where_again)
  qed
  have "wlp (promote_release i) ?Q s"
    unfolding promote_release_def
  proof (rule wlp_bindI [OF wlp_get_job [where Q = "\<lambda>j t. j = release \<and> t = s"]])
    fix x t assume "x = release \<and> t = s"
    moreover have "wlp (thenS (bind_release_provenance release) (bindS (promote_queued_to_ready i reason)
        (\<lambda>u. returnS (if j_status u = READY then [j_human_id u] else [])))) ?Q s" if "release_ready s release" for reason
      by (rule wlp_thenI [OF wlp_conj [OF wlp_bind_release wlp_keeps [OF keeps_bind_release]]])
         (use rel id inv that promote in auto)
    ultimately show "wlp (bindS (bindS (getS (release_prerequisites_met x)) liftS) (\<lambda>ok.
        if \<not> ok then returnS [] else thenS (bind_release_provenance x) (bindS (promote_queued_to_ready i
          ''RELEASE promoted to READY after INTEGRATION SUCCEEDED with a valid candidate and satisfied QA gates'')
          (\<lambda>updated. returnS (if j_status updated = READY then [j_human_id updated] else []))))) ?Q t"
      by (auto simp: wlp_simps prerequisites_iff [OF inv] rel(2))
  qed (use rel in simp)
  from wlp_conj [OF wlp_keeps [OF keeps_promote_release inv] this] show ?thesis by (rule wlp_mono) simp
qed

section \<open>Promoting all queued releases\<close>

text \<open>Only rows of RELEASE jobs change, and none of them is or becomes SUCCEEDED: no release becomes ready or stops being ready.\<close>

definition release_move :: "job \<Rightarrow> job \<Rightarrow> bool" where
  "release_move j k \<longleftrightarrow> k = j \<or> j_queue j = ''RELEASE'' \<and> j_queue k = ''RELEASE'' \<and> j_human_id k = j_human_id j \<and>
     j_status j \<noteq> SUCCEEDED \<and> j_status k \<noteq> SUCCEEDED"

definition releases_moved :: "db \<Rightarrow> db \<Rightarrow> bool" where
  "releases_moved s t \<longleftrightarrow> deps t = deps s \<and> evidence t = evidence s \<and> list_all2 release_move (jobs s) (jobs t)"

lemma moved_member:
  "list_all2 release_move js ks \<Longrightarrow> j_queue j \<noteq> ''RELEASE'' \<Longrightarrow> j \<in> set js \<longleftrightarrow> j \<in> set ks"
  by (induction rule: list_all2_induct) (auto simp: release_move_def)

lemma moved_manager:
  "list_all2 release_move js ks \<Longrightarrow>
   (case find_row (\<lambda>j. j_human_id j = h) js of None \<Rightarrow> False | Some m \<Rightarrow> j_status m = SUCCEEDED) \<longleftrightarrow>
   (case find_row (\<lambda>j. j_human_id j = h) ks of None \<Rightarrow> False | Some m \<Rightarrow> j_status m = SUCCEEDED)"
  by (induction rule: list_all2_induct) (auto simp: release_move_def split: option.splits)

lemma moved_depends_on:
  assumes "releases_moved s t" "j_queue k \<noteq> ''RELEASE''"
  shows "depends_on t j k \<longleftrightarrow> depends_on s j k"
  using moved_member [of "jobs s" "jobs t" k] assms by (simp add: releases_moved_def depends_on_def)

lemma moved_delivery:
  assumes "releases_moved s t"
  shows "delivery_qa_passed d t \<longleftrightarrow> delivery_qa_passed d s"
  using assms moved_manager [of "jobs s" "jobs t" "j_human_id d @ ''__QA_MANAGER''"]
  by (simp add: delivery_qa_passed_def get_job_by_human_id_def results_by_role_def releases_moved_def)

lemma moved_candidate:
  assumes "releases_moved s t"
  shows "candidate_of t release i \<longleftrightarrow> candidate_of s release i"
  using moved_depends_on [OF assms, of i release] by (auto simp: candidate_of_def integrated_def)

lemma moved_releasable:
  assumes "releases_moved s t"
  shows "releasable t release i \<longleftrightarrow> releasable s release i"
proof -
  have "depends_on t i d \<and> j_queue d = ''DELIVERY'' \<longleftrightarrow> depends_on s i d \<and> j_queue d = ''DELIVERY''" for d
    using moved_depends_on [OF assms, of d i] by auto
  then show ?thesis unfolding releasable_def moved_candidate [OF assms] moved_delivery [OF assms] by presburger
qed

lemma moved_ready:
  assumes "releases_moved s t"
  shows "release_ready t j \<longleftrightarrow> release_ready s j" "promoted_row t j k \<longleftrightarrow> promoted_row s j k"
  by (simp_all add: promoted_row_def bound_row_def release_ready_def moved_candidate [OF assms] moved_releasable [OF assms])

lemma promoted_moves: "promoted_row s j k \<Longrightarrow> j_queue j = ''RELEASE'' \<Longrightarrow> j_status j = QUEUED \<Longrightarrow> release_move j k \<and> j_id k = j_id j"
  by (auto simp: promoted_row_def bound_row_def queued_ready_row_def release_move_def)

text \<open>One row after the promotion of the releases with an id in \<open>ids\<close>.\<close>

definition promotion :: "db \<Rightarrow> int set \<Rightarrow> job \<Rightarrow> job \<Rightarrow> bool" where
  "promotion s ids j k \<longleftrightarrow> (if j_id j \<in> ids \<and> release_ready s j then promoted_row s j k else k = j)"

lemma split_by_key:
  assumes "r \<in> set js" "key r = i" "\<And>j. j \<in> set js \<Longrightarrow> key j = i \<Longrightarrow> j = r"
  shows "{j \<in> set js. key j \<in> set (i # ids) \<and> P j} = (if P r then {r} else {}) \<union> {j \<in> set js. key j \<in> set ids \<and> P j}"
proof -
  have key: "{j \<in> set js. key j = i} = {r}" using assms by blast
  have "{j \<in> set js. key j \<in> set (i # ids) \<and> P j} = {j \<in> {j \<in> set js. key j = i}. P j} \<union> {j \<in> set js. key j \<in> set ids \<and> P j}" by auto
  then show ?thesis unfolding key by auto
qed

lemma wlp_promote_releases:
  assumes "store_inv s" "distinct ids"
    "\<forall>i \<in> set ids. \<exists>r. job_by_id i s = Some r \<and> j_queue r = ''RELEASE'' \<and> j_status r = QUEUED"
  shows "wlp (mapS promote_release ids) (\<lambda>ps t. around_jobs t = around_jobs s \<and> list_all2 (promotion s (set ids)) (jobs s) (jobs t) \<and>
    set (concat ps) = j_human_id ` {j \<in> set (jobs s). j_id j \<in> set ids \<and> release_ready s j}) s"
  using assms
proof (induction ids arbitrary: s)
  case Nil
  then show ?case by (simp add: wlp_simps promotion_def list.rel_refl)
next
  case (Cons i ids)
  obtain r where r: "job_by_id i s = Some r" "j_queue r = ''RELEASE''" "j_status r = QUEUED" using Cons.prems(3) by auto
  have keyed: "distinct (map j_id (jobs s))" using Cons.prems(1) by (simp add: store_inv_def jobs_keyed_def)
  have mem: "r \<in> set (jobs s)" "j_id r = i" using r(1) Cons.prems(1) by (simp_all add: job_by_id_iff)
  have uniq: "j = r" if "j \<in> set (jobs s)" "j_id j = i" for j
    using keyed mem that by (auto simp: distinct_map inj_on_def)
  show ?case
    unfolding mapS.simps
  proof (rule wlp_bindI [OF wlp_promote_release [OF Cons.prems(1) r]])
    fix ps u
    assume u: "store_inv u \<and> around_jobs u = around_jobs s \<and> (if release_ready s r
        then ps = [j_human_id r] \<and> (\<exists>k. promoted_row s r k \<and> jobs u = update_where (\<lambda>j. j_id j = i) (\<lambda>_. k) (jobs s))
        else ps = [] \<and> jobs u = jobs s)"
    obtain k where k: "promotion s {i} r k" "jobs u = update_where (\<lambda>j. j_id j = i) (\<lambda>_. k) (jobs s)"
        "ps = (if release_ready s r then [j_human_id r] else [])"
    proof (cases "release_ready s r")
      case True
      with u that mem show ?thesis by (auto simp: promotion_def)
    next
      case False
      then show ?thesis using u that [of r] update_where_refl [OF keyed mem] by (simp add: promotion_def)
    qed
    have step: "release_move r k" "j_id k = i"
      using k(1) promoted_moves [OF _ r(2,3)] mem by (auto simp: promotion_def release_move_def split: if_splits)
    have moved: "releases_moved s u"
      unfolding releases_moved_def k(2) update_where_def list.rel_map
      using u step uniq by (auto simp: around_jobs_def release_move_def intro!: list.rel_refl_strong)
    have rows: "job_by_id i' u = job_by_id i' s" if "i' \<noteq> i" for i'
      unfolding job_by_id_def k(2) by (rule find_row_update_disjoint) (use that step in auto)
    have others: "{j \<in> set (jobs u). j_id j \<in> set ids \<and> release_ready u j} = {j \<in> set (jobs s). j_id j \<in> set ids \<and> release_ready s j}"
      using Cons.prems(2) step mem by (auto simp: moved_ready [OF moved] k(2) set_update_where image_iff)
    have compose: "promotion s (set (i # ids)) j k'" if j: "j \<in> set (jobs s)" "promotion u (set ids) (if j_id j = i then k else j) k'" for j k'
    proof (cases "j_id j = i")
      case True
      then have "j = r" "k' = k" using j uniq step(2) Cons.prems(2) by (simp_all add: promotion_def)
      then show ?thesis using k(1) mem(2) by (simp add: promotion_def)
    next
      case False
      then show ?thesis using j(2) by (auto simp: promotion_def moved_ready [OF moved] split: if_splits)
    qed
    show "wlp (bindS (mapS promote_release ids) (\<lambda>ys. returnS (ps # ys))) (\<lambda>ps t. around_jobs t = around_jobs s \<and>
        list_all2 (promotion s (set (i # ids))) (jobs s) (jobs t) \<and>
        set (concat ps) = j_human_id ` {j \<in> set (jobs s). j_id j \<in> set (i # ids) \<and> release_ready s j}) u"
    proof (rule wlp_bindI [OF Cons.IH])
      show "store_inv u" "distinct ids" using u Cons.prems(2) by auto
      show "\<forall>i \<in> set ids. \<exists>r. job_by_id i u = Some r \<and> j_queue r = ''RELEASE'' \<and> j_status r = QUEUED"
        using Cons.prems(2,3) rows by (metis distinct.simps(2) list.set_intros(2))
      fix qs t
      assume t: "around_jobs t = around_jobs u \<and> list_all2 (promotion u (set ids)) (jobs u) (jobs t) \<and>
        set (concat qs) = j_human_id ` {j \<in> set (jobs u). j_id j \<in> set ids \<and> release_ready u j}"
      have "list_all2 (promotion s (set (i # ids))) (jobs s) (jobs t)"
        by (rule list.rel_mono_strong [OF conjunct1 [OF conjunct2 [OF t], unfolded k(2) update_where_def list.rel_map]])
           (rule compose)
      moreover have "{j \<in> set (jobs s). j_id j \<in> set (i # ids) \<and> release_ready s j} =
          (if release_ready s r then {r} else {}) \<union> {j \<in> set (jobs s). j_id j \<in> set ids \<and> release_ready s j}"
        by (rule split_by_key [where key = j_id, OF mem uniq])
      ultimately show "wlp (returnS (ps # qs)) (\<lambda>ps t. around_jobs t = around_jobs s \<and>
          list_all2 (promotion s (set (i # ids))) (jobs s) (jobs t) \<and>
          set (concat ps) = j_human_id ` {j \<in> set (jobs s). j_id j \<in> set (i # ids) \<and> release_ready s j}) t"
        using t u k(3) by (simp add: wlp_simps others)
    qed
  qed
qed

lemma promotion_rows:
  assumes inv: "store_inv s" and run: "promote_eligible_release_jobs pid iter s = (Inr promoted, t)"
  shows "list_all2 (\<lambda>j k. if j \<in> set (queued_releases pid iter s) \<and> release_ready s j then promoted_row s j k else k = j) (jobs s) (jobs t) \<and>
    set promoted = j_human_id ` {j \<in> set (queued_releases pid iter s). release_ready s j} \<and>
    deps t = deps s \<and> evidence t = evidence s"
proof -
  have keyed: "distinct (map j_id (jobs s))" using inv by (simp add: store_inv_def jobs_keyed_def)
  let ?ids = "map j_id (queued_releases pid iter s)"
  have queued: "j \<in> set (queued_releases pid iter s) \<Longrightarrow> j \<in> set (jobs s) \<and> j_queue j = ''RELEASE'' \<and> j_status j = QUEUED" for j
    by (simp add: queued_releases_def)
  have uniq: "j \<in> set (jobs s) \<Longrightarrow> j_id j \<in> set ?ids \<longleftrightarrow> j \<in> set (queued_releases pid iter s)" for j
    using keyed queued unfolding distinct_map inj_on_def set_map by blast
  have "distinct ?ids" using keyed by (simp add: queued_releases_def distinct_map inj_on_def)
  moreover have "\<forall>i \<in> set ?ids. \<exists>r. job_by_id i s = Some r \<and> j_queue r = ''RELEASE'' \<and> j_status r = QUEUED"
    using queued by (auto simp: job_by_id_iff [OF inv])
  ultimately have ids: "distinct ?ids" "\<forall>i \<in> set ?ids. \<exists>r. job_by_id i s = Some r \<and> j_queue r = ''RELEASE'' \<and> j_status r = QUEUED" .
  obtain ps where "mapS promote_release ?ids s = (Inr ps, t)" "promoted = concat ps"
    using run by (auto simp: promote_eligible_release_jobs_def op_simps bindS_eq_Inr_iff returnS_def)
  with wlp_apply [OF wlp_promote_releases [OF inv ids] this(1)]
  have t: "around_jobs t = around_jobs s" "list_all2 (promotion s (set ?ids)) (jobs s) (jobs t)"
      "set promoted = j_human_id ` {j \<in> set (jobs s). j_id j \<in> set ?ids \<and> release_ready s j}" by simp_all
  have "{j \<in> set (jobs s). j_id j \<in> set ?ids \<and> release_ready s j} = {j \<in> set (queued_releases pid iter s). release_ready s j}"
    using uniq queued by blast
  moreover have "list_all2 (\<lambda>j k. if j \<in> set (queued_releases pid iter s) \<and> release_ready s j then promoted_row s j k else k = j) (jobs s) (jobs t)"
    by (rule list.rel_mono_strong [OF t(2)]) (simp add: promotion_def uniq [unfolded set_map] split: if_splits)
  ultimately show ?thesis using t(1,3) by (simp add: around_jobs_def)
qed

text \<open>C24: A release is promoted exactly when it may run. A promotion that returns makes READY exactly
  the queued RELEASE jobs of the project and iteration that depend on a succeeded, still valid integration of their own
  project and iteration with a candidate, every delivery of which succeeded with a candidate that all four assessors
  passed and the manager aggregated; each is bound to the one candidate of its integrations. Every other job, the
  dependencies and the evidence stay as they are.\<close>

theorem promotion_spec:
  assumes inv: "store_inv s" and run: "promote_eligible_release_jobs pid iter s = (Inr promoted, t)"
  shows "list_all2 (\<lambda>j k. if j \<in> set (queued_releases pid iter s) \<and> release_ready s j then promoted_row s j k else k = j) (jobs s) (jobs t) \<and>
    set promoted = j_human_id ` {j \<in> set (queued_releases pid iter s). release_ready s j} \<and>
    deps t = deps s \<and> evidence t = evidence s"
  by (rule promotion_rows [OF inv run])

text \<open>A release with succeeded integrations of two candidates is never resolved: it stops the promotion of every release
  of the scan, and the transaction it runs in is rolled back.\<close>

lemma ambiguous_release_stops_promotion:
  assumes inv: "store_inv s" and j: "j \<in> set (queued_releases pid iter s)" "release_ready s j"
    and two: "candidate_of s j m" "candidate_of s j n" "j_candidate_git_sha m \<noteq> j_candidate_git_sha n"
  shows "\<exists>e. transaction (promote_eligible_release_jobs pid iter) s = (Inl e, s)"
proof (cases "fst (promote_eligible_release_jobs pid iter s)")
  case (Inl e)
  then show ?thesis by (cases "promote_eligible_release_jobs pid iter s") (simp add: transaction_def)
next
  case (Inr promoted)
  then obtain t where run: "promote_eligible_release_jobs pid iter s = (Inr promoted, t)"
    by (cases "promote_eligible_release_jobs pid iter s") simp
  have "j \<in> set (jobs s)" using j(1) by (simp add: queued_releases_def)
  with list_all2_target [OF conjunct1 [OF promotion_rows [OF inv run]] this] j obtain k where "promoted_row s j k" by auto
  with two show ?thesis by (auto simp: promoted_row_def bound_row_def)
qed

section \<open>Samples\<close>

text \<open>An integration of a delivery that passed, and a queued release of it.\<close>

definition sample_gated :: db where
  "sample_gated = (let row = (\<lambda>h q st i. (new_job_row (job_args_of h ''PRJ-1'' ''/repo'' q q) st i 0)\<lparr>j_candidate_git_sha := Some ''abc''\<rparr>) in
     sample_empty\<lparr>jobs := [row ''DEL-1'' ''DELIVERY'' SUCCEEDED 1, row ''DEL-1__QA_MANAGER'' ''QA_MANAGER'' SUCCEEDED 2,
       row ''INT-1'' ''INTEGRATION'' SUCCEEDED 3, row ''REL-1'' ''RELEASE'' QUEUED 4], job_seq := 4, deps := [(3, 1), (4, 3)],
     evidence := map (\<lambda>role. (sample_evidence 1 ''pass'')\<lparr>q_assurance_role := role\<rparr>) REQUIRED_ASSURANCE\<rparr>)"

lemma sample_gated_inv: "store_inv sample_gated"
  by (simp add: store_inv_defs sample_gated_def sample_empty_def new_job_row_def empty_db_def job_args_of_def holds_lease_def)

lemma sample_promotion: "fst (promote_eligible_release_jobs (Some ''PRJ-1'') None sample_gated) = Inr [''REL-1'']"
  by code_simp

theorem promotion_spec_witness:
  "\<exists>t. promote_eligible_release_jobs (Some ''PRJ-1'') None sample_gated = (Inr [''REL-1''], t) \<and> evidence t = evidence sample_gated"
proof -
  let ?p = "promote_eligible_release_jobs (Some ''PRJ-1'') None sample_gated"
  have run: "?p = (Inr [''REL-1''], snd ?p)" using sample_promotion by (simp add: prod_eq_iff)
  with promotion_spec [OF sample_gated_inv run] show ?thesis by blast
qed

end
