(* ===== verification/Learning.thy ===== *)
theory Learning
  imports Decisions Store_Machine
begin

text \<open>
  Agent memory: the memory part of \<^verbatim>\<open>store.py\<close> and \<^verbatim>\<open>learning.py\<close>. Workers learn memories, prompts get the active ones,
  an operator retires or supersedes them. \<^verbatim>\<open>hashlib.sha256(...).hexdigest()\<close> is the parameter \<open>sha256\<close>, of which nothing
  is assumed. Confidences are in millionths.
\<close>

section \<open>The tables (\<^verbatim>\<open>store.py\<close>)\<close>

definition MEMORY_KINDS :: "string list" where
  "MEMORY_KINDS = [''AGENT_MEMORY'', ''OTHER'']"

definition MEMORY_STATUSES :: "string list" where
  "MEMORY_STATUSES = [''ACTIVE'', ''REJECTED'', ''RETIRED'', ''SUPERSEDED'']"

definition memory_row :: "agent_memory \<Rightarrow> agent_memory" where
  "memory_row m = m\<lparr>am_evidence_ref := public_artifact_ref (am_evidence_ref m)\<rparr>"

definition memory_slot :: "agent_memory \<Rightarrow> string \<times> string \<times> string" where
  "memory_slot m = (am_project_human_id m, am_agent_role m, am_memory_key m)"

definition get_agent_memory :: "string \<Rightarrow> string \<Rightarrow> string \<Rightarrow> db \<Rightarrow> agent_memory option" where
  "get_agent_memory pid role key s = map_option memory_row (find_row (\<lambda>m. memory_slot m = (pid, role, key)) (memories s))"

definition memory_named :: "string \<Rightarrow> string \<Rightarrow> agent_memory \<Rightarrow> bool" where
  "memory_named pid mid m \<longleftrightarrow> am_project_human_id m = pid \<and> am_memory_human_id m = mid"

definition get_agent_memory_by_human_id :: "string \<Rightarrow> string \<Rightarrow> agent_memory option dbop" where
  "get_agent_memory_by_human_id project_human_id memory_human_id =
     bindS (liftS (require_safe_id project_human_id)) (\<lambda>project.
     bindS (liftS (require_safe_id memory_human_id)) (\<lambda>mid.
     getS (\<lambda>s. map_option memory_row (find_row (memory_named project mid) (memories s)))))"

definition governed_row :: "string \<Rightarrow> string option \<Rightarrow> string option \<Rightarrow> string option \<Rightarrow> iso \<Rightarrow> agent_memory \<Rightarrow> agent_memory" where
  "governed_row status successor code reason now m =
     m\<lparr>am_status := status, am_superseded_by_memory_human_id := successor, am_rejection_code := code,
       am_rejection_reason := reason, am_updated_at := now\<rparr>"

definition update_memory_governance ::
    "string \<Rightarrow> string \<Rightarrow> string \<Rightarrow> string option \<Rightarrow> string option \<Rightarrow> string option \<Rightarrow> agent_memory dbop" where
  "update_memory_governance project_human_id memory_human_id status successor code reason =
     bindS (liftS (require_safe_id project_human_id)) (\<lambda>project.
     bindS (liftS (require_safe_id memory_human_id)) (\<lambda>mid.
     bindS (getS (\<lambda>s. find_row (memory_named project mid) (memories s))) (\<lambda>old.
     thenS (guardS (old = None \<or> status \<in> set MEMORY_STATUSES) IntegrityError)
     (thenS (modifyS (\<lambda>s. s\<lparr>memories := update_where (memory_named project mid)
               (governed_row status successor code reason (now_iso s)) (memories s)\<rparr>))
     (bindS (get_agent_memory_by_human_id project mid) (\<lambda>row.
      case row of None \<Rightarrow> raiseS OrchestrationError | Some m \<Rightarrow> returnS m))))))"

record memory_args =
  ma_project_human_id :: string
  ma_memory_human_id :: string
  ma_agent_role :: string
  ma_memory_kind :: string
  ma_memory_key :: string
  ma_title :: string
  ma_evidence_ref :: "string option"
  ma_source_job_human_id :: "string option"
  ma_confidence :: int
  ma_occurrence_count :: int
  ma_last_validated_at :: "iso option"
  ma_status :: string
  ma_promotion_mode :: string
  ma_rejection_code :: "string option"
  ma_rejection_reason :: "string option"

definition memory_checks :: "memory_args \<Rightarrow> bool" where
  "memory_checks a \<longleftrightarrow> ma_memory_kind a \<in> set MEMORY_KINDS \<and> ma_status a \<in> set MEMORY_STATUSES \<and>
     ma_promotion_mode a = ''AUTO_LEARNED'' \<and> 0 \<le> ma_confidence a \<and> ma_confidence a \<le> 1000000 \<and> 1 \<le> ma_occurrence_count a"

definition new_memory_row :: "memory_args \<Rightarrow> string \<Rightarrow> string \<Rightarrow> int \<Rightarrow> iso \<Rightarrow> agent_memory" where
  "new_memory_row a project mid i now =
     \<lparr>am_id = i, am_memory_human_id = mid, am_project_human_id = project, am_agent_role = ma_agent_role a,
      am_memory_kind = ma_memory_kind a, am_memory_key = ma_memory_key a, am_title = ma_title a,
      am_evidence_ref = public_artifact_ref (ma_evidence_ref a), am_source_job_human_id = ma_source_job_human_id a,
      am_confidence = ma_confidence a, am_occurrence_count = ma_occurrence_count a,
      am_last_validated_at = ma_last_validated_at a, am_status = ma_status a, am_promotion_mode = ma_promotion_mode a,
      am_rejection_code = ma_rejection_code a, am_rejection_reason = ma_rejection_reason a,
      am_superseded_by_memory_human_id = None, am_created_at = now, am_updated_at = now\<rparr>"

text \<open>\<^verbatim>\<open>DO UPDATE SET\<close>: the id, the name and the successor of the memory stay.\<close>

definition updated_memory_row :: "memory_args \<Rightarrow> iso \<Rightarrow> agent_memory \<Rightarrow> agent_memory" where
  "updated_memory_row a now m =
     m\<lparr>am_title := ma_title a, am_evidence_ref := public_artifact_ref (ma_evidence_ref a),
       am_source_job_human_id := ma_source_job_human_id a, am_confidence := ma_confidence a,
       am_occurrence_count := ma_occurrence_count a, am_last_validated_at := ma_last_validated_at a,
       am_status := ma_status a, am_memory_kind := ma_memory_kind a, am_promotion_mode := ma_promotion_mode a,
       am_rejection_code := ma_rejection_code a, am_rejection_reason := ma_rejection_reason a, am_updated_at := now\<rparr>"

definition write_memory :: "memory_args \<Rightarrow> string \<Rightarrow> string \<Rightarrow> unit dbop" where
  "write_memory a project mid =
     (let slot = (project, ma_agent_role a, ma_memory_key a) in
      thenS (guardS (memory_checks a) IntegrityError)
      (bindS (getS (\<lambda>s. slot \<in> memory_slot ` set (memories s))) (\<lambda>known.
       if known then modifyS (\<lambda>s. s\<lparr>memories := update_where (\<lambda>m. memory_slot m = slot) (updated_memory_row a (now_iso s)) (memories s)\<rparr>)
       else bindS (getS (\<lambda>s. mid \<in> am_memory_human_id ` set (memories s))) (\<lambda>taken.
         thenS (guardS (\<not> taken) IntegrityError)
         (modifyS (\<lambda>s. s\<lparr>memories := memories s @ [new_memory_row a project mid (memory_seq s + 1) (now_iso s)],
            memory_seq := memory_seq s + 1\<rparr>))))))"

definition upsert_agent_memory :: "memory_args \<Rightarrow> agent_memory dbop" where
  "upsert_agent_memory a =
     bindS (liftS (require_safe_id (ma_project_human_id a))) (\<lambda>project.
     bindS (liftS (require_safe_id (ma_memory_human_id a))) (\<lambda>mid.
     thenS (write_memory a project mid)
     (bindS (getS (get_agent_memory project (ma_agent_role a) (ma_memory_key a))) (\<lambda>row.
      case row of None \<Rightarrow> raiseS AssertionError | Some m \<Rightarrow> returnS m))))"

definition MEMORY_EVENT_TYPES :: "string list" where
  "MEMORY_EVENT_TYPES = [''promoted'', ''reinforced'', ''rejected'', ''retired'', ''superseded'']"

definition append_memory_event ::
    "string \<Rightarrow> string \<Rightarrow> string \<Rightarrow> string option \<Rightarrow> string option \<Rightarrow> string option \<Rightarrow> string option \<Rightarrow> unit dbop" where
  "append_memory_event pid mid ev job actor code reason =
     thenS (guardS (ev \<in> set MEMORY_EVENT_TYPES) IntegrityError)
     (modifyS (\<lambda>s. s\<lparr>memory_events := memory_events s @
        [\<lparr>ae_id = memory_event_seq s + 1, ae_project_human_id = pid, ae_memory_human_id = mid, ae_event_type = ev,
          ae_job_human_id = job, ae_actor = actor, ae_rejection_code = code, ae_rejection_reason = reason,
          ae_created_at = now_iso s\<rparr>], memory_event_seq := memory_event_seq s + 1\<rparr>))"

definition record_memory_injection :: "string \<Rightarrow> string \<Rightarrow> string \<Rightarrow> int option \<Rightarrow> unit dbop" where
  "record_memory_injection pid mid job run =
     modifyS (\<lambda>s. s\<lparr>injections := injections s @
        [\<lparr>ai_id = injection_seq s + 1, ai_project_human_id = pid, ai_memory_human_id = mid, ai_job_human_id = job,
          ai_agent_run_id = run, ai_created_at = now_iso s\<rparr>], injection_seq := injection_seq s + 1\<rparr>)"

text \<open>\<^verbatim>\<open>ORDER BY [status ASC,] last_validated_at DESC, id DESC\<close>; NULL comes last.\<close>

definition validation_order :: "agent_memory \<Rightarrow> int \<times> int \<times> int" where
  "validation_order m = (case am_last_validated_at m of None \<Rightarrow> (1, 0, - am_id m) | Some t \<Rightarrow> (0, - t, - am_id m))"

definition list_agent_memories_for_project :: "string \<Rightarrow> string option \<Rightarrow> db \<Rightarrow> agent_memory list" where
  "list_agent_memories_for_project pid status s = map memory_row
     (if truthy_str status
      then sort_key validation_order (filter (\<lambda>m. am_project_human_id m = pid \<and> Some (am_status m) = status) (memories s))
      else sort_key (\<lambda>m. (am_status m, validation_order m)) (filter (\<lambda>m. am_project_human_id m = pid) (memories s)))"

definition list_memory_events_for_project :: "string \<Rightarrow> int option \<Rightarrow> db \<Rightarrow> memory_event list" where
  "list_memory_events_for_project pid limit s =
     (let rows = sort_key (\<lambda>e. - ae_id e) (filter (\<lambda>e. ae_project_human_id e = pid) (memory_events s)) in
      case limit of None \<Rightarrow> rows | Some n \<Rightarrow> take (nat (max 1 (min n 10000))) rows)"

definition list_memory_injections_for_project :: "string \<Rightarrow> int option \<Rightarrow> db \<Rightarrow> memory_injection list" where
  "list_memory_injections_for_project pid limit s =
     (let rows = sort_key (\<lambda>e. - ai_id e) (filter (\<lambda>e. ai_project_human_id e = pid) (injections s)) in
      case limit of None \<Rightarrow> rows | Some n \<Rightarrow> take (nat (max 1 (min n 10000))) rows)"

section \<open>Learning (\<^verbatim>\<open>learning.py\<close>)\<close>

text \<open>\<^verbatim>\<open>_UNSAFE_TITLE.search\<close>: two dots, a slash, a backslash, or a letter before a colon.\<close>

fun drive_letter :: "string \<Rightarrow> bool" where
  "drive_letter (c # d # cs) \<longleftrightarrow> (CHR ''A'' \<le> c \<and> c \<le> CHR ''Z'' \<or> CHR ''a'' \<le> c \<and> c \<le> CHR ''z'') \<and> d = CHR '':'' \<or> drive_letter (d # cs)"
| "drive_letter _ \<longleftrightarrow> False"

definition unsafe_title :: "string \<Rightarrow> bool" where
  "unsafe_title t \<longleftrightarrow> has_path_marker t \<or> drive_letter t"

definition heading :: "string \<Rightarrow> string" where
  "heading title = join_with '' '' (py_split title)"

definition memory_key_for :: "(string \<Rightarrow> string) \<Rightarrow> string \<Rightarrow> string \<Rightarrow> string \<Rightarrow> string" where
  "memory_key_for sha256 pid role title =
     take 16 (sha256 (pid @ ''|'' @ role @ ''|'' @ py_lower (heading (py_strip title))))"

definition list_active_memories_for_prompt :: "string \<Rightarrow> string \<Rightarrow> int \<Rightarrow> db \<Rightarrow> agent_memory list" where
  "list_active_memories_for_prompt pid role limit s =
     take (nat (max 1 (min limit 20)))
       (filter (\<lambda>m. am_agent_role m = role) (list_agent_memories_for_project pid (Some ''ACTIVE'') s))"

record ingest_args =
  ig_project_human_id :: string
  ig_agent_role :: string
  ig_title :: string
  ig_memory_kind :: string
  ig_evidence_ref :: "string option"
  ig_source_job_human_id :: "string option"
  ig_confidence :: "int option"
  ig_actor :: "string option"

definition learned_args ::
    "string \<Rightarrow> string \<Rightarrow> string \<Rightarrow> string \<Rightarrow> string \<Rightarrow> string option \<Rightarrow> string option \<Rightarrow> int \<Rightarrow> int \<Rightarrow> iso option \<Rightarrow> memory_args" where
  "learned_args project mid role key title ref job confidence count validated =
     \<lparr>ma_project_human_id = project, ma_memory_human_id = mid, ma_agent_role = role, ma_memory_kind = ''AGENT_MEMORY'',
      ma_memory_key = key, ma_title = title, ma_evidence_ref = ref, ma_source_job_human_id = job,
      ma_confidence = confidence, ma_occurrence_count = count, ma_last_validated_at = validated, ma_status = ''ACTIVE'',
      ma_promotion_mode = ''AUTO_LEARNED'', ma_rejection_code = None, ma_rejection_reason = None\<rparr>"

definition memory_name :: "agent_memory option \<Rightarrow> string \<Rightarrow> string" where
  "memory_name existing key = (case existing of None \<Rightarrow> ''MEM-'' @ key | Some m \<Rightarrow> am_memory_human_id m)"

definition reject_memory ::
    "string \<Rightarrow> string \<Rightarrow> string \<Rightarrow> string \<Rightarrow> string option \<Rightarrow> string option \<Rightarrow> agent_memory option \<Rightarrow> string \<Rightarrow> string \<Rightarrow> agent_memory dbop" where
  "reject_memory project role key title ref job existing code reason =
     bindS (upsert_agent_memory
       ((learned_args project (memory_name existing key) role key title ref job
           (case existing of None \<Rightarrow> 0 | Some m \<Rightarrow> am_confidence m)
           (case existing of None \<Rightarrow> 1 | Some m \<Rightarrow> am_occurrence_count m) None)
         \<lparr>ma_memory_kind := (if code \<noteq> ''not_agent_memory'' then ''AGENT_MEMORY'' else ''OTHER''), ma_status := ''REJECTED'',
          ma_rejection_code := Some code, ma_rejection_reason := Some reason\<rparr>)) (\<lambda>row.
     thenS (append_memory_event project (am_memory_human_id row) ''rejected'' job None (Some code) (Some reason))
       (returnS row))"

definition require_source_job :: "string \<Rightarrow> string option \<Rightarrow> unit dbop" where
  "require_source_job project job =
     (if truthy_str job then
        bindS (getS (get_job_by_human_id (str_of job))) (\<lambda>row.
        case row of
          None \<Rightarrow> raiseS OrchestrationError
        | Some j \<Rightarrow> guardS (j_project_human_id j = project) CrossProjectWriteError)
      else returnS ())"

definition or_else :: "string option \<Rightarrow> string option \<Rightarrow> string option" where
  "or_else a b = (if truthy_str a then a else b)"

definition learn ::
    "string \<Rightarrow> string \<Rightarrow> string \<Rightarrow> string \<Rightarrow> string option \<Rightarrow> int \<Rightarrow> agent_memory option \<Rightarrow> ingest_args \<Rightarrow> agent_memory dbop" where
  "learn project role key title ref confidence existing a =
     bindS (getS now_iso) (\<lambda>now.
     let job = ig_source_job_human_id a in
     case existing of
       Some m \<Rightarrow>
         if am_status m = ''ACTIVE'' then
           bindS (upsert_agent_memory (learned_args project (am_memory_human_id m) role key title
             (or_else ref (am_evidence_ref m)) (or_else job (am_source_job_human_id m))
             (min 1000000 (max (am_confidence m) confidence)) (am_occurrence_count m + 1) (Some now))) (\<lambda>row.
           thenS (append_memory_event project (am_memory_human_id row) ''reinforced'' job (ig_actor a) None None) (returnS row))
         else
           bindS (upsert_agent_memory (learned_args project (am_memory_human_id m) role key title ref job confidence 1 (Some now))) (\<lambda>row.
           thenS (append_memory_event project (am_memory_human_id row) ''promoted'' job (ig_actor a) None None) (returnS row))
     | None \<Rightarrow>
         bindS (upsert_agent_memory (learned_args project (''MEM-'' @ key) role key title ref job confidence 1 (Some now))) (\<lambda>row.
         thenS (append_memory_event project (am_memory_human_id row) ''promoted'' job (ig_actor a) None None) (returnS row)))"

definition ingest_agent_memory :: "(string \<Rightarrow> string) \<Rightarrow> ingest_args \<Rightarrow> agent_memory dbop" where
  "ingest_agent_memory sha256 a =
     bindS (liftS (require_safe_id (ig_project_human_id a))) (\<lambda>project.
     let role = py_strip (ig_agent_role a); title = heading (ig_title a) in
     thenS (guardS (title \<noteq> []) OrchestrationError)
     (thenS (require_source_job project (ig_source_job_human_id a))
     (let ref = public_artifact_ref (ig_evidence_ref a); key = memory_key_for sha256 project role title;
          confidence = (case ig_confidence a of None \<Rightarrow> 500000 | Some c \<Rightarrow> max 0 (min 1000000 c)) in
      bindS (getS (get_agent_memory project role key)) (\<lambda>existing.
      if ig_memory_kind a \<noteq> ''AGENT_MEMORY'' then
        reject_memory project role key title ref (ig_source_job_human_id a) existing
          ''not_agent_memory'' ''Only AGENT_MEMORY is auto-learned''
      else if unsafe_title title then
        reject_memory project role key title ref (ig_source_job_human_id a) existing
          ''unsafe_content'' ''Memory title looks like a filesystem path''
      else learn project role key title ref confidence existing a))))"

text \<open>A prompt keeps the rows it read: \<open>item\<close> is such a snapshot.\<close>

definition reinforce_one :: "string option \<Rightarrow> agent_memory \<Rightarrow> unit dbop" where
  "reinforce_one job item =
     (if am_status item \<noteq> ''ACTIVE'' then returnS ()
      else bindS (getS now_iso) (\<lambda>now.
        bindS (upsert_agent_memory (learned_args (am_project_human_id item) (am_memory_human_id item) (am_agent_role item)
          (am_memory_key item) (am_title item) (am_evidence_ref item) (or_else job (am_source_job_human_id item))
          (min 1000000 (am_confidence item + 50000)) (am_occurrence_count item + 1) (Some now))) (\<lambda>row.
        append_memory_event (am_project_human_id item) (am_memory_human_id row) ''reinforced'' job None None None)))"

definition reinforce_memories :: "agent_memory list \<Rightarrow> string option \<Rightarrow> unit dbop" where
  "reinforce_memories items job = thenS (mapS (reinforce_one job) items) (returnS ())"

definition record_injections :: "string \<Rightarrow> string \<Rightarrow> int option \<Rightarrow> agent_memory list \<Rightarrow> unit dbop" where
  "record_injections pid job run items =
     thenS (mapS (\<lambda>item. record_memory_injection pid (am_memory_human_id item) job run) items) (returnS ())"

definition require_admin_confirmation :: "bool \<Rightarrow> string \<Rightarrow> string \<Rightarrow> exn + (string \<times> string)" where
  "require_admin_confirmation confirmed reason actor =
     (let reason_text = heading reason; actor_text = py_strip actor in
      if \<not> confirmed then Inl OrchestrationError
      else if reason_text = [] \<or> has_path_marker reason_text then Inl OrchestrationError
      else if actor_text = [] \<or> 128 < length actor_text \<or> has_path_marker actor_text then Inl OrchestrationError
      else Inr (reason_text, actor_text))"

definition active_memory :: "string \<Rightarrow> string \<Rightarrow> agent_memory dbop" where
  "active_memory project mid =
     bindS (get_agent_memory_by_human_id project mid) (\<lambda>existing.
     case existing of
       None \<Rightarrow> raiseS OrchestrationError
     | Some m \<Rightarrow> if am_status m \<noteq> ''ACTIVE'' then raiseS OrchestrationError else returnS m)"

definition retire_memory :: "string \<Rightarrow> string \<Rightarrow> bool \<Rightarrow> string \<Rightarrow> string \<Rightarrow> agent_memory dbop" where
  "retire_memory project_human_id memory_human_id confirmed reason actor =
     bindS (liftS (require_safe_id project_human_id)) (\<lambda>project.
     bindS (liftS (require_safe_id memory_human_id)) (\<lambda>mid.
     bindS (liftS (require_admin_confirmation confirmed reason actor)) (\<lambda>(reason_text, actor_text).
     thenS (active_memory project mid)
     (bindS (update_memory_governance project mid ''RETIRED'' None (Some ''retired'') (Some reason_text)) (\<lambda>row.
      thenS (append_memory_event project mid ''retired'' None (Some actor_text) (Some ''retired'') (Some reason_text))
        (returnS row))))))"

definition supersede_memory ::
    "(string \<Rightarrow> string) \<Rightarrow> string \<Rightarrow> string \<Rightarrow> string \<Rightarrow> bool \<Rightarrow> string \<Rightarrow> string \<Rightarrow> string option \<Rightarrow> (agent_memory \<times> agent_memory) dbop" where
  "supersede_memory sha256 project_human_id memory_human_id successor_title confirmed reason actor ref =
     bindS (liftS (require_safe_id project_human_id)) (\<lambda>project.
     bindS (liftS (require_safe_id memory_human_id)) (\<lambda>mid.
     bindS (liftS (require_admin_confirmation confirmed reason actor)) (\<lambda>(reason_text, actor_text).
     let title = heading successor_title in
     thenS (guardS (title \<noteq> []) OrchestrationError)
     (thenS (guardS (\<not> unsafe_title title) OrchestrationError)
     (bindS (active_memory project mid) (\<lambda>existing.
      thenS (guardS (py_lower title \<noteq> py_lower (am_title existing)) OrchestrationError)
      (bindS (ingest_agent_memory sha256
        \<lparr>ig_project_human_id = project, ig_agent_role = am_agent_role existing, ig_title = title, ig_memory_kind = ''AGENT_MEMORY'',
         ig_evidence_ref = public_artifact_ref ref, ig_source_job_human_id = am_source_job_human_id existing,
         ig_confidence = Some (am_confidence existing), ig_actor = Some actor_text\<rparr>) (\<lambda>successor.
       thenS (guardS (am_status successor = ''ACTIVE'') OrchestrationError)
       (bindS (update_memory_governance project mid ''SUPERSEDED'' (Some (am_memory_human_id successor)) (Some ''superseded'')
                 (Some reason_text)) (\<lambda>old.
        thenS (append_memory_event project mid ''superseded'' None (Some actor_text) (Some ''superseded'') (Some reason_text))
          (returnS (old, successor))))))))))))"

section \<open>The invariant\<close>

text \<open>What an ACTIVE memory may hold, and what every row satisfies.\<close>

definition injectable :: "string \<Rightarrow> string \<Rightarrow> string \<Rightarrow> bool" where
  "injectable status kind title \<longleftrightarrow> title \<noteq> [] \<and> (status = ''ACTIVE'' \<longrightarrow> kind = ''AGENT_MEMORY'' \<and> \<not> unsafe_title title)"

definition memory_fit :: "(string \<Rightarrow> string) \<Rightarrow> agent_memory \<Rightarrow> bool" where
  "memory_fit h m \<longleftrightarrow> injectable (am_status m) (am_memory_kind m) (am_title m) \<and>
     require_safe_id (am_project_human_id m) = Inr (am_project_human_id m) \<and>
     require_safe_id (am_memory_human_id m) = Inr (am_memory_human_id m) \<and>
     am_memory_key m = memory_key_for h (am_project_human_id m) (am_agent_role m) (am_title m) \<and>
     am_status m \<in> set MEMORY_STATUSES \<and> 0 \<le> am_confidence m \<and> am_confidence m \<le> 1000000 \<and> 1 \<le> am_occurrence_count m"

definition memory_inv :: "(string \<Rightarrow> string) \<Rightarrow> db \<Rightarrow> bool" where
  "memory_inv h s \<longleftrightarrow> distinct (map memory_slot (memories s)) \<and> distinct (map am_memory_human_id (memories s)) \<and>
     (\<forall>m \<in> set (memories s). memory_fit h m)"

definition args_fit :: "(string \<Rightarrow> string) \<Rightarrow> memory_args \<Rightarrow> bool" where
  "args_fit h a \<longleftrightarrow> injectable (ma_status a) (ma_memory_kind a) (ma_title a) \<and>
     (\<forall>p. require_safe_id (ma_project_human_id a) = Inr p \<longrightarrow> ma_memory_key a = memory_key_for h p (ma_agent_role a) (ma_title a))"

lemma memory_fit_updated:
  assumes "memory_fit h m" "args_fit h a" "memory_checks a" "require_safe_id (ma_project_human_id a) = Inr p"
    "memory_slot m = (p, ma_agent_role a, ma_memory_key a)"
  shows "memory_fit h (updated_memory_row a now m)"
  using assms by (auto simp: memory_fit_def args_fit_def memory_checks_def updated_memory_row_def memory_slot_def)

lemma memory_fit_new:
  assumes "args_fit h a" "memory_checks a" "require_safe_id (ma_project_human_id a) = Inr p" "require_safe_id (ma_memory_human_id a) = Inr mid"
  shows "memory_fit h (new_memory_row a p mid i now)"
  using assms require_safe_id_cases(4) [OF assms(3)] require_safe_id_cases(4) [OF assms(4)]
  by (auto simp: memory_fit_def args_fit_def memory_checks_def new_memory_row_def)

lemma keeps_write_memory:
  assumes fit: "args_fit h a" "require_safe_id (ma_project_human_id a) = Inr p" "require_safe_id (ma_memory_human_id a) = Inr mid"
  shows "keeps (memory_inv h) (write_memory a p mid)"
proof (rule keepsI)
  fix s assume inv: "memory_inv h s"
  let ?p = "\<lambda>m. memory_slot m = (p, ma_agent_role a, ma_memory_key a)"
  let ?u = "update_where ?p (updated_memory_row a (now_iso s)) (memories s)"
  have keys: "map memory_slot ?u = map memory_slot (memories s)" "map am_memory_human_id ?u = map am_memory_human_id (memories s)"
    by (rule map_update_where, simp add: updated_memory_row_def memory_slot_def)+
  show "memory_inv h (snd (write_memory a p mid s))"
    using inv keys memory_fit_updated [OF _ fit(1) _ fit(2)] memory_fit_new [OF fit(1) _ fit(2,3)]
    by (auto simp: write_memory_def op_simps memory_inv_def Let_def new_memory_row_def memory_slot_def)
qed

lemma keeps_memories: "untouched memories m \<Longrightarrow> keeps (memory_inv h) m"
  by (erule keeps_untouched) (simp add: memory_inv_def)

lemma keeps_upsert: "args_fit h a \<Longrightarrow> keeps (memory_inv h) (upsert_agent_memory a)"
  unfolding upsert_agent_memory_def by (intro keeps_lifted keeps_thenS keeps_write_memory keeps_reads) (auto intro!: frames)

lemma untouched_memories_event: "untouched memories (append_memory_event p m e j ac c r)"
  unfolding append_memory_event_def by (intro frames) simp

lemma keeps_logged_upsert:
  "args_fit h a \<Longrightarrow> keeps (memory_inv h) (bindS (upsert_agent_memory a) (\<lambda>row. thenS (append_memory_event p (f row) e j ac c r) (returnS row)))"
  by (intro keeps_bindS keeps_thenS keeps_upsert keeps_memories untouched_memories_event frames)

lemma reads_source_job [frames]: "untouched (\<lambda>s. s) (require_source_job p j)"
  unfolding require_source_job_def by (intro frames)

lemma keeps_ingest: "keeps (memory_inv h) (ingest_agent_memory h a)"
proof -
  have safe: "require_safe_id p = Inr p" if "require_safe_id (ig_project_human_id a) = Inr p" for p
    using require_safe_id_cases(4) [OF that] .
  have learned: "args_fit h (learned_args p mid r (memory_key_for h p r t) t ref j c n v)"
    if "require_safe_id p = Inr p" "t \<noteq> []" "\<not> unsafe_title t" for p mid r t ref j c n v
    using that by (auto simp: args_fit_def learned_args_def injectable_def)
  have rejected: "args_fit h ((learned_args p mid r (memory_key_for h p r t) t ref j c n v)\<lparr>ma_memory_kind := k, ma_status := ''REJECTED'',
      ma_rejection_code := x, ma_rejection_reason := y\<rparr>)"
    if "require_safe_id p = Inr p" "t \<noteq> []" for p mid r t ref j c n v k x y
    using that by (auto simp: args_fit_def learned_args_def injectable_def)
  show ?thesis
    unfolding ingest_agent_memory_def Let_def reject_memory_def learn_def
    by (intro keeps_lifted keeps_guarded keeps_thenS [OF keeps_reads [OF reads_source_job]] keeps_bindS [OF keeps_reads] keeps_if keeps_case_option
        keeps_logged_upsert learned rejected frames) (simp_all add: safe)
qed

lemma keeps_reinforce_one:
  assumes "memory_fit h item"
  shows "keeps (memory_inv h) (reinforce_one job item)"
proof -
  have "args_fit h (learned_args (am_project_human_id item) (am_memory_human_id item) (am_agent_role item) (am_memory_key item)
      (am_title item) ref j c n v)" if "am_status item = ''ACTIVE''" for ref j c n v
    using assms that by (simp add: args_fit_def learned_args_def memory_fit_def injectable_def)
  then show ?thesis
    unfolding reinforce_one_def
    by (intro keeps_if keeps_bindS [OF keeps_reads] keeps_bindS [OF keeps_upsert] keeps_memories untouched_memories_event frames) auto
qed

lemma keeps_governance:
  assumes "status \<noteq> ''ACTIVE''"
  shows "keeps (memory_inv h) (update_memory_governance p m status successor code reason)"
proof -
  have row: "memory_fit h (governed_row status successor code reason now x)" if "memory_fit h x" "status \<in> set MEMORY_STATUSES" for x now
    using that assms by (simp add: memory_fit_def governed_row_def injectable_def)
  have updating: "keeps (memory_inv h) (bindS (getS (\<lambda>s. find_row (memory_named q k) (memories s))) (\<lambda>old.
      thenS (guardS (old = None \<or> status \<in> set MEMORY_STATUSES) IntegrityError)
      (thenS (modifyS (\<lambda>s. s\<lparr>memories := update_where (memory_named q k)
               (governed_row status successor code reason (now_iso s)) (memories s)\<rparr>)) n)))"
    if n: "keeps (memory_inv h) n" for q k and n :: "agent_memory dbop"
  proof (rule keepsI)
    fix s assume inv: "memory_inv h s"
    let ?f = "governed_row status successor code reason (now_iso s)"
    have "map memory_slot (update_where (memory_named q k) ?f (memories s)) = map memory_slot (memories s)"
      "map am_memory_human_id (update_where (memory_named q k) ?f (memories s)) = map am_memory_human_id (memories s)"
      by (rule map_update_where, simp add: governed_row_def memory_slot_def)+
    moreover have "find_row (memory_named q k) (memories s) = None \<Longrightarrow> update_where (memory_named q k) ?f (memories s) = memories s"
      by (rule update_where_none) (auto simp: find_row_None_iff)
    ultimately have "find_row (memory_named q k) (memories s) = None \<or> status \<in> set MEMORY_STATUSES \<Longrightarrow>
        memory_inv h (s\<lparr>memories := update_where (memory_named q k) ?f (memories s)\<rparr>)"
      using inv row by (fastforce simp: memory_inv_def)
    then show "memory_inv h (snd (bindS (getS (\<lambda>s. find_row (memory_named q k) (memories s))) (\<lambda>old.
      thenS (guardS (old = None \<or> status \<in> set MEMORY_STATUSES) IntegrityError)
      (thenS (modifyS (\<lambda>s. s\<lparr>memories := update_where (memory_named q k)
               (governed_row status successor code reason (now_iso s)) (memories s)\<rparr>)) n)) s))"
      using inv keepsD [OF n] by (simp add: op_simps)
  qed
  show ?thesis
    unfolding update_memory_governance_def get_agent_memory_by_human_id_def by (intro keeps_lifted updating keeps_reads frames)
qed

lemma keeps_retire: "keeps (memory_inv h) (retire_memory p m c r a)"
  unfolding retire_memory_def active_memory_def get_agent_memory_by_human_id_def case_prod_beta
  by (intro keeps_lifted keeps_thenS keeps_bindS keeps_governance keeps_memories untouched_memories_event frames) simp

lemma keeps_supersede: "keeps (memory_inv h) (supersede_memory h p m t c r a ref)"
  unfolding supersede_memory_def active_memory_def get_agent_memory_by_human_id_def case_prod_beta Let_def
  by (intro keeps_lifted keeps_guarded keeps_bindS [OF keeps_ingest] keeps_bindS [OF keeps_governance] keeps_thenS keeps_bindS keeps_memories
      untouched_memories_event frames) simp

section \<open>Learning as a transition system\<close>

text \<open>Memories are learned, governed, and read into prompts; the second component collects the rows the prompts of
  running workers hold. A worker reinforces rows it holds, at any later time.\<close>

inductive memory_step :: "(string \<Rightarrow> string) \<Rightarrow> db \<times> agent_memory list \<Rightarrow> db \<times> agent_memory list \<Rightarrow> bool"
  for h :: "string \<Rightarrow> string" where
  ingesting: "memory_step h (s, w) (snd (transaction (ingest_agent_memory h a) s), w)"
| prompting: "memory_step h (s, w) (s, list_active_memories_for_prompt pid role limit s @ w)"
| reinforcing: "set items \<subseteq> set w \<Longrightarrow> memory_step h (s, w) (snd (transaction (reinforce_memories items job) s), w)"
| retiring: "memory_step h (s, w) (snd (transaction (retire_memory pid m c r a) s), w)"
| superseding: "memory_step h (s, w) (snd (transaction (supersede_memory h pid m title c r a ref) s), w)"
| injecting: "memory_step h (s, w) (snd (transaction (record_injections pid job run items) s), w)"
| other: "memories t = memories s \<Longrightarrow> memory_step h (s, w) (t, w)"

definition memory_start :: "db \<times> agent_memory list \<Rightarrow> bool" where
  "memory_start x \<longleftrightarrow> memories (fst x) = [] \<and> snd x = []"

definition learning_inv :: "(string \<Rightarrow> string) \<Rightarrow> db \<times> agent_memory list \<Rightarrow> bool" where
  "learning_inv h x \<longleftrightarrow> memory_inv h (fst x) \<and> (\<forall>m \<in> set (snd x). memory_fit h m \<and> am_status m = ''ACTIVE'')"

lemma memory_fit_row: "memory_fit h m \<Longrightarrow> memory_fit h (memory_row m)"
  by (simp add: memory_fit_def memory_row_def)

lemma in_prompt:
  assumes "m \<in> set (list_active_memories_for_prompt pid role limit s)"
  shows "\<exists>r \<in> set (memories s). m = memory_row r \<and> am_status m = ''ACTIVE'' \<and> am_project_human_id m = pid \<and> am_agent_role m = role"
  using assms by (auto simp: list_active_memories_for_prompt_def list_agent_memories_for_project_def memory_row_def dest!: in_set_takeD)

lemma keeps_injections: "keeps (memory_inv h) (record_injections pid job run items)"
  unfolding record_injections_def record_memory_injection_def by (intro keeps_memories frames) simp

lemma learning_step: "memory_step h x y \<Longrightarrow> learning_inv h x \<Longrightarrow> learning_inv h y"
proof (induction rule: memory_step.induct)
  case (prompting s w pid role limit)
  have "memory_fit h m \<and> am_status m = ''ACTIVE''" if "m \<in> set (list_active_memories_for_prompt pid role limit s)" for m
    using in_prompt [OF that] prompting by (auto simp: learning_inv_def memory_inv_def intro: memory_fit_row)
  with prompting show ?case by (auto simp: learning_inv_def)
next
  case (reinforcing items w s job)
  have "keeps (memory_inv h) (reinforce_memories items job)"
    unfolding reinforce_memories_def
    by (intro keeps_thenS keeps_mapS keeps_reinforce_one keeps_returnS) (use reinforcing in \<open>auto simp: learning_inv_def\<close>)
  from keepsD [OF keeps_transaction [OF this]] reinforcing show ?case by (simp add: learning_inv_def)
next
  case (other t s w)
  then show ?case by (simp add: learning_inv_def memory_inv_def)
qed (simp_all add: learning_inv_def keepsD [OF keeps_transaction] keeps_ingest keeps_retire keeps_supersede keeps_injections)

interpretation learning_machine: invariant_machine memory_start "memory_step h" "learning_inv h" for h
  by unfold_locales (simp add: memory_start_def learning_inv_def memory_inv_def, rule learning_step)

section \<open>Properties\<close>

text \<open>C25: What is learned is safe to inject. However learning, reinforcement by workers with old rows, retirement and
  supersession interleave, there is one memory per project, role and key, and the memories a prompt gets are at most
  twenty, active, of the asked project and role, no two of them alike, with a confidence between 0 and 1 and a title that is not empty, holds
  no path and determines the key.\<close>

theorem injected_memories_are_safe:
  assumes "reach memory_start (memory_step h) (s, w)"
  shows "distinct (map memory_slot (memories s)) \<and> distinct (map am_memory_human_id (memories s)) \<and>
    length (list_active_memories_for_prompt pid role limit s) \<le> 20 \<and>
    distinct (map am_memory_key (list_active_memories_for_prompt pid role limit s)) \<and>
    (\<forall>m \<in> set (list_active_memories_for_prompt pid role limit s). am_status m = ''ACTIVE'' \<and> am_project_human_id m = pid \<and>
       am_agent_role m = role \<and> am_memory_kind m = ''AGENT_MEMORY'' \<and> am_title m \<noteq> [] \<and> \<not> unsafe_title (am_title m) \<and>
       am_memory_key m = memory_key_for h pid role (am_title m) \<and> 0 \<le> am_confidence m \<and> am_confidence m \<le> 1000000)"
proof -
  have inv: "memory_inv h s" using learning_machine.reach_inv [OF assms] by (simp add: learning_inv_def)
  let ?l = "list_active_memories_for_prompt pid role limit s"
  have fit: "memory_fit h m \<and> am_status m = ''ACTIVE'' \<and> am_project_human_id m = pid \<and> am_agent_role m = role" if "m \<in> set ?l" for m
    using in_prompt [OF that] inv by (auto simp: memory_inv_def intro: memory_fit_row)
  have "distinct (map memory_slot (filter (\<lambda>m. am_agent_role m = role) (list_agent_memories_for_project pid (Some ''ACTIVE'') s)))"
    using inv
    by (simp add: list_agent_memories_for_project_def memory_inv_def distinct_map inj_on_def memory_row_def memory_slot_def filter_map comp_def)
  then have "distinct (map memory_slot ?l)" by (simp add: list_active_memories_for_prompt_def flip: take_map)
  then have "distinct (map am_memory_key ?l)" using fit by (simp add: distinct_map inj_on_def memory_slot_def)
  moreover have "length ?l \<le> 20" by (simp add: list_active_memories_for_prompt_def)
  ultimately show ?thesis using inv fit by (auto simp: memory_inv_def memory_fit_def injectable_def)
qed

text \<open>A write to the slot of an existing memory overwrites its row.\<close>

lemma upsert_known:
  assumes "memory_inv h s" "m \<in> set (memories s)" "memory_slot m = (ma_project_human_id a, ma_agent_role a, ma_memory_key a)"
    "require_safe_id (ma_project_human_id a) = Inr (ma_project_human_id a)" "require_safe_id (ma_memory_human_id a) = Inr mid" "memory_checks a"
  shows "upsert_agent_memory a s = (Inr (memory_row (updated_memory_row a (now_iso s) m)),
    s\<lparr>memories := update_where (\<lambda>x. memory_slot x = memory_slot m) (updated_memory_row a (now_iso s)) (memories s)\<rparr>)"
proof -
  have "find_row (\<lambda>x. memory_slot x = memory_slot m) (memories s) = Some m"
    using assms(1,2) by (simp add: memory_inv_def find_row_Some_key)
  moreover have "memory_slot (updated_memory_row a (now_iso s) x) = memory_slot x" for x
    by (simp add: memory_slot_def updated_memory_row_def)
  ultimately have "find_row (\<lambda>x. memory_slot x = memory_slot m)
      (update_where (\<lambda>x. memory_slot x = memory_slot m) (updated_memory_row a (now_iso s)) (memories s)) = Some (updated_memory_row a (now_iso s) m)"
    by (subst find_row_update_same) simp_all
  moreover have "memory_slot m \<in> memory_slot ` set (memories s)" using assms(2) by blast
  moreover from this have "write_memory a (ma_project_human_id a) mid s = (Inr (),
      s\<lparr>memories := update_where (\<lambda>x. memory_slot x = memory_slot m) (updated_memory_row a (now_iso s)) (memories s)\<rparr>)"
    using assms(3-) by (simp add: write_memory_def op_simps Let_def)
  ultimately show ?thesis
    using assms(3-) by (simp add: upsert_agent_memory_def op_simps bindS_Inr get_agent_memory_def)
qed

text \<open>Reinforcement writes an old row back. A worker that holds a row of a memory from its prompt and reinforces it makes the
  memory active again, whatever its status has become since, retired or superseded included, and sets confidence and
  count from the old row; the other memories stay.\<close>

theorem reinforcement_restores_old_row:
  assumes reach: "reach memory_start (memory_step h) (s, w)" and item: "item \<in> set w"
    and m: "m \<in> set (memories s)" "memory_slot m = memory_slot item"
  shows "\<exists>t. reinforce_memories [item] job s = (Inr (), t) \<and> (\<exists>f. memories t = update_where (\<lambda>x. memory_slot x = memory_slot item) f (memories s) \<and>
    am_memory_human_id (f m) = am_memory_human_id m \<and> am_status (f m) = ''ACTIVE'' \<and> am_title (f m) = am_title item \<and>
    am_occurrence_count (f m) = am_occurrence_count item + 1 \<and> am_confidence (f m) = min 1000000 (am_confidence item + 50000))"
proof -
  have inv: "memory_inv h s" and fit: "memory_fit h item" and active: "am_status item = ''ACTIVE''"
    using learning_machine.reach_inv [OF reach] item by (auto simp: learning_inv_def)
  let ?a = "learned_args (am_project_human_id item) (am_memory_human_id item) (am_agent_role item) (am_memory_key item) (am_title item)
    (am_evidence_ref item) (or_else job (am_source_job_human_id item)) (min 1000000 (am_confidence item + 50000)) (am_occurrence_count item + 1) (Some (now_iso s))"
  have "memory_checks ?a" using fit by (simp add: memory_checks_def memory_fit_def learned_args_def MEMORY_KINDS_def MEMORY_STATUSES_def)
  then have up: "upsert_agent_memory ?a s = (Inr (memory_row (updated_memory_row ?a (now_iso s) m)),
      s\<lparr>memories := update_where (\<lambda>x. memory_slot x = memory_slot m) (updated_memory_row ?a (now_iso s)) (memories s)\<rparr>)"
    using m fit by (intro upsert_known [OF inv, where mid = "am_memory_human_id item"]) (simp_all add: learned_args_def memory_slot_def memory_fit_def)
  have "\<exists>t. reinforce_memories [item] job s = (Inr (), t) \<and>
      memories t = update_where (\<lambda>x. memory_slot x = memory_slot item) (updated_memory_row ?a (now_iso s)) (memories s)"
    using active by (simp add: reinforce_memories_def reinforce_one_def op_simps bindS_Inr [where m = "upsert_agent_memory ?a" and s = s, OF up] append_memory_event_def MEMORY_EVENT_TYPES_def m(2))
  then show ?thesis by (elim exE conjE, intro exI conjI) (assumption | simp add: updated_memory_row_def learned_args_def)+
qed

text \<open>A retirement needs a confirmed request with a reason and an actor for an active memory; it retires this memory, and no
  prompt gets it until it is learned or reinforced again.\<close>

lemma retirement_spec:
  assumes run: "retire_memory pid mid confirmed reason actor s = (Inr row, t)"
  shows "confirmed \<and> heading reason \<noteq> [] \<and> py_strip actor \<noteq> [] \<and>
    (\<exists>m \<in> set (memories s). memory_named (py_strip pid) (py_strip mid) m \<and> am_status m = ''ACTIVE'') \<and>
    memories t = update_where (memory_named (py_strip pid) (py_strip mid))
      (governed_row ''RETIRED'' None (Some ''retired'') (Some (heading reason)) (now_iso s)) (memories s) \<and>
    (\<forall>p r n. \<forall>m \<in> set (list_active_memories_for_prompt p r n t). \<not> memory_named (py_strip pid) (py_strip mid) m)"
proof -
  let ?P = "memory_named (py_strip pid) (py_strip mid)"
  let ?f = "governed_row ''RETIRED'' None (Some ''retired'') (Some (heading reason))"
  have gov: "wlp (update_memory_governance (py_strip pid) (py_strip mid) ''RETIRED'' None (Some ''retired'') (Some r))
      (\<lambda>_ t. memories t = update_where ?P (governed_row ''RETIRED'' None (Some ''retired'') (Some r) (now_iso u)) (memories u)) u"
    if "require_safe_id pid = Inr (py_strip pid)" "require_safe_id mid = Inr (py_strip mid)" for r u
    using require_safe_id_cases(4) [OF that(1)] require_safe_id_cases(4) [OF that(2)]
    by (simp add: update_memory_governance_def get_agent_memory_by_human_id_def wlp_simps split: option.split)
  have "wlp (retire_memory pid mid confirmed reason actor) (\<lambda>_ t. confirmed \<and> heading reason \<noteq> [] \<and> py_strip actor \<noteq> [] \<and>
      (\<exists>m \<in> set (memories s). ?P m \<and> am_status m = ''ACTIVE'') \<and> memories t = update_where ?P (?f (now_iso s)) (memories s)) s"
    unfolding retire_memory_def
  proof (simp only: wlp_simps, intro allI impI, clarify)
    fix p m r a assume p: "require_safe_id pid = Inr p" "require_safe_id mid = Inr m" and ok: "require_admin_confirmation confirmed reason actor = Inr (r, a)"
    have p': "p = py_strip pid" "m = py_strip mid" using require_safe_id_cases(1) p by auto
    have ok': "confirmed" "heading reason \<noteq> []" "py_strip actor \<noteq> []" "r = heading reason"
      using ok by (auto simp: require_admin_confirmation_def Let_def split: if_splits)
    have active: "wlp (active_memory (py_strip pid) (py_strip mid)) (\<lambda>_ t. t = s \<and> (\<exists>m \<in> set (memories s). ?P m \<and> am_status m = ''ACTIVE'')) s"
      using require_safe_id_cases(4) p p'
      by (auto simp: active_memory_def get_agent_memory_by_human_id_def wlp_simps memory_row_def split: option.split dest!: find_row_SomeD)
    show "wlp (thenS (active_memory p m) (bindS (update_memory_governance p m ''RETIRED'' None (Some ''retired'') (Some r))
        (\<lambda>row. thenS (append_memory_event p m ''retired'' None (Some a) (Some ''retired'') (Some r)) (returnS row))))
        (\<lambda>_ t. confirmed \<and> heading reason \<noteq> [] \<and> py_strip actor \<noteq> [] \<and>
          (\<exists>m \<in> set (memories s). ?P m \<and> am_status m = ''ACTIVE'') \<and> memories t = update_where ?P (?f (now_iso s)) (memories s)) s"
      unfolding p' ok'(4)
      by (rule wlp_thenI [OF active], elim conjE, hypsubst, rule wlp_bindI [OF gov [OF p [unfolded p']]],
          rule wlp_thenI [OF wlp_frame [OF untouched_memories_event]])
         (use ok' in \<open>simp add: wlp_simps\<close>)
  qed
  from wlp_apply [OF this run] show ?thesis
    by (fastforce dest!: in_prompt simp: set_update_where memory_row_def memory_named_def governed_row_def split: if_splits)
qed

section \<open>Samples\<close>

text \<open>A lesson is learned and read into a prompt; then it is retired.\<close>

definition sample_lesson :: ingest_args where
  "sample_lesson = \<lparr>ig_project_human_id = ''PRJ-1'', ig_agent_role = ''DELIVERY'', ig_title = ''run the tests'', ig_memory_kind = ''AGENT_MEMORY'',
     ig_evidence_ref = None, ig_source_job_human_id = None, ig_confidence = None, ig_actor = None\<rparr>"

definition sample_learned :: db where
  "sample_learned = snd (transaction (ingest_agent_memory (\<lambda>_. ''k1'') sample_lesson) sample_empty)"

definition sample_retired :: db where
  "sample_retired = snd (transaction (retire_memory ''PRJ-1'' ''MEM-k1'' True ''outdated'' ''operator'') sample_learned)"

definition sample_prompt :: "agent_memory list" where
  "sample_prompt = list_active_memories_for_prompt ''PRJ-1'' ''DELIVERY'' 8 sample_learned"

lemma sample_learning_reach:
  "reach memory_start (memory_step (\<lambda>_. ''k1'')) (sample_learned, sample_prompt)"
  "reach memory_start (memory_step (\<lambda>_. ''k1'')) (sample_retired, sample_prompt)"
proof -
  have "reach memory_start (memory_step (\<lambda>_. ''k1'')) (sample_empty, [])"
    by (rule reach_start) (simp add: memory_start_def sample_empty_def empty_db_def)
  from reach_step [OF this ingesting] have "reach memory_start (memory_step (\<lambda>_. ''k1'')) (sample_learned, [])"
    unfolding sample_learned_def .
  from reach_step [OF this prompting] show learned: "reach memory_start (memory_step (\<lambda>_. ''k1'')) (sample_learned, sample_prompt)"
    unfolding sample_prompt_def by (metis append_Nil2)
  from reach_step [OF this retiring] show "reach memory_start (memory_step (\<lambda>_. ''k1'')) (sample_retired, sample_prompt)"
    unfolding sample_retired_def .
qed

lemma sample_prompt_rows:
  "map am_title sample_prompt = [''run the tests'']"
  "map (\<lambda>m. (am_memory_human_id m, am_status m)) (memories sample_retired) = [(''MEM-k1'', ''RETIRED'')]"
  "map memory_slot (memories sample_retired) = map memory_slot sample_prompt"
  by code_simp+

theorem injected_memories_are_safe_witness:
  "reach memory_start (memory_step (\<lambda>_. ''k1'')) (sample_learned, sample_prompt) \<and> sample_prompt \<noteq> [] \<and>
   \<not> unsafe_title (am_title (hd sample_prompt))"
proof -
  have "sample_prompt \<noteq> []" using sample_prompt_rows(1) by auto
  then have "hd sample_prompt \<in> set sample_prompt" by simp
  with \<open>sample_prompt \<noteq> []\<close> injected_memories_are_safe [OF sample_learning_reach(1), of "''PRJ-1''" "''DELIVERY''" 8] sample_learning_reach(1)
  show ?thesis unfolding sample_prompt_def [symmetric] by blast
qed

theorem reinforcement_restores_old_row_witness:
  "\<exists>t f. am_status (hd (memories sample_retired)) = ''RETIRED'' \<and> reinforce_memories [hd sample_prompt] (Some ''DEL-1'') sample_retired = (Inr (), t) \<and>
    memories t = update_where (\<lambda>x. memory_slot x = memory_slot (hd sample_prompt)) f (memories sample_retired) \<and>
    am_status (f (hd (memories sample_retired))) = ''ACTIVE''"
proof -
  obtain m i where rows: "memories sample_retired = [m]" "sample_prompt = [i]" "am_status m = ''RETIRED''" "memory_slot m = memory_slot i"
    using sample_prompt_rows by auto
  have "\<exists>t. reinforce_memories [i] (Some ''DEL-1'') sample_retired = (Inr (), t) \<and> (\<exists>f. memories t = update_where (\<lambda>x. memory_slot x = memory_slot i) f
      (memories sample_retired) \<and> am_memory_human_id (f m) = am_memory_human_id m \<and> am_status (f m) = ''ACTIVE'' \<and> am_title (f m) = am_title i \<and>
      am_occurrence_count (f m) = am_occurrence_count i + 1 \<and> am_confidence (f m) = min 1000000 (am_confidence i + 50000))"
    by (rule reinforcement_restores_old_row [OF sample_learning_reach(2)]) (simp_all add: rows)
  moreover have "hd sample_prompt = i" "hd (memories sample_retired) = m" by (simp_all add: rows)
  ultimately show ?thesis using rows(3) by metis
qed

end
