(* ===== verification/Cockpit.thy ===== *)
theory Cockpit
  imports Release_Provenance Learning
begin

text \<open>
  What a worker writes around the execution of a job: \<^verbatim>\<open>cockpit_worker.py\<close> (events of the job in the run it belongs to),
  \<^verbatim>\<open>release_gate_remediation.py\<close> (a release the gate refused), \<^verbatim>\<open>worker_status.py\<close> and the table of agent runs of \<^verbatim>\<open>store.py\<close>.
\<close>

section \<open>Worker status (\<^verbatim>\<open>worker_status.py\<close>)\<close>

definition TERMINAL_FAILURE :: "string list" where
  "TERMINAL_FAILURE = [''failed'', ''error'', ''blocked'', ''timed_out'', ''cancelled'', ''lease_failed'']"

definition normalize_worker_status :: "string option \<Rightarrow> string" where
  "normalize_worker_status status = py_lower (py_strip (str_of status))"

definition worker_succeeded :: "string option \<Rightarrow> bool" where
  "worker_succeeded status \<longleftrightarrow> normalize_worker_status status = ''succeeded''"

definition worker_failed :: "string option \<Rightarrow> bool" where
  "worker_failed status \<longleftrightarrow> normalize_worker_status status \<in> set TERMINAL_FAILURE"

definition worker_skipped_or_idle :: "string option \<Rightarrow> bool" where
  "worker_skipped_or_idle status \<longleftrightarrow> normalize_worker_status status \<in> {''idle'', ''skipped''}"

section \<open>Events of a job (\<^verbatim>\<open>cockpit_worker.py\<close>)\<close>

definition ROLE_TO_ACTOR :: "(string \<times> string) list" where
  "ROLE_TO_ACTOR = [(''ARCHITECTURE'', ''architecture-agent''), (''DELIVERY'', ''developer-agent''), (''INTEGRATION'', ''developer-agent''),
     (''ASSURANCE_FUNCTIONAL'', ''qa-agent''), (''ASSURANCE_INTEGRATION'', ''qa-agent''), (''ASSURANCE_SECURITY'', ''security-agent''),
     (''ASSURANCE_QUALITY'', ''assurance-agent''), (''RELEASE'', ''release-agent''), (''IMPROVEMENT'', ''improvement-agent'')]"

definition actor_id_for_job :: "job \<Rightarrow> string" where
  "actor_id_for_job j =
     (let role = py_upper (if j_agent_role j \<noteq> [] then j_agent_role j else j_queue j) in
      case map_of ROLE_TO_ACTOR role of
        Some a \<Rightarrow> a
      | None \<Rightarrow> if is_prefix ''ASSURANCE'' (j_queue j) then ''qa-agent'' else py_lower role @ ''-agent'')"

definition worker_ctx :: "job \<Rightarrow> event_ctx \<Rightarrow> event_ctx" where
  "worker_ctx j base =
     (plain_ctx (ec_project_id base) (ec_run_id base))
       \<lparr>ec_handoff_id := ec_handoff_id base, ec_job_id := Some (j_human_id j), ec_work_item_id := j_work_item_human_id j,
        ec_correlation_id := ec_run_id base, ec_slack_team_id := ec_slack_team_id base,
        ec_slack_channel_id := ec_slack_channel_id base, ec_slack_thread_ts := ec_slack_thread_ts base\<rparr>"

definition worker_event :: "job \<Rightarrow> string \<Rightarrow> string \<Rightarrow> string \<Rightarrow> dict option \<Rightarrow> string \<Rightarrow> event_args" where
  "worker_event j ty summary detail ev level =
     (event_args_of ty summary)
       \<lparr>em_actor_id := actor_id_for_job j, em_detail := detail, em_evidence := ev, em_detail_level := level,
        em_metadata := Some [(''queue'', JStr (j_queue j)), (''job_id'', JStr (j_human_id j))]\<rparr>"

text \<open>A job without a run has no events: only the lookup is inside the \<^verbatim>\<open>try\<close>.\<close>

definition emit_worker_cockpit_event :: "policy_files \<Rightarrow> job \<Rightarrow> string \<Rightarrow> string \<Rightarrow> string \<Rightarrow> dict option \<Rightarrow> string \<Rightarrow> unit dbop" where
  "emit_worker_cockpit_event pf j ty summary detail ev level =
     bindS (tryS (bindS (lookup_event_context_for_job (j_id j)) (\<lambda>ctx. returnS (Some ctx)))
                 (\<lambda>e. if is_OrchestrationError e then returnS None else raiseS e)) (\<lambda>base.
     case base of
       None \<Rightarrow> returnS ()
     | Some ctx \<Rightarrow> thenS (emit_projectos_event pf (worker_ctx j ctx) (worker_event j ty summary detail ev level)) (returnS ()))"

definition failure_evidence :: "string \<Rightarrow> bool \<Rightarrow> string \<Rightarrow> dict" where
  "failure_evidence category retryable err =
     [(''error_category'', JStr category), (''retryable'', JBool retryable), (''sponsor_impact'', JStr (take 200 err))]"

definition emit_worker_terminal_event :: "policy_files \<Rightarrow> job \<Rightarrow> string \<Rightarrow> string \<Rightarrow> string option \<Rightarrow> unit dbop" where
  "emit_worker_terminal_event pf j status err oc =
     (let detail = take 500 err in
      if status = ''SUCCEEDED'' then
        emit_worker_cockpit_event pf j ''WORK_COMPLETED'' (j_human_id j @ '' completed successfully.'') detail
          (if truthy_str oc then Some [(''outcome'', JStr (str_of oc))] else None) ''milestone''
      else if status = ''BLOCKED'' then
        emit_worker_cockpit_event pf j ''WORK_BLOCKED'' (j_human_id j @ '' blocked.'') detail
          (Some (failure_evidence ''blocked'' True err)) ''milestone''
      else if status = ''CANCELLED'' then
        emit_worker_cockpit_event pf j ''WORK_FAILED'' (j_human_id j @ '' cancelled.'') detail
          (Some (failure_evidence ''cancelled'' False err)) ''milestone''
      else
        emit_worker_cockpit_event pf j ''WORK_FAILED'' (j_human_id j @ '' failed.'') detail
          (Some (failure_evidence ''failed'' True err)) ''milestone'')"

definition record_worker_failure :: "policy_files \<Rightarrow> int \<Rightarrow> string \<Rightarrow> string option \<Rightarrow> bool \<Rightarrow> job dbop" where
  "record_worker_failure pf i err output_ref blocked =
     bindS (mark_failure i err output_ref blocked) (\<lambda>final.
     thenS (if j_status final \<in> {FAILED, BLOCKED}
            then emit_worker_terminal_event pf final (job_status_text (j_status final)) err None else returnS ())
       (returnS final))"

section \<open>Agent runs (\<^verbatim>\<open>store.insert_agent_run\<close>)\<close>

definition insert_agent_run :: "agent_run \<Rightarrow> int dbop" where
  "insert_agent_run r =
     thenS (job_project_human_id (ag_job_id r))
     (bindS (getS agent_run_seq) (\<lambda>n.
      thenS (modifyS (\<lambda>s. s\<lparr>agent_runs := agent_runs s @ [r\<lparr>ag_id := n + 1\<rparr>], agent_run_seq := n + 1\<rparr>)) (returnS (n + 1))))"

definition latest_agent_run :: "int \<Rightarrow> db \<Rightarrow> agent_run option" where
  "latest_agent_run i s = find_row (\<lambda>_. True) (sort_key (\<lambda>r. - ag_id r) (filter (\<lambda>r. ag_job_id r = i) (agent_runs s)))"

section \<open>A release the gate refused (\<^verbatim>\<open>release_gate_remediation.py\<close>)\<close>

text \<open>The fields of \<^verbatim>\<open>ReleaseEvaluation\<close> the worker reads.\<close>

record release_evaluation =
  re_approved :: bool
  re_reasons :: "string list"
  re_outcome :: string
  re_readiness_report_path :: string

definition UNRECOVERABLE_MARKERS :: "string list" where
  "UNRECOVERABLE_MARKERS = [''repository identity mismatch'', ''cannot inspect evaluation workspace'', ''evaluation workspace is dirty'',
     ''projectctl context'', ''iteration status'', ''cannot advance iteration'', ''missing integrated candidate provenance'', ''policy'',
     ''authority'', ''remediation limit'', ''max remediation'']"

definition is_correctable_release_block :: "string list \<Rightarrow> bool" where
  "is_correctable_release_block reasons \<longleftrightarrow> reasons \<noteq> [] \<and>
     \<not> list_ex (\<lambda>marker. py_in marker (py_lower (join_with ''; '' reasons))) UNRECOVERABLE_MARKERS"

definition release_event :: "string \<Rightarrow> string \<Rightarrow> string \<Rightarrow> dict \<Rightarrow> event_args" where
  "release_event ty summary level ev = (event_args_of ty summary)\<lparr>em_phase := ''release'', em_detail_level := level, em_evidence := Some ev\<rparr>"

definition reopen_release :: "int \<Rightarrow> unit dbop" where
  "reopen_release i = modifyS (\<lambda>s. s\<lparr>jobs := update_where (\<lambda>j. j_id j = i \<and> j_status j = BLOCKED \<and> j_queue j = ''RELEASE'')
     (\<lambda>j. j\<lparr>j_status := READY, j_last_error := None, j_completed_at := None\<rparr>) (jobs s)\<rparr>)"

text \<open>\<^verbatim>\<open>set_job_source_provenance\<close> is called without its required keyword \<^verbatim>\<open>source_delivery_job_id\<close>, which raises a \<^verbatim>\<open>TypeError\<close>.\<close>

definition ensure_release_readiness_remediation :: "policy_files \<Rightarrow> event_ctx \<Rightarrow> job \<Rightarrow> release_evaluation \<Rightarrow> string \<Rightarrow> string dbop" where
  "ensure_release_readiness_remediation pf ctx j ev root =
     (if \<not> truthy_str (ec_run_id ctx) then raiseS OrchestrationError
      else if \<not> is_correctable_release_block (re_reasons ev) then raiseS OrchestrationError
      else
        let rid = str_of (ec_run_id ctx); reasons = JList (map JStr (re_reasons ev)) in
        thenS (emit_projectos_event pf ctx (release_event ''RELEASE_BLOCKED'' ''Release gate blocked; PM scheduled corrective work.'' ''milestone''
                 [(''reasons'', reasons), (''readiness_report'', JStr (re_readiness_report_path ev)), (''correctable'', JBool True)]))
        (bindS (create_job ((job_args_of (j_human_id j @ ''__READINESS_RETRY'') (j_project_human_id j) root ''PM'' ''PM'')
                  \<lparr>n_iteration_human_id := j_iteration_human_id j, n_run_id := ec_run_id ctx\<rparr>)) (\<lambda>retry.
         thenS (if truthy_str (j_source_candidate_sha j) then raiseS TypeError else returnS ())
         (thenS (reopen_release (j_id j))
         (bindS (persist_run_next_action rid (j_project_human_id j) ''PM_QUEUE'' (Some (j_id retry)) None None
                   (Some [(''release_job_id'', JInt (j_id j)), (''release_job_human_id'', JStr (j_human_id j)), (''reasons'', reasons),
                          (''remediation_kind'', JStr ''release_readiness'')])) (\<lambda>action_id.
          thenS (emit_projectos_event pf ctx (release_event ''PM_REPLAN'' ''PM scheduled release readiness remediation.'' ''normal''
                   [(''next_action_id'', JStr action_id), (''retry_job_id'', JInt (j_id retry))]))
            (returnS action_id)))))))"

definition handle_release_blocked_job :: "policy_files \<Rightarrow> event_ctx \<Rightarrow> job \<Rightarrow> release_evaluation \<Rightarrow> string \<Rightarrow> dict dbop" where
  "handle_release_blocked_job pf ctx j ev root =
     (if is_correctable_release_block (re_reasons ev) then
        bindS (ensure_release_readiness_remediation pf ctx j ev root) (\<lambda>action_id.
        returnS [(''correctable'', JBool True), (''next_action_id'', JStr action_id)])
      else thenS (emit_projectos_event pf ctx (release_event ''RELEASE_BLOCKED'' ''Release gate blocked (terminal).'' ''milestone''
                    [(''reasons'', JList (map JStr (re_reasons ev))), (''correctable'', JBool False)]))
        (returnS [(''correctable'', JBool False)]))"

end
