(* ===== verification/Worker.thy ===== *)
theory Worker
  imports Cockpit
begin

text \<open>
  The worker (\<^verbatim>\<open>worker.py\<close>): \<^verbatim>\<open>run_once\<close> claims a job in one transaction, executes it without the database, and records the outcome in
  a second transaction. The two transactions are \<open>claim_job\<close> and \<open>finish_job\<close>; what happens between them is the record
  \<open>execution\<close>, any value of it. The registry, git and the \<^verbatim>\<open>projectctl\<close> program are the record \<open>worker_world\<close>.
\<close>

section \<open>The world of a worker\<close>

record worker_world =
  ww_entry_root :: "string \<Rightarrow> exn + string option"        \<comment> \<open>registry entry of a project: its repository root\<close>
  ww_resolve :: "string \<Rightarrow> string"                        \<comment> \<open>\<^verbatim>\<open>Path(p).resolve()\<close>\<close>
  ww_identity :: "string \<Rightarrow> exn + string"                 \<comment> \<open>\<^verbatim>\<open>validate_registry_entry\<close>: the project the repository declares\<close>
  ww_worktree :: "job \<Rightarrow> string \<Rightarrow> string \<Rightarrow> exn + (string \<times> string \<times> string option)"   \<comment> \<open>\<^verbatim>\<open>ensure_worktree\<close>: name, path, base\<close>
  ww_head :: "string \<Rightarrow> exn + string"                     \<comment> \<open>\<^verbatim>\<open>current_head_sha\<close>\<close>
  ww_checkout :: "string \<Rightarrow> string \<Rightarrow> exn + unit"          \<comment> \<open>\<^verbatim>\<open>checkout_sha\<close>\<close>
  ww_assignment :: "job \<Rightarrow> exn + unit"                    \<comment> \<open>\<^verbatim>\<open>resolve_validated_repo\<close>, \<^verbatim>\<open>resolve_delivery_assignment\<close>\<close>
  ww_belongs :: "string \<Rightarrow> string \<Rightarrow> bool"                \<comment> \<open>\<^verbatim>\<open>sha_belongs_to_repo\<close>\<close>
  ww_message :: "exn \<Rightarrow> string"                          \<comment> \<open>\<^verbatim>\<open>str(exc)\<close>\<close>
  ww_decoder :: decoder
  ww_reason :: string                                    \<comment> \<open>the text that refuses an assurance result\<close>
  ww_defect :: defect_fn

record worker_result =
  wr_status :: string
  wr_job_human_id :: "string option"
  wr_message :: string
  wr_exit_code :: int

definition job_requires_worktree :: "job \<Rightarrow> bool" where
  "job_requires_worktree j \<longleftrightarrow> j_requires_worktree j \<or> j_queue j = ''RELEASE'' \<or> py_upper (j_agent_role j) \<in> set CODE_MODIFYING_ROLES"

definition snapshot_root :: "job \<Rightarrow> exn + string option" where
  "snapshot_root j =
     (case j_identity_snapshot_json j of
        None \<Rightarrow> Inr None
      | Some JBad \<Rightarrow> Inr None
      | Some (JText (JObj d)) \<Rightarrow>
          (case dict_get d ''repository_root'' of
             JStr r \<Rightarrow> Inr (if r = [] then None else Some r)
           | v \<Rightarrow> if truthy v then Inl TypeError else Inr None)
      | Some (JText _) \<Rightarrow> Inl AttributeError)"

definition revalidate_job_identity :: "worker_world \<Rightarrow> job \<Rightarrow> exn + unit" where
  "revalidate_job_identity w j =
     (let here = ww_resolve w (j_repository_root j) in
      case ww_entry_root w (j_project_human_id j) of
        Inl e \<Rightarrow> Inl e
      | Inr None \<Rightarrow> Inl OrchestrationError
      | Inr (Some root) \<Rightarrow>
          if ww_resolve w root \<noteq> here then Inl OrchestrationError
          else (case ww_identity w (j_project_human_id j) of
              Inl e \<Rightarrow> Inl e
            | Inr pid \<Rightarrow>
                if pid \<noteq> j_project_human_id j then Inl OrchestrationError
                else (case snapshot_root j of
                    Inl e \<Rightarrow> Inl e
                  | Inr None \<Rightarrow> Inr ()
                  | Inr (Some r) \<Rightarrow> if ww_resolve w r \<noteq> here then Inl OrchestrationError else Inr ())))"

text \<open>\<^verbatim>\<open>worktree.build_worktree_name\<close>; \<open>$\<close> matches before a final line break too.\<close>

definition name_char :: "char \<Rightarrow> bool" where
  "name_char c \<longleftrightarrow> alnum c \<or> c \<in> {CHR ''.'', CHR ''_'', CHR ''-''}"

definition safe_name :: "string \<Rightarrow> bool" where
  "safe_name t \<longleftrightarrow> (let u = (if t \<noteq> [] \<and> last t = CHR 0x0A then butlast t else t) in u \<noteq> [] \<and> list_all name_char u)"

definition build_worktree_name :: "job \<Rightarrow> exn + string" where
  "build_worktree_name j =
     (let parts = j_project_human_id j # (if truthy_str (j_iteration_human_id j) then [str_of (j_iteration_human_id j)] else []) @ [j_human_id j];
          name = map (\<lambda>c. if c \<in> {CHR ''/'', CHR 0x5C} then CHR ''-'' else if c = CHR '' '' then CHR ''_'' else c) (join_with ''__'' parts)
      in if safe_name name then Inr name else Inl OrchestrationError)"

section \<open>Claiming a job\<close>

text \<open>What the second transaction knows of the first.\<close>

record claim =
  c_job_id :: int
  c_human_id :: string
  c_queue :: string
  c_role :: string
  c_project :: string
  c_repository_root :: string
  c_source_delivery_job_id :: "int option"
  c_source_candidate_sha :: "string option"
  c_worktree_name :: "string option"
  c_worktree_path :: "string option"
  c_base_sha :: "string option"
  c_memories :: "agent_memory list"

datatype claimed = Finished worker_result | Claimed claim

definition finished :: "string \<Rightarrow> string option \<Rightarrow> string \<Rightarrow> int \<Rightarrow> worker_result" where
  "finished status h msg code = \<lparr>wr_status = status, wr_job_human_id = h, wr_message = msg, wr_exit_code = code\<rparr>"

definition select_job :: "string option \<Rightarrow> string option \<Rightarrow> string option \<Rightarrow> (worker_result + job) dbop" where
  "select_job q role human_id =
     (if truthy_str human_id then
        bindS (getS (get_job_by_human_id (str_of human_id))) (\<lambda>row.
        case row of
          None \<Rightarrow> returnS (Inl (finished ''error'' human_id (''Job '' @ repr_str (str_of human_id) @ '' not found'') 1))
        | Some j \<Rightarrow>
            if j_status j \<noteq> READY
            then returnS (Inl (finished ''skipped'' human_id
                   (''Job '' @ str_of human_id @ '' is '' @ job_status_text (j_status j) @ '', not READY'') 0))
            else returnS (Inr j))
      else bindS (bindS (getS (select_ready_job q role None)) liftS) (\<lambda>row.
        case row of
          None \<Rightarrow> returnS (Inl (finished ''idle'' None ''No READY jobs'' 0))
        | Some j \<Rightarrow> returnS (Inr j)))"

text \<open>\<^verbatim>\<open>except ... as exc: record_worker_failure(..., blocked=True); return\<close>.\<close>

definition blocking :: "policy_files \<Rightarrow> worker_world \<Rightarrow> job \<Rightarrow> (exn \<Rightarrow> bool) \<Rightarrow> 'a dbop \<Rightarrow> ('a \<Rightarrow> claimed dbop) \<Rightarrow> claimed dbop" where
  "blocking pf w j caught m f =
     bindS (tryS (bindS m (\<lambda>x. returnS (Inr x))) (\<lambda>e. if caught e then returnS (Inl e) else raiseS e)) (\<lambda>r.
     case r of
       Inl e \<Rightarrow> thenS (record_worker_failure pf (j_id j) (ww_message w e) None True)
         (returnS (Finished (finished ''blocked'' (Some (j_human_id j)) (ww_message w e) 1)))
     | Inr x \<Rightarrow> f x)"

definition worktree_base :: "job \<Rightarrow> string" where
  "worktree_base j =
     (if j_queue j = ''RELEASE'' then str_of (or_else (j_source_candidate_sha j) (or_else (j_base_git_sha j) (Some ''HEAD'')))
      else str_of (or_else (j_base_git_sha j) (or_else (j_source_candidate_sha j) (Some ''HEAD''))))"

definition moves_to_candidate :: "worker_world \<Rightarrow> job \<Rightarrow> string \<Rightarrow> exn + bool" where
  "moves_to_candidate w j path =
     (if j_queue j = ''RELEASE'' \<and> truthy_str (j_source_candidate_sha j)
      then map_sum id (\<lambda>head. Some head \<noteq> j_source_candidate_sha j) (ww_head w path) else Inr False)"

definition make_worktree :: "worker_world \<Rightarrow> job \<Rightarrow> string \<Rightarrow> (job \<times> string option \<times> string option \<times> string option) dbop" where
  "make_worktree w j name =
     bindS (getS (find_active_worktree_holder name (Some (j_id j)))) (\<lambda>holder.
     thenS (guardS (holder = None) OrchestrationError)
     (bindS (liftS (ww_worktree w j name (worktree_base j))) (\<lambda>(n, path, base).
      bindS (liftS (moves_to_candidate w j path)) (\<lambda>move.
      thenS (if move then liftS (ww_checkout w path (str_of (j_source_candidate_sha j))) else returnS ())
      (let base' = (if move then j_source_candidate_sha j else base) in
       bindS (update_job_worktree (j_id j) n path base') (\<lambda>j'. returnS (j', Some n, Some path, base')))))))"

definition prepare_worktree :: "worker_world \<Rightarrow> job \<Rightarrow> (job \<times> string option \<times> string option \<times> string option) dbop" where
  "prepare_worktree w j =
     (if job_requires_worktree j then
        bindS (liftS (if truthy_str (j_worktree_name j) then Inr (str_of (j_worktree_name j)) else build_worktree_name j)) (make_worktree w j)
      else bindS (liftS (if truthy_str (j_base_git_sha j) then Inr (j_base_git_sha j)
                         else map_sum id Some (ww_head w (j_repository_root j)))) (\<lambda>base.
        returnS (j, j_worktree_name j, j_worktree_path j, base)))"

definition claim_of :: "job \<Rightarrow> string option \<Rightarrow> string option \<Rightarrow> string option \<Rightarrow> agent_memory list \<Rightarrow> claim" where
  "claim_of j name path base ms =
     \<lparr>c_job_id = j_id j, c_human_id = j_human_id j, c_queue = j_queue j, c_role = j_agent_role j,
      c_project = j_project_human_id j, c_repository_root = j_repository_root j,
      c_source_delivery_job_id = j_source_delivery_job_id j, c_source_candidate_sha = j_source_candidate_sha j,
      c_worktree_name = name, c_worktree_path = path, c_base_sha = base, c_memories = ms\<rparr>"

definition assign_job :: "policy_files \<Rightarrow> worker_world \<Rightarrow> job \<times> string option \<times> string option \<times> string option \<Rightarrow> claimed dbop" where
  "assign_job pf w = (\<lambda>(j, name, path, base).
     blocking pf w j is_ProjectOSError (if j_queue j = ''DELIVERY'' then liftS (ww_assignment w j) else returnS ()) (\<lambda>_.
     bindS (getS (list_active_memories_for_prompt (j_project_human_id j) (j_agent_role j) 8)) (\<lambda>ms.
     returnS (Claimed (claim_of j name path base ms)))))"

definition prepare_job :: "policy_files \<Rightarrow> worker_world \<Rightarrow> job \<Rightarrow> claimed dbop" where
  "prepare_job pf w j =
     blocking pf w j is_OrchestrationError (if j_queue j = ''RELEASE'' then bind_release_provenance j else returnS j) (\<lambda>j.
     blocking pf w j is_ProjectOSError (prepare_worktree w j) (assign_job pf w))"

definition start_job :: "policy_files \<Rightarrow> worker_world \<Rightarrow> bool \<Rightarrow> job \<Rightarrow> claimed dbop" where
  "start_job pf w skip leased =
     blocking pf w leased is_ProjectOSError (if skip then returnS () else liftS (revalidate_job_identity w leased)) (\<lambda>_.
     bindS (mark_running (j_id leased)) (\<lambda>j.
     thenS (emit_worker_cockpit_event pf j ''WORK_STARTED'' (j_human_id j @ '' started in '' @ j_queue j @ '' queue.'') [] None ''normal'')
       (prepare_job pf w j)))"

definition claim_job :: "policy_files \<Rightarrow> worker_world \<Rightarrow> string \<Rightarrow> string option \<Rightarrow> string option \<Rightarrow> string option \<Rightarrow> int \<Rightarrow> bool \<Rightarrow> claimed dbop" where
  "claim_job pf w wid q role human_id lease_seconds skip =
     thenS (recover_expired_leases None None)
     (bindS (select_job q role human_id) (\<lambda>selected.
      case selected of
        Inl r \<Rightarrow> returnS (Finished r)
      | Inr job \<Rightarrow>
          bindS (tryS (bindS (acquire_lease job wid lease_seconds None) (\<lambda>_. returnS None))
                      (\<lambda>e. if e = LeaseError then returnS (Some e) else raiseS e)) (\<lambda>refused.
          case refused of
            Some e \<Rightarrow> returnS (Finished (finished ''lease_failed'' (Some (j_human_id job)) (ww_message w e) 1))
          | None \<Rightarrow> bindS (get_job (j_id job)) (start_job pf w skip))))"

section \<open>What the execution left\<close>

text \<open>\<^verbatim>\<open>CursorRunResult\<close>, without the workspace it ran in.\<close>

record cursor_result =
  cr_command :: "string list"
  cr_returncode :: int
  cr_stdout :: string
  cr_stderr :: string
  cr_started_at :: iso
  cr_ended_at :: iso
  cr_duration_ms :: int
  cr_output_ref :: string
  cr_stdout_ref :: string
  cr_stderr_ref :: string
  cr_prompt_ref :: "string option"
  cr_usage :: "dict option"
  cr_timed_out :: bool
  cr_cancelled :: bool

text \<open>The local variables of \<^verbatim>\<open>run_once\<close> after its second phase; an exception of that phase is the text \<open>ex_run_error\<close>, and the
  others keep what they had when it was raised.\<close>

record execution =
  ex_run_error :: "string option"
  ex_cursor :: "cursor_result option"
  ex_candidate_sha :: "string option"
  ex_dirty :: "bool option"
  ex_release_eval :: "release_evaluation option"

definition cursor_ok :: "cursor_result \<Rightarrow> bool" where
  "cursor_ok r \<longleftrightarrow> cr_returncode r = 0 \<and> \<not> cr_timed_out r \<and> \<not> cr_cancelled r"

definition run_error_text :: "execution \<Rightarrow> string option" where
  "run_error_text x =
     (if truthy_str (ex_run_error x) then ex_run_error x
      else case ex_cursor x of
        None \<Rightarrow> ex_run_error x
      | Some r \<Rightarrow>
          if cursor_ok r then None
          else if cr_cancelled r then Some ''cursor cancelled''
          else if cr_timed_out r then Some ''cursor timed out''
          else Some (''cursor exit '' @ show_int (cr_returncode r)))"

definition agent_run_of :: "claim \<Rightarrow> string \<Rightarrow> execution \<Rightarrow> agent_run" where
  "agent_run_of c wid x =
     (let r = ex_cursor x in
      \<lparr>ag_id = 0, ag_job_id = c_job_id c, ag_worker_id = wid,
       ag_cursor_command_json = JText (JList (case r of None \<Rightarrow> [] | Some v \<Rightarrow> map JStr (cr_command v))),
       ag_prompt_ref = Option.bind r cr_prompt_ref, ag_output_ref = map_option cr_output_ref r,
       ag_stdout_ref = map_option cr_stdout_ref r, ag_stderr_ref = map_option cr_stderr_ref r,
       ag_exit_code = map_option cr_returncode r, ag_started_at = map_option cr_started_at r,
       ag_ended_at = map_option cr_ended_at r, ag_duration_ms = map_option cr_duration_ms r,
       ag_worktree_name = c_worktree_name c, ag_worktree_path = (if truthy_str (c_worktree_path c) then c_worktree_path c else None),
       ag_base_git_sha = c_base_sha c, ag_candidate_git_sha = ex_candidate_sha x, ag_dirty = ex_dirty x,
       ag_usage_json = map_option (\<lambda>u. JText (JObj u)) (Option.bind r cr_usage), ag_error = run_error_text x\<rparr>)"

section \<open>Recording the outcome\<close>

text \<open>\<^verbatim>\<open>record_worker_failure(...)\<close> followed by the return: with the status the job got, or as \<^verbatim>\<open>blocked\<close>.\<close>

definition fails_with :: "policy_files \<Rightarrow> claim \<Rightarrow> string \<Rightarrow> string option \<Rightarrow> worker_result dbop" where
  "fails_with pf c err output_ref =
     bindS (record_worker_failure pf (c_job_id c) err output_ref False) (\<lambda>final.
     returnS (finished (py_lower (job_status_text (j_status final))) (Some (c_human_id c)) err 1))"

definition blocked_with :: "policy_files \<Rightarrow> claim \<Rightarrow> string \<Rightarrow> worker_result dbop" where
  "blocked_with pf c err =
     thenS (record_worker_failure pf (c_job_id c) err None True)
       (returnS (finished ''blocked'' (Some (c_human_id c)) err 1))"

definition cursor_failure :: "string \<Rightarrow> cursor_result \<Rightarrow> string" where
  "cursor_failure timeout r =
     (let detail = (if cr_cancelled r then ''cursor cancelled''
                    else if cr_timed_out r then ''cursor timed out after '' @ timeout @ ''s''
                    else ''cursor exited '' @ show_int (cr_returncode r)) in
      if py_strip (cr_stderr r) \<noteq> [] then detail @ '': '' @ take 500 (py_strip (cr_stderr r)) else detail)"

text \<open>The delivery an assessor looked at: invalid since, or with another candidate.\<close>

definition assurance_refusal :: "claim \<Rightarrow> job \<Rightarrow> string option" where
  "assurance_refusal c d =
     (if j_outcome d \<in> {Some ''INVALIDATED'', Some ''SUPERSEDED'', Some ''NO_CHANGE''}
      then Some (''Source delivery '' @ j_human_id d @ '' outcome='' @ str_of (j_outcome d) @ ''; assurance cannot approve'')
      else if truthy_str (j_candidate_git_sha d) \<and> truthy_str (c_source_candidate_sha c) \<and> j_candidate_git_sha d \<noteq> c_source_candidate_sha c
      then Some (''Stale QA evidence for '' @ str_of (c_source_candidate_sha c) @ ''; delivery candidate is '' @ str_of (j_candidate_git_sha d))
      else None)"

definition release_refusal :: "claim \<Rightarrow> execution \<Rightarrow> string option" where
  "release_refusal c x =
     (if \<not> truthy_str (c_source_candidate_sha c) then Some ''RELEASE refused: missing integrated candidate provenance''
      else if ex_dirty x = Some True
      then Some (''RELEASE left a dirty worktree; cannot record provenance for integrated candidate '' @ str_of (c_source_candidate_sha c))
      else if ex_candidate_sha x \<noteq> c_source_candidate_sha c
      then Some (''RELEASE refused: workspace SHA '' @ (case ex_candidate_sha x of None \<Rightarrow> ''None'' | Some t \<Rightarrow> t) @
        '' is not integrated candidate '' @ str_of (c_source_candidate_sha c))
      else None)"

text \<open>What each queue still checks before the job succeeds; \<open>k\<close> goes on with the outcome.\<close>

definition after_assurance :: "policy_files \<Rightarrow> claim \<Rightarrow> worker_result dbop \<Rightarrow> worker_result dbop" where
  "after_assurance pf c k =
     (case c_source_delivery_job_id c of
        None \<Rightarrow> k
      | Some d \<Rightarrow>
          if c_queue c \<in> set ASSURANCE_QUEUES \<and> d \<noteq> 0 then
            bindS (get_job d) (\<lambda>delivery.
            case assurance_refusal c delivery of None \<Rightarrow> k | Some msg \<Rightarrow> blocked_with pf c msg)
          else k)"

definition after_delivery ::
    "policy_files \<Rightarrow> worker_world \<Rightarrow> claim \<Rightarrow> execution \<Rightarrow> cursor_result \<Rightarrow> (string option \<Rightarrow> worker_result dbop) \<Rightarrow> worker_result dbop" where
  "after_delivery pf w c x r k =
     (if c_queue c \<noteq> ''DELIVERY'' then k None
      else if \<not> truthy_str (c_worktree_path c) then blocked_with pf c ''DELIVERY requires an isolated worktree''
      else if truthy_str (ex_candidate_sha x) \<and> \<not> ww_belongs w (str_of (c_worktree_path c)) (str_of (ex_candidate_sha x))
      then blocked_with pf c (''candidate_git_sha '' @ str_of (ex_candidate_sha x) @ '' is not present in worktree '' @ str_of (c_worktree_path c))
      else bindS (get_job (c_job_id c)) (\<lambda>snap.
        let ev = evaluate_delivery_candidate snap (c_base_sha c) (ex_candidate_sha x) (ex_dirty x) (Some (cr_stdout r))
                   (py_upper (c_role c) \<in> set CODE_MODIFYING_ROLES) in
        if ce_ok ev then k (ce_outcome ev)
        else fails_with pf c (str_of (or_else (ce_error ev) (Some ''invalid delivery candidate''))) (Some (cr_output_ref r))))"

definition gate_rejected :: "policy_files \<Rightarrow> claim \<Rightarrow> release_evaluation \<Rightarrow> worker_result dbop" where
  "gate_rejected pf c ev =
     (let err = ''RELEASE gate rejected: '' @ join_with ''; '' (re_reasons ev) in
      bindS (record_worker_failure pf (c_job_id c) err (Some (re_readiness_report_path ev)) True) (\<lambda>final.
      bindS (lookup_event_context_for_job (c_job_id c)) (\<lambda>ctx.
      thenS (handle_release_blocked_job pf ctx final ev (c_repository_root c))
        (returnS (finished ''blocked'' (Some (c_human_id c)) err 1)))))"

definition after_release ::
    "policy_files \<Rightarrow> claim \<Rightarrow> execution \<Rightarrow> (string option \<Rightarrow> worker_result dbop) \<Rightarrow> string option \<Rightarrow> worker_result dbop" where
  "after_release pf c x k oc =
     (if c_queue c \<noteq> ''RELEASE'' then k oc
      else case release_refusal c x of
        Some err \<Rightarrow> blocked_with pf c err
      | None \<Rightarrow>
          (case ex_release_eval x of
             None \<Rightarrow> k oc
           | Some ev \<Rightarrow> if re_approved ev then k (Some (re_outcome ev)) else gate_rejected pf c ev))"

definition follow_up :: "policy_files \<Rightarrow> worker_world \<Rightarrow> cursor_result \<Rightarrow> job \<Rightarrow> unit dbop" where
  "follow_up pf w r final =
     (if j_queue final = ''DELIVERY'' \<and> is_valid_qa_candidate final then thenS (maybe_handoff_after_delivery final) (returnS ())
      else if j_queue final = ''INTEGRATION'' then thenS (bind_dependent_release_jobs final) (returnS ())
      else if j_queue final = ''QA_MANAGER'' \<and> truthy_str (j_source_candidate_sha final)
      then thenS (execute_qa_manager_aggregation pf final) (returnS ())
      else if j_queue final \<in> set ASSURANCE_QUEUES \<and> truthy_str (j_source_candidate_sha final)
      then thenS (process_assurance_worker_success pf (ww_decoder w) (ww_reason w) final (Some (cr_stdout r)) (Some (cr_output_ref r))
                    (Some (ww_defect w)))
             (thenS (promote_eligible_release_jobs (Some (j_project_human_id final)) (j_iteration_human_id final)) (returnS ()))
      else returnS ())"

definition conclude :: "policy_files \<Rightarrow> worker_world \<Rightarrow> claim \<Rightarrow> execution \<Rightarrow> cursor_result \<Rightarrow> string option \<Rightarrow> worker_result dbop" where
  "conclude pf w c x r oc =
     bindS (mark_succeeded (c_job_id c) (Some (cr_output_ref r)) (ex_candidate_sha x) oc) (\<lambda>final.
     thenS (emit_worker_terminal_event pf final ''SUCCEEDED'' [] oc)
     (bindS (getS (active_lease_for_job (c_job_id c))) (\<lambda>lease.
      thenS (guardS (lease = None) AssertionError)
      (thenS (follow_up pf w r final)
        (returnS (finished ''succeeded'' (Some (j_human_id final))
           (''Worker task SUCCEEDED (not QA/release acceptance) duration_ms='' @ show_int (cr_duration_ms r) @
            (if truthy_str oc then '' outcome='' @ str_of oc else [])) 0))))))"

definition finish_job ::
    "policy_files \<Rightarrow> worker_world \<Rightarrow> string \<Rightarrow> string \<Rightarrow> claim \<Rightarrow> execution \<Rightarrow> worker_result dbop" where
  "finish_job pf w wid timeout c x =
     bindS (insert_agent_run (agent_run_of c wid x)) (\<lambda>run_id.
     thenS (if c_memories c \<noteq> [] then record_injections (c_project c) (c_human_id c) (Some run_id) (c_memories c) else returnS ())
     (case ex_cursor x of
        None \<Rightarrow> fails_with pf c (if truthy_str (ex_run_error x) then str_of (ex_run_error x) else ''cursor adapter returned no result'') None
      | Some r \<Rightarrow>
          if truthy_str (ex_run_error x) then fails_with pf c (str_of (ex_run_error x)) (Some (cr_output_ref r))
          else if \<not> cursor_ok r then fails_with pf c (cursor_failure timeout r) (Some (cr_output_ref r))
          else thenS (if c_memories c \<noteq> [] then reinforce_memories (c_memories c) (Some (c_human_id c)) else returnS ())
            (after_assurance pf c (after_delivery pf w c x r (after_release pf c x (conclude pf w c x r))))))"

end
