(* ===== verification/Worker_Props.thy ===== *)
theory Worker_Props
  imports Worker
begin

text \<open>
  What the two transactions of the worker promise: a job it records as finished holds no lease; and what they cannot do: start
  or finish a job of a run, or finish an assessment.
\<close>

section \<open>What the bookkeeping around a job leaves alone\<close>

text \<open>The contract of a component of the database that emissions, run events and next actions do not write.\<close>

locale bookkeeping_frame = emission_frame g for g :: "db \<Rightarrow> 'a" +
  assumes frame_actions: "g (s\<lparr>actions := x\<rparr>) = g s"
    and frame_run_events: "g (s\<lparr>run_events := y, run_event_seq := n\<rparr>) = g s"
    and frame_agent_runs: "g (s\<lparr>agent_runs := r, agent_run_seq := n\<rparr>) = g s"
    and frame_memories: "g (s\<lparr>memories := m\<rparr>) = g s" "g (s\<lparr>memories := m, memory_seq := n\<rparr>) = g s"
    and frame_memory_log: "g (s\<lparr>memory_events := l, memory_event_seq := n\<rparr>) = g s" "g (s\<lparr>injections := k, injection_seq := n\<rparr>) = g s"
begin

lemma untouched_event: "untouched g (append_run_event i e st m p)"
  unfolding append_run_event_def job_project_human_id_def Let_def by (intro frames) (simp add: frame_run_events)

lemma untouched_persist: "untouched g (persist_run_next_action rid pid ty i w due pl)"
  unfolding persist_run_next_action_def Let_def by (intro frames untouched_new_uuid) (simp add: frame_actions)

lemma untouched_set_actions: "untouched g (set_actions p st)"
  unfolding set_actions_def by (intro frames) (simp add: frame_actions)

lemma untouched_reconcile: "untouched g (reconcile_run_next_actions rid pid)"
  unfolding reconcile_run_next_actions_def complete_stale_def complete_run_next_action_def
  by (intro frames untouched_set_actions untouched_persist)

lemma untouched_sync: "untouched g (sync_next_actions_for_terminal_job j)"
  unfolding sync_next_actions_for_terminal_job_def complete_run_next_action_for_job_def
  by (intro frames untouched_set_actions untouched_reconcile)

lemma untouched_cockpit_event: "untouched g (emit_worker_cockpit_event pf j ty su d ev l)"
  unfolding emit_worker_cockpit_event_def by (intro frames untouched_emit untouched_reads [OF reads_lookup])

lemma untouched_terminal_event: "untouched g (emit_worker_terminal_event pf j st err oc)"
  unfolding emit_worker_terminal_event_def Let_def by (intro frames untouched_cockpit_event)

lemma untouched_agent_run: "untouched g (insert_agent_run r)"
  unfolding insert_agent_run_def job_project_human_id_def by (intro frames) (simp add: frame_agent_runs)

lemma untouched_injections: "untouched g (record_injections pid job run items)"
  unfolding record_injections_def record_memory_injection_def by (intro frames) (simp add: frame_memory_log)

lemma untouched_reinforce: "untouched g (reinforce_memories items job)"
proof -
  have "untouched g (append_memory_event p m e j ac c r)" for p m e j ac c r
    unfolding append_memory_event_def by (intro frames) (simp add: frame_memory_log)
  moreover have "untouched g (upsert_agent_memory a)" for a
    unfolding upsert_agent_memory_def write_memory_def Let_def by (intro frames) (simp_all add: frame_memories)
  ultimately show ?thesis
    unfolding reinforce_memories_def reinforce_one_def by (intro frames)
qed

end

section \<open>The run a job belongs to\<close>

text \<open>The part of the database \<open>run_of_job\<close> reads.\<close>

definition lineage :: "db \<Rightarrow> job list \<times> remediation_work list \<times> (int \<times> int \<times> string option) list" where
  "lineage s = (jobs s, works s, map (\<lambda>q. (q_id q, q_assurance_job_id q, q_run_id q)) (evidence s))"

lemma insort_key_map: "insort_key k (g x) (map g xs) = map g (insort_key (\<lambda>y. k (g y)) x xs)"
  by (induction xs) auto

lemma sort_key_map: "sort_key k (map g xs) = map g (sort_key (\<lambda>y. k (g y)) xs)"
  by (induction xs) (auto simp: insort_key_map)

lemma newest_of_map:
  "(case sort_key k (filter P (map g xs)) of [] \<Rightarrow> None | y # _ \<Rightarrow> f y) =
   (case sort_key (\<lambda>x. k (g x)) (filter (\<lambda>x. P (g x)) xs) of [] \<Rightarrow> None | x # _ \<Rightarrow> f (g x))"
  by (simp add: filter_map comp_def sort_key_map split: list.split)

lemma run_of_job_lineage:
  assumes "lineage s = lineage t"
  shows "run_of_job j s = run_of_job j t"
proof -
  have newest: "(case sort_key (\<lambda>q. - q_id q) (filter (\<lambda>q. q_assurance_job_id q = i) (evidence u)) of [] \<Rightarrow> None | q # _ \<Rightarrow> q_run_id q) =
      (case sort_key (\<lambda>(a, b, c). - a) (filter (\<lambda>(a, b, c). b = i) (snd (snd (lineage u)))) of [] \<Rightarrow> None | (a, b, c) # _ \<Rightarrow> c)" for i u
    unfolding lineage_def snd_conv
    by (subst newest_of_map [where f = "\<lambda>(a, b, c). c"]) (simp split: list.split)
  have "works s = works t" using assms by (simp add: lineage_def)
  then show ?thesis unfolding run_of_job_def newest assms by simp
qed

interpretation lineage_frame: bookkeeping_frame lineage
  by unfold_locales (simp_all add: lineage_def)

interpretation core_books: bookkeeping_frame core
  by unfold_locales (simp_all add: core_def)

interpretation evidence_books: bookkeeping_frame evidence
  by unfold_locales simp_all

interpretation works_books: bookkeeping_frame works
  by unfold_locales simp_all

lemmas lineage_event [frames] = lineage_frame.untouched_event

lemma untouched_lineage_update_result [frames]: "untouched lineage (update_qa_evidence_result i sha r ref d)"
  unfolding update_qa_evidence_result_def by (intro frames) (auto simp: lineage_def update_where_def result_row_def)

lemma untouched_lineage_reject [frames]: "untouched lineage (reject_stale_assurance_evidence j ref)"
  unfolding reject_stale_assurance_evidence_def by (intro frames untouched_reads [OF reads_get_job])

text \<open>A job without a run has no context of events: \<^verbatim>\<open>lookup_event_context_for_job\<close> raises.\<close>

definition orphan :: "int \<Rightarrow> db \<Rightarrow> bool" where
  "orphan i s \<longleftrightarrow> (\<forall>j. job_by_id i s = Some j \<longrightarrow> run_of_job j s = None)"

lemma orphan_lineage: "lineage t = lineage s \<Longrightarrow> orphan i s \<Longrightarrow> orphan i t"
  by (simp add: orphan_def run_of_job_lineage [of t s]) (simp add: lineage_def job_by_id_def)

lemma lookup_eq:
  "lookup_event_context_for_job i s =
     (case job_by_id i s of None \<Rightarrow> (Inl OrchestrationError, s)
      | Some j \<Rightarrow> (case run_of_job j s of None \<Rightarrow> (Inl OrchestrationError, s) | Some r \<Rightarrow> (Inr (job_ctx j r s), s)))"
  by (simp add: lookup_event_context_for_job_def get_job_def op_simps raiseS_def split: option.split)

lemma wlp_lookup_orphan: "orphan i s \<Longrightarrow> wlp (lookup_event_context_for_job i) Q s"
  by (auto simp: wlp_def lookup_eq orphan_def split: option.splits)

lemma wlp_lineage: "untouched lineage m \<Longrightarrow> orphan i s \<Longrightarrow> (\<And>x t. orphan i t \<Longrightarrow> Q x t) \<Longrightarrow> wlp m Q s"
  by (rule wlp_mono [OF wlp_frame [of lineage]]) (auto intro: orphan_lineage)

lemma orphan_never_assessed:
  assumes "orphan (j_id j) s"
  shows "wlp (process_assurance_worker_success pf dec msg j stdout ref fn) (\<lambda>_ _. False) s"
    "wlp (execute_qa_manager_aggregation pf j) (\<lambda>_ _. False) s"
proof -
  have "wlp (record_invalid_assurance_result pf j msg ref) (\<lambda>_ _. False) s"
    unfolding record_invalid_assurance_result_def wlp_simps
    by (intro allI impI wlp_lineage [where i = "j_id j"] wlp_lookup_orphan frames assms)
  moreover have "wlp (record_assurance_verdict pf j r ref fn) (\<lambda>_ _. False) s" for r
    unfolding record_assurance_verdict_def wlp_simps
    by (intro allI impI wlp_lineage [where i = "j_id j"] wlp_lookup_orphan frames assms)
  ultimately show "wlp (process_assurance_worker_success pf dec msg j stdout ref fn) (\<lambda>_ _. False) s"
    by (simp add: process_assurance_worker_success_def wlp_simps split: sum.split)
  show "wlp (execute_qa_manager_aggregation pf j) (\<lambda>_ _. False) s"
  proof (cases "j_source_delivery_job_id j")
    case (Some d)
    have "wlp (thenS (update_qa_evidence_result (j_id j) c a r None) (thenS (append_run_event (j_id j) e st m p)
        (bindS (lookup_event_context_for_job (j_id j)) k))) (\<lambda>_ _. False) s" for c a r e st m p and k :: "event_ctx \<Rightarrow> (string \<times> string \<times> int) dbop"
      unfolding wlp_simps by (intro wlp_lineage [where i = "j_id j"] wlp_lookup_orphan frames assms)
    then show ?thesis by (simp add: execute_qa_manager_aggregation_def Let_def Some wlp_simps)
  qed (simp add: execute_qa_manager_aggregation_def Let_def wlp_simps)
qed

section \<open>Finishing a job\<close>

lemma wlp_same: "m s = n s \<Longrightarrow> wlp n Q s \<Longrightarrow> wlp m Q s"
  by (simp add: wlp_def)

lemma wlp_after_reads: "untouched (\<lambda>s. s) m \<Longrightarrow> (\<And>x. wlp (f x) Q s) \<Longrightarrow> wlp (bindS m f) Q s"
  by (rule wlp_bindI [OF wlp_frame]) auto

lemma wlp_returnS_fun: "wlp (returnS x) Q = Q x"
  by (auto simp: wlp_returnS)

lemma run_of_job_cong:
  "j_id j = j_id k \<Longrightarrow> j_run_id j = j_run_id k \<Longrightarrow> evidence s = evidence t \<Longrightarrow> works s = works t \<Longrightarrow> run_of_job j s = run_of_job k t"
  by (simp add: run_of_job_def Let_def)

definition lease_free :: "int \<Rightarrow> db \<Rightarrow> bool" where
  "lease_free i s \<longleftrightarrow> (\<forall>l \<in> set (leases s). l_job_id l = i \<longrightarrow> l_released_at l \<noteq> None)"

lemma lease_free_core: "core t = core s \<Longrightarrow> lease_free i s \<Longrightarrow> lease_free i t"
  by (simp add: lease_free_def core_def)

lemma lease_free_iff: "active_lease_for_job i s = None \<longleftrightarrow> lease_free i s"
  by (auto simp: active_lease_for_job_def find_row_None_iff lease_free_def)

lemma released_free: "lease_free i (released i r s)"
  by (simp add: lease_free_def released_def update_where_def released_row_def ball_Un)

lemma ended_lease_free: "lease_free i (ended i f now ev st msg pl r s)"
  unfolding ended_def by (rule lease_free_core [OF _ released_free]) simp

text \<open>What every ending of a job leaves, and what the bookkeeping after it keeps.\<close>

definition settled :: "int \<Rightarrow> job \<Rightarrow> db \<Rightarrow> db \<Rightarrow> bool" where
  "settled i final s t \<longleftrightarrow> job_by_id i t = Some final \<and> evidence t = evidence s \<and> works t = works s \<and> lease_free i t"

lemma lineage_eqD: "lineage t = lineage s \<Longrightarrow> jobs t = jobs s \<and> works t = works s"
  by (simp add: lineage_def)

context identity_update
begin

lemma wlp_ending:
  assumes pl: "plain_payload pl"
  shows "wlp (ending i f g ev st msg pl r (bindS (get_job i) (\<lambda>updated. thenS (sync_next_actions_for_terminal_job updated) (returnS updated))))
    (\<lambda>final t. \<exists>j. job_by_id i s = Some j \<and> final = f (g s) j \<and> settled i final s t) s"
proof (cases "job_by_id i s")
  case None
  then show ?thesis using pl by (simp add: ending_missing wlp_def)
next
  case (Some j)
  let ?u = "ended i f (g s) ev st msg pl r s"
  have id: "j_id j = i" using Some by (auto simp: job_by_id_def dest: find_row_SomeD)
  then have u: "settled i (f (g s) j) s ?u"
    unfolding settled_def using Some by (simp add: ended_job ended_lease_free) (simp add: ended_def logged_def released_def)
  have "wlp (sync_next_actions_for_terminal_job k) (\<lambda>_ t. core t = core ?u \<and> evidence t = evidence ?u \<and> works t = works ?u) ?u" for k
    by (intro wlp_conj wlp_frame core_books.untouched_sync evidence_books.untouched_sync works_books.untouched_sync)
  then have "wlp (sync_next_actions_for_terminal_job k) (\<lambda>_. settled i (f (g s) j) s) ?u" for k
    by (rule wlp_mono) (use u in \<open>auto simp: settled_def job_by_id_def core_def lease_free_def\<close>)
  then have "wlp (bindS (get_job i) (\<lambda>updated. thenS (sync_next_actions_for_terminal_job updated) (returnS updated)))
      (\<lambda>final t. final = f (g s) j \<and> settled i final s t) ?u"
    using u [unfolded settled_def] by (simp add: wlp_simps wlp_returnS_fun get_job_def)
  then show ?thesis
    using Some by (auto simp: wlp_def ending_found [OF Some pl])
qed

end

lemma wlp_mark_succeeded:
  "wlp (mark_succeeded i ref c oc) (\<lambda>final t. \<exists>j. job_by_id i s = Some j \<and> final = succeeded_row ref c oc (now_iso s) j \<and> settled i final s t) s"
  unfolding mark_succeeded_ending by (rule succeeded.wlp_ending) simp

lemma wlp_mark_failure:
  "wlp (mark_failure i err ref b) (\<lambda>final t. \<exists>j. job_by_id i s = Some j \<and> final = failure_row b err ref (clk s) j \<and> settled i final s t) s"
  unfolding mark_failure_ending Let_def
proof (rule wlp_bindI [OF wlp_frame [OF reads_get_job]])
  fix job t
  assume "t = s"
  then show "wlp (ending i (failure_row b err ref) clk (if failure_status b job \<noteq> RETRY_WAIT then ''job.failed'' else ''job.retry_wait'')
      (Some (job_status_text (failure_status b job))) (Some err)
      (Some [(''attempt'', JInt (j_attempt job + 1)), (''max_attempts'', JInt (j_max_attempts job))])
      (release_reason (failure_status b job))
      (bindS (get_job i) (\<lambda>updated. thenS (sync_next_actions_for_terminal_job updated) (returnS updated))))
    (\<lambda>final u. \<exists>j. job_by_id i s = Some j \<and> final = failure_row b err ref (clk s) j \<and> settled i final s u) t"
    by (simp only:) (rule failure.wlp_ending, simp)
qed

text \<open>The completion of a job of a run is announced without the evidence the announcement needs: the emission raises, so only a
  job without a run gets past it.\<close>

lemma completed_event_raises:
  "wlp (emit_projectos_event pf ctx (worker_event j ''WORK_COMPLETED'' su d (if b then Some [(''outcome'', v)] else None) l)) Q s"
proof -
  let ?a = "worker_event j ''WORK_COMPLETED'' su d (if b then Some [(''outcome'', v)] else None) l"
  have "validate_event_truthfulness pf (em_event_type ?a) ctx (em_evidence ?a) (em_metadata ?a) s = (Inl OrchestrationError, s)"
    by (simp add: worker_event_def event_args_of_def validate_event_truthfulness_def require_work_completed_authoritative_def
        entry_def dict_get_def raiseS_def)
  then show ?thesis
    by (auto simp: wlp_def emit_projectos_event_def dest!: emit_with_valid)
qed

lemma wlp_completed:
  "wlp (emit_worker_terminal_event pf j ''SUCCEEDED'' err oc) (\<lambda>_ t. orphan (j_id j) s \<and> core t = core s \<and> lineage t = lineage s) s"
proof -
  have "wlp (emit_worker_terminal_event pf j ''SUCCEEDED'' err oc) (\<lambda>_ _. orphan (j_id j) s) s"
  proof (cases "orphan (j_id j) s")
    case False
    then obtain ctx where "lookup_event_context_for_job (j_id j) s = (Inr ctx, s)"
      by (auto simp: orphan_def lookup_eq)
    then have "emit_worker_terminal_event pf j ''SUCCEEDED'' err oc s =
        thenS (emit_projectos_event pf (worker_ctx j ctx) (worker_event j ''WORK_COMPLETED'' (j_human_id j @ '' completed successfully.'')
          (take 500 err) (if truthy_str oc then Some [(''outcome'', JStr (str_of oc))] else None) ''milestone'')) (returnS ()) s"
      by (simp add: emit_worker_terminal_event_def emit_worker_cockpit_event_def tryS_def bindS_def returnS_def)
    then show ?thesis
      by (rule wlp_same) (simp only: wlp_thenS completed_event_raises)
  qed (simp add: wlp_def)
  then show ?thesis
    by (intro wlp_conj wlp_frame core_books.untouched_terminal_event lineage_frame.untouched_terminal_event)
qed

text \<open>The jobs whose success is followed by a verdict on a candidate.\<close>

definition assesses :: "job \<Rightarrow> bool" where
  "assesses j \<longleftrightarrow> j_queue j \<in> set (''QA_MANAGER'' # ASSURANCE_QUEUES) \<and> truthy_str (j_source_candidate_sha j)"

lemma orphan_assessment_never_followed:
  assumes "orphan (j_id j) s" "assesses j"
  shows "wlp (follow_up pf w r j) (\<lambda>_ _. False) s"
proof -
  have q: "j_queue j \<noteq> ''DELIVERY''" "j_queue j \<noteq> ''INTEGRATION''"
    using assms(2) by (auto simp: assesses_def ASSURANCE_QUEUES_def)
  have "wlp (thenS (process_assurance_worker_success pf dec msg j so ref fn) n) (\<lambda>_ _. False) s"
    "wlp (thenS (execute_qa_manager_aggregation pf j) n) (\<lambda>_ _. False) s" for dec msg so ref fn n
    using orphan_never_assessed [OF assms(1)] by (simp_all add: wlp_def thenS_def bindS_eq_Inr_iff)
  then show ?thesis
    using assms(2) q by (auto simp: follow_up_def assesses_def)
qed

lemma wlp_conclude:
  assumes "job_by_id (c_job_id c) s = Some j"
  shows "wlp (conclude pf w c x r oc) (\<lambda>_ _. run_of_job j s = None \<and> \<not> assesses j) s"
proof -
  let ?i = "c_job_id c"
  have id: "j_id j = ?i" using assms by (auto simp: job_by_id_def dest: find_row_SomeD)
  have rest: "wlp (thenS (emit_worker_terminal_event pf final ''SUCCEEDED'' [] oc)
      (bindS (getS (active_lease_for_job ?i)) (\<lambda>lease. thenS (guardS (lease = None) AssertionError) (thenS (follow_up pf w r final) n))))
      (\<lambda>_ _. run_of_job j s = None \<and> \<not> assesses j) t"
    if final: "final = succeeded_row (Some (cr_output_ref r)) (ex_candidate_sha x) oc (now_iso s) j" and t: "settled ?i final s t"
    for final t and n :: "worker_result dbop"
  proof (rule wlp_thenI [OF wlp_completed])
    fix y u
    have same: "j_id final = ?i" "j_run_id final = j_run_id j" "assesses final \<longleftrightarrow> assesses j"
      using final id by (simp_all add: succeeded_row_def assesses_def)
    assume u: "orphan (j_id final) t \<and> core u = core t \<and> lineage u = lineage t"
    then have o: "orphan (j_id final) u" using orphan_lineage by blast
    have "run_of_job final t = run_of_job j s"
      using t same id by (intro run_of_job_cong) (auto simp: settled_def)
    moreover have "run_of_job final t = None"
      using u t same by (simp add: orphan_def settled_def)
    ultimately have "run_of_job j s = None" by simp
    then show "wlp (bindS (getS (active_lease_for_job ?i)) (\<lambda>lease. thenS (guardS (lease = None) AssertionError) (thenS (follow_up pf w r final) n)))
      (\<lambda>_ _. run_of_job j s = None \<and> \<not> assesses j) u"
      using wlp_mono [OF orphan_assessment_never_followed [OF o]] same(3)
      by (cases "assesses j") (auto simp: wlp_simps)
  qed
  show ?thesis
    unfolding conclude_def
    by (rule wlp_bindI [OF wlp_mark_succeeded]) (use assms rest in auto)
qed

section \<open>The lease of a finished job\<close>

interpretation lease_books: bookkeeping_frame leases
  by unfold_locales simp_all

lemma untouched_leases_store [frames]:
  "untouched leases (get_job i)" "untouched leases (require_same_project ids)" "untouched leases (append_run_event i e st m p)"
  "untouched leases (create_job a)" "untouched leases (add_job_dependency i d)" "untouched leases (set_job_source_provenance i src sha)"
  "untouched leases (insert_qa_evidence pid root di ai c role result rid att prior)"
  "untouched leases (update_qa_evidence_result i c role ref df)" "untouched leases (promote_queued_to_ready i role)"
proof -
  show get: "untouched leases (get_job i)" "untouched leases (require_same_project ids)" for i ids
    by (rule untouched_reads [OF reads_get_job]) (rule untouched_reads [OF reads_require_same_project])
  show event: "untouched leases (append_run_event i e st m p)" for i e st m p by (rule lease_books.untouched_event)
  show "untouched leases (create_job a)" unfolding create_job_def assert_create_job_isolation_def Let_def by (intro frames event get) simp_all
  show "untouched leases (add_job_dependency i d)" unfolding add_job_dependency_def Let_def by (intro frames event get) simp_all
  show "untouched leases (set_job_source_provenance i src sha)"
    unfolding set_job_source_provenance_def update_job_def by (intro frames event get) simp_all
  show "untouched leases (insert_qa_evidence pid root di ai c role result rid att prior)"
    unfolding insert_qa_evidence_def by (intro frames event get) simp_all
  show "untouched leases (update_qa_evidence_result i c role ref df)" unfolding update_qa_evidence_result_def by (intro frames) simp_all
  show "untouched leases (promote_queued_to_ready i role)" unfolding promote_queued_to_ready_def by (intro frames event get) simp_all
qed

lemma untouched_leases_releases:
  "untouched leases (bind_dependent_release_jobs j)" "untouched leases (promote_eligible_release_jobs pid iter)"
  unfolding bind_dependent_release_jobs_def bind_dependent_def bind_sha_from_integration_def promote_eligible_release_jobs_def
    promote_release_def bind_release_provenance_def bind_candidate_def
  by (intro frames)+

lemma untouched_leases_assurance:
  "untouched leases (maybe_handoff_after_delivery j)" "untouched leases (process_assurance_worker_success pf dec msg j so ref fn)"
  "untouched leases (execute_qa_manager_aggregation pf j)"
proof -
  show "untouched leases (maybe_handoff_after_delivery j)"
    unfolding maybe_handoff_after_delivery_def create_assurance_jobs_for_delivery_def create_assessor_def create_manager_def
      wait_for_assessor_def Let_def by (intro frames)
  have core: "untouched leases m" if "untouched core m" for m :: "'b dbop"
    using that by (simp add: untouched_def core_def)
  show "untouched leases (process_assurance_worker_success pf dec msg j so ref fn)" "untouched leases (execute_qa_manager_aggregation pf j)"
    by (rule core [OF untouched_core_process]) (rule core [OF untouched_core_aggregation])
qed

lemma untouched_leases_follow_up: "untouched leases (follow_up pf w r j)"
  unfolding follow_up_def by (intro frames untouched_leases_assurance untouched_leases_releases)

lemma untouched_leases_blocked_release: "untouched leases (handle_release_blocked_job pf ctx j ev root)"
  unfolding handle_release_blocked_job_def ensure_release_readiness_remediation_def reopen_release_def Let_def
  by (intro frames lease_books.untouched_emit lease_books.untouched_persist) simp_all

lemma wlp_worker_failure: "wlp (record_worker_failure pf i err ref b) (\<lambda>_. lease_free i) s"
  unfolding record_worker_failure_def
proof (rule wlp_bindI [OF wlp_mark_failure])
  fix final t
  assume "\<exists>j. job_by_id i s = Some j \<and> final = failure_row b err ref (clk s) j \<and> settled i final s t"
  then have free: "lease_free i t" by (auto simp: settled_def)
  have "untouched core (if j_status final \<in> {FAILED, BLOCKED} then emit_worker_terminal_event pf final (job_status_text (j_status final)) err None
      else returnS ())"
    by (intro frames core_books.untouched_terminal_event)
  from wlp_frame [OF this] show "wlp (thenS (if j_status final \<in> {FAILED, BLOCKED}
      then emit_worker_terminal_event pf final (job_status_text (j_status final)) err None else returnS ()) (returnS final)) (\<lambda>_. lease_free i) t"
    by (rule wlp_thenI) (use free in \<open>auto simp: wlp_simps intro: lease_free_core\<close>)
qed

text \<open>The states a finished job leaves: the store is in order and the job holds no lease.\<close>

definition finished_job :: "int \<Rightarrow> db \<Rightarrow> bool" where
  "finished_job i s \<longleftrightarrow> store_inv s \<and> lease_free i s"

lemma finished_not_held:
  assumes "finished_job i s" "j \<in> set (jobs s)" "j_id j = i"
  shows "j_status j \<notin> {LEASED, RUNNING}"
  using assms by (auto simp: finished_job_def store_inv_def leases_held_def lease_free_def holds_lease_def)

lemma keeps_finished: "keeps store_inv m \<Longrightarrow> untouched leases m \<Longrightarrow> keeps (finished_job i) m"
  by (auto simp: keeps_def untouched_def finished_job_def lease_free_def)

lemma keeps_handoff: "keeps store_inv (maybe_handoff_after_delivery j)"
  unfolding maybe_handoff_after_delivery_def create_assurance_jobs_for_delivery_def Let_def
  by (intro store_keeps keeps_mapS keeps_create_assessor keeps_create_manager)

lemma keeps_releases: "keeps store_inv (bind_dependent_release_jobs j)" "keeps store_inv (promote_eligible_release_jobs pid iter)"
proof -
  show promote: "keeps store_inv (promote_eligible_release_jobs pid iter)" for pid iter
    unfolding promote_eligible_release_jobs_def by (intro store_keeps keeps_mapS keeps_promote_release)
  show "keeps store_inv (bind_dependent_release_jobs j)"
    unfolding bind_dependent_release_jobs_def bind_dependent_def bind_sha_from_integration_def bind_candidate_def
    by (intro store_keeps keeps_mapS promote keeps_set_job_source_provenance)
qed

lemma keeps_follow_up: "keeps (finished_job i) (follow_up pf w r j)"
  by (rule keeps_finished [OF _ untouched_leases_follow_up], unfold follow_up_def)
     (intro store_keeps keeps_handoff keeps_releases keeps_store_inv_frame [OF untouched_core_process]
       keeps_store_inv_frame [OF untouched_core_aggregation])

interpretation reopened: identity_update "\<lambda>now j. j\<lparr>j_status := READY, j_last_error := None, j_completed_at := None\<rparr>"
  by unfold_locales (simp add: same_identity_def)

lemma keeps_blocked_release: "keeps (finished_job i) (handle_release_blocked_job pf ctx j ev root)"
proof -
  have "keeps store_inv (reopen_release k)" for k
    unfolding reopen_release_def by (rule reopened.keeps_update) (auto simp: holds_lease_def)
  then have "keeps store_inv (handle_release_blocked_job pf ctx j ev root)"
    unfolding handle_release_blocked_job_def ensure_release_readiness_remediation_def Let_def
    by (intro store_keeps keeps_create_job keeps_store_inv_frame [OF core_frame.untouched_emit] keeps_store_inv_frame [OF untouched_core_persist])
       (simp add: job_args_of_def)
  then show ?thesis by (rule keeps_finished [OF _ untouched_leases_blocked_release])
qed

lemma wlp_record_finished:
  assumes "store_inv s"
  shows "wlp (record_worker_failure pf i err ref b) (\<lambda>_. finished_job i) s"
proof -
  have "keeps store_inv (record_worker_failure pf i err ref b)"
    unfolding record_worker_failure_def
    by (intro store_keeps keeps_mark_failure keeps_store_inv_frame [OF core_books.untouched_terminal_event])
  then show ?thesis
    unfolding finished_job_def by (intro wlp_conj wlp_keeps wlp_worker_failure assms)
qed

lemma wlp_conclude_finished:
  assumes "store_inv s"
  shows "wlp (conclude pf w c x r oc) (\<lambda>_. finished_job (c_job_id c)) s"
  unfolding conclude_def
proof (rule wlp_bindI [OF wlp_conj [OF wlp_mark_succeeded wlp_keeps [OF keeps_mark_succeeded assms]]], elim exE conjE)
  fix final t j
  assume "store_inv t" "settled (c_job_id c) final s t"
  then have t: "finished_job (c_job_id c) t" by (simp add: finished_job_def settled_def)
  have "keeps (finished_job (c_job_id c)) (emit_worker_terminal_event pf final ''SUCCEEDED'' [] oc)"
    by (rule keeps_untouched [OF core_books.untouched_terminal_event]) (auto simp: finished_job_def intro: store_inv_core lease_free_core [OF sym])
  then show "wlp (thenS (emit_worker_terminal_event pf final ''SUCCEEDED'' [] oc)
      (bindS (getS (active_lease_for_job (c_job_id c))) (\<lambda>lease. thenS (guardS (lease = None) AssertionError)
        (thenS (follow_up pf w r final) (returnS (finished ''succeeded'' (Some (j_human_id final))
           (''Worker task SUCCEEDED (not QA/release acceptance) duration_ms='' @ show_int (cr_duration_ms r) @
            (if truthy_str oc then '' outcome='' @ str_of oc else [])) 0))))))
      (\<lambda>_. finished_job (c_job_id c)) t"
    by (intro wlp_keeps [of "finished_job (c_job_id c)", OF _ t] keeps_thenS keeps_bindS keeps_follow_up) (auto intro: keeps_reads frames)
qed

text \<open>What the second transaction leaves for a job \<open>j\<close> of the run \<open>rid\<close>.\<close>

definition job_recorded :: "int \<Rightarrow> job \<Rightarrow> string option \<Rightarrow> worker_result \<Rightarrow> db \<Rightarrow> bool" where
  "job_recorded i j rid r t \<longleftrightarrow> finished_job i t \<and> (wr_exit_code r = 0 \<longrightarrow> rid = None \<and> \<not> assesses j)"

lemma wlp_recorded_failure:
  assumes "store_inv s"
  shows "wlp (fails_with pf c err ref) (job_recorded (c_job_id c) j rid) s" "wlp (blocked_with pf c err) (job_recorded (c_job_id c) j rid) s"
    "wlp (gate_rejected pf c ev) (job_recorded (c_job_id c) j rid) s"
proof -
  show "wlp (fails_with pf c err ref) (job_recorded (c_job_id c) j rid) s" "wlp (blocked_with pf c err) (job_recorded (c_job_id c) j rid) s"
    unfolding fails_with_def blocked_with_def wlp_simps
    by (rule wlp_mono [OF wlp_record_finished [OF assms]], simp add: wlp_simps job_recorded_def finished_def)+
  show "wlp (gate_rejected pf c ev) (job_recorded (c_job_id c) j rid) s"
    unfolding gate_rejected_def Let_def
  proof (rule wlp_bindI [OF wlp_record_finished [OF assms]])
    fix final t
    assume t: "finished_job (c_job_id c) t"
    show "wlp (bindS (lookup_event_context_for_job (c_job_id c)) (\<lambda>ctx. thenS (handle_release_blocked_job pf ctx final ev (c_repository_root c))
        (returnS (finished ''blocked'' (Some (c_human_id c)) (''RELEASE gate rejected: '' @ join_with ''; '' (re_reasons ev)) 1))))
        (job_recorded (c_job_id c) j rid) t"
      by (intro wlp_after_reads [OF reads_lookup] wlp_thenI [OF wlp_keeps [OF keeps_blocked_release t]])
         (simp add: wlp_simps job_recorded_def finished_def)
  qed
qed

lemma wlp_after:
  assumes inv: "store_inv s" and job: "job_by_id (c_job_id c) s = Some j"
  shows "wlp (after_assurance pf c (after_delivery pf w c x r (after_release pf c x (conclude pf w c x r))))
    (job_recorded (c_job_id c) j (run_of_job j s)) s"
proof -
  note failure = wlp_recorded_failure [OF inv]
  have "wlp (conclude pf w c x r oc) (job_recorded (c_job_id c) j (run_of_job j s)) s" for oc
    using wlp_conj [OF wlp_conclude_finished [OF inv] wlp_conclude [OF job]] by (rule wlp_mono) (simp add: job_recorded_def)
  then have release: "wlp (after_release pf c x (conclude pf w c x r) oc) (job_recorded (c_job_id c) j (run_of_job j s)) s" for oc
    by (auto simp: after_release_def failure split: option.split)
  then have "wlp (after_delivery pf w c x r (after_release pf c x (conclude pf w c x r))) (job_recorded (c_job_id c) j (run_of_job j s)) s"
    by (auto simp: after_delivery_def failure Let_def intro!: wlp_after_reads [OF reads_get_job])
  then show ?thesis
    by (auto simp: after_assurance_def failure intro!: wlp_after_reads [OF reads_get_job] split: option.split)
qed

lemma wlp_finish_job:
  assumes inv: "store_inv s" and job: "job_by_id (c_job_id c) s = Some j"
  shows "wlp (finish_job pf w wid timeout c x) (job_recorded (c_job_id c) j (run_of_job j s)) s"
proof -
  have books: "wlp m (\<lambda>_ t. core t = core s \<and> lineage t = lineage s) u"
    if "untouched core m" "untouched lineage m" "core u = core s" "lineage u = lineage s" for m :: "'b dbop" and u
    using wlp_conj [OF wlp_frame [OF that(1), of u] wlp_frame [OF that(2), of u]] that(3,4) by simp
  have same: "store_inv u" "job_by_id (c_job_id c) u = Some j" "run_of_job j u = run_of_job j s"
    if "core u = core s" "lineage u = lineage s" for u
    using that inv job store_inv_core [of s u] run_of_job_lineage [of u s] by (auto simp: job_by_id_def lineage_def)
  have tail: "wlp (case ex_cursor x of
        None \<Rightarrow> fails_with pf c (if truthy_str (ex_run_error x) then str_of (ex_run_error x) else ''cursor adapter returned no result'') None
      | Some r \<Rightarrow>
          if truthy_str (ex_run_error x) then fails_with pf c (str_of (ex_run_error x)) (Some (cr_output_ref r))
          else if \<not> cursor_ok r then fails_with pf c (cursor_failure timeout r) (Some (cr_output_ref r))
          else thenS (if c_memories c \<noteq> [] then reinforce_memories (c_memories c) (Some (c_human_id c)) else returnS ())
            (after_assurance pf c (after_delivery pf w c x r (after_release pf c x (conclude pf w c x r)))))
      (job_recorded (c_job_id c) j (run_of_job j s)) u"
    if u: "core u = core s" "lineage u = lineage s" for u
  proof -
    have "wlp (thenS (if c_memories c \<noteq> [] then reinforce_memories (c_memories c) (Some (c_human_id c)) else returnS ())
        (after_assurance pf c (after_delivery pf w c x r (after_release pf c x (conclude pf w c x r)))))
      (job_recorded (c_job_id c) j (run_of_job j s)) u" for r
    proof (rule wlp_thenI [OF books [OF _ _ u]])
      fix y t
      assume "core t = core s \<and> lineage t = lineage s"
      then have t: "core t = core s" "lineage t = lineage s" by simp_all
      from wlp_after [OF same(1,2) [OF t]]
      show "wlp (after_assurance pf c (after_delivery pf w c x r (after_release pf c x (conclude pf w c x r))))
        (job_recorded (c_job_id c) j (run_of_job j s)) t" by (simp only: same(3) [OF t])
    qed (intro frames core_books.untouched_reinforce lineage_frame.untouched_reinforce)+
    then show ?thesis
      using wlp_recorded_failure [OF same(1) [OF u]] by (auto split: option.split)
  qed
  show ?thesis
    unfolding finish_job_def
    by (intro wlp_bindI [OF books] wlp_thenI [OF books] tail)
       (auto intro!: frames core_books.untouched_agent_run lineage_frame.untouched_agent_run
         core_books.untouched_injections lineage_frame.untouched_injections)
qed

section \<open>Starting a job\<close>

text \<open>The announcement of the start names the job by its human id where the guard of the event reads a number.\<close>

lemma started_event_needs_number:
  assumes "\<And>i. int_of_text (j_human_id j) \<noteq> Inr i"
  shows "wlp (emit_projectos_event pf ctx (worker_event j ''WORK_STARTED'' su d None l)) Q s"
proof -
  let ?a = "worker_event j ''WORK_STARTED'' su d None l"
  obtain e where "int_of_text (j_human_id j) = Inl e" using assms by (cases "int_of_text (j_human_id j)") auto
  then have "validate_event_truthfulness pf (em_event_type ?a) ctx (em_evidence ?a) (em_metadata ?a) s = (Inl e, s)"
    by (simp add: worker_event_def event_args_of_def validate_event_truthfulness_def require_work_started_evidence_def
        started_job_def json_or_def entry_def dict_get_def op_simps)
  then show ?thesis
    by (auto simp: wlp_def emit_projectos_event_def dest!: emit_with_valid)
qed

definition startable :: "job \<Rightarrow> db \<Rightarrow> bool" where
  "startable j s \<longleftrightarrow> run_of_job j s = None \<or> (\<exists>i. int_of_text (j_human_id j) = Inr i)"

lemma wlp_started:
  assumes "job_by_id (j_id j) s = Some j"
  shows "wlp (emit_worker_cockpit_event pf j ''WORK_STARTED'' su d None l) (\<lambda>_ _. startable j s) s"
proof (cases "startable j s")
  case False
  then obtain ctx where "lookup_event_context_for_job (j_id j) s = (Inr ctx, s)" and no: "\<And>i. int_of_text (j_human_id j) \<noteq> Inr i"
    using assms by (auto simp: startable_def lookup_eq)
  then have "emit_worker_cockpit_event pf j ''WORK_STARTED'' su d None l s =
      thenS (emit_projectos_event pf (worker_ctx j ctx) (worker_event j ''WORK_STARTED'' su d None l)) (returnS ()) s"
    by (simp add: emit_worker_cockpit_event_def tryS_def bindS_def returnS_def)
  then show ?thesis by (rule wlp_same) (simp only: wlp_thenS started_event_needs_number [OF no])
qed (simp add: wlp_def)

text \<open>The names of the jobs and their runs, which nothing after the start rewrites.\<close>

definition names :: "db \<Rightarrow> (int \<times> string \<times> string option) list" where
  "names s = map (\<lambda>j. (j_id j, j_human_id j, j_run_id j)) (jobs s)"

lemma find_row_map: "find_row p (map g xs) = map_option g (find_row (\<lambda>x. p (g x)) xs)"
  by (induction xs) auto

lemma names_job:
  assumes "names t = names s" "job_by_id i t = Some k"
  shows "\<exists>j. job_by_id i s = Some j \<and> j_human_id j = j_human_id k \<and> j_run_id j = j_run_id k"
proof -
  have "find_row (\<lambda>(a, b, c). a = i) (names u) = map_option (\<lambda>j. (j_id j, j_human_id j, j_run_id j)) (job_by_id i u)" for u
    by (simp add: names_def find_row_map job_by_id_def)
  from this [of s] this [of t] show ?thesis using assms by (cases "job_by_id i s") auto
qed

interpretation names_books: bookkeeping_frame names
  by unfold_locales (simp_all add: names_def)

lemma untouched_names_rows:
  assumes "\<And>s j. (j_id (f s j), j_human_id (f s j), j_run_id (f s j)) = (j_id j, j_human_id j, j_run_id j)"
  shows "untouched names (modifyS (\<lambda>s. s\<lparr>jobs := update_where p (f s) (jobs s)\<rparr>))"
  using assms by (intro frames) (auto simp: names_def update_where_def)

lemma untouched_names_ops [frames]:
  "untouched names (get_job i)" "untouched names (append_run_event i e st m p)" "untouched names (require_same_project ids)"
  "untouched names (set_job_source_provenance i src sha)" "untouched names (update_job_worktree i n q b)"
proof -
  show get: "untouched names (get_job i)" "untouched names (require_same_project ids)" for i ids
    by (rule untouched_reads [OF reads_get_job]) (rule untouched_reads [OF reads_require_same_project])
  show event: "untouched names (append_run_event i e st m p)" for i e st m p by (rule names_books.untouched_event)
  show "untouched names (set_job_source_provenance i src sha)"
    unfolding set_job_source_provenance_def update_job_def
    by (intro frames event get untouched_names_rows) (simp_all add: names_def update_where_def provenance_row_def)
  show "untouched names (update_job_worktree i n q b)"
    unfolding update_job_worktree_def update_job_def
    by (intro frames event get untouched_names_rows) (simp_all add: names_def update_where_def worktree_row_def)
qed

lemma untouched_names_release [frames]: "untouched names (bind_release_provenance j)"
  unfolding bind_release_provenance_def bind_candidate_def by (intro frames)

lemma untouched_names_worktree [frames]: "untouched names (prepare_worktree w j)"
  unfolding prepare_worktree_def make_worktree_def Let_def by (intro frames)

lemma wlp_got_job: "wlp (get_job i) (\<lambda>j t. job_by_id i t = Some j \<and> j_id j = i) s"
  by (auto simp: get_job_def wlp_simps job_by_id_def dest: find_row_SomeD split: option.split)

lemma wlp_then: "(\<And>t. wlp n Q t) \<Longrightarrow> wlp (thenS m n) Q s"
  by (rule wlp_thenI [of _ "\<lambda>_ _. True"]) (simp_all add: wlp_def)

lemma wlp_bind: "(\<And>x t. wlp (f x) Q t) \<Longrightarrow> wlp (bindS m f) Q s"
  by (rule wlp_bindI [of _ "\<lambda>_ _. True"]) (simp_all add: wlp_def)

lemma wlp_mark_running: "wlp (mark_running i) (\<lambda>j t. job_by_id i t = Some j \<and> j_id j = i) s"
  unfolding mark_running_def by (intro wlp_then wlp_bind wlp_got_job)

lemma wlp_returned_id: "wlp (update_job_worktree i n p b) (\<lambda>j _. j_id j = i) s" "wlp (set_job_source_provenance i src sha) (\<lambda>j _. j_id j = i) s"
  unfolding update_job_worktree_def set_job_source_provenance_def
  by (intro wlp_then wlp_bind wlp_mono [OF wlp_got_job]; simp)+

lemma wlp_bind_release_id: "wlp (bind_release_provenance j) (\<lambda>k _. j_id k = j_id j) s"
proof -
  have "wlp (bind_candidate j integ sha) (\<lambda>k _. j_id k = j_id j) t" for integ sha t
    unfolding bind_candidate_def by (rule wlp_bindI [OF wlp_returned_id(2)]) (auto intro!: wlp_then simp: wlp_returnS)
  then show ?thesis
    unfolding bind_release_provenance_def by (auto intro!: wlp_bind wlp_then simp: wlp_returnS split: prod.split)
qed

lemma wlp_prepare_id: "wlp (prepare_worktree w j) (\<lambda>x _. j_id (fst x) = j_id j) s"
proof -
  have last: "wlp (bindS (update_job_worktree (j_id j) n p b) (\<lambda>j'. returnS (j', Some n, Some p, b))) (\<lambda>x _. j_id (fst x) = j_id j) t" for n p b t
    by (rule wlp_bindI [OF wlp_returned_id(1)]) (simp add: wlp_returnS)
  have "wlp (make_worktree w j name) (\<lambda>x _. j_id (fst x) = j_id j) t" for name t
    unfolding make_worktree_def Let_def case_prod_unfold
    by (rule wlp_bind, rule wlp_then, rule wlp_bind, rule wlp_bind, rule wlp_then, rule last)
  then show ?thesis
    unfolding prepare_worktree_def by (auto simp: wlp_liftS wlp_returnS wlp_bindS)
qed

lemma wlp_blocking:
  assumes "wlp m (\<lambda>x. wlp (f x) Q) s" "\<And>r t. Q (Finished r) t"
  shows "wlp (blocking pf w j caught m f) Q s"
proof -
  have "wlp (tryS (bindS m (\<lambda>x. returnS (Inr x))) (\<lambda>e. if caught e then returnS (Inl e) else raiseS e))
      (\<lambda>r t. case r of Inl _ \<Rightarrow> True | Inr x \<Rightarrow> wlp (f x) Q t) s"
    using assms(1) by (auto simp: wlp_def tryS_def bindS_def returnS_def raiseS_def split: prod.splits sum.splits if_splits)
  then show ?thesis
    unfolding blocking_def
    by (rule wlp_bindI) (auto simp: wlp_returnS assms(2) intro!: wlp_then split: sum.splits)
qed

definition claim_startable :: "claimed \<Rightarrow> db \<Rightarrow> bool" where
  "claim_startable r t \<longleftrightarrow> (\<forall>c j. r = Claimed c \<longrightarrow> job_by_id (c_job_id c) t = Some j \<longrightarrow> truthy_str (j_run_id j) \<longrightarrow>
     (\<exists>i. int_of_text (j_human_id j) = Inr i))"

lemma claim_startable_Finished [simp]: "claim_startable (Finished r) t"
  by (simp add: claim_startable_def)

text \<open>A step of the claim that keeps the names and returns a job with the same id.\<close>

lemma wlp_claim_step:
  assumes "untouched names m" "wlp m (\<lambda>x _. P x) u" "\<And>x t. P x \<Longrightarrow> names t = names u \<Longrightarrow> wlp (f x) claim_startable t"
  shows "wlp (blocking pf w j caught m f) claim_startable u"
  using wlp_conj [OF assms(2) wlp_frame [OF assms(1)]] by (intro wlp_blocking) (auto elim!: wlp_mono intro: assms(3))

lemma wlp_assign_job:
  assumes "\<And>k. job_by_id (j_id (fst x)) s = Some k \<Longrightarrow> truthy_str (j_run_id k) \<Longrightarrow> \<exists>i. int_of_text (j_human_id k) = Inr i" "names t = names s"
  shows "wlp (assign_job pf w x) claim_startable t"
proof -
  have "claim_startable (Claimed (claim_of (fst x) n p b ms)) u" if "names u = names t" for n p b ms u
    using assms names_job [of u s] that by (fastforce simp: claim_startable_def claim_of_def)
  then show ?thesis
    unfolding assign_job_def case_prod_unfold
    by (intro wlp_claim_step [where P = "\<lambda>_. True"]) (auto intro!: frames simp: wlp_simps)
qed

lemma wlp_prepare_job:
  assumes ok: "\<And>k. job_by_id (j_id j) s = Some k \<Longrightarrow> truthy_str (j_run_id k) \<Longrightarrow> \<exists>i. int_of_text (j_human_id k) = Inr i"
    and t: "names t = names s"
  shows "wlp (prepare_job pf w j) claim_startable t"
  unfolding prepare_job_def
proof (rule wlp_claim_step [where P = "\<lambda>k. j_id k = j_id j"])
  fix a :: job and u
  assume a: "j_id a = j_id j" and u: "names u = names t"
  show "wlp (blocking pf w a is_ProjectOSError (prepare_worktree w a) (assign_job pf w)) claim_startable u"
    by (rule wlp_claim_step [where P = "\<lambda>x. j_id (fst x) = j_id a", OF untouched_names_worktree wlp_prepare_id])
       (rule wlp_assign_job [where s = s], use ok a u t in auto)
qed (auto intro!: frames simp: wlp_bind_release_id wlp_returnS)

lemma wlp_start_job: "wlp (start_job pf w skip leased) claim_startable s"
proof -
  have "wlp (thenS (emit_worker_cockpit_event pf j ''WORK_STARTED'' su [] None ''normal'') (prepare_job pf w j)) claim_startable t"
    if j: "job_by_id i t = Some j \<and> j_id j = i" for i j su t
  proof (rule wlp_thenI [OF wlp_conj [OF wlp_started wlp_frame [OF names_books.untouched_cockpit_event]]], use j in simp)
    fix y u
    assume u: "startable j t \<and> names u = names t"
    then have "\<exists>n. int_of_text (j_human_id j) = Inr n" if "truthy_str (j_run_id j)"
      using that by (auto simp: startable_def run_of_job_def Let_def)
    with j u show "wlp (prepare_job pf w j) claim_startable u" by (intro wlp_prepare_job [of j t]) auto
  qed
  then have "wlp (bindS (mark_running i) (\<lambda>j. thenS (emit_worker_cockpit_event pf j ''WORK_STARTED'' (su j) [] None ''normal'')
      (prepare_job pf w j))) claim_startable t" for i su t
    by (intro wlp_bindI [OF wlp_mark_running]) blast
  then show ?thesis
    unfolding start_job_def by (intro wlp_blocking) (simp_all add: wlp_liftS wlp_returnS)
qed

lemma wlp_claim_job: "wlp (claim_job pf w wid q role h secs skip) claim_startable s"
  unfolding claim_job_def
  by (auto intro!: wlp_then wlp_bind wlp_start_job simp: wlp_returnS claim_startable_def split: sum.split option.split)

text \<open>No part of the claim renames a job.\<close>

lemma untouched_names_lifecycle [frames]:
  "untouched names (recover_expired_leases now pid)" "untouched names (acquire_lease job wid secs now)"
  "untouched names (mark_running i)" "untouched names (mark_failure i err ref b)"
proof -
  have event: "untouched names (append_run_event i e st m p)" for i e st m p by (rule names_books.untouched_event)
  have "untouched names (recover_one now lj)" for now lj
    unfolding recover_one_def
    by (cases lj) (auto simp: names_def update_where_def expired_row_def Let_def intro!: untouched_thenS untouched_modifyS untouched_returnS event)
  then show recover: "untouched names (recover_expired_leases now pid)" for now pid
    unfolding recover_expired_leases_def Let_def by (intro frames)
  show "untouched names (acquire_lease job wid secs now)"
    unfolding acquire_lease_def Let_def
    by (intro frames recover event) (simp_all add: names_def update_where_def leased_row_def unleased_row_def)
  show "untouched names (mark_running i)"
    unfolding mark_running_def by (intro frames event) (simp add: names_def update_where_def running_row_def)
  show "untouched names (mark_failure i err ref b)"
    unfolding mark_failure_def release_lease_def Let_def
    by (intro frames event names_books.untouched_sync) (simp_all add: names_def update_where_def failure_row_def Let_def)
qed

lemma untouched_names_failure [frames]: "untouched names (record_worker_failure pf i err ref b)"
  unfolding record_worker_failure_def by (intro frames names_books.untouched_terminal_event)

lemma untouched_names_blocking:
  "untouched names m \<Longrightarrow> (\<And>x. untouched names (f x)) \<Longrightarrow> untouched names (blocking pf w j caught m f)"
  unfolding blocking_def by (auto intro!: untouched_bindS untouched_tryS frames split: sum.split)

lemma untouched_names_claim: "untouched names (claim_job pf w wid q role h secs skip)"
proof -
  have "untouched names (start_job pf w skip j)" for j
    unfolding start_job_def prepare_job_def assign_job_def case_prod_unfold
    by (intro frames untouched_names_blocking names_books.untouched_cockpit_event)
  then show ?thesis
    unfolding claim_job_def select_job_def
    by (auto intro!: frames split: sum.split)
qed

section \<open>What the worker promises\<close>

text \<open>C17: A worker never holds on to a job it is done with. When the transaction that records an execution returns, whatever
  the execution left (a crash, a timeout, a refused candidate, a rejected release or a success), the store is in order, no
  unreleased lease names the job, the job is neither leased nor running, and the assertion of the worker that the lease is gone
  holds.\<close>

theorem finished_job_holds_no_lease:
  assumes "store_inv s" "transaction (finish_job pf w wid timeout c x) s = (Inr r, t)"
  shows "store_inv t \<and> active_lease_for_job (c_job_id c) t = None \<and>
    (\<forall>j \<in> set (jobs t). j_id j = c_job_id c \<longrightarrow> j_status j \<notin> {LEASED, RUNNING})"
proof -
  have run: "finish_job pf w wid timeout c x s = (Inr r, t)" using assms(2) by (simp add: transaction_Inr)
  then obtain j where "job_by_id (c_job_id c) s = Some j"
    by (cases "job_by_id (c_job_id c) s")
       (auto simp: finish_job_def insert_agent_run_def job_project_human_id_def agent_run_of_def bindS_eq_Inr_iff thenS_def op_simps raiseS_def Let_def)
  from wlp_apply [OF wlp_finish_job [OF assms(1) this] run] have "job_recorded (c_job_id c) j (run_of_job j s) r t" .
  then show ?thesis using finished_not_held by (auto simp: job_recorded_def finished_job_def lease_free_iff)
qed

text \<open>C18: The worker completes no job of a run and no assessment. Whatever the execution left, the transaction that records it
  does not report success for a job that belongs to a run (the announcement of the completed work lacks the work item its guard
  asks for, and raises) nor for an assessor or QA manager of a candidate (outside a run there is no context for the events of its
  verdict).\<close>

theorem worker_success_is_outside_runs:
  assumes "store_inv s" "job_by_id (c_job_id c) s = Some j"
    "transaction (finish_job pf w wid timeout c x) s = (Inr r, t)" "wr_exit_code r = 0"
  shows "run_of_job j s = None \<and> \<not> (j_queue j \<in> set (''QA_MANAGER'' # ASSURANCE_QUEUES) \<and> truthy_str (j_source_candidate_sha j))"
  using wlp_apply [OF wlp_finish_job [OF assms(1,2)]] assms(3,4) by (auto simp: transaction_Inr job_recorded_def assesses_def)

text \<open>C19: A job of a run can be claimed only if its human id is a number. The announcement of the start passes the human id of
  the job where the guard of the event converts a number; the conversion raises and the claim is rolled back, however the job
  was selected.\<close>

theorem run_job_is_never_claimed:
  assumes "store_inv s" "j \<in> set (jobs s)" "truthy_str (j_run_id j)" "int_of_text (j_human_id j) = Inl e"
    "transaction (claim_job pf w wid q role h secs skip) s = (Inr (Claimed c), t)"
  shows "c_job_id c \<noteq> j_id j"
proof
  assume c: "c_job_id c = j_id j"
  have run: "claim_job pf w wid q role h secs skip s = (Inr (Claimed c), t)" using assms(5) by (simp add: transaction_Inr)
  have same: "names t = names s" using untouched_eq [OF untouched_names_claim run] .
  have "job_by_id (j_id j) s = Some j" using assms(1,2) by (simp add: store_inv_job_by_id)
  moreover obtain k where k: "job_by_id (j_id j) t = Some k" "j_human_id k = j_human_id j" "j_run_id k = j_run_id j"
    using names_job [OF same [symmetric] \<open>job_by_id (j_id j) s = Some j\<close>] by auto
  ultimately show False using wlp_apply [OF wlp_claim_job run] c assms(3,4) by (auto simp: claim_startable_def)
qed

text \<open>The remediation of a release that the gate refused for correctable reasons never returns for a release with a candidate: the
  provenance of the retry is set without a required argument.\<close>

lemma correctable_release_is_not_remediated:
  assumes "truthy_str (j_source_candidate_sha j)" "is_correctable_release_block (re_reasons ev)"
  shows "wlp (handle_release_blocked_job pf ctx j ev root) Q s"
proof -
  have last: "wlp (thenS (raiseS TypeError) m) P t" for m :: "string dbop" and P t by (simp add: wlp_thenS wlp_raiseS)
  have "wlp (ensure_release_readiness_remediation pf ctx j ev root) (\<lambda>_ _. False) s"
    using assms unfolding ensure_release_readiness_remediation_def Let_def
    by (simp add: wlp_raiseS) (intro impI wlp_then wlp_bind last)
  then show ?thesis
    unfolding handle_release_blocked_job_def using assms(2) by (simp add: wlp_bindI)
qed

section \<open>Samples\<close>

definition sample_world :: worker_world where
  "sample_world = \<lparr>ww_entry_root = (\<lambda>_. Inr (Some ''/repo'')), ww_resolve = (\<lambda>p. p), ww_identity = (\<lambda>p. Inr p),
     ww_worktree = (\<lambda>_ n _. Inr (n, ''/wt'', Some ''abc'')), ww_head = (\<lambda>_. Inr ''abc''), ww_checkout = (\<lambda>_ _. Inr ()),
     ww_assignment = (\<lambda>_. Inr ()), ww_belongs = (\<lambda>_ _. True), ww_message = (\<lambda>_. ''error''), ww_decoder = sample_decoder,
     ww_reason = ''bad'', ww_defect = (\<lambda>_ _ _. Inr [])\<rparr>"

definition sample_claim :: claim where
  "sample_claim = claim_of (sample_job 1 sample_running) None None (Some ''abc'') []"

definition sample_execution :: execution where
  "sample_execution = \<lparr>ex_run_error = None, ex_cursor = Some \<lparr>cr_command = [''agent''], cr_returncode = 0, cr_stdout = [], cr_stderr = [],
     cr_started_at = 0, cr_ended_at = 1, cr_duration_ms = 5, cr_output_ref = ''out'', cr_stdout_ref = ''out'', cr_stderr_ref = ''err'',
     cr_prompt_ref = None, cr_usage = None, cr_timed_out = False, cr_cancelled = False\<rparr>, ex_candidate_sha = Some ''abc'',
     ex_dirty = Some False, ex_release_eval = None\<rparr>"

lemma sample_running_inv: "store_inv sample_running"
  using sample_running_reach by (rule store_machine.reach_inv)

lemma sample_finish:
  "\<exists>r t. transaction (finish_job sample_policy sample_world ''w1'' ''1800.0'' sample_claim sample_execution) sample_running = (Inr r, t) \<and> wr_exit_code r = 0"
proof -
  let ?m = "transaction (finish_job sample_policy sample_world ''w1'' ''1800.0'' sample_claim sample_execution) sample_running"
  have "case fst ?m of Inl _ \<Rightarrow> False | Inr r \<Rightarrow> wr_exit_code r = 0" by code_simp
  then show ?thesis by (cases ?m) (auto split: sum.splits)
qed

theorem finished_job_holds_no_lease_witness:
  "\<exists>r t. transaction (finish_job sample_policy sample_world ''w1'' ''1800.0'' sample_claim sample_execution) sample_running = (Inr r, t) \<and>
     store_inv t \<and> active_lease_for_job (c_job_id sample_claim) t = None"
  using sample_finish finished_job_holds_no_lease [OF sample_running_inv] by blast

theorem worker_success_is_outside_runs_witness:
  "run_of_job (sample_job 1 sample_running) sample_running = None"
proof -
  obtain r t where run: "transaction (finish_job sample_policy sample_world ''w1'' ''1800.0'' sample_claim sample_execution) sample_running = (Inr r, t)"
    "wr_exit_code r = 0" using sample_finish by blast
  have "job_by_id (c_job_id sample_claim) sample_running = Some (sample_job 1 sample_running)" by code_simp
  from worker_success_is_outside_runs [OF sample_running_inv this run] show ?thesis by blast
qed

text \<open>A job outside runs and a job of a run.\<close>

definition sample_two :: db where
  "sample_two = snd (transaction (create_job ((sample_args ''JOB-2'' ''READY'')\<lparr>n_run_id := Some ''RUN-1''\<rparr>))
     (snd (transaction (create_job (sample_args ''JOB-1'' ''READY'')) sample_empty)))"

lemma sample_two_inv: "store_inv sample_two"
proof -
  have "reach store_start store_step sample_two"
    unfolding sample_two_def sample_empty_def
    by (intro store_reach_step [OF _ create] reach_start) (auto simp: store_start_def sample_args_def)
  then show ?thesis by (rule store_machine.reach_inv)
qed

theorem run_job_is_never_claimed_witness:
  "\<exists>c t. transaction (claim_job sample_policy sample_world ''w1'' None None (Some ''JOB-1'') 900 False) sample_two = (Inr (Claimed c), t) \<and> c_job_id c \<noteq> 2"
proof -
  let ?m = "transaction (claim_job sample_policy sample_world ''w1'' None None (Some ''JOB-1'') 900 False) sample_two"
  have "case fst ?m of Inr (Claimed c) \<Rightarrow> True | _ \<Rightarrow> False" by code_simp
  then obtain c t where run: "?m = (Inr (Claimed c), t)" by (cases ?m) (auto split: sum.splits claimed.splits)
  have j: "jobs sample_two ! 1 \<in> set (jobs sample_two)" "j_id (jobs sample_two ! 1) = 2" "truthy_str (j_run_id (jobs sample_two ! 1))"
    "int_of_text (j_human_id (jobs sample_two ! 1)) = Inl ValueError" by code_simp+
  from run_job_is_never_claimed [OF sample_two_inv j(1,3,4) run] j(2) run show ?thesis by auto
qed

end
