(* ===== verification/Remediation_Loop.thy ===== *)
theory Remediation_Loop
  imports Worker_Props
begin

text \<open>
  The closed loop of QA remediation: findings and their fingerprints (\<^verbatim>\<open>pm_remediation.py\<close>, \<^verbatim>\<open>finding_fingerprint.py\<close>), the execution of
  remediation work (\<^verbatim>\<open>remediation_executor.py\<close>, \<^verbatim>\<open>remediation_recovery.py\<close>), the retest of its candidate (\<^verbatim>\<open>qa_retest.py\<close>), the routing of
  internal defects (\<^verbatim>\<open>orchestration_boundary.py\<close>, \<^verbatim>\<open>internal_defect.py\<close>) and the loop itself, \<^verbatim>\<open>run_qa_with_remediation\<close>.

  \<open>remediation_world\<close> is what lies outside: git objects, the hash, the texts of exceptions, the registry, and \<^verbatim>\<open>service_ctx\<close> as what
  \<^verbatim>\<open>WorkerService.run_once\<close> returns for a job (status and message) and does to the database meanwhile, any operation. The injected
  remediation worker and the assurance executor are operations too.
\<close>

section \<open>The world of the loop\<close>

record remediation_world =
  rw_git_object_exists :: "string \<Rightarrow> string \<Rightarrow> bool"
  rw_sha256 :: "string \<Rightarrow> string"
  rw_message :: "exn \<Rightarrow> string"
  rw_trace :: "exn \<Rightarrow> string"
  rw_registry :: "string \<Rightarrow> exn + string option"
  rw_run_once :: "(string \<Rightarrow> (string \<times> string) dbop) option"

definition CANDIDATE_TYPE_GIT_SHA :: string where "CANDIDATE_TYPE_GIT_SHA = ''git_sha''"
definition CANDIDATE_TYPE_WORK_PRODUCT :: string where "CANDIDATE_TYPE_WORK_PRODUCT = ''work_product''"

definition validate_candidate_identity :: "remediation_world \<Rightarrow> string \<Rightarrow> string \<Rightarrow> string \<Rightarrow> exn + unit" where
  "validate_candidate_identity w candidate_id candidate_type root =
     (if candidate_id = [] then Inl OrchestrationError
      else if candidate_type = CANDIDATE_TYPE_GIT_SHA then
        if py_in ''-remediation-'' candidate_id then Inl OrchestrationError
        else if \<not> rw_git_object_exists w root candidate_id then Inl OrchestrationError
        else Inr ()
      else if candidate_type = CANDIDATE_TYPE_WORK_PRODUCT then
        if is_prefix ''WP-'' candidate_id then Inr () else Inl OrchestrationError
      else Inl OrchestrationError)"

section \<open>Findings (\<^verbatim>\<open>finding_fingerprint.py\<close>, \<^verbatim>\<open>pm_remediation.py\<close>)\<close>

text \<open>\<^verbatim>\<open>re.sub(r"\s+", " ", text)\<close>.\<close>

fun squeeze :: "bool \<Rightarrow> string \<Rightarrow> string" where
  "squeeze inside [] = []"
| "squeeze inside (c # cs) =
     (if py_space c then (if inside then squeeze True cs else CHR '' '' # squeeze True cs) else c # squeeze False cs)"

definition normalize :: "string \<Rightarrow> string" where
  "normalize t = squeeze False (py_lower (py_strip t))"

definition fingerprint_text :: "dict \<Rightarrow> string" where
  "fingerprint_text finding = join_with ''|''
     [normalize (field_or finding ''category'' []), normalize (field_or finding ''affected_component'' []),
      normalize (field_or finding ''expected_condition'' []), normalize (field_or finding ''actual_condition'' []),
      normalize (field_or finding ''source_gate_or_review'' (field_or finding ''assurance_role'' []))]"

definition finding_fingerprint :: "(string \<Rightarrow> string) \<Rightarrow> dict \<Rightarrow> string" where
  "finding_fingerprint sha256 finding = ''FP-'' @ py_upper (take 16 (sha256 (fingerprint_text finding)))"

definition durable_finding_id :: "(string \<Rightarrow> string) \<Rightarrow> dict \<Rightarrow> int option \<Rightarrow> string" where
  "durable_finding_id sha256 finding evidence_id =
     (let fp = drop 3 (finding_fingerprint sha256 finding) in
      case evidence_id of None \<Rightarrow> ''FND-'' @ fp | Some i \<Rightarrow> ''FND-'' @ show_int i @ ''-'' @ fp)"

text \<open>The row of the join: an assessment and the job that made it.\<close>

definition finding_base :: "qa_evidence \<Rightarrow> job option \<Rightarrow> dict" where
  "finding_base q j =
     (let role = (if q_assurance_role q = [] then ''assurance'' else q_assurance_role q);
          last_error = Option.bind j j_last_error;
          actual = (if q_result q \<noteq> [] then q_result q else if truthy_str last_error then str_of last_error else ''failed'');
          category = classify_finding_category role actual in
      [(''category'', JStr category), (''severity'', JStr (if q_result q = ''fail'' then ''high'' else ''medium'')),
       (''evidence'', JStr (if truthy_str (q_evidence_ref q) then str_of (q_evidence_ref q) else str_of last_error)),
       (''affected_component'', JStr (case j of None \<Rightarrow> role | Some k \<Rightarrow> if j_human_id k = [] then role else j_human_id k)),
       (''expected_condition'', JStr ''assurance review passes''), (''actual_condition'', JStr actual),
       (''recommended_owner_role'', JStr category), (''retryable'', JBool True), (''source_gate_or_review'', JStr role),
       (''qa_evidence_id'', JInt (q_id q)), (''candidate_git_sha'', JStr (q_candidate_git_sha q))])"

definition build_finding :: "(string \<Rightarrow> string) \<Rightarrow> qa_evidence \<Rightarrow> job option \<Rightarrow> dict" where
  "build_finding sha256 q j =
     (let base = finding_base q j;
          tagged = dict_set ''fingerprint'' (JStr (finding_fingerprint sha256 base)) base
      in dict_set ''finding_id'' (JStr (durable_finding_id sha256 tagged (Some (q_id q)))) tagged)"

definition is_finding :: "qa_evidence \<Rightarrow> job option \<Rightarrow> bool" where
  "is_finding q j \<longleftrightarrow> q_result q \<in> {''fail'', ''stale_rejected''} \<or> (case j of None \<Rightarrow> False | Some k \<Rightarrow> j_status k \<in> {FAILED, BLOCKED})"

definition collect_qa_findings :: "(string \<Rightarrow> string) \<Rightarrow> string \<Rightarrow> string option \<Rightarrow> string option \<Rightarrow> db \<Rightarrow> dict list" where
  "collect_qa_findings sha256 pid sha rid s =
     map (\<lambda>q. build_finding sha256 q (job_by_id (q_assurance_job_id q) s))
       (sort_key q_created_at (filter (\<lambda>q. q_project_human_id q = pid \<and> (truthy_str sha \<longrightarrow> Some (q_candidate_git_sha q) = sha) \<and>
          (truthy_str rid \<longrightarrow> q_run_id q = rid) \<and> is_finding q (job_by_id (q_assurance_job_id q) s)) (evidence s)))"

text \<open>\<^verbatim>\<open>for item in evidence.get("findings") or []\<close>, up to the first with the fingerprint.\<close>

fun addressed :: "string \<Rightarrow> json list \<Rightarrow> exn + bool" where
  "addressed fp [] = Inr False"
| "addressed fp (JObj d # vs) = (if field_or d ''fingerprint'' [] = fp then Inr True else addressed fp vs)"
| "addressed fp (v # vs) = Inl AttributeError"

definition cycle_addressed :: "string \<Rightarrow> jtext option \<Rightarrow> exn + bool" where
  "cycle_addressed fp ev =
     (case ev of
        None \<Rightarrow> Inr False
      | Some JBad \<Rightarrow> Inr False
      | Some (JText (JObj d)) \<Rightarrow>
          (case dict_get d ''findings'' of
             JList vs \<Rightarrow> addressed fp vs
           | v \<Rightarrow> if \<not> truthy v then Inr False else case v of JStr _ \<Rightarrow> Inl AttributeError | JObj _ \<Rightarrow> Inl AttributeError | _ \<Rightarrow> Inl TypeError)
      | Some (JText _) \<Rightarrow> Inl AttributeError)"

fun count_addressed :: "string \<Rightarrow> projectos_event list \<Rightarrow> exn + nat" where
  "count_addressed fp [] = Inr 0"
| "count_addressed fp (e # es) =
     (case cycle_addressed fp (pe_evidence_json e) of
        Inl x \<Rightarrow> Inl x
      | Inr b \<Rightarrow> map_sum id (\<lambda>n. if b then Suc n else n) (count_addressed fp es))"

definition finding_recurrence :: "string \<Rightarrow> string \<Rightarrow> db \<Rightarrow> exn + nat" where
  "finding_recurrence rid fp s =
     count_addressed fp (sort_key pe_occurred_at (filter (\<lambda>e. pe_run_id e = Some rid \<and> pe_event_type e = ''REMEDIATION_STARTED'') (events s)))"

section \<open>Executing remediation work (\<^verbatim>\<open>remediation_executor.py\<close>)\<close>

record exec_result =
  er_work_item_id :: string
  er_status :: string
  er_target_candidate_id :: "string option"
  er_evidence :: dict
  er_candidate_type :: string

type_synonym remediation_worker = "remediation_work \<Rightarrow> event_ctx \<Rightarrow> string \<Rightarrow> string \<Rightarrow> exec_result dbop"

definition failed_result :: "remediation_work \<Rightarrow> dict \<Rightarrow> exec_result" where
  "failed_result wk ev = \<lparr>er_work_item_id = w_work_item_id wk, er_status = ''FAILED'', er_target_candidate_id = None, er_evidence = ev,
     er_candidate_type = CANDIDATE_TYPE_GIT_SHA\<rparr>"

definition production_remediation_worker ::
    "remediation_world \<Rightarrow> (string \<Rightarrow> (string \<times> string) dbop) \<Rightarrow> remediation_worker" where
  "production_remediation_worker w run_once wk ctx pid root =
     (case w_orchestration_job_id wk of
        None \<Rightarrow> raiseS OrchestrationError
      | Some i \<Rightarrow>
          bindS (get_job i) (\<lambda>job.
          bindS (run_once (j_human_id job)) (\<lambda>(status, message).
          if \<not> worker_succeeded (Some status)
          then returnS (failed_result wk [(''worker_status'', JStr status), (''message'', JStr message)])
          else bindS (get_job i) (\<lambda>refreshed.
            if \<not> truthy_str (j_candidate_git_sha refreshed)
            then returnS (failed_result wk [(''reason'', JStr ''missing_candidate''), (''job_human_id'', JStr (j_human_id job))])
            else let target = str_of (j_candidate_git_sha refreshed) in
              case validate_candidate_identity w target CANDIDATE_TYPE_GIT_SHA root of
                Inl e \<Rightarrow> returnS (failed_result wk [(''reason'', JStr ''invalid_candidate''), (''message'', JStr (rw_message w e))])
              | Inr _ \<Rightarrow> returnS \<lparr>er_work_item_id = w_work_item_id wk, er_status = ''COMPLETED'', er_target_candidate_id = Some target,
                  er_evidence = [(''candidate_git_sha'', JStr target), (''candidate_type'', JStr CANDIDATE_TYPE_GIT_SHA),
                    (''job_human_id'', JStr (j_human_id job))], er_candidate_type = CANDIDATE_TYPE_GIT_SHA\<rparr>))))"

definition work_event :: "remediation_work \<Rightarrow> string \<Rightarrow> string \<Rightarrow> dict \<Rightarrow> event_args" where
  "work_event wk ty summary ev =
     (event_args_of ty summary)\<lparr>em_actor_id := w_assigned_agent wk, em_phase := ''REMEDIATION'', em_evidence := Some ev\<rparr>"

definition emit_work_execution_unavailable :: "policy_files \<Rightarrow> event_ctx \<Rightarrow> remediation_work \<Rightarrow> exec_result dbop" where
  "emit_work_execution_unavailable pf ctx wk =
     (let ev = [(''work_item_id'', JStr (w_work_item_id wk)), (''reason'', JStr ''WORK_EXECUTION_UNAVAILABLE''),
                (''message'', JStr ''Remediation requires ServiceContext or an explicit test worker'')] in
      thenS (update_remediation_work (w_work_item_id wk) (Some ''FAILED'') None (Some ev))
      (thenS (emit_projectos_event pf ctx (work_event wk ''WORK_EXECUTION_UNAVAILABLE''
                (''Remediation work '' @ w_work_item_id wk @ '' cannot execute without worker context.'') ev))
        (returnS \<lparr>er_work_item_id = w_work_item_id wk, er_status = ''UNAVAILABLE'', er_target_candidate_id = None, er_evidence = ev,
           er_candidate_type = CANDIDATE_TYPE_GIT_SHA\<rparr>)))"

text \<open>The work is failed and the failure announced.\<close>

definition fail_work :: "policy_files \<Rightarrow> event_ctx \<Rightarrow> remediation_work \<Rightarrow> dict \<Rightarrow> string \<Rightarrow> dict \<Rightarrow> unit dbop" where
  "fail_work pf ctx wk res summary ev =
     thenS (update_remediation_work (w_work_item_id wk) (Some ''FAILED'') None (Some res))
     (thenS (emit_projectos_event pf ctx (work_event wk ''WORK_FAILED'' summary ev)) (returnS ()))"

definition require_work_completion_evidence :: "dict \<Rightarrow> exn + unit" where
  "require_work_completion_evidence ev =
     (if \<not> truthy (dict_get ev ''work_item_id'') then Inl OrchestrationError
      else if \<not> truthy (json_or (dict_get ev ''target_candidate_id'') (dict_get ev ''candidate_git_sha'')) then Inl OrchestrationError
      else Inr ())"

definition complete_work :: "policy_files \<Rightarrow> event_ctx \<Rightarrow> remediation_work \<Rightarrow> exec_result \<Rightarrow> exec_result dbop" where
  "complete_work pf ctx wk outcome =
     (let target = str_of (er_target_candidate_id outcome);
          ev = dict_update [(''work_item_id'', JStr (w_work_item_id wk)), (''target_candidate_id'', JStr target),
                            (''candidate_type'', JStr (er_candidate_type outcome))] (er_evidence outcome) in
      thenS (set_run_active_candidate (w_run_id wk) target (er_candidate_type outcome) (w_remediation_cycle wk))
      (thenS (update_remediation_work (w_work_item_id wk) (Some ''COMPLETED'') (Some target) (Some (er_evidence outcome)))
      (thenS (liftS (require_work_completion_evidence ev))
      (thenS (emit_projectos_event pf ctx (work_event wk ''WORK_COMPLETED'' (''Remediation completed; candidate '' @ target @ ''.'') ev))
        (returnS outcome)))))"

definition settle_work ::
    "policy_files \<Rightarrow> remediation_world \<Rightarrow> event_ctx \<Rightarrow> remediation_work \<Rightarrow> string \<Rightarrow> exec_result \<Rightarrow> exec_result dbop" where
  "settle_work pf w ctx wk root outcome =
     (if er_status outcome = ''UNAVAILABLE'' then returnS outcome
      else if er_status outcome \<noteq> ''COMPLETED'' \<or> \<not> truthy_str (er_target_candidate_id outcome) then
        thenS (fail_work pf ctx wk (er_evidence outcome) (''Remediation work '' @ w_work_item_id wk @ '' failed.'')
                 (if er_evidence outcome = [] then [(''reason'', JStr ''missing_candidate'')] else er_evidence outcome))
          (returnS (failed_result wk (er_evidence outcome)))
      else case validate_candidate_identity w (str_of (er_target_candidate_id outcome)) (er_candidate_type outcome) root of
        Inl e \<Rightarrow>
          let res = [(''reason'', JStr ''invalid_candidate''), (''message'', JStr (rw_message w e))] in
          thenS (fail_work pf ctx wk res (''Remediation candidate rejected: '' @ rw_message w e)
                   [(''work_item_id'', JStr (w_work_item_id wk)), (''error'', JStr (rw_message w e))])
            (returnS (failed_result wk res))
      | Inr _ \<Rightarrow> complete_work pf ctx wk outcome)"

definition execute_remediation_work ::
    "policy_files \<Rightarrow> remediation_world \<Rightarrow> remediation_worker option \<Rightarrow> event_ctx \<Rightarrow> string \<Rightarrow> string \<Rightarrow> remediation_work \<Rightarrow> exec_result dbop" where
  "execute_remediation_work pf w worker ctx pid root wk =
     thenS (require_persisted_work (w_work_item_id wk) (w_orchestration_job_id wk))
     (case (case worker of Some f \<Rightarrow> Some f | None \<Rightarrow> map_option (production_remediation_worker w) (rw_run_once w)) of
        None \<Rightarrow> emit_work_execution_unavailable pf ctx wk
      | Some runner \<Rightarrow>
          thenS (update_remediation_work (w_work_item_id wk) (Some ''RUNNING'') None None)
          (thenS (emit_projectos_event pf ctx (work_event wk ''WORK_STARTED'' (''Remediation work '' @ w_work_item_id wk @ '' started.'')
                   [(''work_item_id'', JStr (w_work_item_id wk)),
                    (''orchestration_job_id'', case w_orchestration_job_id wk of None \<Rightarrow> JNull | Some i \<Rightarrow> JInt i),
                    (''source_candidate_id'', opt_json (w_source_candidate_id wk)), (''remediation_cycle'', JInt (w_remediation_cycle wk))]))
          (bindS (tryS (runner wk ctx pid root) (\<lambda>e.
             thenS (fail_work pf ctx wk [(''error'', JStr (rw_message w e))] (''Remediation work '' @ w_work_item_id wk @ '' failed.'')
                      [(''work_item_id'', JStr (w_work_item_id wk)), (''error'', JStr (take 500 (rw_message w e)))])
               (raiseS e)))
             (settle_work pf w ctx wk root))))"

section \<open>Resuming interrupted work (\<^verbatim>\<open>remediation_recovery.py\<close>)\<close>

definition work_completed_event :: "string \<Rightarrow> string \<Rightarrow> db \<Rightarrow> bool" where
  "work_completed_event rid wid s = list_ex (\<lambda>e. pe_run_id e = Some rid \<and> pe_event_type e = ''WORK_COMPLETED'' \<and>
     (case evidence_text e of None \<Rightarrow> False | Some t \<Rightarrow> sql_like (''%'' @ wid @ ''%'') t)) (events s)"

definition resume_one ::
    "policy_files \<Rightarrow> remediation_world \<Rightarrow> remediation_worker option \<Rightarrow> event_ctx \<Rightarrow> string \<Rightarrow> string \<Rightarrow> remediation_work \<Rightarrow> exec_result list dbop" where
  "resume_one pf w worker ctx pid root wk =
     bindS (getS (work_completed_event (str_of (ec_run_id ctx)) (w_work_item_id wk))) (\<lambda>completed.
     if completed then returnS []
     else bindS (execute_remediation_work pf w worker ctx pid root wk) (\<lambda>outcome. returnS [outcome]))"

definition resume_outstanding_remediation ::
    "policy_files \<Rightarrow> remediation_world \<Rightarrow> remediation_worker option \<Rightarrow> event_ctx \<Rightarrow> string \<Rightarrow> string \<Rightarrow> exec_result list dbop" where
  "resume_outstanding_remediation pf w worker ctx pid root =
     (case ec_run_id ctx of
        None \<Rightarrow> returnS []
      | Some rid \<Rightarrow>
          bindS (getS (list_outstanding_remediation_work rid)) (\<lambda>outstanding.
          bindS (mapS (resume_one pf w worker ctx pid root) outstanding) (\<lambda>outcomes. returnS (concat outcomes))))"

section \<open>Internal defects (\<^verbatim>\<open>orchestration_boundary.py\<close>, \<^verbatim>\<open>internal_defect.py\<close>)\<close>

definition exn_name :: "exn \<Rightarrow> string" where
  "exn_name e = (case e of
     OrchestrationError \<Rightarrow> ''OrchestrationError'' | ConflictError \<Rightarrow> ''ConflictError'' | CrossProjectWriteError \<Rightarrow> ''CrossProjectWriteError''
   | LeaseError \<Rightarrow> ''LeaseError'' | IntegrityError \<Rightarrow> ''IntegrityError'' | JSONDecodeError \<Rightarrow> ''JSONDecodeError''
   | AssertionError \<Rightarrow> ''AssertionError'' | ValueError \<Rightarrow> ''ValueError'' | AttributeError \<Rightarrow> ''AttributeError'' | TypeError \<Rightarrow> ''TypeError''
   | KeyError \<Rightarrow> ''KeyError'' | QAEvidenceImmutableError \<Rightarrow> ''QAEvidenceImmutableError''
   | AssuranceValidationError \<Rightarrow> ''AssuranceValidationError'' | ProjectOSError \<Rightarrow> ''ProjectOSError'' | RecursionError \<Rightarrow> ''RecursionError'')"

definition is_likely_internal_defect :: "remediation_world \<Rightarrow> exn \<Rightarrow> bool" where
  "is_likely_internal_defect w e \<longleftrightarrow> e \<in> {AttributeError, TypeError, KeyError} \<or>
     py_in ''has no attribute'' (py_lower (rw_message w e)) \<or> py_in ''not subscriptable'' (py_lower (rw_message w e))"

definition run_with_internal_defect_routing :: "remediation_world \<Rightarrow> (exn \<Rightarrow> unit dbop) \<Rightarrow> 'a dbop \<Rightarrow> 'a dbop" where
  "run_with_internal_defect_routing w handle m =
     tryS m (\<lambda>e. if is_OrchestrationError e \<or> \<not> is_likely_internal_defect w e then raiseS e
                  else thenS (handle e) (raiseS OrchestrationError))"

definition defect_evidence :: "remediation_world \<Rightarrow> event_ctx \<Rightarrow> string \<Rightarrow> string \<Rightarrow> string \<Rightarrow> exn \<Rightarrow> dict" where
  "defect_evidence w ctx component operation pid e =
     [(''error_type'', JStr (exn_name e)), (''message'', JStr (take 1000 (rw_message w e))), (''component'', JStr component),
      (''triggering_operation'', JStr operation), (''run_id'', opt_json (ec_run_id ctx)), (''project_id'', JStr pid),
      (''retryable'', JBool True), (''trace'', JStr (rw_trace w e))]"

definition defect_work_args :: "event_ctx \<Rightarrow> string \<Rightarrow> int \<Rightarrow> string \<Rightarrow> dict \<Rightarrow> string \<Rightarrow> work_args" where
  "defect_work_args ctx pid cycle root ev message =
     \<lparr>wa_run_id = str_of (str_or (ec_run_id ctx) (Some pid)), wa_project_id = pid, wa_remediation_cycle = cycle,
      wa_finding_ids = [''INTERNAL-DEFECT''], wa_assigned_agent = ''developer-agent'',
      wa_objective = ''Fix internal defect: '' @ take 200 (take 1000 message),
      wa_acceptance_criteria = ''Defect no longer reproduces; QA validates fix.'', wa_source_candidate_id = None,
      wa_repository_root = root, wa_assignment_reason = ''Internal defect within project repository scope'', wa_findings = [ev],
      wa_execution_queue = None, wa_finding_owner = None\<rparr>"

record retest_args =
  rt_root :: string
  rt_candidate_id :: string
  rt_candidate_type :: string
  rt_run_id :: "string option"
  rt_remediation_cycle :: int
  rt_retest_roles :: "string list option"
  rt_source_job :: "int option"
  rt_source_candidate :: "string option"
  rt_executor :: "(string \<Rightarrow> string \<Rightarrow> string option \<Rightarrow> int \<Rightarrow> int list \<Rightarrow> unit dbop) option"

record retest_result =
  rs_gate :: string
  rs_candidate_id :: string
  rs_candidate_type :: string
  rs_assurance_job_ids :: "int list"
  rs_unavailable :: bool

text \<open>\<open>retest\<close> is \<^verbatim>\<open>execute_qa_retest\<close>, which routes its own defects here.\<close>

definition handle_internal_defect ::
    "(event_ctx \<Rightarrow> string \<Rightarrow> retest_args \<Rightarrow> retest_result dbop) \<Rightarrow> policy_files \<Rightarrow> remediation_world \<Rightarrow> remediation_worker option \<Rightarrow>
     event_ctx \<Rightarrow> string \<Rightarrow> string \<Rightarrow> string \<Rightarrow> string \<Rightarrow> bool \<Rightarrow> exn \<Rightarrow> unit dbop" where
  "handle_internal_defect retest pf w worker ctx pid root component operation in_scope e =
     (let ev = defect_evidence w ctx component operation pid e in
      thenS (emit_projectos_event pf ctx ((event_args_of ''INTERNAL_DEFECT_DETECTED'' (''Internal defect in '' @ component @ '': '' @ exn_name e))
               \<lparr>em_phase := ''REMEDIATION'', em_detail_level := ''milestone'', em_evidence := Some ev\<rparr>))
      (if in_scope then
         bindS (liftS (rw_registry w pid)) (\<lambda>registered.
         let repo = (if root \<noteq> [] then root else str_of registered); repo_root = (if repo = [] then ''/'' else repo);
             rid = str_of (str_or (ec_run_id ctx) (Some pid)) in
         bindS (getS (\<lambda>s. int (count_remediation_cycles rid s) + 1)) (\<lambda>cycle.
         bindS (create_remediation_work (defect_work_args ctx pid cycle repo_root ev (rw_message w e))) (\<lambda>wk.
         bindS (execute_remediation_work pf w worker ctx pid repo_root wk) (\<lambda>outcome.
         if er_status outcome = ''COMPLETED'' \<and> truthy_str (er_target_candidate_id outcome) then
           thenS (retest ctx pid \<lparr>rt_root = repo_root, rt_candidate_id = str_of (er_target_candidate_id outcome),
                    rt_candidate_type = CANDIDATE_TYPE_GIT_SHA, rt_run_id = ec_run_id ctx, rt_remediation_cycle = cycle,
                    rt_retest_roles = None, rt_source_job = w_orchestration_job_id wk, rt_source_candidate = None, rt_executor = None\<rparr>)
             (returnS ())
         else returnS ()))))
       else
         thenS (emit_projectos_event pf ctx ((event_args_of ''CROSS_PROJECT_REMEDIATION_REQUIRED''
                  ''Defect is outside current project authority; Sponsor decision required.'')\<lparr>em_phase := ''sponsor_decision'', em_evidence := Some ev\<rparr>))
           (pause_run_for_sponsor_decision pf ctx ''Cross-project remediation required for internal ProjectOS defect.'' [] (Some ev))))"

section \<open>Retests (\<^verbatim>\<open>qa_retest.py\<close>)\<close>

definition resolve_producer_job :: "int option \<Rightarrow> string \<Rightarrow> job dbop" where
  "resolve_producer_job source candidate_id =
     (case source of
        None \<Rightarrow> raiseS OrchestrationError
      | Some i \<Rightarrow>
          bindS (get_job i) (\<lambda>producer.
          thenS (guardS (j_status producer = SUCCEEDED) OrchestrationError)
          (thenS (guardS (str_of (j_candidate_git_sha producer) = candidate_id) OrchestrationError) (returnS producer))))"

fun partition_assurance_jobs :: "string list option \<Rightarrow> int list \<Rightarrow> (int list \<times> int option) dbop" where
  "partition_assurance_jobs allowed [] = returnS ([], None)"
| "partition_assurance_jobs allowed (i # is) =
     bindS (get_job i) (\<lambda>job.
     bindS (partition_assurance_jobs allowed is) (\<lambda>(assessors, manager).
     if j_queue job = ''QA_MANAGER'' then returnS (assessors, case manager of None \<Rightarrow> Some i | Some m \<Rightarrow> Some m)
     else if j_queue job \<in> set ASSURANCE_QUEUES \<and> (case allowed of None \<Rightarrow> True | Some roles \<Rightarrow> py_upper (j_queue job) \<in> set roles)
     then returnS (i # assessors, manager)
     else returnS (assessors, manager)))"

definition run_assessor :: "(string \<Rightarrow> (string \<times> string) dbop) \<Rightarrow> int \<Rightarrow> unit dbop" where
  "run_assessor run_once i =
     bindS (get_job i) (\<lambda>job.
     bindS (run_once (j_human_id job)) (\<lambda>(status, message). guardS (worker_succeeded (Some status)) OrchestrationError))"

definition run_assurance_via_worker :: "(string \<Rightarrow> (string \<times> string) dbop) \<Rightarrow> int list \<Rightarrow> string list option \<Rightarrow> unit dbop" where
  "run_assurance_via_worker run_once ids roles =
     bindS (partition_assurance_jobs (case roles of None \<Rightarrow> None | Some rs \<Rightarrow> if rs = [] then None else Some (map py_upper rs)) ids) (\<lambda>(assessors, manager).
     thenS (mapS (run_assessor run_once) assessors)
     (case manager of None \<Rightarrow> returnS () | Some i \<Rightarrow> run_assessor run_once i))"

definition retest_event :: "string \<Rightarrow> string \<Rightarrow> dict \<Rightarrow> event_args" where
  "retest_event ty summary ev = (event_args_of ty summary)\<lparr>em_actor_id := ACTOR_QA, em_phase := ''QA_GATE'', em_evidence := Some ev\<rparr>"

definition prepare_retest :: "policy_files \<Rightarrow> remediation_world \<Rightarrow> event_ctx \<Rightarrow> retest_args \<Rightarrow> int list dbop" where
  "prepare_retest pf w ctx a =
     thenS (liftS (validate_candidate_identity w (rt_candidate_id a) (rt_candidate_type a) (rt_root a)))
     (thenS (emit_projectos_event pf ctx (retest_event ''QA_RETEST_STARTED'' (''QA retesting candidate '' @ rt_candidate_id a @ ''.'')
               [(''candidate_id'', JStr (rt_candidate_id a)), (''candidate_type'', JStr (rt_candidate_type a)),
                (''remediation_cycle'', JInt (rt_remediation_cycle a)), (''run_id'', opt_json (rt_run_id a))]))
     (bindS (resolve_producer_job (rt_source_job a) (rt_candidate_id a)) (\<lambda>producer.
      bindS (create_assurance_jobs_for_producer producer (rt_candidate_id a)) (\<lambda>handoff.
      bindS (getS (\<lambda>s. map j_id (List.map_filter (\<lambda>h. get_job_by_human_id h s) (hr_assurance_job_ids handoff)))) (\<lambda>ids.
      thenS (tag_evidence_run ids (rt_candidate_id a) (rt_run_id a) (rt_remediation_cycle a)) (returnS ids))))))"

definition execute_qa_retest_impl :: "policy_files \<Rightarrow> remediation_world \<Rightarrow> event_ctx \<Rightarrow> string \<Rightarrow> retest_args \<Rightarrow> retest_result dbop" where
  "execute_qa_retest_impl pf w ctx pid a =
     bindS (prepare_retest pf w ctx a) (\<lambda>ids.
     let roles = (if truthy_str (rt_source_candidate a) \<and> rt_source_candidate a \<noteq> Some (rt_candidate_id a) then None else rt_retest_roles a);
         evaluated = bindS (getS (collect_qa_gate_facts pid (Some (rt_candidate_id a)) (rt_run_id a))) (\<lambda>facts.
           returnS \<lparr>rs_gate = field_or facts ''gate'' ''PENDING'', rs_candidate_id = rt_candidate_id a, rs_candidate_type = rt_candidate_type a,
             rs_assurance_job_ids = ids, rs_unavailable = False\<rparr>) in
     case rt_executor a of
       Some execute \<Rightarrow> thenS (execute (rt_candidate_id a) (rt_candidate_type a) (rt_run_id a) (rt_remediation_cycle a) ids) evaluated
     | None \<Rightarrow>
         (case rw_run_once w of
            Some run_once \<Rightarrow> thenS (run_assurance_via_worker run_once ids roles) evaluated
          | None \<Rightarrow>
              thenS (emit_projectos_event pf ctx (retest_event ''QA_EXECUTION_UNAVAILABLE'' ''QA retest cannot run without assurance executor context.''
                       [(''candidate_id'', JStr (rt_candidate_id a)), (''reason'', JStr ''missing_service_ctx'')]))
                (returnS \<lparr>rs_gate = ''PENDING'', rs_candidate_id = rt_candidate_id a, rs_candidate_type = rt_candidate_type a,
                   rs_assurance_job_ids = ids, rs_unavailable = True\<rparr>)))"

text \<open>A retest may call itself through the handling of its defects; \<open>depth\<close> is what is left of the recursion limit of the interpreter.\<close>

fun execute_qa_retest :: "nat \<Rightarrow> policy_files \<Rightarrow> remediation_world \<Rightarrow> event_ctx \<Rightarrow> string \<Rightarrow> retest_args \<Rightarrow> retest_result dbop" where
  "execute_qa_retest 0 pf w ctx pid a = raiseS RecursionError"
| "execute_qa_retest (Suc depth) pf w ctx pid a =
     run_with_internal_defect_routing w
       (handle_internal_defect (execute_qa_retest depth pf w) pf w None ctx pid (rt_root a) ''qa_retest'' ''execute_qa_retest'' True)
       (execute_qa_retest_impl pf w ctx pid a)"

section \<open>A remediation cycle (\<^verbatim>\<open>pm_remediation.start_remediation_cycle\<close>)\<close>

text \<open>\<^verbatim>\<open>f["finding_id"]\<close>, a text that \<open>build_finding\<close> set.\<close>

definition finding_id :: "dict \<Rightarrow> string" where
  "finding_id f = py_str (dict_get f ''finding_id'')"

definition remediation_meta :: "dict \<Rightarrow> dict list \<Rightarrow> int \<Rightarrow> string option \<Rightarrow> dict" where
  "remediation_meta facts findings attempt source =
     [(''remediation_cycle'', JInt attempt), (''attempt_number'', JInt attempt),
      (''source_finding_ids'', JList (map (\<lambda>f. JStr (finding_id f)) findings)), (''findings'', JList (map JObj findings)),
      (''qa'', JObj facts), (''source_candidate_id'', opt_json source)]"

definition announce_cycle :: "policy_files \<Rightarrow> event_ctx \<Rightarrow> dict \<Rightarrow> dict list \<Rightarrow> int \<Rightarrow> unit dbop" where
  "announce_cycle pf ctx meta findings attempt =
     thenS (mapS (\<lambda>f. emit_qa_finding_created pf ctx
              (''QA finding '' @ finding_id f @ '': '' @ py_str (dict_get f ''actual_condition'')) (Some f)) findings)
     (thenS (emit_projectos_event pf ctx ((event_args_of ''REMEDIATION_REQUIRED'' ''PM requires corrective work before release can continue.'')
               \<lparr>em_phase := ''REMEDIATION'', em_detail_level := ''milestone'', em_evidence := Some meta\<rparr>))
     (thenS (emit_projectos_event pf ctx ((event_args_of ''PM_REPLAN'' ''PM replanned release workflow for QA remediation.'')
               \<lparr>em_phase := ''REMEDIATION'', em_evidence := Some meta\<rparr>))
     (thenS (emit_projectos_event pf ctx ((event_args_of ''REMEDIATION_STARTED'' (''Remediation cycle '' @ show_int attempt @ '' started.''))
               \<lparr>em_phase := ''REMEDIATION'', em_evidence := Some meta\<rparr>))
       (returnS ()))))"

definition group_work_args ::
    "event_ctx \<Rightarrow> string \<Rightarrow> string \<Rightarrow> int \<Rightarrow> string option \<Rightarrow> string \<times> string \<times> dict list \<times> string \<Rightarrow> work_args" where
  "group_work_args ctx pid root attempt source = (\<lambda>(agent, queue, fs, reason).
     \<lparr>wa_run_id = str_of (str_or (ec_run_id ctx) (Some pid)), wa_project_id = pid, wa_remediation_cycle = attempt,
      wa_finding_ids = map finding_id fs, wa_assigned_agent = agent,
      wa_objective = ''Remediate QA findings for candidate '' @ (case source of None \<Rightarrow> ''None'' | Some c \<Rightarrow> c),
      wa_acceptance_criteria = ''Produce new candidate and pass independent QA retest.'', wa_source_candidate_id = source,
      wa_repository_root = root, wa_assignment_reason = reason, wa_findings = fs, wa_execution_queue = Some queue,
      wa_finding_owner = Some (fst (resolve_remediation_execution (hd fs)))\<rparr>)"

definition assignment_event :: "int \<Rightarrow> string \<times> string \<times> dict list \<times> string \<Rightarrow> remediation_work \<Rightarrow> event_args" where
  "assignment_event attempt = (\<lambda>(agent, queue, fs, reason) wk.
     (event_args_of ''AGENT_ASSIGNED'' (''Assigned: '' @ agent @ '' for QA remediation.''))
       \<lparr>em_phase := ''REMEDIATION'',
        em_metadata := Some [(''agent_id'', JStr agent), (''finding_owner'', JStr (fst (resolve_remediation_execution (hd fs)))),
          (''execution_queue'', JStr queue), (''finding_ids'', JList (map (\<lambda>f. JStr (finding_id f)) fs)), (''reason'', JStr reason),
          (''remediation_cycle'', JInt attempt), (''work_item_id'', JStr (w_work_item_id wk))],
        em_evidence := Some [(''work_item_id'', JStr (w_work_item_id wk)),
          (''orchestration_job_id'', case w_orchestration_job_id wk of None \<Rightarrow> JNull | Some i \<Rightarrow> JInt i)]\<rparr>)"

text \<open>One round over the groups; the loop stops at the first work that does not deliver a candidate.\<close>

definition remediate_group ::
    "policy_files \<Rightarrow> remediation_world \<Rightarrow> remediation_worker option \<Rightarrow> event_ctx \<Rightarrow> string \<Rightarrow> string \<Rightarrow> int \<Rightarrow> string option \<Rightarrow>
     string \<times> string \<times> dict list \<times> string \<Rightarrow> (exec_result \<times> remediation_work) dbop" where
  "remediate_group pf w worker ctx pid root attempt source g =
     bindS (create_remediation_work (group_work_args ctx pid root attempt source g)) (\<lambda>wk.
     thenS (emit_projectos_event pf ctx (assignment_event attempt g wk))
     (bindS (execute_remediation_work pf w worker ctx pid root wk) (\<lambda>outcome. returnS (outcome, wk))))"

definition delivered :: "exec_result \<Rightarrow> bool" where
  "delivered r \<longleftrightarrow> er_status r = ''COMPLETED'' \<and> truthy_str (er_target_candidate_id r)"

fun remediate_groups ::
    "('g \<Rightarrow> (exec_result \<times> remediation_work) dbop) \<Rightarrow> 'g list \<Rightarrow> (exec_result \<times> remediation_work) option \<Rightarrow>
     (exec_result \<times> remediation_work) option dbop" where
  "remediate_groups step [] prev = returnS prev"
| "remediate_groups step (g # gs) prev =
     bindS (step g) (\<lambda>r. if delivered (fst r) then remediate_groups step gs (Some r) else returnS (Some r))"

definition retest_cycle ::
    "nat \<Rightarrow> policy_files \<Rightarrow> remediation_world \<Rightarrow> (string \<Rightarrow> string \<Rightarrow> string option \<Rightarrow> int \<Rightarrow> int list \<Rightarrow> unit dbop) option \<Rightarrow> event_ctx \<Rightarrow>
     string \<Rightarrow> string \<Rightarrow> dict list \<Rightarrow> int \<Rightarrow> string option \<Rightarrow> exec_result \<Rightarrow> remediation_work \<Rightarrow> unit dbop" where
  "retest_cycle depth pf w executor ctx pid root findings attempt source outcome wk =
     (let roles = map (\<lambda>f. py_str (dict_get f ''source_gate_or_review'')) (filter (\<lambda>f. truthy (dict_get f ''source_gate_or_review'')) findings) in
      bindS (execute_qa_retest depth pf w ctx pid \<lparr>rt_root = root, rt_candidate_id = str_of (er_target_candidate_id outcome),
               rt_candidate_type = er_candidate_type outcome, rt_run_id = ec_run_id ctx, rt_remediation_cycle = attempt,
               rt_retest_roles = (if roles = [] then None else Some roles), rt_source_job = w_orchestration_job_id wk,
               rt_source_candidate = source, rt_executor = executor\<rparr>) (\<lambda>retest.
      thenS (set_run_active_candidate (str_of (str_or (ec_run_id ctx) (Some pid))) (rs_candidate_id retest) (rs_candidate_type retest) attempt)
      (if rs_gate retest \<in> {''PASSED'', ''FAILED''}
       then thenS (emit_qa_gate_evaluation pf pid (Some ctx) False (Some (rs_candidate_id retest)) (ec_run_id ctx)) (returnS ())
       else returnS ())))"

definition start_remediation_cycle ::
    "nat \<Rightarrow> policy_files \<Rightarrow> remediation_world \<Rightarrow> remediation_worker option \<Rightarrow>
     (string \<Rightarrow> string \<Rightarrow> string option \<Rightarrow> int \<Rightarrow> int list \<Rightarrow> unit dbop) option \<Rightarrow> event_ctx \<Rightarrow> string \<Rightarrow> string \<Rightarrow> dict \<Rightarrow> dict list \<Rightarrow> int \<Rightarrow>
     exec_result dbop" where
  "start_remediation_cycle depth pf w worker executor ctx pid root facts findings attempt =
     bindS (getS (latest_candidate_sha pid (ec_run_id ctx))) (\<lambda>source.
     thenS (announce_cycle pf ctx (remediation_meta facts findings attempt source) findings attempt)
     (bindS (remediate_groups (remediate_group pf w worker ctx pid root attempt source) (group_findings_for_remediation findings) None) (\<lambda>final.
      case final of
        None \<Rightarrow> returnS \<lparr>er_work_item_id = [], er_status = ''FAILED'', er_target_candidate_id = None,
          er_evidence = [(''reason'', JStr ''no_remediation_groups'')], er_candidate_type = CANDIDATE_TYPE_GIT_SHA\<rparr>
      | Some (outcome, wk) \<Rightarrow>
          if delivered outcome
          then thenS (retest_cycle depth pf w executor ctx pid root findings attempt source outcome wk) (returnS outcome)
          else returnS outcome)))"

section \<open>The loop (\<^verbatim>\<open>pm_remediation.run_qa_with_remediation\<close>)\<close>

record remediation_result =
  rr_gate :: string
  rr_cycles :: nat
  rr_escalated :: bool
  rr_findings :: "dict list"

definition loop_result :: "string \<Rightarrow> nat \<Rightarrow> remediation_result" where
  "loop_result gate cycles = \<lparr>rr_gate = gate, rr_cycles = cycles, rr_escalated = False, rr_findings = []\<rparr>"

definition limit_event :: "string \<Rightarrow> dict \<Rightarrow> event_args" where
  "limit_event summary ev = (event_args_of ''REMEDIATION_LIMIT_REACHED'' summary)
     \<lparr>em_phase := ''REMEDIATION'', em_detail_level := ''milestone'', em_evidence := Some ev\<rparr>"

definition exceeded :: "string \<Rightarrow> dict \<Rightarrow> close_args" where
  "exceeded summary failure = \<lparr>cl_summary = summary, cl_detail = [], cl_failure = Some failure,
     cl_outcome = Some ''MAX_REMEDIATION_POLICY_EXCEEDED'', cl_terminal_status = None\<rparr>"

text \<open>The first finding that has been addressed too often, with its count.\<close>

fun recurring :: "string \<Rightarrow> int \<Rightarrow> dict list \<Rightarrow> db \<Rightarrow> exn + (dict \<times> nat) option" where
  "recurring rid limit [] s = Inr None"
| "recurring rid limit (f # fs) s =
     (case finding_recurrence rid (py_str (dict_get f ''fingerprint'')) s of
        Inl e \<Rightarrow> Inl e
      | Inr n \<Rightarrow> if limit \<le> int n then Inr (Some (f, n)) else recurring rid limit fs s)"

definition escalate_finding :: "policy_files \<Rightarrow> event_ctx \<Rightarrow> nat \<Rightarrow> dict list \<Rightarrow> dict \<Rightarrow> nat \<Rightarrow> remediation_result dbop" where
  "escalate_finding pf ctx cycles findings f n =
     thenS (emit_projectos_event pf ctx (limit_event ''Remediation policy limit exceeded for recurring QA finding.''
              [(''finding'', JObj f), (''recurrence'', JInt (int n))]))
     (thenS (close_execution_run pf ctx (exceeded ''Remediation policy exceeded; PM escalated the run.''
               [(''phase'', JStr ''QA_GATE''), (''finding'', JObj f), (''recurrence'', JInt (int n))]))
       (returnS \<lparr>rr_gate = ''FAILED'', rr_cycles = cycles, rr_escalated = True, rr_findings = findings\<rparr>))"

definition limit_reached :: "policy_files \<Rightarrow> event_ctx \<Rightarrow> string \<Rightarrow> nat \<Rightarrow> remediation_result dbop" where
  "limit_reached pf ctx pid cycles =
     bindS (getS (latest_candidate_sha pid (ec_run_id ctx))) (\<lambda>candidate.
     bindS (getS (collect_qa_gate_facts pid candidate (ec_run_id ctx))) (\<lambda>facts.
     let gate = field_or facts ''gate'' ''FAILED'' in
     if gate \<noteq> ''PASSED'' then
       thenS (emit_projectos_event pf ctx (limit_event ''Maximum remediation cycles reached.''
                [(''remediation_cycles'', JInt (int cycles)), (''qa'', JObj facts)]))
       (thenS (close_execution_run pf ctx (exceeded ''Maximum remediation cycles exceeded; PM escalated the run.''
                 [(''phase'', JStr ''QA_GATE''), (''remediation_cycles'', JInt (int cycles)), (''qa'', JObj facts)]))
         (returnS \<lparr>rr_gate = gate, rr_cycles = cycles, rr_escalated = True, rr_findings = []\<rparr>))
     else thenS (emit_qa_gate_evaluation pf pid (Some ctx) False None None) (returnS (loop_result ''PASSED'' cycles))))"

text \<open>What one round does before a cycle: a result, or the findings to remediate.\<close>

definition evaluate_round ::
    "policy_files \<Rightarrow> remediation_world \<Rightarrow> event_ctx \<Rightarrow> string \<Rightarrow> string \<Rightarrow> int \<Rightarrow> nat \<Rightarrow> (remediation_result + (dict \<times> dict list)) dbop" where
  "evaluate_round pf w ctx pid root max_recurrence cycles =
     bindS (getS (latest_candidate_sha pid (ec_run_id ctx))) (\<lambda>candidate.
     bindS (emit_qa_gate_evaluation pf pid (Some ctx) False candidate (ec_run_id ctx)) (\<lambda>facts.
     let gate = field_or facts ''gate'' ''PENDING''; rid = str_of (ec_run_id ctx) in
     if gate = ''PASSED'' then returnS (Inl (loop_result gate cycles))
     else if gate = ''INCONCLUSIVE'' then
       thenS (schedule_assurance_retry_for_inconclusive pf ctx pid root (str_of candidate) rid None)
       (thenS (assert_run_has_next_action rid) (returnS (Inl (loop_result gate cycles))))
     else if gate \<noteq> ''FAILED'' then returnS (Inl (loop_result gate cycles))
     else
       bindS (getS (collect_qa_findings (rw_sha256 w) pid candidate (ec_run_id ctx))) (\<lambda>findings.
       bindS (bindS (getS (recurring rid max_recurrence findings)) liftS) (\<lambda>r.
       case r of
         Some (f, n) \<Rightarrow> bindS (escalate_finding pf ctx cycles findings f n) (\<lambda>res. returnS (Inl res))
       | None \<Rightarrow> returnS (Inr (facts, findings))))))"

text \<open>\<^verbatim>\<open>while True\<close>: \<open>None\<close> when the fuel is used up before the loop returns.\<close>

fun qa_loop ::
    "nat \<Rightarrow> nat \<Rightarrow> policy_files \<Rightarrow> remediation_world \<Rightarrow> remediation_worker option \<Rightarrow>
     (string \<Rightarrow> string \<Rightarrow> string option \<Rightarrow> int \<Rightarrow> int list \<Rightarrow> unit dbop) option \<Rightarrow> event_ctx \<Rightarrow> string \<Rightarrow> string \<Rightarrow> int \<Rightarrow> int \<Rightarrow>
     remediation_result option dbop" where
  "qa_loop 0 depth pf w worker executor ctx pid root max_cycles max_recurrence = returnS None"
| "qa_loop (Suc fuel) depth pf w worker executor ctx pid root max_cycles max_recurrence =
     bindS (getS (count_remediation_cycles (str_of (ec_run_id ctx)))) (\<lambda>cycles.
     if max_cycles \<le> int cycles then bindS (limit_reached pf ctx pid cycles) (\<lambda>r. returnS (Some r))
     else bindS (evaluate_round pf w ctx pid root max_recurrence cycles) (\<lambda>turn.
       case turn of
         Inl r \<Rightarrow> returnS (Some r)
       | Inr (facts, findings) \<Rightarrow>
           thenS (start_remediation_cycle depth pf w worker executor ctx pid root facts findings (int cycles + 1))
             (qa_loop fuel depth pf w worker executor ctx pid root max_cycles max_recurrence)))"

definition run_qa_with_remediation ::
    "nat \<Rightarrow> nat \<Rightarrow> policy_files \<Rightarrow> remediation_world \<Rightarrow> remediation_worker option \<Rightarrow>
     (string \<Rightarrow> string \<Rightarrow> string option \<Rightarrow> int \<Rightarrow> int list \<Rightarrow> unit dbop) option \<Rightarrow> event_ctx \<Rightarrow> string \<Rightarrow> string \<Rightarrow> int \<Rightarrow> int \<Rightarrow>
     remediation_result option dbop" where
  "run_qa_with_remediation fuel depth pf w worker executor ctx pid root max_cycles max_recurrence =
     run_with_internal_defect_routing w
       (handle_internal_defect (execute_qa_retest depth pf w) pf w worker ctx pid root ''pm_remediation'' ''run_qa_with_remediation'' True)
       (if \<not> truthy_str (ec_run_id ctx)
        then bindS (emit_qa_gate_evaluation pf pid (Some ctx) False None None) (\<lambda>facts.
          returnS (Some (loop_result (field_or facts ''gate'' ''PENDING'') 0)))
        else qa_loop fuel depth pf w worker executor ctx pid root max_cycles max_recurrence)"

end
