(* ===== verification/Remediation_Loop_Props.thy ===== *)
theory Remediation_Loop_Props
  imports Remediation_Loop
begin

text \<open>
  What the remediation loop promises: it ends, because every cycle is counted; the gate it reports as passed is passed; and a
  finding keeps its fingerprint when the candidate changes.
\<close>

section \<open>Cycles\<close>

definition counted :: "string \<Rightarrow> db \<Rightarrow> int set" where
  "counted rid s = w_remediation_cycle ` {w \<in> set (works s). w_run_id w = rid \<and> w_status w \<in> {''COMPLETED'', ''FAILED'', ''RUNNING'', ''ASSIGNED''}}"

definition numbered :: "string \<Rightarrow> db \<Rightarrow> int set" where
  "numbered rid s = w_remediation_cycle ` {w \<in> set (works s). w_run_id w = rid}"

lemma count_remediation_cycles_card: "count_remediation_cycles rid s = card (counted rid s)"
  by (simp add: count_remediation_cycles_def counted_def length_remdups_card_conv)

lemma finite_counted: "finite (counted rid s)"
  by (simp add: counted_def)

text \<open>The cycles of a run are numbered no further than they are counted, so the next number is new.\<close>

definition cycles_in_order :: "string \<Rightarrow> db \<Rightarrow> bool" where
  "cycles_in_order rid s \<longleftrightarrow> list_all (\<lambda>w. w_run_id w = rid \<longrightarrow> w_remediation_cycle w \<le> int (count_remediation_cycles rid s)) (works s)"

lemma cycles_in_order_iff: "cycles_in_order rid s \<longleftrightarrow> numbered rid s \<subseteq> {..int (card (counted rid s))}"
  by (auto simp: cycles_in_order_def numbered_def list_all_iff count_remediation_cycles_card)

text \<open>At least the cycles \<open>C\<close> are counted and no number outside \<open>D\<close> is given.\<close>

definition progress :: "string \<Rightarrow> int set \<Rightarrow> int set \<Rightarrow> db \<Rightarrow> bool" where
  "progress rid C D s \<longleftrightarrow> C \<subseteq> counted rid s \<and> numbered rid s \<subseteq> D"

lemma progress_works: "works t = works s \<Longrightarrow> progress rid C D s \<Longrightarrow> progress rid C D t"
  by (simp add: progress_def counted_def numbered_def)

lemma wlp_progress_frame:
  "untouched works m \<Longrightarrow> progress rid C D s \<Longrightarrow> wlp m (\<lambda>_. progress rid C D) s"
  by (rule wlp_mono [OF wlp_frame]) (auto intro: progress_works)

lemma wlp_progress_create:
  assumes "progress rid C D s" "wa_run_id a = rid" "wa_remediation_cycle a = k"
  shows "wlp (create_remediation_work a) (\<lambda>_. progress rid (insert k C) (insert k D)) s"
proof (rule wlp_mono [OF wlp_create_remediation_work])
  fix w and t :: db
  assume "\<exists>wid i now. w = work_row a wid (next_work_sequence (wa_run_id a) s) i now \<and>
     get_remediation_work wid s = None \<and> works t = works s @ [w]"
  then have "w_run_id w = rid" "w_remediation_cycle w = k" "w_status w = ''ASSIGNED''" "set (works t) = insert w (set (works s))"
    using assms(2,3) by (auto simp: work_row_def)
  then show "progress rid (insert k C) (insert k D) t"
    using assms(1) by (auto simp: progress_def counted_def numbered_def image_def)
qed

lemma wlp_progress_update:
  assumes "progress rid C D s" "st \<in> {''RUNNING'', ''FAILED'', ''COMPLETED''}"
  shows "wlp (update_remediation_work wid (Some st) tc res) (\<lambda>_. progress rid C D) s"
proof -
  define f where "f = (\<lambda>r. if w_work_item_id r = wid then work_fields (now_iso s) (Some st) tc res r else r)"
  have f: "w_remediation_cycle (f w) = w_remediation_cycle w" "w_run_id (f w) = w_run_id w" "w_status (f w) \<in> {w_status w, st}" for w
    by (simp_all add: f_def work_fields_def)
  let ?t = "s\<lparr>works := map f (works s)\<rparr>"
  have "numbered rid ?t = numbered rid s"
    unfolding numbered_def by (auto simp: f image_iff) (metis f(1,2))
  moreover have "counted rid s \<subseteq> counted rid ?t"
  proof
    fix c assume "c \<in> counted rid s"
    then obtain w where w: "w \<in> set (works s)" "w_run_id w = rid" "w_status w \<in> {''COMPLETED'', ''FAILED'', ''RUNNING'', ''ASSIGNED''}"
      "c = w_remediation_cycle w" by (auto simp: counted_def)
    then have "w_status (f w) \<in> {''COMPLETED'', ''FAILED'', ''RUNNING'', ''ASSIGNED''}"
      using f(3) [of w] assms(2) by (elim insertE emptyE) simp_all
    then show "c \<in> counted rid ?t"
      unfolding counted_def by (intro image_eqI [of _ _ "f w"]) (use w in \<open>simp_all add: f\<close>)
  qed
  ultimately have "progress rid C D ?t"
    using assms(1) unfolding progress_def by blast
  then have "progress rid C D (s\<lparr>works := update_where (\<lambda>r. w_work_item_id r = wid) (work_fields (now_iso s) (Some st) tc res) (works s)\<rparr>)"
    by (simp add: update_where_def f_def)
  then show ?thesis
    by (auto simp: wlp_def update_remediation_work_eq split: option.splits if_splits)
qed

lemma wlp_tryS_reraise: "(\<And>e t. wlp (h e) Q t) \<Longrightarrow> wlp m Q s \<Longrightarrow> wlp (tryS m h) Q s"
  unfolding wlp_def tryS_def by (auto split: prod.splits sum.splits)

lemma wlp_reraised: "wlp (thenS m (raiseS e)) Q s"
  by (simp add: wlp_then_raise)

lemma wlp_routed: "wlp m Q s \<Longrightarrow> wlp (run_with_internal_defect_routing w h m) Q s"
  unfolding run_with_internal_defect_routing_def
  by (rule wlp_tryS_reraise) (simp_all add: wlp_then_raise wlp_simps)

section \<open>A cycle is counted\<close>

text \<open>What runs remediation work and assessments writes no remediation work of its own.\<close>

definition keeps_work :: "remediation_world \<Rightarrow> remediation_worker option \<Rightarrow>
    (string \<Rightarrow> string \<Rightarrow> string option \<Rightarrow> int \<Rightarrow> int list \<Rightarrow> unit dbop) option \<Rightarrow> bool" where
  "keeps_work w worker executor \<longleftrightarrow>
     (\<forall>f wk ctx pid root. worker = Some f \<longrightarrow> untouched works (f wk ctx pid root)) \<and>
     (\<forall>g c ty rid n ids. executor = Some g \<longrightarrow> untouched works (g c ty rid n ids)) \<and>
     (\<forall>run h. rw_run_once w = Some run \<longrightarrow> untouched works (run h))"

lemma untouched_case_sum: "(\<And>x. untouched g (f x)) \<Longrightarrow> (\<And>y. untouched g (h y)) \<Longrightarrow> untouched g (case v of Inl x \<Rightarrow> f x | Inr y \<Rightarrow> h y)"
  by (cases v) auto

lemma untouched_works_production:
  assumes "\<And>h. untouched works (run h)"
  shows "untouched works (production_remediation_worker w run wk ctx pid root)"
  unfolding production_remediation_worker_def Let_def
  by (intro frames untouched_case_sum untouched_reads [OF reads_get_job] assms)

lemma wlp_progress_fail_work:
  "progress rid C D s \<Longrightarrow> wlp (fail_work pf ctx wk res summary ev) (\<lambda>_. progress rid C D) s"
  unfolding fail_work_def
  by (intro wlp_thenI [OF wlp_progress_update] wlp_thenI [OF wlp_progress_frame [OF works_books.untouched_emit]]) (auto simp: wlp_simps)

lemma wlp_progress_complete_work:
  "progress rid C D s \<Longrightarrow> wlp (complete_work pf ctx wk outcome) (\<lambda>_. progress rid C D) s"
  unfolding complete_work_def Let_def set_run_active_candidate_def
  by (intro wlp_thenI [OF wlp_progress_frame [OF untouched_bindS [OF untouched_getS works_books.untouched_update_run]]]
      wlp_thenI [OF wlp_progress_update] wlp_thenI [OF wlp_progress_frame [OF untouched_liftS]]
      wlp_thenI [OF wlp_progress_frame [OF works_books.untouched_emit]]) (auto simp: wlp_simps)

lemma wlp_progress_settle_work:
  assumes "progress rid C D s"
  shows "wlp (settle_work pf w ctx wk root outcome) (\<lambda>_. progress rid C D) s"
proof -
  have failing: "wlp (thenS (fail_work pf ctx wk res summary ev) (returnS x)) (\<lambda>_. progress rid C D) s" for res summary ev and x :: exec_result
    by (rule wlp_thenI [OF wlp_progress_fail_work [OF assms]]) (simp add: wlp_simps)
  show ?thesis
    unfolding settle_work_def Let_def
    by (auto simp: wlp_returnS assms failing wlp_progress_complete_work [OF assms] split: sum.split)
qed

lemma wlp_progress_execute:
  assumes "keeps_work w worker executor" "progress rid C D s"
  shows "wlp (execute_remediation_work pf w worker ctx pid root wk) (\<lambda>_. progress rid C D) s"
proof -
  let ?runner = "case worker of Some f \<Rightarrow> Some f | None \<Rightarrow> map_option (production_remediation_worker w) (rw_run_once w)"
  have quiet: "untouched works (f wk ctx pid root)" if "?runner = Some f" for f
    using that assms(1) by (cases worker) (auto simp: keeps_work_def intro: untouched_works_production)
  have unavailable: "wlp (emit_work_execution_unavailable pf ctx wk) (\<lambda>_. progress rid C D) t" if "progress rid C D t" for t
    unfolding emit_work_execution_unavailable_def Let_def
    by (intro wlp_thenI [OF wlp_progress_update] wlp_thenI [OF wlp_progress_frame [OF works_books.untouched_emit]])
       (use that in \<open>auto simp: wlp_simps\<close>)
  have running: "wlp (bindS (tryS (f wk ctx pid root) (\<lambda>e. thenS (fail_work pf ctx wk (res e) su (ev e)) (raiseS e))) (settle_work pf w ctx wk root))
      (\<lambda>_. progress rid C D) t" if "progress rid C D t" "?runner = Some f" for t f res su ev
    by (rule wlp_bindI [OF wlp_tryS_reraise [OF wlp_reraised wlp_progress_frame [OF quiet [OF that(2)] that(1)]]])
       (rule wlp_progress_settle_work)
  show ?thesis
    unfolding execute_remediation_work_def
    apply (rule wlp_thenI [OF wlp_progress_frame [OF untouched_reads [OF reads_work_guards(1)] assms(2)]])
    apply (cases ?runner)
     apply (simp add: unavailable)
    apply (simp only: option.case)
    apply (intro wlp_thenI [OF wlp_progress_update] wlp_thenI [OF wlp_progress_frame [OF works_books.untouched_emit]])
       apply (auto intro: running)
    done
qed

lemma untouched_works_handoff: "untouched works (create_assurance_jobs_for_producer producer sha)"
proof -
  have get: "untouched works (get_job i)" and event: "untouched works (append_run_event i e st m p)" for i e st m p
    by (rule untouched_reads [OF reads_get_job], rule works_books.untouched_event)
  have same: "untouched works (require_same_project is)" for "is"
    by (rule untouched_reads [OF reads_require_same_project])
  have dep: "untouched works (add_job_dependency i d)" for i d
    unfolding add_job_dependency_def by (intro frames same) simp
  have source: "untouched works (set_job_source_provenance i src c)" for i src c
    unfolding set_job_source_provenance_def update_job_def by (intro frames get same) simp
  have row: "untouched works (insert_qa_evidence pid root di ai c role r rid att prior)" for pid root di ai c role r rid att prior
    unfolding insert_qa_evidence_def by (intro frames get same event) simp
  have assessor: "untouched works (create_assessor d c rid q)" for d c rid q
    unfolding create_assessor_def by (intro frames source dep row)
  have manager: "untouched works (create_manager d c rid)" for d c rid
    unfolding create_manager_def wait_for_assessor_def by (intro frames source dep row)
  show ?thesis
    unfolding create_assurance_jobs_for_producer_def create_assurance_jobs_for_delivery_def Let_def
    by (intro frames assessor manager event)
qed

lemma untouched_works_assurance_run:
  assumes "\<And>h. untouched works (run h)"
  shows "untouched works (run_assurance_via_worker run ids roles)"
proof -
  have "untouched works (partition_assurance_jobs allowed js)" for allowed js
    by (induction js) (simp, rule frames, simp, intro frames untouched_reads [OF reads_get_job])
  moreover have "untouched works (run_assessor run i)" for i
    unfolding run_assessor_def by (intro frames untouched_reads [OF reads_get_job] assms)
  ultimately show ?thesis
    unfolding run_assurance_via_worker_def by (intro frames)
qed

lemma untouched_works_prepare: "untouched works (prepare_retest pf w ctx a)"
  unfolding prepare_retest_def resolve_producer_job_def tag_evidence_run_def
  by (intro frames works_books.untouched_emit untouched_reads [OF reads_get_job] untouched_works_handoff) simp

lemma untouched_works_retest:
  assumes "keeps_work w worker (rt_executor a)"
  shows "untouched works (execute_qa_retest_impl pf w ctx pid a)"
  unfolding execute_qa_retest_impl_def Let_def
  using assms
  by (intro untouched_bindS [OF untouched_works_prepare], cases "rt_executor a"; cases "rw_run_once w")
     (auto intro!: frames works_books.untouched_emit untouched_works_assurance_run simp: keeps_work_def)

lemma wlp_progress_retest:
  assumes "keeps_work w worker (rt_executor a)" "progress rid C D s"
  shows "wlp (execute_qa_retest depth pf w ctx pid a) (\<lambda>_. progress rid C D) s"
  using wlp_progress_frame [OF untouched_works_retest [OF assms(1)] assms(2)]
  by (cases depth) (simp_all add: wlp_raiseS wlp_routed)

lemma wlp_progress_retest_cycle:
  assumes "keeps_work w worker executor" "progress rid C D s"
  shows "wlp (retest_cycle depth pf w executor ctx pid root findings attempt source outcome wk) (\<lambda>_. progress rid C D) s"
  unfolding retest_cycle_def Let_def set_run_active_candidate_def
  apply (rule wlp_bindI [OF wlp_progress_retest [OF _ assms(2), where worker = worker]])
   apply (simp add: assms(1))
  apply (rule wlp_thenI [OF wlp_progress_frame [OF untouched_bindS [OF untouched_getS works_books.untouched_update_run]]], assumption)
  apply (rule wlp_progress_frame)
   apply (intro frames works_books.untouched_gate_evaluation)
  apply assumption
  done

lemma wlp_progress_group:
  assumes "keeps_work w worker executor" "progress rid C D s" "ec_run_id ctx = Some rid" "rid \<noteq> []"
  shows "wlp (remediate_group pf w worker ctx pid root attempt source g) (\<lambda>_. progress rid (insert attempt C) (insert attempt D)) s"
  unfolding remediate_group_def
  apply (rule wlp_bindI [OF wlp_progress_create [OF assms(2), where k = attempt]])
    apply (simp_all add: group_work_args_def assms(3,4) str_or_def truthy_str_def str_of_def split: prod.split)
  apply (rule wlp_thenI [OF wlp_progress_frame [OF works_books.untouched_emit]], assumption)
  apply (rule wlp_bindI [OF wlp_progress_execute [OF assms(1)]], assumption)
  apply (simp add: wlp_returnS)
  done

lemma wlp_progress_groups:
  assumes "\<And>g t C D. progress rid C D t \<Longrightarrow> wlp (step g) (\<lambda>_. progress rid (insert k C) (insert k D)) t"
    and "progress rid C D s" "gs \<noteq> [] \<or> (C = insert k C \<and> D = insert k D)"
  shows "wlp (remediate_groups step gs prev) (\<lambda>_. progress rid (insert k C) (insert k D)) s"
  using assms(2,3)
proof (induction gs arbitrary: C D prev s)
  case (Cons g gs)
  show ?case
  proof (simp, rule wlp_bindI [OF assms(1) [OF Cons.prems(1)]])
    fix r t assume t: "progress rid (insert k C) (insert k D) t"
    then show "wlp (if delivered (fst r) then remediate_groups step gs (Some r) else returnS (Some r))
        (\<lambda>_. progress rid (insert k C) (insert k D)) t"
      using Cons.IH [OF t] by (simp add: wlp_returnS)
  qed
qed (simp add: wlp_returnS)

lemma groups_nonempty: "findings \<noteq> [] \<Longrightarrow> group_findings_for_remediation findings \<noteq> []"
  using fold_buckets [of findings] by (auto simp: group_findings_for_remediation_def)

lemma untouched_works_announce: "untouched works (announce_cycle pf ctx meta findings attempt)"
  unfolding announce_cycle_def by (intro frames works_books.untouched_emit works_books.untouched_finding_created)

lemma wlp_progress_cycle:
  assumes "keeps_work w worker executor" "progress rid C D s" "ec_run_id ctx = Some rid" "rid \<noteq> []" "findings \<noteq> []"
  shows "wlp (start_remediation_cycle depth pf w worker executor ctx pid root facts findings attempt)
    (\<lambda>_. progress rid (insert attempt C) (insert attempt D)) s"
proof -
  note group = wlp_progress_group [OF assms(1) _ assms(3,4)]
  have rest: "wlp (case final of None \<Rightarrow> returnS x
      | Some (outcome, wk) \<Rightarrow> if delivered outcome
          then thenS (retest_cycle depth pf w executor ctx pid root findings attempt source outcome wk) (returnS outcome) else returnS outcome)
      (\<lambda>_. progress rid (insert attempt C) (insert attempt D)) t"
    if "progress rid (insert attempt C) (insert attempt D) t" for final source x t
    using that wlp_progress_retest_cycle [OF assms(1) that]
    by (auto simp: wlp_returnS wlp_thenS wlp_returnS_fun split: option.split)
  show ?thesis
    unfolding start_remediation_cycle_def wlp_bindS [of "getS _"] wlp_getS
    by (rule wlp_thenI [OF wlp_progress_frame [OF untouched_works_announce assms(2)]],
        rule wlp_bindI [OF wlp_progress_groups [OF group]])
       (auto simp: groups_nonempty [OF assms(5)] intro: rest)
qed

section \<open>A failed gate has findings\<close>

lemma failed_gate_has_findings:
  assumes "gate_verdict pid c rid s = ''FAILED''"
  shows "collect_qa_findings sha256 pid c rid s \<noteq> []"
proof -
  have "RevFailed \<in> set (gate_reviews pid c rid s)"
    using assms by (auto simp: gate_verdict_def qa_gate_def split: if_splits)
  then obtain q where q: "q \<in> set (gate_evidence pid c rid s)" "review_of (q_result q) (review_job_status q s) = RevFailed"
    by (auto simp: gate_reviews_def)
  have "is_finding q (job_by_id (q_assurance_job_id q) s)"
  proof (cases "job_by_id (q_assurance_job_id q) s")
    case (Some j)
    then show ?thesis
      using q(2) by (cases "j_status j") (auto simp: review_of_def is_finding_def review_job_status_def split: if_splits)
  qed (use q(2) in \<open>auto simp: review_of_def is_finding_def review_job_status_def split: if_splits\<close>)
  then show ?thesis
    using q(1) by (auto simp: collect_qa_findings_def gate_evidence_def filter_empty_conv simp flip: set_empty)
qed

lemma collected_cong:
  assumes "evidence t = evidence s" "jobs t = jobs s"
  shows "collect_qa_findings sha256 pid c rid t = collect_qa_findings sha256 pid c rid s" "gate_verdict pid c rid t = gate_verdict pid c rid s"
  using assms
  by (simp_all add: collect_qa_findings_def job_by_id_def gate_verdict_def gate_reviews_def gate_evidence_def review_job_status_def)

interpretation jobs_books: bookkeeping_frame jobs
  by unfold_locales simp_all

lemma field_gate: "field_or (collect_qa_gate_facts pid c rid s) ''gate'' d = gate_verdict pid c rid s"
  by (simp add: field_or_def collect_qa_gate_facts_def gate_verdict_def qa_gate_def dict_get_def Let_def)

lemma wlp_thenS_any: "(\<And>t. wlp n Q t) \<Longrightarrow> wlp (thenS m n) Q s"
  by (auto simp: wlp_def thenS_def bindS_eq_Inr_iff)

text \<open>The candidate a gate is evaluated for when none is given.\<close>

definition evaluated_candidate :: "string \<Rightarrow> string option \<Rightarrow> string option \<Rightarrow> db \<Rightarrow> string option" where
  "evaluated_candidate pid c rid s = (if c = None \<and> truthy_str rid then latest_candidate_sha pid rid s else c)"

definition same_tables :: "db \<Rightarrow> db \<Rightarrow> bool" where
  "same_tables s t \<longleftrightarrow> evidence t = evidence s \<and> jobs t = jobs s \<and> works t = works s"

lemma wlp_same_tables:
  "untouched evidence m \<Longrightarrow> untouched jobs m \<Longrightarrow> untouched works m \<Longrightarrow> same_tables s0 s \<Longrightarrow> wlp m (\<lambda>_. same_tables s0) s"
  unfolding same_tables_def wlp_def by (metis untouched_eq)

lemma wlp_gate_evaluation:
  fixes ctx rid
  defines "r \<equiv> str_or rid (ec_run_id ctx)"
  shows "wlp (emit_qa_gate_evaluation pf pid (Some ctx) req c rid)
     (\<lambda>facts t. facts = collect_qa_gate_facts pid (evaluated_candidate pid c r s) r s \<and> same_tables s t) s"
proof (rule wlp_conj)
  show "wlp (emit_qa_gate_evaluation pf pid (Some ctx) req c rid)
      (\<lambda>facts _. facts = collect_qa_gate_facts pid (evaluated_candidate pid c r s) r s) s"
    unfolding emit_qa_gate_evaluation_def option.case Let_def wlp_bindS wlp_getS evaluated_candidate_def r_def
    by (intro wlp_thenS_any) (simp add: wlp_returnS)
  show "wlp (emit_qa_gate_evaluation pf pid (Some ctx) req c rid) (\<lambda>_. same_tables s) s"
    by (rule wlp_same_tables)
       (simp_all add: evidence_frame.untouched_gate_evaluation jobs_books.untouched_gate_evaluation works_books.untouched_gate_evaluation same_tables_def)
qed

section \<open>A round of the loop\<close>

text \<open>The run of a context is closed, or there is no such run.\<close>

definition run_over :: "string option \<Rightarrow> db \<Rightarrow> bool" where
  "run_over rid s \<longleftrightarrow> get_execution_run (str_of rid) s = None \<or> run_already_terminal (str_of rid) s"

lemma wlp_close_exceeded:
  assumes "truthy_str (ec_run_id ctx)"
  shows "wlp (close_execution_run pf ctx (exceeded su f)) (\<lambda>_. run_over (ec_run_id ctx)) s"
proof -
  obtain rid where rid: "ec_run_id ctx = Some rid" "rid \<noteq> []" "str_of (ec_run_id ctx) = rid"
    using assms by (cases "ec_run_id ctx") (auto simp: truthy_str_def str_of_def)
  let ?a = "exceeded su f" and ?oc = "''MAX_REMEDIATION_POLICY_EXCEEDED''"
  have oc: "resolve_outcome (close_outcome ?a) = Inr ?oc"
    by (simp add: exceeded_def close_outcome_def) code_simp
  have ev: "the (map_of OUTCOME_TO_EVENT ?oc) = ''RUN_ESCALATED''" by code_simp
  consider "get_execution_run rid s = None" | "get_execution_run rid s \<noteq> None" "run_already_terminal rid s"
    | run where "get_execution_run rid s = Some run" "\<not> run_already_terminal rid s" by fastforce
  then show ?thesis
  proof cases
    case 1
    then have "close_execution_run pf ctx ?a s = (Inr [], s)"
      using assms by (simp add: close_execution_run_def Let_def rid(3) op_simps returnS_def)
    then show ?thesis using 1 by (simp add: wlp_def run_over_def rid(3))
  next
    case 2
    then show ?thesis by (simp add: wlp_def close_terminal [OF rid(1,2)] run_over_def rid(3))
  next
    case 3
    have "run_over (ec_run_id ctx) t" if close: "close_execution_run pf ctx ?a s = (Inr d, t)" for d t
    proof -
      obtain st d' u eid v where v: "emit_inner pf ctx (closing_event ?a ''RUN_ESCALATED'' st d') u = (Inr eid, v)" and t: "events t = events v"
          and u: "get_execution_run rid u \<noteq> None"
        using close 3(1) unfolding close_execution_run_eq [OF rid(1,2) 3 oc] ev
        by (auto simp: closing_state_def get_execution_run_runs_update split: prod.splits sum.splits)
      then have "events t = events u @ [event_row ctx (closing_event ?a ''RUN_ESCALATED'' st d') eid (now_iso u)]"
        using emit_inner_run(1) [OF v rid(1,2)] by auto
      then show ?thesis
        using rid by (auto simp: run_over_def run_already_terminal_def event_row_def closing_event_def event_args_of_def)
    qed
    then show ?thesis by (auto simp: wlp_def)
  qed
qed

lemma wlp_escalate:
  assumes "truthy_str (ec_run_id ctx)"
  shows "wlp (escalate_finding pf ctx cycles findings f n) (\<lambda>res t. rr_gate res = ''FAILED'' \<and> run_over (ec_run_id ctx) t) s"
  unfolding escalate_finding_def
  by (intro wlp_thenS_any wlp_thenI [OF wlp_close_exceeded [OF assms]]) (simp add: wlp_returnS)

lemma wlp_round:
  assumes "truthy_str (ec_run_id ctx)"
  shows "wlp (evaluate_round pf w ctx pid root max_recurrence cycles)
    (\<lambda>r t. case r of
       Inl res \<Rightarrow> (rr_gate res = ''PASSED'' \<longrightarrow> same_tables s t \<and> (\<exists>c. gate_verdict pid c (ec_run_id ctx) s = ''PASSED'')) \<and>
         (rr_escalated res \<longrightarrow> rr_gate res \<noteq> ''PASSED'' \<and> run_over (ec_run_id ctx) t)
     | Inr (facts, findings) \<Rightarrow> findings \<noteq> [] \<and> same_tables s t) s" (is "wlp _ ?Q s")
proof -
  let ?rid = "ec_run_id ctx"
  let ?c = "latest_candidate_sha pid ?rid s"
  have c: "evaluated_candidate pid ?c ?rid s = ?c" "str_or ?rid ?rid = ?rid"
    by (simp_all add: evaluated_candidate_def str_or_def)
  show ?thesis
    unfolding evaluate_round_def wlp_bindS [of "getS _"] wlp_getS
  proof (rule wlp_bindI [OF wlp_gate_evaluation], unfold c)
    fix facts t
    assume "facts = collect_qa_gate_facts pid ?c ?rid s \<and> same_tables s t"
    then have gate: "field_or facts ''gate'' d = gate_verdict pid ?c ?rid s" and t: "same_tables s t" for d
      by (simp_all add: field_gate)
    have found: "collect_qa_findings (rw_sha256 w) pid ?c ?rid t \<noteq> []" if "gate_verdict pid ?c ?rid s = ''FAILED''"
      using failed_gate_has_findings [OF that] collected_cong(1) [of t s] t by (simp add: same_tables_def)
    have waiting: "wlp (thenS m (thenS n (returnS (Inl (loop_result ''INCONCLUSIVE'' cycles))))) ?Q t" for m :: "int list dbop" and n :: "unit dbop"
      by (intro wlp_thenS_any) (simp add: wlp_returnS loop_result_def)
    show "wlp (let gate = field_or facts ''gate'' ''PENDING''; rid = str_of ?rid in
       if gate = ''PASSED'' then returnS (Inl (loop_result gate cycles))
       else if gate = ''INCONCLUSIVE'' then
         thenS (schedule_assurance_retry_for_inconclusive pf ctx pid root (str_of ?c) rid None)
           (thenS (assert_run_has_next_action rid) (returnS (Inl (loop_result gate cycles))))
       else if gate \<noteq> ''FAILED'' then returnS (Inl (loop_result gate cycles))
       else
         bindS (getS (collect_qa_findings (rw_sha256 w) pid ?c ?rid)) (\<lambda>findings.
         bindS (bindS (getS (recurring rid max_recurrence findings)) liftS) (\<lambda>r.
         case r of
           Some (f, n) \<Rightarrow> bindS (escalate_finding pf ctx cycles findings f n) (\<lambda>res. returnS (Inl res))
         | None \<Rightarrow> returnS (Inr (facts, findings))))) ?Q t"
      unfolding Let_def gate
      using t found waiting
      by (auto simp: wlp_bindS wlp_getS wlp_liftS wlp_returnS wlp_returnS_fun loop_result_def split: option.split intro!: wlp_mono [OF wlp_escalate [OF assms]])
  qed
qed

section \<open>The loop\<close>

abbreviation gate_passes :: "string \<Rightarrow> string option \<Rightarrow> db \<Rightarrow> bool" where
  "gate_passes pid rid s \<equiv> \<exists>c. gate_verdict pid c rid s = ''PASSED''"

lemma gate_passes_cong: "same_tables s t \<Longrightarrow> gate_passes pid rid s \<Longrightarrow> gate_passes pid rid t"
  using collected_cong(2) [of t s] by (auto simp: same_tables_def)

lemma wlp_limit_reached:
  assumes "truthy_str (ec_run_id ctx)"
  shows "wlp (limit_reached pf ctx pid cycles)
     (\<lambda>r t. (rr_gate r = ''PASSED'' \<longrightarrow> gate_passes pid (ec_run_id ctx) t) \<and> (rr_escalated r \<longrightarrow> rr_gate r \<noteq> ''PASSED'' \<and> run_over (ec_run_id ctx) t)) s"
proof -
  let ?c = "latest_candidate_sha pid (ec_run_id ctx) s"
  have closing: "wlp (thenS m (thenS (close_execution_run pf ctx (exceeded su f)) (returnS r))) (\<lambda>x t. x = r \<and> run_over (ec_run_id ctx) t) s"
    for m :: "string dbop" and su f and r :: remediation_result
    by (intro wlp_thenS_any wlp_thenI [OF wlp_close_exceeded [OF assms]]) (simp add: wlp_returnS)
  show ?thesis
  proof (cases "gate_verdict pid ?c (ec_run_id ctx) s = ''PASSED''")
    case True
    then have passes: "gate_passes pid (ec_run_id ctx) s" by blast
    show ?thesis
      unfolding limit_reached_def wlp_bindS wlp_getS Let_def field_gate True
      by (simp, rule wlp_thenI [OF wlp_gate_evaluation])
         (use gate_passes_cong [OF _ passes] in \<open>auto simp: wlp_returnS loop_result_def\<close>)
  next
    case False
    then show ?thesis
      unfolding limit_reached_def wlp_bindS wlp_getS Let_def field_gate
      by (simp, intro wlp_mono [OF closing]) auto
  qed
qed

lemma wlp_loop_sound:
  assumes "truthy_str (ec_run_id ctx)"
  shows "wlp (qa_loop fuel depth pf w worker executor ctx pid root max_cycles max_recurrence)
    (\<lambda>r t. \<forall>res. r = Some res \<longrightarrow>
       (rr_gate res = ''PASSED'' \<longrightarrow> gate_passes pid (ec_run_id ctx) t) \<and> (rr_escalated res \<longrightarrow> rr_gate res \<noteq> ''PASSED'' \<and> run_over (ec_run_id ctx) t)) s" (is "wlp _ ?Q s")
proof (induction fuel arbitrary: s)
  case (Suc fuel)
  let ?n = "count_remediation_cycles (str_of (ec_run_id ctx)) s"
  show ?case
    unfolding qa_loop.simps wlp_bindS [of "getS _"] wlp_getS
  proof (simp only: if_split [of "\<lambda>m. wlp m _ _"], intro conjI impI)
    show "wlp (bindS (limit_reached pf ctx pid ?n) (\<lambda>r. returnS (Some r))) ?Q s"
      by (rule wlp_bindI [OF wlp_limit_reached [OF assms]]) (simp add: wlp_returnS)
    show "wlp (bindS (evaluate_round pf w ctx pid root max_recurrence ?n) (\<lambda>turn. case turn of Inl r \<Rightarrow> returnS (Some r)
      | Inr (facts, findings) \<Rightarrow>
          thenS (start_remediation_cycle depth pf w worker executor ctx pid root facts findings (int ?n + 1))
            (qa_loop fuel depth pf w worker executor ctx pid root max_cycles max_recurrence))) ?Q s"
    proof (rule wlp_bindI [OF wlp_round], goal_cases)
      case (2 turn t)
      then show ?case
        using gate_passes_cong [of s t pid "ec_run_id ctx"] Suc.IH
        by (auto simp: wlp_returnS split: sum.split intro: wlp_thenS_any)
    qed (rule assms)
  qed
qed (simp add: wlp_returnS)

lemma wlp_loop_ends:
  assumes "keeps_work w worker executor" "ec_run_id ctx = Some rid" "rid \<noteq> []"
    and "cycles_in_order rid s" "0 < fuel" "max_cycles < int fuel + int (count_remediation_cycles rid s)"
  shows "wlp (qa_loop fuel depth pf w worker executor ctx pid root max_cycles max_recurrence) (\<lambda>r _. r \<noteq> None) s"
  using assms(4-6)
proof (induction fuel arbitrary: s)
  case (Suc fuel)
  define n where "n = count_remediation_cycles rid s"
  have rid: "str_of (ec_run_id ctx) = rid" "truthy_str (ec_run_id ctx)" using assms(2,3) by (simp_all add: truthy_str_def str_of_def)
  have again: "wlp (qa_loop fuel depth pf w worker executor ctx pid root max_cycles max_recurrence) (\<lambda>r _. r \<noteq> None) u"
    if u: "progress rid (insert (int n + 1) (counted rid s)) (insert (int n + 1) (numbered rid s)) u" and less: "int n < max_cycles" for u
  proof -
    have new: "int n + 1 \<notin> counted rid s"
    proof
      assume "int n + 1 \<in> counted rid s"
      moreover have "counted rid s \<subseteq> numbered rid s" by (auto simp: counted_def numbered_def)
      ultimately show False using Suc.prems(1) by (auto simp: cycles_in_order_iff n_def count_remediation_cycles_card)
    qed
    then have "Suc n = card (insert (int n + 1) (counted rid s))"
      by (simp add: finite_counted n_def count_remediation_cycles_card)
    also have "\<dots> \<le> card (counted rid u)"
      using u by (intro card_mono finite_counted) (simp add: progress_def)
    finally have more: "Suc n \<le> card (counted rid u)" .
    have "x \<le> int (card (counted rid u))" if "x \<in> numbered rid u" for x
    proof -
      have "x \<le> int n + 1"
        using that u Suc.prems(1) by (fastforce simp: cycles_in_order_iff progress_def n_def count_remediation_cycles_card)
      then show ?thesis using more by simp
    qed
    then have "cycles_in_order rid u" by (auto simp: cycles_in_order_iff)
    moreover have "max_cycles < int fuel + int (count_remediation_cycles rid u)"
      using Suc.prems(3) more by (simp add: n_def count_remediation_cycles_card)
    moreover have "0 < fuel" using less Suc.prems(3) by (cases fuel) (simp_all add: n_def)
    ultimately show ?thesis by (intro Suc.IH)
  qed
  show ?case
    unfolding qa_loop.simps wlp_bindS [of "getS _"] wlp_getS rid(1) n_def [symmetric]
  proof (simp only: if_split [of "\<lambda>m. wlp m _ _"], intro conjI impI)
    show "wlp (bindS (limit_reached pf ctx pid n) (\<lambda>r. returnS (Some r))) (\<lambda>r _. r \<noteq> None) s"
      by (simp add: wlp_simps wlp_returnS_fun)
    assume "\<not> max_cycles \<le> int n"
    then have less: "int n < max_cycles" by simp
    show "wlp (bindS (evaluate_round pf w ctx pid root max_recurrence n) (\<lambda>turn. case turn of Inl r \<Rightarrow> returnS (Some r)
      | Inr (facts, findings) \<Rightarrow>
          thenS (start_remediation_cycle depth pf w worker executor ctx pid root facts findings (int n + 1))
            (qa_loop fuel depth pf w worker executor ctx pid root max_cycles max_recurrence))) (\<lambda>r _. r \<noteq> None) s"
    proof (rule wlp_bindI [OF wlp_round], goal_cases)
      case (2 turn t)
      show ?case
      proof (cases turn)
        case (Inr p)
        obtain facts findings where p: "p = (facts, findings)" by fastforce
        have t: "findings \<noteq> []" "works t = works s" using 2 Inr p by (simp_all add: same_tables_def)
        have "progress rid (counted rid s) (numbered rid s) t"
          by (rule progress_works [OF t(2)]) (simp add: progress_def)
        then show ?thesis
          by (simp only: Inr p sum.case prod.case)
             (rule wlp_thenI [OF wlp_progress_cycle [OF assms(1) _ assms(2,3) t(1)] again [OF _ less]])
      qed (simp add: wlp_returnS)
    qed (rule rid)
  qed
qed simp

section \<open>Properties\<close>

subsection \<open>A run for the witnesses\<close>

definition sample_remediation :: "string \<Rightarrow> db" where
  "sample_remediation result = sample_empty\<lparr>evidence := [sample_evidence 1 result],
     events := [event_row sample_ctx (gate_event ''QA_STARTED'' ''Validation started.'' [] ''normal'' []) ''EVT-0'' 0]\<rparr>"

definition sample_remediation_world :: remediation_world where
  "sample_remediation_world = \<lparr>rw_git_object_exists = (\<lambda>_ _. True), rw_sha256 = (\<lambda>t. t), rw_message = exn_name, rw_trace = exn_name,
     rw_registry = (\<lambda>_. Inr None), rw_run_once = None\<rparr>"

definition sample_loop :: "string \<Rightarrow> (exn + remediation_result option) \<times> db" where
  "sample_loop result = run_qa_with_remediation 4 3 sample_policy sample_remediation_world None None sample_ctx ''PRJ-1'' ''/repo'' 3 2
     (sample_remediation result)"

subsection \<open>Theorems\<close>

text \<open>C20: The remediation loop ends. Provided that what runs the work and the assessments writes no remediation work of its own, and
  that the cycles of the run are numbered in order, the loop returns or raises within \<open>max_cycles + 1\<close> rounds, whatever the
  database, the findings and the workers: every cycle that returns is counted, and a failed gate always has a finding to start one.\<close>

theorem remediation_loop_ends:
  assumes "keeps_work w worker executor" "cycles_in_order (str_of (ec_run_id ctx)) s" "0 < fuel" "max_cycles < int fuel"
  shows "fst (run_qa_with_remediation fuel depth pf w worker executor ctx pid root max_cycles max_recurrence s) \<noteq> Inr None"
proof -
  have "wlp (if \<not> truthy_str (ec_run_id ctx)
        then bindS (emit_qa_gate_evaluation pf pid (Some ctx) False None None) (\<lambda>facts. returnS (Some (loop_result (field_or facts ''gate'' ''PENDING'') 0)))
        else qa_loop fuel depth pf w worker executor ctx pid root max_cycles max_recurrence) (\<lambda>r _. r \<noteq> None) s"
  proof (cases "truthy_str (ec_run_id ctx)")
    case True
    then obtain rid where rid: "ec_run_id ctx = Some rid" "rid \<noteq> []"
      by (cases "ec_run_id ctx") (auto simp: truthy_str_def)
    then show ?thesis
      using wlp_loop_ends [OF assms(1) rid, of s fuel max_cycles] assms(2-4) True by (simp add: str_of_def)
  qed (simp add: wlp_bindS wlp_returnS_fun, simp add: wlp_def)
  then have "wlp (run_qa_with_remediation fuel depth pf w worker executor ctx pid root max_cycles max_recurrence) (\<lambda>r _. r \<noteq> None) s"
    unfolding run_qa_with_remediation_def by (rule wlp_routed)
  then show ?thesis
    unfolding wlp_def by (metis prod.collapse)
qed

theorem remediation_loop_ends_witness:
  "fst (sample_loop ''fail'') \<noteq> Inr None"
  unfolding sample_loop_def
  by (rule remediation_loop_ends)
     (simp_all add: keeps_work_def sample_remediation_world_def cycles_in_order_def sample_remediation_def sample_empty_def empty_db_def)

text \<open>C21: What the loop reports is so. A gate reported as passed is passed in the database the loop leaves: there is a candidate, or
  the whole run, with evidence, and every assessment of it passed. An escalated loop did not pass, and has closed the run.\<close>

theorem remediation_outcome_is_sound:
  assumes "run_qa_with_remediation fuel depth pf w worker executor ctx pid root max_cycles max_recurrence s = (Inr (Some r), t)"
  shows "(rr_gate r = ''PASSED'' \<longrightarrow>
      (\<exists>c. gate_evidence pid c (ec_run_id ctx) t \<noteq> [] \<and> (\<forall>q \<in> set (gate_evidence pid c (ec_run_id ctx) t). q_result q = ''pass''))) \<and>
    (rr_escalated r \<longrightarrow> rr_gate r \<noteq> ''PASSED'' \<and>
      (get_execution_run (str_of (ec_run_id ctx)) t = None \<or> run_already_terminal (str_of (ec_run_id ctx)) t))"
proof -
  let ?Q = "\<lambda>r t. \<forall>res. r = Some res \<longrightarrow> (rr_gate res = ''PASSED'' \<longrightarrow> gate_passes pid (ec_run_id ctx) t) \<and>
    (rr_escalated res \<longrightarrow> rr_gate res \<noteq> ''PASSED'' \<and> run_over (ec_run_id ctx) t)"
  have "wlp (bindS (emit_qa_gate_evaluation pf pid (Some ctx) False None None) (\<lambda>facts.
      returnS (Some (loop_result (field_or facts ''gate'' ''PENDING'') 0)))) ?Q s" if "\<not> truthy_str (ec_run_id ctx)"
  proof (rule wlp_bindI [OF wlp_gate_evaluation])
    fix facts u
    assume u: "facts = collect_qa_gate_facts pid (evaluated_candidate pid None (str_or None (ec_run_id ctx)) s) (str_or None (ec_run_id ctx)) s \<and>
      same_tables s u"
    have "str_or None (ec_run_id ctx) = ec_run_id ctx" by (simp add: str_or_def truthy_str_def)
    then have "field_or facts ''gate'' d = ''PASSED'' \<Longrightarrow> gate_passes pid (ec_run_id ctx) u" for d
      using u gate_passes_cong [of s u] by (auto simp: field_gate)
    then show "wlp (returnS (Some (loop_result (field_or facts ''gate'' ''PENDING'') 0))) ?Q u"
      by (simp add: wlp_returnS loop_result_def)
  qed
  then have "wlp (run_qa_with_remediation fuel depth pf w worker executor ctx pid root max_cycles max_recurrence) ?Q s"
    unfolding run_qa_with_remediation_def by (intro wlp_routed) (simp add: wlp_loop_sound)
  from wlp_apply [OF this assms] show ?thesis
    by (simp add: gate_verdict_passed run_over_def)
qed

lemma sample_loop_passes: "fst (sample_loop ''pass'') = Inr (Some (loop_result ''PASSED'' 0))"
  by code_simp

theorem remediation_outcome_is_sound_witness:
  "\<exists>t c. sample_loop ''pass'' = (Inr (Some (loop_result ''PASSED'' 0)), t) \<and> gate_evidence ''PRJ-1'' c (Some ''RUN-1'') t \<noteq> [] \<and>
     list_all (\<lambda>q. q_result q = ''pass'') (gate_evidence ''PRJ-1'' c (Some ''RUN-1'') t)"
proof -
  obtain t where t: "sample_loop ''pass'' = (Inr (Some (loop_result ''PASSED'' 0)), t)"
    using sample_loop_passes by (metis prod.collapse)
  moreover have "ec_run_id sample_ctx = Some ''RUN-1''" by (simp add: sample_ctx_def)
  ultimately show ?thesis
    using remediation_outcome_is_sound [OF t [unfolded sample_loop_def]] by (auto simp: loop_result_def list_all_iff)
qed

lemma fingerprint_text_base:
  assumes "q_result q \<noteq> []" "j_human_id j \<noteq> []"
  defines "role \<equiv> if q_assurance_role q = [] then ''assurance'' else q_assurance_role q"
  shows "fingerprint_text (finding_base q (Some j)) = normalize (classify_finding_category role (q_result q)) @ ''|'' @ normalize (j_human_id j) @
    ''|'' @ normalize ''assurance review passes'' @ ''|'' @ normalize (q_result q) @ ''|'' @ normalize role"
  using assms(1,2)
  by (simp add: fingerprint_text_def finding_base_def Let_def field_or_def dict_get_def flip: role_def)

text \<open>The fingerprint of a finding is that of the assessment that found it, against the docstring of the code. Two findings with the same reviewer and the same result,
  for any candidates and evidence rows, have the same fingerprint exactly when their assessing jobs have the same name up to case and
  spaces, if the digest does not collide on the two. The jobs of a retest have names of their own, so a defect that recurs in the
  next candidate has another fingerprint.\<close>

theorem fingerprint_is_of_the_assessing_job:
  assumes "q_assurance_role p = q_assurance_role q" "q_result p = q_result q" "q_result q \<noteq> []"
    and "j_human_id a \<noteq> []" "j_human_id b \<noteq> []"
    and "py_upper (take 16 (sha256 (fingerprint_text (finding_base p (Some a))))) = py_upper (take 16 (sha256 (fingerprint_text (finding_base q (Some b))))) \<Longrightarrow>
      fingerprint_text (finding_base p (Some a)) = fingerprint_text (finding_base q (Some b))"
  shows "dict_get (build_finding sha256 p (Some a)) ''fingerprint'' = dict_get (build_finding sha256 q (Some b)) ''fingerprint'' \<longleftrightarrow>
    normalize (j_human_id a) = normalize (j_human_id b)"
proof -
  have fp: "dict_get (build_finding sha256 r (Some j)) ''fingerprint'' = JStr (finding_fingerprint sha256 (finding_base r (Some j)))" for r j
    by (simp add: build_finding_def Let_def dict_get_dict_set)
  have "fingerprint_text (finding_base p (Some a)) = fingerprint_text (finding_base q (Some b)) \<longleftrightarrow>
      normalize (j_human_id a) = normalize (j_human_id b)"
    using assms(1-5) by (simp add: fingerprint_text_base)
  then show ?thesis
    using assms(6) by (auto simp: fp finding_fingerprint_def)
qed

theorem fingerprint_is_of_the_assessing_job_witness:
  "dict_get (build_finding (filter is_digit) (sample_evidence 1 ''fail'') (Some (new_job_row (sample_args ''RWK-1__QA'' ''READY'') READY 1 0))) ''fingerprint'' \<noteq>
   dict_get (build_finding (filter is_digit) (sample_evidence 2 ''fail'') (Some (new_job_row (sample_args ''RWK-2__QA'' ''READY'') READY 2 0))) ''fingerprint''"
  by (subst fingerprint_is_of_the_assessing_job) code_simp+

end
