(* ===== verification/Schedule.thy ===== *)
theory Schedule
  imports Truthfulness Remediation
begin

text \<open>
  The schedules of projects (\<^verbatim>\<open>schedule.py\<close>) and the account of their token budgets (\<^verbatim>\<open>budget.py\<close>).

  Calendar dates are those of the proleptic Gregorian calendar that \<^verbatim>\<open>datetime\<close> implements, computed from the seconds since the
  epoch. \<open>schedule_world\<close> is what lies outside: the registry, the validation of an entry (the message of its failure) and the time zone
  database, as the offset in seconds of a zone at a moment, or \<^verbatim>\<open>ZoneInfoNotFoundError\<close>, a \<^verbatim>\<open>KeyError\<close>.
\<close>

section \<open>Dates\<close>

record date =
  d_year :: int
  d_month :: int
  d_day :: int

text \<open>The date of a day counted from 1970-01-01, by eras of 400 years that begin in March.\<close>

definition date_of :: "int \<Rightarrow> date" where
  "date_of days =
     (let z = days + 719468; era = z div 146097; doe = z mod 146097;
          yoe = (doe - doe div 1460 + doe div 36524 - doe div 146096) div 365;
          doy = doe - (365 * yoe + yoe div 4 - yoe div 100);
          mp = (5 * doy + 2) div 153;
          m = (if mp < 10 then mp + 3 else mp - 9)
      in \<lparr>d_year = yoe + era * 400 + (if m \<le> 2 then 1 else 0), d_month = m, d_day = doy - (153 * mp + 2) div 5 + 1\<rparr>)"

text \<open>The number of the first of January of a year, and \<^verbatim>\<open>isocalendar\<close>: the year and week of the Thursday of the week.\<close>

definition january_first :: "int \<Rightarrow> int" where
  "january_first y = 365 * (y - 1970) + (y - 1) div 4 - (y - 1) div 100 + (y - 1) div 400 - 477"

definition isocalendar :: "int \<Rightarrow> int \<times> int" where
  "isocalendar days =
     (let thursday = days - (days + 3) mod 7 + 3; y = d_year (date_of thursday)
      in (y, (thursday - january_first y) div 7 + 1))"

definition pad2 :: "int \<Rightarrow> string" where
  "pad2 n = replicate (2 - length (show_nat (nat n))) (CHR ''0'') @ show_nat (nat n)"

section \<open>Schedules (\<^verbatim>\<open>schedule.py\<close>)\<close>

record schedule_world =
  sd_registry :: "exn + (string \<Rightarrow> bool option)"
  sd_validate :: "string \<Rightarrow> string option"
  sd_offset :: "string \<Rightarrow> moment \<Rightarrow> exn + int"

record due_result =
  du_project_human_id :: string
  du_window_key :: string
  du_triggered :: bool
  du_reason :: string

definition upsert_schedule :: "string \<Rightarrow> bool \<Rightarrow> string \<Rightarrow> string \<Rightarrow> string \<Rightarrow> int option \<Rightarrow> unit dbop" where
  "upsert_schedule pid enabled tz cadence local_time budget =
     modifyS (\<lambda>s.
       let row = \<lparr>ps_project_human_id = pid, ps_enabled = enabled, ps_timezone = tz, ps_cadence = cadence, ps_local_time = local_time,
                  ps_approved_budget_tokens = budget, ps_updated_at = now_iso s\<rparr>
       in s\<lparr>schedules := (if find_row (\<lambda>r. ps_project_human_id r = pid) (schedules s) = None then schedules s @ [row]
                           else update_where (\<lambda>r. ps_project_human_id r = pid) (\<lambda>_. row) (schedules s))\<rparr>)"

definition list_schedules :: "db \<Rightarrow> project_schedule list" where
  "list_schedules s = sort_key ps_project_human_id (schedules s)"

definition window_key_for :: "int \<Rightarrow> string \<Rightarrow> string" where
  "window_key_for days cadence =
     (if cadence = ''weekly''
      then (case isocalendar days of (y, w) \<Rightarrow> show_int y @ ''-W'' @ pad2 w)
      else let d = date_of days in show_int (d_year d) @ ''-'' @ pad2 (d_month d) @ ''-'' @ pad2 (d_day d))"

text \<open>\<^verbatim>\<open>hour, minute = [int(x) for x in local_time.split(":", 1)]\<close>.\<close>

definition clock_of :: "string \<Rightarrow> exn + int \<times> int" where
  "clock_of t =
     (let h = takeWhile (\<lambda>c. c \<noteq> CHR '':'') t; rest = dropWhile (\<lambda>c. c \<noteq> CHR '':'') t in
      case (int_of_text h, rest) of
        (Inl e, _) \<Rightarrow> Inl e
      | (Inr _, []) \<Rightarrow> Inl ValueError
      | (Inr hour, _ # m) \<Rightarrow> map_sum id (Pair hour) (int_of_text m))"

definition zone_offset :: "schedule_world \<Rightarrow> string \<Rightarrow> moment \<Rightarrow> exn + int" where
  "zone_offset w tz now = (if py_upper tz \<in> {''UTC'', ''GMT''} then Inr 0 else sd_offset w tz now)"

definition is_due_now :: "schedule_world \<Rightarrow> project_schedule \<Rightarrow> moment \<Rightarrow> exn + bool \<times> string" where
  "is_due_now w e now =
     (if \<not> ps_enabled e then Inr (False, ps_project_human_id e)
      else case zone_offset w (ps_timezone e) now of
        Inl x \<Rightarrow> Inl x
      | Inr offset \<Rightarrow>
          (case clock_of (ps_local_time e) of
             Inl x \<Rightarrow> Inl x
           | Inr clock \<Rightarrow>
               let local = iso_of now + offset; time = local mod 86400
               in Inr (clock \<le> (time div 3600, time mod 3600 div 60), window_key_for (local div 86400) (ps_cadence e))))"

definition already_triggered :: "string \<Rightarrow> string \<Rightarrow> db \<Rightarrow> bool" where
  "already_triggered pid key s = list_ex (\<lambda>t. st_project_human_id t = pid \<and> st_window_key t = key) (triggers s)"

text \<open>The INSERTs, with the UNIQUE constraints of the two tables.\<close>

definition insert_iteration_run :: "string \<Rightarrow> string \<Rightarrow> int dbop" where
  "insert_iteration_run pid key =
     bindS (getS (\<lambda>s. list_ex (\<lambda>r. ir_project_human_id r = pid \<and> ir_iteration_human_id r = ''SCHED-'' @ key) (iteration_runs s))) (\<lambda>clash.
     thenS (guardS (\<not> clash) IntegrityError)
     (bindS (getS (\<lambda>s. iteration_run_seq s + 1)) (\<lambda>i.
      thenS (modifyS (\<lambda>s. s\<lparr>iteration_runs := iteration_runs s @ [\<lparr>ir_id = i, ir_project_human_id = pid,
                ir_iteration_human_id = ''SCHED-'' @ key, ir_status = ''READY'', ir_notes = Some (''schedule trigger '' @ key)\<rparr>],
              iteration_run_seq := i\<rparr>)) (returnS i))))"

definition insert_trigger :: "string \<Rightarrow> string \<Rightarrow> int option \<Rightarrow> unit dbop" where
  "insert_trigger pid key i =
     bindS (getS (already_triggered pid key)) (\<lambda>clash.
     thenS (guardS (\<not> clash) IntegrityError)
       (modifyS (\<lambda>s. s\<lparr>triggers := triggers s @ [\<lparr>st_project_human_id = pid, st_window_key = key, st_triggered_at = now_iso s,
          st_iteration_run_id = i\<rparr>]\<rparr>)))"

definition evaluate_entry :: "schedule_world \<Rightarrow> (string \<Rightarrow> bool option) \<Rightarrow> moment \<Rightarrow> bool \<Rightarrow> project_schedule \<Rightarrow> due_result dbop" where
  "evaluate_entry w registry now create_iteration_run e =
     (let pid = ps_project_human_id e; skip = (\<lambda>key reason. returnS \<lparr>du_project_human_id = pid, du_window_key = key, du_triggered = False, du_reason = reason\<rparr>) in
      if \<not> ps_enabled e then skip [] ''disabled''
      else if registry pid \<noteq> Some True then skip [] ''not registered/enabled''
      else case sd_validate w pid of
        Some message \<Rightarrow> skip [] (''validation failed: '' @ message)
      | None \<Rightarrow>
          bindS (liftS (is_due_now w e now)) (\<lambda>(reached, key).
          if \<not> reached then skip key ''not yet due''
          else bindS (getS (already_triggered pid key)) (\<lambda>existing.
          if existing then skip key ''already triggered this window''
          else bindS (if create_iteration_run then bindS (insert_iteration_run pid key) (\<lambda>i. returnS (Some i)) else returnS None) (\<lambda>i.
            thenS (insert_trigger pid key i)
              (returnS \<lparr>du_project_human_id = pid, du_window_key = key, du_triggered = True, du_reason = ''triggered''\<rparr>)))))"

text \<open>\<open>now\<close> is the time of the injected clock; the whole evaluation is one connection.\<close>

definition evaluate_due :: "schedule_world \<Rightarrow> moment \<Rightarrow> bool \<Rightarrow> (project_schedule list \<times> due_result list) dbop" where
  "evaluate_due w now create_iteration_run =
     bindS (liftS (sd_registry w)) (\<lambda>registry.
     transaction
       (bindS (getS list_schedules) (\<lambda>entries.
        thenS (modifyS (\<lambda>s. s\<lparr>last_due_eval_at := Some (now_iso s)\<rparr>))
        (bindS (mapS (evaluate_entry w registry now create_iteration_run) entries) (\<lambda>due. returnS (entries, due))))))"

section \<open>Budgets (\<^verbatim>\<open>budget.py\<close>)\<close>

record budget_report =
  b_project_human_id :: string
  b_iteration_human_id :: "string option"
  b_cursor_invocations :: int
  b_total_duration_ms :: int
  b_per_role_counts :: "(string \<times> int) list"
  b_token_input :: "int option"
  b_token_output :: "int option"
  b_unreported_usage_count :: int
  b_approved_budget_tokens :: "int option"
  b_remaining_budget_tokens :: "int option"

text \<open>\<^verbatim>\<open>isinstance(v, int)\<close>, which a boolean is.\<close>

definition as_int :: "json \<Rightarrow> int option" where
  "as_int v = (case v of JInt i \<Rightarrow> Some i | JBool b \<Rightarrow> Some (if b then 1 else 0) | _ \<Rightarrow> None)"

definition usage_field :: "dict \<Rightarrow> string \<Rightarrow> string \<Rightarrow> json" where
  "usage_field d k k' = (case map_of d k of Some v \<Rightarrow> v | None \<Rightarrow> dict_get d k')"

definition parse_usage :: "jtext option \<Rightarrow> int option \<times> int option \<times> bool" where
  "parse_usage u =
     (case u of
        Some (JText (JObj d)) \<Rightarrow>
          if dict_get d ''status'' = JStr ''unknown'' then (None, None, False)
          else let inp = usage_field d ''input_tokens'' ''prompt_tokens''; out = usage_field d ''output_tokens'' ''completion_tokens'' in
            if as_int inp \<noteq> None \<and> as_int out \<noteq> None then (as_int inp, as_int out, True)
            else if as_int inp \<noteq> None \<and> out = JNull then (as_int inp, None, True)
            else if as_int out \<noteq> None \<and> inp = JNull then (None, as_int out, True)
            else (None, None, False)
      | _ \<Rightarrow> (None, None, False))"

definition budget_rows :: "string \<Rightarrow> string option \<Rightarrow> db \<Rightarrow> (string \<times> int option \<times> jtext option) list" where
  "budget_rows pid iteration s =
     List.map_filter (\<lambda>r. case job_by_id (ag_job_id r) s of
         None \<Rightarrow> None
       | Some j \<Rightarrow> if j_project_human_id j = pid \<and> (truthy_str iteration \<longrightarrow> j_iteration_human_id j = iteration)
                   then Some (j_agent_role j, ag_duration_ms r, ag_usage_json r) else None) (agent_runs s)"

fun count_role :: "string \<Rightarrow> (string \<times> int) list \<Rightarrow> (string \<times> int) list" where
  "count_role role [] = [(role, 1)]"
| "count_role role ((r, n) # cs) = (if r = role then (r, n + 1) # cs else (r, n) # count_role role cs)"

definition add_tokens :: "int option \<Rightarrow> int option \<Rightarrow> int option" where
  "add_tokens so_far n = (case n of None \<Rightarrow> so_far | Some i \<Rightarrow> Some ((case so_far of None \<Rightarrow> 0 | Some t \<Rightarrow> t) + i))"

text \<open>One row of the loop; \<^verbatim>\<open>input_sum\<close> with \<^verbatim>\<open>any_input\<close> is the optional total.\<close>

definition account :: "string \<times> int option \<times> jtext option \<Rightarrow> budget_report \<Rightarrow> budget_report" where
  "account = (\<lambda>(role, duration, usage) b. case parse_usage usage of (inp, out, reported) \<Rightarrow>
     b\<lparr>b_cursor_invocations := b_cursor_invocations b + 1,
       b_per_role_counts := count_role role (b_per_role_counts b),
       b_total_duration_ms := b_total_duration_ms b + (case duration of None \<Rightarrow> 0 | Some d \<Rightarrow> d),
       b_unreported_usage_count := (if reported then b_unreported_usage_count b else b_unreported_usage_count b + 1),
       b_token_input := (if reported then add_tokens (b_token_input b) inp else b_token_input b),
       b_token_output := (if reported then add_tokens (b_token_output b) out else b_token_output b)\<rparr>)"

definition empty_report :: "string \<Rightarrow> string option \<Rightarrow> budget_report" where
  "empty_report pid iteration = \<lparr>b_project_human_id = pid, b_iteration_human_id = iteration, b_cursor_invocations = 0, b_total_duration_ms = 0,
     b_per_role_counts = [], b_token_input = None, b_token_output = None, b_unreported_usage_count = 0,
     b_approved_budget_tokens = None, b_remaining_budget_tokens = None\<rparr>"

definition with_budget :: "project_schedule option \<Rightarrow> budget_report \<Rightarrow> budget_report" where
  "with_budget sched b =
     (case Option.bind sched ps_approved_budget_tokens of
        None \<Rightarrow> b
      | Some approved \<Rightarrow>
          let used = (case b_token_input b of None \<Rightarrow> 0 | Some i \<Rightarrow> i) + (case b_token_output b of None \<Rightarrow> 0 | Some i \<Rightarrow> i) in
          b\<lparr>b_approved_budget_tokens := Some approved,
            b_remaining_budget_tokens := (if b_token_input b \<noteq> None \<or> b_token_output b \<noteq> None then Some (approved - used)
                                          else b_remaining_budget_tokens b)\<rparr>)"

definition build_budget_report :: "string \<Rightarrow> string option \<Rightarrow> db \<Rightarrow> budget_report" where
  "build_budget_report pid iteration s =
     with_budget (find_row (\<lambda>r. ps_project_human_id r = pid) (schedules s))
       (fold account (budget_rows pid iteration s) (empty_report pid iteration))"

section \<open>Lemmas\<close>

subsection \<open>One entry\<close>

text \<open>What an entry asks for, whatever the triggers: nothing, an exception, or a trigger of a window.\<close>

definition demand :: "schedule_world \<Rightarrow> (string \<Rightarrow> bool option) \<Rightarrow> moment \<Rightarrow> project_schedule \<Rightarrow> exn + string option" where
  "demand w registry now e =
     (if ps_enabled e \<and> registry (ps_project_human_id e) = Some True \<and> sd_validate w (ps_project_human_id e) = None
      then map_sum id (\<lambda>(reached, key). if reached then Some key else None) (is_due_now w e now)
      else Inr None)"

definition idle :: "due_result \<Rightarrow> bool" where
  "idle d \<longleftrightarrow> \<not> du_triggered d"

lemma evaluate_entry_none:
  "demand w registry now e = Inr None \<Longrightarrow> \<exists>d. idle d \<and> du_project_human_id d = ps_project_human_id e \<and> evaluate_entry w registry now c e s = (Inr d, s)"
  by (auto simp: demand_def evaluate_entry_def Let_def idle_def returnS_def op_simps split: if_splits option.splits sum.splits)

lemma evaluate_entry_raises:
  "demand w registry now e = Inl x \<Longrightarrow> evaluate_entry w registry now c e s = (Inl x, s)"
  by (auto simp: demand_def evaluate_entry_def Let_def op_simps split: if_splits sum.splits)

lemma evaluate_entry_done:
  "demand w registry now e = Inr (Some key) \<Longrightarrow> already_triggered (ps_project_human_id e) key s \<Longrightarrow>
   \<exists>d. idle d \<and> du_project_human_id d = ps_project_human_id e \<and> evaluate_entry w registry now c e s = (Inr d, s)"
  by (auto simp: demand_def evaluate_entry_def Let_def idle_def returnS_def op_simps split: if_splits sum.splits)

definition scheduled_run :: "int \<Rightarrow> string \<Rightarrow> string \<Rightarrow> iteration_run" where
  "scheduled_run i pid key = \<lparr>ir_id = i, ir_project_human_id = pid, ir_iteration_human_id = ''SCHED-'' @ key, ir_status = ''READY'',
     ir_notes = Some (''schedule trigger '' @ key)\<rparr>"

text \<open>The state after a trigger, with its iteration run if one is created.\<close>

definition fired :: "string \<Rightarrow> string \<Rightarrow> bool \<Rightarrow> db \<Rightarrow> db" where
  "fired pid key c s =
     (let i = iteration_run_seq s + 1; u = (if c then s\<lparr>iteration_runs := iteration_runs s @ [scheduled_run i pid key], iteration_run_seq := i\<rparr> else s)
      in u\<lparr>triggers := triggers s @ [\<lparr>st_project_human_id = pid, st_window_key = key, st_triggered_at = now_iso s,
           st_iteration_run_id = (if c then Some i else None)\<rparr>]\<rparr>)"

definition run_clash :: "string \<Rightarrow> string \<Rightarrow> db \<Rightarrow> bool" where
  "run_clash pid key s \<longleftrightarrow> list_ex (\<lambda>r. ir_project_human_id r = pid \<and> ir_iteration_human_id r = ''SCHED-'' @ key) (iteration_runs s)"

lemma evaluate_entry_due:
  assumes "demand w registry now e = Inr (Some key)" "\<not> already_triggered (ps_project_human_id e) key s"
  shows "evaluate_entry w registry now c e s =
    (if c \<and> run_clash (ps_project_human_id e) key s then (Inl IntegrityError, s)
     else (Inr \<lparr>du_project_human_id = ps_project_human_id e, du_window_key = key, du_triggered = True, du_reason = ''triggered''\<rparr>,
           fired (ps_project_human_id e) key c s))"
proof -
  let ?p = "ps_project_human_id e"
  have run: "insert_iteration_run ?p key s = (if run_clash ?p key s then (Inl IntegrityError, s)
      else (Inr (iteration_run_seq s + 1), s\<lparr>iteration_runs := iteration_runs s @ [scheduled_run (iteration_run_seq s + 1) ?p key],
        iteration_run_seq := iteration_run_seq s + 1\<rparr>))"
    by (simp add: insert_iteration_run_def run_clash_def scheduled_run_def op_simps returnS_def raiseS_def)
  have trigger: "insert_trigger ?p key i u = (Inr (), u\<lparr>triggers := triggers u @ [\<lparr>st_project_human_id = ?p, st_window_key = key,
      st_triggered_at = now_iso u, st_iteration_run_id = i\<rparr>]\<rparr>)" if "triggers u = triggers s" for u i
    using assms(2) that by (simp add: insert_trigger_def already_triggered_def op_simps returnS_def)
  from assms(1) have "ps_enabled e" "registry ?p = Some True" "sd_validate w ?p = None" "is_due_now w e now = Inr (True, key)"
    by (cases "is_due_now w e now"; auto simp: demand_def split: if_splits)+
  then show ?thesis
    using assms(2) run
    by (auto simp: evaluate_entry_def Let_def op_simps bindS_def thenS_def trigger returnS_def fired_def now_iso_def)
qed

lemma triggered_fired [simp]:
  "already_triggered p k (fired pid key c s) \<longleftrightarrow> already_triggered p k s \<or> (p = pid \<and> k = key)"
  by (auto simp: already_triggered_def fired_def Let_def)

lemma evaluate_entry_cases:
  assumes "evaluate_entry w registry now c e s = (Inr d, t)"
  obtains (idle) "idle d" "t = s"
  | (fired) key where "demand w registry now e = Inr (Some key)" "\<not> already_triggered (ps_project_human_id e) key s"
      "\<not> (c \<and> run_clash (ps_project_human_id e) key s)" "t = fired (ps_project_human_id e) key c s" "du_triggered d"
      "du_project_human_id d = ps_project_human_id e" "du_window_key d = key"
proof (cases "demand w registry now e")
  case (Inl x)
  then show thesis using evaluate_entry_raises [OF Inl, of c s] assms by simp
next
  case (Inr k)
  show thesis
  proof (cases k)
    case None
    then show thesis using evaluate_entry_none [OF Inr [unfolded None], of c s] assms that(1) by auto
  next
    case (Some key)
    show thesis
    proof (cases "already_triggered (ps_project_human_id e) key s")
      case True
      then show thesis using evaluate_entry_done [OF Inr [unfolded Some] True, of c] assms that(1) by auto
    next
      case False
      then show thesis
        using evaluate_entry_due [OF Inr [unfolded Some] False, of c] assms that(2) [OF Inr [unfolded Some] False] by (auto split: if_splits)
    qed
  qed
qed

text \<open>What an entry asked for is triggered after it was evaluated, and stays so.\<close>

definition met :: "schedule_world \<Rightarrow> (string \<Rightarrow> bool option) \<Rightarrow> moment \<Rightarrow> db \<Rightarrow> project_schedule \<Rightarrow> bool" where
  "met w registry now s e \<longleftrightarrow> (case demand w registry now e of
     Inl _ \<Rightarrow> False | Inr None \<Rightarrow> True | Inr (Some key) \<Rightarrow> already_triggered (ps_project_human_id e) key s)"

lemma evaluate_entry_met:
  assumes "evaluate_entry w registry now c e s = (Inr d, t)"
  shows "met w registry now t e"
proof (cases "demand w registry now e")
  case (Inl x)
  then show ?thesis using evaluate_entry_raises [OF Inl, of c s] assms by simp
next
  case (Inr k)
  show ?thesis
    using assms
  proof (cases rule: evaluate_entry_cases)
    case idle
    have "already_triggered (ps_project_human_id e) key s" if "k = Some key" for key
    proof (rule ccontr)
      assume "\<not> already_triggered (ps_project_human_id e) key s"
      from evaluate_entry_due [OF Inr [unfolded that] this, of c] assms idle show False
        by (auto simp: idle_def split: if_splits)
    qed
    then show ?thesis using Inr idle by (cases k) (auto simp: met_def)
  qed (simp add: met_def)
qed

lemma met_fired: "met w registry now s e \<Longrightarrow> met w registry now (fired pid key c s) e"
  by (auto simp: met_def split: sum.splits option.splits)

lemma evaluate_entries_met:
  "mapS (evaluate_entry w registry now c) es s = (Inr ds, t) \<Longrightarrow>
   list_all (met w registry now t) es \<and> (\<forall>e. met w registry now s e \<longrightarrow> met w registry now t e)"
proof (induction es arbitrary: s ds)
  case (Cons e es)
  then obtain d u ds' where e: "evaluate_entry w registry now c e s = (Inr d, u)" and es: "mapS (evaluate_entry w registry now c) es u = (Inr ds', t)"
    by (auto simp: bindS_eq_Inr_iff returnS_def)
  have "met w registry now u e'" if "met w registry now s e'" for e'
    using e that by (cases rule: evaluate_entry_cases) (auto intro: met_fired)
  then show ?case using Cons.IH [OF es] evaluate_entry_met [OF e] by auto
qed (simp add: returnS_def)

lemma evaluate_entries_again:
  "list_all (met w registry now s) es \<Longrightarrow> \<exists>ds. mapS (evaluate_entry w registry now c) es s = (Inr ds, s) \<and> list_all idle ds"
proof (induction es)
  case (Cons e es)
  then obtain ds where "mapS (evaluate_entry w registry now c) es s = (Inr ds, s)" "list_all idle ds" by auto
  moreover obtain d where "evaluate_entry w registry now c e s = (Inr d, s)" "idle d"
    using Cons.prems evaluate_entry_none [of w registry now e c s] evaluate_entry_done [of w registry now e _ s c]
    by (fastforce simp: met_def split: sum.splits option.splits)
  ultimately show ?case by (simp add: bindS_def returnS_def)
qed (simp add: returnS_def)

subsection \<open>The tables of the scheduler\<close>

definition trigger_key :: "schedule_trigger \<Rightarrow> string \<times> string" where
  "trigger_key t = (st_project_human_id t, st_window_key t)"

text \<open>Every trigger has its window to itself and, if it names an iteration run, one that was made for it.\<close>

definition schedule_inv :: "db \<Rightarrow> bool" where
  "schedule_inv s \<longleftrightarrow>
     distinct (map ps_project_human_id (schedules s)) \<and> distinct (map trigger_key (triggers s)) \<and>
     distinct (map ir_id (iteration_runs s)) \<and> (\<forall>r \<in> set (iteration_runs s). ir_id r \<le> iteration_run_seq s) \<and>
     (\<forall>t \<in> set (triggers s). \<forall>i. st_iteration_run_id t = Some i \<longrightarrow>
        scheduled_run i (st_project_human_id t) (st_window_key t) \<in> set (iteration_runs s))"

definition schedule_start :: "db \<Rightarrow> bool" where
  "schedule_start s \<longleftrightarrow> schedules s = [] \<and> triggers s = [] \<and> iteration_runs s = []"

inductive schedule_step :: "db \<Rightarrow> db \<Rightarrow> bool" where
  other: "schedules t = schedules s \<Longrightarrow> triggers t = triggers s \<Longrightarrow> iteration_runs t = iteration_runs s \<Longrightarrow>
     iteration_run_seq t = iteration_run_seq s \<Longrightarrow> schedule_step s t"
| scheduling: "schedule_step s (snd (transaction (upsert_schedule pid en tz cad lt b) s))"
| evaluating: "schedule_step s (snd (evaluate_due w now c s))"

lemma schedule_inv_fired:
  assumes "schedule_inv s" "\<not> already_triggered pid key s"
  shows "schedule_inv (fired pid key c s)"
  using assms
  by (auto simp: schedule_inv_def fired_def Let_def already_triggered_def list_ex_iff trigger_key_def scheduled_run_def)

lemma keeps_evaluate_entries: "keeps schedule_inv (mapS (evaluate_entry w registry now c) es)"
proof (rule keeps_mapS)
  fix e
  show "keeps schedule_inv (evaluate_entry w registry now c e)"
  proof (rule keepsI)
    fix s assume s: "schedule_inv s"
    obtain r t where e: "evaluate_entry w registry now c e s = (r, t)" by fastforce
    show "schedule_inv (snd (evaluate_entry w registry now c e s))"
    proof (cases r)
      case (Inr d)
      then show ?thesis
        using e s by (auto elim!: evaluate_entry_cases intro: schedule_inv_fired)
    next
      case (Inl x)
      have "t = s"
      proof (cases "demand w registry now e")
        case (Inl y)
        then show ?thesis using evaluate_entry_raises [OF Inl, of c s] e by simp
      next
        case (Inr k)
        then show ?thesis
          using e \<open>r = Inl x\<close> evaluate_entry_none [of w registry now e c s] evaluate_entry_done [of w registry now e _ s c]
            evaluate_entry_due [of w registry now e _ s c]
          by (cases k; cases "already_triggered (ps_project_human_id e) (the k) s") (auto split: if_splits)
      qed
      then show ?thesis using e s by simp
    qed
  qed
qed

interpretation scheduler: invariant_machine schedule_start schedule_step schedule_inv
proof
  fix s t
  assume "schedule_start s"
  then show "schedule_inv s" by (simp add: schedule_start_def schedule_inv_def)
next
  fix s t
  assume s: "schedule_inv s" and "schedule_step s t"
  from this(2) show "schedule_inv t"
  proof cases
    case other
    then show ?thesis using s by (simp add: schedule_inv_def)
  next
    case scheduling
    then show ?thesis
      using s
      by (auto simp: upsert_schedule_def transaction_def modifyS_def Let_def schedule_inv_def find_row_None_iff update_where_def comp_def
          if_distrib [of ps_project_human_id] cong: if_cong)
  next
    case (evaluating w now c)
    have stamp: "keeps schedule_inv (modifyS (\<lambda>s. s\<lparr>last_due_eval_at := Some (now_iso s)\<rparr>))"
      by (rule keepsI) (simp add: modifyS_def schedule_inv_def)
    have "keeps schedule_inv (evaluate_due w now c)"
      unfolding evaluate_due_def
      by (intro keeps_intros keeps_transaction keeps_evaluate_entries stamp keeps_returnS keeps_reads [OF untouched_liftS] keeps_reads [OF untouched_getS])
    then show ?thesis using s evaluating by (simp add: keepsD)
  qed
qed

lemma evaluate_due_Inr:
  assumes "evaluate_due w now c s = (Inr (es, due), t)"
  obtains registry where "sd_registry w = Inr registry" "es = list_schedules s"
    "mapS (evaluate_entry w registry now c) es (s\<lparr>last_due_eval_at := Some (now_iso s)\<rparr>) = (Inr due, t)"
proof (cases "sd_registry w")
  case (Inr registry)
  then show thesis
    using assms that [of registry]
    by (auto simp: evaluate_due_def op_simps transaction_def bindS_def thenS_def modifyS_def getS_def returnS_def split: prod.splits sum.splits)
qed (use assms in \<open>simp add: evaluate_due_def op_simps\<close>)

lemma untouched_schedules_entry: "untouched schedules (evaluate_entry w registry now c e)"
  unfolding evaluate_entry_def insert_iteration_run_def insert_trigger_def Let_def by (intro frames) simp_all

lemma met_mono: "set (triggers s) \<subseteq> set (triggers t) \<Longrightarrow> met w registry now s e \<Longrightarrow> met w registry now t e"
  by (auto simp: met_def already_triggered_def list_ex_iff split: sum.splits option.splits)

subsection \<open>Sums of usage\<close>

lemma add_tokens_fold:
  "fold (\<lambda>x a. add_tokens a (f x)) xs a =
     (case (a, List.map_filter f xs) of (None, []) \<Rightarrow> None | (_, ys) \<Rightarrow> Some ((case a of None \<Rightarrow> 0 | Some i \<Rightarrow> i) + sum_list ys))"
  by (induction xs arbitrary: a) (auto simp: add_tokens_def map_filter_simps split: option.splits list.splits)

lemma map_of_count_role:
  "map_of (count_role role cs) r = (if r = role then Some ((case map_of cs r of None \<Rightarrow> 0 | Some n \<Rightarrow> n) + 1) else map_of cs r)"
  by (induction role cs rule: count_role.induct) auto

lemma parse_usage_unreported: "parse_usage u = (inp, out, False) \<Longrightarrow> inp = None \<and> out = None"
  by (auto simp: parse_usage_def Let_def split: option.splits jtext.splits json.splits if_splits)

lemma account_fields:
  "b_cursor_invocations (account (role, dur, u) b) = b_cursor_invocations b + 1"
  "b_total_duration_ms (account (role, dur, u) b) = b_total_duration_ms b + (case dur of None \<Rightarrow> 0 | Some d \<Rightarrow> d)"
  "b_unreported_usage_count (account (role, dur, u) b) = b_unreported_usage_count b + (if snd (snd (parse_usage u)) then 0 else 1)"
  "b_token_input (account (role, dur, u) b) = add_tokens (b_token_input b) (fst (parse_usage u))"
  "b_token_output (account (role, dur, u) b) = add_tokens (b_token_output b) (fst (snd (parse_usage u)))"
  "b_per_role_counts (account (role, dur, u) b) = count_role role (b_per_role_counts b)"
  "b_approved_budget_tokens (account (role, dur, u) b) = b_approved_budget_tokens b"
  "b_remaining_budget_tokens (account (role, dur, u) b) = b_remaining_budget_tokens b"
  using parse_usage_unreported [of u] by (auto simp: account_def add_tokens_def split: prod.split option.split)

lemma fold_account:
  "b_cursor_invocations (fold account rows b) = b_cursor_invocations b + int (length rows)"
  "b_total_duration_ms (fold account rows b) = b_total_duration_ms b + sum_list (List.map_filter (\<lambda>(_, d, _). d) rows)"
  "b_unreported_usage_count (fold account rows b) =
     b_unreported_usage_count b + int (length (filter (\<lambda>(_, _, u). \<not> snd (snd (parse_usage u))) rows))"
  "b_token_input (fold account rows b) = fold (\<lambda>x a. add_tokens a (case x of (_, _, u) \<Rightarrow> fst (parse_usage u))) rows (b_token_input b)"
  "b_token_output (fold account rows b) = fold (\<lambda>x a. add_tokens a (case x of (_, _, u) \<Rightarrow> fst (snd (parse_usage u)))) rows (b_token_output b)"
  "b_approved_budget_tokens (fold account rows b) = b_approved_budget_tokens b"
  "b_remaining_budget_tokens (fold account rows b) = b_remaining_budget_tokens b"
  by (induction rows arbitrary: b) (auto simp: account_fields map_filter_simps split: option.split)

lemma fold_account_roles:
  "map_of (b_per_role_counts (fold account rows b)) role =
     (let n = length (filter (\<lambda>(r, _). r = role) rows) in
      case map_of (b_per_role_counts b) role of None \<Rightarrow> if n = 0 then None else Some (int n) | Some m \<Rightarrow> Some (m + int n))"
proof (induction rows arbitrary: b)
  case (Cons x rows)
  then show ?case
    by (cases x) (auto simp: account_fields map_of_count_role Let_def split: option.split)
qed (simp add: Let_def split: option.split)

lemma with_budget_fields:
  "b_cursor_invocations (with_budget o' r) = b_cursor_invocations r" "b_total_duration_ms (with_budget o' r) = b_total_duration_ms r"
  "b_unreported_usage_count (with_budget o' r) = b_unreported_usage_count r" "b_per_role_counts (with_budget o' r) = b_per_role_counts r"
  "b_token_input (with_budget o' r) = b_token_input r" "b_token_output (with_budget o' r) = b_token_output r"
  "b_approved_budget_tokens (with_budget o' r) = (case Option.bind o' ps_approved_budget_tokens of None \<Rightarrow> b_approved_budget_tokens r | Some a \<Rightarrow> Some a)"
  "b_remaining_budget_tokens (with_budget o' r) = (case Option.bind o' ps_approved_budget_tokens of None \<Rightarrow> b_remaining_budget_tokens r
     | Some a \<Rightarrow> if b_token_input r = None \<and> b_token_output r = None then b_remaining_budget_tokens r
        else Some (a - ((case b_token_input r of None \<Rightarrow> 0 | Some i \<Rightarrow> i) + (case b_token_output r of None \<Rightarrow> 0 | Some i \<Rightarrow> i))))"
  by (simp_all add: with_budget_def Let_def split: option.split)

lemma budget_report_fields:
  fixes pid iteration s
  defines "rows \<equiv> budget_rows pid iteration s"
  defines "ins \<equiv> List.map_filter (\<lambda>(_, _, u). fst (parse_usage u)) rows"
    and "outs \<equiv> List.map_filter (\<lambda>(_, _, u). fst (snd (parse_usage u))) rows"
    and "approved \<equiv> Option.bind (find_row (\<lambda>r. ps_project_human_id r = pid) (schedules s)) ps_approved_budget_tokens"
  defines "b \<equiv> build_budget_report pid iteration s"
  shows "b_cursor_invocations b = int (length rows) \<and>
    b_total_duration_ms b = sum_list (List.map_filter (\<lambda>(_, d, _). d) rows) \<and>
    b_unreported_usage_count b = int (length (filter (\<lambda>(_, _, u). \<not> snd (snd (parse_usage u))) rows)) \<and>
    b_token_input b = (if ins = [] then None else Some (sum_list ins)) \<and>
    b_token_output b = (if outs = [] then None else Some (sum_list outs)) \<and>
    map_of (b_per_role_counts b) role = (let n = length (filter (\<lambda>(r, _). r = role) rows) in if n = 0 then None else Some (int n)) \<and>
    b_approved_budget_tokens b = approved \<and>
    b_remaining_budget_tokens b = (case approved of None \<Rightarrow> None | Some a \<Rightarrow>
      if ins = [] \<and> outs = [] then None else Some (a - (sum_list ins + sum_list outs)))"
proof -
  let ?r = "fold account rows (empty_report pid iteration)"
  have tokens: "b_token_input ?r = (if ins = [] then None else Some (sum_list ins))"
      "b_token_output ?r = (if outs = [] then None else Some (sum_list outs))"
    by (simp_all add: fold_account add_tokens_fold ins_def outs_def empty_report_def case_prod_unfold split: list.split)
  have b: "b = with_budget (find_row (\<lambda>r. ps_project_human_id r = pid) (schedules s)) ?r"
    by (simp add: b_def build_budget_report_def rows_def)
  have start: "b_approved_budget_tokens ?r = None" "b_remaining_budget_tokens ?r = None"
    by (simp_all add: fold_account empty_report_def)
  have counts: "b_cursor_invocations ?r = int (length rows)" "b_total_duration_ms ?r = sum_list (List.map_filter (\<lambda>(_, d, _). d) rows)"
    "b_unreported_usage_count ?r = int (length (filter (\<lambda>(_, _, u). \<not> snd (snd (parse_usage u))) rows))"
    "map_of (b_per_role_counts ?r) role = (let n = length (filter (\<lambda>(r, _). r = role) rows) in if n = 0 then None else Some (int n))"
    by (simp_all add: fold_account fold_account_roles empty_report_def Let_def)
  show ?thesis
    unfolding b with_budget_fields tokens start counts by (simp add: approved_def split: option.split)
qed

section \<open>Properties\<close>

text \<open>C38: An evaluation of the schedules is idempotent. When an evaluation returns, evaluating again at the same time, in the database it
  left or in any later one with the same schedules that has kept its triggers, returns the same entries, triggers nothing and leaves
  schedules, triggers and iteration runs as they are.\<close>

theorem evaluation_is_idempotent:
  assumes "evaluate_due w now c s = (Inr (es, due), t)" "schedules u = schedules t" "set (triggers t) \<subseteq> set (triggers u)"
  shows "\<exists>due'. evaluate_due w now c' u = (Inr (es, due'), u\<lparr>last_due_eval_at := Some (now_iso u)\<rparr>) \<and> list_all (\<lambda>d. \<not> du_triggered d) due'"
proof -
  obtain registry where registry: "sd_registry w = Inr registry" and es: "es = list_schedules s"
      and run: "mapS (evaluate_entry w registry now c) es (s\<lparr>last_due_eval_at := Some (now_iso s)\<rparr>) = (Inr due, t)"
    using assms(1) by (rule evaluate_due_Inr)
  let ?u = "u\<lparr>last_due_eval_at := Some (now_iso u)\<rparr>"
  have "schedules t = schedules s"
    using untouched_eq [OF untouched_mapS [OF untouched_schedules_entry] run] by simp
  then have "list_schedules u = es" using assms(2) by (simp add: list_schedules_def es)
  moreover have "list_all (met w registry now ?u) es"
    using evaluate_entries_met [OF run] met_mono [of t ?u] assms(3) by (auto simp: list_all_iff)
  then obtain due' where "mapS (evaluate_entry w registry now c') es ?u = (Inr due', ?u)" "list_all idle due'"
    using evaluate_entries_again by blast
  ultimately show ?thesis
    by (auto simp: evaluate_due_def registry op_simps transaction_def bindS_def returnS_def list_all_iff idle_def)
qed

text \<open>However schedules are changed and evaluated, at whatever times and with whatever registries and validations, a project is
  triggered at most once in a window, every trigger that names an iteration run names the one made for it, and no two triggers name
  the same run.\<close>

theorem one_trigger_per_window:
  assumes "reach schedule_start schedule_step s" "t \<in> set (triggers s)" "t' \<in> set (triggers s)"
    "(st_project_human_id t = st_project_human_id t' \<and> st_window_key t = st_window_key t') \<or>
     (st_iteration_run_id t = st_iteration_run_id t' \<and> st_iteration_run_id t \<noteq> None)"
  shows "t = t'"
proof -
  have inv: "schedule_inv s" using assms(1) by (rule scheduler.reach_inv)
  then have key: "a = b" if "a \<in> set (triggers s)" "b \<in> set (triggers s)" "trigger_key a = trigger_key b" for a b
    using that unfolding schedule_inv_def distinct_map by (meson inj_onD)
  show ?thesis
    using assms(4)
  proof
    assume "st_iteration_run_id t = st_iteration_run_id t' \<and> st_iteration_run_id t \<noteq> None"
    then obtain i where "st_iteration_run_id t = Some i" "st_iteration_run_id t' = Some i" by (metis option.exhaust)
    then have rows: "scheduled_run i (st_project_human_id t) (st_window_key t) \<in> set (iteration_runs s)"
        "scheduled_run i (st_project_human_id t') (st_window_key t') \<in> set (iteration_runs s)"
      using inv assms(2,3) by (auto simp: schedule_inv_def)
    have "inj_on ir_id (set (iteration_runs s))" using inv by (simp add: schedule_inv_def distinct_map)
    from inj_onD [OF this _ rows]
    have "scheduled_run i (st_project_human_id t) (st_window_key t) = scheduled_run i (st_project_human_id t') (st_window_key t')"
      by (simp add: scheduled_run_def)
    then show ?thesis
      using key [OF assms(2,3)] by (simp add: scheduled_run_def trigger_key_def)
  qed (use key [OF assms(2,3)] in \<open>simp add: trigger_key_def\<close>)
qed

text \<open>C39: The account of a budget is what was reported. Every run of an agent counts, its duration and its role; input and output tokens
  are the sums of the reported numbers and unknown when none was reported; the remaining budget is known exactly when a budget is
  approved and some usage was reported, and is what is left of it.\<close>

theorem budget_report_spec:
  "(let rows = budget_rows pid iteration s; b = build_budget_report pid iteration s;
        ins = List.map_filter (\<lambda>(_, _, u). fst (parse_usage u)) rows; outs = List.map_filter (\<lambda>(_, _, u). fst (snd (parse_usage u))) rows;
        approved = Option.bind (find_row (\<lambda>r. ps_project_human_id r = pid) (schedules s)) ps_approved_budget_tokens in
    b_cursor_invocations b = int (length rows) \<and>
    b_total_duration_ms b = sum_list (List.map_filter (\<lambda>(_, d, _). d) rows) \<and>
    b_unreported_usage_count b = int (length (filter (\<lambda>(_, _, u). \<not> snd (snd (parse_usage u))) rows)) \<and>
    b_token_input b = (if ins = [] then None else Some (sum_list ins)) \<and>
    b_token_output b = (if outs = [] then None else Some (sum_list outs)) \<and>
    map_of (b_per_role_counts b) role = (let n = length (filter (\<lambda>(r, _). r = role) rows) in if n = 0 then None else Some (int n)) \<and>
    b_approved_budget_tokens b = approved \<and>
    b_remaining_budget_tokens b = (case approved of None \<Rightarrow> None | Some a \<Rightarrow>
      if ins = [] \<and> outs = [] then None else Some (a - (sum_list ins + sum_list outs))))"
  using budget_report_fields [of pid iteration s role] unfolding Let_def .

text \<open>A schedule whose clock time or zone cannot be read stops the evaluation of every project: nothing is triggered for the others, and
  the exception leaves the database as it was.\<close>

lemma unreadable_schedule_stops_all:
  assumes "sd_registry w = Inr registry" "e \<in> set (schedules s)" "demand w registry now e = Inl x"
  shows "\<exists>y. evaluate_due w now c s = (Inl y, s)"
proof -
  have unmet: "\<not> met w registry now u e" for u
    using assms(3) by (simp add: met_def)
  then have "fst (mapS (evaluate_entry w registry now c) es u) \<noteq> Inr ds" if "e \<in> set es" for es u ds
    using that evaluate_entries_met [of w registry now c es u ds]
    by (cases "mapS (evaluate_entry w registry now c) es u") (auto simp: list_all_iff)
  moreover have "e \<in> set (list_schedules s)" using assms(2) by (simp add: list_schedules_def)
  ultimately have "fst (mapS (evaluate_entry w registry now c) (list_schedules s) (s\<lparr>last_due_eval_at := Some (now_iso s)\<rparr>)) \<noteq> Inr ds" for ds
    by blast
  then obtain y u where "mapS (evaluate_entry w registry now c) (list_schedules s) (s\<lparr>last_due_eval_at := Some (now_iso s)\<rparr>) = (Inl y, u)"
    by (metis prod.collapse sum.exhaust_sel)
  then show ?thesis
    by (simp add: evaluate_due_def assms(1) op_simps transaction_def bindS_def)
qed

subsection \<open>Witnesses\<close>

definition sample_schedule_world :: schedule_world where
  "sample_schedule_world = \<lparr>sd_registry = Inr (\<lambda>_. Some True), sd_validate = (\<lambda>_. None), sd_offset = (\<lambda>_ _. Inr 7200)\<rparr>"

definition sample_scheduled :: db where
  "sample_scheduled = snd (transaction (upsert_schedule ''PRJ-1'' True ''Europe/Berlin'' ''weekly'' ''09:00'' None)
     (snd (transaction (upsert_schedule ''PRJ-2'' True ''UTC'' ''daily'' ''00:00'' (Some 1000)) sample_empty)))"

definition sample_moment :: moment where
  "sample_moment = 1750000000000000"

definition sample_due :: db where
  "sample_due = snd (evaluate_due sample_schedule_world sample_moment True sample_scheduled)"

theorem evaluation_is_idempotent_witness:
  "length (triggers sample_due) = 2 \<and>
   (\<exists>es due. evaluate_due sample_schedule_world sample_moment True sample_due =
     (Inr (es, due), sample_due\<lparr>last_due_eval_at := Some (now_iso sample_due)\<rparr>) \<and> list_all (\<lambda>d. \<not> du_triggered d) due)"
proof -
  let ?r = "evaluate_due sample_schedule_world sample_moment True sample_scheduled"
  have "case ?r of (Inr _, t) \<Rightarrow> length (triggers t) = 2 | _ \<Rightarrow> False" by code_simp
  then obtain es due where r: "?r = (Inr (es, due), sample_due)" and two: "length (triggers sample_due) = 2"
    by (auto simp: sample_due_def split: prod.splits sum.splits)
  from evaluation_is_idempotent [OF r refl subset_refl]
  have "\<exists>es due. evaluate_due sample_schedule_world sample_moment True sample_due =
     (Inr (es, due), sample_due\<lparr>last_due_eval_at := Some (now_iso sample_due)\<rparr>) \<and> list_all (\<lambda>d. \<not> du_triggered d) due" by blast
  with two show ?thesis by blast
qed

end
