(* ===== verification/Failure_Actions.thy ===== *)
theory Failure_Actions
  imports Remediation_Loop_Props
begin

text \<open>
  What the PM does when a release cannot be prepared, packaged or published (\<^verbatim>\<open>pm_delivery_remediation.py\<close>,
  \<^verbatim>\<open>release_failure_actions.py\<close>, \<^verbatim>\<open>release_preparation_actions.py\<close>): every recoverable failure becomes a durable next action of the run.

  \<open>repo_world\<close> is the repository on disk: what \<^verbatim>\<open>_infer_repo_metadata\<close> reads from it and from git (product, owner and name of the
  repository), the last component of its path, and the outcome of writing and reading back a delivery contract.
\<close>

section \<open>Recoverable delivery failures (\<^verbatim>\<open>pm_delivery_remediation.py\<close>)\<close>

record repo_world =
  fw_metadata :: "string \<Rightarrow> exn + string \<times> string \<times> string"
  fw_name :: "string \<Rightarrow> string"
  fw_apply :: "string \<Rightarrow> dict \<Rightarrow> exn + string"

record delivery_remediation =
  dm_recovered :: bool
  dm_recoverability :: string
  dm_message :: string
  dm_sponsor_pause :: bool
  dm_contract_path :: "string option"

definition blocker_of :: "dict \<Rightarrow> string" where
  "blocker_of failure = py_upper (field_or failure ''blocker_type'' [])"

definition capability_blocker :: "string \<Rightarrow> bool" where
  "capability_blocker b \<longleftrightarrow> b \<in> {''CAPABILITY_GAP'', ''INSTALLER_BACKEND_MISSING''}"

definition classify_failure_recoverability :: "dict \<Rightarrow> string" where
  "classify_failure_recoverability failure =
     (let blocker = blocker_of failure in
      if blocker = ''DELIVERY_CONTRACT_MISSING'' then ''RECOVERABLE_CONFIGURATION''
      else if capability_blocker blocker then ''RECOVERABLE_IMPLEMENTATION''
      else if truthy (dict_get failure ''sponsor_decision_required'') then ''SPONSOR_DECISION_REQUIRED''
      else if dict_get failure ''retryable'' = JBool False then ''UNRECOVERABLE_EXTERNAL''
      else if truthy (dict_get failure ''retryable'') then ''RECOVERABLE_CONFIGURATION'' else ''UNRECOVERABLE_EXTERNAL'')"

definition infer_delivery_contract :: "string \<Rightarrow> string \<Rightarrow> string \<Rightarrow> string list \<Rightarrow> bool \<Rightarrow> dict" where
  "infer_delivery_contract product_name owner name platforms external =
     [(''schema_version'', JInt 1), (''delivery_type'', JStr ''desktop_application''),
      (''target_platforms'', JList (map JStr (if platforms = [] then [''windows-x64''] else platforms))),
      (''packaging_adapter'', JStr ''auto''), (''repository_provider'', JStr ''github''), (''repository_owner'', JStr owner),
      (''repository_name'', JStr name), (''default_branch'', JStr ''main''), (''release_strategy'', JStr ''semantic_version''),
      (''installer_format'', JStr ''exe''), (''installer_name_template'', JStr ''{product}-Setup-{version}.exe''),
      (''artifact_retention'', JInt 10),
      (''code_signing_policy'', JStr (if external then ''required_for_production'' else ''not_required'')),
      (''sbom_policy'', JStr ''required''), (''checksum_policy'', JStr ''sha256''), (''github_release_enabled'', JBool True),
      (''slack_release_announcement_enabled'', JBool True), (''product_name'', JStr product_name)]"

definition sponsor_decisions_required :: "string \<Rightarrow> string \<Rightarrow> dict \<Rightarrow> string list" where
  "sponsor_decisions_required owner name draft =
     (if owner = [] \<or> name = [] then [''repository_owner'', ''repository_name''] else []) @
     (if dict_get draft ''code_signing_policy'' = JStr ''required_for_production'' then [''code_signing_policy''] else []) @
     (if truthy (dict_get draft ''target_platforms'') then [] else [''target_platforms''])"

definition phase_event :: "string \<Rightarrow> string \<Rightarrow> string \<Rightarrow> dict \<Rightarrow> event_args" where
  "phase_event phase ty summary ev = (event_args_of ty summary)\<lparr>em_phase := phase, em_evidence := Some ev\<rparr>"

definition contract_result :: "bool \<Rightarrow> string \<Rightarrow> string \<Rightarrow> bool \<Rightarrow> string option \<Rightarrow> delivery_remediation" where
  "contract_result ok recoverability message pause path =
     \<lparr>dm_recovered = ok, dm_recoverability = recoverability, dm_message = message, dm_sponsor_pause = pause, dm_contract_path = path\<rparr>"

text \<open>The contract is written; an \<^verbatim>\<open>OrchestrationError\<close> of reading it back is the message of the result.\<close>

definition apply_contract ::
    "policy_files \<Rightarrow> remediation_world \<Rightarrow> repo_world \<Rightarrow> event_ctx \<Rightarrow> string \<Rightarrow> string \<Rightarrow> dict \<Rightarrow> dict \<Rightarrow> delivery_remediation dbop" where
  "apply_contract pf w fw ctx root recoverability draft ev =
     thenS (emit_projectos_event pf ctx (phase_event ''RELEASE_PREPARATION'' ''PM_REPLAN''
              ''PM replanned release preparation with inferred delivery contract.'' ev))
     (thenS (emit_projectos_event pf ctx ((event_args_of ''AGENT_ASSIGNED'' ''Assigned: projectos-system to apply governed delivery contract.'')
               \<lparr>em_phase := ''RELEASE_PREPARATION'',
                em_metadata := Some [(''agent_id'', JStr ''projectos-system''), (''capability'', JStr ''delivery-contract'')]\<rparr>))
     (case fw_apply fw root draft of
        Inl e \<Rightarrow> if is_OrchestrationError e then returnS (contract_result False recoverability (rw_message w e) False None) else raiseS e
      | Inr path \<Rightarrow>
          thenS (emit_projectos_event pf ctx (phase_event ''RELEASE_PREPARATION'' ''DELIVERY_CONTRACT_APPLIED'' ''Governed delivery contract applied.''
                   [(''contract_path'', JStr path), (''capability'', JStr ''projectos-system'')]))
            (returnS (contract_result True recoverability ''Governed delivery contract applied.'' False (Some path)))))"

definition attempt_delivery_contract_remediation ::
    "policy_files \<Rightarrow> remediation_world \<Rightarrow> repo_world \<Rightarrow> event_ctx \<Rightarrow> string \<Rightarrow> dict \<Rightarrow> delivery_remediation dbop" where
  "attempt_delivery_contract_remediation pf w fw ctx root failure =
     (let recoverability = classify_failure_recoverability failure in
      thenS (emit_projectos_event pf ctx ((phase_event ''RELEASE_PREPARATION'' ''DELIVERY_CONTRACT_MISSING''
               ''Delivery contract missing; PM evaluating remediation.'' (dict_set ''recoverability'' (JStr recoverability) failure))
                 \<lparr>em_detail_level := ''milestone''\<rparr>))
      (if recoverability = ''UNRECOVERABLE_EXTERNAL''
       then returnS (contract_result False recoverability ''Delivery failure is not recoverable without external authority.'' False None)
       else bindS (liftS (fw_metadata fw root)) (\<lambda>(product_name, owner, name).
         let draft = infer_delivery_contract product_name (if owner = [] then ''REPLACE_ME'' else owner) (if name = [] then fw_name fw root else name)
                       [''windows-x64''] False;
             decisions = sponsor_decisions_required owner name draft;
             ev = [(''recoverability'', JStr recoverability), (''draft_contract'', JObj draft),
                   (''sponsor_decisions_required'', JList (map JStr decisions)),
                   (''inferred_metadata'', JObj [(''product_name'', JStr product_name), (''repository_owner'', JStr owner), (''repository_name'', JStr name)])] in
         if decisions \<noteq> [] then
           thenS (pause_run_for_sponsor_decision pf ctx ''Sponsor decision required before delivery contract can be applied.''
                    ''ProjectOS generated a governed delivery contract draft but needs Sponsor input.'' (Some ev))
             (returnS (contract_result False ''SPONSOR_DECISION_REQUIRED'' ''Waiting for Sponsor decisions before applying delivery contract.'' True None))
         else apply_contract pf w fw ctx root recoverability draft ev)))"

definition gap_work_args :: "event_ctx \<Rightarrow> string \<Rightarrow> string \<Rightarrow> dict \<Rightarrow> work_args" where
  "gap_work_args ctx pid root gap =
     \<lparr>wa_run_id = str_of (str_or (ec_run_id ctx) (Some pid)), wa_project_id = pid, wa_remediation_cycle = 1,
      wa_finding_ids = [field_or gap ''blocker_type'' ''CAPABILITY_GAP''], wa_assigned_agent = ACTOR_ARCHITECTURE,
      wa_objective = field_or gap ''reason'' ''Address capability gap'',
      wa_acceptance_criteria = ''Capability implemented and validated within project scope.'', wa_source_candidate_id = None,
      wa_repository_root = root, wa_assignment_reason = ''Capability gap remediation within project scope'', wa_findings = [gap],
      wa_execution_queue = None, wa_finding_owner = None\<rparr>"

text \<open>\<^verbatim>\<open>str(gap.get("reason", "")).lower()\<close>.\<close>

definition names_installer :: "dict \<Rightarrow> bool" where
  "names_installer gap \<longleftrightarrow> py_in ''installer'' (py_lower (case map_of gap ''reason'' of None \<Rightarrow> [] | Some v \<Rightarrow> py_str v))"

definition execute_gap_work ::
    "policy_files \<Rightarrow> remediation_world \<Rightarrow> remediation_worker option \<Rightarrow> event_ctx \<Rightarrow> dict \<Rightarrow> string \<Rightarrow> string \<Rightarrow> delivery_remediation dbop" where
  "execute_gap_work pf w worker ctx gap pid root =
     thenS (emit_projectos_event pf ctx (phase_event ''CAPABILITY'' ''PM_REPLAN'' ''PM replanned to address capability gap.'' gap))
     (bindS (create_remediation_work (gap_work_args ctx pid root gap)) (\<lambda>wk.
      thenS (emit_projectos_event pf ctx ((phase_event ''CAPABILITY'' ''AGENT_ASSIGNED'' ''Assigned: architecture-agent to implement missing capability.''
               [(''work_item_id'', JStr (w_work_item_id wk)),
                (''orchestration_job_id'', case w_orchestration_job_id wk of None \<Rightarrow> JNull | Some i \<Rightarrow> JInt i)])
               \<lparr>em_metadata := Some [(''agent_id'', JStr ACTOR_ARCHITECTURE), (''work_item_id'', JStr (w_work_item_id wk))]\<rparr>))
      (thenS (execute_remediation_work pf w worker ctx pid root wk)
        (returnS (contract_result False ''RECOVERABLE_IMPLEMENTATION''
           ''PM assigned and executed capability remediation work; run remains active.'' False None)))))"

definition handle_capability_gap ::
    "policy_files \<Rightarrow> remediation_world \<Rightarrow> remediation_worker option \<Rightarrow> event_ctx \<Rightarrow> dict \<Rightarrow> string \<Rightarrow> string \<Rightarrow> delivery_remediation dbop" where
  "handle_capability_gap pf w worker ctx gap pid root =
     (let recoverability = classify_failure_recoverability gap in
      thenS (emit_projectos_event pf ctx ((phase_event ''CAPABILITY'' ''CAPABILITY_GAP_DETECTED'' (field_or gap ''reason'' ''Capability gap detected.'')
               (dict_set ''recoverability'' (JStr recoverability) gap))\<lparr>em_detail_level := ''milestone''\<rparr>))
      (if recoverability = ''UNRECOVERABLE_EXTERNAL''
       then returnS (contract_result False recoverability ''Capability gap is outside authorized remediation scope.'' False None)
       else if capability_blocker (blocker_of gap) \<and> names_installer gap then
         thenS (emit_projectos_event pf ctx (phase_event ''CAPABILITY'' ''CROSS_PROJECT_REMEDIATION_REQUIRED''
                  ''Installer backend requires ProjectOS maintenance authority.'' gap))
         (thenS (pause_run_for_sponsor_decision pf ctx ''Capability gap requires cross-project remediation authorization.'' [] (Some gap))
           (returnS (contract_result False ''SPONSOR_DECISION_REQUIRED''
              ''Waiting for Sponsor authorization for cross-project capability work.'' True None)))
       else execute_gap_work pf w worker ctx gap pid root))"

section \<open>Next actions of a failed release (\<^verbatim>\<open>release_failure_actions.py\<close>, \<^verbatim>\<open>release_preparation_actions.py\<close>)\<close>

abbreviation run_key :: "event_ctx \<Rightarrow> string \<Rightarrow> string" where
  "run_key ctx pid \<equiv> str_of (str_or (ec_run_id ctx) (Some pid))"

definition persist_work_action :: "string \<Rightarrow> string \<Rightarrow> remediation_work \<Rightarrow> dict \<Rightarrow> string dbop" where
  "persist_work_action rid pid wk payload =
     persist_run_next_action rid pid ''REMEDIATION_WORK'' (w_orchestration_job_id wk) (Some (w_work_item_id wk)) None (Some payload)"

text \<open>A job of the PM for the Sponsor, and the action that waits on it.\<close>

definition sponsor_action :: "string \<Rightarrow> string \<Rightarrow> string \<Rightarrow> dict \<Rightarrow> string dbop" where
  "sponsor_action rid pid root payload =
     bindS (create_job ((job_args_of (rid @ ''__SPONSOR_DECISION'') pid root ''PM'' ''PM'')\<lparr>n_run_id := Some rid\<rparr>)) (\<lambda>j.
       persist_run_next_action rid pid ''PM_QUEUE'' (Some (j_id j)) None None (Some payload))"

definition failure_work_args :: "string \<Rightarrow> string \<Rightarrow> string \<Rightarrow> dict \<Rightarrow> string \<Rightarrow> string \<Rightarrow> string \<Rightarrow> string \<Rightarrow> work_args" where
  "failure_work_args rid pid root failure default_finding what criteria reason =
     \<lparr>wa_run_id = rid, wa_project_id = pid, wa_remediation_cycle = 1,
      wa_finding_ids = [if blocker_of failure = [] then default_finding else blocker_of failure], wa_assigned_agent = ''delivery-agent'',
      wa_objective = what @ field_or failure ''reason'' (blocker_of failure), wa_acceptance_criteria = criteria, wa_source_candidate_id = None,
      wa_repository_root = root, wa_assignment_reason = reason, wa_findings = [failure], wa_execution_queue = Some ''DELIVERY'', wa_finding_owner = None\<rparr>"

definition announce_action :: "policy_files \<Rightarrow> event_ctx \<Rightarrow> string \<Rightarrow> string \<Rightarrow> dict \<Rightarrow> string \<Rightarrow> string dbop" where
  "announce_action pf ctx phase summary ev aid =
     thenS (emit_projectos_event pf ctx (phase_event phase ''PM_REPLAN'' summary ev)) (returnS aid)"

definition schedule_failure_work :: "policy_files \<Rightarrow> event_ctx \<Rightarrow> string \<Rightarrow> work_args \<Rightarrow> dict \<Rightarrow> string \<Rightarrow> string \<Rightarrow> string dbop" where
  "schedule_failure_work pf ctx pid a payload phase summary =
     bindS (create_remediation_work a) (\<lambda>wk.
     bindS (persist_work_action (wa_run_id a) pid wk payload) (\<lambda>aid.
       announce_action pf ctx phase summary [(''work_item_id'', JStr (w_work_item_id wk)), (''next_action_id'', JStr aid)] aid))"

definition ensure_package_failure_next_action ::
    "policy_files \<Rightarrow> remediation_world \<Rightarrow> event_ctx \<Rightarrow> string \<Rightarrow> string \<Rightarrow> dict \<Rightarrow> string option \<Rightarrow> string dbop" where
  "ensure_package_failure_next_action pf w ctx pid root failure release_record_id =
     (let rid = run_key ctx pid; payload = [(''failure'', JObj failure), (''release_record_id'', opt_json release_record_id)] in
      if capability_blocker (blocker_of failure) then
        thenS (handle_capability_gap pf w None ctx failure pid root)
        (bindS (getS (list_outstanding_remediation_work rid)) (\<lambda>outstanding.
         case outstanding of
           wk # _ \<Rightarrow> persist_work_action rid pid wk payload
         | [] \<Rightarrow>
             bindS (getS (get_execution_run rid)) (\<lambda>run.
             if (case run of None \<Rightarrow> False | Some r \<Rightarrow> r_status r = ''WAITING_FOR_SPONSOR'')
             then sponsor_action rid pid root (payload @ [(''sponsor_wait'', JBool True)])
             else raiseS OrchestrationError)))
      else schedule_failure_work pf ctx pid
        (failure_work_args rid pid root failure ''PACKAGE_FAILED'' ''Remediate package failure: '' ''Package gate passes with verified artifacts.''
           ''Package failure remediation'') payload ''PACKAGE_GATE'' ''PM scheduled package failure remediation.'')"

definition ensure_publication_failure_next_action ::
    "policy_files \<Rightarrow> event_ctx \<Rightarrow> string \<Rightarrow> string \<Rightarrow> dict \<Rightarrow> string option \<Rightarrow> string dbop" where
  "ensure_publication_failure_next_action pf ctx pid root failure release_record_id =
     bindS (create_job ((job_args_of ((case ec_run_id ctx of None \<Rightarrow> ''None'' | Some r \<Rightarrow> r) @ ''__PUBLICATION_RETRY__'' @
                (if truthy_str release_record_id then str_of release_record_id else ''unknown'')) pid root ''DELIVERY'' ''DELIVERY'')
              \<lparr>n_status := ''RETRY_WAIT'', n_base_git_sha := Some [], n_run_id := ec_run_id ctx\<rparr>)) (\<lambda>j.
     bindS (persist_run_next_action (run_key ctx pid) pid ''SCHEDULED_RETRY'' (Some (j_id j)) None None
              (Some [(''failure'', JObj failure), (''release_record_id'', opt_json release_record_id)])) (\<lambda>aid.
       announce_action pf ctx ''PUBLICATION_GATE'' ''PM scheduled publication retry.''
         [(''next_action_id'', JStr aid), (''retry_job_id'', JInt (j_id j))] aid))"

definition schedule_release_preparation_retry :: "policy_files \<Rightarrow> event_ctx \<Rightarrow> string \<Rightarrow> string \<Rightarrow> dict \<Rightarrow> dict \<Rightarrow> string dbop" where
  "schedule_release_preparation_retry pf ctx pid root failure payload_extra =
     (let rid = run_key ctx pid in
      bindS (create_job ((job_args_of (rid @ ''__RELEASE_PREP_RETRY'') pid root ''PM'' ''PM'')\<lparr>n_run_id := Some rid\<rparr>)) (\<lambda>j.
      bindS (persist_run_next_action rid pid ''EXECUTABLE_JOB'' (Some (j_id j)) None None
               (Some (dict_update [(''failure'', JObj failure), (''phase'', JStr ''RELEASE_PREPARATION'')] payload_extra))) (\<lambda>aid.
        announce_action pf ctx ''RELEASE_PREPARATION'' ''PM scheduled release preparation retry.''
          [(''next_action_id'', JStr aid), (''retry_job_id'', JInt (j_id j))] aid)))"

text \<open>The branches after the one of a missing contract, which falls through to them when it was neither paused nor recovered.\<close>

definition preparation_failure ::
    "policy_files \<Rightarrow> remediation_world \<Rightarrow> event_ctx \<Rightarrow> string \<Rightarrow> string \<Rightarrow> dict \<Rightarrow> string dbop" where
  "preparation_failure pf w ctx pid root failure =
     (let rid = run_key ctx pid in
      if capability_blocker (blocker_of failure) then
        thenS (handle_capability_gap pf w None ctx failure pid root)
        (bindS (getS (list_outstanding_remediation_work rid)) (\<lambda>outstanding.
         case outstanding of
           wk # _ \<Rightarrow> persist_work_action rid pid wk [(''failure'', JObj failure)]
         | [] \<Rightarrow> schedule_release_preparation_retry pf ctx pid root failure [(''capability_remediation_completed'', JBool True)]))
      else schedule_failure_work pf ctx pid
        (failure_work_args rid pid root failure ''RELEASE_PREPARATION_BLOCKED'' ''Remediate release preparation failure: ''
           ''Release preparation succeeds with valid candidate and contract.'' ''Release preparation blocked'')
        [(''failure'', JObj failure)] ''RELEASE_PREPARATION'' ''PM scheduled release preparation remediation.'')"

definition ensure_release_preparation_next_action ::
    "policy_files \<Rightarrow> remediation_world \<Rightarrow> repo_world \<Rightarrow> event_ctx \<Rightarrow> string \<Rightarrow> string \<Rightarrow> dict \<Rightarrow> string dbop" where
  "ensure_release_preparation_next_action pf w fw ctx pid root failure =
     (let rid = run_key ctx pid in
      if blocker_of failure = ''DELIVERY_CONTRACT_MISSING'' then
        bindS (attempt_delivery_contract_remediation pf w fw ctx root failure) (\<lambda>r.
        if dm_sponsor_pause r then
          thenS (update_execution_run rid (Some ''WAITING_FOR_SPONSOR'') None None None None None)
            (sponsor_action rid pid root [(''failure'', JObj failure), (''reason'', JStr (dm_message r)), (''sponsor_wait'', JBool True)])
        else if dm_recovered r then
          schedule_release_preparation_retry pf ctx pid root failure
            [(''contract_recovered'', JBool True), (''contract_path'', opt_json (dm_contract_path r))]
        else preparation_failure pf w ctx pid root failure)
      else preparation_failure pf w ctx pid root failure)"

end
