(* ===== verification/Failure_Props.thy ===== *)
theory Failure_Props
  imports Failure_Actions
begin

text \<open>
  What the handling of release failures promises: where it returns, the run has an action that carries it on. The contract
  \<open>emission_frame\<close> is interpreted for the tables that keep an action alive.
\<close>

section \<open>Actions that are backed\<close>

text \<open>What keeps an action alive apart from the status of its run.\<close>

definition backed :: "next_action \<Rightarrow> db \<Rightarrow> bool" where
  "backed a s \<longleftrightarrow> job_keeps_action_live a s \<and> work_keeps_action_live a s \<and>
     (if a_action_type a = ''REMEDIATION_WORK'' then truthy_str (a_remediation_work_id a)
      else a_action_type a \<in> set job_types \<and> a_orchestration_job_id a \<noteq> None)"

lemma backed_live: "backed a s \<Longrightarrow> next_action_is_live a s"
  by (simp add: backed_def next_action_is_live_def)

definition promise_tables :: "db \<Rightarrow> next_action list \<times> job list \<times> remediation_work list" where
  "promise_tables s = (actions s, jobs s, works s)"

interpretation promise_frame: emission_frame promise_tables
  by unfold_locales (simp_all add: promise_tables_def)

lemma backed_cong: assumes "jobs t = jobs s" "works t = works s" shows "backed a t = backed a s"
  unfolding backed_def job_keeps_action_live_def work_keeps_action_live_def job_by_id_def work_by_id_def assms ..

text \<open>The action \<open>aid\<close> carries the run on: it is open and live, or it names work of the run that is outstanding.\<close>

definition carries_on :: "string \<Rightarrow> string \<Rightarrow> db \<Rightarrow> bool" where
  "carries_on rid aid s \<longleftrightarrow> (\<exists>a \<in> set (actions s). a_action_id a = aid \<and> open_action rid a \<and>
     (backed a s \<or> (a_action_type a = ''REMEDIATION_WORK'' \<and>
        (\<exists>w \<in> set (list_outstanding_remediation_work rid s). a_remediation_work_id a = Some (w_work_item_id w)))))"

lemma outstanding_cong: "works t = works s \<Longrightarrow> list_outstanding_remediation_work rid t = list_outstanding_remediation_work rid s"
  by (simp add: list_outstanding_remediation_work_def)

lemma carries_on_cong: "promise_tables t = promise_tables s \<Longrightarrow> carries_on rid aid s \<Longrightarrow> carries_on rid aid t"
  using backed_cong [of t s] outstanding_cong [of t s rid] by (simp add: carries_on_def promise_tables_def)

lemma wlp_announce:
  assumes "carries_on rid aid s"
  shows "wlp (announce_action pf ctx phase summary ev aid) (carries_on rid) s"
  unfolding announce_action_def
  by (rule wlp_thenI [OF wlp_frame [OF promise_frame.untouched_emit]])
     (use assms in \<open>auto simp: wlp_returnS intro: carries_on_cong\<close>)

lemma wlp_persist:
  assumes "\<And>aid now. validate_action_backing ty rid i wid due s \<Longrightarrow> backed (new_action aid rid pid ty i wid due pl now) s"
  shows "wlp (persist_run_next_action rid pid ty i wid due pl) (carries_on rid) s"
proof -
  let ?t = "s\<lparr>uuid_next := uuid_next s + 1, actions := actions s @ [new_action (next_action_id s) rid pid ty i wid due pl (now_iso s)]\<rparr>"
  have "backed a ?t = backed a s" for a by (rule backed_cong) simp_all
  then have "carries_on rid (next_action_id s) ?t" if "validate_action_backing ty rid i wid due s"
    using assms [OF that] by (auto simp: carries_on_def open_action_def new_action_def)
  then show ?thesis
    by (auto simp: wlp_def persist_eq Let_def split: if_splits)
qed

lemma wlp_persist_job:
  assumes "ty \<in> {''PM_QUEUE'', ''EXECUTABLE_JOB'', ''SCHEDULED_RETRY''}"
  shows "wlp (persist_run_next_action rid pid ty (Some i) None None pl) (carries_on rid) s"
  by (rule wlp_persist)
     (use assms in \<open>auto simp: validate_action_backing_def backed_def new_action_def job_keeps_action_live_def work_keeps_action_live_def
        job_types_def truthy_str_def split: option.splits if_splits\<close>)

section \<open>The branches\<close>

lemma wlp_sponsor_action: "wlp (sponsor_action rid pid root payload) (carries_on rid) s"
  unfolding sponsor_action_def wlp_bindS
  by (rule wlp_mono [of _ "\<lambda>_ _. True"]) (auto simp: wlp_def [of "create_job _"] intro: wlp_persist_job)

lemma wlp_preparation_retry: "wlp (schedule_release_preparation_retry pf ctx pid root failure extra) (carries_on (run_key ctx pid)) s"
  unfolding schedule_release_preparation_retry_def Let_def
  by (rule wlp_bindI [of _ "\<lambda>_ _. True"], simp add: wlp_def, rule wlp_bindI [OF wlp_persist_job], simp, rule wlp_announce)

lemma wlp_publication: "wlp (ensure_publication_failure_next_action pf ctx pid root failure rec) (carries_on (run_key ctx pid)) s"
  unfolding ensure_publication_failure_next_action_def
  by (rule wlp_bindI [of _ "\<lambda>_ _. True"], simp add: wlp_def, rule wlp_bindI [OF wlp_persist_job], simp, rule wlp_announce)

lemma wlp_outstanding:
  assumes "wk \<in> set (list_outstanding_remediation_work rid s)"
  shows "wlp (persist_work_action rid pid wk payload) (carries_on rid) s"
proof -
  let ?t = "\<lambda>a. s\<lparr>uuid_next := uuid_next s + 1, actions := actions s @ [a]\<rparr>"
  have "carries_on rid (next_action_id s) (?t a)"
    if "a = new_action (next_action_id s) rid pid ''REMEDIATION_WORK'' (w_orchestration_job_id wk) (Some (w_work_item_id wk)) None pl now" for a pl now
    using assms outstanding_cong [of "?t a" s rid] that by (auto simp: carries_on_def open_action_def new_action_def)
  then show ?thesis
    unfolding persist_work_action_def by (auto simp: wlp_def persist_eq Let_def split: if_splits)
qed

lemma wlp_failure_work:
  assumes "store_inv s" "wa_run_id a = rid"
  shows "wlp (schedule_failure_work pf ctx pid a payload phase summary) (carries_on rid) s"
proof -
  let ?n = "next_work_sequence (wa_run_id a) s"
  have "wlp (create_remediation_work a) (\<lambda>wk t. \<exists>wid. wk = work_row a wid ?n (job_seq s + 1) (now_iso s) \<and> wid \<noteq> [] \<and>
      get_remediation_work wid s = None \<and> works t = works s @ [wk] \<and>
      job_by_id (job_seq s + 1) t = Some (new_job_row (work_job_args a wid ?n) READY (job_seq s + 1) (now_iso s))) s"
  proof -
    have fresh: "find_row (\<lambda>j. j_id j = job_seq s + 1) (jobs s) = None"
      using assms(1) by (force simp: find_row_None_iff store_inv_def jobs_keyed_def)
    show ?thesis
      unfolding wlp_def create_remediation_work_eq [OF assms(1)]
      by (auto simp: Let_def job_by_id_def created_def fresh new_job_row_def now_iso_def split: if_splits)
  qed
  then show ?thesis
    unfolding schedule_failure_work_def
  proof (rule wlp_bindI, elim exE conjE)
    fix wk t wid
    assume wk: "wk = work_row a wid ?n (job_seq s + 1) (now_iso s)" "wid \<noteq> []" "get_remediation_work wid s = None" "works t = works s @ [wk]"
      and job: "job_by_id (job_seq s + 1) t = Some (new_job_row (work_job_args a wid ?n) READY (job_seq s + 1) (now_iso s))"
    have "work_by_id wid t = Some wk"
      using wk by (simp add: work_by_id_def get_remediation_work_def work_row_def)
    then have "wlp (persist_work_action (wa_run_id a) pid wk payload) (carries_on rid) t"
      unfolding persist_work_action_def assms(2)
      by (intro wlp_persist)
         (use wk job assms(2) in \<open>auto simp: backed_def new_action_def job_keeps_action_live_def work_keeps_action_live_def truthy_str_def str_of_def
            work_row_def new_job_row_def work_job_args_def job_args_of_def run_mismatch_def TERMINAL_JOB_def TERMINAL_WORK_def\<close>)
    then show "wlp (bindS (persist_work_action (wa_run_id a) pid wk payload) (\<lambda>aid. announce_action pf ctx phase summary
        [(''work_item_id'', JStr (w_work_item_id wk)), (''next_action_id'', JStr aid)] aid)) (carries_on rid) t"
      by (rule wlp_bindI) (rule wlp_announce)
  qed
qed

lemma untouched_core_contract: "untouched core (attempt_delivery_contract_remediation pf w fw ctx root failure)"
  unfolding attempt_delivery_contract_remediation_def apply_contract_def pause_run_for_sponsor_decision_def Let_def
  by (intro frames untouched_case_sum core_frame.untouched_emit core_frame.untouched_update_run)

lemma wlp_preparation_failure:
  assumes "store_inv s"
  shows "wlp (preparation_failure pf w ctx pid root failure) (carries_on (run_key ctx pid)) s"
proof (cases "capability_blocker (blocker_of failure)")
  case True
  have "wlp (bindS (getS (list_outstanding_remediation_work (run_key ctx pid))) (\<lambda>outstanding. case outstanding of
      wk # _ \<Rightarrow> persist_work_action (run_key ctx pid) pid wk [(''failure'', JObj failure)]
    | [] \<Rightarrow> schedule_release_preparation_retry pf ctx pid root failure [(''capability_remediation_completed'', JBool True)]))
    (carries_on (run_key ctx pid)) t" for t
    by (auto simp: wlp_bindS wlp_getS wlp_preparation_retry split: list.split intro: wlp_outstanding)
  then show ?thesis
    using True by (simp add: preparation_failure_def Let_def wlp_thenS_any)
next
  case False
  then show ?thesis
    using wlp_failure_work [OF assms] by (simp add: preparation_failure_def Let_def failure_work_args_def)
qed

lemma wlp_preparation:
  assumes "store_inv s"
  shows "wlp (ensure_release_preparation_next_action pf w fw ctx pid root failure) (carries_on (run_key ctx pid)) s"
proof -
  have "wlp (bindS (attempt_delivery_contract_remediation pf w fw ctx root failure) (\<lambda>r.
      if dm_sponsor_pause r then
        thenS (update_execution_run (run_key ctx pid) (Some ''WAITING_FOR_SPONSOR'') None None None None None)
          (sponsor_action (run_key ctx pid) pid root [(''failure'', JObj failure), (''reason'', JStr (dm_message r)), (''sponsor_wait'', JBool True)])
      else if dm_recovered r then schedule_release_preparation_retry pf ctx pid root failure
        [(''contract_recovered'', JBool True), (''contract_path'', opt_json (dm_contract_path r))]
      else preparation_failure pf w ctx pid root failure)) (carries_on (run_key ctx pid)) s"
  proof (rule wlp_bindI [OF wlp_frame [OF untouched_core_contract]])
    fix r t
    assume "core t = core s"
    then have "store_inv t" using assms store_inv_core [of s t] by simp
    then show "wlp (if dm_sponsor_pause r then
        thenS (update_execution_run (run_key ctx pid) (Some ''WAITING_FOR_SPONSOR'') None None None None None)
          (sponsor_action (run_key ctx pid) pid root [(''failure'', JObj failure), (''reason'', JStr (dm_message r)), (''sponsor_wait'', JBool True)])
      else if dm_recovered r then schedule_release_preparation_retry pf ctx pid root failure
        [(''contract_recovered'', JBool True), (''contract_path'', opt_json (dm_contract_path r))]
      else preparation_failure pf w ctx pid root failure) (carries_on (run_key ctx pid)) t"
      by (simp add: wlp_preparation_failure wlp_preparation_retry wlp_thenS_any wlp_sponsor_action)
  qed
  then show ?thesis
    using wlp_preparation_failure [OF assms] by (simp add: ensure_release_preparation_next_action_def Let_def)
qed

lemma wlp_package:
  assumes "store_inv s"
  shows "wlp (ensure_package_failure_next_action pf w ctx pid root failure rec) (carries_on (run_key ctx pid)) s"
proof (cases "capability_blocker (blocker_of failure)")
  case True
  have "wlp (bindS (getS (list_outstanding_remediation_work (run_key ctx pid))) (\<lambda>outstanding. case outstanding of
      wk # _ \<Rightarrow> persist_work_action (run_key ctx pid) pid wk payload
    | [] \<Rightarrow> bindS (getS (get_execution_run (run_key ctx pid))) (\<lambda>run. if P run then sponsor_action (run_key ctx pid) pid root payload'
        else raiseS OrchestrationError))) (carries_on (run_key ctx pid)) t" for t payload payload' P
    by (auto simp: wlp_bindS wlp_getS wlp_raiseS wlp_sponsor_action split: list.split intro: wlp_outstanding)
  then show ?thesis
    using True by (simp add: ensure_package_failure_next_action_def Let_def wlp_thenS_any)
next
  case False
  then show ?thesis
    using wlp_failure_work [OF assms] by (simp add: ensure_package_failure_next_action_def Let_def failure_work_args_def)
qed

section \<open>Properties\<close>

text \<open>C22: A failed release leaves the run with something to do. Whichever step failed (preparation, packaging, publication) and whatever
  the failure, the repository and the worker that may run in between: where the handling returns an action, the action is in
  the database, open, and live, or it names work of the run that is outstanding.\<close>

theorem failed_release_carries_on:
  assumes "store_inv s" "rid = str_of (str_or (ec_run_id ctx) (Some pid))"
    and "m \<in> {ensure_release_preparation_next_action pf w fw ctx pid root failure, ensure_package_failure_next_action pf w ctx pid root failure rec,
      ensure_publication_failure_next_action pf ctx pid root failure rec}"
    and "m s = (Inr aid, t)"
  shows "\<exists>a \<in> set (actions t). a_action_id a = aid \<and> open_action rid a \<and>
    (next_action_is_live a t \<or> (a_action_type a = ''REMEDIATION_WORK'' \<and>
       (\<exists>w \<in> set (list_outstanding_remediation_work rid t). a_remediation_work_id a = Some (w_work_item_id w))))"
proof -
  have "wlp m (carries_on rid) s"
    using assms(3) wlp_preparation [OF assms(1)] wlp_package [OF assms(1)] wlp_publication unfolding assms(2) by (elim insertE emptyE) simp_all
  then have "carries_on rid aid t" using assms(4) by (auto simp: wlp_def)
  then show ?thesis unfolding carries_on_def by (blast intro: backed_live)
qed

text \<open>The name of the retry is the same each time: where the job of an earlier retry exists, no second one is scheduled.\<close>

lemma second_preparation_retry_raises:
  assumes "run_key ctx pid @ ''__RELEASE_PREP_RETRY'' \<in> j_human_id ` set (jobs s)" "store_inv s"
  shows "\<exists>e. fst (schedule_release_preparation_retry pf ctx pid root failure extra s) = Inl e"
  using assms(1)
  by (auto simp: schedule_release_preparation_retry_def Let_def bindS_def create_job_eq [OF assms(2)] job_args_of_def JOB_STATUSES_def split: prod.split)

definition sample_publication_retry :: "(exn + string) \<times> db" where
  "sample_publication_retry = ensure_publication_failure_next_action sample_policy sample_ctx ''PRJ-1'' ''/repo'' [(''reason'', JStr ''rate limit'')]
     (Some ''DLV-1'') sample_work_start"

definition sample_repo :: repo_world where
  "sample_repo = \<lparr>fw_metadata = (\<lambda>_. Inr (''App'', ''org'', ''app'')), fw_name = (\<lambda>r. r), fw_apply = (\<lambda>r _. Inr r)\<rparr>"

theorem failed_release_carries_on_witness:
  "fst sample_publication_retry = Inr ''RNA-U'' \<and> list_active_next_actions ''RUN-1'' (snd sample_publication_retry) \<noteq> []"
proof -
  have r: "fst sample_publication_retry = Inr ''RNA-U''" by code_simp
  then have run: "ensure_publication_failure_next_action sample_policy sample_ctx ''PRJ-1'' ''/repo'' [(''reason'', JStr ''rate limit'')] (Some ''DLV-1'')
      sample_work_start = (Inr ''RNA-U'', snd sample_publication_retry)"
    by (metis prod.collapse sample_publication_retry_def)
  have "list_outstanding_remediation_work ''RUN-1'' (snd sample_publication_retry) = []" by code_simp
  moreover have key: "''RUN-1'' = run_key sample_ctx ''PRJ-1''" by (simp add: sample_ctx_def str_or_def truthy_str_def str_of_def)
  moreover note failed_release_carries_on [where m = "ensure_publication_failure_next_action sample_policy sample_ctx ''PRJ-1'' ''/repo''
      [(''reason'', JStr ''rate limit'')] (Some ''DLV-1'')" and pf = sample_policy and w = sample_remediation_world and fw = sample_repo
      and root = "''/repo''" and failure = "[(''reason'', JStr ''rate limit'')]" and rec = "Some ''DLV-1''", OF sample_work_start_inv key _ run]
  ultimately obtain a where "a \<in> set (actions (snd sample_publication_retry))" "open_action ''RUN-1'' a"
      "next_action_is_live a (snd sample_publication_retry)"
    by auto
  then have "a \<in> set (list_active_next_actions ''RUN-1'' (snd sample_publication_retry))"
    by (simp add: list_active_next_actions_def)
  then show ?thesis using r by auto
qed

end
