(* ===== verification/Spec2Isabelle.thy ===== *)
theory Spec2Isabelle
  imports Dispatch Liveness Outbox Invalidation Control Semver Decisions Findings Remediation Delivery_Store Qa_Gate Acceptance Truthfulness Events Run_Closing Verdicts Assurance Assurance_Props Evidence_Machine Release_Provenance Learning Worker_Props Remediation_Loop_Props Schedule Failure_Props
begin

text \<open>
  ProjectOS, a local orchestrator of software delivery agents (\<^verbatim>\<open>src/projectos\<close>): the development of its core.

  \<^bold>\<open>The program.\<close> ProjectOS keeps the work of several delivery projects in one SQLite database. A planner
  writes \<^emph>\<open>jobs\<close>; a \<^emph>\<open>dispatcher\<close> selects the eligible ones and hands them to \<^emph>\<open>workers\<close>, which hold a job by a \<^emph>\<open>lease\<close>
  that expires. A sponsor's request is an \<^emph>\<open>execution run\<close>; what happens to it is recorded as \<^emph>\<open>domain events\<close>, which move
  the status of the run and are delivered to subscribers through an \<^emph>\<open>outbox\<close>. Candidates are assessed by QA jobs whose
  \<^emph>\<open>evidence\<close> decides a gate; findings become numbered \<^emph>\<open>remediation work\<close>; a \<^emph>\<open>release\<close> collects gates and artifacts and
  completes the run when the sponsor's \<^emph>\<open>outcome\<close> is accepted. A control plane pauses projects, serialises operations with
  locks, replays answers of repeated requests and records \<^emph>\<open>decisions\<close> of the sponsor.

  \<^bold>\<open>How it is modelled.\<close> The database is one record \<open>db\<close> (\<open>Schema\<close>) with a list of rows per table, a clock, the stream
  of uuids and the path normalisation of the platform; the last two are arguments of every start state, so nothing is assumed
  of them except where a theorem says so. Rows are records with the columns of \<^verbatim>\<open>migrations/\<close> that the modelled code reads or
  writes. An operation is a function \<open>db \<Rightarrow> (exn + 'a) \<times> db\<close> built with the combinators of \<open>Prelude\<close> (\<open>bindS\<close>, \<open>thenS\<close>,
  \<open>guardS\<close>, \<open>tryS\<close>, \<open>finallyS\<close>): every raise of the source is a value \<open>Inl e\<close>, and the state it leaves is the one the SQL
  statements before it produced. \<open>transaction\<close> is \<^verbatim>\<open>db.connection\<close>: commit on return, roll back on a raise. A CHECK,
  UNIQUE or FOREIGN KEY constraint that the code can violate raises \<open>IntegrityError\<close>. Integers are Python's unbounded \<open>int\<close>,
  texts are \<open>string\<close>, JSON values a datatype with \<^verbatim>\<open>json.dumps\<close> written out. Exceptions carry no message.

  \<^bold>\<open>Theories, in the order of their imports, and the code they model.\<close>

  \<^item> \<open>Prelude\<close>: time, exceptions, texts, JSON, the operation monad with its weakest precondition \<open>wlp\<close>, the collections
    \<open>op_simps\<close>, \<open>frames\<close>, and the locales \<open>invariant_machine\<close> (reachability and invariants) and \<open>bounded_retry\<close>.
  \<^item> \<open>Schema\<close>: rows and tables (\<^verbatim>\<open>migrations/*.sql\<close>).
  \<^item> \<open>Run_State\<close>: \<^verbatim>\<open>run_outcomes.py\<close>, \<^verbatim>\<open>execution_run.py\<close>, \<^verbatim>\<open>run_state.py\<close>, \<^verbatim>\<open>candidate_model.py\<close>; the projection of events
    onto a run refines an abstract status machine.
  \<^item> \<open>Job_Store\<close>, \<open>Next_Actions\<close>, \<open>Job_Lifecycle\<close>: the job part of \<^verbatim>\<open>store.py\<close> and \<^verbatim>\<open>run_next_actions.py\<close>: creation under
    the isolation rules, dependencies, leases, transitions, retries, recovery.
  \<^item> \<open>Store_Invariant\<close>, \<open>Leases\<close>, \<open>Store_Machine\<close>, \<open>Job_Rows\<close>, \<open>Retry_Policy\<close>: what the store promises. Every operation keeps \<open>store_inv\<close>;
    the locale \<open>identity_update\<close> collects what every rewriting of job rows keeps and is interpreted for each of them; the
    machine of all operations, the pause switch of a project included, is an interpretation of \<open>invariant_machine\<close>; the locale
    \<open>row_order\<close> relates a row of a job to its later versions (its identity, the account of its attempts), and \<open>foreign_table\<close>
    says which tables the store leaves to the other components.
  \<^item> \<open>Dispatch\<close> (\<^verbatim>\<open>dispatch.py\<close> and the eligible list of \<^verbatim>\<open>store.py\<close>): selection, bound on the jobs in flight under every
    interleaving of waves, completions and worker steps.
  \<^item> \<open>Liveness\<close>: durable next actions keep an unfinished run moving (\<^verbatim>\<open>run_liveness.py\<close>, \<^verbatim>\<open>remediation_recovery.py\<close>).
  \<^item> \<open>Outbox\<close> (\<^verbatim>\<open>event_dispatcher.py\<close>): claims, ordered delivery per stream, retries; the posted messages are a result of
    each step, beside the counts the code returns.
  \<^item> \<open>Invalidation\<close> (\<^verbatim>\<open>invalidate.py\<close>), \<open>Control\<close> (\<^verbatim>\<open>services/control.py\<close> and its tables), \<open>Decisions\<close> (\<^verbatim>\<open>decisions.py\<close>).
  \<^item> \<open>Semver\<close> (\<^verbatim>\<open>delivery/semver.py\<close>, \<^verbatim>\<open>delivery/release_version.py\<close>).
  \<^item> \<open>Findings\<close>, \<open>Remediation\<close>: \<^verbatim>\<open>finding_routing.py\<close>, \<^verbatim>\<open>remediation_capability.py\<close>, \<^verbatim>\<open>remediation_store.py\<close>, \<^verbatim>\<open>work_sequencing.py\<close>.
  \<^item> \<open>Delivery_Store\<close> (\<^verbatim>\<open>delivery/store.py\<close>, \<^verbatim>\<open>delivery/gates.py\<close>), \<open>Qa_Gate\<close> (\<^verbatim>\<open>qa_gate.py\<close>, \<^verbatim>\<open>qa_evidence_policy.py\<close>),
    \<open>Acceptance\<close> (\<^verbatim>\<open>acceptance_contract.py\<close>, \<^verbatim>\<open>sponsor_outcome.py\<close>, \<^verbatim>\<open>delivery_policy.py\<close>).
  \<^item> \<open>Truthfulness\<close> (\<^verbatim>\<open>event_truthfulness.py\<close>), \<open>Events\<close> (\<^verbatim>\<open>domain_events.py\<close>, \<^verbatim>\<open>run_evidence.py\<close>), \<open>Run_Closing\<close>: the guards of an
    emission, what it writes, and how a run is closed.
  \<^item> \<open>Verdicts\<close> (\<^verbatim>\<open>assurance_verdict.py\<close>, \<^verbatim>\<open>delivery_evidence.py\<close>): the structured verdict of an assessor, parsed from its output
    and validated; \<open>Assurance\<close> (\<^verbatim>\<open>qa_handoff.py\<close>, \<^verbatim>\<open>qa_manager.py\<close>, \<^verbatim>\<open>qa_inconclusive.py\<close>): hand over of a delivery, recording of
    verdicts, aggregation and repeated assessments; \<open>Assurance_Props\<close>: what they promise. The locale \<open>emission_frame\<close> says which
    part of the database an emission leaves alone and is interpreted for the tables of assurance, the evidence and the job store.
    \<open>Evidence_Machine\<close>: every writer of evidence as one machine, in which assessed results are immutable.
  \<^item> \<open>Release_Provenance\<close> (\<^verbatim>\<open>release_provenance.py\<close>): which releases may run, the candidate they are bound to, their promotion.
  \<^item> \<open>Learning\<close> (\<^verbatim>\<open>learning.py\<close> and the memory tables of \<^verbatim>\<open>store.py\<close>): agent memory as a machine of learning, reinforcement with
    rows read earlier, retirement and supersession.
  \<^item> \<open>Cockpit\<close> (\<^verbatim>\<open>cockpit_worker.py\<close>, \<^verbatim>\<open>worker_status.py\<close>, \<^verbatim>\<open>release_gate_remediation.py\<close>), \<open>Worker\<close> (\<^verbatim>\<open>worker.py\<close>): the two
    transactions of \<^verbatim>\<open>run_once\<close>, \<open>claim_job\<close> and \<open>finish_job\<close>, composed of the operations above; \<open>Worker_Props\<close>: what they promise.
    The locale \<open>bookkeeping_frame\<close> extends \<open>emission_frame\<close> to the tables a worker writes besides the job.
  \<^item> \<open>Remediation_Loop\<close> (\<^verbatim>\<open>pm_remediation.py\<close>, \<^verbatim>\<open>remediation_executor.py\<close>, \<^verbatim>\<open>remediation_recovery.py\<close>, \<^verbatim>\<open>finding_fingerprint.py\<close>,
    \<^verbatim>\<open>qa_retest.py\<close>, \<^verbatim>\<open>orchestration_boundary.py\<close>, \<^verbatim>\<open>internal_defect.py\<close>): findings of a failed gate, the work that corrects them, the
    retest of its candidate and the loop over cycles; \<open>Remediation_Loop_Props\<close>: the loop ends and reports what is so.
  \<^item> \<open>Schedule\<close> (\<^verbatim>\<open>schedule.py\<close>, \<^verbatim>\<open>budget.py\<close>): schedules of projects, the windows and triggers of an evaluation, with the dates of
    \<^verbatim>\<open>datetime\<close> computed from seconds; the account of token budgets.
  \<^item> \<open>Failure_Actions\<close> (\<^verbatim>\<open>pm_delivery_remediation.py\<close>, \<^verbatim>\<open>release_failure_actions.py\<close>, \<^verbatim>\<open>release_preparation_actions.py\<close>): what becomes of a
    release that cannot be prepared, packaged or published; \<open>Failure_Props\<close>: the run gets an action that carries it on.

  \<^bold>\<open>What the lemmas show.\<close> Invariants by rule induction over step relations: one unreleased lease per held job, isolation
  of projects, bounded dispatch, one open decision per target, numbered work items, immutable assessments, safe memories, no lease on a finished job.
  Functional contracts, errors included, of leasing, recovery, failure, success, reclaim, eligibility, invalidation,
  locks, emission, closing, acceptance, the QA gate and the hand over to assurance. Safety of composed behaviour: no dispatch behind an invalidated
  delivery, no second delivery behind a failed row, events only with evidence, a run closed once, results only from validated verdicts. Round trips of versions,
  replayed answers and gates; termination of the version search and of the remediation loop; bounds on the retries of a job over any run of the store.

  \<^bold>\<open>Bounds and fuel.\<close> Loops over rows are structural recursions and the search for a release version has a
  termination proof (the published versions above the current one become fewer), so they need no fuel. The
  \<^verbatim>\<open>while True\<close> of \<open>qa_loop\<close> takes fuel; \<open>remediation_loop_ends\<close> shows that \<open>max_cycles + 1\<close> rounds are enough. \<open>execute_qa_retest\<close>
  may call itself through the handling of its own defects, without end in the source; its \<open>depth\<close> is the recursion limit of the interpreter, at which \<^verbatim>\<open>RecursionError\<close> is raised. The two
  functions that call each other, \<^verbatim>\<open>emit_projectos_event\<close> and \<^verbatim>\<open>maybe_close_run_after_event\<close>, recurse once at most: the inner emission is
  never a publication, and \<open>Events.emit_is_inner\<close> shows that the unfolding loses nothing. The budgets that occur (ten outbox
  attempts, 8000 characters of evidence, 128 characters of an identifier) are the constants of the source.

  \<^bold>\<open>Parameters.\<close> Files and programs outside the database: the delivery contract of a repository and the project
  registry (\<open>policy_files\<close>), the JSON decoder (\<open>decoder\<close>), the \<^verbatim>\<open>projectctl\<close> program that opens a defect (\<open>defect_fn\<close>), the declared version of a repository, the outcome of a Slack call (\<open>slack_world\<close>),
  the hash of a memory key, git, worktrees and \<^verbatim>\<open>projectctl\<close> as the worker sees them (\<open>worker_world\<close>), and what the execution of a job left (\<open>execution\<close>, any value).
  The remediation loop takes git, the hash, the texts of exceptions, the registry and \<^verbatim>\<open>WorkerService.run_once\<close> from \<open>remediation_world\<close>; the
  injected workers are any operations, which write no remediation work where termination is claimed.
  The scheduler takes the registry, its validation and the time zone database from \<open>schedule_world\<close>.
  \<open>repo_world\<close> is a repository on disk, as the handling of a missing delivery contract reads and writes it.
  Confidences, a REAL column, are kept in millionths, and times as seconds or microseconds, also inside JSON payloads, where the
  source writes ISO texts; \<^verbatim>\<open>casefold\<close> is the lower case of ASCII.

  \<^bold>\<open>Not modelled.\<close> Slack, HTTP and command line front ends, formatting of reports and messages, and calls of language models
  (text and network); the execution of a job by an agent, packaging, git and GitHub (subprocesses); the planner and the recovery
  commands, which drive those; report snapshots and usage records of \<^verbatim>\<open>store.py\<close>; the thread pool, signals and process supervision.
  The templates of delivery projects are a separate program. Ties of \<^verbatim>\<open>ORDER BY\<close> are broken by insertion order, which SQLite does not
  promise; concurrency is interleaving of whole transactions, which the write lock of SQLite gives.
\<close>

end
